(* ===== verification/Prelude.thy ===== *)
theory Prelude
  imports Main "HOL-Library.Word" "HOL-Library.Sublist"
begin

text \<open>
  What every component theory shares: the types that stand for Rust's standard library
  types, the string and UTF-8 operations of \<open>std::str\<close> the source calls, the
  short-circuiting \<open>?\<close> operator on results, and the generic lemmas on lists the component
  proofs use.

  \<^item> A Rust \<open>String\<close>, \<open>&str\<close> or byte slice is a \<open>string\<close>: the list of its bytes (in UTF-8 where
    Rust's type guarantees it). Lengths and indices are therefore byte lengths and byte
    indices, as in Rust.
  \<^item> A \<open>Duration\<close> is its number of nanoseconds, an \<open>Instant\<close> or \<open>SystemTime\<close> the nanoseconds
    since a fixed origin. \<open>duration_since\<close> of instants saturates at zero, as \<open>-\<close> on
    \<open>nat\<close> does.
  \<^item> \<open>Result<T, E>\<close> is \<open>'e + 't\<close>, with \<open>Inl\<close> for the error.
\<close>

type_synonym byte = char
type_synonym bytes = string
type_synonym duration = nat
type_synonym instant = nat
type_synonym u16 = "16 word"
type_synonym u32 = "32 word"
type_synonym uuid = string

named_theorems model_defs \<open>definitions a component proof unfolds\<close>

subsection \<open>Results and the \<open>?\<close> operator\<close>

definition and_then :: "'e + 'a \<Rightarrow> ('a \<Rightarrow> 'e + 'b) \<Rightarrow> 'e + 'b" where
  "and_then r f = (case r of Inl e \<Rightarrow> Inl e | Inr x \<Rightarrow> f x)"

definition map_err :: "('e \<Rightarrow> 'f) \<Rightarrow> 'e + 'a \<Rightarrow> 'f + 'a" where
  "map_err f r = (case r of Inl e \<Rightarrow> Inl (f e) | Inr x \<Rightarrow> Inr x)"

definition ok_or :: "'a option \<Rightarrow> 'e \<Rightarrow> 'e + 'a" where
  "ok_or x e = (case x of None \<Rightarrow> Inl e | Some y \<Rightarrow> Inr y)"

definition ensure :: "bool \<Rightarrow> 'e \<Rightarrow> 'e + unit" where
  "ensure b e = (if b then Inr () else Inl e)"

definition or_else :: "'a option \<Rightarrow> 'a option \<Rightarrow> 'a option" where
  "or_else x y = (case x of None \<Rightarrow> y | Some v \<Rightarrow> Some v)"

definition unwrap_or :: "'a option \<Rightarrow> 'a \<Rightarrow> 'a" where
  "unwrap_or x d = (case x of None \<Rightarrow> d | Some v \<Rightarrow> v)"

lemma and_then_simps [simp]:
  "and_then (Inl e) f = Inl e" "and_then (Inr x) f = f x"
  by (simp_all add: and_then_def)

lemma and_then_Inr_iff: "and_then r f = Inr y \<longleftrightarrow> (\<exists>x. r = Inr x \<and> f x = Inr y)"
  by (cases r) simp_all

lemma and_then_Inl_iff: "and_then r f = Inl e \<longleftrightarrow> r = Inl e \<or> (\<exists>x. r = Inr x \<and> f x = Inl e)"
  by (cases r) simp_all

lemma map_err_simps [simp]:
  "map_err g (Inl e) = Inl (g e)" "map_err g (Inr x) = Inr x"
  by (simp_all add: map_err_def)

lemma map_err_Inr_iff [simp]: "map_err g r = Inr y \<longleftrightarrow> r = Inr y"
  by (cases r) simp_all

lemma ok_or_simps [simp]: "ok_or None e = Inl e" "ok_or (Some x) e = Inr x"
  by (simp_all add: ok_or_def)

lemma ok_or_Inr_iff [simp]: "ok_or x e = Inr y \<longleftrightarrow> x = Some y"
  by (cases x) simp_all

lemma ensure_simps [simp]: "ensure True e = Inr ()" "ensure False e = Inl e"
  by (simp_all add: ensure_def)

lemma ensure_Inr_iff [simp]: "ensure b e = Inr u \<longleftrightarrow> b"
  by (simp add: ensure_def)

lemma or_else_simps [simp]: "or_else None y = y" "or_else (Some v) y = Some v" "or_else x None = x"
  by (simp_all add: or_else_def split: option.splits)

lemma unwrap_or_simps [simp]: "unwrap_or None d = d" "unwrap_or (Some v) d = v"
  by (simp_all add: unwrap_or_def)

lemmas result_iffs = and_then_Inr_iff and_then_Inl_iff

subsection \<open>Time\<close>

definition nanos_per_sec :: nat where
  "nanos_per_sec = 1000000000"

definition from_secs :: "nat \<Rightarrow> duration" where
  "from_secs s = s * nanos_per_sec"

definition from_millis :: "nat \<Rightarrow> duration" where
  "from_millis m = m * 1000000"

lemma nanos_per_sec_pos [simp]: "0 < nanos_per_sec"
  by (simp add: nanos_per_sec_def)

lemma from_secs_mono [simp]: "from_secs a \<le> from_secs b \<longleftrightarrow> a \<le> b"
  by (simp add: from_secs_def)

lemma from_secs_less [simp]: "from_secs a < from_secs b \<longleftrightarrow> a < b"
  by (simp add: from_secs_def)

lemma from_secs_pos [simp]: "0 < from_secs s \<longleftrightarrow> 0 < s"
  by (simp add: from_secs_def)

subsection \<open>Byte strings\<close>

text \<open>\<open>starts_with\<close>, \<open>strip_prefix\<close> and \<open>contains\<close> of \<open>str\<close> and of byte slices.\<close>

fun strip_prefix :: "string \<Rightarrow> string \<Rightarrow> string option" where
  "strip_prefix [] s = Some s"
| "strip_prefix (p # ps) [] = None"
| "strip_prefix (p # ps) (c # s) = (if p = c then strip_prefix ps s else None)"

definition starts_with :: "string \<Rightarrow> string \<Rightarrow> bool" where
  "starts_with s p = (strip_prefix p s \<noteq> None)"

fun contains :: "string \<Rightarrow> string \<Rightarrow> bool" where
  "contains [] p = (p = [])"
| "contains (c # s) p = (starts_with (c # s) p \<or> contains s p)"

lemma strip_prefix_append [simp]: "strip_prefix p (p @ s) = Some s"
  by (induction p) auto

lemma strip_prefix_Some_iff: "strip_prefix p s = Some r \<longleftrightarrow> s = p @ r"
  by (induction p s rule: strip_prefix.induct) auto

lemma starts_with_prefix: "starts_with s p \<longleftrightarrow> prefix p s"
  by (auto simp: starts_with_def strip_prefix_Some_iff prefix_def)

lemma contains_sublist: "contains s p \<longleftrightarrow> sublist p s"
  by (induction s) (auto simp: starts_with_prefix sublist_Cons_right)

text \<open>\<open>to_ascii_uppercase\<close> and \<open>to_ascii_lowercase\<close> change ASCII letters only.\<close>

definition ascii_upper :: "char \<Rightarrow> char" where
  "ascii_upper c = (if 97 \<le> (of_char c :: nat) \<and> (of_char c :: nat) \<le> 122
                    then char_of ((of_char c :: nat) - 32) else c)"

definition ascii_lower :: "char \<Rightarrow> char" where
  "ascii_lower c = (if 65 \<le> (of_char c :: nat) \<and> (of_char c :: nat) \<le> 90
                    then char_of ((of_char c :: nat) + 32) else c)"

definition to_ascii_uppercase :: "string \<Rightarrow> string" where
  "to_ascii_uppercase s = map ascii_upper s"

definition to_ascii_lowercase :: "string \<Rightarrow> string" where
  "to_ascii_lowercase s = map ascii_lower s"

definition between :: "nat \<Rightarrow> nat \<Rightarrow> char \<Rightarrow> bool" where
  "between lo hi c = (lo \<le> (of_char c :: nat) \<and> (of_char c :: nat) \<le> hi)"

text \<open>
  \<open>str::trim\<close> drops characters with the Unicode property White_Space. On the UTF-8
  bytes these are the nine shapes below; \<open>ws_front\<close> takes one such character off the front,
  and, since no encoding of one of them is a suffix of another's, \<open>ws_back\<close> takes one
  off the front of a reversed string.
\<close>

fun ws_front :: "string \<Rightarrow> string option" where
  "ws_front s = (case s of
      [] \<Rightarrow> None
    | a # r \<Rightarrow>
        if between 9 13 a \<or> a = CHR 0x20 then Some r
        else (case r of
            [] \<Rightarrow> None
          | b # r2 \<Rightarrow>
              if a = CHR 0xC2 \<and> (b = CHR 0x85 \<or> b = CHR 0xA0) then Some r2
              else (case r2 of
                  [] \<Rightarrow> None
                | c # r3 \<Rightarrow>
                    if (a = CHR 0xE1 \<and> b = CHR 0x9A \<and> c = CHR 0x80)
                     \<or> (a = CHR 0xE2 \<and> b = CHR 0x80
                        \<and> (between 128 138 c \<or> between 168 169 c \<or> c = CHR 0xAF))
                     \<or> (a = CHR 0xE2 \<and> b = CHR 0x81 \<and> c = CHR 0x9F)
                     \<or> (a = CHR 0xE3 \<and> b = CHR 0x80 \<and> c = CHR 0x80)
                    then Some r3 else None)))"

fun ws_back :: "string \<Rightarrow> string option" where
  "ws_back s = (case s of
      [] \<Rightarrow> None
    | a # r \<Rightarrow>
        if between 9 13 a \<or> a = CHR 0x20 then Some r
        else (case r of
            [] \<Rightarrow> None
          | b # r2 \<Rightarrow>
              if b = CHR 0xC2 \<and> (a = CHR 0x85 \<or> a = CHR 0xA0) then Some r2
              else (case r2 of
                  [] \<Rightarrow> None
                | c # r3 \<Rightarrow>
                    if (c = CHR 0xE1 \<and> b = CHR 0x9A \<and> a = CHR 0x80)
                     \<or> (c = CHR 0xE2 \<and> b = CHR 0x80
                        \<and> (between 128 138 a \<or> between 168 169 a \<or> a = CHR 0xAF))
                     \<or> (c = CHR 0xE2 \<and> b = CHR 0x81 \<and> a = CHR 0x9F)
                     \<or> (c = CHR 0xE3 \<and> b = CHR 0x80 \<and> a = CHR 0x80)
                    then Some r3 else None)))"

lemma ws_front_shorter: "ws_front s = Some r \<Longrightarrow> length r < length s"
  by (auto split: list.splits if_splits)

lemma ws_back_shorter: "ws_back s = Some r \<Longrightarrow> length r < length s"
  by (auto split: list.splits if_splits)

declare ws_front.simps [simp del] ws_back.simps [simp del]

function strip_front :: "string \<Rightarrow> string" where
  "strip_front s = (case ws_front s of None \<Rightarrow> s | Some r \<Rightarrow> strip_front r)"
  by pat_completeness auto
termination
  by (relation "measure length") (auto dest: ws_front_shorter)

function strip_back :: "string \<Rightarrow> string" where
  "strip_back s = (case ws_back s of None \<Rightarrow> s | Some r \<Rightarrow> strip_back r)"
  by pat_completeness auto
termination
  by (relation "measure length") (auto dest: ws_back_shorter)

declare strip_front.simps [simp del] strip_back.simps [simp del]

definition trim :: "string \<Rightarrow> string" where
  "trim s = rev (strip_back (rev (strip_front s)))"

text \<open>\<open>s.trim().is_empty()\<close>, the blank test of the gateway.\<close>

definition is_blank :: "string \<Rightarrow> bool" where
  "is_blank s = (trim s = [])"

lemma strip_front_length: "length (strip_front s) \<le> length s"
proof (induction s rule: strip_front.induct)
  case (1 s)
  show ?case
  proof (cases "ws_front s")
    case None
    then show ?thesis by (simp add: strip_front.simps)
  next
    case (Some r)
    with 1 have "length (strip_front r) \<le> length r" by simp
    with Some ws_front_shorter [OF Some] show ?thesis by (simp add: strip_front.simps [of s])
  qed
qed

lemma strip_back_length: "length (strip_back s) \<le> length s"
proof (induction s rule: strip_back.induct)
  case (1 s)
  show ?case
  proof (cases "ws_back s")
    case None
    then show ?thesis by (simp add: strip_back.simps)
  next
    case (Some r)
    with 1 have "length (strip_back r) \<le> length r" by simp
    with Some ws_back_shorter [OF Some] show ?thesis by (simp add: strip_back.simps [of s])
  qed
qed

lemma trim_length: "length (trim s) \<le> length s"
  using strip_front_length [of s] strip_back_length [of "rev (strip_front s)"]
  by (simp add: trim_def)

subsection \<open>UTF-8\<close>

text \<open>
  \<open>str::from_utf8\<close>: \<open>utf8_first\<close> reads the first character of a non-empty byte string and
  gives its width, or the \<open>error_len\<close> of Rust's \<open>Utf8Error\<close> (\<open>None\<close> when the input ends inside
  a character).
\<close>

definition is_cont :: "char \<Rightarrow> bool" where
  "is_cont c = between 128 191 c"

definition utf8_second_ok :: "char \<Rightarrow> char \<Rightarrow> bool" where
  "utf8_second_ok a b =
     (if a = CHR 0xE0 then between 160 191 b
      else if a = CHR 0xED then between 128 159 b
      else if a = CHR 0xF0 then between 144 191 b
      else if a = CHR 0xF4 then between 128 143 b
      else is_cont b)"

definition utf8_width :: "char \<Rightarrow> nat" where
  "utf8_width a =
     (if between 0 127 a then 1
      else if between 194 223 a then 2
      else if between 224 239 a then 3
      else if between 240 244 a then 4
      else 0)"

fun utf8_first :: "string \<Rightarrow> (nat option) + nat" where
  "utf8_first [] = Inl None"
| "utf8_first (a # r) =
     (if utf8_width a = 0 then Inl (Some 1)
      else if utf8_width a = 1 then Inr 1
      else (case r of
          [] \<Rightarrow> Inl None
        | b # r2 \<Rightarrow>
            if \<not> utf8_second_ok a b then Inl (Some 1)
            else if utf8_width a = 2 then Inr 2
            else (case r2 of
                [] \<Rightarrow> Inl None
              | c # r3 \<Rightarrow>
                  if \<not> is_cont c then Inl (Some 2)
                  else if utf8_width a = 3 then Inr 3
                  else (case r3 of
                      [] \<Rightarrow> Inl None
                    | d # _ \<Rightarrow> if is_cont d then Inr 4 else Inl (Some 3)))))"

record utf8_error =
  valid_up_to :: nat
  error_len :: "nat option"

lemma utf8_first_pos: "utf8_first s = Inr n \<Longrightarrow> 0 < n \<and> n \<le> length s"
  by (cases s) (auto split: list.splits if_splits)

function utf8_check :: "nat \<Rightarrow> string \<Rightarrow> utf8_error option" where
  "utf8_check at s =
     (if s = [] then None
      else case utf8_first s of
          Inl e \<Rightarrow> Some \<lparr>valid_up_to = at, error_len = e\<rparr>
        | Inr n \<Rightarrow> utf8_check (at + n) (drop n s))"
  by pat_completeness auto
termination
  by (relation "measure (\<lambda>(at, s). length s)") (auto dest: utf8_first_pos)

declare utf8_check.simps [simp del]

definition from_utf8 :: "bytes \<Rightarrow> utf8_error + string" where
  "from_utf8 s = (case utf8_check 0 s of None \<Rightarrow> Inr s | Some e \<Rightarrow> Inl e)"

lemma from_utf8_same: "from_utf8 s = Inr t \<Longrightarrow> t = s"
  by (simp add: from_utf8_def split: option.splits)

text \<open>
  \<open>char_indices().nth(max)\<close> counts characters: in valid UTF-8 every byte that is not a
  continuation byte starts one.
\<close>

fun take_chars :: "nat \<Rightarrow> string \<Rightarrow> string" where
  "take_chars n [] = []"
| "take_chars n (c # s) =
     (if is_cont c then c # take_chars n s
      else (case n of 0 \<Rightarrow> [] | Suc m \<Rightarrow> c # take_chars m s))"

definition char_count :: "string \<Rightarrow> nat" where
  "char_count s = length (filter (\<lambda>c. \<not> is_cont c) s)"

lemma char_count_simps [simp]:
  "char_count [] = 0"
  "char_count (c # s) = (if is_cont c then char_count s else Suc (char_count s))"
  "char_count (s @ t) = char_count s + char_count t"
  by (simp_all add: char_count_def)

lemma take_chars_prefix: "prefix (take_chars n s) s"
  by (induction n s rule: take_chars.induct) (auto split: nat.splits)

lemma take_chars_count: "char_count (take_chars n s) = min n (char_count s)"
  by (induction n s rule: take_chars.induct) (auto split: nat.splits)

lemma take_chars_id: "char_count s \<le> n \<Longrightarrow> take_chars n s = s"
  by (induction n s rule: take_chars.induct) (auto split: nat.splits if_splits)

subsection \<open>Decimal numbers\<close>

definition is_digit :: "char \<Rightarrow> bool" where
  "is_digit c = between 48 57 c"

definition digit_val :: "char \<Rightarrow> nat" where
  "digit_val c = (of_char c :: nat) - 48"

fun digits_val :: "nat \<Rightarrow> string \<Rightarrow> nat option" where
  "digits_val acc [] = Some acc"
| "digits_val acc (c # s) = (if is_digit c then digits_val (10 * acc + digit_val c) s else None)"

text \<open>\<open>u64::from_str\<close>: an optional plus sign, at least one digit, no overflow.\<close>

definition parse_u64 :: "string \<Rightarrow> nat option" where
  "parse_u64 s =
     (let ds = (case s of [] \<Rightarrow> s | c # r \<Rightarrow> if c = CHR ''+'' then r else s)
      in if ds = [] then None
         else case digits_val 0 ds of
             None \<Rightarrow> None
           | Some n \<Rightarrow> if n < 2 ^ 64 then Some n else None)"

text \<open>\<open>Display\<close> of an unsigned integer.\<close>

fun digit_char :: "nat \<Rightarrow> char" where
  "digit_char n = char_of (48 + n)"

fun show_nat :: "nat \<Rightarrow> string" where
  "show_nat n = (if n < 10 then [digit_char n] else show_nat (n div 10) @ [digit_char (n mod 10)])"

declare show_nat.simps [simp del]

subsection \<open>Lists\<close>

lemma take_drop_len: "n \<le> length s \<Longrightarrow> length (take n s) + length (drop n s) = length s"
  by simp

lemma find_Some_set: "List.find P xs = Some x \<Longrightarrow> x \<in> set xs \<and> P x"
  by (auto simp: find_Some_iff)

lemma find_distinct_map:
  assumes "distinct (map f xs)" and "x \<in> set xs"
  shows "List.find (\<lambda>y. f y = f x) xs = Some x"
  using assms by (induction xs) (auto simp: image_iff)

end
