(* ===== verification/Catalog.thy ===== *)
theory Catalog
  imports Prelude
begin

text \<open>
  The gateway's wire contract: the tiers and profiles of
  \<^verbatim>\<open>crates/gateway-api/src/access.rs\<close> and the operation catalog with its capability
  matrix of \<^verbatim>\<open>crates/gateway-api/src/ops.rs\<close>. The catalog is a closed enumeration, so the
  matrix properties are decided over all its operations.
\<close>

subsection \<open>Tiers and profiles\<close>

datatype tier = Bot | Read | Write

definition all_tiers :: "tier list" where
  "all_tiers = [Bot, Read, Write]"

fun prefix_of :: "tier \<Rightarrow> string" where
  "prefix_of Bot = ''/bot/v1''"
| "prefix_of Read = ''/alpaca-read/v1''"
| "prefix_of Write = ''/alpaca-write/v1''"

fun tier_as_str :: "tier \<Rightarrow> string" where
  "tier_as_str Bot = ''bot''"
| "tier_as_str Read = ''read''"
| "tier_as_str Write = ''write''"

definition is_human :: "tier \<Rightarrow> bool" where
  "is_human t = (case t of Read \<Rightarrow> True | Write \<Rightarrow> True | Bot \<Rightarrow> False)"

datatype profile = T0 | S01

fun deployment :: "profile \<Rightarrow> string" where
  "deployment T0 = ''t0-alpaca''"
| "deployment S01 = ''s01-alpaca''"

subsection \<open>The operation catalog\<close>

datatype http_method = Get | Post

datatype operation =
    AccountFunds
  | AccountWithdrawableCash
  | AccountInventory
  | AccountPositionMark
  | ActivitiesList
  | MarketIsOpen
  | MarketSession
  | MarketSessionStatus
  | MarketLatestTrade
  | MarketLatestQuote
  | MarketLatestOvernightQuote
  | AssetsGet
  | AssetsCounterTradeShares
  | OrdersPlaceMarket
  | OrdersPlaceLimit
  | OrdersPlaceExactLimit
  | OrdersGet
  | OrdersFind
  | OrdersRecover
  | OrdersCancel
  | ConversionsSubmit
  | ConversionsGet
  | ConversionsFind
  | JournalsCreate
  | WalletWithdraw
  | WalletTransfer
  | WalletTransfers
  | WalletFindDeposit
  | WalletDepositAddress
  | WalletWhitelist
  | WalletWhitelistCreate
  | WalletWhitelistRemove
  | WalletWhitelistPatchTravelRule
  | TokenizationMint
  | TokenizationRequests
  | TokenizationRequest
  | TokenizationFindMint
  | TokenizationFindRedemption
  | IssuerMintCallback
  | IssuerRedeem
  | IssuerRequest
  | CorporateActionsStream

text \<open>\<open>Operation::ALL\<close>.\<close>

definition all_operations :: "operation list" where
  "all_operations =
    [AccountFunds,
     AccountWithdrawableCash,
     AccountInventory,
     AccountPositionMark,
     ActivitiesList,
     MarketIsOpen,
     MarketSession,
     MarketSessionStatus,
     MarketLatestTrade,
     MarketLatestQuote,
     MarketLatestOvernightQuote,
     AssetsGet,
     AssetsCounterTradeShares,
     OrdersPlaceMarket,
     OrdersPlaceLimit,
     OrdersPlaceExactLimit,
     OrdersGet,
     OrdersFind,
     OrdersRecover,
     OrdersCancel,
     ConversionsSubmit,
     ConversionsGet,
     ConversionsFind,
     JournalsCreate,
     WalletWithdraw,
     WalletTransfer,
     WalletTransfers,
     WalletFindDeposit,
     WalletDepositAddress,
     WalletWhitelist,
     WalletWhitelistCreate,
     WalletWhitelistRemove,
     WalletWhitelistPatchTravelRule,
     TokenizationMint,
     TokenizationRequests,
     TokenizationRequest,
     TokenizationFindMint,
     TokenizationFindRedemption,
     IssuerMintCallback,
     IssuerRedeem,
     IssuerRequest,
     CorporateActionsStream]"

primrec name :: "operation \<Rightarrow> string" where
  "name AccountFunds = ''account.funds''"
| "name AccountWithdrawableCash = ''account.withdrawable_cash''"
| "name AccountInventory = ''account.inventory''"
| "name AccountPositionMark = ''account.position_mark''"
| "name ActivitiesList = ''activities.list''"
| "name MarketIsOpen = ''market.is_open''"
| "name MarketSession = ''market.session''"
| "name MarketSessionStatus = ''market.session_status''"
| "name MarketLatestTrade = ''market.latest_trade''"
| "name MarketLatestQuote = ''market.latest_quote''"
| "name MarketLatestOvernightQuote = ''market.latest_overnight_quote''"
| "name AssetsGet = ''assets.get''"
| "name AssetsCounterTradeShares = ''assets.counter_trade_shares''"
| "name OrdersPlaceMarket = ''orders.place_market''"
| "name OrdersPlaceLimit = ''orders.place_limit''"
| "name OrdersPlaceExactLimit = ''orders.place_exact_limit''"
| "name OrdersGet = ''orders.get''"
| "name OrdersFind = ''orders.find''"
| "name OrdersRecover = ''orders.recover''"
| "name OrdersCancel = ''orders.cancel''"
| "name ConversionsSubmit = ''conversions.submit''"
| "name ConversionsGet = ''conversions.get''"
| "name ConversionsFind = ''conversions.find''"
| "name JournalsCreate = ''journals.create''"
| "name WalletWithdraw = ''wallet.withdraw''"
| "name WalletTransfer = ''wallet.transfer''"
| "name WalletTransfers = ''wallet.transfers''"
| "name WalletFindDeposit = ''wallet.find_deposit''"
| "name WalletDepositAddress = ''wallet.deposit_address''"
| "name WalletWhitelist = ''wallet.whitelist''"
| "name WalletWhitelistCreate = ''wallet.whitelist_create''"
| "name WalletWhitelistRemove = ''wallet.whitelist_remove''"
| "name WalletWhitelistPatchTravelRule = ''wallet.whitelist_patch_travel_rule''"
| "name TokenizationMint = ''tokenization.mint''"
| "name TokenizationRequests = ''tokenization.requests''"
| "name TokenizationRequest = ''tokenization.request''"
| "name TokenizationFindMint = ''tokenization.find_mint''"
| "name TokenizationFindRedemption = ''tokenization.find_redemption''"
| "name IssuerMintCallback = ''issuer.mint_callback''"
| "name IssuerRedeem = ''issuer.redeem''"
| "name IssuerRequest = ''issuer.request''"
| "name CorporateActionsStream = ''corporate_actions.stream''"

primrec path :: "operation \<Rightarrow> string" where
  "path AccountFunds = ''/account/funds''"
| "path AccountWithdrawableCash = ''/account/withdrawable-cash''"
| "path AccountInventory = ''/account/inventory''"
| "path AccountPositionMark = ''/account/positions/{symbol}/mark''"
| "path ActivitiesList = ''/activities''"
| "path MarketIsOpen = ''/market/open''"
| "path MarketSession = ''/market/session''"
| "path MarketSessionStatus = ''/market/session-status''"
| "path MarketLatestTrade = ''/market/stocks/{symbol}/latest-trade''"
| "path MarketLatestQuote = ''/market/stocks/{symbol}/latest-quote''"
| "path MarketLatestOvernightQuote = ''/market/stocks/{symbol}/latest-overnight-quote''"
| "path AssetsGet = ''/assets/{symbol}''"
| "path AssetsCounterTradeShares = ''/assets/{symbol}/counter-trade-shares''"
| "path OrdersPlaceMarket = ''/orders/market''"
| "path OrdersPlaceLimit = ''/orders/limit''"
| "path OrdersPlaceExactLimit = ''/orders/exact-limit''"
| "path OrdersGet = ''/orders/{order_id}''"
| "path OrdersFind = ''/orders/by-client-order-id/{client_order_id}''"
| "path OrdersRecover = ''/orders/recover''"
| "path OrdersCancel = ''/orders/{order_id}/cancel''"
| "path ConversionsSubmit = ''/conversions''"
| "path ConversionsGet = ''/conversions/{order_id}''"
| "path ConversionsFind = ''/conversions/by-client-order-id/{client_order_id}''"
| "path JournalsCreate = ''/journals''"
| "path WalletWithdraw = ''/wallet/withdrawals''"
| "path WalletTransfer = ''/wallet/transfers/{transfer_id}''"
| "path WalletTransfers = ''/wallet/transfers''"
| "path WalletFindDeposit = ''/wallet/deposits/by-tx/{tx_hash}''"
| "path WalletDepositAddress = ''/wallet/deposit-address''"
| "path WalletWhitelist = ''/wallet/whitelist''"
| "path WalletWhitelistCreate = ''/wallet/whitelist/entries''"
| "path WalletWhitelistRemove = ''/wallet/whitelist/{address}/remove''"
| "path WalletWhitelistPatchTravelRule = ''/wallet/whitelist/travel-rule''"
| "path TokenizationMint = ''/tokenization/mints''"
| "path TokenizationRequests = ''/tokenization/requests''"
| "path TokenizationRequest = ''/tokenization/requests/{tokenization_request_id}''"
| "path TokenizationFindMint = ''/tokenization/mints/by-issuer-request-id/{issuer_request_id}''"
| "path TokenizationFindRedemption = ''/tokenization/redemptions/by-tx/{tx_hash}''"
| "path IssuerMintCallback = ''/issuer/mint-callbacks''"
| "path IssuerRedeem = ''/issuer/redemptions''"
| "path IssuerRequest = ''/issuer/requests/{tokenization_request_id}''"
| "path CorporateActionsStream = ''/corporate-actions/stream''"

text \<open>\<open>Operation::mutates\<close>: the \<open>matches!\<close> list.\<close>

definition mutates :: "operation \<Rightarrow> bool" where
  "mutates op = (op \<in> set
     [OrdersPlaceMarket, OrdersPlaceLimit, OrdersPlaceExactLimit, OrdersCancel,
      ConversionsSubmit, JournalsCreate, WalletWithdraw, WalletWhitelistCreate,
      WalletWhitelistRemove, WalletWhitelistPatchTravelRule, TokenizationMint,
      IssuerMintCallback, IssuerRedeem])"

definition uses_body :: "operation \<Rightarrow> bool" where
  "uses_body op = (mutates op \<or> op = OrdersRecover \<or> op = AssetsCounterTradeShares)"

definition http_method_of :: "operation \<Rightarrow> http_method" where
  "http_method_of op = (if uses_body op then Post else Get)"

definition resendable_with_same_key :: "operation \<Rightarrow> bool" where
  "resendable_with_same_key op = (op \<in> set
     [OrdersPlaceMarket, OrdersPlaceLimit, OrdersPlaceExactLimit, OrdersCancel,
      WalletWhitelistRemove, WalletWhitelistPatchTravelRule, TokenizationMint])"

definition SINGLE_CALL :: duration where "SINGLE_CALL = from_secs 45"
definition ORDER_PLACEMENT :: duration where "ORDER_PLACEMENT = from_secs 125"
definition MULTI_CALL :: duration where "MULTI_CALL = from_secs 90"
definition ACTIVITY_PAGES :: duration where "ACTIVITY_PAGES = from_secs 120"
definition WITHDRAWAL_ANSWER :: duration where "WITHDRAWAL_ANSWER = from_secs 60"
definition ISSUER_CALL :: duration where "ISSUER_CALL = from_secs 270"

lemmas deadline_consts = SINGLE_CALL_def ORDER_PLACEMENT_def MULTI_CALL_def ACTIVITY_PAGES_def
  WITHDRAWAL_ANSWER_def ISSUER_CALL_def

definition deadline_of :: "operation \<Rightarrow> duration" where
  "deadline_of op =
    (if op \<in> set [OrdersPlaceMarket, OrdersPlaceLimit, OrdersPlaceExactLimit]
     then ORDER_PLACEMENT
     else if op \<in> set [OrdersRecover, WalletWhitelistRemove, WalletWhitelistPatchTravelRule]
     then MULTI_CALL
     else if op = ActivitiesList then ACTIVITY_PAGES
     else if op = WalletWithdraw then WITHDRAWAL_ANSWER
     else if op \<in> set [IssuerMintCallback, IssuerRedeem, IssuerRequest] then ISSUER_CALL
     else SINGLE_CALL)"

definition BOT_READ_WRITE :: "tier list" where "BOT_READ_WRITE = [Bot, Read, Write]"
definition READ_WRITE :: "tier list" where "READ_WRITE = [Read, Write]"
definition BOT_WRITE :: "tier list" where "BOT_WRITE = [Bot, Write]"
definition BOT_ONLY :: "tier list" where "BOT_ONLY = [Bot]"
definition WRITE_ONLY :: "tier list" where "WRITE_ONLY = [Write]"
definition NO_TIER :: "tier list" where "NO_TIER = []"

lemmas tier_lists = BOT_READ_WRITE_def READ_WRITE_def BOT_WRITE_def BOT_ONLY_def WRITE_ONLY_def
  NO_TIER_def

definition t0_tiers :: "operation \<Rightarrow> tier list" where
  "t0_tiers op =
    (if op \<in> set [AccountFunds, AccountWithdrawableCash, AccountInventory, AccountPositionMark,
          ActivitiesList, MarketIsOpen, MarketSession, MarketSessionStatus, MarketLatestTrade,
          MarketLatestQuote, AssetsGet, OrdersGet, OrdersFind, ConversionsGet, ConversionsFind,
          WalletTransfer, WalletTransfers, WalletFindDeposit, WalletDepositAddress,
          TokenizationRequests, TokenizationRequest, TokenizationFindMint,
          TokenizationFindRedemption]
     then BOT_READ_WRITE
     else if op \<in> set [MarketLatestOvernightQuote, WalletWhitelist] then READ_WRITE
     else if op \<in> set [OrdersPlaceMarket, OrdersCancel, ConversionsSubmit, WalletWithdraw,
          TokenizationMint]
     then BOT_WRITE
     else if op \<in> set [AssetsCounterTradeShares, OrdersPlaceLimit, OrdersRecover] then BOT_ONLY
     else if op \<in> set [OrdersPlaceExactLimit, JournalsCreate, WalletWhitelistCreate,
          WalletWhitelistRemove, WalletWhitelistPatchTravelRule]
     then WRITE_ONLY
     else NO_TIER)"

text \<open>The slice pattern \<open>[Tier::Bot, humans @ ..] | humans\<close> drops a leading bot tier.\<close>

fun without_leading_bot :: "tier list \<Rightarrow> tier list" where
  "without_leading_bot (Bot # humans) = humans"
| "without_leading_bot humans = humans"

definition tiers :: "operation \<Rightarrow> profile \<Rightarrow> tier list" where
  "tiers op p = (case p of
      T0 \<Rightarrow> t0_tiers op
    | S01 \<Rightarrow>
        if op = IssuerMintCallback \<or> op = IssuerRedeem \<or> op = CorporateActionsStream
        then BOT_ONLY
        else if op = IssuerRequest then BOT_READ_WRITE
        else without_leading_bot (t0_tiers op))"

definition allows :: "operation \<Rightarrow> profile \<Rightarrow> tier \<Rightarrow> bool" where
  "allows op p t = (t \<in> set (tiers op p))"

definition from_name :: "string \<Rightarrow> operation option" where
  "from_name n = List.find (\<lambda>op. name op = n) all_operations"

subsection \<open>The catalog as an enumeration\<close>

lemma all_operations_complete [simp]: "op \<in> set all_operations"
  by (cases op) (simp_all add: all_operations_def)

instantiation operation :: enum
begin

definition enum_operation :: "operation list" where
  "enum_operation = all_operations"

definition enum_all_operation :: "(operation \<Rightarrow> bool) \<Rightarrow> bool" where
  "enum_all_operation P = list_all P all_operations"

definition enum_ex_operation :: "(operation \<Rightarrow> bool) \<Rightarrow> bool" where
  "enum_ex_operation P = list_ex P all_operations"

instance
proof
  show "UNIV = set (enum_class.enum :: operation list)"
    by (auto simp: enum_operation_def)
  show "distinct (enum_class.enum :: operation list)"
    by (simp add: enum_operation_def all_operations_def)
  show "enum_class.enum_all P = Ball UNIV P" for P :: "operation \<Rightarrow> bool"
    by (auto simp: enum_all_operation_def list_all_iff)
  show "enum_class.enum_ex P = Bex UNIV P" for P :: "operation \<Rightarrow> bool"
    by (auto simp: enum_ex_operation_def list_ex_iff)
qed

end

lemma distinct_all_operations: "distinct all_operations"
  by (simp add: all_operations_def)

lemma distinct_names: "distinct (map name all_operations)"
  by (simp add: all_operations_def)

lemma distinct_paths: "distinct (map path all_operations)"
  by (simp add: all_operations_def)

lemmas matrix_defs = allows_def tiers_def t0_tiers_def tier_lists mutates_def

subsection \<open>Properties of the catalog\<close>

definition issuer_and_stream :: "operation list" where
  "issuer_and_stream = [IssuerMintCallback, IssuerRedeem, IssuerRequest, CorporateActionsStream]"

lemma mutates_write_or_bot: "mutates op \<Longrightarrow> allows op p t \<Longrightarrow> t = Write \<or> t = Bot"
  by (cases op; cases p) (auto simp: matrix_defs)

lemma t0_serves_no_issuer: "allows op T0 t \<Longrightarrow> op \<notin> set issuer_and_stream"
  by (cases op) (auto simp: matrix_defs issuer_and_stream_def)

lemma s01_bot_is_issuer: "allows op S01 Bot \<longleftrightarrow> op \<in> set issuer_and_stream"
  by (cases op) (auto simp: matrix_defs issuer_and_stream_def)

lemma s01_humans_as_t0: "is_human t \<Longrightarrow> allows op S01 t \<longleftrightarrow> allows op T0 t \<or> op = IssuerRequest"
  by (cases op; cases t) (auto simp: matrix_defs is_human_def)

text \<open>
  The capability matrix. In either profile's deployment the read tier is given no mutating
  operation; \<open>t0\<close> serves none of the issuer and stream operations on any tier; the \<open>s01\<close>
  bot tier serves exactly those four; and the \<open>s01\<close> human tiers serve what the \<open>t0\<close> human
  tiers serve, plus \<open>issuer.request\<close>.
\<close>

theorem capability_matrix:
  "(allows op p Read \<longrightarrow> \<not> mutates op)
   \<and> (allows op T0 t \<longrightarrow> op \<notin> set issuer_and_stream)
   \<and> (allows op S01 Bot \<longleftrightarrow> op \<in> set issuer_and_stream)
   \<and> (is_human t \<longrightarrow> (allows op S01 t \<longleftrightarrow> allows op T0 t \<or> op = IssuerRequest))"
  using mutates_write_or_bot t0_serves_no_issuer s01_bot_is_issuer s01_humans_as_t0 by blast

theorem capability_matrix_witness:
  "allows IssuerRequest S01 Read \<and> \<not> mutates IssuerRequest \<and> allows OrdersCancel T0 Write
   \<and> allows OrdersCancel S01 Write \<and> \<not> allows OrdersCancel S01 Bot"
  using capability_matrix [of IssuerRequest S01 Write] capability_matrix [of OrdersCancel T0 Write]
  by (simp add: matrix_defs issuer_and_stream_def is_human_def)

text \<open>
  An operation is read back from config and audit records by its catalog name only:
  \<open>from_name\<close> finds exactly the operation of that name, and no other string names one.
\<close>

theorem from_name_inverts_name: "from_name n = Some op \<longleftrightarrow> name op = n"
proof
  show "from_name n = Some op \<Longrightarrow> name op = n"
    unfolding from_name_def by (drule find_Some_set) simp
  show "name op = n \<Longrightarrow> from_name n = Some op"
    using find_distinct_map [OF distinct_names, of op] by (auto simp: from_name_def)
qed

text \<open>
  A mutation that may be resent under its key is a mutation and a POST, every deadline is
  above zero, and none leaves the gateway less than 30 seconds of the 300 second request timeout
  the deployment runs under.
\<close>

theorem resend_and_deadlines:
  "(resendable_with_same_key op \<longrightarrow> mutates op \<and> http_method_of op = Post)
   \<and> 0 < deadline_of op \<and> deadline_of op + from_secs 30 \<le> from_secs 300"
  by (cases op) (simp_all add: resendable_with_same_key_def mutates_def http_method_of_def
      uses_body_def deadline_of_def deadline_consts from_secs_def nanos_per_sec_def)

theorem resend_and_deadlines_witness:
  "mutates TokenizationMint \<and> http_method_of TokenizationMint = Post
   \<and> deadline_of IssuerRedeem + from_secs 30 \<le> from_secs 300"
  using resend_and_deadlines [of TokenizationMint] resend_and_deadlines [of IssuerRedeem]
  by (simp add: resendable_with_same_key_def)

end
