(* ===== verification/Budget.thy ===== *)
theory Budget
  imports Catalog
begin

text \<open>
  The shared budget of the human tiers (\<^verbatim>\<open>crates/gateway/src/budget.rs\<close>): a fixed one minute
  window of units behind a mutex. Counters keep their \<open>u32\<close> width, since the check uses a
  saturating addition and the update a plain one. The clock reading \<open>Instant::now()\<close> is the
  argument \<open>now\<close>.
\<close>

definition WINDOW :: duration where
  "WINDOW = from_secs 60"

definition cost :: "operation \<Rightarrow> u32" where
  "cost op =
    (if op \<in> set [OrdersGet, ConversionsGet, WalletTransfer, WalletFindDeposit,
                  TokenizationRequest, TokenizationFindRedemption, IssuerRequest]
     then 0 else 1)"

text \<open>\<open>poisoned\<close> is the state of the mutex: its lock fails when a holder panicked.\<close>

record human_budget =
  per_minute :: u32
  window :: "(instant \<times> u32) option"
  poisoned :: bool

definition new_budget :: "u32 \<Rightarrow> human_budget" where
  "new_budget n = \<lparr>per_minute = n, window = None, poisoned = False\<rparr>"

definition saturating_add_u32 :: "u32 \<Rightarrow> u32 \<Rightarrow> u32" where
  "saturating_add_u32 a b = (if unat a + unat b < 2 ^ 32 then a + b else - 1)"

text \<open>
  The window the call counts in: \<open>get_or_insert((now, 0))\<close>, then a reset once a whole
  window has passed.
\<close>

definition current_window :: "human_budget \<Rightarrow> instant \<Rightarrow> instant \<times> u32" where
  "current_window b now =
     (let (started, used) = (case window b of None \<Rightarrow> (now, 0) | Some w \<Rightarrow> w)
      in if now - started \<ge> WINDOW then (now, 0) else (started, used))"

definition take_at :: "human_budget \<Rightarrow> u32 \<Rightarrow> instant \<Rightarrow> (duration + unit) \<times> human_budget" where
  "take_at b c now =
     (if c = 0 then (Inr (), b)
      else if poisoned b then (Inl WINDOW, b)
      else
        (let (started, used) = current_window b now
         in if saturating_add_u32 used c > per_minute b
            then (Inl (WINDOW - (now - started)), b\<lparr>window := Some (started, used)\<rparr>)
            else (Inr (), b\<lparr>window := Some (started, used + c)\<rparr>)))"

text \<open>
  A run of a budget: calls of a given cost at given times, and the grants among them with
  their cost in units.
\<close>

fun grants_of ::
  "('b \<Rightarrow> u32 \<Rightarrow> instant \<Rightarrow> (duration + unit) \<times> 'b) \<Rightarrow> 'b \<Rightarrow> (u32 \<times> instant) list
   \<Rightarrow> (instant \<times> nat) list" where
  "grants_of take_fn b [] = []"
| "grants_of take_fn b ((c, now) # calls) =
     (case take_fn b c now of
        (Inl _, b') \<Rightarrow> grants_of take_fn b' calls
      | (Inr _, b') \<Rightarrow> (now, unat c) # grants_of take_fn b' calls)"

definition units_in :: "instant \<Rightarrow> instant \<Rightarrow> (instant \<times> nat) list \<Rightarrow> nat" where
  "units_in lo hi gs = sum_list (map snd (filter (\<lambda>(t, _). lo \<le> t \<and> t < hi) gs))"

subsection \<open>One call\<close>

lemma units_in_simps [simp]:
  "units_in lo hi [] = 0"
  "units_in lo hi ((t, n) # gs) = (if lo \<le> t \<and> t < hi then n else 0) + units_in lo hi gs"
  by (simp_all add: units_in_def)

lemma grants_times: "fst ` set (grants_of f b calls) \<subseteq> snd ` set calls"
proof (induction calls arbitrary: b)
  case Nil
  then show ?case by simp
next
  case (Cons call calls)
  obtain c now where call: "call = (c, now)" by force
  obtain r b' where step: "f b c now = (r, b')" by force
  show ?case
    using Cons.IH [of b'] step call by (cases r) (auto simp: image_iff)
qed

lemma units_in_none:
  assumes "sorted (map snd calls)" and "\<And>c t. calls \<noteq> [] \<Longrightarrow> hd calls = (c, t) \<Longrightarrow> hi \<le> t"
  shows "units_in lo hi (grants_of f b calls) = 0"
proof -
  have "hi \<le> t" if "t \<in> snd ` set calls" for t
    using that assms by (cases calls) fastforce+
  then have "\<forall>(t, n) \<in> set (grants_of f b calls). hi \<le> t"
    using grants_times [of f b calls] by fastforce
  then show ?thesis by (auto simp: units_in_def filter_empty_conv)
qed

lemma units_in_mono: "hi \<le> hi' \<Longrightarrow> units_in lo hi gs \<le> units_in lo hi' gs"
  by (induction gs) auto

lemma units_in_split: "units_in lo hi gs \<le> units_in lo mid gs + units_in mid hi gs"
  by (induction gs) auto

lemma WINDOW_pos [simp]: "0 < WINDOW"
  by (simp add: WINDOW_def)

lemma unat_max_u32: "unat (- 1 :: u32) = 2 ^ 32 - 1"
  by (simp add: unsigned_minus_1_eq_mask mask_eq_exp_minus_1)

text \<open>The guard is exact: it passes only when the plain addition neither wraps nor overruns.\<close>

lemma saturating_guard:
  assumes "per_minute b < - 1"
  shows "saturating_add_u32 used c \<le> per_minute b \<longleftrightarrow> unat used + unat c \<le> unat (per_minute b)"
    and "saturating_add_u32 used c \<le> per_minute b \<Longrightarrow> unat (used + c) = unat used + unat c"
proof -
  have lim: "unat (per_minute b) < 2 ^ 32 - 1"
    using assms unat_max_u32 by (simp add: word_less_nat_alt)
  have no_wrap: "unat (used + c) = unat used + unat c" if "unat used + unat c < 2 ^ 32"
    using that by (simp add: unat_add_lem [where 'a = 32, simplified, THEN iffD1])
  show "saturating_add_u32 used c \<le> per_minute b
      \<longleftrightarrow> unat used + unat c \<le> unat (per_minute b)"
    using lim unat_max_u32
    by (auto simp: saturating_add_u32_def word_le_nat_alt no_wrap)
  then show "saturating_add_u32 used c \<le> per_minute b \<Longrightarrow> unat (used + c) = unat used + unat c"
    using lim by (intro no_wrap) simp
qed

subsection \<open>The interface: a fixed window of units\<close>

text \<open>
  What the admission check relies on. \<open>view\<close> is the start of the open window and the units
  used in it; \<open>window_at\<close> is the window a call at \<open>now\<close> counts in.
\<close>

definition window_at :: "(instant \<times> nat) option \<Rightarrow> instant \<Rightarrow> instant \<times> nat" where
  "window_at v now =
     (case v of
        None \<Rightarrow> (now, 0)
      | Some (started, used) \<Rightarrow> if started + WINDOW \<le> now then (now, 0) else (started, used))"

locale fixed_window =
  fixes take_fn :: "'b \<Rightarrow> u32 \<Rightarrow> instant \<Rightarrow> (duration + unit) \<times> 'b"
    and view :: "'b \<Rightarrow> (instant \<times> nat) option"
    and limit :: "'b \<Rightarrow> nat"
    and ok :: "'b \<Rightarrow> bool"
  assumes free: "take_fn b 0 now = (Inr (), b)"
    and keeps_ok: "ok b \<Longrightarrow> ok (snd (take_fn b c now))"
    and keeps_limit: "ok b \<Longrightarrow> limit (snd (take_fn b c now)) = limit b"
    and granted: "ok b \<Longrightarrow> c \<noteq> 0 \<Longrightarrow> take_fn b c now = (Inr u, b') \<Longrightarrow> window_at (view b) now = (s, n)
      \<Longrightarrow> view b' = Some (s, n + unat c) \<and> n + unat c \<le> limit b"
    and refused: "ok b \<Longrightarrow> take_fn b c now = (Inl w, b')
      \<Longrightarrow> view b' = view b \<or> view b' = Some (window_at (view b) now)"
begin

lemma step_cases:
  assumes "ok b" and "take_fn b c now = (r, b')"
  obtains (zero) "c = 0" and "b' = b" and "r = Inr ()"
    | (grant) "c \<noteq> 0" and "r = Inr ()" and "ok b'" and "limit b' = limit b"
        and "view b' = Some (fst (window_at (view b) now), snd (window_at (view b) now) + unat c)"
        and "snd (window_at (view b) now) + unat c \<le> limit b"
    | (refuse) w where "r = Inl w" and "ok b'" and "limit b' = limit b"
        and "view b' = view b \<or> view b' = Some (window_at (view b) now)"
proof (cases "c = 0")
  case True
  with assms show ?thesis using free [of b now] by (auto intro: that(1))
next
  case False
  have ok': "ok b'" and lim: "limit b' = limit b"
    using keeps_ok [OF assms(1), of c now] keeps_limit [OF assms(1), of c now] assms(2) by simp_all
  show ?thesis
  proof (cases r)
    case (Inl w)
    with assms have "view b' = view b \<or> view b' = Some (window_at (view b) now)"
      using refused [OF assms(1), of c now w b'] Inl by simp
    with Inl ok' lim show ?thesis by (intro that(3))
  next
    case (Inr u)
    obtain s n where "window_at (view b) now = (s, n)" by force
    with granted [OF assms(1) False] assms(2) Inr ok' lim False show ?thesis
      by (auto intro: that(2))
  qed
qed

lemma within_window:
  assumes "ok b" and "view b = Some (s, n)" and "n \<le> limit b"
    and "sorted (map snd calls)" and "\<forall>t \<in> snd ` set calls. s \<le> t"
  shows "n + units_in lo (s + WINDOW) (grants_of take_fn b calls) \<le> limit b"
  using assms
proof (induction calls arbitrary: b n)
  case Nil
  then show ?case by simp
next
  case (Cons call calls)
  obtain c now where call: "call = (c, now)" by force
  obtain r b' where step: "take_fn b c now = (r, b')" by force
  have later: "\<forall>t \<in> snd ` set calls. s \<le> t" "sorted (map snd calls)"
    using Cons.prems(4,5) by auto
  show ?case
  proof (cases "s + WINDOW \<le> now")
    case True
    then have none: "units_in lo (s + WINDOW) (grants_of take_fn b (call # calls)) = 0"
      using Cons.prems(4) call by (intro units_in_none) auto
    with Cons.prems(3) show ?thesis by simp
  next
    case False
    then have cur: "window_at (view b) now = (s, n)"
      using Cons.prems(2) by (simp add: window_at_def)
    from \<open>ok b\<close> step show ?thesis
    proof (cases rule: step_cases)
      case zero
      with Cons.IH [OF Cons.prems(1-3) later(2,1)] call step show ?thesis by simp
    next
      case grant
      with cur have "view b' = Some (s, n + unat c)" "n + unat c \<le> limit b'" by simp_all
      with Cons.IH [OF \<open>ok b'\<close> this later(2,1)] call step grant show ?thesis by simp
    next
      case (refuse w)
      with cur Cons.prems(2) have "view b' = Some (s, n)" by auto
      with Cons.IH [OF \<open>ok b'\<close> this _ later(2,1)] Cons.prems(3) call step refuse
      show ?thesis by simp
    qed
  qed
qed

lemma next_window:
  assumes "ok b" and "view b = Some (s, n)" and "n \<le> limit b"
    and "sorted (map snd calls)" and "\<forall>t \<in> snd ` set calls. s \<le> t"
    and "hi \<le> s + 2 * WINDOW"
  shows "units_in (s + WINDOW) hi (grants_of take_fn b calls) \<le> limit b"
  using assms
proof (induction calls arbitrary: b n)
  case Nil
  then show ?case by simp
next
  case (Cons call calls)
  obtain c now where call: "call = (c, now)" by force
  obtain r b' where step: "take_fn b c now = (r, b')" by force
  have later: "\<forall>t \<in> snd ` set calls. s \<le> t" "\<forall>t \<in> snd ` set calls. now \<le> t"
      "sorted (map snd calls)"
    using Cons.prems(4,5) call by auto
  note IH = Cons.IH [OF _ _ _ later(3,1) Cons.prems(6)]
  show ?case
  proof (cases "s + WINDOW \<le> now")
    case True
    then have cur: "window_at (view b) now = (now, 0)" and hi: "hi \<le> now + WINDOW"
      using Cons.prems(2,6) by (simp_all add: window_at_def)
    have rest: "n' + units_in (s + WINDOW) hi (grants_of take_fn b' calls) \<le> limit b'"
      if "ok b'" "view b' = Some (now, n')" "n' \<le> limit b'" for n'
      using within_window [OF that later(3,2), of "s + WINDOW"]
        units_in_mono [OF hi, of "s + WINDOW" "grants_of take_fn b' calls"] by linarith
    from \<open>ok b\<close> step show ?thesis
    proof (cases rule: step_cases)
      case zero
      with IH [OF Cons.prems(1-3)] call step show ?thesis by simp
    next
      case grant
      with rest [of "unat c"] cur call step show ?thesis by simp
    next
      case (refuse w)
      then consider "view b' = Some (s, n)" | "view b' = Some (now, 0)"
        using cur Cons.prems(2) by auto
      then show ?thesis
        using IH [OF \<open>ok b'\<close>, of n] rest [of 0] refuse call step Cons.prems(3) by cases simp_all
    qed
  next
    case False
    then have cur: "window_at (view b) now = (s, n)"
      using Cons.prems(2) by (simp add: window_at_def)
    from \<open>ok b\<close> step show ?thesis
    proof (cases rule: step_cases)
      case zero
      with IH [OF Cons.prems(1-3)] call step show ?thesis by simp
    next
      case grant
      with IH [OF \<open>ok b'\<close>, of "n + unat c"] cur call step False show ?thesis by simp
    next
      case (refuse w)
      with cur Cons.prems(2) have "view b' = Some (s, n)" by auto
      with IH [OF \<open>ok b'\<close> this] Cons.prems(3) call step refuse show ?thesis by simp
    qed
  qed
qed

definition view_ok :: "'b \<Rightarrow> (u32 \<times> instant) list \<Rightarrow> bool" where
  "view_ok b calls =
     (case view b of
        None \<Rightarrow> True
      | Some (s, n) \<Rightarrow> n \<le> limit b \<and> (\<forall>t \<in> snd ` set calls. s \<le> t))"

text \<open>Any interval as long as a window meets at most two windows.\<close>

lemma sliding_window:
  assumes "ok b" and "view_ok b calls" and "sorted (map snd calls)"
  shows "units_in t (t + WINDOW) (grants_of take_fn b calls) \<le> 2 * limit b"
  using assms
proof (induction calls arbitrary: b)
  case Nil
  then show ?case by simp
next
  case (Cons call calls)
  obtain c now where call: "call = (c, now)" by force
  obtain r b' where step: "take_fn b c now = (r, b')" by force
  have sorted: "sorted (map snd calls)" and ge: "\<forall>t \<in> snd ` set calls. now \<le> t"
    using Cons.prems(3) call by auto
  obtain s n where cur: "window_at (view b) now = (s, n)" by force
  have s: "s \<le> now" "now < s + WINDOW" "n \<le> limit b"
    using Cons.prems(2) cur call
    by (auto simp: window_at_def view_ok_def split: option.splits if_splits)
  have le: "\<forall>t \<in> snd ` set calls. s \<le> t" using ge s(1) by fastforce
  note IH = Cons.IH [OF _ _ sorted]
  from \<open>ok b\<close> step show ?case
  proof (cases rule: step_cases)
    case zero
    with IH [OF Cons.prems(1)] Cons.prems(2) call step show ?thesis
      by (auto simp: view_ok_def split: option.splits)
  next
    case (refuse w)
    then have "view_ok b' calls"
      using Cons.prems(2) cur le s(3) by (auto simp: view_ok_def split: option.splits)
    with IH [OF \<open>ok b'\<close>] refuse call step show ?thesis by simp
  next
    case grant
    with cur have v: "view b' = Some (s, n + unat c)" "n + unat c \<le> limit b'" by simp_all
    show ?thesis
    proof (cases "t \<le> now \<and> now < t + WINDOW")
      case True
      let ?gs = "grants_of take_fn b' calls"
      have hi: "t + WINDOW \<le> s + 2 * WINDOW" using True s(2) by linarith
      have "units_in t (t + WINDOW) ?gs
          \<le> units_in t (s + WINDOW) ?gs + units_in (s + WINDOW) (t + WINDOW) ?gs"
        by (rule units_in_split)
      with within_window [OF \<open>ok b'\<close> v sorted le, of t] next_window [OF \<open>ok b'\<close> v sorted le hi]
        grant call step True
      show ?thesis by simp
    next
      case False
      with IH [OF \<open>ok b'\<close>] v le grant call step show ?thesis
        by (auto simp: view_ok_def)
    qed
  qed
qed

end

subsection \<open>\<open>HumanBudget\<close> implements the interface\<close>

lemma window_passed: "WINDOW \<le> now - started \<longleftrightarrow> started + WINDOW \<le> now"
  using WINDOW_pos by linarith

definition view_of :: "human_budget \<Rightarrow> (instant \<times> nat) option" where
  "view_of b = map_option (\<lambda>(started, used). (started, unat used)) (window b)"

text \<open>
  Every limit but \<open>u32::MAX\<close>: there the saturated sum never exceeds the limit, so the plain
  addition behind the guard can overflow (shown below for the limit \<open>u32::MAX\<close>).
\<close>

definition sane_limit :: "human_budget \<Rightarrow> bool" where
  "sane_limit b = (per_minute b < - 1)"

lemma take_at_simps [simp]:
  "per_minute (snd (take_at b c now)) = per_minute b"
  "poisoned (snd (take_at b c now)) = poisoned b"
  by (simp_all add: take_at_def Let_def split: prod.splits)

lemma current_window_view:
  "window_at (view_of b) now = (fst (current_window b now), unat (snd (current_window b now)))"
  by (auto simp: window_at_def view_of_def current_window_def window_passed split: option.splits)

interpretation hb: fixed_window take_at view_of "\<lambda>b. unat (per_minute b)" sane_limit
proof
  fix b b' :: human_budget and c :: u32 and now s :: instant and w :: duration and u :: unit and n
  show "take_at b 0 now = (Inr (), b)" by (simp add: take_at_def)
  assume b: "sane_limit b"
  then show "sane_limit (snd (take_at b c now))"
    and "unat (per_minute (snd (take_at b c now))) = unat (per_minute b)"
    by (simp_all add: sane_limit_def)
  show "view_of b' = view_of b \<or> view_of b' = Some (window_at (view_of b) now)"
    if "take_at b c now = (Inl w, b')"
    using that unfolding current_window_view
    by (auto simp: take_at_def view_of_def split: if_splits prod.splits)
  show "view_of b' = Some (s, n + unat c) \<and> n + unat c \<le> unat (per_minute b)"
    if "c \<noteq> 0" "take_at b c now = (Inr u, b')" "window_at (view_of b) now = (s, n)"
    using that b saturating_guard [of b] unfolding current_window_view
    by (auto simp: take_at_def view_of_def sane_limit_def not_less
        split: if_splits prod.splits)
qed

subsection \<open>Properties\<close>

text \<open>
  C33: however operators time their calls, the calls the budget grants in any one minute long
  interval take at most twice \<open>human_budget_per_minute\<close> units: the fixed windows never let
  more than two windows' worth through in one window's time. The clock is monotone, so the call
  times are sorted; the limit is any but \<open>u32::MAX\<close>.
\<close>

theorem budget_bounds_any_minute:
  assumes "sorted (map snd calls)" and "n < - 1"
  shows "units_in t (t + WINDOW) (grants_of take_at (new_budget n) calls) \<le> 2 * unat n"
proof -
  have ok: "sane_limit (new_budget n)" using assms(2) by (simp add: sane_limit_def new_budget_def)
  have "hb.view_ok (new_budget n) calls"
    by (simp add: hb.view_ok_def view_of_def new_budget_def)
  from hb.sliding_window [OF ok this assms(1)] show ?thesis
    by (simp add: new_budget_def)
qed

theorem budget_bounds_any_minute_witness:
  "units_in 5 (5 + WINDOW)
     (grants_of take_at (new_budget 2) [(1, 0), (1, 7), (1, 9), (0, 11), (1, WINDOW + 1)]) \<le> 4"
  using budget_bounds_any_minute
    [of "[(1, 0), (1, 7), (1, 9), (0, 11), (1, WINDOW + 1)]" 2 5]
  by (simp add: WINDOW_def from_secs_def nanos_per_sec_def)

text \<open>
  A refused call is told exactly how long to wait. The hint is above zero and at most
  one window, and the same call made at any time after it, with no other call in between, is
  granted, as long as the call's cost fits the limit at all.
\<close>

theorem refused_wait_suffices:
  assumes "take_at b c now = (Inl wait, b')" and "\<not> poisoned b" and "c \<le> per_minute b"
    and "\<forall>started used. window b = Some (started, used) \<longrightarrow> started \<le> now"
    and "now + wait \<le> later"
  shows "0 < wait \<and> wait \<le> WINDOW \<and> fst (take_at b' c later) = Inr ()"
proof -
  obtain started used where cur: "current_window b now = (started, used)" by force
  have near: "now - started < WINDOW" and past: "started \<le> now"
    using cur assms(4) by (auto simp: current_window_def split: option.splits if_splits prod.splits)
  from assms(1,2) cur have wait: "wait = WINDOW - (now - started)"
    and b': "b' = b\<lparr>window := Some (started, used)\<rparr>"
    by (auto simp: take_at_def split: if_splits)
  have "current_window b' later = (later, 0)"
    using assms(5) wait near past b' by (simp add: current_window_def window_passed)
  moreover have "saturating_add_u32 0 c = c"
    using unsigned_less [of c, where ?'a = nat] by (simp add: saturating_add_u32_def)
  ultimately have "fst (take_at b' c later) = Inr ()"
    using assms(2,3) b' by (auto simp: take_at_def dest: leD)
  with wait near show ?thesis by simp
qed

theorem refused_wait_suffices_witness:
  "fst (take_at (new_budget 1\<lparr>window := Some (100, 1)\<rparr>) 1 (100 + from_secs 20)) = Inl (from_secs 40)
   \<and> fst (take_at (new_budget 1\<lparr>window := Some (100, 1)\<rparr>) 1 (100 + from_secs 60)) = Inr ()"
  using refused_wait_suffices
    [of "new_budget 1\<lparr>window := Some (100, 1)\<rparr>" 1 "100 + from_secs 20" "from_secs 40"
        "new_budget 1\<lparr>window := Some (100, 1)\<rparr>" "100 + from_secs 60"]
  by (simp add: take_at_def current_window_def new_budget_def WINDOW_def from_secs_def
      nanos_per_sec_def saturating_add_u32_def)


text \<open>
  The keyed reads a client's poll loop repeats are free: they are granted whatever the
  budget's state, and leave it unchanged. They are reads, so a free call never mutates.
\<close>

theorem free_calls_never_wait:
  assumes "cost op = 0"
  shows "take_at b (cost op) now = (Inr (), b) \<and> \<not> mutates op"
  using assms by (auto simp: take_at_def cost_def mutates_def split: if_splits)

theorem free_calls_never_wait_witness:
  "take_at (new_budget 0) (cost OrdersGet) 7 = (Inr (), new_budget 0) \<and> \<not> mutates OrdersGet"
  using free_calls_never_wait [of OrdersGet "new_budget 0" 7] by (simp add: cost_def)

end
