(* ===== verification/Stream_Event.thy ===== *)
theory Stream_Event
  imports Prelude
begin

text \<open>
  Wire identities of the corporate-action stream (\<^verbatim>\<open>src/corporate_actions/event.rs\<close>) and its
  replay positions (\<^verbatim>\<open>src/corporate_actions/replay.rs\<close>). Every identity is untrusted stream
  input, so each constructor validates it; a value of these types is made only through its
  constructor. The RFC3339 printer and parser of chrono are parameters.
\<close>

subsection \<open>Identities\<close>

datatype event_id = EventId (event_id_str: string)

definition ulid_byte :: "byte \<Rightarrow> bool" where
  "ulid_byte b =
     (between 48 57 b \<or> between 65 72 b
      \<or> b = CHR ''J'' \<or> b = CHR ''K'' \<or> b = CHR ''M'' \<or> b = CHR ''N''
      \<or> between 80 84 b \<or> between 86 90 b)"

definition ulid_valid :: "string \<Rightarrow> bool" where
  "ulid_valid v =
     (length v = 26
      \<and> list_all (\<lambda>(i, b). ulid_byte b \<and> (i \<noteq> 0 \<or> (of_char b :: nat) \<le> 55))
          (zip [0..<length v] v))"

definition new_event_id :: "string \<Rightarrow> event_id option" where
  "new_event_id v = (if ulid_valid v then Some (EventId v) else None)"

datatype action_id = ActionId (action_id_str: string)

definition ACTION_ID_MAX_LEN :: nat where
  "ACTION_ID_MAX_LEN = 128"

definition new_action_id :: "string \<Rightarrow> action_id option" where
  "new_action_id v =
     (if v \<noteq> [] \<and> length v \<le> ACTION_ID_MAX_LEN then Some (ActionId v) else None)"

datatype action_symbol = ActionSymbol (action_symbol_str: string)

definition new_action_symbol :: "string \<Rightarrow> action_symbol option" where
  "new_action_symbol v = (if trim v \<noteq> [] then Some (ActionSymbol (trim v)) else None)"

subsection \<open>Mutations\<close>

datatype mutation_kind = Insert | Update | Delete

definition parse_kind :: "string \<Rightarrow> mutation_kind option" where
  "parse_kind v =
     (if v = ''insert'' then Some Insert
      else if v = ''update'' then Some Update
      else if v = ''delete'' then Some Delete
      else None)"

fun kind_as_str :: "mutation_kind \<Rightarrow> string" where
  "kind_as_str Insert = ''insert''"
| "kind_as_str Update = ''update''"
| "kind_as_str Delete = ''delete''"

text \<open>chrono's \<open>NaiveDate\<close>: year, month, day.\<close>

type_synonym naive_date = "int \<times> nat \<times> nat"

record dividend_action =
  da_id :: action_id
  da_underlying :: action_symbol
  da_ex_date :: naive_date

record mutation =
  mu_event_id :: event_id
  mu_kind :: mutation_kind
  mu_action :: dividend_action

subsection \<open>Replay positions\<close>

datatype bootstrap_since = BootstrapSince instant
datatype replay_until = ReplayUntil instant

datatype bootstrap_error = BootstrapParse | BootstrapFuture instant

text \<open>\<open>now\<close> is the reading of \<open>Utc::now()\<close>.\<close>

definition try_from_instant :: "instant \<Rightarrow> instant \<Rightarrow> bootstrap_error + bootstrap_since" where
  "try_from_instant now i = (if i > now then Inl (BootstrapFuture i) else Inr (BootstrapSince i))"

definition since_from_str ::
  "(string \<Rightarrow> instant option) \<Rightarrow> instant \<Rightarrow> string \<Rightarrow> bootstrap_error + bootstrap_since" where
  "since_from_str parse_rfc3339 now v =
     (case parse_rfc3339 v of None \<Rightarrow> Inl BootstrapParse | Some i \<Rightarrow> try_from_instant now i)"

datatype replay =
    Live
  | SinceId event_id
  | Since bootstrap_since
  | Window bootstrap_since replay_until

definition query_pairs :: "(instant \<Rightarrow> string) \<Rightarrow> replay \<Rightarrow> (string \<times> string) list" where
  "query_pairs rfc3339 r =
     (case r of
        Live \<Rightarrow> []
      | SinceId cursor \<Rightarrow> [(''since_id'', event_id_str cursor)]
      | Since (BootstrapSince s) \<Rightarrow> [(''since'', rfc3339 s)]
      | Window (BootstrapSince s) (ReplayUntil u) \<Rightarrow>
          [(''since'', rfc3339 s), (''until'', rfc3339 u)])"

subsection \<open>Facts about identities\<close>

lemma new_event_id_Some: "new_event_id v = Some e \<longleftrightarrow> ulid_valid v \<and> e = EventId v"
  by (auto simp: new_event_id_def)

lemma parse_kind_inverts: "parse_kind v = Some k \<longleftrightarrow> kind_as_str k = v"
  by (cases k) (auto simp: parse_kind_def)

lemma ulid_valid_bytes: "ulid_valid v \<Longrightarrow> length v = 26 \<and> list_all ulid_byte v"
  by (auto simp: ulid_valid_def list_all_length)

end
