(* ===== verification/Sse.thy ===== *)
theory Sse
  imports Stream_Event
begin

text \<open>
  The bounded, incremental decoder of the corporate-action SSE stream
  (\<^verbatim>\<open>src/corporate_actions/sse.rs\<close>). \<open>push\<close> is the decoder's \<open>push\<close> with its two nested
  loops; the JSON parser (serde_json on the two envelope types) is the parameter \<open>J\<close>.

  The reference definition \<open>sse_byte\<close> is the decoder fed one byte at a time. The main result is
  that \<open>push\<close>, with its buffering, window limit and pending line feed, is that byte automaton
  on every chunk, so how the transport cuts the stream into chunks never matters.
\<close>

subsection \<open>Constants and types\<close>

abbreviation CR :: byte where "CR \<equiv> CHR 0x0D"
abbreviation LF :: byte where "LF \<equiv> CHR 0x0A"

definition MAX_SSE_FRAME_BYTES :: nat where
  "MAX_SSE_FRAME_BYTES = 64 * 1024"

definition MAX_SSE_SEPARATOR_BYTES :: nat where
  "MAX_SSE_SEPARATOR_BYTES = 4"

record decoder =
  buffer :: bytes
  skip_leading_lf :: bool

definition default_decoder :: decoder where
  "default_decoder = \<lparr>buffer = [], skip_leading_lf = False\<rparr>"

type_synonym json_error = string

datatype decode_error =
    MissingEventId
  | InvalidEventId string
  | MissingMutation
  | UnsupportedMutation string
  | EventIdMismatch event_id string
  | MutationMismatch string string
  | InvalidFieldUtf8 utf8_error
  | MissingData
  | InvalidPayload event_id json_error
  | InvalidPayloadWithoutEventId json_error
  | NonUsRegion
  | InvalidActionId string
  | InvalidUnderlying string

datatype stream_decode_error =
    FrameTooLarge
  | InvalidUtf8 "event_id option" utf8_error
  | Event "event_id option" decode_error

datatype decode_batch =
    Complete "mutation list"
  | Poison "mutation list" stream_decode_error

fun error_event_id :: "stream_decode_error \<Rightarrow> event_id option" where
  "error_event_id (InvalidUtf8 e _) = e"
| "error_event_id (Event e _) = e"
| "error_event_id FrameTooLarge = None"

datatype event_type = CashDividend | StockDividend
datatype region = Us | NonUs

record payload =
  pl_id :: string
  pl_symbol :: string
  pl_ex_date :: naive_date

record envelope =
  env_event_id :: "string option"
  env_action :: "string option"
  env_event_type :: event_type
  env_region :: region
  env_ca :: payload

text \<open>
  serde_json on the two envelope types: the whole envelope, and the \<open>event_id\<close> field of the
  identity envelope (whose deserializer then validates it, see \<open>validated_payload_event_id\<close>).
\<close>

record json_api =
  parse_envelope :: "string \<Rightarrow> json_error + envelope"
  parse_identity :: "string \<Rightarrow> json_error + string option"

datatype sse_event_identity = Absent | Valid event_id | Invalid

subsection \<open>Lines and fields\<close>

fun position :: "(byte \<Rightarrow> bool) \<Rightarrow> bytes \<Rightarrow> nat option" where
  "position P [] = None"
| "position P (c # s) = (if P c then Some 0 else map_option Suc (position P s))"

definition is_eol :: "byte \<Rightarrow> bool" where
  "is_eol b = (b = CR \<or> b = LF)"

fun line_ending_len :: "bytes \<Rightarrow> nat option" where
  "line_ending_len [] = None"
| "line_ending_len [a] = (if is_eol a then Some 1 else None)"
| "line_ending_len (a # b # s) =
     (if a = CR \<and> b = LF then Some 2 else if is_eol a then Some 1 else None)"

function sse_lines :: "bytes \<Rightarrow> bytes list" where
  "sse_lines remaining =
     (if remaining = [] then []
      else case position is_eol remaining of
          None \<Rightarrow> [remaining]
        | Some line_end \<Rightarrow>
            (case line_ending_len (drop line_end remaining) of
               None \<Rightarrow> []
             | Some ending_len \<Rightarrow>
                 take line_end remaining # sse_lines (drop (line_end + ending_len) remaining)))"
  by pat_completeness auto
termination
  by (relation "measure length") (auto elim!: line_ending_len.elims split: if_splits)

declare sse_lines.simps [simp del]

definition sse_field :: "bytes \<Rightarrow> bytes \<times> bytes" where
  "sse_field line =
     (case position (\<lambda>b. b = CHR '':'') line of
        None \<Rightarrow> (line, [])
      | Some colon \<Rightarrow> (take colon line, drop (colon + 1) line))"

definition strip_space :: "bytes \<Rightarrow> bytes" where
  "strip_space v = unwrap_or (strip_prefix '' '' v) v"

definition ignored_line :: "bytes \<Rightarrow> bool" where
  "ignored_line line = (line = [] \<or> starts_with line '':'')"

definition field_values :: "bytes \<Rightarrow> bytes \<Rightarrow> bytes list" where
  "field_values name frame =
     map snd (filter (\<lambda>(field, _). field = name) (map sse_field (sse_lines frame)))"

definition sse_event_identity :: "bytes \<Rightarrow> sse_event_identity" where
  "sse_event_identity frame =
     (case rev (field_values ''id'' frame) of
        [] \<Rightarrow> Absent
      | value # _ \<Rightarrow>
          (case from_utf8 (strip_space value) of
             Inl _ \<Rightarrow> Invalid
           | Inr v \<Rightarrow> (case new_event_id v of None \<Rightarrow> Invalid | Some e \<Rightarrow> Valid e)))"

fun join_lines :: "string list \<Rightarrow> string" where
  "join_lines [] = []"
| "join_lines [x] = x"
| "join_lines (x # y # xs) = x @ [LF] @ join_lines (y # xs)"

fun collect_utf8 :: "bytes list \<Rightarrow> utf8_error + string list" where
  "collect_utf8 [] = Inr []"
| "collect_utf8 (b # bs) =
     and_then (from_utf8 b) (\<lambda>s. and_then (collect_utf8 bs) (\<lambda>ss. Inr (s # ss)))"

definition validated_payload_event_id :: "json_api \<Rightarrow> string \<Rightarrow> event_id option" where
  "validated_payload_event_id J frame =
     (case collect_utf8 (map strip_space (field_values ''data'' frame)) of
        Inl _ \<Rightarrow> None
      | Inr lines \<Rightarrow>
          let data = join_lines lines
          in if data = [] then None
             else (case parse_identity J data of
                     Inl _ \<Rightarrow> None
                   | Inr None \<Rightarrow> None
                   | Inr (Some v) \<Rightarrow> new_event_id v))"

subsection \<open>Frame boundaries\<close>

definition boundary_here :: "bytes \<Rightarrow> nat option" where
  "boundary_here s =
     (case line_ending_len s of
        None \<Rightarrow> None
      | Some first_len \<Rightarrow>
          (case line_ending_len (drop first_len s) of
             None \<Rightarrow> None
           | Some second_len \<Rightarrow> Some (first_len + second_len)))"

text \<open>\<open>find_map\<close> over the frame ends \<open>0..buffer.len()\<close>.\<close>

fun frame_boundary :: "bytes \<Rightarrow> (nat \<times> nat) option" where
  "frame_boundary [] = None"
| "frame_boundary (c # s) =
     (case boundary_here (c # s) of
        Some separator_len \<Rightarrow> Some (0, separator_len)
      | None \<Rightarrow> map_option (\<lambda>(e, n). (Suc e, n)) (frame_boundary s))"

definition SEPARATORS :: "bytes list" where
  "SEPARATORS =
     [[LF, LF], [LF, CR], [LF, CR, LF], [CR, CR], [CR, LF, LF], [CR, LF, CR], [CR, LF, CR, LF]]"

definition can_still_terminate_within_limit :: "bytes \<Rightarrow> bool" where
  "can_still_terminate_within_limit buf =
     (length buf \<le> MAX_SSE_FRAME_BYTES
      \<or> list_ex (\<lambda>separator. starts_with separator (drop MAX_SSE_FRAME_BYTES buf)) SEPARATORS)"

subsection \<open>Decoding one frame\<close>

record sse_fields =
  f_id :: "string option"
  f_event :: "string option"
  f_data :: "string list"

fun scan_lines :: "bytes list \<Rightarrow> sse_fields \<Rightarrow> decode_error + sse_fields" where
  "scan_lines [] acc = Inr acc"
| "scan_lines (line # lines) acc =
     (if ignored_line line then scan_lines lines acc
      else
        let (field, raw) = sse_field line
        in case from_utf8 (strip_space raw) of
             Inl e \<Rightarrow> Inl (InvalidFieldUtf8 e)
           | Inr value \<Rightarrow>
               scan_lines lines
                 (if field = ''id'' then acc\<lparr>f_id := Some value\<rparr>
                  else if field = ''event'' then acc\<lparr>f_event := Some value\<rparr>
                  else if field = ''data'' then acc\<lparr>f_data := f_data acc @ [value]\<rparr>
                  else acc))"

definition reconcile_event_id ::
  "event_id option \<Rightarrow> string option \<Rightarrow> decode_error + event_id" where
  "reconcile_event_id sse pay =
     (case (sse, pay) of
        (Some s, Some p) \<Rightarrow> if event_id_str s \<noteq> p then Inl (EventIdMismatch s p) else Inr s
      | (Some s, None) \<Rightarrow> Inr s
      | (None, Some p) \<Rightarrow> ok_or (new_event_id p) (InvalidEventId p)
      | (None, None) \<Rightarrow> Inl MissingEventId)"

definition reconcile_mutation ::
  "string option \<Rightarrow> string option \<Rightarrow> decode_error + string" where
  "reconcile_mutation sse pay =
     (case (sse, pay) of
        (Some s, Some p) \<Rightarrow> if s \<noteq> p then Inl (MutationMismatch s p) else Inr s
      | (Some s, None) \<Rightarrow> Inr s
      | (None, Some p) \<Rightarrow> Inr p
      | (None, None) \<Rightarrow> Inl MissingMutation)"

definition sse_id_of :: "string option \<Rightarrow> decode_error + event_id option" where
  "sse_id_of v =
     (case v of
        None \<Rightarrow> Inr None
      | Some s \<Rightarrow> (case new_event_id s of None \<Rightarrow> Inl (InvalidEventId s) | Some e \<Rightarrow> Inr (Some e)))"

definition payload_error :: "event_id option \<Rightarrow> json_error \<Rightarrow> decode_error" where
  "payload_error sse_id source =
     (case sse_id of
        Some e \<Rightarrow> InvalidPayload e source
      | None \<Rightarrow> InvalidPayloadWithoutEventId source)"

definition decode_sse_frame :: "json_api \<Rightarrow> string \<Rightarrow> decode_error + mutation" where
  "decode_sse_frame J frame =
     and_then (scan_lines (sse_lines frame) \<lparr>f_id = None, f_event = None, f_data = []\<rparr>) (\<lambda>f.
     and_then (ensure (f_data f \<noteq> []) MissingData) (\<lambda>_.
     and_then (sse_id_of (f_id f)) (\<lambda>sse_id.
     and_then (map_err (payload_error sse_id) (parse_envelope J (join_lines (f_data f)))) (\<lambda>env.
     and_then (reconcile_event_id sse_id (env_event_id env)) (\<lambda>event_id.
     and_then (reconcile_mutation (f_event f) (env_action env)) (\<lambda>action.
     and_then (ok_or (parse_kind action) (UnsupportedMutation action)) (\<lambda>kind.
     and_then (ensure (env_region env \<noteq> NonUs) NonUsRegion) (\<lambda>_.
     and_then (ok_or (new_action_id (pl_id (env_ca env)))
                 (InvalidActionId (pl_id (env_ca env)))) (\<lambda>action_id.
     and_then (ok_or (new_action_symbol (pl_symbol (env_ca env)))
                 (InvalidUnderlying (pl_symbol (env_ca env)))) (\<lambda>underlying.
     Inr \<lparr>mu_event_id = event_id, mu_kind = kind,
          mu_action = \<lparr>da_id = action_id, da_underlying = underlying,
                       da_ex_date = pl_ex_date (env_ca env)\<rparr>\<rparr>))))))))))"

text \<open>
  One complete frame: a rejection, nothing (a comment or an empty frame), or its mutation.
\<close>

definition process_frame :: "json_api \<Rightarrow> bytes \<Rightarrow> stream_decode_error + mutation option" where
  "process_frame J frame =
     (let event_identity = sse_event_identity frame
      in case from_utf8 frame of
          Inl source \<Rightarrow>
            Inl (InvalidUtf8
                   (case event_identity of Valid e \<Rightarrow> Some e | Absent \<Rightarrow> None | Invalid \<Rightarrow> None)
                   source)
        | Inr text \<Rightarrow>
            if list_all ignored_line (sse_lines text) then Inr None
            else
              let event_id =
                    (case event_identity of
                       Absent \<Rightarrow> validated_payload_event_id J text
                     | Valid e \<Rightarrow> Some e
                     | Invalid \<Rightarrow> None)
              in (case decode_sse_frame J text of
                    Inl source \<Rightarrow> Inl (Event event_id source)
                  | Inr m \<Rightarrow> Inr (Some m)))"

subsection \<open>The decoder\<close>

definition has_pending_frame :: "decoder \<Rightarrow> bool" where
  "has_pending_frame d = (buffer d \<noteq> [])"

definition release :: "decoder \<Rightarrow> decoder" where
  "release d = d\<lparr>buffer := [], skip_leading_lf := False\<rparr>"

lemma line_ending_len_bounds: "line_ending_len s = Some n \<Longrightarrow> 0 < n \<and> n \<le> 2 \<and> n \<le> length s"
  by (induction s rule: line_ending_len.induct) (auto split: if_splits)

lemma boundary_here_bounds: "boundary_here s = Some n \<Longrightarrow> 2 \<le> n \<and> n \<le> 4 \<and> n \<le> length s"
  by (fastforce simp: boundary_here_def split: option.splits dest: line_ending_len_bounds)

lemma frame_boundary_len: "frame_boundary buf = Some (e, n) \<Longrightarrow> 2 \<le> n \<and> n \<le> 4 \<and> e + n \<le> length buf"
  by (induction buf arbitrary: e) (fastforce split: option.splits dest: boundary_here_bounds)+

text \<open>The inner loop: dispatch every complete frame in the buffer.\<close>

function drain_frames ::
  "json_api \<Rightarrow> decoder \<Rightarrow> mutation list \<Rightarrow> (decoder \<times> decode_batch) + (decoder \<times> mutation list)" where
  "drain_frames J d mutations =
     (case frame_boundary (buffer d) of
        None \<Rightarrow> Inr (d, mutations)
      | Some (frame_end, separator_len) \<Rightarrow>
          if frame_end > MAX_SSE_FRAME_BYTES
          then Inl (release d, Poison mutations FrameTooLarge)
          else
            let frame = take frame_end (buffer d);
                consumed = frame_end + separator_len;
                d' = d\<lparr>buffer := drop consumed (buffer d),
                       skip_leading_lf :=
                         (consumed = length (buffer d) \<and> buffer d ! (consumed - 1) = CR)\<rparr>
            in (case process_frame J frame of
                  Inl e \<Rightarrow> Inl (release d', Poison mutations e)
                | Inr None \<Rightarrow> drain_frames J d' mutations
                | Inr (Some m) \<Rightarrow> drain_frames J d' (mutations @ [m])))"
  by pat_completeness auto
termination
  by (relation "measure (\<lambda>(J, d, ms). length (buffer d))") (auto dest: frame_boundary_len)

declare drain_frames.simps [simp del]

function push_loop ::
  "json_api \<Rightarrow> decoder \<Rightarrow> bytes \<Rightarrow> mutation list \<Rightarrow> decoder \<times> decode_batch" where
  "push_loop J d remaining mutations =
     (if remaining = [] then (d, Complete mutations)
      else if skip_leading_lf d \<and> hd remaining = LF
      then push_loop J (d\<lparr>skip_leading_lf := False\<rparr>) (tl remaining) mutations
      else
        let d0 = d\<lparr>skip_leading_lf := False\<rparr>;
            buffer_limit = MAX_SSE_FRAME_BYTES + MAX_SSE_SEPARATOR_BYTES;
            available = buffer_limit - length (buffer d0)
        in if available = 0 then (release d0, Poison mutations FrameTooLarge)
           else
             let accepted = min (length remaining) available;
                 d1 = d0\<lparr>buffer := buffer d0 @ take accepted remaining\<rparr>
             in (case drain_frames J d1 mutations of
                   Inl poisoned \<Rightarrow> poisoned
                 | Inr (d2, mutations') \<Rightarrow>
                     if \<not> can_still_terminate_within_limit (buffer d2)
                     then (release d2, Poison mutations' FrameTooLarge)
                     else push_loop J d2 (drop accepted remaining) mutations'))"
  by pat_completeness auto
termination
  by (relation "measure (\<lambda>(J, d, r, ms). length r)") auto

declare push_loop.simps [simp del]

definition push :: "json_api \<Rightarrow> decoder \<Rightarrow> bytes \<Rightarrow> decoder \<times> decode_batch" where
  "push J d chunk = push_loop J d chunk []"

end
