(* ===== verification/Sse_Chunks.thy ===== *)
theory Sse_Chunks
  imports Sse
begin

text \<open>
  The decoder against its reference: one byte at a time. The lemmas on \<open>frame_boundary\<close> say
  what one more byte can do to a buffer without a complete frame, and \<open>settle_bytes\<close> turns
  the inner loop over a whole window into the byte automaton.
\<close>

subsection \<open>The reference automaton\<close>

definition sse_byte ::
  "json_api \<Rightarrow> decoder \<Rightarrow> byte \<Rightarrow> stream_decode_error + decoder \<times> mutation option" where
  "sse_byte J d b =
     (if skip_leading_lf d \<and> b = LF then Inr (d\<lparr>skip_leading_lf := False\<rparr>, None)
      else
        let buf = buffer d @ [b]
        in (case frame_boundary buf of
              None \<Rightarrow>
                if can_still_terminate_within_limit buf
                then Inr (\<lparr>buffer = buf, skip_leading_lf = False\<rparr>, None)
                else Inl FrameTooLarge
            | Some (frame_end, _) \<Rightarrow>
                if frame_end > MAX_SSE_FRAME_BYTES then Inl FrameTooLarge
                else (case process_frame J (take frame_end buf) of
                        Inl e \<Rightarrow> Inl e
                      | Inr m \<Rightarrow> Inr (\<lparr>buffer = [], skip_leading_lf = (b = CR)\<rparr>, m))))"

fun sse_bytes :: "json_api \<Rightarrow> decoder \<Rightarrow> bytes \<Rightarrow> mutation list \<Rightarrow> decoder \<times> decode_batch" where
  "sse_bytes J d [] ms = (d, Complete ms)"
| "sse_bytes J d (b # bs) ms =
     (case sse_byte J d b of
        Inl e \<Rightarrow> (default_decoder, Poison ms e)
      | Inr (d', m) \<Rightarrow> sse_bytes J d' bs (ms @ (case m of None \<Rightarrow> [] | Some x \<Rightarrow> [x])))"

text \<open>Feeding a decoder chunk by chunk, stopping at the first rejected frame.\<close>

fun push_all :: "json_api \<Rightarrow> decoder \<Rightarrow> bytes list \<Rightarrow> mutation list \<Rightarrow> decoder \<times> decode_batch" where
  "push_all J d [] ms = (d, Complete ms)"
| "push_all J d (c # cs) ms =
     (case push J d c of
        (d', Complete new) \<Rightarrow> push_all J d' cs (ms @ new)
      | (d', Poison new e) \<Rightarrow> (d', Poison (ms @ new) e))"

text \<open>What holds between two pushes.\<close>

definition decoder_inv :: "decoder \<Rightarrow> bool" where
  "decoder_inv d =
     (frame_boundary (buffer d) = None
      \<and> can_still_terminate_within_limit (buffer d)
      \<and> (skip_leading_lf d \<longrightarrow> buffer d = []))"

subsection \<open>What one more byte does to a boundary\<close>

definition partial_separators :: "bytes list" where
  "partial_separators = [[], [CR], [LF], [CR, LF]]"

lemma line_ending_len_Cons:
  "line_ending_len (a # s) =
     (if a = CR \<and> s \<noteq> [] \<and> hd s = LF then Some 2 else if is_eol a then Some 1 else None)"
  by (cases s) auto

declare line_ending_len.simps(2,3) [simp del]
declare line_ending_len_Cons [simp]

lemma boundary_here_none_append:
  assumes "boundary_here s = None" and "boundary_here (s @ t) = Some n"
  shows "s \<in> set partial_separators"
proof -
  consider "s = []" | a where "s = [a]" | a b where "s = [a, b]" | a b c where "s = [a, b, c]"
    | a b c d r where "s = a # b # c # d # r"
    by (metis list.exhaust)
  then show ?thesis
    using assms
    by cases (auto simp: boundary_here_def is_eol_def partial_separators_def
        split: option.splits if_splits list.splits)
qed

lemma boundary_here_snoc:
  assumes "boundary_here s = None" and "boundary_here (s @ [b]) = Some n"
  shows "n = length s + 1 \<and> boundary_here (s @ b # t)
    = Some (n + (if b = CR \<and> t \<noteq> [] \<and> hd t = LF then 1 else 0))"
  using boundary_here_none_append [OF assms] assms(2)
  by (cases t) (auto simp: boundary_here_def is_eol_def partial_separators_def
        split: if_splits)

lemma frame_boundary_snoc:
  assumes "frame_boundary buf = None" and "frame_boundary (buf @ [b]) = Some (e, n)"
  shows "e + n = length buf + 1 \<and> frame_boundary (buf @ b # t)
    = Some (e, n + (if b = CR \<and> t \<noteq> [] \<and> hd t = LF then 1 else 0))"
  using assms
proof (induction buf arbitrary: e)
  case Nil
  then show ?case by (simp add: boundary_here_def split: option.splits if_splits)
next
  case (Cons c s)
  have none: "boundary_here (c # s) = None" "frame_boundary s = None"
    using Cons.prems(1) by (auto split: option.splits)
  show ?case
  proof (cases "boundary_here ((c # s) @ [b])")
    case (Some m)
    with boundary_here_snoc [OF none(1) Some, of t] Cons.prems(2) show ?thesis by auto
  next
    case None
    with Cons.prems(2) obtain e' where e': "frame_boundary (s @ [b]) = Some (e', n)" "e = Suc e'"
      by auto
    have "boundary_here ((c # s @ [b]) @ t) = None"
    proof (rule ccontr)
      assume "boundary_here ((c # s @ [b]) @ t) \<noteq> None"
      then obtain m where "boundary_here ((c # s @ [b]) @ t) = Some m" by auto
      with boundary_here_none_append [of "c # s @ [b]"] None have "c # s @ [b] \<in> set partial_separators"
        by auto
      then have "s = []" by (auto simp: partial_separators_def)
      with e'(1) show False by (simp add: boundary_here_def split: option.splits if_splits)
    qed
    with Cons.IH [OF none(2) e'(1)] e'(2) show ?thesis by auto
  qed
qed

lemma frame_boundary_late:
  assumes "frame_boundary y = None" and "frame_boundary (y @ t) = Some (e, n)"
  shows "drop e y \<in> set partial_separators"
  using assms
proof (induction y arbitrary: e)
  case Nil
  then show ?case by (simp add: partial_separators_def)
next
  case (Cons c s)
  have none: "boundary_here (c # s) = None" "frame_boundary s = None"
    using Cons.prems(1) by (auto split: option.splits)
  show ?case
  proof (cases "boundary_here ((c # s) @ t)")
    case (Some m)
    with Cons.prems(2) boundary_here_none_append [OF none(1) Some] show ?thesis by auto
  next
    case None
    with Cons.prems(2) obtain e' where "frame_boundary (s @ t) = Some (e', n)" "e = Suc e'" by auto
    with Cons.IH [OF none(2)] show ?thesis by simp
  qed
qed

text \<open>A buffer that can no longer end in time stays so, and any frame found in it is too long.\<close>

lemma too_long_stays:
  assumes "\<not> can_still_terminate_within_limit y"
  shows "\<not> can_still_terminate_within_limit (y @ t)"
  using assms
  by (auto simp: can_still_terminate_within_limit_def list_ex_iff starts_with_prefix
      dest: append_prefixD)

lemma partial_separator_can_end:
  assumes "drop MAX_SSE_FRAME_BYTES y \<in> set partial_separators"
  shows "can_still_terminate_within_limit y"
  using assms
  by (auto simp: can_still_terminate_within_limit_def partial_separators_def SEPARATORS_def
      starts_with_def)

lemma partial_separators_drop: "s \<in> set partial_separators \<Longrightarrow> drop k s \<in> set partial_separators"
  by (auto simp: partial_separators_def drop_Cons split: nat.splits)

lemma late_frame_too_long:
  assumes "frame_boundary y = None" and "\<not> can_still_terminate_within_limit y"
    and "frame_boundary (y @ t) = Some (e, n)"
  shows "MAX_SSE_FRAME_BYTES < e"
proof (rule ccontr)
  assume "\<not> MAX_SSE_FRAME_BYTES < e"
  then have "drop MAX_SSE_FRAME_BYTES y = drop (MAX_SSE_FRAME_BYTES - e) (drop e y)" by simp
  moreover have "drop k (drop e y) \<in> set partial_separators" for k
    using frame_boundary_late [OF assms(1,3)] by (rule partial_separators_drop)
  ultimately show False using assms(2) partial_separator_can_end by metis
qed

subsection \<open>The inner loop is the byte automaton\<close>

abbreviation opt_list :: "'a option \<Rightarrow> 'a list" where
  "opt_list m \<equiv> (case m of None \<Rightarrow> [] | Some x \<Rightarrow> [x])"

lemma release_default [simp]: "release d = default_decoder"
  by (simp add: release_def default_decoder_def)

lemma can_end_empty [simp]: "can_still_terminate_within_limit []"
  by (simp add: can_still_terminate_within_limit_def)

lemma drain_poison: "drain_frames J d ms = Inl (d', batch) \<Longrightarrow> \<exists>ms' e. batch = Poison ms' e"
proof (induction J d ms rule: drain_frames.induct)
  case (1 J d ms)
  then show ?case
    by (subst (asm) (2) drain_frames.simps)
      (auto simp: Let_def split: option.splits prod.splits if_splits sum.splits)
qed

text \<open>What the outer loop does with one accepted window.\<close>

definition settle :: "json_api \<Rightarrow> decoder \<Rightarrow> mutation list \<Rightarrow> decoder \<times> decode_batch" where
  "settle J d ms =
     (case drain_frames J d ms of
        Inl p \<Rightarrow> p
      | Inr (d2, ms2) \<Rightarrow>
          if \<not> can_still_terminate_within_limit (buffer d2)
          then (default_decoder, Poison ms2 FrameTooLarge)
          else (d2, Complete ms2))"

lemma settle_none:
  assumes "frame_boundary buf = None"
  shows "settle J \<lparr>buffer = buf, skip_leading_lf = k\<rparr> ms =
    (if can_still_terminate_within_limit buf
     then (\<lparr>buffer = buf, skip_leading_lf = k\<rparr>, Complete ms)
     else (default_decoder, Poison ms FrameTooLarge))"
  using assms by (simp add: settle_def drain_frames.simps)

lemma settle_some:
  assumes "frame_boundary buf = Some (e, n)"
  shows "settle J \<lparr>buffer = buf, skip_leading_lf = k\<rparr> ms =
    (if e > MAX_SSE_FRAME_BYTES then (default_decoder, Poison ms FrameTooLarge)
     else (case process_frame J (take e buf) of
             Inl err \<Rightarrow> (default_decoder, Poison ms err)
           | Inr m \<Rightarrow> settle J \<lparr>buffer = drop (e + n) buf,
                 skip_leading_lf = (e + n = length buf \<and> buf ! (e + n - 1) = CR)\<rparr>
               (ms @ opt_list m)))"
  using assms
  by (simp add: settle_def drain_frames.simps [of J "\<lparr>buffer = buf, skip_leading_lf = k\<rparr>"]
      Let_def split: sum.splits option.splits)

lemma sse_bytes_skip_irrelevant:
  assumes "bs \<noteq> []" and "hd bs \<noteq> LF"
  shows "sse_bytes J \<lparr>buffer = buf, skip_leading_lf = k\<rparr> bs ms
    = sse_bytes J \<lparr>buffer = buf, skip_leading_lf = False\<rparr> bs ms"
  using assms by (cases bs) (simp_all add: sse_byte_def)

lemma dispatch_rest:
  assumes "e + n = length buf + 1" and "lf = (b = CR \<and> r \<noteq> [] \<and> hd r = LF)"
  defines "k \<equiv> e + (n + (if lf then 1 else 0))"
  shows "drop k (buf @ b # r) = drop (if lf then 1 else 0) r"
    and "(k = length (buf @ b # r) \<and> (buf @ b # r) ! (k - 1) = CR) = (r = [] \<and> b = CR)"
proof -
  have k: "k = length buf + 1 + (if lf then 1 else 0)" using assms(1) by (simp add: k_def)
  show "drop k (buf @ b # r) = drop (if lf then 1 else 0) r" by (simp add: k)
  show "(k = length (buf @ b # r) \<and> (buf @ b # r) ! (k - 1) = CR) = (r = [] \<and> b = CR)"
    unfolding k by (cases r) (auto simp: assms(2) nth_append)
qed

lemma settle_too_long:
  assumes "frame_boundary y = None" and "\<not> can_still_terminate_within_limit y"
  shows "settle J \<lparr>buffer = y @ r, skip_leading_lf = False\<rparr> ms
    = (default_decoder, Poison ms FrameTooLarge)"
proof (cases "frame_boundary (y @ r)")
  case None
  with too_long_stays [OF assms(2)] show ?thesis by (simp add: settle_none)
next
  case (Some p)
  obtain e n where p: "p = (e, n)" by force
  with late_frame_too_long [OF assms] Some have "MAX_SSE_FRAME_BYTES < e" by simp
  with Some p show ?thesis by (subst settle_some) auto
qed

text \<open>After a dispatch the rest of the window starts with an empty buffer.\<close>

lemma settle_rest:
  assumes "\<And>r'. length r' \<le> length r \<Longrightarrow>
      settle J \<lparr>buffer = r', skip_leading_lf = False\<rparr> ms
        = sse_bytes J \<lparr>buffer = [], skip_leading_lf = False\<rparr> r' ms"
    and pending: "lf = (b = CR \<and> r \<noteq> [] \<and> hd r = LF)"
  shows "settle J \<lparr>buffer = drop (if lf then 1 else 0) r, skip_leading_lf = (r = [] \<and> b = CR)\<rparr> ms
    = sse_bytes J \<lparr>buffer = [], skip_leading_lf = (b = CR)\<rparr> r ms"
proof -
  consider (empty) "r = []" | (crlf) r' where "r = LF # r'" "b = CR" "lf"
    | (other) "r \<noteq> []" "\<not> lf" "b = CR \<longrightarrow> hd r \<noteq> LF"
    using pending by (cases r) auto
  then show ?thesis
  proof cases
    case empty
    then show ?thesis using pending by (simp add: settle_none)
  next
    case (crlf r')
    with assms(1) [of r'] show ?thesis by (simp add: sse_byte_def)
  next
    case other
    with assms(1) [of r] sse_bytes_skip_irrelevant [of r J "[]" True ms] show ?thesis
      by (cases "b = CR") simp_all
  qed
qed

lemma settle_dispatch:
  assumes "frame_boundary buf = None" and "frame_boundary (buf @ [b]) = Some (e, n)"
    and IH: "\<And>r' ms. length r' \<le> length r \<Longrightarrow>
      settle J \<lparr>buffer = r', skip_leading_lf = False\<rparr> ms
        = sse_bytes J \<lparr>buffer = [], skip_leading_lf = False\<rparr> r' ms"
  shows "settle J \<lparr>buffer = buf @ b # r, skip_leading_lf = False\<rparr> ms
    = sse_bytes J \<lparr>buffer = buf, skip_leading_lf = False\<rparr> (b # r) ms"
proof -
  define lf where "lf = (b = CR \<and> r \<noteq> [] \<and> hd r = LF)"
  have len: "e + n = length buf + 1"
    and fb: "frame_boundary (buf @ b # r) = Some (e, n + (if lf then 1 else 0))"
    using frame_boundary_snoc [OF assms(1,2), of r] by (simp_all add: lf_def)
  have "2 \<le> n" using frame_boundary_len [OF assms(2)] by simp
  then have frame: "take e (buf @ b # r) = take e buf" "take e (buf @ [b]) = take e buf"
    using len by simp_all
  note step = sse_byte_def [of J "\<lparr>buffer = buf, skip_leading_lf = False\<rparr>" b]
  show ?thesis
  proof (cases "MAX_SSE_FRAME_BYTES < e")
    case True
    with fb assms(2) step show ?thesis by (simp add: settle_some)
  next
    case small: False
    show ?thesis
    proof (cases "process_frame J (take e buf)")
      case (Inl err)
      with fb assms(2) small step frame show ?thesis by (simp add: settle_some)
    next
      case (Inr m)
      have "settle J \<lparr>buffer = buf @ b # r, skip_leading_lf = False\<rparr> ms
        = settle J \<lparr>buffer = drop (if lf then 1 else 0) r, skip_leading_lf = (r = [] \<and> b = CR)\<rparr>
            (ms @ opt_list m)"
        using settle_some [OF fb, of J False ms] dispatch_rest [OF len lf_def] small frame Inr
        by (simp add: add.assoc)
      also have "\<dots> = sse_bytes J \<lparr>buffer = [], skip_leading_lf = (b = CR)\<rparr> r (ms @ opt_list m)"
        by (rule settle_rest [OF IH lf_def])
      finally show ?thesis using assms(2) small step frame Inr by simp
    qed
  qed
qed

lemma settle_bytes:
  assumes "frame_boundary buf = None" and "can_still_terminate_within_limit buf"
  shows "settle J \<lparr>buffer = buf @ bs, skip_leading_lf = False\<rparr> ms
    = sse_bytes J \<lparr>buffer = buf, skip_leading_lf = False\<rparr> bs ms"
  using assms
proof (induction "length bs" arbitrary: buf bs ms rule: less_induct)
  case less
  show ?case
  proof (cases bs)
    case Nil
    with less.prems show ?thesis by (simp add: settle_none)
  next
    case (Cons b r)
    note step = sse_byte_def [of J "\<lparr>buffer = buf, skip_leading_lf = False\<rparr>" b]
    show ?thesis
    proof (cases "frame_boundary (buf @ [b])")
      case None
      then show ?thesis
        using less.hyps [of r "buf @ [b]" ms] settle_too_long [OF None, of J r ms] Cons step
        by (cases "can_still_terminate_within_limit (buf @ [b])") simp_all
    next
      case (Some p)
      have "settle J \<lparr>buffer = r', skip_leading_lf = False\<rparr> ms'
          = sse_bytes J \<lparr>buffer = [], skip_leading_lf = False\<rparr> r' ms'"
        if "length r' \<le> length r" for r' ms'
        using less.hyps [of r' "[]" ms'] that Cons by simp
      with settle_dispatch [OF less.prems(1), of b] Some Cons show ?thesis
        by (cases p) simp
    qed
  qed
qed

subsection \<open>The invariant and its bound\<close>

lemma decoder_inv_default: "decoder_inv default_decoder"
  by (simp add: decoder_inv_def default_decoder_def)

lemma sse_byte_inv: "decoder_inv d \<Longrightarrow> sse_byte J d b = Inr (d', m) \<Longrightarrow> decoder_inv d'"
  by (auto simp: sse_byte_def decoder_inv_def Let_def
      split: if_splits option.splits sum.splits prod.splits)

lemma sse_bytes_inv: "decoder_inv d \<Longrightarrow> decoder_inv (fst (sse_bytes J d bs ms))"
  by (induction bs arbitrary: d ms)
    (auto simp: decoder_inv_default dest: sse_byte_inv split: sum.splits)

lemma boundary_here_drop: "frame_boundary buf = None \<Longrightarrow> boundary_here (drop k buf) = None"
proof (induction buf arbitrary: k)
  case Nil
  then show ?case by (simp add: boundary_here_def)
next
  case (Cons c s)
  then show ?case by (cases k) (auto split: option.splits)
qed

lemma unfinished_window:
  assumes "frame_boundary buf = None" and "can_still_terminate_within_limit buf"
  shows "length buf \<le> MAX_SSE_FRAME_BYTES + 2"
proof (cases "length buf \<le> MAX_SSE_FRAME_BYTES")
  case False
  define t where "t = drop MAX_SSE_FRAME_BYTES buf"
  have none: "boundary_here t = None"
    unfolding t_def by (rule boundary_here_drop [OF assms(1)])
  from False assms(2) obtain sep where "sep \<in> set SEPARATORS" "prefix t sep"
    by (auto simp: can_still_terminate_within_limit_def list_ex_iff starts_with_prefix t_def)
  then have "length t \<le> 2"
    using none by (auto simp: SEPARATORS_def prefix_Cons boundary_here_def is_eol_def)
  then have "length buf - MAX_SSE_FRAME_BYTES \<le> 2" by (simp add: t_def)
  then show ?thesis by simp
qed simp

lemma decoder_inv_bound: "decoder_inv d \<Longrightarrow> length (buffer d) \<le> MAX_SSE_FRAME_BYTES + 2"
  using unfinished_window by (simp add: decoder_inv_def)

subsection \<open>\<open>push\<close> is the byte automaton\<close>

lemma sse_bytes_append:
  "sse_bytes J d (xs @ ys) ms =
     (case sse_bytes J d xs ms of
        (d', Complete ms') \<Rightarrow> sse_bytes J d' ys ms'
      | (d', Poison ms' e) \<Rightarrow> (d', Poison ms' e))"
  by (induction xs arbitrary: d ms) (auto split: sum.splits)

lemma sse_bytes_acc:
  "sse_bytes J d bs ms =
     (case sse_bytes J d bs [] of
        (d', Complete new) \<Rightarrow> (d', Complete (ms @ new))
      | (d', Poison new e) \<Rightarrow> (d', Poison (ms @ new) e))"
proof (induction bs arbitrary: d ms)
  case Nil
  then show ?case by simp
next
  case (Cons b bs)
  show ?case
  proof (cases "sse_byte J d b")
    case (Inr p)
    obtain d' m where p: "p = (d', m)" by force
    show ?thesis
      using Cons.IH [of d' "ms @ opt_list m"] Cons.IH [of d' "opt_list m"] Inr p
      by (auto split: prod.splits decode_batch.splits)
  qed simp
qed

lemma push_loop_window:
  assumes "\<not> (skip_leading_lf d \<and> hd bs = LF)" and "bs \<noteq> []"
    and "k = min (length bs) (MAX_SSE_FRAME_BYTES + MAX_SSE_SEPARATOR_BYTES - length (buffer d))"
    and "0 < k"
  shows "push_loop J d bs ms =
    (case settle J \<lparr>buffer = buffer d @ take k bs, skip_leading_lf = False\<rparr> ms of
       (d', Complete ms') \<Rightarrow> push_loop J d' (drop k bs) ms'
     | (d', Poison ms' e) \<Rightarrow> (d', Poison ms' e))"
proof -
  have d1: "d\<lparr>skip_leading_lf := False, buffer := x\<rparr> = \<lparr>buffer = x, skip_leading_lf = False\<rparr>" for x
    by (cases d) simp
  have "MAX_SSE_FRAME_BYTES + MAX_SSE_SEPARATOR_BYTES - length (buffer d) \<noteq> 0"
    using assms(3,4) by linarith
  then have "push_loop J d bs ms =
    (case drain_frames J \<lparr>buffer = buffer d @ take k bs, skip_leading_lf = False\<rparr> ms of
       Inl p \<Rightarrow> p
     | Inr (d2, ms2) \<Rightarrow>
         if \<not> can_still_terminate_within_limit (buffer d2)
         then (default_decoder, Poison ms2 FrameTooLarge)
         else push_loop J d2 (drop k bs) ms2)"
    unfolding assms(3) using assms(1,2) by (subst push_loop.simps) (auto simp: Let_def d1 split: sum.split)
  then show ?thesis
    using drain_poison [of J "\<lparr>buffer = buffer d @ take k bs, skip_leading_lf = False\<rparr>" ms]
    by (fastforce simp: settle_def split: sum.splits prod.splits decode_batch.splits)
qed

theorem push_loop_bytes: "decoder_inv d \<Longrightarrow> push_loop J d bs ms = sse_bytes J d bs ms"
proof (induction "length bs" arbitrary: d bs ms rule: less_induct)
  case less
  show ?case
  proof (cases "bs = []")
    case True
    then show ?thesis by (simp add: push_loop.simps)
  next
    case nonempty: False
    then obtain b r where bs: "bs = b # r" by (cases bs) auto
    show ?thesis
    proof (cases "skip_leading_lf d \<and> b = LF")
      case True
      have "decoder_inv (d\<lparr>skip_leading_lf := False\<rparr>)"
        using less.prems by (simp add: decoder_inv_def)
      with less.hyps [of r] True bs show ?thesis
        by (simp add: push_loop.simps [of J d] sse_byte_def)
    next
      case False
      define k where "k = min (length bs) (MAX_SSE_FRAME_BYTES + MAX_SSE_SEPARATOR_BYTES - length (buffer d))"
      have k: "0 < k" using decoder_inv_bound [OF less.prems] nonempty
        by (simp add: k_def MAX_SSE_SEPARATOR_BYTES_def)
      have inv: "frame_boundary (buffer d) = None" "can_still_terminate_within_limit (buffer d)"
        using less.prems by (simp_all add: decoder_inv_def)
      have skip: "sse_bytes J d xs ms = sse_bytes J \<lparr>buffer = buffer d, skip_leading_lf = False\<rparr> xs ms"
        if "xs \<noteq> []" "hd xs = b" for xs
        using False that sse_bytes_skip_irrelevant [of xs J "buffer d" True ms]
        by (cases d) (cases "skip_leading_lf d", auto)
      have head: "take k bs \<noteq> []" "hd (take k bs) = b" using k bs by (auto simp: hd_take)
      have window: "settle J \<lparr>buffer = buffer d @ take k bs, skip_leading_lf = False\<rparr> ms
          = sse_bytes J d (take k bs) ms"
        using settle_bytes [OF inv] skip [OF head] by simp
      have inv': "decoder_inv (fst (sse_bytes J d (take k bs) ms))"
        by (rule sse_bytes_inv [OF less.prems])
      have "push_loop J d bs ms =
          (case settle J \<lparr>buffer = buffer d @ take k bs, skip_leading_lf = False\<rparr> ms of
             (d', Complete ms') \<Rightarrow> push_loop J d' (drop k bs) ms'
           | (d', Poison ms' e) \<Rightarrow> (d', Poison ms' e))"
        using False bs k by (intro push_loop_window) (simp_all add: k_def)
      also have "\<dots> = sse_bytes J d (take k bs @ drop k bs) ms"
        unfolding window sse_bytes_append
        using less.hyps [of "drop k bs"] inv' k nonempty
        by (auto split: prod.splits decode_batch.splits)
      finally show ?thesis by simp
    qed
  qed
qed

lemma push_bytes: "decoder_inv d \<Longrightarrow> push J d bs = sse_bytes J d bs []"
  by (simp add: push_def push_loop_bytes)

lemma push_all_bytes: "decoder_inv d \<Longrightarrow> push_all J d chunks ms = sse_bytes J d (concat chunks) ms"
proof (induction chunks arbitrary: d ms)
  case Nil
  then show ?case by simp
next
  case (Cons c cs)
  have inv: "decoder_inv (fst (sse_bytes J d c []))" by (rule sse_bytes_inv [OF Cons.prems])
  show ?case
    using Cons.IH [of "fst (sse_bytes J d c [])"] inv sse_bytes_acc [of J d c ms]
      push_bytes [OF Cons.prems, of J c]
    by (auto simp: sse_bytes_append split: prod.splits decode_batch.splits)
qed

lemma sse_bytes_poison: "sse_bytes J d bs ms = (d', Poison ms' e) \<Longrightarrow> d' = default_decoder"
  by (induction bs arbitrary: d ms) (auto split: sum.splits)

subsection \<open>Properties\<close>

text \<open>
  C23: how the transport cuts the stream into chunks does not matter. Pushing any chunks one
  after the other, up to the first rejected frame, gives the mutations, the error and the final
  decoder state of pushing their concatenation at once, and both are those of the reference
  automaton that reads one byte at a time. This covers a CRLF split across chunks, every mix of
  CR, LF and CRLF separators, chunks longer than the buffer limit, and frames at the limit.
\<close>

theorem chunking_is_irrelevant:
  "push_all J default_decoder chunks [] = push J default_decoder (concat chunks)
   \<and> push J default_decoder bs = sse_bytes J default_decoder bs []"
  by (simp add: push_all_bytes push_bytes decoder_inv_default)

text \<open>
  Whatever chunks arrive, the decoder never holds more than two bytes beyond the 64 KiB frame
  limit, never holds a complete frame, and after a rejected frame holds nothing at all.
\<close>

theorem decoder_memory_is_bounded:
  "length (buffer (fst (push_all J default_decoder chunks []))) \<le> MAX_SSE_FRAME_BYTES + 2
   \<and> frame_boundary (buffer (fst (push_all J default_decoder chunks []))) = None
   \<and> (case snd (push_all J default_decoder chunks []) of
        Complete _ \<Rightarrow> True
      | Poison _ _ \<Rightarrow> fst (push_all J default_decoder chunks []) = default_decoder)"
proof -
  obtain d batch where run: "push_all J default_decoder chunks [] = (d, batch)" by force
  then have bytes: "sse_bytes J default_decoder (concat chunks) [] = (d, batch)"
    by (simp add: push_all_bytes decoder_inv_default)
  then have "decoder_inv d"
    using sse_bytes_inv [OF decoder_inv_default, of J "concat chunks" "[]"] by simp
  with bytes run sse_bytes_poison decoder_inv_bound show ?thesis
    by (auto simp: decoder_inv_def split: decode_batch.splits)
qed

subsection \<open>What an accepted frame guarantees\<close>

lemma sse_field_ignored: "ignored_line line \<Longrightarrow> fst (sse_field line) = []"
  by (cases line) (auto simp: ignored_line_def sse_field_def starts_with_def split: if_splits)

lemma scan_lines_id:
  assumes "scan_lines lines acc = Inr f"
  shows "f_id f = (case rev (map snd (filter (\<lambda>(n, _). n = ''id'') (map sse_field lines))) of
      [] \<Rightarrow> f_id acc
    | v # _ \<Rightarrow> Some (strip_space v))"
  using assms
proof (induction lines arbitrary: acc)
  case Nil
  then show ?case by simp
next
  case (Cons line lines)
  show ?case
  proof (cases "ignored_line line")
    case True
    with Cons sse_field_ignored [OF True] show ?thesis by (auto split: prod.splits)
  next
    case False
    obtain n raw where field: "sse_field line = (n, raw)" by force
    with Cons.prems False obtain v where v: "from_utf8 (strip_space raw) = Inr v"
      by (auto split: sum.splits)
    with Cons.prems False field from_utf8_same [OF v] show ?thesis
      by (auto simp: Cons.IH split: if_splits list.splits)
  qed
qed

lemma scan_lines_data:
  assumes "scan_lines lines acc = Inr f"
  shows "f_data f = f_data acc
    @ map strip_space (map snd (filter (\<lambda>(n, _). n = ''data'') (map sse_field lines)))"
  using assms
proof (induction lines arbitrary: acc)
  case Nil
  then show ?case by simp
next
  case (Cons line lines)
  show ?case
  proof (cases "ignored_line line")
    case True
    with Cons sse_field_ignored [OF True] show ?thesis by (auto split: prod.splits)
  next
    case False
    obtain n raw where field: "sse_field line = (n, raw)" by force
    with Cons.prems False obtain v where v: "from_utf8 (strip_space raw) = Inr v"
      by (auto split: sum.splits)
    with Cons.prems False field from_utf8_same [OF v] show ?thesis
      by (auto simp: Cons.IH split: if_splits)
  qed
qed

lemma scan_lines_id_utf8:
  assumes "scan_lines lines acc = Inr f" and "\<forall>v. f_id acc = Some v \<longrightarrow> from_utf8 v = Inr v"
  shows "f_id f = Some v \<Longrightarrow> from_utf8 v = Inr v"
  using assms
proof (induction lines arbitrary: acc)
  case Nil
  then show ?case by simp
next
  case (Cons line lines)
  show ?case
  proof (cases "ignored_line line")
    case True
    with Cons show ?thesis by simp
  next
    case False
    obtain n raw where field: "sse_field line = (n, raw)" by force
    with Cons.prems False obtain v where v: "from_utf8 (strip_space raw) = Inr v"
      by (auto split: sum.splits)
    with Cons.prems False field from_utf8_same [OF v] show ?thesis
      by (auto intro: Cons.IH split: if_splits)
  qed
qed

text \<open>The value of the last \<open>id\<close> line, the one both readers of the frame use.\<close>

definition last_id :: "bytes \<Rightarrow> string option" where
  "last_id frame =
     (case rev (field_values ''id'' frame) of [] \<Rightarrow> None | v # _ \<Rightarrow> Some (strip_space v))"

lemma decode_sse_frame_Inr:
  assumes "decode_sse_frame J frame = Inr m"
  obtains sse_id env where
    "parse_envelope J (join_lines (map strip_space (field_values ''data'' frame))) = Inr env"
    and "sse_id_of (last_id frame) = Inr sse_id"
    and "\<forall>v. last_id frame = Some v \<longrightarrow> from_utf8 v = Inr v"
    and "reconcile_event_id sse_id (env_event_id env) = Inr (mu_event_id m)"
    and "env_region env = Us"
    and "env_action env \<in> {None, Some (kind_as_str (mu_kind m))}"
    and "new_action_id (pl_id (env_ca env)) = Some (da_id (mu_action m))"
    and "new_action_symbol (pl_symbol (env_ca env)) = Some (da_underlying (mu_action m))"
    and "da_ex_date (mu_action m) = pl_ex_date (env_ca env)"
proof -
  from assms obtain f sse_id env action kind where
    f: "scan_lines (sse_lines frame) \<lparr>f_id = None, f_event = None, f_data = []\<rparr> = Inr f"
    and id: "sse_id_of (f_id f) = Inr sse_id"
    and env: "parse_envelope J (join_lines (f_data f)) = Inr env"
    and rec: "reconcile_event_id sse_id (env_event_id env) = Inr (mu_event_id m)"
    and act: "reconcile_mutation (f_event f) (env_action env) = Inr action"
    and kind: "parse_kind action = Some (mu_kind m)"
    and rest: "env_region env \<noteq> NonUs"
      "new_action_id (pl_id (env_ca env)) = Some (da_id (mu_action m))"
      "new_action_symbol (pl_symbol (env_ca env)) = Some (da_underlying (mu_action m))"
      "da_ex_date (mu_action m) = pl_ex_date (env_ca env)"
    unfolding decode_sse_frame_def result_iffs by auto
  have action: "env_action env \<in> {None, Some (kind_as_str (mu_kind m))}"
    using act kind
    by (auto simp: reconcile_mutation_def parse_kind_inverts split: option.splits if_splits)
  have region: "env_region env = Us" using rest(1) by (cases "env_region env") simp_all
  have last: "last_id frame = f_id f"
    using scan_lines_id [OF f] by (simp add: last_id_def field_values_def split: list.splits)
  have data: "f_data f = map strip_space (field_values ''data'' frame)"
    using scan_lines_data [OF f] by (simp add: field_values_def)
  have utf8: "\<forall>v. last_id frame = Some v \<longrightarrow> from_utf8 v = Inr v"
    using scan_lines_id_utf8 [OF f] last by simp
  show ?thesis
    by (rule that [of env sse_id]) (use id env rec action region rest(2-4) last data utf8 in simp_all)
qed

lemma sse_event_identity_last:
  assumes "sse_id_of (last_id frame) = Inr sse_id"
    and "\<forall>v. last_id frame = Some v \<longrightarrow> from_utf8 v = Inr v"
  shows "sse_event_identity frame = (case sse_id of None \<Rightarrow> Absent | Some e \<Rightarrow> Valid e)"
  using assms
  by (auto simp: sse_event_identity_def last_id_def sse_id_of_def new_event_id_def
      split: list.splits option.splits if_splits)

lemma reconcile_event_id_Inr:
  assumes "reconcile_event_id sse pay = Inr e"
    and "\<forall>s. sse = Some s \<longrightarrow> ulid_valid (event_id_str s)"
  shows "ulid_valid (event_id_str e) \<and> sse \<in> {None, Some e} \<and> pay \<in> {None, Some (event_id_str e)}"
  using assms
  by (auto simp: reconcile_event_id_def new_event_id_def split: option.splits if_splits)

text \<open>
  A frame becomes a mutation only when its identities agree. The mutation's event id is a
  valid ULID; it is the id of the frame's last SSE \<open>id\<close> line when there is one (the id an error
  for this frame would have reported), and the payload's \<open>event_id\<close> when there is one; the
  payload's \<open>action\<close>, when present, spells the mutation kind; the region is \<open>us\<close>; and id,
  symbol (trimmed) and ex-date are the payload's.
\<close>

theorem accepted_frame_identity:
  assumes "process_frame J frame = Inr (Some m)"
  shows "ulid_valid (event_id_str (mu_event_id m))
    \<and> sse_event_identity frame \<in> {Absent, Valid (mu_event_id m)}
    \<and> (\<exists>env. parse_envelope J (join_lines (map strip_space (field_values ''data'' frame))) = Inr env
        \<and> env_region env = Us
        \<and> env_event_id env \<in> {None, Some (event_id_str (mu_event_id m))}
        \<and> env_action env \<in> {None, Some (kind_as_str (mu_kind m))}
        \<and> action_id_str (da_id (mu_action m)) = pl_id (env_ca env)
        \<and> action_symbol_str (da_underlying (mu_action m)) = trim (pl_symbol (env_ca env))
        \<and> da_ex_date (mu_action m) = pl_ex_date (env_ca env))"
proof -
  from assms have dec: "decode_sse_frame J frame = Inr m"
    by (auto simp: process_frame_def Let_def split: sum.splits if_splits dest: from_utf8_same)
  from dec show ?thesis
  proof (rule decode_sse_frame_Inr, goal_cases)
    case (1 sse_id env)
    have "\<forall>s. sse_id = Some s \<longrightarrow> ulid_valid (event_id_str s)"
      using 1(2) by (auto simp: sse_id_of_def new_event_id_def split: option.splits if_splits)
    then have ids: "ulid_valid (event_id_str (mu_event_id m))"
      "sse_id \<in> {None, Some (mu_event_id m)}"
      "env_event_id env \<in> {None, Some (event_id_str (mu_event_id m))}"
      using reconcile_event_id_Inr [OF 1(4)] by blast+
    have "sse_event_identity frame \<in> {Absent, Valid (mu_event_id m)}"
      using sse_event_identity_last [OF 1(2,3)] ids(2) by auto
    moreover have "action_id_str (da_id (mu_action m)) = pl_id (env_ca env)"
      using 1(7) unfolding new_action_id_def by (metis action_id.sel option.distinct(1) option.inject)
    moreover have "action_symbol_str (da_underlying (mu_action m)) = trim (pl_symbol (env_ca env))"
      using 1(8) unfolding new_action_symbol_def Let_def
      by (metis action_symbol.sel option.distinct(1) option.inject)
    ultimately show ?thesis using 1(1,5,6,9) ids by blast
  qed
qed


definition sample_json :: json_api where
  "sample_json = \<lparr>
     parse_envelope = (\<lambda>s. if s = ''{}'' then Inr \<lparr>
         env_event_id = Some ''01ARZ3NDEKTSV4RRFFQ69G5FAV'', env_action = Some ''insert'',
         env_event_type = CashDividend, env_region = Us,
         env_ca = \<lparr>pl_id = ''a1'', pl_symbol = '' AAPL'', pl_ex_date = (2026, 3, 2)\<rparr>\<rparr>
       else Inl ''json''),
     parse_identity = (\<lambda>_. Inr None)\<rparr>"

definition sample_frame :: bytes where
  "sample_frame = ''id: 01ARZ3NDEKTSV4RRFFQ69G5FAV'' @ [LF] @ ''event: insert'' @ [LF] @ ''data: {}''"

definition sample_mutation :: mutation where
  "sample_mutation = \<lparr>
     mu_event_id = EventId ''01ARZ3NDEKTSV4RRFFQ69G5FAV'', mu_kind = Insert,
     mu_action = \<lparr>da_id = ActionId ''a1'', da_underlying = ActionSymbol ''AAPL'',
                  da_ex_date = (2026, 3, 2)\<rparr>\<rparr>"

lemma sample_frame_accepted: "process_frame sample_json sample_frame = Inr (Some sample_mutation)"
  by code_simp

theorem accepted_frame_identity_witness:
  "process_frame sample_json sample_frame = Inr (Some sample_mutation)
   \<and> sse_event_identity sample_frame \<in> {Absent, Valid (mu_event_id sample_mutation)}"
  using accepted_frame_identity [OF sample_frame_accepted] sample_frame_accepted by blast

end
