(* ===== verification/Http.thy ===== *)
theory Http
  imports Prelude
begin

text \<open>
  What the clients see of HTTP. A status code is a number from 100 to 999; a header map is the
  list of its fields in order, names in lower case; an error of the HTTP client (reqwest) is a
  record of what its accessors answer. Shared by every component that talks to Alpaca.
\<close>

subsection \<open>Status codes\<close>

type_synonym status_code = nat

definition status_from_u16 :: "nat \<Rightarrow> status_code option" where
  "status_from_u16 n = (if 100 \<le> n \<and> n \<le> 999 then Some n else None)"

definition is_success :: "status_code \<Rightarrow> bool" where
  "is_success s = (200 \<le> s \<and> s < 300)"

definition is_redirection :: "status_code \<Rightarrow> bool" where
  "is_redirection s = (300 \<le> s \<and> s < 400)"

definition is_client_error :: "status_code \<Rightarrow> bool" where
  "is_client_error s = (400 \<le> s \<and> s < 500)"

definition is_server_error :: "status_code \<Rightarrow> bool" where
  "is_server_error s = (500 \<le> s \<and> s < 600)"

lemmas status_defs = is_success_def is_redirection_def is_client_error_def is_server_error_def

subsection \<open>Headers\<close>

type_synonym headers = "(string \<times> bytes) list"

text \<open>\<open>HeaderMap::get\<close> is the first field of that name; \<open>HeaderValue::to_str\<close> reads visible ASCII and tabs.\<close>

definition header_get :: "headers \<Rightarrow> string \<Rightarrow> bytes option" where
  "header_get hs n = map_of hs n"

definition header_to_str :: "bytes \<Rightarrow> string option" where
  "header_to_str v = (if list_all (\<lambda>b. between 32 126 b \<or> b = CHR 0x09) v then Some v else None)"

definition header_text :: "headers \<Rightarrow> string \<Rightarrow> string option" where
  "header_text hs n = Option.bind (header_get hs n) header_to_str"

subsection \<open>Errors of the HTTP client\<close>

record reqwest_error =
  is_builder :: bool
  is_connect :: bool
  is_timeout :: bool
  is_decode :: bool
  error_text :: string

end
