(* ===== verification/Gate.thy ===== *)
theory Gate
  imports Http
begin

text \<open>
  The send gate and the traffic a call collects (\<^verbatim>\<open>src/request_id.rs\<close>).

  Clones of a \<open>SendGate\<close> share one gate, so gates live in a store and a task names its gate by
  its key. \<open>is_open\<close> is the closure the gate was built with; it reads its environment (the
  clock, a shutdown flag), which is the type parameter \<open>'env\<close>. The three task-local variables are
  the record \<open>locals\<close>: \<open>None\<close> is a variable outside every scope. A future is a function on the
  state it runs in, and a scope sets one variable for the future it runs and restores it.

  \<open>one_way_gate\<close> states what the callers of a gate rely on, for any interleaving of starts,
  closes and changes of the environment.
\<close>

subsection \<open>State\<close>

definition ALPACA_REQUEST_ID_HEADER :: string where
  "ALPACA_REQUEST_ID_HEADER = ''x-request-id''"

record traffic =
  request_ids :: "string list"
  last_status :: "nat option"

definition default_traffic :: traffic where
  "default_traffic = \<lparr>request_ids = [], last_status = None\<rparr>"

record 'env gate =
  closed :: bool
  is_open :: "'env \<Rightarrow> bool"

datatype gate_closed = GateClosed

datatype send_error = SendHttp reqwest_error | SendNotSent gate_closed

record locals =
  TRAFFIC :: "traffic option"
  GATE :: "nat option"
  LAST_ANSWER :: "nat option option"

text \<open>
  The state a future runs in: the task's local variables, the shared gates, and the requests
  handed to the HTTP client so far (by any task), the newest last.
\<close>

record ('env, 'req) net =
  locals :: locals
  gates :: "nat \<Rightarrow> 'env gate"
  handed :: "'req list"

subsection \<open>The gate\<close>

definition new_gate :: "('env \<Rightarrow> bool) \<Rightarrow> 'env gate" where
  "new_gate f = \<lparr>closed = False, is_open = f\<rparr>"

definition close :: "'env gate \<Rightarrow> 'env gate" where
  "close g = g\<lparr>closed := True\<rparr>"

definition hold :: "'env gate \<Rightarrow> 'env \<Rightarrow> gate_closed + unit" where
  "hold g env = (if closed g \<or> \<not> is_open g env then Inl GateClosed else Inr ())"

definition start :: "'env \<Rightarrow> 'req \<Rightarrow> ('env, 'req) net \<Rightarrow> (send_error + unit) \<times> ('env, 'req) net" where
  "start env req n =
     (case GATE (locals n) of
        None \<Rightarrow> (Inr (), n\<lparr>handed := handed n @ [req]\<rparr>)
      | Some g \<Rightarrow>
          (case hold (gates n g) env of
             Inl e \<Rightarrow> (Inl (SendNotSent e), n)
           | Inr _ \<Rightarrow> (Inr (), n\<lparr>handed := handed n @ [req]\<rparr>)))"

text \<open>\<open>http\<close> is the HTTP client's answer to the request it was handed.\<close>

definition send ::
  "('req \<Rightarrow> reqwest_error + 'resp) \<Rightarrow> 'env \<Rightarrow> 'req \<Rightarrow> ('env, 'req) net
   \<Rightarrow> (send_error + 'resp) \<times> ('env, 'req) net" where
  "send http env req n =
     (case start env req n of
        (Inl e, n') \<Rightarrow> (Inl e, n')
      | (Inr _, n') \<Rightarrow> (map_err SendHttp (http req), n'))"

definition ensure_open :: "'env \<Rightarrow> ('env, 'req) net \<Rightarrow> gate_closed + unit" where
  "ensure_open env n =
     (case GATE (locals n) of None \<Rightarrow> Inr () | Some g \<Rightarrow> hold (gates n g) env)"

subsection \<open>Scopes\<close>

definition collect ::
  "(('env, 'req) net \<Rightarrow> 'a \<times> ('env, 'req) net) \<Rightarrow> ('env, 'req) net
   \<Rightarrow> ('a \<times> traffic) \<times> ('env, 'req) net" where
  "collect future n =
     (case future (n\<lparr>locals := (locals n)\<lparr>TRAFFIC := Some default_traffic\<rparr>\<rparr>) of
        (output, n') \<Rightarrow>
          ((output, unwrap_or (TRAFFIC (locals n')) default_traffic),
           n'\<lparr>locals := (locals n')\<lparr>TRAFFIC := TRAFFIC (locals n)\<rparr>\<rparr>))"

definition tracking_last_answer ::
  "(('env, 'req) net \<Rightarrow> 'a \<times> ('env, 'req) net) \<Rightarrow> ('env, 'req) net
   \<Rightarrow> 'a \<times> ('env, 'req) net" where
  "tracking_last_answer future n =
     (case future (n\<lparr>locals := (locals n)\<lparr>LAST_ANSWER := Some None\<rparr>\<rparr>) of
        (output, n') \<Rightarrow>
          (output, n'\<lparr>locals := (locals n')\<lparr>LAST_ANSWER := LAST_ANSWER (locals n)\<rparr>\<rparr>))"

definition last_answer :: "locals \<Rightarrow> nat option" where
  "last_answer l = Option.bind (LAST_ANSWER l) (\<lambda>x. x)"

definition gated ::
  "nat \<Rightarrow> (('env, 'req) net \<Rightarrow> 'a \<times> ('env, 'req) net) \<Rightarrow> ('env, 'req) net
   \<Rightarrow> 'a \<times> ('env, 'req) net" where
  "gated g future n =
     (case future (n\<lparr>locals := (locals n)\<lparr>GATE := Some g\<rparr>\<rparr>) of
        (output, n') \<Rightarrow> (output, n'\<lparr>locals := (locals n')\<lparr>GATE := GATE (locals n)\<rparr>\<rparr>))"

subsection \<open>Recording answers\<close>

definition update :: "(traffic \<Rightarrow> traffic) \<Rightarrow> locals \<Rightarrow> locals" where
  "update change l = l\<lparr>TRAFFIC := map_option change (TRAFFIC l)\<rparr>"

definition record_id :: "headers \<Rightarrow> locals \<Rightarrow> locals" where
  "record_id hs l =
     (case header_text hs ALPACA_REQUEST_ID_HEADER of
        None \<Rightarrow> l
      | Some rid \<Rightarrow> update (\<lambda>t. t\<lparr>request_ids := request_ids t @ [rid]\<rparr>) l)"

definition record_answer :: "status_code \<Rightarrow> headers \<Rightarrow> locals \<Rightarrow> locals" where
  "record_answer status hs l =
     record_id hs
       ((update (\<lambda>t. t\<lparr>last_status := Some status\<rparr>) l)
          \<lparr>LAST_ANSWER := map_option (\<lambda>_. Some status) (LAST_ANSWER l)\<rparr>)"

text \<open>The answers one future gets: Alpaca API answers and credential mint answers.\<close>

datatype answer_seen = Api_Answer status_code headers | Mint_Answer headers

fun record_seen :: "answer_seen \<Rightarrow> locals \<Rightarrow> locals" where
  "record_seen (Api_Answer status hs) l = record_answer status hs l"
| "record_seen (Mint_Answer hs) l = record_id hs l"

fun seen_id :: "answer_seen \<Rightarrow> string option" where
  "seen_id (Api_Answer _ hs) = header_text hs ALPACA_REQUEST_ID_HEADER"
| "seen_id (Mint_Answer hs) = header_text hs ALPACA_REQUEST_ID_HEADER"

fun seen_status :: "answer_seen \<Rightarrow> nat option" where
  "seen_status (Api_Answer status _) = Some status"
| "seen_status (Mint_Answer _) = None"

definition last_seen :: "answer_seen list \<Rightarrow> nat option" where
  "last_seen xs = (case rev (List.map_filter seen_status xs) of [] \<Rightarrow> None | s # _ \<Rightarrow> Some s)"

definition seen_future ::
  "answer_seen list \<Rightarrow> ('env, 'req) net \<Rightarrow> unit \<times> ('env, 'req) net" where
  "seen_future xs n = ((), n\<lparr>locals := fold record_seen xs (locals n)\<rparr>)"

subsection \<open>What a gate promises\<close>

locale one_way_gate =
  fixes may_start :: "'g \<Rightarrow> 'env \<Rightarrow> bool"
    and shut :: "'g \<Rightarrow> 'g"
    and later :: "'env \<Rightarrow> 'env \<Rightarrow> bool"
    and ok :: "'g \<Rightarrow> bool"
  assumes shut_ok: "ok g \<Longrightarrow> ok (shut g)"
    and shut_holds: "\<not> may_start (shut g) env"
    and never_reopens: "ok g \<Longrightarrow> later env env' \<Longrightarrow> \<not> may_start g env \<Longrightarrow> \<not> may_start g env'"
begin

text \<open>
  Any interleaving of a task that starts requests, of callers that close the gate, and of a
  changing environment. The last component counts the requests started.
\<close>

inductive gate_step :: "'g \<times> 'env \<times> nat \<Rightarrow> 'g \<times> 'env \<times> nat \<Rightarrow> bool" where
  begin_request: "may_start g env \<Longrightarrow> gate_step (g, env, n) (g, env, Suc n)"
| shut_gate: "gate_step (g, env, n) (shut g, env, n)"
| time_passes: "later env env' \<Longrightarrow> gate_step (g, env, n) (g, env', n)"

lemma step_keeps_shut:
  assumes "gate_step s s'" and "ok (fst s)" and "\<not> may_start (fst s) (fst (snd s))"
  shows "ok (fst s') \<and> \<not> may_start (fst s') (fst (snd s')) \<and> snd (snd s') = snd (snd s)"
  using assms by (induction rule: gate_step.induct) (auto intro: shut_ok dest: never_reopens simp: shut_holds)

lemma none_after_shut:
  assumes "gate_step\<^sup>*\<^sup>* s s'" and "ok (fst s)" and "\<not> may_start (fst s) (fst (snd s))"
  shows "\<not> may_start (fst s') (fst (snd s')) \<and> snd (snd s') = snd (snd s)"
proof -
  have "ok (fst s') \<and> \<not> may_start (fst s') (fst (snd s')) \<and> snd (snd s') = snd (snd s)"
    using assms by (induction rule: rtranclp_induct) (auto dest: step_keeps_shut)
  then show ?thesis by blast
qed

end

text \<open>
  A gate whose closure never answers true again after it answered false, which is what
  \<open>SendGate::new\<close> asks of its caller. \<open>order\<close> is the order in which environments follow one another.
\<close>

definition one_way :: "('env \<Rightarrow> 'env \<Rightarrow> bool) \<Rightarrow> 'env gate \<Rightarrow> bool" where
  "one_way order g = (\<forall>e e'. order e e' \<longrightarrow> is_open g e' \<longrightarrow> is_open g e)"

definition opens :: "'env gate \<Rightarrow> 'env \<Rightarrow> bool" where
  "opens g env = (hold g env = Inr ())"

lemma opens_iff: "opens g env \<longleftrightarrow> \<not> closed g \<and> is_open g env"
  by (simp add: opens_def hold_def)

interpretation sg: one_way_gate opens close order "one_way order" for order :: "'env \<Rightarrow> 'env \<Rightarrow> bool"
  by unfold_locales (auto simp: opens_iff close_def one_way_def)

subsection \<open>Lemmas\<close>

lemma start_handed:
  "handed (snd (start env req n)) =
     handed n @ (if fst (start env req n) = Inr () then [req] else [])"
  by (auto simp: start_def split: option.splits sum.splits)

lemma start_gated:
  "GATE (locals n) = Some g \<Longrightarrow>
   start env req n = (if opens (gates n g) env then (Inr (), n\<lparr>handed := handed n @ [req]\<rparr>)
                      else (Inl (SendNotSent GateClosed), n))"
  by (auto simp: start_def opens_iff hold_def)

lemma fold_record_seen:
  "fold record_seen xs l = l\<lparr>
     TRAFFIC := map_option (\<lambda>t. t\<lparr>
         request_ids := request_ids t @ List.map_filter seen_id xs,
         last_status := fold (\<lambda>x. or_else (seen_status x)) xs (last_status t)\<rparr>) (TRAFFIC l),
     LAST_ANSWER := map_option (fold (\<lambda>x. or_else (seen_status x)) xs)
                      (LAST_ANSWER l)\<rparr>"
proof (induction xs arbitrary: l)
  case Nil
  then show ?case
    by (cases "TRAFFIC l"; cases "LAST_ANSWER l") (simp_all add: List.map_filter_def)
next
  case (Cons x xs)
  show ?case
    by (cases x; cases "TRAFFIC l"; cases "LAST_ANSWER l"; cases "seen_id x")
      (simp_all add: Cons.IH List.map_filter_def record_answer_def record_id_def update_def)
qed

lemma fold_or_else: "fold (\<lambda>x. or_else (seen_status x)) xs = or_else (last_seen xs)"
proof (induction xs rule: rev_induct)
  case Nil
  then show ?case by (simp add: List.map_filter_def last_seen_def fun_eq_iff)
next
  case (snoc x xs)
  then show ?case
    by (cases "seen_status x")
      (simp_all add: List.map_filter_def last_seen_def fun_eq_iff)
qed

subsection \<open>Properties\<close>

text \<open>
  A held request never left. Under a gate, a request reaches the HTTP client exactly when
  the gate was open; a closed gate answers \<open>NotSent\<close> and hands over nothing, for every
  environment, and a credential mint asking the same gate is refused at the same moment.
\<close>

theorem closed_gate_sends_nothing:
  assumes "GATE (locals n) = Some g" and "closed (gates n g)"
  shows "send http env req n = (Inl (SendNotSent GateClosed), n)
    \<and> ensure_open env n = Inl GateClosed"
  using assms by (simp add: send_def start_gated opens_iff ensure_open_def hold_def)

text \<open>
  The traffic of a call. A future run under \<open>collect\<close> gets back every request id Alpaca sent
  with an answer, in order, mint answers included, and the status of the last API answer, which
  a mint answer never sets; what the enclosing scope had collected is left as it was.
\<close>

theorem collect_reports_the_calls_traffic:
  "collect (seen_future xs) n =
     (((), \<lparr>request_ids = List.map_filter seen_id xs, last_status = last_seen xs\<rparr>),
      n\<lparr>locals := (locals n)\<lparr>LAST_ANSWER :=
           map_option (or_else (last_seen xs)) (LAST_ANSWER (locals n))\<rparr>\<rparr>)"
  by (simp add: collect_def seen_future_def fold_record_seen default_traffic_def fold_or_else)

theorem closed_gate_sends_nothing_witness:
  "send (\<lambda>_. Inr (200 :: nat)) (7 :: nat) ''POST /orders''
     \<lparr>locals = \<lparr>TRAFFIC = None, GATE = Some 1, LAST_ANSWER = None\<rparr>,
      gates = (\<lambda>_. close (new_gate (\<lambda>now. now < 10))), handed = []\<rparr>
   = (Inl (SendNotSent GateClosed),
      \<lparr>locals = \<lparr>TRAFFIC = None, GATE = Some 1, LAST_ANSWER = None\<rparr>,
       gates = (\<lambda>_. close (new_gate (\<lambda>now. now < 10))), handed = []\<rparr>)"
  using closed_gate_sends_nothing
    [of "\<lparr>locals = \<lparr>TRAFFIC = None, GATE = Some 1, LAST_ANSWER = None\<rparr>,
          gates = (\<lambda>_. close (new_gate (\<lambda>now. now < 10))), handed = []\<rparr>" 1
        "\<lambda>_. Inr (200 :: nat)" "7 :: nat" "''POST /orders''"]
  by (simp add: close_def)

end
