(* ===== verification/Rate_Limit.thy ===== *)
theory Rate_Limit
  imports Http
begin

text \<open>
  \<open>Retry-After\<close> handling and the deadline rules every poll follows (\<^verbatim>\<open>src/rate_limit.rs\<close>).
  Instants of the monotonic clock are \<open>nat\<close> nanoseconds; a \<open>SystemTime\<close> is an \<open>int\<close> number of
  nanoseconds from the epoch. chrono's RFC2822 parser is the parameter \<open>rfc2822\<close>. A read is its
  result with the time it takes.
\<close>

subsection \<open>Definitions\<close>

definition MAX_RETRY_AFTER_HOLD :: duration where
  "MAX_RETRY_AFTER_HOLD = from_secs 300"

record backpressure =
  retry_after :: "duration option"

datatype backpressure_policy = RetryInPlace | Return

datatype permanence = Permanent | Transient

type_synonym rfc2822_parser = "string \<Rightarrow> int option"

definition duration_since :: "int \<Rightarrow> int \<Rightarrow> duration option" where
  "duration_since t now = (if now \<le> t then Some (nat (t - now)) else None)"

definition parse_retry_after :: "rfc2822_parser \<Rightarrow> string \<Rightarrow> int \<Rightarrow> duration option" where
  "parse_retry_after rfc2822 header_value now =
     (let trimmed = trim header_value
      in case parse_u64 trimmed of
          Some delay_seconds \<Rightarrow> Some (from_secs delay_seconds)
        | None \<Rightarrow> Option.bind (rfc2822 trimmed) (\<lambda>t. duration_since t now))"

definition RETRY_AFTER :: string where
  "RETRY_AFTER = ''retry-after''"

definition retry_after_from_response_headers ::
  "rfc2822_parser \<Rightarrow> headers \<Rightarrow> int \<Rightarrow> duration option" where
  "retry_after_from_response_headers rfc2822 hs now =
     Option.bind (header_text hs RETRY_AFTER) (\<lambda>v. parse_retry_after rfc2822 v now)"

text \<open>\<open>saturating_duration_since\<close> is subtraction of \<open>nat\<close>.\<close>

definition next_poll_delay :: "duration \<Rightarrow> instant \<Rightarrow> instant \<Rightarrow> duration" where
  "next_poll_delay scheduled deadline now = min scheduled (deadline - now)"

definition capped_backpressure_wait :: "backpressure \<Rightarrow> duration \<Rightarrow> duration" where
  "capped_backpressure_wait b scheduled =
     (case retry_after b of
        None \<Rightarrow> scheduled
      | Some hint \<Rightarrow> max (min hint MAX_RETRY_AFTER_HOLD) scheduled)"

definition backpressure_wait ::
  "backpressure_policy \<Rightarrow> backpressure \<Rightarrow> duration \<Rightarrow> instant \<Rightarrow> instant \<Rightarrow> duration option" where
  "backpressure_wait policy b scheduled deadline now =
     (if policy = Return then None
      else
        let wait = capped_backpressure_wait b scheduled
        in if wait < deadline - now then Some wait else None)"

text \<open>The largest \<open>Instant\<close>: a signed 64-bit second counter with nanoseconds.\<close>

definition INSTANT_MAX :: instant where
  "INSTANT_MAX = (2 ^ 63 - 1) * nanos_per_sec + 999999999"

definition checked_add :: "instant \<Rightarrow> duration \<Rightarrow> instant option" where
  "checked_add t d = (if t + d \<le> INSTANT_MAX then Some (t + d) else None)"

definition FAR_FUTURE :: duration where
  "FAR_FUTURE = from_secs (86400 * 365 * 30)"

definition poll_deadline :: "instant \<Rightarrow> duration \<Rightarrow> instant" where
  "poll_deadline started timeout = unwrap_or (checked_add started timeout) (started + FAR_FUTURE)"

subsection \<open>Lemmas\<close>

lemma capped_wait_bounds:
  "scheduled \<le> capped_backpressure_wait b scheduled
   \<and> capped_backpressure_wait b scheduled \<le> max scheduled MAX_RETRY_AFTER_HOLD"
  by (auto simp: capped_backpressure_wait_def split: option.splits)

lemma next_poll_delay_stays:
  "now \<le> deadline \<Longrightarrow> now + next_poll_delay scheduled deadline now \<le> deadline"
  by (simp add: next_poll_delay_def)

lemma poll_deadline_after: "started \<le> poll_deadline started timeout"
  by (simp add: poll_deadline_def checked_add_def)

subsection \<open>Properties\<close>

text \<open>
  C33: \<open>Retry-After\<close> is read in its two forms. A number of seconds wins over the date form and
  never depends on the clock; a date gives the time left to it, nothing for a date before now,
  and, for a date exactly now, a wait of zero (the comment promises no wait there). A wait read
  from a date ends exactly at that date.
\<close>

theorem retry_after_forms:
  "parse_retry_after rfc2822 v now =
     (case parse_u64 (trim v) of
        Some secs \<Rightarrow> Some (from_secs secs)
      | None \<Rightarrow>
          (case rfc2822 (trim v) of
             None \<Rightarrow> None
           | Some date \<Rightarrow>
               if date < now then None
               else if date = now then Some 0
               else Some (nat (date - now))))
   \<and> (parse_u64 (trim v) = None \<longrightarrow> parse_retry_after rfc2822 v now = Some w \<longrightarrow>
        rfc2822 (trim v) = Some (now + int w))"
  by (auto simp: parse_retry_after_def Let_def duration_since_def split: option.splits if_splits)

theorem retry_after_forms_witness:
  "parse_retry_after (\<lambda>_. Some 1000) ''Sun, 06 Nov 1994 08:49:37 GMT'' 1000 = Some 0
   \<and> parse_retry_after (\<lambda>_. Some 1000) '' 120 '' 1000 = Some (from_secs 120)"
proof -
  have "trim ''Sun, 06 Nov 1994 08:49:37 GMT'' = ''Sun, 06 Nov 1994 08:49:37 GMT''"
    and "trim '' 120 '' = ''120''" by code_simp+
  then have date: "parse_u64 (trim ''Sun, 06 Nov 1994 08:49:37 GMT'') = None"
    and secs: "parse_u64 (trim '' 120 '') = Some 120"
    by (simp_all add: parse_u64_def is_digit_def between_def digit_val_def)
  show ?thesis
    using retry_after_forms [of "\<lambda>_. Some 1000" "''Sun, 06 Nov 1994 08:49:37 GMT''" 1000 0]
      retry_after_forms [of "\<lambda>_. Some 1000" "'' 120 ''" 1000 0]
    by (simp add: date secs)
qed

end
