(* ===== verification/Lifecycle.thy ===== *)
theory Lifecycle
  imports Rate_Limit
begin

text \<open>
  The broker order lifecycle types (\<^verbatim>\<open>src/broker/lifecycle/\<close>): directions, idempotency keys,
  statuses and states, placements, and the enumerations of \<^verbatim>\<open>src/broker/mod.rs\<close> they need.
  A UUID is its canonical hyphenated text, so printing it is the identity; the parser of the
  uuid crate is the parameter \<open>parse_uuid\<close>. The decimal \<open>Float\<close> type of rain-math-float and the
  amounts over it are the type parameter \<open>'f\<close>.
\<close>

subsection \<open>Directions and keys\<close>

datatype direction = Buy | Sell

fun direction_as_str :: "direction \<Rightarrow> string" where
  "direction_as_str Buy = ''BUY''"
| "direction_as_str Sell = ''SELL''"

datatype invalid_direction_error = InvalidDirectionError string

definition direction_from_str :: "string \<Rightarrow> invalid_direction_error + direction" where
  "direction_from_str v =
     (let upper = to_ascii_uppercase v
      in if upper = ''BUY'' then Inr Buy
         else if upper = ''SELL'' then Inr Sell
         else Inl (InvalidDirectionError v))"

datatype executor_order_id = ExecutorOrderId string

datatype client_order_id = Automated uuid | Cli uuid

definition CLI_PREFIX :: string where
  "CLI_PREFIX = ''cli-''"

fun client_order_id_display :: "client_order_id \<Rightarrow> string" where
  "client_order_id_display (Automated u) = u"
| "client_order_id_display (Cli u) = CLI_PREFIX @ u"

type_synonym uuid_parser = "string \<Rightarrow> string + uuid"

datatype client_order_id_error = InvalidUuid string

definition client_order_id_from_str ::
  "uuid_parser \<Rightarrow> string \<Rightarrow> client_order_id_error + client_order_id" where
  "client_order_id_from_str parse_uuid v =
     (case strip_prefix CLI_PREFIX v of
        Some rest \<Rightarrow> and_then (map_err InvalidUuid (parse_uuid rest)) (\<lambda>u. Inr (Cli u))
      | None \<Rightarrow> and_then (map_err InvalidUuid (parse_uuid v)) (\<lambda>u. Inr (Automated u)))"

subsection \<open>Statuses and states\<close>

datatype order_status = Pending | Submitted | PartiallyFilled | Filled | Cancelled | Failed

fun order_status_as_str :: "order_status \<Rightarrow> string" where
  "order_status_as_str Pending = ''PENDING''"
| "order_status_as_str Submitted = ''SUBMITTED''"
| "order_status_as_str PartiallyFilled = ''PARTIALLY_FILLED''"
| "order_status_as_str Filled = ''FILLED''"
| "order_status_as_str Cancelled = ''CANCELLED''"
| "order_status_as_str Failed = ''FAILED''"

datatype parse_order_status_error = InvalidStatus string

definition order_status_from_str :: "string \<Rightarrow> parse_order_status_error + order_status" where
  "order_status_from_str v =
     (if v = ''PENDING'' then Inr Pending
      else if v = ''SUBMITTED'' then Inr Submitted
      else if v = ''PARTIALLY_FILLED'' then Inr PartiallyFilled
      else if v = ''FILLED'' then Inr Filled
      else if v = ''CANCELLED'' then Inr Cancelled
      else if v = ''FAILED'' then Inr Failed
      else Inl (InvalidStatus v))"

datatype order_failure_terminality = Terminal | NotTerminal

type_synonym utc = int

datatype 'f order_state =
    St_Pending
  | St_Submitted executor_order_id
  | St_PartiallyFilled executor_order_id 'f "'f option" utc
  | St_Filled utc executor_order_id 'f 'f
  | St_Cancelled utc executor_order_id 'f "'f option"
  | St_Failed utc "string option" "'f option" "'f option" order_failure_terminality

fun order_state_status :: "'f order_state \<Rightarrow> order_status" where
  "order_state_status St_Pending = Pending"
| "order_state_status (St_Submitted _) = Submitted"
| "order_state_status (St_PartiallyFilled _ _ _ _) = PartiallyFilled"
| "order_state_status (St_Filled _ _ _ _) = Filled"
| "order_state_status (St_Cancelled _ _ _ _) = Cancelled"
| "order_state_status (St_Failed _ _ _ _ _) = Failed"

subsection \<open>Orders and placements\<close>

type_synonym symbol = string

record 'f order_placement =
  op_order_id :: string
  op_symbol :: symbol
  op_shares :: 'f
  op_direction :: direction
  op_placed_at :: utc
  op_extended_hours :: bool
  op_limit_price :: "'f option"

record 'f order_update =
  ou_order_id :: string
  ou_symbol :: symbol
  ou_shares :: 'f
  ou_direction :: direction
  ou_status :: order_status
  ou_updated_at :: utc
  ou_price :: "'f option"
  ou_shares_filled :: "'f option"
  ou_failure_terminality :: "order_failure_terminality option"

datatype cancellation_outcome = Requested | OrderNotFound

record 'f market_order =
  mo_symbol :: symbol
  mo_shares :: 'f
  mo_direction :: direction
  mo_client_order_id :: client_order_id

datatype time_in_force = Day | MarketOnClose

fun tif_as_api_str :: "time_in_force \<Rightarrow> string" where
  "tif_as_api_str Day = ''day''"
| "tif_as_api_str MarketOnClose = ''cls''"

datatype parse_time_in_force_error = ParseTimeInForceError string

definition tif_from_str :: "string \<Rightarrow> parse_time_in_force_error + time_in_force" where
  "tif_from_str v =
     (if v = ''day'' then Inr Day
      else if v = ''market-on-close'' \<or> v = ''market_on_close'' \<or> v = ''cls'' then Inr MarketOnClose
      else Inl (ParseTimeInForceError v))"

fun tif_display :: "time_in_force \<Rightarrow> string" where
  "tif_display Day = ''day''"
| "tif_display MarketOnClose = ''market-on-close''"

datatype asset_status = AssetActive | AssetInactive

datatype crypto_order_failure_reason =
    Canceled | Expired | Rejected | DoneForDay | Replaced | Suspended | Calculated

fun terminality :: "crypto_order_failure_reason \<Rightarrow> order_failure_terminality" where
  "terminality Canceled = Terminal"
| "terminality Expired = Terminal"
| "terminality Rejected = Terminal"
| "terminality DoneForDay = Terminal"
| "terminality Replaced = NotTerminal"
| "terminality Suspended = NotTerminal"
| "terminality Calculated = NotTerminal"

datatype missing_order_field =
    ExtendedHours | FilledQty | Price | PlacedAt | FilledAt | CanceledAt | FailureTerminality

datatype deadline_cancel = Accepted | Declined | CancelFailed

subsection \<open>Properties\<close>

text \<open>
  Every wire spelling reads back. An idempotency key printed for the broker parses to the
  same key with the same provenance, and two keys never share a spelling, so a lookup by
  \<open>client_order_id\<close> finds the order this key placed; directions (in any ASCII case), order statuses
  and times in force read back too. The uuid parser is only asked to read canonical UUIDs
  back, which never begin with \<open>cli-\<close>.
\<close>

theorem keys_and_spellings_round_trip:
  assumes "\<And>u. u \<in> uuids \<Longrightarrow> parse_uuid u = Inr u" and "\<And>u. u \<in> uuids \<Longrightarrow> \<not> starts_with u ''cli-''"
    and "c \<in> Automated ` uuids \<union> Cli ` uuids" and "c' \<in> Automated ` uuids \<union> Cli ` uuids"
  shows "client_order_id_from_str parse_uuid (client_order_id_display c) = Inr c
    \<and> (client_order_id_display c = client_order_id_display c' \<longleftrightarrow> c = c')
    \<and> (\<forall>d v. to_ascii_uppercase v = direction_as_str d \<longrightarrow> direction_from_str v = Inr d)
    \<and> (\<forall>s. order_status_from_str (order_status_as_str s) = Inr s)
    \<and> (\<forall>t. tif_from_str (tif_display t) = Inr t \<and> tif_from_str (tif_as_api_str t) = Inr t)"
proof -
  have reads_back: "client_order_id_from_str parse_uuid (client_order_id_display k) = Inr k"
    if "k \<in> Automated ` uuids \<union> Cli ` uuids" for k
    using that assms(1,2)
    by (auto simp: client_order_id_from_str_def CLI_PREFIX_def starts_with_def)
  have "direction_from_str v = Inr d" if "to_ascii_uppercase v = direction_as_str d" for d v
    using that by (cases d) (simp_all add: direction_from_str_def)
  moreover have "order_status_from_str (order_status_as_str s) = Inr s" for s
    by (cases s) (simp_all add: order_status_from_str_def)
  moreover have "tif_from_str (tif_display t) = Inr t \<and> tif_from_str (tif_as_api_str t) = Inr t" for t
    by (cases t) (simp_all add: tif_from_str_def)
  moreover have "client_order_id_display c = client_order_id_display c' \<longleftrightarrow> c = c'"
    using reads_back [OF assms(3)] reads_back [OF assms(4)] by (metis sum.inject(2))
  ultimately show ?thesis using reads_back [OF assms(3)] by blast
qed

theorem keys_and_spellings_round_trip_witness:
  "client_order_id_from_str (\<lambda>v. if v = ''904837e3-3b76-47ec-b432-046db621571b'' then Inr v else Inl v)
     ''cli-904837e3-3b76-47ec-b432-046db621571b'' = Inr (Cli ''904837e3-3b76-47ec-b432-046db621571b'')
   \<and> client_order_id_display (Cli ''904837e3-3b76-47ec-b432-046db621571b'')
       \<noteq> client_order_id_display (Automated ''904837e3-3b76-47ec-b432-046db621571b'')"
  using keys_and_spellings_round_trip
    [of "{''904837e3-3b76-47ec-b432-046db621571b''}"
        "\<lambda>v. if v = ''904837e3-3b76-47ec-b432-046db621571b'' then Inr v else Inl v"
        "Cli ''904837e3-3b76-47ec-b432-046db621571b''"
        "Automated ''904837e3-3b76-47ec-b432-046db621571b''"]
  by (simp add: CLI_PREFIX_def starts_with_def)

end
