(* ===== verification/Errors.thy ===== *)
theory Errors
  imports Gate Lifecycle
begin

text \<open>
  The error taxonomy of the clients: the gateway hop and issuer errors of \<^verbatim>\<open>src/core.rs\<close>, the
  credential errors of \<^verbatim>\<open>src/auth.rs\<close>, and the broker, market data, wallet, tokenization and
  stream errors, each with its \<open>backpressure\<close> and \<open>permanence\<close> classification. Variants are prefixed
  with their enum; an error of another crate (serde, url, base64, the decimal type) is its text.
\<close>

subsection \<open>Statuses and the gateway hop\<close>

definition response_status_permanence :: "status_code \<Rightarrow> permanence" where
  "response_status_permanence status =
     (if status = 408 \<or> status = 429 then Transient
      else if is_client_error status \<or> is_redirection status then Permanent
      else Transient)"

definition status_permanence :: "nat \<Rightarrow> permanence" where
  "status_permanence status_code =
     (if status_code = 408 \<or> status_code = 429 \<or> status_code \<ge> 500 then Transient else Permanent)"

record gateway_hop_error =
  hop_message :: string
  hop_retryable :: bool
  hop_outcome_unknown :: bool
  hop_retryable_with_same_key :: bool
  hop_retry_after :: "duration option"

definition hop_transport :: "string \<Rightarrow> gateway_hop_error" where
  "hop_transport message = \<lparr>hop_message = message, hop_retryable = True,
     hop_outcome_unknown = False, hop_retryable_with_same_key = False, hop_retry_after = None\<rparr>"

definition hop_permanence :: "gateway_hop_error \<Rightarrow> permanence" where
  "hop_permanence hop =
     (if hop_retryable hop \<or> hop_retryable_with_same_key hop then Transient else Permanent)"

definition hop_backpressure :: "gateway_hop_error \<Rightarrow> backpressure option" where
  "hop_backpressure hop = map_option (\<lambda>w. \<lparr>retry_after = Some w\<rparr>) (hop_retry_after hop)"

subsection \<open>Endpoint errors\<close>

datatype endpoint_role = BaseUrl | TokenUrl | CredentialOrigin

datatype endpoint_error =
    EndpointParse endpoint_role string
  | InsecureScheme endpoint_role
  | MissingHost endpoint_role
  | EmbeddedCredentials endpoint_role
  | QueryOrFragment endpoint_role
  | InvalidPathSegment string

subsection \<open>Credential errors\<close>

datatype kms_jwt_error =
    Kms_Http reqwest_error
  | Kms_KmsStatus nat string "duration option"
  | Kms_TokenStatus nat string "duration option"
  | Kms_Base64 string
  | Kms_MalformedSignature string
  | Kms_LocalSign string
  | Kms_Sec1PrivateKey string
  | Kms_Pkcs8PrivateKey string
  | Kms_Claims string
  | Kms_InvalidHeader string
  | Kms_ClockBeforeEpoch
  | Kms_InvalidTokenUrl endpoint_error
  | Kms_NotSent gate_closed

definition kms_status_deterministic :: "nat \<Rightarrow> bool" where
  "kms_status_deterministic status =
     ((300 \<le> status \<and> status < 400)
      \<or> ((400 \<le> status \<and> status < 500) \<and> status \<noteq> 429 \<and> status \<noteq> 408))"

fun is_deterministic :: "kms_jwt_error \<Rightarrow> bool" where
  "is_deterministic (Kms_KmsStatus status _ _) = kms_status_deterministic status"
| "is_deterministic (Kms_TokenStatus status _ _) = kms_status_deterministic status"
| "is_deterministic (Kms_Http _) = False"
| "is_deterministic _ = True"

fun is_rate_limited :: "kms_jwt_error \<Rightarrow> bool" where
  "is_rate_limited (Kms_TokenStatus status _ _) = (status = 429)"
| "is_rate_limited (Kms_KmsStatus status _ _) = (status = 429)"
| "is_rate_limited _ = False"

fun kms_retry_after :: "kms_jwt_error \<Rightarrow> duration option" where
  "kms_retry_after (Kms_TokenStatus _ _ w) = w"
| "kms_retry_after (Kms_KmsStatus _ _ w) = w"
| "kms_retry_after _ = None"

definition kms_backpressure :: "kms_jwt_error \<Rightarrow> backpressure option" where
  "kms_backpressure e =
     (if is_rate_limited e then Some \<lparr>retry_after = kms_retry_after e\<rparr> else None)"

definition kms_permanence :: "kms_jwt_error \<Rightarrow> permanence" where
  "kms_permanence e = (if is_deterministic e then Permanent else Transient)"

definition http_permanence :: "reqwest_error \<Rightarrow> permanence" where
  "http_permanence e = (if is_builder e then Permanent else Transient)"

text \<open>A 429 answer with its hint, in every client.\<close>

definition status_backpressure :: "status_code \<Rightarrow> duration option \<Rightarrow> backpressure option" where
  "status_backpressure status w = (if status = 429 then Some \<lparr>retry_after = w\<rparr> else None)"

subsection \<open>Market data errors\<close>

datatype 'f latest_quote_error = QuoteFloat string | Crossed 'f 'f

datatype 'f market_data_error =
    Md_Http reqwest_error
  | Md_Auth kms_jwt_error
  | Md_ApiError status_code string "duration option"
  | Md_Entitlement status_code string
  | Md_MissingQuoteTimestamp symbol
  | Md_JsonParse string
  | Md_LatestQuoteJsonParse string
  | Md_LatestQuoteSymbolMismatch symbol symbol
  | Md_MissingPrice symbol
  | Md_NonPositivePrice symbol 'f
  | Md_MissingQuote symbol
  | Md_MissingBid symbol
  | Md_MissingAsk symbol
  | Md_NonPositiveBid symbol 'f
  | Md_NonPositiveAsk symbol 'f
  | Md_InvalidQuote symbol "'f latest_quote_error"
  | Md_Float string
  | Md_NotSent gate_closed

fun md_backpressure :: "'f market_data_error \<Rightarrow> backpressure option" where
  "md_backpressure (Md_ApiError status _ w) = status_backpressure status w"
| "md_backpressure (Md_Auth e) = kms_backpressure e"
| "md_backpressure _ = None"

fun md_permanence :: "'f market_data_error \<Rightarrow> permanence" where
  "md_permanence (Md_ApiError status _ _) = response_status_permanence status"
| "md_permanence (Md_Http e) = http_permanence e"
| "md_permanence (Md_Auth e) = kms_permanence e"
| "md_permanence (Md_JsonParse _) = Permanent"
| "md_permanence (Md_LatestQuoteJsonParse _) = Permanent"
| "md_permanence (Md_Entitlement _ _) = Permanent"
| "md_permanence (Md_MissingPrice _) = Permanent"
| "md_permanence (Md_NonPositivePrice _ _) = Permanent"
| "md_permanence (Md_Float _) = Permanent"
| "md_permanence (Md_NotSent _) = Permanent"
| "md_permanence _ = Transient"

subsection \<open>Broker errors\<close>

datatype account_status =
    Onboarding | SubmissionFailed | AccountSubmitted | AccountUpdated | ApprovalPending
  | AccountActive | AccountRejected | AccountDisabled | DisableRequested | AccountClosed

datatype 'f broker_error =
    HttpClient reqwest_error
  | JsonParse string
  | AlpacaAmountError string
  | PositionSymbolMismatch symbol symbol
  | InvalidHeader string
  | InvalidEndpoint endpoint_error
  | KmsJwt kms_jwt_error
  | ApiError status_code "nat option" string "duration option"
  | UsdConversionInsufficientBalance "'f broker_error"
  | InvalidOrderId string
  | IncompleteOrder executor_order_id missing_order_field
  | FilledQuantityMismatch executor_order_id 'f 'f
  | AccountNotActive uuid account_status
  | CryptoOrderFailed uuid crypto_order_failure_reason
  | ConversionTimedOut uuid
  | ConversionCancelNotSettled uuid deadline_cancel "'f option"
  | ConversionOrderNotFound uuid
  | DuplicateOrderNotFound client_order_id
  | CalendarIterationInvariantViolation
  | CalendarDateMismatch string string
  | CalendarLocalTimeUnresolvable string string
  | InvalidAccountActivitiesUrl string string
  | AccountActivitiesPaginationInvariantViolation
  | AccountActivitiesPageLimitExceeded nat
  | AssetNotActive symbol asset_status
  | Gateway gateway_hop_error
  | NotSent gate_closed
  | AssetNotTradable symbol
  | InvalidLimitPricePrecision 'f nat
  | UsdBalanceConversion 'f
  | FractionalCents 'f
  | InvalidSymbol string
  | MissingPositionQuantity
  | BelowPrecision 'f nat
  | UsdcBelowPrecision 'f nat
  | UsdcPrecisionExceeded 'f nat
  | NotPositive 'f
  | NotPositiveLimitPrice 'f
  | FloatConversion string
  | LatestTrade "'f market_data_error"
  | LatestQuote "'f market_data_error"

fun broker_from_send :: "send_error \<Rightarrow> 'f broker_error" where
  "broker_from_send (SendHttp e) = HttpClient e"
| "broker_from_send (SendNotSent c) = NotSent c"

fun broker_backpressure :: "'f broker_error \<Rightarrow> backpressure option" where
  "broker_backpressure (ApiError status _ _ w) = status_backpressure status w"
| "broker_backpressure (KmsJwt e) = kms_backpressure e"
| "broker_backpressure (Gateway hop) = hop_backpressure hop"
| "broker_backpressure (LatestTrade e) = md_backpressure e"
| "broker_backpressure (LatestQuote e) = md_backpressure e"
| "broker_backpressure _ = None"

fun broker_permanence :: "'f broker_error \<Rightarrow> permanence" where
  "broker_permanence (ApiError status _ _ _) = response_status_permanence status"
| "broker_permanence (HttpClient e) = http_permanence e"
| "broker_permanence (KmsJwt e) = kms_permanence e"
| "broker_permanence (Gateway hop) = hop_permanence hop"
| "broker_permanence (PositionSymbolMismatch _ _) = Transient"
| "broker_permanence (LatestTrade e) = md_permanence e"
| "broker_permanence (LatestQuote e) = md_permanence e"
| "broker_permanence _ = Permanent"

fun is_duplicate_client_order_id :: "'f broker_error \<Rightarrow> bool" where
  "is_duplicate_client_order_id (ApiError status _ message _) =
     (status = 422 \<and> contains message ''client_order_id must be unique'')"
| "is_duplicate_client_order_id _ = False"

record 'f placement_error =
  written :: bool
  error :: "'f broker_error"

definition unwritten :: "'f broker_error \<Rightarrow> 'f placement_error" where
  "unwritten e = \<lparr>written = False, error = e\<rparr>"

definition maybe_written :: "'f broker_error \<Rightarrow> 'f placement_error" where
  "maybe_written e = \<lparr>written = True, error = e\<rparr>"

subsection \<open>Wallet errors\<close>

datatype transfer_status = TransferPending | TransferProcessing | TransferComplete | TransferFailedStatus

datatype wallet_error =
    Wal_Reqwest reqwest_error
  | Wal_Auth kms_jwt_error
  | Wal_PrivateKeyJwtUnsupported
  | Wal_InvalidBaseUrl endpoint_error
  | Wal_ApiError status_code string "duration option"
  | Wal_ParseError string
  | Wal_Utf8 string
  | Wal_FromHex string
  | Wal_TransferNotFound uuid
  | Wal_FailedTransferHasTx uuid string
  | Wal_TransferFailed uuid
  | Wal_CompletedTransferMissingTx uuid
  | Wal_TransferTimeout uuid duration
  | Wal_InvalidStatusTransition uuid transfer_status transfer_status
  | Wal_AddressNotWhitelisted string string string
  | Wal_NoWhitelistEntries string
  | Wal_DepositTimeout string duration
  | Wal_InvalidDepositTransition string transfer_status transfer_status
  | Wal_Gateway gateway_hop_error
  | Wal_NotSent gate_closed

fun wallet_backpressure :: "wallet_error \<Rightarrow> backpressure option" where
  "wallet_backpressure (Wal_ApiError status _ w) = status_backpressure status w"
| "wallet_backpressure (Wal_Auth e) = kms_backpressure e"
| "wallet_backpressure (Wal_Gateway hop) = hop_backpressure hop"
| "wallet_backpressure _ = None"

fun wallet_permanence :: "wallet_error \<Rightarrow> permanence" where
  "wallet_permanence (Wal_ApiError status _ _) = response_status_permanence status"
| "wallet_permanence (Wal_Reqwest e) = http_permanence e"
| "wallet_permanence (Wal_Auth e) = kms_permanence e"
| "wallet_permanence (Wal_Gateway hop) = hop_permanence hop"
| "wallet_permanence _ = Permanent"

subsection \<open>Tokenization errors\<close>

datatype network = Base | Ethereum | HyperEvm | Robinhood | BnbSmartChain

fun network_as_str :: "network \<Rightarrow> string" where
  "network_as_str Base = ''base''"
| "network_as_str Ethereum = ''ethereum''"
| "network_as_str HyperEvm = ''hyperevm''"
| "network_as_str Robinhood = ''robinhood''"
| "network_as_str BnbSmartChain = ''binance''"

datatype tokenization_error =
    Tok_Reqwest reqwest_error
  | Tok_Auth kms_jwt_error
  | Tok_PrivateKeyJwtUnsupported
  | Tok_JsonParse string
  | Tok_Utf8 string
  | Tok_ApiError status_code string "duration option"
  | Tok_InsufficientPosition symbol
  | Tok_UnsupportedAccount
  | Tok_InvalidParameters string
  | Tok_RequestNotFound string
  | Tok_DuplicateMintIssuerRequestId string
  | Tok_InvalidBaseUrl endpoint_error
  | Tok_PollTimeout duration
  | Tok_WrongNetwork string string network
  | Tok_NetworkMissing string
  | Tok_Gateway gateway_hop_error
  | Tok_NotSent gate_closed

fun is_definitive_mint_rejection :: "tokenization_error \<Rightarrow> bool" where
  "is_definitive_mint_rejection (Tok_InsufficientPosition _) = True"
| "is_definitive_mint_rejection Tok_UnsupportedAccount = True"
| "is_definitive_mint_rejection (Tok_InvalidParameters _) = True"
| "is_definitive_mint_rejection _ = False"

text \<open>\<open>http_status\<close> is reqwest's \<open>Error::status\<close>.\<close>

fun tokenization_status_code ::
  "(reqwest_error \<Rightarrow> status_code option) \<Rightarrow> tokenization_error \<Rightarrow> status_code option" where
  "tokenization_status_code http_status (Tok_ApiError status _ _) = Some status"
| "tokenization_status_code http_status (Tok_Reqwest e) = http_status e"
| "tokenization_status_code http_status (Tok_Auth (Kms_KmsStatus status _ _)) = status_from_u16 status"
| "tokenization_status_code http_status (Tok_Auth (Kms_TokenStatus status _ _)) = status_from_u16 status"
| "tokenization_status_code http_status _ = None"

fun tokenization_backpressure :: "tokenization_error \<Rightarrow> backpressure option" where
  "tokenization_backpressure (Tok_ApiError status _ w) = status_backpressure status w"
| "tokenization_backpressure (Tok_Auth e) = kms_backpressure e"
| "tokenization_backpressure (Tok_Gateway hop) = hop_backpressure hop"
| "tokenization_backpressure _ = None"

fun tokenization_permanence :: "tokenization_error \<Rightarrow> permanence" where
  "tokenization_permanence (Tok_ApiError status _ _) = response_status_permanence status"
| "tokenization_permanence (Tok_Reqwest e) = http_permanence e"
| "tokenization_permanence (Tok_Auth e) = kms_permanence e"
| "tokenization_permanence (Tok_Gateway hop) = hop_permanence hop"
| "tokenization_permanence _ = Permanent"

subsection \<open>Issuer errors\<close>

datatype alpaca_error =
    Iss_InvalidUrl endpoint_error
  | Iss_Reqwest reqwest_error
  | Iss_Jwt kms_jwt_error
  | Iss_Parse string string
  | Iss_Auth string
  | Iss_Api nat string
  | Iss_RateLimited string "duration option"
  | Iss_RequestNotFound string string
  | Iss_ResponseIdMismatch string string
  | Iss_UnsupportedTokenizationNetwork network
  | Iss_NotSent gate_closed

fun alpaca_is_retryable :: "alpaca_error \<Rightarrow> bool" where
  "alpaca_is_retryable (Iss_Reqwest e) = (\<not> is_decode e)"
| "alpaca_is_retryable (Iss_Api status _) = ((500 \<le> status \<and> status \<le> 599) \<or> status = 429)"
| "alpaca_is_retryable (Iss_RateLimited _ _) = True"
| "alpaca_is_retryable (Iss_Jwt e) = (\<not> is_deterministic e)"
| "alpaca_is_retryable _ = False"

fun alpaca_backpressure :: "alpaca_error \<Rightarrow> backpressure option" where
  "alpaca_backpressure (Iss_RateLimited _ w) = Some \<lparr>retry_after = w\<rparr>"
| "alpaca_backpressure (Iss_Jwt e) = kms_backpressure e"
| "alpaca_backpressure _ = None"

fun alpaca_permanence :: "alpaca_error \<Rightarrow> permanence" where
  "alpaca_permanence (Iss_Reqwest e) = (if is_builder e \<or> is_decode e then Permanent else Transient)"
| "alpaca_permanence (Iss_Jwt e) = kms_permanence e"
| "alpaca_permanence (Iss_RateLimited _ _) = Transient"
| "alpaca_permanence (Iss_Api status _) = status_permanence status"
| "alpaca_permanence _ = Permanent"

record issuer_call_error =
  ice_written :: bool
  ice_alpaca_status :: "nat option"
  ice_error :: alpaca_error

definition written_on :: "issuer_call_error \<Rightarrow> nat \<Rightarrow> issuer_call_error" where
  "written_on e status = e\<lparr>ice_written :=
     (ice_written e \<or> (case ice_error e of Iss_Api s _ \<Rightarrow> s = status | _ \<Rightarrow> False))\<rparr>"

fun issuer_may_have_reached_alpaca :: "alpaca_error \<Rightarrow> bool" where
  "issuer_may_have_reached_alpaca (Iss_Api status _) =
     (\<not> (400 \<le> status \<and> status < 500) \<or> status = 408)"
| "issuer_may_have_reached_alpaca (Iss_Reqwest e) = (\<not> (is_builder e \<or> is_connect e))"
| "issuer_may_have_reached_alpaca (Iss_Parse _ _) = True"
| "issuer_may_have_reached_alpaca (Iss_ResponseIdMismatch _ _) = True"
| "issuer_may_have_reached_alpaca _ = False"

subsection \<open>Stream errors\<close>

datatype stream_error =
    Str_Http reqwest_error
  | Str_HttpStatus status_code
  | Str_RateLimited "duration option"
  | Str_InvalidContentType status_code string
  | Str_Auth kms_jwt_error
  | Str_NotSent gate_closed

subsection \<open>Properties\<close>

lemma kms_throttle_transient: "kms_backpressure e = Some b \<Longrightarrow> kms_permanence e = Transient"
  by (cases e) (auto simp: kms_backpressure_def kms_permanence_def kms_status_deterministic_def
      split: if_splits)

lemma status_throttle_transient:
  "status_backpressure s w = Some b \<Longrightarrow> response_status_permanence s = Transient"
  by (auto simp: status_backpressure_def response_status_permanence_def split: if_splits)

lemmas throttle_transient = kms_throttle_transient status_throttle_transient

lemma md_throttle_transient: "md_backpressure e = Some b \<Longrightarrow> md_permanence e = Transient"
  by (cases e) (auto dest: throttle_transient)

text \<open>
  Backpressure always clears. In every client an error classified as backpressure (a 429, a
  throttled mint, a hop that relayed a wait and may be retried) is classified transient, so a
  caller that waits out the hint may send again; a request held back by a closed gate is
  permanent everywhere and never backpressure.
\<close>

theorem backpressure_is_transient:
  assumes "\<And>h. e = Gateway h \<or> w = Wal_Gateway h \<or> t = Tok_Gateway h
      \<Longrightarrow> hop_retry_after h \<noteq> None \<Longrightarrow> hop_retryable h"
  shows "(broker_backpressure e \<noteq> None \<longrightarrow> broker_permanence e = Transient)
    \<and> (wallet_backpressure w \<noteq> None \<longrightarrow> wallet_permanence w = Transient)
    \<and> (tokenization_backpressure t \<noteq> None \<longrightarrow> tokenization_permanence t = Transient)
    \<and> (alpaca_backpressure i \<noteq> None \<longrightarrow> alpaca_permanence i = Transient \<and> alpaca_is_retryable i)
    \<and> broker_permanence (NotSent c) = Permanent \<and> wallet_permanence (Wal_NotSent c) = Permanent
    \<and> tokenization_permanence (Tok_NotSent c) = Permanent \<and> \<not> alpaca_is_retryable (Iss_NotSent c)"
proof -
  have hop: "hop_permanence h = Transient"
    if "e = Gateway h \<or> w = Wal_Gateway h \<or> t = Tok_Gateway h" "hop_backpressure h \<noteq> None" for h
    using assms [OF that(1)] that(2) by (auto simp: hop_permanence_def hop_backpressure_def)
  have "broker_permanence e = Transient" if "broker_backpressure e \<noteq> None"
    using that hop by (cases e) (auto dest: throttle_transient md_throttle_transient)
  moreover have "wallet_permanence w = Transient" if "wallet_backpressure w \<noteq> None"
    using that hop by (cases w) (auto dest: throttle_transient)
  moreover have "tokenization_permanence t = Transient" if "tokenization_backpressure t \<noteq> None"
    using that hop by (cases t) (auto dest: throttle_transient)
  moreover have "alpaca_permanence i = Transient \<and> alpaca_is_retryable i"
    if "alpaca_backpressure i \<noteq> None"
    using that by (cases i) (auto simp: kms_permanence_def dest!: kms_throttle_transient split: if_splits)
  ultimately show ?thesis by simp
qed

theorem backpressure_is_transient_witness:
  "broker_permanence (ApiError 429 None ''slow down'' (Some (from_secs 3)) :: nat broker_error) = Transient
   \<and> wallet_permanence (Wal_Gateway ((hop_transport ''throttled'')\<lparr>hop_retry_after := Some 7\<rparr>)) = Transient"
  using backpressure_is_transient
    [of "ApiError 429 None ''slow down'' (Some (from_secs 3)) :: nat broker_error"
        "Wal_Gateway ((hop_transport ''throttled'')\<lparr>hop_retry_after := Some 7\<rparr>)"
        Tok_UnsupportedAccount "Iss_Auth ''no''" GateClosed]
  by (simp add: hop_transport_def status_backpressure_def hop_backpressure_def)

end
