(* ===== verification/Answer.thy ===== *)
theory Answer
  imports Catalog Errors
begin

text \<open>
  The error answer of the gateway: the contract's codes, outcomes and body
  (\<^verbatim>\<open>crates/gateway-api/src/failure.rs\<close>) and the mapping from every client error to it
  (\<^verbatim>\<open>crates/gateway/src/answer.rs\<close>). \<open>rid\<close> is the fresh id \<open>Failure::new\<close> draws, and \<open>message\<close> the
  error's displayed text; neither influences the classification.
\<close>

subsection \<open>The contract\<close>

datatype error_code =
    InvalidRequest | Unauthenticated | Forbidden | CapabilityDisabled | UnknownOperation
  | Rejected_Code | Backpressure | Unavailable | NotReady | UpstreamTransient | OutcomeUnknown

fun code_status :: "error_code \<Rightarrow> nat" where
  "code_status InvalidRequest = 400"
| "code_status Unauthenticated = 401"
| "code_status Forbidden = 403"
| "code_status CapabilityDisabled = 403"
| "code_status UnknownOperation = 404"
| "code_status Rejected_Code = 422"
| "code_status Backpressure = 429"
| "code_status UpstreamTransient = 502"
| "code_status Unavailable = 503"
| "code_status NotReady = 503"
| "code_status OutcomeUnknown = 504"

datatype outcome = Applied | NotApplied | Unknown

datatype rejection_reason =
    InsufficientBalance | R_AccountNotActive | R_AssetNotActive | R_AssetNotTradable
  | InsufficientPosition | UnsupportedAccount | InvalidParameters | AddressNotWhitelisted
  | DestinationNotAllowed | WrongNetwork | NetworkMissing | UnsupportedNetwork | RequestNotFound
  | AlpacaApi

record error_body =
  eb_code :: error_code
  eb_outcome :: "outcome option"
  eb_retryable :: bool
  eb_retryable_with_same_key :: bool
  eb_retry_after_secs :: "nat option"
  eb_reason :: "rejection_reason option"
  eb_alpaca_status :: "nat option"
  eb_request_id :: uuid
  eb_message :: string

subsection \<open>Failures\<close>

record failure =
  fa_code :: error_code
  fa_outcome :: "outcome option"
  fa_retryable :: bool
  fa_retryable_with_same_key :: bool
  fa_retry_after :: "duration option"
  fa_reason :: "rejection_reason option"
  fa_alpaca_status :: "nat option"
  fa_alpaca_object_ids :: "string list"
  fa_message :: string
  fa_request_id :: uuid

definition failure_new :: "uuid \<Rightarrow> error_code \<Rightarrow> string \<Rightarrow> failure" where
  "failure_new rid code message = \<lparr>
     fa_code = code,
     fa_outcome = None,
     fa_retryable = (code \<in> {Backpressure, Unavailable, NotReady, UpstreamTransient}),
     fa_retryable_with_same_key = False,
     fa_retry_after = None,
     fa_reason = None,
     fa_alpaca_status = None,
     fa_alpaca_object_ids = [],
     fa_message = message,
     fa_request_id = rid\<rparr>"

definition invalid :: "uuid \<Rightarrow> string \<Rightarrow> failure" where
  "invalid rid message = failure_new rid InvalidRequest message"

definition destination_not_allowed :: "uuid \<Rightarrow> string \<Rightarrow> failure" where
  "destination_not_allowed rid message =
     (failure_new rid Forbidden message)\<lparr>fa_reason := Some DestinationNotAllowed\<rparr>"

definition rejected :: "uuid \<Rightarrow> rejection_reason \<Rightarrow> string \<Rightarrow> failure" where
  "rejected rid reason message = (failure_new rid Rejected_Code message)\<lparr>fa_reason := Some reason\<rparr>"

definition for_mutation :: "failure \<Rightarrow> operation \<Rightarrow> failure" where
  "for_mutation f op =
     (if \<not> mutates op then f
      else if fa_code f = OutcomeUnknown
      then f\<lparr>fa_outcome := Some Unknown, fa_retryable := False,
             fa_retryable_with_same_key := resendable_with_same_key op\<rparr>
      else f\<lparr>fa_outcome := Some NotApplied\<rparr>)"

definition whole_seconds :: "duration \<Rightarrow> nat" where
  "whole_seconds h =
     max (min (h div nanos_per_sec + (if 0 < h mod nanos_per_sec then 1 else 0)) (2 ^ 64 - 1)) 1"

definition body :: "failure \<Rightarrow> error_body" where
  "body f = \<lparr>
     eb_code = fa_code f,
     eb_outcome = fa_outcome f,
     eb_retryable = fa_retryable f,
     eb_retryable_with_same_key = fa_retryable_with_same_key f,
     eb_retry_after_secs = map_option whole_seconds (fa_retry_after f),
     eb_reason = fa_reason f,
     eb_alpaca_status = fa_alpaca_status f,
     eb_request_id = fa_request_id f,
     eb_message = fa_message f\<rparr>"

text \<open>An answer: its status, the headers the gateway adds and its body. \<open>'b\<close> is the body of a success.\<close>

datatype 'b answer_body = Success_Body 'b | Error_Body error_body

record 'b response =
  rs_status :: nat
  rs_headers :: "(string \<times> string) list"
  rs_body :: "'b answer_body"

definition REQUEST_ID_HEADER :: string where
  "REQUEST_ID_HEADER = ''x-request-id''"

definition into_response :: "failure \<Rightarrow> 'b response" where
  "into_response f = \<lparr>
     rs_status = code_status (fa_code f),
     rs_headers =
       (REQUEST_ID_HEADER, fa_request_id f)
       # (case fa_retry_after f of
            None \<Rightarrow> []
          | Some after \<Rightarrow> [(RETRY_AFTER, show_nat (whole_seconds after))]),
     rs_body = Error_Body (body f)\<rparr>"

subsection \<open>Shared cases\<close>

datatype sent = Sent_Read | Sent_Mutation

definition untyped :: "uuid \<Rightarrow> sent \<Rightarrow> permanence \<Rightarrow> string \<Rightarrow> failure" where
  "untyped rid sent p message =
     (case sent of
        Sent_Read \<Rightarrow>
          (failure_new rid UpstreamTransient message)\<lparr>fa_retryable := (p = Transient)\<rparr>
      | Sent_Mutation \<Rightarrow> failure_new rid OutcomeUnknown message)"

definition never_left :: "reqwest_error \<Rightarrow> bool" where
  "never_left e = (is_builder e \<or> is_connect e)"

definition unsent :: "uuid \<Rightarrow> reqwest_error \<Rightarrow> string \<Rightarrow> failure" where
  "unsent rid e message =
     (if is_builder e then untyped rid Sent_Read Permanent message
      else failure_new rid Unavailable message)"

definition unsendable :: "uuid \<Rightarrow> permanence \<Rightarrow> string \<Rightarrow> failure" where
  "unsendable rid p message =
     (failure_new rid Unavailable message)\<lparr>fa_retryable := (p = Transient)\<rparr>"

definition api_failure :: "uuid \<Rightarrow> status_code \<Rightarrow> sent \<Rightarrow> permanence \<Rightarrow> string \<Rightarrow> failure" where
  "api_failure rid status sent p message =
     (if is_client_error status \<and> status \<noteq> 408 \<and> status \<noteq> 429
      then rejected rid AlpacaApi message
      else untyped rid sent p message)\<lparr>fa_alpaca_status := Some status\<rparr>"

definition throttled :: "uuid \<Rightarrow> duration option \<Rightarrow> status_code option \<Rightarrow> string \<Rightarrow> failure" where
  "throttled rid w status message =
     (case status of
        Some s \<Rightarrow> (failure_new rid Backpressure message)\<lparr>fa_alpaca_status := Some s\<rparr>
      | None \<Rightarrow> failure_new rid Unavailable message)\<lparr>fa_retry_after := w\<rparr>"

subsection \<open>Broker, market data and placement\<close>

fun md_status :: "'f market_data_error \<Rightarrow> status_code option" where
  "md_status (Md_ApiError s _ _) = Some s"
| "md_status (Md_Entitlement s _) = Some s"
| "md_status _ = None"

definition market_data ::
  "uuid \<Rightarrow> 'f market_data_error \<Rightarrow> sent \<Rightarrow> permanence \<Rightarrow> string \<Rightarrow> failure" where
  "market_data rid e sent p message =
     (case md_backpressure e of
        Some b \<Rightarrow> throttled rid (retry_after b) (md_status e) message
      | None \<Rightarrow>
          (let other = (case md_status e of
                          Some s \<Rightarrow> api_failure rid s sent p message
                        | None \<Rightarrow> untyped rid sent p message)
           in case e of
                Md_NotSent _ \<Rightarrow> failure_new rid UpstreamTransient message
              | Md_Auth k \<Rightarrow>
                  (case k of
                     Kms_NotSent _ \<Rightarrow> failure_new rid UpstreamTransient message
                   | _ \<Rightarrow> unsendable rid p message)
              | Md_Http h \<Rightarrow> if never_left h then unsent rid h message else other
              | _ \<Rightarrow> other))"

definition kms_failure :: "uuid \<Rightarrow> kms_jwt_error \<Rightarrow> permanence \<Rightarrow> string \<Rightarrow> failure" where
  "kms_failure rid k p message =
     (case k of
        Kms_NotSent _ \<Rightarrow> failure_new rid UpstreamTransient message
      | _ \<Rightarrow> unsendable rid p message)"

fun broker_status :: "'f broker_error \<Rightarrow> status_code option" where
  "broker_status (ApiError s _ _ _) = Some s"
| "broker_status _ = None"

definition broker :: "uuid \<Rightarrow> string \<Rightarrow> 'f broker_error \<Rightarrow> sent \<Rightarrow> failure" where
  "broker rid message e sent =
     (case e of
        LatestTrade source \<Rightarrow> market_data rid source sent (broker_permanence e) message
      | LatestQuote source \<Rightarrow> market_data rid source sent (broker_permanence e) message
      | _ \<Rightarrow>
     (case broker_backpressure e of
        Some b \<Rightarrow> throttled rid (retry_after b) (broker_status e) message
      | None \<Rightarrow>
     (case e of
        UsdConversionInsufficientBalance _ \<Rightarrow>
          (rejected rid InsufficientBalance message)\<lparr>fa_alpaca_status := Some 403\<rparr>
      | AccountNotActive _ _ \<Rightarrow> rejected rid R_AccountNotActive message
      | AssetNotActive _ _ \<Rightarrow> rejected rid R_AssetNotActive message
      | AssetNotTradable _ \<Rightarrow> rejected rid R_AssetNotTradable message
      | InvalidLimitPricePrecision _ _ \<Rightarrow> invalid rid message
      | BelowPrecision _ _ \<Rightarrow> invalid rid message
      | UsdcBelowPrecision _ _ \<Rightarrow> invalid rid message
      | UsdcPrecisionExceeded _ _ \<Rightarrow> invalid rid message
      | NotPositive _ \<Rightarrow> invalid rid message
      | NotPositiveLimitPrice _ \<Rightarrow> invalid rid message
      | InvalidOrderId _ \<Rightarrow> invalid rid message
      | AccountActivitiesPageLimitExceeded pages \<Rightarrow>
          invalid rid (''more than '' @ show_nat pages
            @ '' pages of account activities match; narrow the after and until window'')
      | NotSent _ \<Rightarrow> failure_new rid UpstreamTransient message
      | KmsJwt k \<Rightarrow> kms_failure rid k (broker_permanence e) message
      | InvalidEndpoint _ \<Rightarrow> unsendable rid (broker_permanence e) message
      | InvalidHeader _ \<Rightarrow> unsendable rid (broker_permanence e) message
      | HttpClient h \<Rightarrow>
          if never_left h then unsent rid h message
          else untyped rid sent (broker_permanence e) message
      | ApiError status _ _ _ \<Rightarrow>
          if sent = Sent_Mutation \<and> is_duplicate_client_order_id e
          then (untyped rid sent (broker_permanence e) message)\<lparr>fa_alpaca_status := Some status\<rparr>
          else api_failure rid status sent (broker_permanence e) message
      | _ \<Rightarrow> untyped rid sent (broker_permanence e) message)))"

definition placement :: "uuid \<Rightarrow> string \<Rightarrow> 'f placement_error \<Rightarrow> failure" where
  "placement rid message p =
     (if \<not> written p then broker rid message (error p) Sent_Read
      else (failure_new rid OutcomeUnknown message)\<lparr>
             fa_alpaca_status := broker_status (error p),
             fa_retry_after := Option.bind (broker_backpressure (error p)) retry_after\<rparr>)"

subsection \<open>Wallet and tokenization\<close>

fun wallet_status :: "wallet_error \<Rightarrow> status_code option" where
  "wallet_status (Wal_ApiError s _ _) = Some s"
| "wallet_status _ = None"

definition wallet :: "uuid \<Rightarrow> string \<Rightarrow> wallet_error \<Rightarrow> sent \<Rightarrow> failure" where
  "wallet rid message e sent =
     (case wallet_backpressure e of
        Some b \<Rightarrow> throttled rid (retry_after b) (wallet_status e) message
      | None \<Rightarrow>
     (case e of
        Wal_AddressNotWhitelisted _ _ _ \<Rightarrow> rejected rid AddressNotWhitelisted message
      | Wal_NoWhitelistEntries _ \<Rightarrow> rejected rid AddressNotWhitelisted message
      | Wal_Reqwest h \<Rightarrow>
          if never_left h then unsent rid h message
          else untyped rid sent (wallet_permanence e) message
      | Wal_NotSent _ \<Rightarrow> failure_new rid UpstreamTransient message
      | Wal_Auth k \<Rightarrow> kms_failure rid k (wallet_permanence e) message
      | Wal_InvalidBaseUrl _ \<Rightarrow> unsendable rid (wallet_permanence e) message
      | Wal_TransferNotFound _ \<Rightarrow>
          (rejected rid RequestNotFound message)\<lparr>fa_alpaca_status := Some 404\<rparr>
      | Wal_ApiError status _ _ \<Rightarrow> api_failure rid status sent (wallet_permanence e) message
      | _ \<Rightarrow> untyped rid sent (wallet_permanence e) message))"

fun tokenization_api_status :: "tokenization_error \<Rightarrow> status_code option" where
  "tokenization_api_status (Tok_ApiError s _ _) = Some s"
| "tokenization_api_status _ = None"

definition network_refusal :: "uuid \<Rightarrow> sent \<Rightarrow> rejection_reason \<Rightarrow> string \<Rightarrow> string \<Rightarrow> failure" where
  "network_refusal rid sent reason request_id message =
     (case sent of
        Sent_Read \<Rightarrow> rejected rid reason message
      | Sent_Mutation \<Rightarrow> untyped rid sent Permanent message)
     \<lparr>fa_alpaca_object_ids := [request_id]\<rparr>"

definition tokenization ::
  "(reqwest_error \<Rightarrow> status_code option) \<Rightarrow> uuid \<Rightarrow> string \<Rightarrow> tokenization_error \<Rightarrow> sent \<Rightarrow> failure" where
  "tokenization http_status rid message e sent =
     (case tokenization_backpressure e of
        Some b \<Rightarrow> throttled rid (retry_after b) (tokenization_api_status e) message
      | None \<Rightarrow>
      if is_definitive_mint_rejection e then
        (rejected rid
           (case e of
              Tok_InsufficientPosition _ \<Rightarrow> InsufficientPosition
            | Tok_UnsupportedAccount \<Rightarrow> UnsupportedAccount
            | _ \<Rightarrow> InvalidParameters) message)
        \<lparr>fa_alpaca_status := tokenization_status_code http_status e\<rparr>
      else
     (case e of
        Tok_NotSent _ \<Rightarrow> failure_new rid UpstreamTransient message
      | Tok_Auth k \<Rightarrow> kms_failure rid k (tokenization_permanence e) message
      | Tok_InvalidBaseUrl _ \<Rightarrow> unsendable rid (tokenization_permanence e) message
      | Tok_PrivateKeyJwtUnsupported \<Rightarrow> unsendable rid (tokenization_permanence e) message
      | Tok_Reqwest h \<Rightarrow>
          if never_left h then unsent rid h message
          else untyped rid sent (tokenization_permanence e) message
      | Tok_RequestNotFound _ \<Rightarrow> rejected rid RequestNotFound message
      | Tok_WrongNetwork i _ _ \<Rightarrow> network_refusal rid sent WrongNetwork i message
      | Tok_NetworkMissing i \<Rightarrow> network_refusal rid sent NetworkMissing i message
      | Tok_ApiError status _ _ \<Rightarrow>
          if sent = Sent_Mutation
          then (untyped rid sent (tokenization_permanence e) message)\<lparr>fa_alpaca_status := Some status\<rparr>
          else api_failure rid status sent (tokenization_permanence e) message
      | _ \<Rightarrow> untyped rid sent (tokenization_permanence e) message))"

subsection \<open>Issuer and stream\<close>

definition issuer :: "uuid \<Rightarrow> string \<Rightarrow> alpaca_error \<Rightarrow> sent \<Rightarrow> failure" where
  "issuer rid message e sent =
     (case alpaca_backpressure e of
        Some b \<Rightarrow>
          (case e of
             Iss_RateLimited _ _ \<Rightarrow>
               (failure_new rid Backpressure message)\<lparr>fa_retry_after := retry_after b\<rparr>
           | _ \<Rightarrow> throttled rid (retry_after b) None message)
      | None \<Rightarrow>
     (case e of
        Iss_UnsupportedTokenizationNetwork _ \<Rightarrow> rejected rid UnsupportedNetwork message
      | Iss_NotSent _ \<Rightarrow> failure_new rid UpstreamTransient message
      | Iss_Jwt k \<Rightarrow> kms_failure rid k (alpaca_permanence e) message
      | Iss_InvalidUrl _ \<Rightarrow> unsendable rid (alpaca_permanence e) message
      | Iss_Reqwest h \<Rightarrow>
          if never_left h then unsent rid h message
          else untyped rid sent (alpaca_permanence e) message
      | Iss_RequestNotFound _ _ \<Rightarrow>
          (rejected rid RequestNotFound message)\<lparr>fa_alpaca_status := Some 404\<rparr>
      | Iss_Auth _ \<Rightarrow> rejected rid AlpacaApi message
      | Iss_Api code _ \<Rightarrow>
          (case status_from_u16 code of
             Some status \<Rightarrow> api_failure rid status sent (alpaca_permanence e) message
           | None \<Rightarrow> untyped rid sent (alpaca_permanence e) message)
      | _ \<Rightarrow> untyped rid sent (alpaca_permanence e) message))"

definition issuer_call :: "uuid \<Rightarrow> string \<Rightarrow> issuer_call_error \<Rightarrow> failure" where
  "issuer_call rid message f =
     (if ice_written f
      then (failure_new rid OutcomeUnknown message)\<lparr>
             fa_retry_after := Option.bind (alpaca_backpressure (ice_error f)) retry_after\<rparr>
      else issuer rid message (ice_error f) Sent_Read)
     \<lparr>fa_alpaca_status := ice_alpaca_status f\<rparr>"

definition corporate_actions :: "uuid \<Rightarrow> string \<Rightarrow> stream_error \<Rightarrow> failure" where
  "corporate_actions rid message e =
     (case e of
        Str_Auth source \<Rightarrow>
          if is_rate_limited source then throttled rid (kms_retry_after source) None message
          else kms_failure rid source (kms_permanence source) message
      | Str_NotSent _ \<Rightarrow> failure_new rid UpstreamTransient message
      | Str_Http h \<Rightarrow>
          if never_left h then unsent rid h message
          else untyped rid Sent_Read Transient message
      | Str_RateLimited w \<Rightarrow> throttled rid w (Some 429) message
      | Str_HttpStatus status \<Rightarrow>
          api_failure rid status Sent_Read
            (if is_redirection status then Permanent else Transient) message
      | Str_InvalidContentType status _ \<Rightarrow> api_failure rid status Sent_Read Permanent message)"


subsection \<open>What each case answers\<close>

lemma new_simps [simp]:
  "fa_code (failure_new rid c m) = c"
  "fa_outcome (failure_new rid c m) = None"
  "fa_retry_after (failure_new rid c m) = None"
  "fa_code (invalid rid m) = InvalidRequest"
  "fa_code (rejected rid r m) = Rejected_Code"
  "fa_code (unsendable rid p m) = Unavailable"
  "fa_code (throttled rid w st m) = (if st = None then Unavailable else Backpressure)"
  "fa_retry_after (throttled rid w st m) = w"
  by (simp_all add: failure_new_def invalid_def rejected_def unsendable_def throttled_def
      split: option.splits)

lemma untyped_code [simp]:
  "fa_code (untyped rid sent p m) = (if sent = Sent_Read then UpstreamTransient else OutcomeUnknown)"
  by (cases sent) (simp_all add: untyped_def)

lemma unsent_code [simp]:
  "fa_code (unsent rid e m) = (if is_builder e then UpstreamTransient else Unavailable)"
  by (simp add: unsent_def)

lemma api_failure_code [simp]:
  "fa_code (api_failure rid s sent p m) =
     (if is_client_error s \<and> s \<noteq> 408 \<and> s \<noteq> 429 then Rejected_Code
      else fa_code (untyped rid sent p m))"
  by (simp add: api_failure_def)

lemma kms_failure_code: "fa_code (kms_failure rid k p m) \<in> {UpstreamTransient, Unavailable}"
  by (cases k) (simp_all add: kms_failure_def)

lemma kms_failure_known [simp]: "fa_code (kms_failure rid k p m) \<noteq> OutcomeUnknown"
  using kms_failure_code [of rid k p m] by auto

lemma market_data_read [simp]: "fa_code (market_data rid e Sent_Read p m) \<noteq> OutcomeUnknown"
  by (auto simp: market_data_def Let_def split: option.splits market_data_error.splits kms_jwt_error.splits)

text \<open>A failure mapped as a read never claims an unknown outcome.\<close>

lemma broker_read_known: "fa_code (broker rid m e Sent_Read) \<noteq> OutcomeUnknown"
  by (cases e) (simp_all add: broker_def split: option.splits)

lemma issuer_read_known: "fa_code (issuer rid m e Sent_Read) \<noteq> OutcomeUnknown"
  by (cases e) (simp_all add: issuer_def split: option.splits)

lemma for_mutation_outcome:
  "mutates op \<Longrightarrow>
   fa_outcome (for_mutation f op) = Some (if fa_code f = OutcomeUnknown then Unknown else NotApplied)"
  by (simp add: for_mutation_def)

subsection \<open>When a mutation's outcome is open\<close>

text \<open>
  What a failed mutation leaves open, said of the error alone: a request that left the process
  and got no definite refusal may have been applied.
\<close>

fun broker_post_open :: "'f broker_error \<Rightarrow> bool" where
  "broker_post_open (HttpClient h) = (\<not> is_builder h \<and> \<not> is_connect h)"
| "broker_post_open (ApiError s _ m _) =
     (\<not> (400 \<le> s \<and> s < 500) \<or> s = 408 \<or> (s = 422 \<and> contains m ''client_order_id must be unique''))"
| "broker_post_open (JsonParse _) = True"
| "broker_post_open _ = False"

text \<open>The errors one POST of the broker client can end with.\<close>

fun is_post_error :: "'f broker_error \<Rightarrow> bool" where
  "is_post_error (HttpClient _) = True"
| "is_post_error (ApiError _ _ _ _) = True"
| "is_post_error (JsonParse _) = True"
| "is_post_error (KmsJwt _) = True"
| "is_post_error (NotSent _) = True"
| "is_post_error _ = False"

fun wallet_post_open :: "wallet_error \<Rightarrow> bool" where
  "wallet_post_open (Wal_Reqwest h) = (\<not> is_builder h \<and> \<not> is_connect h)"
| "wallet_post_open (Wal_ApiError s _ _) = (\<not> (400 \<le> s \<and> s < 500) \<or> s = 408)"
| "wallet_post_open (Wal_ParseError _) = True"
| "wallet_post_open (Wal_Utf8 _) = True"
| "wallet_post_open (Wal_FromHex _) = True"
| "wallet_post_open _ = False"

fun is_wallet_post_error :: "wallet_error \<Rightarrow> bool" where
  "is_wallet_post_error (Wal_Reqwest _) = True"
| "is_wallet_post_error (Wal_ApiError _ _ _) = True"
| "is_wallet_post_error (Wal_ParseError _) = True"
| "is_wallet_post_error (Wal_Utf8 _) = True"
| "is_wallet_post_error (Wal_FromHex _) = True"
| "is_wallet_post_error (Wal_Auth _) = True"
| "is_wallet_post_error (Wal_NotSent _) = True"
| "is_wallet_post_error (Wal_AddressNotWhitelisted _ _ _) = True"
| "is_wallet_post_error _ = False"

lemma broker_mutation_code:
  "is_post_error e \<Longrightarrow>
   fa_code (broker rid m e Sent_Mutation) = OutcomeUnknown \<longleftrightarrow> broker_post_open e"
  by (cases e)
    (auto simp: broker_def status_backpressure_def never_left_def is_client_error_def split: option.splits)

lemma wallet_mutation_code:
  "is_wallet_post_error e \<Longrightarrow>
   fa_code (wallet rid m e Sent_Mutation) = OutcomeUnknown \<longleftrightarrow> wallet_post_open e"
  by (cases e)
    (auto simp: wallet_def status_backpressure_def never_left_def is_client_error_def split: option.splits)



lemma placement_code: "fa_code (placement rid m p) = OutcomeUnknown \<longleftrightarrow> written p"
  using broker_read_known [of rid m "error p"] by (simp add: placement_def)

lemma placement_outcome:
  "mutates op \<Longrightarrow>
   fa_outcome (for_mutation (placement rid m p) op) = Some (if written p then Unknown else NotApplied)"
  by (simp add: for_mutation_outcome placement_code)

text \<open>
  A failed placement or issuer call is answered by whether it was written. Once the request
  may have been written the answer is \<open>outcome_unknown\<close>, keeps the hold Alpaca or the credential
  mint asked for, and never invites a plain retry; before that, whatever the error, nothing was
  applied.
\<close>

theorem written_decides_the_outcome:
  assumes "mutates op"
  shows "fa_outcome (for_mutation (placement rid m p) op)
           = Some (if written p then Unknown else NotApplied)
    \<and> fa_outcome (for_mutation (issuer_call rid m i) op)
           = Some (if ice_written i then Unknown else NotApplied)
    \<and> (written p \<longrightarrow> \<not> fa_retryable (for_mutation (placement rid m p) op)
         \<and> fa_retry_after (for_mutation (placement rid m p) op)
             = Option.bind (broker_backpressure (error p)) retry_after)
    \<and> (ice_written i \<longrightarrow> \<not> fa_retryable (for_mutation (issuer_call rid m i) op)
         \<and> fa_retry_after (for_mutation (issuer_call rid m i) op)
             = Option.bind (alpaca_backpressure (ice_error i)) retry_after)"
proof -
  note p = placement_code [of rid m p]
  have i: "fa_code (issuer_call rid m i) = OutcomeUnknown \<longleftrightarrow> ice_written i"
    using issuer_read_known [of rid m "ice_error i"] by (simp add: issuer_call_def)
  show ?thesis
    using assms p i
    by (simp add: for_mutation_outcome) (simp add: for_mutation_def placement_def issuer_call_def)
qed

theorem written_decides_the_outcome_witness:
  "fa_outcome (for_mutation (placement ''r'' ''cut'' (maybe_written (JsonParse ''cut'') :: nat placement_error))
      OrdersPlaceLimit) = Some Unknown
   \<and> fa_outcome (for_mutation (placement ''r'' ''no'' (unwritten (JsonParse ''no'') :: nat placement_error))
      OrdersPlaceLimit) = Some NotApplied"
  using written_decides_the_outcome
      [of OrdersPlaceLimit "''r''" "''cut''" "maybe_written (JsonParse ''cut'') :: nat placement_error"
          "\<lparr>ice_written = False, ice_alpaca_status = None, ice_error = Iss_Auth ''x''\<rparr>"]
    written_decides_the_outcome
      [of OrdersPlaceLimit "''r''" "''no''" "unwritten (JsonParse ''no'') :: nat placement_error"
          "\<lparr>ice_written = False, ice_alpaca_status = None, ice_error = Iss_Auth ''x''\<rparr>"]
  by (simp add: mutates_def maybe_written_def unwritten_def)

subsection \<open>The advertised wait\<close>

lemma whole_seconds_bounds:
  assumes "h \<le> (2 ^ 64 - 1) * nanos_per_sec"
  shows "h \<le> whole_seconds h * nanos_per_sec" and "whole_seconds h < 2 ^ 64"
    and "1 \<le> whole_seconds h" and "h \<noteq> 0 \<Longrightarrow> (whole_seconds h - 1) * nanos_per_sec < h"
proof -
  define q where "q = h div nanos_per_sec"
  define r where "r = h mod nanos_per_sec"
  have split: "h = q * nanos_per_sec + r" and r: "r < nanos_per_sec"
    by (simp_all add: q_def r_def)
  let ?s = "q + (if 0 < r then 1 else 0)"
  have up: "h \<le> ?s * nanos_per_sec" using split r by auto
  have "q * nanos_per_sec \<le> (2 ^ 64 - 1) * nanos_per_sec" using assms split by linarith
  then have q: "q \<le> 2 ^ 64 - 1" by simp
  have s: "?s \<le> 2 ^ 64 - 1"
  proof (cases "0 < r")
    case True
    have "q \<noteq> 2 ^ 64 - 1" using assms split True by auto
    with q True show ?thesis by simp
  next
    case False
    with q show ?thesis by simp
  qed
  have w: "whole_seconds h = max ?s 1"
    using s by (simp add: whole_seconds_def q_def [symmetric] r_def [symmetric] min_absorb1)
  show "h \<le> whole_seconds h * nanos_per_sec"
    unfolding w by (rule order_trans [OF up]) (rule mult_le_mono1, rule max.cobounded1)
  show "whole_seconds h < 2 ^ 64" and "1 \<le> whole_seconds h" using s w by auto
  show "h \<noteq> 0 \<Longrightarrow> (whole_seconds h - 1) * nanos_per_sec < h"
    using w split by (cases q) (auto simp: max_def)
qed

lemma digits_val_append:
  "digits_val acc (s @ t) = (case digits_val acc s of None \<Rightarrow> None | Some n \<Rightarrow> digits_val n t)"
  by (induction s arbitrary: acc) auto

lemma digit_char_digit: "n < 10 \<Longrightarrow> is_digit (digit_char n) \<and> digit_val (digit_char n) = n"
  by (simp add: is_digit_def between_def digit_val_def of_char_of)

lemma digits_val_show: "digits_val 0 (show_nat n) = Some n"
proof (induction n rule: show_nat.induct)
  case (1 n)
  show ?case
  proof (cases "n < 10")
    case True
    then show ?thesis using digit_char_digit [OF True] by (simp add: show_nat.simps)
  next
    case False
    with 1 have "digits_val 0 (show_nat (n div 10)) = Some (n div 10)" by simp
    then show ?thesis
      using False digit_char_digit [of "n mod 10"]
      by (simp add: show_nat.simps [of n] digits_val_append)
  qed
qed

lemma show_nat_digits: "list_all is_digit (show_nat n) \<and> show_nat n \<noteq> []"
proof (induction n rule: show_nat.induct)
  case (1 n)
  then show ?case
    using digit_char_digit [of n] digit_char_digit [of "n mod 10"]
    by (cases "n < 10") (simp_all add: show_nat.simps [of n])
qed

lemma digit_bytes:
  assumes "is_digit c"
  shows "\<not> between 9 13 c" "\<not> between 128 138 c" "\<not> between 168 169 c"
    "c \<noteq> CHR 0x20" "c \<noteq> CHR 0xC2" "c \<noteq> CHR 0xE1" "c \<noteq> CHR 0xE2" "c \<noteq> CHR 0xE3"
    "c \<noteq> CHR 0x85" "c \<noteq> CHR 0xA0" "c \<noteq> CHR 0x80" "c \<noteq> CHR 0xAF" "c \<noteq> CHR 0x9F"
  using assms by (auto simp: is_digit_def between_def)

lemma digit_not_space:
  assumes "is_digit c"
  shows "ws_front (c # s) = None" and "ws_back (c # s) = None"
  by (simp_all add: ws_front.simps ws_back.simps digit_bytes [OF assms] split: list.split)

lemma trim_digits:
  assumes "list_all is_digit s"
  shows "trim s = s"
proof -
  have front: "strip_front s = s"
    using assms digit_not_space(1) by (cases s) (simp_all add: strip_front.simps ws_front.simps)
  have "strip_back (rev s) = rev s"
  proof (cases "rev s")
    case Nil
    then show ?thesis by (simp add: strip_back.simps ws_back.simps)
  next
    case (Cons c t)
    then have "is_digit c" using assms by (metis list.set_intros(1) list_all_iff set_rev)
    then show ?thesis using digit_not_space(2) Cons by (simp add: strip_back.simps)
  qed
  with front show ?thesis by (simp add: trim_def)
qed

lemma parse_u64_show: "n < 2 ^ 64 \<Longrightarrow> parse_u64 (show_nat n) = Some n"
proof -
  assume n: "n < 2 ^ 64"
  have digits: "list_all is_digit (show_nat n)" "show_nat n \<noteq> []"
    using show_nat_digits [of n] by auto
  then obtain c t where s: "show_nat n = c # t" "is_digit c" by (cases "show_nat n") auto
  then have "c \<noteq> CHR ''+''" by (auto simp: is_digit_def between_def)
  with s n show ?thesis
    using digits_val_show [of n] by (simp add: parse_u64_def)
qed

text \<open>
  A caller that waits the advertised time never retries early. For every hold a \<open>Duration\<close> can
  carry short of the last second, the seconds in the body and in the \<open>Retry-After\<close> header are the
  same number; the header is read back by the clients' own \<open>parse_retry_after\<close> as exactly that
  wait, which is at least the hold, at least a second, and less than a second too long.
\<close>

theorem advertised_wait_covers_the_hold:
  assumes "fa_retry_after f = Some h" and "h \<le> (2 ^ 64 - 1) * nanos_per_sec"
  shows "eb_retry_after_secs (body f) = Some (whole_seconds h)
    \<and> (\<exists>v. map_of (rs_headers (into_response f)) RETRY_AFTER = Some v
        \<and> parse_retry_after rfc2822 v now = Some (from_secs (whole_seconds h)))
    \<and> h \<le> from_secs (whole_seconds h) \<and> 1 \<le> whole_seconds h
    \<and> (h = 0 \<or> from_secs (whole_seconds h - 1) < h)"
proof -
  have "parse_retry_after rfc2822 (show_nat (whole_seconds h)) now = Some (from_secs (whole_seconds h))"
    using show_nat_digits whole_seconds_bounds(2) [OF assms(2)]
    by (simp add: parse_retry_after_def trim_digits parse_u64_show)
  then show ?thesis
    using assms(1) whole_seconds_bounds [OF assms(2)]
    by (auto simp: body_def into_response_def RETRY_AFTER_def REQUEST_ID_HEADER_def from_secs_def)
qed

theorem advertised_wait_covers_the_hold_witness:
  "eb_retry_after_secs (body ((failure_new ''r'' Backpressure ''wait'')
      \<lparr>fa_retry_after := Some 1500000000\<rparr>)) = Some 2
   \<and> (1500000000 :: nat) \<le> from_secs 2"
proof -
  have two: "whole_seconds 1500000000 = 2" by (simp add: whole_seconds_def nanos_per_sec_def)
  have range: "(1500000000 :: nat) \<le> (2 ^ 64 - 1) * nanos_per_sec" by (simp add: nanos_per_sec_def)
  have "fa_retry_after ((failure_new ''r'' Backpressure ''wait'')
      \<lparr>fa_retry_after := Some 1500000000\<rparr>) = Some 1500000000" by simp
  from advertised_wait_covers_the_hold [OF this range, of "\<lambda>_. None" 0]
  show ?thesis unfolding two by blast
qed

end
