(* ===== verification/Endpoint.thy ===== *)
theory Endpoint
  imports Stream_Event Errors
begin

text \<open>
  Where credentials may go: origin validation (\<^verbatim>\<open>src/endpoint.rs\<close>), the corporate-action stream
  endpoint (\<^verbatim>\<open>src/corporate_actions/endpoint.rs\<close>) and the connection to it
  (\<^verbatim>\<open>src/corporate_actions/client.rs\<close>). A URL is the record of what the url crate's accessors
  answer; its parser, the address parser of \<open>std::net\<close> and the credential runtime are parameters.
\<close>

subsection \<open>URLs\<close>

datatype ip_addr = V4 "nat \<times> nat \<times> nat \<times> nat" | V6 "nat list"

fun is_loopback :: "ip_addr \<Rightarrow> bool" where
  "is_loopback (V4 (a, _, _, _)) = (a = 127)"
| "is_loopback (V6 groups) = (groups = [0, 0, 0, 0, 0, 0, 0, 1])"

datatype host = Domain string | Host_Ip ip_addr

record url =
  u_text :: string
  u_scheme :: string
  u_host :: "host option"
  u_host_str :: "string option"
  u_username :: string
  u_password :: "string option"
  u_query :: "string option"
  u_fragment :: "string option"
  u_query_pairs :: "(string \<times> string) list"

type_synonym url_parser = "string \<Rightarrow> string + url"
type_synonym ip_parser = "string \<Rightarrow> ip_addr option"

subsection \<open>Credential-bearing origins\<close>

definition trim_brackets :: "string \<Rightarrow> string" where
  "trim_brackets s =
     rev (dropWhile (\<lambda>c. c = CHR ''['' \<or> c = CHR '']'')
       (rev (dropWhile (\<lambda>c. c = CHR ''['' \<or> c = CHR '']'') s)))"

definition origin_loopback :: "ip_parser \<Rightarrow> string \<Rightarrow> bool" where
  "origin_loopback parse_ip h =
     (to_ascii_lowercase h = ''localhost''
      \<or> (case parse_ip (trim_brackets h) of None \<Rightarrow> False | Some ip \<Rightarrow> is_loopback ip))"

definition validate_origin ::
  "url_parser \<Rightarrow> ip_parser \<Rightarrow> string \<Rightarrow> endpoint_role \<Rightarrow> endpoint_error + url" where
  "validate_origin parse_url parse_ip v role =
     and_then (map_err (EndpointParse role) (parse_url v)) (\<lambda>u.
     and_then (ok_or (u_host_str u) (MissingHost role)) (\<lambda>h.
     and_then (ensure (u_scheme u = ''https'' \<or> (u_scheme u = ''http'' \<and> origin_loopback parse_ip h))
                 (InsecureScheme role)) (\<lambda>_.
     and_then (ensure (u_username u = [] \<and> u_password u = None) (EmbeddedCredentials role)) (\<lambda>_.
     and_then (ensure (u_query u = None \<and> u_fragment u = None) (QueryOrFragment role)) (\<lambda>_.
     Inr u)))))"

definition validate_credential_origin ::
  "url_parser \<Rightarrow> ip_parser \<Rightarrow> string \<Rightarrow> endpoint_error + url" where
  "validate_credential_origin parse_url parse_ip v = validate_origin parse_url parse_ip v CredentialOrigin"

text \<open>\<open>str::replace\<close> of \<open>%2e\<close> by a dot, and the segment test of \<open>resolve_segments\<close>.\<close>

fun undot :: "string \<Rightarrow> string" where
  "undot (a # b # c # s) =
     (if [a, b, c] = ''%2e'' then CHR ''.'' # undot s else a # undot (b # c # s))"
| "undot s = s"

definition bad_segment :: "string \<Rightarrow> bool" where
  "bad_segment s =
     (s = [] \<or> undot (to_ascii_lowercase s) = ''.'' \<or> undot (to_ascii_lowercase s) = ''..'')"

text \<open>\<open>extend_path\<close> is the url crate's percent-encoding append of path segments.\<close>

definition resolve_segments ::
  "(url \<Rightarrow> string list \<Rightarrow> url) \<Rightarrow> url \<Rightarrow> string list \<Rightarrow> endpoint_error + url" where
  "resolve_segments extend_path base segments =
     (case List.find bad_segment segments of
        Some s \<Rightarrow> Inl (InvalidPathSegment s)
      | None \<Rightarrow> Inr (extend_path base segments))"

subsection \<open>The stream endpoint\<close>

definition ALPACA_STREAM_HOST :: string where
  "ALPACA_STREAM_HOST = ''stream.data.alpaca.markets''"

definition RESERVED_REPLAY_QUERY_PARAMETERS :: "string list" where
  "RESERVED_REPLAY_QUERY_PARAMETERS = [''since'', ''since_id'', ''until'', ''until_id'']"

datatype development_loopback = Allow | Deny

datatype stream_transport = AuthenticatedAlpaca | CredentialFreeDevelopment

record stream_endpoint =
  se_url :: url
  se_transport :: stream_transport

datatype stream_endpoint_error =
    SE_InvalidEndpoint string
  | SE_InsecureEndpointScheme string
  | SE_UnexpectedEndpointHost
  | SE_ReservedReplayQueryParameter string
  | SE_EmbeddedCredentials
  | SE_Fragment

definition reject_forbidden_url_parts :: "url \<Rightarrow> stream_endpoint_error + unit" where
  "reject_forbidden_url_parts u =
     (if u_username u \<noteq> [] \<or> u_password u \<noteq> None then Inl SE_EmbeddedCredentials
      else if u_fragment u \<noteq> None then Inl SE_Fragment
      else case List.find (\<lambda>(p, _). p \<in> set RESERVED_REPLAY_QUERY_PARAMETERS) (u_query_pairs u) of
          Some (p, _) \<Rightarrow> Inl (SE_ReservedReplayQueryParameter p)
        | None \<Rightarrow> Inr ())"

definition is_development_loopback_endpoint :: "url \<Rightarrow> development_loopback \<Rightarrow> bool" where
  "is_development_loopback_endpoint u d =
     (if d \<noteq> Allow \<or> u_scheme u \<noteq> ''http'' then False
      else case u_host u of Some (Host_Ip ip) \<Rightarrow> is_loopback ip | _ \<Rightarrow> False)"

definition parse_stream_endpoint ::
  "url_parser \<Rightarrow> string \<Rightarrow> development_loopback \<Rightarrow> stream_endpoint_error + stream_endpoint" where
  "parse_stream_endpoint parse_url text d =
     and_then (map_err SE_InvalidEndpoint (parse_url text)) (\<lambda>u.
     and_then (reject_forbidden_url_parts u) (\<lambda>_.
     if is_development_loopback_endpoint u d
     then Inr \<lparr>se_url = u, se_transport = CredentialFreeDevelopment\<rparr>
     else if u_scheme u \<noteq> ''https'' then Inl (SE_InsecureEndpointScheme (u_scheme u))
     else if u_host_str u \<noteq> Some ALPACA_STREAM_HOST then Inl SE_UnexpectedEndpointHost
     else Inr \<lparr>se_url = u, se_transport = AuthenticatedAlpaca\<rparr>))"

subsection \<open>Connecting\<close>

text \<open>
  A request as the client builds it: the URL, the query pairs appended to it and whether the
  credentials were attached. The credential runtime \<open>'a\<close> and the mint it may run are parameters.
\<close>

record stream_request =
  sr_url :: url
  sr_credentials :: "string option"
  sr_query :: "(string \<times> string) list"

record http_response =
  hr_status :: status_code
  hr_headers :: headers

record 'a stream_client =
  sc_endpoint :: stream_endpoint
  sc_auth :: "'a option"

definition new_stream_client ::
  "('c \<Rightarrow> kms_jwt_error + 'a) \<Rightarrow> stream_endpoint \<Rightarrow> 'c \<Rightarrow> kms_jwt_error + 'a stream_client" where
  "new_stream_client build_auth ep credentials =
     (case se_transport ep of
        AuthenticatedAlpaca \<Rightarrow>
          and_then (build_auth credentials) (\<lambda>a. Inr \<lparr>sc_endpoint = ep, sc_auth = Some a\<rparr>)
      | CredentialFreeDevelopment \<Rightarrow> Inr \<lparr>sc_endpoint = ep, sc_auth = None\<rparr>)"

definition apply_auth ::
  "('a \<Rightarrow> kms_jwt_error + string) \<Rightarrow> 'a option \<Rightarrow> stream_request \<Rightarrow> kms_jwt_error + stream_request" where
  "apply_auth apca auth r =
     (case auth of
        None \<Rightarrow> Inr r
      | Some a \<Rightarrow> and_then (apca a) (\<lambda>c. Inr (r\<lparr>sr_credentials := Some c\<rparr>)))"

fun stream_from_send :: "send_error \<Rightarrow> stream_error" where
  "stream_from_send (SendHttp e) = Str_Http e"
| "stream_from_send (SendNotSent c) = Str_NotSent c"

definition check_stream_response ::
  "rfc2822_parser \<Rightarrow> int \<Rightarrow> http_response \<Rightarrow> stream_error + http_response" where
  "check_stream_response rfc2822 now resp =
     (if hr_status resp = 429
      then Inl (Str_RateLimited (retry_after_from_response_headers rfc2822 (hr_headers resp) now))
      else if \<not> is_success (hr_status resp) then Inl (Str_HttpStatus (hr_status resp))
      else
        let content_type = unwrap_or (header_text (hr_headers resp) ''content-type'') []
        in if \<not> starts_with content_type ''text/event-stream''
           then Inl (Str_InvalidContentType (hr_status resp) content_type)
           else Inr resp)"

definition connect_raw ::
  "rfc2822_parser \<Rightarrow> int \<Rightarrow> ('a \<Rightarrow> kms_jwt_error + string)
   \<Rightarrow> (stream_request \<Rightarrow> reqwest_error + http_response) \<Rightarrow> 'a stream_client
   \<Rightarrow> (instant \<Rightarrow> string) \<Rightarrow> replay \<Rightarrow> 'env \<Rightarrow> ('env, stream_request) net
   \<Rightarrow> (stream_error + http_response) \<times> ('env, stream_request) net" where
  "connect_raw rfc2822 now apca http client rfc3339 replay env n =
     (let request = \<lparr>sr_url = se_url (sc_endpoint client), sr_credentials = None, sr_query = []\<rparr>
      in case apply_auth apca (sc_auth client) request of
           Inl e \<Rightarrow> (Inl (Str_Auth e), n)
         | Inr request \<Rightarrow>
             (case send http env (request\<lparr>sr_query := query_pairs rfc3339 replay\<rparr>) n of
                (Inl e, n') \<Rightarrow> (Inl (stream_from_send e), n')
              | (Inr resp, n') \<Rightarrow>
                  (check_stream_response rfc2822 now resp,
                   n'\<lparr>locals := record_answer (hr_status resp) (hr_headers resp) (locals n')\<rparr>)))"

subsection \<open>Properties\<close>

text \<open>
  An accepted origin is safe to send credentials to. A URL that passes \<open>validate_origin\<close> has a
  host, is HTTPS unless the host is loopback, and carries no user info, query or fragment, so
  nothing in configuration can redirect or leak a credential.
\<close>

theorem validated_origin_is_safe:
  assumes "validate_origin parse_url parse_ip v role = Inr u"
  shows "parse_url v = Inr u
    \<and> (\<exists>h. u_host_str u = Some h
        \<and> (u_scheme u = ''https'' \<or> u_scheme u = ''http'' \<and> origin_loopback parse_ip h))
    \<and> u_username u = [] \<and> u_password u = None \<and> u_query u = None \<and> u_fragment u = None"
  using assms by (auto simp: validate_origin_def result_iffs)

definition sample_url :: url where
  "sample_url = \<lparr>u_text = ''https://broker-api.alpaca.markets'', u_scheme = ''https'',
     u_host = Some (Domain ''broker-api.alpaca.markets''),
     u_host_str = Some ''broker-api.alpaca.markets'', u_username = [], u_password = None,
     u_query = None, u_fragment = None, u_query_pairs = []\<rparr>"

theorem validated_origin_is_safe_witness:
  "validate_origin (\<lambda>_. Inr sample_url) (\<lambda>_. None) ''https://broker-api.alpaca.markets'' BaseUrl
     = Inr sample_url
   \<and> u_scheme sample_url = ''https''"
proof -
  have ok: "validate_origin (\<lambda>_. Inr sample_url) (\<lambda>_. None) ''https://broker-api.alpaca.markets'' BaseUrl
      = Inr sample_url"
    by (simp add: validate_origin_def sample_url_def)
  from validated_origin_is_safe [OF ok] have "u_scheme sample_url = ''https''"
    by (auto simp: sample_url_def)
  with ok show ?thesis by blast
qed

lemma find_pair_None:
  "List.find (\<lambda>(p, _). p \<in> A) xs = None \<longleftrightarrow> (\<forall>x \<in> set xs. fst x \<notin> A)"
  by (auto simp: find_None_iff)

lemma parse_stream_endpoint_Inr:
  assumes "parse_stream_endpoint parse_url text d = Inr ep"
  shows "se_transport ep = AuthenticatedAlpaca \<longrightarrow>
      u_scheme (se_url ep) = ''https'' \<and> u_host_str (se_url ep) = Some ALPACA_STREAM_HOST"
    and "se_transport ep = CredentialFreeDevelopment \<longrightarrow>
      d = Allow \<and> u_scheme (se_url ep) = ''http''
      \<and> (\<exists>ip. u_host (se_url ep) = Some (Host_Ip ip) \<and> is_loopback ip)"
    and "u_username (se_url ep) = [] \<and> u_password (se_url ep) = None \<and> u_fragment (se_url ep) = None"
    and "\<forall>x \<in> set (u_query_pairs (se_url ep)). fst x \<notin> set RESERVED_REPLAY_QUERY_PARAMETERS"
  using assms
  by (auto simp: parse_stream_endpoint_def reject_forbidden_url_parts_def result_iffs
      is_development_loopback_endpoint_def find_pair_None
      split: if_splits option.splits host.splits)

text \<open>
  Stream credentials go to Alpaca only. Whatever URL is configured, a request of the stream
  client that carries credentials goes over HTTPS to \<open>stream.data.alpaca.markets\<close>; a request
  without them goes to a loopback address and only in development. The request's replay
  position is the caller's alone: no query parameter of the configured URL is a replay one.
\<close>

theorem stream_credentials_stay_with_alpaca:
  assumes "parse_stream_endpoint parse_url text d = Inr ep"
    and "new_stream_client build_auth ep credentials = Inr client"
    and "handed (snd (connect_raw rfc2822 now apca http client rfc3339 replay env n)) = handed n @ [r]"
  shows "sr_url r = se_url ep \<and> sr_query r = query_pairs rfc3339 replay
    \<and> (sr_credentials r \<noteq> None \<longrightarrow>
         u_scheme (sr_url r) = ''https'' \<and> u_host_str (sr_url r) = Some ''stream.data.alpaca.markets'')
    \<and> (sr_credentials r = None \<longrightarrow>
         d = Allow \<and> (\<exists>ip. u_host (sr_url r) = Some (Host_Ip ip) \<and> is_loopback ip))
    \<and> (\<forall>x \<in> set (u_query_pairs (sr_url r)). fst x \<notin> {''since'', ''since_id'', ''until'', ''until_id''})"
proof -
  have auth: "sc_auth client = None \<longleftrightarrow> se_transport ep = CredentialFreeDevelopment"
    and ep: "sc_endpoint client = ep"
    using assms(2) by (auto simp: new_stream_client_def result_iffs split: stream_transport.splits)
  obtain req where req: "apply_auth apca (sc_auth client)
      \<lparr>sr_url = se_url ep, sr_credentials = None, sr_query = []\<rparr> = Inr req"
    using assms(3) ep by (cases "apply_auth apca (sc_auth client)
      \<lparr>sr_url = se_url ep, sr_credentials = None, sr_query = []\<rparr>") (auto simp: connect_raw_def)
  then have shape: "sr_url req = se_url ep" "sr_credentials req = None \<longleftrightarrow> sc_auth client = None"
    by (auto simp: apply_auth_def result_iffs split: option.splits)
  have "r = req\<lparr>sr_query := query_pairs rfc3339 replay\<rparr>"
    using assms(3) req ep start_handed [of env "req\<lparr>sr_query := query_pairs rfc3339 replay\<rparr>" n]
    by (auto simp: connect_raw_def send_def split: prod.splits sum.splits if_splits)
  with shape auth parse_stream_endpoint_Inr [OF assms(1)] show ?thesis
    by (cases "se_transport ep") (auto simp: ALPACA_STREAM_HOST_def RESERVED_REPLAY_QUERY_PARAMETERS_def)
qed

definition sample_stream_url :: url where
  "sample_stream_url = \<lparr>u_text = ''https://stream.data.alpaca.markets/v1beta1?region=us'',
     u_scheme = ''https'', u_host = Some (Domain ''stream.data.alpaca.markets''),
     u_host_str = Some ''stream.data.alpaca.markets'', u_username = [], u_password = None,
     u_query = Some ''region=us'', u_fragment = None, u_query_pairs = [(''region'', ''us'')]\<rparr>"

definition sample_endpoint :: stream_endpoint where
  "sample_endpoint = \<lparr>se_url = sample_stream_url, se_transport = AuthenticatedAlpaca\<rparr>"

definition sample_net :: "(nat, stream_request) net" where
  "sample_net = \<lparr>locals = \<lparr>TRAFFIC = None, GATE = None, LAST_ANSWER = None\<rparr>,
     gates = (\<lambda>_. new_gate (\<lambda>_. True)), handed = []\<rparr>"

theorem stream_credentials_stay_with_alpaca_witness:
  "\<exists>r. handed (snd (connect_raw (\<lambda>_. None) 0 (\<lambda>a. Inr a) (\<lambda>_. Inr \<lparr>hr_status = 200, hr_headers = []\<rparr>)
         \<lparr>sc_endpoint = sample_endpoint, sc_auth = Some ''key''\<rparr> (\<lambda>_. ''now'') Live 0 sample_net)) = [r]
     \<and> sr_credentials r = Some ''key'' \<and> u_scheme (sr_url r) = ''https''"
proof -
  let ?client = "\<lparr>sc_endpoint = sample_endpoint, sc_auth = Some ''key''\<rparr>"
  let ?r = "\<lparr>sr_url = sample_stream_url, sr_credentials = Some ''key'', sr_query = []\<rparr>"
  have ep: "parse_stream_endpoint (\<lambda>_. Inr sample_stream_url) ''url'' Deny = Inr sample_endpoint"
    by (simp add: parse_stream_endpoint_def reject_forbidden_url_parts_def sample_stream_url_def
        is_development_loopback_endpoint_def ALPACA_STREAM_HOST_def sample_endpoint_def
        RESERVED_REPLAY_QUERY_PARAMETERS_def)
  have client: "new_stream_client (\<lambda>c. Inr c) sample_endpoint ''key'' = Inr ?client"
    by (simp add: new_stream_client_def sample_endpoint_def)
  have sent: "handed (snd (connect_raw (\<lambda>_. None) 0 (\<lambda>a. Inr a)
      (\<lambda>_. Inr \<lparr>hr_status = 200, hr_headers = []\<rparr>) ?client (\<lambda>_. ''now'') Live 0 sample_net))
      = handed sample_net @ [?r]"
    by (simp add: connect_raw_def apply_auth_def sample_endpoint_def send_def start_def
        sample_net_def query_pairs_def)
  from stream_credentials_stay_with_alpaca [OF ep client sent] sent show ?thesis
    by (simp add: sample_net_def)
qed

end
