(* ===== verification/Config.thy ===== *)
theory Config
  imports Catalog Endpoint
begin

text \<open>
  The deployment config and its validation (\<^verbatim>\<open>crates/gateway/src/config.rs\<close>, with the broker modes
  of \<^verbatim>\<open>src/broker/auth.rs\<close>). The TOML parser is left out: the model starts at the parsed config.
  Each message of \<open>ConfigError::Invalid\<close> is a constructor of \<open>config_error\<close>. The build is the deployed
  one, without the test-support loopback stream.
\<close>

subsection \<open>The config\<close>

datatype alpaca_auth =
    Auth_Basic string string
  | Auth_KmsJwt string string
  | Auth_PrivateKeyJwt string string

datatype broker_mode = Mode_Sandbox | Mode_Production | Mode_Mock string

fun mode_base_url :: "broker_mode \<Rightarrow> string" where
  "mode_base_url Mode_Sandbox = ''https://broker-api.sandbox.alpaca.markets''"
| "mode_base_url Mode_Production = ''https://broker-api.alpaca.markets''"
| "mode_base_url (Mode_Mock u) = u"

fun mode_market_data_base_url :: "broker_mode \<Rightarrow> string" where
  "mode_market_data_base_url Mode_Sandbox = ''https://data.sandbox.alpaca.markets''"
| "mode_market_data_base_url Mode_Production = ''https://data.alpaca.markets''"
| "mode_market_data_base_url (Mode_Mock u) = u"

record broker_ctx =
  bc_auth :: alpaca_auth
  bc_account_id :: uuid
  bc_mode :: "broker_mode option"

definition ctx_mode :: "broker_ctx \<Rightarrow> broker_mode" where
  "ctx_mode c = unwrap_or (bc_mode c) Mode_Sandbox"

definition ctx_base_url :: "broker_ctx \<Rightarrow> string" where
  "ctx_base_url c =
     (case bc_mode c of None \<Rightarrow> mode_base_url Mode_Sandbox | Some m \<Rightarrow> mode_base_url m)"

definition ctx_is_sandbox :: "broker_ctx \<Rightarrow> bool" where
  "ctx_is_sandbox c = (case bc_mode c of None \<Rightarrow> True | Some m \<Rightarrow> m \<noteq> Mode_Production)"

datatype environment = Env_Production | Env_Staging

fun environment_as_str :: "environment \<Rightarrow> string" where
  "environment_as_str Env_Production = ''production''"
| "environment_as_str Env_Staging = ''staging''"

record identity_config =
  bot_audience :: "string option"
  bot_principals :: "string list option"
  read_audience :: "string option"
  write_audience :: "string option"
  google_jwks_url :: string
  iap_jwks_url :: string

fun audience :: "identity_config \<Rightarrow> tier \<Rightarrow> string option" where
  "audience i Bot = bot_audience i"
| "audience i Read = read_audience i"
| "audience i Write = write_audience i"

record corporate_actions_config =
  stream_url :: string
  idle_timeout_secs :: nat

definition DEFAULT_CORPORATE_ACTIONS_STREAM_URL :: string where
  "DEFAULT_CORPORATE_ACTIONS_STREAM_URL =
     ''https://stream.data.alpaca.markets/v1beta1/events/corporate-actions?type=cash_dividend_corporateaction_event,stock_dividend_corporateaction_event&region=us''"

definition default_corporate_actions_config :: corporate_actions_config where
  "default_corporate_actions_config =
     \<lparr>stream_url = DEFAULT_CORPORATE_ACTIONS_STREAM_URL, idle_timeout_secs = 90\<rparr>"

record gateway_config =
  gc_profile :: profile
  gc_environment :: environment
  gc_expected_account_number :: string
  gc_broker :: broker_ctx
  gc_identity :: identity_config
  gc_tiers :: "tier list"
  gc_disabled_operations :: "operation list"
  gc_human_budget_per_minute :: u32
  gc_counterparties :: "(string \<times> uuid) list"
  gc_bot_withdrawal_destinations :: "string list"
  gc_travel_rule_beneficiary :: "string option"
  gc_networks :: "network list"
  gc_mint_recipients :: "string list"
  gc_corporate_actions :: "corporate_actions_config option"

datatype config_error =
    Production_Needs_Kms
  | Private_Key_Unsupported
  | Kms_Needs_Production_Mode
  | Tiers_Empty
  | Tiers_Twice
  | Audience_Required tier
  | Audience_Blank tier
  | Audience_Unserved tier
  | Principals_Required
  | Principals_Blank
  | Principals_Unserved
  | Audiences_Equal
  | Withdrawal_Destinations_Required
  | Jwks_Url string endpoint_error
  | Corporate_Actions_Unserved
  | Stream_Url stream_endpoint_error
  | Idle_Timeout_Zero

subsection \<open>What a deployment serves\<close>

definition serves :: "gateway_config \<Rightarrow> tier \<Rightarrow> bool" where
  "serves c t = (t \<in> set (gc_tiers c))"

definition serves_operation :: "gateway_config \<Rightarrow> operation \<Rightarrow> bool" where
  "serves_operation c op = list_ex (\<lambda>t. allows op (gc_profile c) t) (gc_tiers c)"

definition corporate_actions_of :: "gateway_config \<Rightarrow> corporate_actions_config" where
  "corporate_actions_of c = unwrap_or (gc_corporate_actions c) default_corporate_actions_config"

definition is_disabled :: "gateway_config \<Rightarrow> operation \<Rightarrow> bool" where
  "is_disabled c op = (op \<in> set (gc_disabled_operations c))"

subsection \<open>Validation\<close>

definition check_audience :: "gateway_config \<Rightarrow> tier \<Rightarrow> config_error + unit" where
  "check_audience c t =
     (case (serves c t, audience (gc_identity c) t) of
        (True, None) \<Rightarrow> Inl (Audience_Required t)
      | (True, Some a) \<Rightarrow> if is_blank a then Inl (Audience_Blank t) else Inr ()
      | (False, Some _) \<Rightarrow> Inl (Audience_Unserved t)
      | (False, None) \<Rightarrow> Inr ())"

fun check_audiences :: "gateway_config \<Rightarrow> tier list \<Rightarrow> config_error + unit" where
  "check_audiences c [] = Inr ()"
| "check_audiences c (t # ts) = and_then (check_audience c t) (\<lambda>_. check_audiences c ts)"

definition check_principals :: "gateway_config \<Rightarrow> config_error + unit" where
  "check_principals c =
     (case (serves c Bot, bot_principals (gc_identity c)) of
        (True, None) \<Rightarrow> Inl Principals_Required
      | (True, Some ps) \<Rightarrow> if ps = [] \<or> list_ex is_blank ps then Inl Principals_Blank else Inr ()
      | (False, Some _) \<Rightarrow> Inl Principals_Unserved
      | (False, None) \<Rightarrow> Inr ())"

definition validate_tiers :: "gateway_config \<Rightarrow> config_error + unit" where
  "validate_tiers c =
     and_then (ensure (gc_tiers c \<noteq> []) Tiers_Empty) (\<lambda>_.
     and_then (ensure (distinct (gc_tiers c)) Tiers_Twice) (\<lambda>_.
     and_then (check_audiences c all_tiers) (\<lambda>_.
     and_then (check_principals c) (\<lambda>_.
     and_then (ensure (distinct (List.map_filter (audience (gc_identity c)) all_tiers)) Audiences_Equal) (\<lambda>_.
     ensure (\<not> (allows WalletWithdraw (gc_profile c) Bot \<and> serves c Write \<and> \<not> serves c Bot
                \<and> gc_bot_withdrawal_destinations c = []))
       Withdrawal_Destinations_Required)))))"

definition check_jwks_url ::
  "url_parser \<Rightarrow> ip_parser \<Rightarrow> string \<Rightarrow> string \<Rightarrow> config_error + unit" where
  "check_jwks_url parse_url parse_ip field v =
     map_err (Jwks_Url field)
       (and_then (validate_credential_origin parse_url parse_ip v) (\<lambda>_. Inr ()))"

definition check_credential :: "gateway_config \<Rightarrow> config_error + unit" where
  "check_credential c =
     (let mode = ctx_mode (gc_broker c);
          real_money = (gc_environment c = Env_Production \<or> mode = Mode_Production)
      in case bc_auth (gc_broker c) of
           Auth_KmsJwt _ _ \<Rightarrow>
             if mode \<noteq> Mode_Production then Inl Kms_Needs_Production_Mode else Inr ()
         | Auth_PrivateKeyJwt _ _ \<Rightarrow>
             if real_money then Inl Production_Needs_Kms else Inl Private_Key_Unsupported
         | Auth_Basic _ _ \<Rightarrow> if real_money then Inl Production_Needs_Kms else Inr ())"

definition check_stream :: "url_parser \<Rightarrow> gateway_config \<Rightarrow> config_error + unit" where
  "check_stream parse_url c =
     (case (gc_corporate_actions c, serves_operation c CorporateActionsStream) of
        (Some _, False) \<Rightarrow> Inl Corporate_Actions_Unserved
      | (_, True) \<Rightarrow>
          and_then (map_err Stream_Url
              (parse_stream_endpoint parse_url (stream_url (corporate_actions_of c)) Deny)) (\<lambda>_.
          ensure (idle_timeout_secs (corporate_actions_of c) \<noteq> 0) Idle_Timeout_Zero)
      | (None, False) \<Rightarrow> Inr ())"

definition validate :: "url_parser \<Rightarrow> ip_parser \<Rightarrow> gateway_config \<Rightarrow> config_error + unit" where
  "validate parse_url parse_ip c =
     and_then (check_credential c) (\<lambda>_.
     and_then (validate_tiers c) (\<lambda>_.
     and_then (check_jwks_url parse_url parse_ip ''google_jwks_url'' (google_jwks_url (gc_identity c))) (\<lambda>_.
     and_then (check_jwks_url parse_url parse_ip ''iap_jwks_url'' (iap_jwks_url (gc_identity c))) (\<lambda>_.
     check_stream parse_url c))))"

subsection \<open>Lemmas\<close>

lemma check_audience_ok:
  "check_audience c t = Inr () \<longleftrightarrow>
     (case audience (gc_identity c) t of
        None \<Rightarrow> \<not> serves c t | Some a \<Rightarrow> serves c t \<and> \<not> is_blank a)"
  by (cases "serves c t"; cases "audience (gc_identity c) t") (simp_all add: check_audience_def)

lemma check_audiences_ok:
  "check_audiences c ts = Inr () \<longleftrightarrow> (\<forall>t \<in> set ts. check_audience c t = Inr ())"
  by (induction ts) (auto simp: and_then_Inr_iff)

lemma check_principals_ok:
  "check_principals c = Inr () \<longleftrightarrow>
     (case bot_principals (gc_identity c) of
        None \<Rightarrow> \<not> serves c Bot
      | Some ps \<Rightarrow> serves c Bot \<and> ps \<noteq> [] \<and> (\<forall>p \<in> set ps. \<not> is_blank p))"
  by (cases "serves c Bot"; cases "bot_principals (gc_identity c)")
    (auto simp: check_principals_def list_ex_iff)

lemma check_credential_ok:
  "check_credential c = Inr () \<longleftrightarrow>
     (case bc_auth (gc_broker c) of
        Auth_KmsJwt _ _ \<Rightarrow> ctx_mode (gc_broker c) = Mode_Production
      | Auth_Basic _ _ \<Rightarrow>
          gc_environment c \<noteq> Env_Production \<and> ctx_mode (gc_broker c) \<noteq> Mode_Production
      | Auth_PrivateKeyJwt _ _ \<Rightarrow> False)"
  by (cases "bc_auth (gc_broker c)") (simp_all add: check_credential_def Let_def)

lemma all_tiers_set: "set all_tiers = UNIV"
  by (auto simp: all_tiers_def intro: tier.exhaust)

lemma distinct_all_tiers: "distinct all_tiers"
  by (simp add: all_tiers_def)

lemma distinct_map_filter:
  "distinct (List.map_filter f xs) \<Longrightarrow> x \<in> set xs \<Longrightarrow> y \<in> set xs \<Longrightarrow> f x = Some a \<Longrightarrow> f y = Some a
   \<Longrightarrow> distinct xs \<Longrightarrow> x = y"
proof (induction xs)
  case (Cons z xs)
  have "w \<in> set xs \<Longrightarrow> f w = Some b \<Longrightarrow> b \<in> set (List.map_filter f xs)" for w b
    by (force simp: List.map_filter_def)
  with Cons show ?case by (cases "f z") (auto simp: List.map_filter_def)
qed simp

lemma audiences_differ:
  assumes "validate_tiers c = Inr ()" and "audience (gc_identity c) t = Some a"
    and "audience (gc_identity c) t' = Some a"
  shows "t = t'"
proof (rule distinct_map_filter [where f = "audience (gc_identity c)" and xs = all_tiers])
  show "distinct (List.map_filter (audience (gc_identity c)) all_tiers)"
    using assms(1) by (simp add: validate_tiers_def and_then_Inr_iff)
qed (use assms(2,3) in \<open>simp_all add: all_tiers_set distinct_all_tiers\<close>)

lemma audience_tiers:
  assumes "validate_tiers c = Inr ()"
  shows "case audience (gc_identity c) t of
           None \<Rightarrow> \<not> serves c t | Some a \<Rightarrow> serves c t \<and> \<not> is_blank a"
  using assms all_tiers_set
  by (simp add: validate_tiers_def and_then_Inr_iff check_audiences_ok check_audience_ok)

subsection \<open>Properties\<close>

text \<open>
  What a config that starts a gateway guarantees. Real money (a production deployment or the
  production Broker API) is only ever signed with the Cloud KMS key, and no credential shape is
  accepted that a served client cannot use; a tier is served exactly when its audience is
  configured, the audience is not blank and no two tiers share one, so a token for one tier is
  never valid on another; the bot tier has a non-empty list of named principals; operators of a
  deployment that serves the write tier alone are still kept off the bot's destinations; and a
  served stream is the authenticated Alpaca endpoint with a timeout above zero.
\<close>

theorem valid_config_guarantees:
  assumes "validate parse_url parse_ip c = Inr ()"
  shows "(gc_environment c = Env_Production \<or> ctx_mode (gc_broker c) = Mode_Production
           \<longleftrightarrow> (\<exists>i k. bc_auth (gc_broker c) = Auth_KmsJwt i k))
    \<and> gc_tiers c \<noteq> []
    \<and> (\<forall>t. serves c t \<longleftrightarrow> audience (gc_identity c) t \<noteq> None)
    \<and> (\<forall>t t' a. audience (gc_identity c) t = Some a \<and> audience (gc_identity c) t' = Some a
         \<longrightarrow> t = t' \<and> \<not> is_blank a)
    \<and> (serves c Bot \<longrightarrow>
         (\<exists>ps. bot_principals (gc_identity c) = Some ps \<and> ps \<noteq> [] \<and> (\<forall>p \<in> set ps. \<not> is_blank p)))
    \<and> (gc_profile c = T0 \<and> serves c Write \<and> \<not> serves c Bot \<longrightarrow>
         gc_bot_withdrawal_destinations c \<noteq> [])
    \<and> (serves_operation c CorporateActionsStream \<longrightarrow>
         0 < idle_timeout_secs (corporate_actions_of c)
         \<and> (\<exists>ep. parse_stream_endpoint parse_url (stream_url (corporate_actions_of c)) Deny = Inr ep
               \<and> se_transport ep = AuthenticatedAlpaca))"
proof -
  from assms have cred: "check_credential c = Inr ()" and tiers: "validate_tiers c = Inr ()"
    and stream: "check_stream parse_url c = Inr ()"
    by (auto simp: validate_def and_then_Inr_iff)
  have "gc_environment c = Env_Production \<or> ctx_mode (gc_broker c) = Mode_Production
      \<longleftrightarrow> (\<exists>i k. bc_auth (gc_broker c) = Auth_KmsJwt i k)"
    using cred by (auto simp: check_credential_ok split: alpaca_auth.splits)
  moreover have "serves c t \<longleftrightarrow> audience (gc_identity c) t \<noteq> None" for t
    using audience_tiers [OF tiers, of t] by (auto split: option.splits)
  moreover have "t = t' \<and> \<not> is_blank a"
    if "audience (gc_identity c) t = Some a" "audience (gc_identity c) t' = Some a" for t t' a
    using audience_tiers [OF tiers, of t] audiences_differ [OF tiers that] that(1) by simp
  moreover have "\<exists>ps. bot_principals (gc_identity c) = Some ps \<and> ps \<noteq> [] \<and> (\<forall>p \<in> set ps. \<not> is_blank p)"
    if "serves c Bot"
    using tiers that
    by (auto simp: validate_tiers_def and_then_Inr_iff check_principals_ok split: option.splits)
  moreover have "gc_bot_withdrawal_destinations c \<noteq> []"
    if "gc_profile c = T0" "serves c Write" "\<not> serves c Bot"
    using tiers that by (auto simp: validate_tiers_def and_then_Inr_iff matrix_defs)
  moreover have "0 < idle_timeout_secs (corporate_actions_of c)
      \<and> (\<exists>ep. parse_stream_endpoint parse_url (stream_url (corporate_actions_of c)) Deny = Inr ep
            \<and> se_transport ep = AuthenticatedAlpaca)"
    if "serves_operation c CorporateActionsStream"
  proof -
    from stream that obtain ep where
      ep: "parse_stream_endpoint parse_url (stream_url (corporate_actions_of c)) Deny = Inr ep"
      and idle: "idle_timeout_secs (corporate_actions_of c) \<noteq> 0"
      by (auto simp: check_stream_def and_then_Inr_iff split: option.splits)
    have "se_transport ep = AuthenticatedAlpaca"
      using parse_stream_endpoint_Inr(2) [OF ep] by (cases "se_transport ep") simp_all
    with ep idle show ?thesis by blast
  qed
  moreover have "gc_tiers c \<noteq> []"
    using tiers by (auto simp: validate_tiers_def and_then_Inr_iff)
  ultimately show ?thesis by blast
qed

definition sample_config :: gateway_config where
  "sample_config = \<lparr>
     gc_profile = T0, gc_environment = Env_Staging, gc_expected_account_number = ''1'',
     gc_broker = \<lparr>bc_auth = Auth_Basic ''key'' ''secret'', bc_account_id = ''a'', bc_mode = None\<rparr>,
     gc_identity = \<lparr>bot_audience = None, bot_principals = None, read_audience = Some ''r'',
       write_audience = Some ''w'', google_jwks_url = ''https://g'', iap_jwks_url = ''https://i''\<rparr>,
     gc_tiers = [Read, Write], gc_disabled_operations = [], gc_human_budget_per_minute = 60,
     gc_counterparties = [], gc_bot_withdrawal_destinations = [''0x1''],
     gc_travel_rule_beneficiary = None, gc_networks = [], gc_mint_recipients = [],
     gc_corporate_actions = None\<rparr>"

lemma sample_config_valid: "validate (\<lambda>_. Inr sample_url) (\<lambda>_. None) sample_config = Inr ()"
proof -
  have "\<not> is_blank ''r''" "\<not> is_blank ''w''" by code_simp+
  then show ?thesis
    by (simp add: validate_def sample_config_def check_credential_def Let_def ctx_mode_def
        validate_tiers_def all_tiers_def check_audience_def serves_def check_principals_def
        List.map_filter_def check_jwks_url_def validate_credential_origin_def validate_origin_def
        sample_url_def check_stream_def serves_operation_def matrix_defs)
qed

theorem valid_config_guarantees_witness:
  "validate (\<lambda>_. Inr sample_url) (\<lambda>_. None) sample_config = Inr ()
   \<and> gc_bot_withdrawal_destinations sample_config \<noteq> []"
  using valid_config_guarantees [OF sample_config_valid] sample_config_valid
  by (simp add: sample_config_def serves_def)

end
