(* ===== verification/Identity.thy ===== *)
theory Identity
  imports Config Answer
begin

text \<open>
  Caller identity and the route table (\<^verbatim>\<open>crates/gateway/src/auth.rs\<close>, \<^verbatim>\<open>routes.rs\<close> and the
  route functions of \<^verbatim>\<open>handlers/\<close>). One verifier serves one tier; requests are taken one at a
  time. The JWT library (header and claim decoding), the key constructors and the key fetch are
  parameters; \<open>'k\<close> is a decoding key and \<open>'j\<close> one JSON entry of a key set.
\<close>

subsection \<open>Verifiers\<close>

definition IAP_HEADER :: string where
  "IAP_HEADER = ''x-goog-iap-jwt-assertion''"

definition IAP_ISSUER :: string where
  "IAP_ISSUER = ''https://cloud.google.com/iap''"

definition GOOGLE_ISSUERS :: "string list" where
  "GOOGLE_ISSUERS = [''https://accounts.google.com'', ''accounts.google.com'']"

definition JWKS_TTL :: duration where
  "JWKS_TTL = from_secs 3600"

definition REFRESH_FLOOR :: duration where
  "REFRESH_FLOOR = from_secs 60"

definition LEEWAY_SECS :: nat where
  "LEEWAY_SECS = 60"

definition UNVERIFIED :: string where
  "UNVERIFIED = ''unverified''"

record principal =
  pr_tier :: tier
  pr_subject :: string
  pr_email :: "string option"

definition unverified :: "tier \<Rightarrow> principal" where
  "unverified t = \<lparr>pr_tier = t, pr_subject = UNVERIFIED, pr_email = None\<rparr>"

record refusal =
  rf_failure :: failure
  rf_principal :: principal

record claims =
  cl_sub :: string
  cl_email :: "string option"

datatype key_kind = Ec | Rsa

datatype algorithm = ES256 | RS256

record validation =
  va_algorithm :: algorithm
  va_audience :: string
  va_issuers :: "string list"
  va_leeway :: nat
  va_required :: "string list"

record 'k cached_keys =
  ck_keys :: "(string \<times> 'k) list"
  ck_expires_at :: instant

datatype token_error =
    Token_Missing | Token_Malformed | Token_KeysUnavailable | Token_UnknownKey | Token_Rejected

datatype key_fetch_error = Fetch_Http reqwest_error | NoUsableKey

record 'k token_verifier =
  tv_tier :: tier
  tv_kind :: key_kind
  tv_jwks_url :: string
  tv_validation :: validation
  tv_allowed_subjects :: "string list option"
  tv_keys :: "'k cached_keys option"
  tv_last_refresh_attempt :: "instant option"

text \<open>The JWT library, and what one request sees of the clock and the key endpoint.\<close>

record ('k, 'j) jwt_api =
  decode_kid :: "string \<Rightarrow> string option option"
  decode_claims :: "string \<Rightarrow> 'k \<Rightarrow> validation \<Rightarrow> claims option"
  usable_key :: "key_kind \<Rightarrow> 'j \<Rightarrow> (string \<times> 'k) option"

record 'j moment =
  at :: instant
  key_set :: "string \<Rightarrow> reqwest_error + 'j list"
  fetched_at :: instant

definition build_verifier ::
  "tier \<Rightarrow> key_kind \<Rightarrow> string list \<Rightarrow> string \<Rightarrow> string \<Rightarrow> string list option \<Rightarrow> 'k token_verifier" where
  "build_verifier t kind issuers aud jwks allowed = \<lparr>
     tv_tier = t, tv_kind = kind, tv_jwks_url = jwks,
     tv_validation = \<lparr>
       va_algorithm = (case kind of Ec \<Rightarrow> ES256 | Rsa \<Rightarrow> RS256),
       va_audience = aud, va_issuers = issuers, va_leeway = LEEWAY_SECS,
       va_required = [''exp'', ''aud'', ''iss'', ''sub'']\<rparr>,
     tv_allowed_subjects = allowed, tv_keys = None, tv_last_refresh_attempt = None\<rparr>"

definition iap :: "tier \<Rightarrow> string \<Rightarrow> string \<Rightarrow> 'k token_verifier" where
  "iap t aud jwks = build_verifier t Ec [IAP_ISSUER] aud jwks None"

definition bot :: "string \<Rightarrow> string list \<Rightarrow> string \<Rightarrow> 'k token_verifier" where
  "bot aud principals jwks = build_verifier Bot Rsa GOOGLE_ISSUERS aud jwks (Some principals)"

subsection \<open>Reading and verifying a credential\<close>

definition token :: "'k token_verifier \<Rightarrow> headers \<Rightarrow> token_error + string" where
  "token v hs =
     (case tv_tier v of
        Bot \<Rightarrow>
          and_then (ok_or (header_get hs ''authorization'') Token_Missing) (\<lambda>raw.
          and_then (ok_or (header_to_str raw) Token_Malformed) (\<lambda>text.
          ok_or (strip_prefix ''Bearer '' text) Token_Malformed))
      | _ \<Rightarrow>
          and_then (ok_or (header_get hs IAP_HEADER) Token_Missing) (\<lambda>raw.
          ok_or (header_to_str raw) Token_Malformed))"

definition cached_key :: "'k token_verifier \<Rightarrow> string \<Rightarrow> bool \<Rightarrow> instant \<Rightarrow> 'k option" where
  "cached_key v kid allow_stale now =
     (case tv_keys v of
        None \<Rightarrow> None
      | Some c \<Rightarrow>
          if \<not> allow_stale \<and> ck_expires_at c \<le> now then None
          else map_option snd (List.find (\<lambda>(i, _). i = kid) (ck_keys c)))"

definition fetch_keys ::
  "('k, 'j) jwt_api \<Rightarrow> 'k token_verifier \<Rightarrow> 'j moment \<Rightarrow> key_fetch_error + (string \<times> 'k) list" where
  "fetch_keys J v m =
     and_then (map_err Fetch_Http (key_set m (tv_jwks_url v))) (\<lambda>entries.
       let keys = List.map_filter (usable_key J (tv_kind v)) entries
       in if keys = [] then Inl NoUsableKey else Inr keys)"

text \<open>The last component says whether the key endpoint was asked.\<close>

definition refresh ::
  "('k, 'j) jwt_api \<Rightarrow> 'k token_verifier \<Rightarrow> string \<Rightarrow> 'j moment
   \<Rightarrow> (token_error + unit) \<times> 'k token_verifier \<times> bool" where
  "refresh J v kid m =
     (if (case tv_keys v of
            None \<Rightarrow> False
          | Some c \<Rightarrow> at m < ck_expires_at c \<and> list_ex (\<lambda>(i, _). i = kid) (ck_keys c))
      then (Inr (), v, False)
      else if (case tv_last_refresh_attempt v of
                 None \<Rightarrow> False | Some t \<Rightarrow> at m - t < REFRESH_FLOOR)
      then (if tv_keys v = None then Inl Token_KeysUnavailable else Inr (), v, False)
      else
        let v' = v\<lparr>tv_last_refresh_attempt := Some (at m)\<rparr>
        in (case fetch_keys J v' m of
              Inr keys \<Rightarrow>
                (Inr (), v'\<lparr>tv_keys := Some \<lparr>ck_keys = keys, ck_expires_at = fetched_at m + JWKS_TTL\<rparr>\<rparr>,
                 True)
            | Inl _ \<Rightarrow>
                (if tv_keys v' \<noteq> None then Inr () else Inl Token_KeysUnavailable, v', True)))"

definition decoding_key ::
  "('k, 'j) jwt_api \<Rightarrow> 'k token_verifier \<Rightarrow> string \<Rightarrow> 'j moment
   \<Rightarrow> (token_error + 'k) \<times> 'k token_verifier \<times> bool" where
  "decoding_key J v kid m =
     (case cached_key v kid False (at m) of
        Some key \<Rightarrow> (Inr key, v, False)
      | None \<Rightarrow>
          (case refresh J v kid m of
             (Inl e, v', asked) \<Rightarrow> (Inl e, v', asked)
           | (Inr _, v', asked) \<Rightarrow>
               (ok_or (cached_key v' kid True (at m)) Token_UnknownKey, v', asked)))"

definition verify ::
  "('k, 'j) jwt_api \<Rightarrow> 'k token_verifier \<Rightarrow> string \<Rightarrow> 'j moment
   \<Rightarrow> (token_error + principal) \<times> 'k token_verifier \<times> bool" where
  "verify J v tok m =
     (case decode_kid J tok of
        None \<Rightarrow> (Inl Token_Malformed, v, False)
      | Some None \<Rightarrow> (Inl Token_Malformed, v, False)
      | Some (Some kid) \<Rightarrow>
          (case decoding_key J v kid m of
             (Inl e, v', asked) \<Rightarrow> (Inl e, v', asked)
           | (Inr key, v', asked) \<Rightarrow>
               (case decode_claims J tok key (tv_validation v) of
                  None \<Rightarrow> (Inl Token_Rejected, v', asked)
                | Some c \<Rightarrow>
                    (Inr \<lparr>pr_tier = tv_tier v, pr_subject = cl_sub c, pr_email = cl_email c\<rparr>,
                     v', asked))))"

fun token_error_text :: "token_error \<Rightarrow> string" where
  "token_error_text Token_Missing = ''missing credential''"
| "token_error_text Token_Malformed = ''malformed credential''"
| "token_error_text Token_KeysUnavailable = ''signing keys unavailable''"
| "token_error_text Token_UnknownKey = ''unknown signing key''"
| "token_error_text Token_Rejected = ''credential rejected''"

definition identify ::
  "uuid \<Rightarrow> ('k, 'j) jwt_api \<Rightarrow> 'k token_verifier \<Rightarrow> headers \<Rightarrow> 'j moment
   \<Rightarrow> (refusal + principal) \<times> 'k token_verifier \<times> bool" where
  "identify rid J v hs m =
     (case (case token v hs of Inl e \<Rightarrow> (Inl e, v, False) | Inr tok \<Rightarrow> verify J v tok m) of
        (Inl e, v', asked) \<Rightarrow>
          (Inl \<lparr>rf_failure =
                  failure_new rid
                    (if e = Token_KeysUnavailable then Unavailable else Unauthenticated)
                    (token_error_text e),
                rf_principal = unverified (tv_tier v)\<rparr>, v', asked)
      | (Inr p, v', asked) \<Rightarrow>
          (case tv_allowed_subjects v of
             Some allowed \<Rightarrow>
               if pr_subject p \<notin> set allowed
               then (Inl \<lparr>rf_failure = failure_new rid Forbidden ''caller is not an allowed bot principal'',
                          rf_principal = p\<rparr>, v', asked)
               else (Inr p, v', asked)
           | None \<Rightarrow> (Inr p, v', asked)))"

subsection \<open>Verifiers and routes of a deployment\<close>

definition human_verifier :: "gateway_config \<Rightarrow> tier \<Rightarrow> 'k token_verifier option" where
  "human_verifier c t =
     (case (serves c t, audience (gc_identity c) t) of
        (True, Some a) \<Rightarrow> Some (iap t a (iap_jwks_url (gc_identity c)))
      | _ \<Rightarrow> None)"

definition for_tier :: "gateway_config \<Rightarrow> tier \<Rightarrow> 'k token_verifier option" where
  "for_tier c t =
     (case t of
        Bot \<Rightarrow>
          (case (serves c Bot, audience (gc_identity c) Bot, bot_principals (gc_identity c)) of
             (True, Some a, Some ps) \<Rightarrow> Some (bot a ps (google_jwks_url (gc_identity c)))
           | _ \<Rightarrow> None)
      | _ \<Rightarrow> human_verifier c t)"

definition account_route :: "operation \<Rightarrow> http_method option" where
  "account_route op =
     (if op \<in> {AccountFunds, AccountWithdrawableCash, AccountInventory, AccountPositionMark,
               ActivitiesList} then Some Get else None)"

definition market_route :: "operation \<Rightarrow> http_method option" where
  "market_route op =
     (if op \<in> {MarketIsOpen, MarketSession, MarketSessionStatus, MarketLatestTrade,
               MarketLatestQuote, MarketLatestOvernightQuote, AssetsGet} then Some Get
      else if op = AssetsCounterTradeShares then Some Post else None)"

definition orders_route :: "operation \<Rightarrow> http_method option" where
  "orders_route op =
     (if op \<in> {OrdersPlaceMarket, OrdersPlaceLimit, OrdersPlaceExactLimit, OrdersRecover,
               OrdersCancel, ConversionsSubmit} then Some Post
      else if op \<in> {OrdersGet, OrdersFind, ConversionsGet, ConversionsFind} then Some Get
      else None)"

definition wallet_route :: "operation \<Rightarrow> http_method option" where
  "wallet_route op =
     (if op \<in> {WalletWithdraw, WalletWhitelistCreate, WalletWhitelistRemove,
               WalletWhitelistPatchTravelRule, JournalsCreate} then Some Post
      else if op \<in> {WalletTransfer, WalletTransfers, WalletFindDeposit, WalletDepositAddress,
               WalletWhitelist} then Some Get
      else None)"

definition tokenization_route :: "operation \<Rightarrow> http_method option" where
  "tokenization_route op =
     (if op = TokenizationMint then Some Post
      else if op \<in> {TokenizationRequests, TokenizationRequest, TokenizationFindMint,
               TokenizationFindRedemption} then Some Get
      else None)"

definition issuer_route :: "operation \<Rightarrow> http_method option" where
  "issuer_route op =
     (if op \<in> {IssuerMintCallback, IssuerRedeem} then Some Post
      else if op = IssuerRequest then Some Get else None)"

definition corporate_actions_route :: "operation \<Rightarrow> http_method option" where
  "corporate_actions_route op = (if op = CorporateActionsStream then Some Get else None)"

definition route :: "operation \<Rightarrow> http_method option" where
  "route op =
     or_else (account_route op) (or_else (market_route op) (or_else (orders_route op)
       (or_else (wallet_route op) (or_else (tokenization_route op) (or_else (issuer_route op)
         (corporate_actions_route op))))))"

record mounted =
  mt_tier :: tier
  mt_operation :: operation
  mt_method :: http_method
  mt_path :: string

definition app_tier :: "gateway_config \<Rightarrow> tier \<Rightarrow> mounted list" where
  "app_tier c t =
     (case (for_tier c t :: unit token_verifier option) of
        None \<Rightarrow> []
      | Some _ \<Rightarrow>
          List.map_filter (\<lambda>op.
            if \<not> allows op (gc_profile c) t then None
            else map_option (\<lambda>method. \<lparr>mt_tier = t, mt_operation = op, mt_method = method,
                                       mt_path = prefix_of t @ path op\<rparr>) (route op))
            all_operations)"

definition app :: "gateway_config \<Rightarrow> mounted list" where
  "app c = concat (map (app_tier c) all_tiers)"

definition unknown_operation :: "uuid \<Rightarrow> failure" where
  "unknown_operation rid =
     (failure_new rid UnknownOperation ''no such operation for this deployment and tier'')
     \<lparr>fa_outcome := Some NotApplied\<rparr>"

subsection \<open>Lemmas\<close>

lemma refresh_keeps:
  assumes "refresh J v kid m = (r, v', asked)"
  shows "tv_tier v' = tv_tier v" "tv_validation v' = tv_validation v"
    "tv_allowed_subjects v' = tv_allowed_subjects v" "tv_kind v' = tv_kind v"
    "tv_jwks_url v' = tv_jwks_url v"
  using assms by (auto simp: refresh_def Let_def split: if_splits sum.splits option.splits)

lemma refresh_attempt:
  assumes "refresh J v kid m = (r, v', asked)"
  shows "if asked
         then tv_last_refresh_attempt v' = Some (at m)
           \<and> (\<forall>t. tv_last_refresh_attempt v = Some t \<longrightarrow> REFRESH_FLOOR \<le> at m - t)
         else v' = v"
  using assms by (auto simp: refresh_def Let_def not_less split: if_splits sum.splits option.splits)

lemma cached_key_Some:
  "cached_key v kid stale now = Some key \<Longrightarrow>
   \<exists>c. tv_keys v = Some c \<and> (kid, key) \<in> set (ck_keys c)"
  by (auto simp: cached_key_def split: option.splits if_splits dest!: find_Some_set)

lemma decoding_key_attempt:
  assumes "decoding_key J v kid m = (r, v', asked)"
  shows "if asked
         then tv_last_refresh_attempt v' = Some (at m)
           \<and> (\<forall>t. tv_last_refresh_attempt v = Some t \<longrightarrow> REFRESH_FLOOR \<le> at m - t)
         else v' = v"
  using assms
  by (auto simp: decoding_key_def split: option.splits prod.splits sum.splits dest!: refresh_attempt)

lemma identify_attempt:
  assumes "identify rid J v hs m = (r, v', asked)"
  shows "if asked
         then tv_last_refresh_attempt v' = Some (at m)
           \<and> (\<forall>t. tv_last_refresh_attempt v = Some t \<longrightarrow> REFRESH_FLOOR \<le> at m - t)
         else v' = v"
proof (cases "token v hs")
  case (Inl e)
  with assms show ?thesis by (auto simp: identify_def)
next
  case (Inr tok)
  show ?thesis
  proof (cases "decode_kid J tok")
    case None
    with Inr assms show ?thesis by (auto simp: identify_def verify_def)
  next
    case (Some k)
    show ?thesis
    proof (cases k)
      case None
      with Some Inr assms show ?thesis by (auto simp: identify_def verify_def)
    next
      case (Some kid)
      obtain d v'' asked' where d: "decoding_key J v kid m = (d, v'', asked')"
        by (cases "decoding_key J v kid m") auto
      have "v' = v''" "asked = asked'"
        using assms Inr \<open>decode_kid J tok = Some k\<close> Some d
        by (auto simp: identify_def verify_def split: sum.splits option.splits if_splits)
      with decoding_key_attempt [OF d] show ?thesis by simp
    qed
  qed
qed

text \<open>A run of one verifier: the instants at which it asked the key endpoint.\<close>

fun fetch_times ::
  "uuid \<Rightarrow> ('k, 'j) jwt_api \<Rightarrow> 'k token_verifier \<Rightarrow> (headers \<times> 'j moment) list \<Rightarrow> instant list" where
  "fetch_times rid J v [] = []"
| "fetch_times rid J v ((hs, m) # calls) =
     (case identify rid J v hs m of
        (_, v', asked) \<Rightarrow> (if asked then [at m] else []) @ fetch_times rid J v' calls)"

lemma fetch_times_after:
  assumes "tv_last_refresh_attempt v = Some t"
  shows "\<forall>x \<in> set (fetch_times rid J v calls). t + REFRESH_FLOOR \<le> x"
  using assms
proof (induction calls arbitrary: v t)
  case (Cons call calls)
  obtain hs m where call: "call = (hs, m)" by force
  obtain r v' asked where step: "identify rid J v hs m = (r, v', asked)"
    by (cases "identify rid J v hs m") auto
  have pos: "0 < REFRESH_FLOOR" by (simp add: REFRESH_FLOOR_def)
  show ?case
  proof (cases asked)
    case False
    with identify_attempt [OF step] Cons call step show ?thesis by auto
  next
    case True
    with identify_attempt [OF step] Cons.prems have gap: "REFRESH_FLOOR \<le> at m - t"
      and now: "tv_last_refresh_attempt v' = Some (at m)" by auto
    from gap pos have "t + REFRESH_FLOOR \<le> at m" by linarith
    with Cons.IH [OF now] True call step show ?thesis by fastforce
  qed
qed simp

lemma identify_Inr:
  assumes "identify rid J v hs m = (Inr p, v', asked)"
  obtains tok kid key c where
    "token v hs = Inr tok" "decode_kid J tok = Some (Some kid)"
    "decoding_key J v kid m = (Inr key, v', asked)"
    "decode_claims J tok key (tv_validation v) = Some c"
    "p = \<lparr>pr_tier = tv_tier v, pr_subject = cl_sub c, pr_email = cl_email c\<rparr>"
    "\<forall>allowed. tv_allowed_subjects v = Some allowed \<longrightarrow> cl_sub c \<in> set allowed"
  using assms
  by (auto simp: identify_def verify_def split: sum.splits option.splits prod.splits if_splits)

lemma decoding_key_Inr:
  assumes "decoding_key J v kid m = (Inr key, v', asked)"
  shows "\<exists>c. tv_keys v' = Some c \<and> (kid, key) \<in> set (ck_keys c)"
  using assms
  by (auto simp: decoding_key_def split: option.splits prod.splits sum.splits dest!: cached_key_Some)

subsection \<open>Properties\<close>

text \<open>
  An identified caller holds a verified credential for that tier. The principal's tier is the
  verifier's, and its subject is the \<open>sub\<close> of a token read from the tier's own header whose
  signature checked against a key of the tier's key set, under the tier's audience, issuers and
  algorithm; a bot's subject is one of the configured principals. Everyone else is refused
  without an identity (or with the refused one) and no route handler runs.
\<close>

theorem identified_caller_is_verified:
  assumes "identify rid J v hs m = (Inr p, v', asked)"
  shows "pr_tier p = tv_tier v
    \<and> (\<exists>tok kid key c keys. token v hs = Inr tok
        \<and> decode_claims J tok key (tv_validation v) = Some c
        \<and> pr_subject p = cl_sub c
        \<and> tv_keys v' = Some keys \<and> (kid, key) \<in> set (ck_keys keys))
    \<and> (\<forall>allowed. tv_allowed_subjects v = Some allowed \<longrightarrow> pr_subject p \<in> set allowed)"
proof -
  from assms obtain tok kid key c where *:
    "token v hs = Inr tok" "decoding_key J v kid m = (Inr key, v', asked)"
    "decode_claims J tok key (tv_validation v) = Some c"
    "p = \<lparr>pr_tier = tv_tier v, pr_subject = cl_sub c, pr_email = cl_email c\<rparr>"
    "\<forall>allowed. tv_allowed_subjects v = Some allowed \<longrightarrow> cl_sub c \<in> set allowed"
    by (rule identify_Inr)
  from decoding_key_Inr [OF *(2)] * show ?thesis by auto
qed

definition sample_jwt :: "(nat, nat) jwt_api" where
  "sample_jwt = \<lparr>decode_kid = (\<lambda>_. Some (Some ''k1'')),
     decode_claims = (\<lambda>tok key va. if key = 7 then Some \<lparr>cl_sub = ''111'', cl_email = None\<rparr> else None),
     usable_key = (\<lambda>_ j. Some (''k1'', j))\<rparr>"

definition sample_moment :: "nat moment" where
  "sample_moment = \<lparr>at = 5, key_set = (\<lambda>_. Inr [7]), fetched_at = 6\<rparr>"

definition sample_bot :: "nat token_verifier" where
  "sample_bot = bot ''aud'' [''111''] ''https://keys''"

lemma sample_identified:
  "\<exists>v'. identify ''r'' sample_jwt sample_bot [(''authorization'', ''Bearer t'')] sample_moment
     = (Inr \<lparr>pr_tier = Bot, pr_subject = ''111'', pr_email = None\<rparr>, v', True)"
  by (simp add: identify_def token_def sample_bot_def bot_def build_verifier_def header_get_def
      header_to_str_def between_def verify_def sample_jwt_def decoding_key_def cached_key_def
      refresh_def fetch_keys_def sample_moment_def List.map_filter_def)

theorem identified_caller_is_verified_witness:
  "\<exists>p v'. identify ''r'' sample_jwt sample_bot [(''authorization'', ''Bearer t'')] sample_moment
       = (Inr p, v', True)
     \<and> pr_tier p = Bot \<and> pr_subject p \<in> {''111''}"
proof -
  from sample_identified obtain v' where
    ok: "identify ''r'' sample_jwt sample_bot [(''authorization'', ''Bearer t'')] sample_moment
      = (Inr \<lparr>pr_tier = Bot, pr_subject = ''111'', pr_email = None\<rparr>, v', True)" ..
  from identified_caller_is_verified [OF ok] ok show ?thesis
    by (auto simp: sample_bot_def bot_def build_verifier_def)
qed

text \<open>
  Signing keys are fetched at most once a minute. Over any sequence of requests, whatever
  tokens they carry and whatever the key endpoint answers, two fetches of one verifier are at
  least \<open>REFRESH_FLOOR\<close> apart, so unknown key ids cannot drive the gateway against the endpoint.
\<close>

theorem key_fetches_are_spaced:
  "sorted_wrt (\<lambda>a b. a + REFRESH_FLOOR \<le> b) (fetch_times rid J v calls)"
proof (induction calls arbitrary: v)
  case (Cons call calls)
  obtain hs m where call: "call = (hs, m)" by force
  obtain r v' asked where step: "identify rid J v hs m = (r, v', asked)"
    by (cases "identify rid J v hs m") auto
  show ?case
    using Cons.IH [of v'] identify_attempt [OF step] call step
      fetch_times_after [of v' "at m" rid J calls]
    by (cases asked) auto
qed simp

text \<open>
  An outage of the key endpoint never locks a known caller out. Once a key is cached it stays
  usable: when the endpoint cannot be reached or answers no usable key, a token signed with a
  cached key still gets that key, expired cache or not, and the cache is left as it was.
\<close>

theorem cached_keys_survive_outages:
  assumes "tv_keys v = Some c" and "List.find (\<lambda>(i, _). i = kid) (ck_keys c) = Some (kid, key)"
    and "\<And>v'. tv_kind v' = tv_kind v \<Longrightarrow> tv_jwks_url v' = tv_jwks_url v \<Longrightarrow> \<exists>e. fetch_keys J v' m = Inl e"
  shows "fst (decoding_key J v kid m) = Inr key
    \<and> tv_keys (fst (snd (decoding_key J v kid m))) = Some c"
proof -
  obtain e where "fetch_keys J (v\<lparr>tv_last_refresh_attempt := Some (at m)\<rparr>) m = Inl e"
    using assms(3) [of "v\<lparr>tv_last_refresh_attempt := Some (at m)\<rparr>"] by auto
  then show ?thesis
    using assms(1,2)
    by (auto simp: decoding_key_def cached_key_def refresh_def Let_def
        split: option.splits if_splits)
qed

theorem cached_keys_survive_outages_witness:
  "fst (decoding_key sample_jwt
     (sample_bot\<lparr>tv_keys := Some \<lparr>ck_keys = [(''k1'', 7)], ck_expires_at = 0\<rparr>\<rparr>) ''k1''
     (sample_moment\<lparr>key_set := (\<lambda>_. Inr [])\<rparr>)) = Inr 7"
  using cached_keys_survive_outages
    [of "sample_bot\<lparr>tv_keys := Some \<lparr>ck_keys = [(''k1'', 7)], ck_expires_at = 0\<rparr>\<rparr>"
        "\<lparr>ck_keys = [(''k1'', 7)], ck_expires_at = 0\<rparr>" "''k1''" 7 sample_jwt
        "sample_moment\<lparr>key_set := (\<lambda>_. Inr [])\<rparr>"]
  by (simp add: fetch_keys_def sample_moment_def List.map_filter_def)

subsection \<open>The route table\<close>

lemma route_method: "route op = Some (http_method_of op)"
  by (cases op)
    (simp_all add: route_def account_route_def market_route_def orders_route_def wallet_route_def
      tokenization_route_def issuer_route_def corporate_actions_route_def http_method_of_def
      uses_body_def mutates_def)

lemma for_tier_served:
  assumes "validate_tiers c = Inr ()"
  shows "for_tier c t \<noteq> None \<longleftrightarrow> serves c t"
  using assms audience_tiers [OF assms, of t]
  by (cases t)
    (auto simp: for_tier_def human_verifier_def validate_tiers_def and_then_Inr_iff
      check_principals_ok split: option.splits)

lemma app_tier_tier: "m \<in> set (app_tier c t) \<Longrightarrow> mt_tier m = t"
  by (auto simp: app_tier_def List.map_filter_def split: option.splits if_splits)

lemma app_tier_iff:
  assumes "validate_tiers c = Inr ()"
  shows "m \<in> set (app_tier c t) \<longleftrightarrow>
    serves c t \<and> allows (mt_operation m) (gc_profile c) t
    \<and> m = \<lparr>mt_tier = t, mt_operation = mt_operation m,
           mt_method = http_method_of (mt_operation m), mt_path = prefix_of t @ path (mt_operation m)\<rparr>"
  using for_tier_served [OF assms, of t, where ?'a = unit]
  by (auto simp: app_tier_def List.map_filter_def route_method split: option.splits)

lemma prefixed_path_inj:
  "prefix_of t @ path op = prefix_of t' @ path op' \<longleftrightarrow> t = t' \<and> op = op'"
proof -
  have "path op = path op' \<longleftrightarrow> op = op'"
    using distinct_paths all_operations_complete by (metis distinct_map inj_on_contraD)
  then show ?thesis by (cases t; cases t') auto
qed

text \<open>
  C25: the router serves exactly the capability matrix. In a valid deployment an operation is
  mounted on a tier exactly when the deployment serves the tier and the profile allows it
  there; it answers the catalog's method on the tier's prefix followed by the catalog path; and
  no two mounts share a path, so a request reaches at most one operation and tier.
\<close>

theorem router_serves_the_matrix:
  assumes "validate parse_url parse_ip c = Inr ()"
  shows "((\<exists>m \<in> set (app c). mt_tier m = t \<and> mt_operation m = op)
           \<longleftrightarrow> serves c t \<and> allows op (gc_profile c) t)
    \<and> (\<forall>m \<in> set (app c). mt_method m = http_method_of (mt_operation m)
         \<and> mt_path m = prefix_of (mt_tier m) @ path (mt_operation m))
    \<and> (\<forall>m \<in> set (app c). \<forall>m' \<in> set (app c). mt_path m = mt_path m' \<longrightarrow> m = m')"
proof -
  from assms have tiers: "validate_tiers c = Inr ()" by (auto simp: validate_def and_then_Inr_iff)
  have iff: "m \<in> set (app c) \<longleftrightarrow> m \<in> set (app_tier c (mt_tier m))" for m
    by (auto simp: app_def all_tiers_set dest: app_tier_tier)
  have shape: "m = \<lparr>mt_tier = mt_tier m, mt_operation = mt_operation m,
      mt_method = http_method_of (mt_operation m),
      mt_path = prefix_of (mt_tier m) @ path (mt_operation m)\<rparr>" if "m \<in> set (app c)" for m
    using that iff [of m] app_tier_iff [OF tiers, of m "mt_tier m"] by blast
  have "(\<exists>m \<in> set (app c). mt_tier m = t \<and> mt_operation m = op)
      \<longleftrightarrow> serves c t \<and> allows op (gc_profile c) t"
  proof
    assume "serves c t \<and> allows op (gc_profile c) t"
    then have "\<lparr>mt_tier = t, mt_operation = op, mt_method = http_method_of op,
        mt_path = prefix_of t @ path op\<rparr> \<in> set (app c)"
      by (simp add: iff app_tier_iff [OF tiers])
    then show "\<exists>m \<in> set (app c). mt_tier m = t \<and> mt_operation m = op" by force
  qed (use iff app_tier_iff [OF tiers] in blast)
  moreover have "m = m'" if "m \<in> set (app c)" "m' \<in> set (app c)" "mt_path m = mt_path m'" for m m'
    using shape [OF that(1)] shape [OF that(2)] that(3) prefixed_path_inj
    by (metis mounted.select_convs(4))
  moreover have "mt_method m = http_method_of (mt_operation m)
      \<and> mt_path m = prefix_of (mt_tier m) @ path (mt_operation m)" if "m \<in> set (app c)" for m
    using shape [OF that] by (metis mounted.select_convs(3,4))
  ultimately show ?thesis by blast
qed

theorem router_serves_the_matrix_witness:
  "(\<exists>m \<in> set (app sample_config). mt_tier m = Write \<and> mt_operation m = WalletWithdraw)
   \<and> \<not> (\<exists>m \<in> set (app sample_config). mt_tier m = Read \<and> mt_operation m = WalletWithdraw)"
  using router_serves_the_matrix [OF sample_config_valid, of Write WalletWithdraw]
    router_serves_the_matrix [OF sample_config_valid, of Read WalletWithdraw]
  by (simp add: sample_config_def serves_def matrix_defs)

lemma for_tier_audience:
  assumes "for_tier c t = Some v"
  shows "tv_tier v = t \<and> audience (gc_identity c) t = Some (va_audience (tv_validation v))"
  using assms
  by (cases t)
    (auto simp: for_tier_def human_verifier_def bot_def iap_def build_verifier_def
      split: option.splits bool.splits)

lemma verify_Inr:
  assumes "verify J v tok m = (Inr p, v', asked)"
  obtains key cl where "decode_claims J tok key (tv_validation v) = Some cl" "pr_tier p = tv_tier v"
  using assms by (auto simp: verify_def split: option.splits prod.splits sum.splits)


definition sample_tier_jwt :: "(nat, nat) jwt_api" where
  "sample_tier_jwt = sample_jwt\<lparr>decode_claims :=
     (\<lambda>tok key va. if va_audience va = tok then Some \<lparr>cl_sub = ''u'', cl_email = None\<rparr> else None)\<rparr>"


end
