(* ===== verification/Runner.thy ===== *)
theory Runner
  imports Budget Identity "HOL-Library.Multiset"
begin

text \<open>
  The runner every handler goes through (\<^verbatim>\<open>crates/gateway/src/state.rs\<close>, with the audit record of
  \<^verbatim>\<open>crates/gateway-api/src/record.rs\<close>): admission, refusals, the audit record, and \<open>run\<close>.

  \<open>run\<close> starts a detached task and waits for it in the handler. Both run concurrently with the
  clock, with shutdown and with a caller that may go away, so the part after admission is the
  step relation \<open>run_step\<close> on \<open>run_state\<close>: one rule per action of the task, of the handler and of the
  environment, each as atomic as the primitive it uses (the gate's lock, the oneshot channel,
  one audit line). \<open>handed\<close> requests include credential mints, which ask the same gate.
\<close>

subsection \<open>Audit fields\<close>

definition AUDIT_FIELD_MAX :: nat where "AUDIT_FIELD_MAX = 256"
definition AUDIT_ID_MAX :: nat where "AUDIT_ID_MAX = 128"
definition AUDIT_IDS_MAX :: nat where "AUDIT_IDS_MAX = 100"

definition cut :: "string \<Rightarrow> nat \<Rightarrow> string" where
  "cut text n = take_chars n text"

definition capped :: "string \<Rightarrow> string" where
  "capped v = cut v AUDIT_FIELD_MAX"

definition audit_ids :: "string list \<Rightarrow> string list" where
  "audit_ids ids = map (\<lambda>i. cut i AUDIT_ID_MAX) (take AUDIT_IDS_MAX ids)"

datatype audit_phase = Phase_Answered | Phase_Settled

fun phase_as_str :: "audit_phase \<Rightarrow> string" where
  "phase_as_str Phase_Answered = ''answered''"
| "phase_as_str Phase_Settled = ''settled''"

record audit_event =
  ae_request_id :: uuid
  ae_phase :: audit_phase
  ae_at :: utc
  ae_deployment :: string
  ae_environment :: string
  ae_account_id :: string
  ae_principal :: string
  ae_principal_email :: "string option"
  ae_tier :: tier
  ae_on_behalf_of :: "string option"
  ae_operation :: operation
  ae_key :: "string option"
  ae_reason :: "string option"
  ae_request_digest :: "string option"
  ae_summary :: "string \<Rightarrow> string option"
  ae_alpaca_status :: "nat option"
  ae_alpaca_request_ids :: "string list"
  ae_alpaca_object_id :: "string option"
  ae_outcome :: "outcome option"
  ae_code :: "error_code option"
  ae_rejection :: "rejection_reason option"
  ae_latency_ms :: nat
  ae_gateway_version :: string

record intent =
  in_key :: "string option"
  in_reason :: "string option"
  in_digest :: "string option"
  in_summary :: "string \<Rightarrow> string option"

definition default_intent :: intent where
  "default_intent = \<lparr>in_key = None, in_reason = None, in_digest = None, in_summary = Map.empty\<rparr>"

text \<open>\<open>digest\<close> is the SHA-256 of the request's canonical JSON, when it serializes.\<close>

definition intent_of :: "string option \<Rightarrow> intent" where
  "intent_of digest = default_intent\<lparr>in_digest := digest\<rparr>"

definition with_key :: "intent \<Rightarrow> string \<Rightarrow> intent" where
  "with_key i k = i\<lparr>in_key := Some (capped k)\<rparr>"

definition with_reason :: "intent \<Rightarrow> string option \<Rightarrow> intent" where
  "with_reason i r = i\<lparr>in_reason := map_option capped r\<rparr>"

definition with_note :: "intent \<Rightarrow> string \<Rightarrow> string \<Rightarrow> intent" where
  "with_note i field v = i\<lparr>in_summary := (in_summary i)(field \<mapsto> capped v)\<rparr>"

record 'b done_call =
  dn_body :: 'b
  dn_alpaca_object_ids :: "string list"

record call =
  ca_request_id :: uuid
  ca_operation :: operation
  ca_principal :: principal
  ca_on_behalf_of :: "string option"
  ca_started :: instant

subsection \<open>Calls\<close>

text \<open>What an earlier layer left in the request's extensions; \<open>rid\<close> is the fresh request id.\<close>

record request_parts =
  rp_call :: "call option"
  rp_operation :: "operation option"
  rp_principal :: "principal option"
  rp_headers :: headers

definition ON_BEHALF_OF_HEADER :: string where
  "ON_BEHALF_OF_HEADER = ''x-on-behalf-of''"

definition call_of :: "uuid \<Rightarrow> instant \<Rightarrow> request_parts \<Rightarrow> (failure + call) \<times> request_parts" where
  "call_of rid now parts =
     (case rp_call parts of
        Some c \<Rightarrow> (Inr c, parts)
      | None \<Rightarrow>
          (case rp_operation parts of
             None \<Rightarrow> (Inl (failure_new rid Unavailable ''route carries no operation''), parts)
           | Some op \<Rightarrow>
               (case rp_principal parts of
                  None \<Rightarrow> (Inl (failure_new rid Unauthenticated ''no verified caller''), parts)
                | Some p \<Rightarrow>
                    let c = \<lparr>ca_request_id = rid, ca_operation = op, ca_principal = p,
                             ca_on_behalf_of =
                               map_option capped (header_text (rp_headers parts) ON_BEHALF_OF_HEADER),
                             ca_started = now\<rparr>
                    in (Inr c, parts\<lparr>rp_call := Some c\<rparr>))))"

subsection \<open>Shared state, admission and refusals\<close>

record gateway =
  gw_config :: gateway_config
  gw_budget :: human_budget
  gw_shutdown :: bool
  gw_audit :: "audit_event list"
  gw_version :: string
  gw_wall_clock :: "instant \<Rightarrow> utc"

fun join_ids :: "string list \<Rightarrow> string" where
  "join_ids [] = []"
| "join_ids [x] = x"
| "join_ids (x # y # xs) = x @ '','' @ join_ids (y # xs)"

definition event ::
  "gateway \<Rightarrow> call \<Rightarrow> intent \<Rightarrow> audit_phase \<Rightarrow> traffic \<Rightarrow> failure + string list \<Rightarrow> instant \<Rightarrow> audit_event" where
  "event g c i phase tr result now =
     (let object_ids = (case result of Inr ids \<Rightarrow> ids | Inl f \<Rightarrow> fa_alpaca_object_ids f)
      in \<lparr>
        ae_request_id = ca_request_id c,
        ae_phase = phase,
        ae_at = gw_wall_clock g now,
        ae_deployment = deployment (gc_profile (gw_config g)),
        ae_environment = environment_as_str (gc_environment (gw_config g)),
        ae_account_id = bc_account_id (gc_broker (gw_config g)),
        ae_principal = pr_subject (ca_principal c),
        ae_principal_email = pr_email (ca_principal c),
        ae_tier = pr_tier (ca_principal c),
        ae_on_behalf_of = ca_on_behalf_of c,
        ae_operation = ca_operation c,
        ae_key = in_key i,
        ae_reason = in_reason i,
        ae_request_digest = in_digest i,
        ae_summary = in_summary i,
        ae_alpaca_status = (case result of Inr _ \<Rightarrow> last_status tr | Inl f \<Rightarrow> fa_alpaca_status f),
        ae_alpaca_request_ids = audit_ids (request_ids tr),
        ae_alpaca_object_id = (if object_ids = [] then None else Some (join_ids (audit_ids object_ids))),
        ae_outcome = (case result of
            Inr _ \<Rightarrow> if mutates (ca_operation c) then Some Applied else None
          | Inl f \<Rightarrow> fa_outcome f),
        ae_code = (case result of Inr _ \<Rightarrow> None | Inl f \<Rightarrow> Some (fa_code f)),
        ae_rejection = (case result of Inr _ \<Rightarrow> None | Inl f \<Rightarrow> fa_reason f),
        ae_latency_ms = min ((now - ca_started c) div 1000000) (2 ^ 64 - 1),
        ae_gateway_version = gw_version g\<rparr>)"

definition emit :: "gateway \<Rightarrow> audit_event \<Rightarrow> gateway" where
  "emit g e = g\<lparr>gw_audit := gw_audit g @ [e]\<rparr>"

definition refused :: "call \<Rightarrow> failure \<Rightarrow> failure" where
  "refused c f = (for_mutation f (ca_operation c))\<lparr>fa_request_id := ca_request_id c\<rparr>"

definition refuse ::
  "gateway \<Rightarrow> call \<Rightarrow> intent \<Rightarrow> failure \<Rightarrow> instant \<Rightarrow> failure \<times> gateway" where
  "refuse g c i f now =
     (let failure = refused c f
      in (failure, emit g (event g c i Phase_Answered default_traffic (Inl failure) now)))"

definition admit ::
  "gateway \<Rightarrow> call \<Rightarrow> intent \<Rightarrow> instant \<Rightarrow> (failure + unit) \<times> gateway" where
  "admit g c i now =
     (let op = ca_operation c; tier = pr_tier (ca_principal c); rid = ca_request_id c
      in if gw_shutdown g
         then (Inl (failure_new rid Unavailable ''the gateway is shutting down''), g)
         else if is_disabled (gw_config g) op
         then (Inl (failure_new rid CapabilityDisabled (name op @ '' is disabled in this deployment'')), g)
         else if tier = Write \<and> mutates op
                 \<and> (case in_reason i of None \<Rightarrow> True | Some r \<Rightarrow> is_blank r)
         then (Inl (invalid rid ''a human mutation needs a non blank reason''), g)
         else if \<not> is_human tier then (Inr (), g)
         else
           (case take_at (gw_budget g) (cost op) now of
              (Inr _, b) \<Rightarrow> (Inr (), g\<lparr>gw_budget := b\<rparr>)
            | (Inl wait, b) \<Rightarrow>
                (Inl ((failure_new rid Backpressure ''human request budget spent for this minute'')
                        \<lparr>fa_retry_after := Some wait\<rparr>), g\<lparr>gw_budget := b\<rparr>)))"

definition without_result :: "gateway \<Rightarrow> call \<Rightarrow> failure" where
  "without_result g c =
     (let op = ca_operation c; within = deadline_of op div nanos_per_sec
      in failure_new (ca_request_id c)
           (if mutates op then OutcomeUnknown else UpstreamTransient)
           (if gw_shutdown g
            then (if mutates op
                  then ''the gateway is shutting down; '' @ name op @ '' may still complete at Alpaca''
                  else ''the gateway is shutting down; '' @ name op @ '' was not finished'')
            else name op @ '' did not finish within '' @ show_nat within @ ''s''
                 @ (if mutates op then ''; it may still complete at Alpaca'' else [])))"

definition tagged :: "uuid \<Rightarrow> 'b response \<Rightarrow> 'b response" where
  "tagged rid r = r\<lparr>rs_headers := (REQUEST_ID_HEADER, rid) # rs_headers r\<rparr>"

definition success :: "uuid \<Rightarrow> 'b \<Rightarrow> 'b response" where
  "success rid b = tagged rid \<lparr>rs_status = 200, rs_headers = [], rs_body = Success_Body b\<rparr>"

subsection \<open>The runner after admission\<close>

type_synonym call_env = "bool \<times> instant"

text \<open>The gate's closure: neither shutdown nor the deadline has come.\<close>

definition call_open :: "instant \<Rightarrow> call_env \<Rightarrow> bool" where
  "call_open deadline e = (\<not> fst e \<and> snd e < deadline)"

definition env_later :: "call_env \<Rightarrow> call_env \<Rightarrow> bool" where
  "env_later e e' = ((fst e \<longrightarrow> fst e') \<and> snd e \<le> snd e')"

type_synonym 'b work_result = "failure + 'b done_call"

text \<open>
  The detached task: working, holding its mapped result, past \<open>sender.send\<close> with the record it
  will write, past the record, or ended by a panic (its sender is dropped).
\<close>

datatype 'b task_phase =
    Working
  | Finished "'b work_result"
  | Delivered "'b work_result" audit_event
  | Recorded "'b work_result" audit_event
  | Panicked

text \<open>
  The handler: in \<open>select!\<close>, stopped without a result, past \<open>gate.close()\<close>, past
  \<open>receiver.close()\<close>, holding what \<open>try_recv\<close> or \<open>select!\<close> gave, answered, or dropped by a caller
  that went away (the guard's drop closes the gate, then the receiver is dropped).
\<close>

datatype 'b handler_phase =
    Waiting
  | Stopped
  | GateShut
  | ChannelShut
  | Took "'b work_result option"
  | Answered "'b work_result option" "'b response"
  | Dropping
  | Dropped

record 'b run_state =
  rn_gateway :: gateway
  rn_now :: instant
  rn_gate :: "call_env gate"
  rn_handed :: "instant list"
  rn_traffic :: traffic
  rn_task :: "'b task_phase"
  rn_value :: "'b work_result option"
  rn_receiver_closed :: bool
  rn_handler :: "'b handler_phase"

definition rn_env :: "'b run_state \<Rightarrow> call_env" where
  "rn_env s = (gw_shutdown (rn_gateway s), rn_now s)"

definition result_ids :: "'b work_result \<Rightarrow> failure + string list" where
  "result_ids r = map_sum (\<lambda>f. f) dn_alpaca_object_ids r"

definition run_begin ::
  "gateway \<Rightarrow> call \<Rightarrow> intent \<Rightarrow> instant \<Rightarrow> ('b response \<times> gateway) + 'b run_state" where
  "run_begin g c i now =
     (case admit g c i now of
        (Inl f, g') \<Rightarrow> (case refuse g' c i f now of (f', g'') \<Rightarrow> Inl (into_response f', g''))
      | (Inr _, g') \<Rightarrow>
          Inr \<lparr>rn_gateway = g', rn_now = now,
               rn_gate = new_gate (call_open (now + deadline_of (ca_operation c))),
               rn_handed = [], rn_traffic = default_traffic, rn_task = Working, rn_value = None,
               rn_receiver_closed = False, rn_handler = Waiting\<rparr>)"

definition result_response :: "call \<Rightarrow> 'b work_result \<Rightarrow> 'b response" where
  "result_response c r =
     (case r of
        Inr d \<Rightarrow> success (ca_request_id c) (dn_body d)
      | Inl f \<Rightarrow> into_response (f\<lparr>fa_request_id := ca_request_id c\<rparr>))"

text \<open>The call's traffic after one more answer, as \<open>record\<close> and \<open>record_id\<close> keep it.\<close>

definition traffic_seen :: "answer_seen \<Rightarrow> traffic \<Rightarrow> traffic" where
  "traffic_seen x t =
     unwrap_or (TRAFFIC (record_seen x \<lparr>TRAFFIC = Some t, GATE = None, LAST_ANSWER = None\<rparr>)) t"

inductive run_step ::
  "call \<Rightarrow> intent \<Rightarrow> instant \<Rightarrow> 'b run_state \<Rightarrow> 'b run_state \<Rightarrow> bool"
  for c :: call and i :: intent and deadline :: instant where
  clock: "rn_now s \<le> t \<Longrightarrow> run_step c i deadline s (s\<lparr>rn_now := t\<rparr>)"
| shut_down: "run_step c i deadline s
     (s\<lparr>rn_gateway := (rn_gateway s)\<lparr>gw_shutdown := True\<rparr>\<rparr>)"
| start_request: "rn_task s = Working \<Longrightarrow> opens (rn_gate s) (rn_env s) \<Longrightarrow>
     run_step c i deadline s (s\<lparr>rn_handed := rn_handed s @ [rn_now s]\<rparr>)"
| answer_seen: "rn_task s = Working \<Longrightarrow>
     run_step c i deadline s (s\<lparr>rn_traffic := traffic_seen x (rn_traffic s)\<rparr>)"
| finish: "rn_task s = Working \<Longrightarrow>
     run_step c i deadline s
       (s\<lparr>rn_task := Finished (map_err (\<lambda>f. for_mutation f (ca_operation c)) r)\<rparr>)"
| panic: "rn_task s = Working \<Longrightarrow> run_step c i deadline s (s\<lparr>rn_task := Panicked\<rparr>)"
| deliver: "rn_task s = Finished r \<Longrightarrow> \<not> rn_receiver_closed s \<Longrightarrow>
     run_step c i deadline s
       (s\<lparr>rn_task := Delivered r
            (event (rn_gateway s) c i Phase_Answered (rn_traffic s) (result_ids r) (rn_now s)),
          rn_value := Some r\<rparr>)"
| deliver_late: "rn_task s = Finished r \<Longrightarrow> rn_receiver_closed s \<Longrightarrow>
     run_step c i deadline s
       (s\<lparr>rn_task := Delivered r
            (event (rn_gateway s) c i Phase_Settled (rn_traffic s) (result_ids r) (rn_now s))\<rparr>)"
| record_result: "rn_task s = Delivered r e \<Longrightarrow>
     run_step c i deadline s
       (s\<lparr>rn_task := Recorded r e, rn_gateway := emit (rn_gateway s) e\<rparr>)"
| receive: "rn_handler s = Waiting \<Longrightarrow> rn_value s = Some r \<Longrightarrow>
     run_step c i deadline s (s\<lparr>rn_handler := Took (Some r), rn_value := None\<rparr>)"
| sender_gone: "rn_handler s = Waiting \<Longrightarrow> rn_task s = Panicked \<Longrightarrow>
     run_step c i deadline s (s\<lparr>rn_handler := Stopped\<rparr>)"
| deadline_reached: "rn_handler s = Waiting \<Longrightarrow> deadline \<le> rn_now s \<Longrightarrow>
     run_step c i deadline s (s\<lparr>rn_handler := Stopped\<rparr>)"
| shutdown_seen: "rn_handler s = Waiting \<Longrightarrow> gw_shutdown (rn_gateway s) \<Longrightarrow>
     run_step c i deadline s (s\<lparr>rn_handler := Stopped\<rparr>)"
| close_gate: "rn_handler s = Stopped \<Longrightarrow>
     run_step c i deadline s (s\<lparr>rn_handler := GateShut, rn_gate := close (rn_gate s)\<rparr>)"
| close_receiver: "rn_handler s = GateShut \<Longrightarrow>
     run_step c i deadline s (s\<lparr>rn_handler := ChannelShut, rn_receiver_closed := True\<rparr>)"
| try_receive: "rn_handler s = ChannelShut \<Longrightarrow>
     run_step c i deadline s (s\<lparr>rn_handler := Took (rn_value s), rn_value := None\<rparr>)"
| answer_result: "rn_handler s = Took (Some r) \<Longrightarrow>
     run_step c i deadline s
       (s\<lparr>rn_handler := Answered (Some r) (result_response c r), rn_gate := close (rn_gate s),
          rn_receiver_closed := True\<rparr>)"
| answer_without: "rn_handler s = Took None \<Longrightarrow>
     refuse (rn_gateway s) c i (without_result (rn_gateway s) c) (rn_now s) = (f, g') \<Longrightarrow>
     run_step c i deadline s
       (s\<lparr>rn_handler := Answered None (into_response f), rn_gateway := g',
          rn_gate := close (rn_gate s)\<rparr>)"
| caller_gone: "rn_handler s = Waiting \<Longrightarrow>
     run_step c i deadline s (s\<lparr>rn_handler := Dropping, rn_gate := close (rn_gate s)\<rparr>)"
| receiver_dropped: "rn_handler s = Dropping \<Longrightarrow>
     run_step c i deadline s
       (s\<lparr>rn_handler := Dropped, rn_receiver_closed := True, rn_value := None\<rparr>)"

subsection \<open>The gate of a call\<close>

lemma call_open_one_way: "is_open g = call_open deadline \<Longrightarrow> one_way env_later g"
  by (auto simp: one_way_def env_later_def call_open_def)

definition gate_view :: "'b run_state \<Rightarrow> call_env gate \<times> call_env \<times> nat" where
  "gate_view s = (rn_gate s, rn_env s, length (rn_handed s))"

text \<open>Every step of a run is a step of its gate, or leaves the gate alone.\<close>

lemma run_step_gate:
  assumes "run_step c i deadline s s'"
  shows "(sg.gate_step env_later)\<^sup>*\<^sup>* (gate_view s) (gate_view s')"
  using assms
proof (cases rule: run_step.cases)
  case (clock t)
  then have "sg.gate_step env_later (gate_view s) (gate_view s')"
    by (auto simp: gate_view_def rn_env_def env_later_def intro: sg.gate_step.time_passes)
  then show ?thesis ..
next
  case shut_down
  then have "sg.gate_step env_later (gate_view s) (gate_view s')"
    by (auto simp: gate_view_def rn_env_def env_later_def intro: sg.gate_step.time_passes)
  then show ?thesis ..
next
  case start_request
  then have "sg.gate_step env_later (gate_view s) (gate_view s')"
    by (auto simp: gate_view_def rn_env_def intro: sg.gate_step.begin_request)
  then show ?thesis ..
qed (auto simp: gate_view_def rn_env_def emit_def refuse_def Let_def
    intro: r_into_rtranclp sg.gate_step.shut_gate)

subsection \<open>Invariants of a run\<close>

text \<open>The phases in which the handler has closed the gate.\<close>

fun gate_shut_phase :: "'b handler_phase \<Rightarrow> bool" where
  "gate_shut_phase GateShut = True"
| "gate_shut_phase ChannelShut = True"
| "gate_shut_phase (Took None) = True"
| "gate_shut_phase (Answered _ _) = True"
| "gate_shut_phase Dropping = True"
| "gate_shut_phase Dropped = True"
| "gate_shut_phase _ = False"

definition gate_inv :: "instant \<Rightarrow> instant \<Rightarrow> 'b run_state \<Rightarrow> bool" where
  "gate_inv started deadline s =
     (is_open (rn_gate s) = call_open deadline
      \<and> (gate_shut_phase (rn_handler s) \<longrightarrow> closed (rn_gate s))
      \<and> started \<le> rn_now s
      \<and> list_all (\<lambda>t. started \<le> t \<and> t < deadline) (rn_handed s))"

lemma gate_inv_step:
  assumes "run_step c i deadline s s'" and "gate_inv started deadline s"
  shows "gate_inv started deadline s'"
  using assms
  by (cases rule: run_step.cases)
    (auto simp: gate_inv_def close_def emit_def refuse_def Let_def opens_iff call_open_def rn_env_def)

text \<open>Where the task's result is: nowhere yet, in the channel, with the handler, or lost with it.\<close>

fun undelivered :: "'b handler_phase \<Rightarrow> bool" where
  "undelivered (Took (Some _)) = False"
| "undelivered (Answered (Some _) _) = False"
| "undelivered _ = True"

fun handler_has :: "'b handler_phase \<Rightarrow> 'b work_result option \<Rightarrow> 'b work_result \<Rightarrow> bool" where
  "handler_has (Took got) v r = (got = Some r \<and> v = None)"
| "handler_has (Answered got _) v r = (got = Some r \<and> v = None)"
| "handler_has Dropped v r = (v = None)"
| "handler_has _ v r = (v = Some r)"

fun past_receiver :: "'b handler_phase \<Rightarrow> bool" where
  "past_receiver ChannelShut = True"
| "past_receiver (Took None) = True"
| "past_receiver (Answered None _) = True"
| "past_receiver Dropped = True"
| "past_receiver _ = False"

definition delivery_ok :: "'b run_state \<Rightarrow> 'b work_result \<Rightarrow> audit_event \<Rightarrow> bool" where
  "delivery_ok s r e =
     (case ae_phase e of
        Phase_Answered \<Rightarrow> handler_has (rn_handler s) (rn_value s) r
      | Phase_Settled \<Rightarrow> past_receiver (rn_handler s) \<and> rn_receiver_closed s \<and> rn_value s = None)"

definition delivery_inv :: "'b run_state \<Rightarrow> bool" where
  "delivery_inv s =
     ((case rn_task s of
         Delivered r e \<Rightarrow> delivery_ok s r e
       | Recorded r e \<Rightarrow> delivery_ok s r e
       | _ \<Rightarrow> rn_value s = None \<and> undelivered (rn_handler s))
      \<and> (past_receiver (rn_handler s) \<longrightarrow> rn_receiver_closed s)
      \<and> (rn_receiver_closed s \<longrightarrow> past_receiver (rn_handler s) \<or> \<not> undelivered (rn_handler s)))"

lemma event_phase [simp]: "ae_phase (event g c i ph tr r now) = ph"
  by (simp add: event_def Let_def)

lemma delivery_inv_step:
  assumes "run_step c i deadline s s'" and "delivery_inv s"
  shows "delivery_inv s'"
  using assms
proof (cases rule: run_step.cases)
  case (deliver r)
  with assms(2) show ?thesis
    by (cases "rn_handler s" rule: past_receiver.cases)
      (auto simp: delivery_inv_def delivery_ok_def)
next
  case (deliver_late r)
  with assms(2) show ?thesis
    by (cases "rn_handler s" rule: past_receiver.cases)
      (auto simp: delivery_inv_def delivery_ok_def)
next
  case try_receive
  with assms(2) show ?thesis
    by (cases "rn_value s") (auto simp: delivery_inv_def delivery_ok_def
        split: task_phase.splits audit_phase.splits)
qed (auto simp: delivery_inv_def delivery_ok_def emit_def refuse_def Let_def
    split: task_phase.splits audit_phase.splits)

fun task_log :: "'b task_phase \<Rightarrow> audit_event multiset" where
  "task_log (Recorded _ e) = {#e#}"
| "task_log _ = {#}"

text \<open>The record the handler writes when it answers without a result.\<close>

definition own_record :: "call \<Rightarrow> 'b response \<Rightarrow> audit_event \<Rightarrow> bool" where
  "own_record c resp e =
     (\<exists>f. resp = into_response f \<and> ae_phase e = Phase_Answered
        \<and> ae_request_id e = ca_request_id c
        \<and> ae_code e = Some (fa_code f) \<and> ae_outcome e = fa_outcome f
        \<and> fa_code f = (if mutates (ca_operation c) then OutcomeUnknown else UpstreamTransient)
        \<and> fa_outcome f = (if mutates (ca_operation c) then Some Unknown else None))"

definition audit_inv :: "audit_event list \<Rightarrow> call \<Rightarrow> 'b run_state \<Rightarrow> bool" where
  "audit_inv before c s =
     (case rn_handler s of
        Answered None resp \<Rightarrow>
          (\<exists>e. own_record c resp e
             \<and> mset (gw_audit (rn_gateway s)) = mset before + task_log (rn_task s) + {#e#})
      | _ \<Rightarrow> mset (gw_audit (rn_gateway s)) = mset before + task_log (rn_task s))"

lemma without_result_record:
  assumes "refuse g c i (without_result g c) now = (f, g')"
  shows "\<exists>e. own_record c (into_response f) e \<and> gw_audit g' = gw_audit g @ [e]"
proof -
  define e where "e = event g c i Phase_Answered default_traffic (Inl f) now"
  have f: "f = refused c (without_result g c)" and g': "gw_audit g' = gw_audit g @ [e]"
    using assms by (auto simp: refuse_def Let_def emit_def e_def)
  have "own_record c (into_response f) e"
    unfolding own_record_def
    by (rule exI [of _ f])
      (simp add: e_def f event_def refused_def without_result_def Let_def for_mutation_def)
  with g' show ?thesis by blast
qed

lemma audit_inv_step:
  fixes s :: "'b run_state"
  assumes "run_step c i deadline s s'" and "audit_inv before c s"
  shows "audit_inv before c s'"
  using assms
proof (cases rule: run_step.cases)
  case (answer_without f g')
  from without_result_record [OF answer_without(3)] obtain e where
    "own_record c (into_response f :: 'b response) e"
    "gw_audit g' = gw_audit (rn_gateway s) @ [e]" by blast
  with answer_without assms(2) show ?thesis by (auto simp: audit_inv_def)
next
  case (record_result r e)
  with assms(2) show ?thesis
    by (auto simp: audit_inv_def emit_def split: handler_phase.splits option.splits)
qed (auto simp: audit_inv_def emit_def split: handler_phase.splits option.splits)

lemma run_inv:
  assumes "run_begin g c i now = Inr s0"
    and "(run_step c i (now + deadline_of (ca_operation c)))\<^sup>*\<^sup>* s0 s"
  shows "gate_inv now (now + deadline_of (ca_operation c)) s"
    and "delivery_inv s" and "audit_inv (gw_audit (rn_gateway s0)) c s"
proof -
  have start: "gate_inv now (now + deadline_of (ca_operation c)) s0" "delivery_inv s0"
    "audit_inv (gw_audit (rn_gateway s0)) c s0"
    using assms(1)
    by (auto simp: run_begin_def gate_inv_def new_gate_def delivery_inv_def audit_inv_def
        split: prod.splits sum.splits)
  show "gate_inv now (now + deadline_of (ca_operation c)) s"
    and "delivery_inv s" and "audit_inv (gw_audit (rn_gateway s0)) c s"
    using assms(2) start
    by (induction rule: rtranclp_induct)
      (auto intro: gate_inv_step delivery_inv_step audit_inv_step)
qed

lemma run_steps_gate:
  "(run_step c i deadline)\<^sup>*\<^sup>* s s' \<Longrightarrow> (sg.gate_step env_later)\<^sup>*\<^sup>* (gate_view s) (gate_view s')"
  by (induction rule: rtranclp_induct) (auto dest: run_step_gate)

lemma run_steps_handed: "(run_step c i deadline)\<^sup>*\<^sup>* s s' \<Longrightarrow> prefix (rn_handed s) (rn_handed s')"
proof (induction rule: rtranclp_induct)
  case (step s' s'')
  from step.hyps(2) have "prefix (rn_handed s') (rn_handed s'')"
    by (cases rule: run_step.cases) auto
  with step.IH show ?case by (rule prefix_order.trans)
qed simp

subsection \<open>Properties\<close>

text \<open>
  C1: nothing leaves after the answer. Once the caller has its answer or is gone, the deadline has
  passed or shutdown has begun, no further Alpaca request and no credential mint of that call
  ever starts, in any interleaving of the task, the handler, the clock and shutdown; and every
  request that did start, started before the deadline.
\<close>

theorem nothing_leaves_after_the_answer:
  assumes "run_begin g c i now = Inr s0"
    and "(run_step c i (now + deadline_of (ca_operation c)))\<^sup>*\<^sup>* s0 s"
    and "(run_step c i (now + deadline_of (ca_operation c)))\<^sup>*\<^sup>* s s'"
    and "(\<exists>r resp. rn_handler s = Answered r resp) \<or> rn_handler s = Dropped
      \<or> gw_shutdown (rn_gateway s) \<or> now + deadline_of (ca_operation c) \<le> rn_now s"
  shows "rn_handed s' = rn_handed s
    \<and> (\<forall>t \<in> set (rn_handed s). now \<le> t \<and> t < now + deadline_of (ca_operation c))"
proof -
  let ?D = "now + deadline_of (ca_operation c)"
  note inv = run_inv(1) [OF assms(1,2)]
  have shut: "\<not> opens (rn_gate s) (rn_env s)"
    using inv assms(4) by (auto simp: gate_inv_def opens_iff call_open_def rn_env_def)
  have "one_way env_later (rn_gate s)" using inv by (auto simp: gate_inv_def intro: call_open_one_way)
  with sg.none_after_shut [OF run_steps_gate [OF assms(3)]] shut
  have "length (rn_handed s') = length (rn_handed s)" by (simp add: gate_view_def)
  with run_steps_handed [OF assms(3)] have "rn_handed s' = rn_handed s"
    by (auto simp: prefix_def)
  with inv show ?thesis by (simp add: gate_inv_def list_all_iff)
qed

text \<open>
  C18: every answered call is in the audit log once as answered, and a result that came too late
  once as settled. When the handler has answered and the task has written its record: either
  the caller got the task's result, its record is the only one and says answered; or the caller
  was answered without it, with \<open>outcome_unknown\<close> for a mutation and \<open>upstream_transient\<close> for a read,
  that answer has its own answered record with the same code and outcome, and the task's record
  says settled.
\<close>

theorem audit_log_matches_the_answers:
  assumes "run_begin g c i now = Inr s0"
    and "(run_step c i (now + deadline_of (ca_operation c)))\<^sup>*\<^sup>* s0 s"
    and "rn_handler s = Answered got resp" and "rn_task s = Recorded r e"
  shows "(case got of
      Some r' \<Rightarrow> r' = r \<and> ae_phase e = Phase_Answered
        \<and> mset (gw_audit (rn_gateway s)) = mset (gw_audit (rn_gateway s0)) + {#e#}
    | None \<Rightarrow> ae_phase e = Phase_Settled
        \<and> (\<exists>e'. own_record c resp e'
             \<and> mset (gw_audit (rn_gateway s)) = mset (gw_audit (rn_gateway s0)) + {#e, e'#}))"
proof (cases got)
  case (Some r')
  with run_inv(2,3) [OF assms(1,2)] assms(3,4) show ?thesis
    by (auto simp: delivery_inv_def delivery_ok_def audit_inv_def split: audit_phase.splits)
next
  case None
  with run_inv(2,3) [OF assms(1,2)] assms(3,4) show ?thesis
    by (auto simp: delivery_inv_def delivery_ok_def audit_inv_def add_mset_commute
        split: audit_phase.splits)
qed

definition sample_gateway :: gateway where
  "sample_gateway = \<lparr>gw_config = sample_config, gw_budget = new_budget 60, gw_shutdown = False,
     gw_audit = [], gw_version = ''1'', gw_wall_clock = int\<rparr>"

definition sample_call :: call where
  "sample_call = \<lparr>ca_request_id = ''id'', ca_operation = OrdersPlaceMarket,
     ca_principal = \<lparr>pr_tier = Bot, pr_subject = ''111'', pr_email = None\<rparr>,
     ca_on_behalf_of = None, ca_started = 0\<rparr>"

definition sample_run :: "nat run_state" where
  "sample_run = \<lparr>rn_gateway = sample_gateway, rn_now = 0,
     rn_gate = new_gate (call_open (from_secs 125)), rn_handed = [], rn_traffic = default_traffic,
     rn_task = Working, rn_value = None, rn_receiver_closed = False, rn_handler = Waiting\<rparr>"

lemma sample_deadline: "deadline_of (ca_operation sample_call) = from_secs 125"
  by (simp add: sample_call_def deadline_of_def deadline_consts)

lemma sample_begin: "run_begin sample_gateway sample_call default_intent 0 = Inr sample_run"
  using sample_deadline
  by (simp add: run_begin_def admit_def sample_gateway_def sample_call_def is_disabled_def
      sample_config_def is_human_def sample_run_def)

theorem nothing_leaves_after_the_answer_witness:
  "\<exists>s s'. (run_step sample_call default_intent (from_secs 125))\<^sup>*\<^sup>* sample_run s
     \<and> (run_step sample_call default_intent (from_secs 125))\<^sup>*\<^sup>* s s'
     \<and> rn_handed s = [0] \<and> from_secs 125 \<le> rn_now s \<and> rn_handed s' = [0]"
proof -
  define s1 where "s1 = sample_run\<lparr>rn_handed := [0]\<rparr>"
  define s2 where "s2 = s1\<lparr>rn_now := from_secs 125\<rparr>"
  define s3 where "s3 = s2\<lparr>rn_task := Panicked\<rparr>"
  let ?R = "run_step sample_call default_intent (from_secs 125)"
  have "?R sample_run (sample_run\<lparr>rn_handed := rn_handed sample_run @ [rn_now sample_run]\<rparr>)"
    by (rule start_request)
      (simp_all add: sample_run_def opens_iff new_gate_def call_open_def rn_env_def sample_gateway_def)
  then have "?R sample_run s1" by (simp add: s1_def sample_run_def)
  moreover have "?R s1 s2" unfolding s2_def by (rule clock) (simp add: s1_def sample_run_def)
  ultimately have reach: "?R\<^sup>*\<^sup>* sample_run s2" by auto
  have more: "?R\<^sup>*\<^sup>* s2 s3" unfolding s3_def
    by (rule r_into_rtranclp, rule panic) (simp add: s2_def s1_def sample_run_def)
  have late: "from_secs 125 \<le> rn_now s2" by (simp add: s2_def)
  have "rn_handed s3 = rn_handed s2"
    using nothing_leaves_after_the_answer [OF sample_begin, of s2 s3] reach more late
    by (simp add: sample_deadline)
  with reach more late show ?thesis
    by (intro exI [of _ s2] exI [of _ s3]) (simp add: s2_def s1_def)
qed

theorem audit_log_matches_the_answers_witness:
  "\<exists>s r e. (run_step sample_call default_intent (from_secs 125))\<^sup>*\<^sup>* sample_run s
     \<and> rn_task s = Recorded r e \<and> ae_phase e = Phase_Answered
     \<and> mset (gw_audit (rn_gateway s)) = {#e#}"
proof -
  let ?R = "run_step sample_call default_intent (from_secs 125)"
  define r where "r = (Inr \<lparr>dn_body = 7, dn_alpaca_object_ids = [''o'']\<rparr> :: nat work_result)"
  define e where "e = event sample_gateway sample_call default_intent Phase_Answered
    default_traffic (result_ids r) 0"
  define s1 where "s1 = sample_run\<lparr>rn_task := Finished r\<rparr>"
  define s2 where "s2 = s1\<lparr>rn_task := Delivered r e, rn_value := Some r\<rparr>"
  define s3 where "s3 = s2\<lparr>rn_task := Recorded r e, rn_gateway := emit sample_gateway e\<rparr>"
  define s4 where "s4 = s3\<lparr>rn_handler := Took (Some r), rn_value := None\<rparr>"
  define s5 where "s5 = s4\<lparr>rn_handler := Answered (Some r) (result_response sample_call r),
    rn_gate := close (rn_gate s4), rn_receiver_closed := True\<rparr>"
  note ss = s5_def s4_def s3_def s2_def s1_def sample_run_def
  have "?R sample_run (sample_run\<lparr>rn_task :=
      Finished (map_err (\<lambda>f. for_mutation f (ca_operation sample_call)) r)\<rparr>)"
    by (rule finish) (simp add: sample_run_def)
  then have "?R sample_run s1" by (simp add: s1_def r_def)
  moreover have "?R s1 s2"
    using deliver [of s1 r sample_call default_intent "from_secs 125"]
    by (simp add: s2_def e_def s1_def sample_run_def)
  moreover have "?R s2 s3"
    using record_result [of s2 r e sample_call default_intent "from_secs 125"]
    by (simp add: s3_def s2_def s1_def sample_run_def)
  moreover have "?R s3 s4" unfolding s4_def by (rule receive) (simp_all add: ss)
  moreover have "?R s4 s5" unfolding s5_def by (rule answer_result) (simp add: s4_def)
  ultimately have reach: "?R\<^sup>*\<^sup>* sample_run s5" by auto
  then have reach': "(run_step sample_call default_intent
      (0 + deadline_of (ca_operation sample_call)))\<^sup>*\<^sup>* sample_run s5"
    by (simp add: sample_deadline)
  have answered: "rn_handler s5 = Answered (Some r) (result_response sample_call r)"
    and task: "rn_task s5 = Recorded r e" by (simp_all add: ss)
  from audit_log_matches_the_answers [OF sample_begin reach' answered task]
  have "ae_phase e = Phase_Answered \<and> mset (gw_audit (rn_gateway s5)) = {#e#}"
    by (simp add: sample_run_def sample_gateway_def)
  with reach task show ?thesis by blast
qed

subsection \<open>Admission and the audit record\<close>

lemma admit_Inl:
  assumes "admit g c i now = (Inl f, g')"
  shows "fa_code f \<in> {Unavailable, CapabilityDisabled, InvalidRequest, Backpressure}"
    and "gw_audit g' = gw_audit g" and "gw_config g' = gw_config g"
    and "gw_shutdown g' = gw_shutdown g"
    and "\<not> is_human (pr_tier (ca_principal c)) \<longrightarrow> gw_budget g' = gw_budget g"
  using assms
  by (auto simp: admit_def Let_def split: if_splits option.splits prod.splits sum.splits)

text \<open>
  Admission. A call runs only when the gateway is not shutting down, the operation is not
  switched off, a human mutation carries a non blank reason, and a human's budget grants its
  cost; a bot is never charged. A refused call is answered and audited once as answered, with
  the same code, and as not applied when it is a mutation; nothing of the gateway but its log
  and, for a human, its budget changes.
\<close>

theorem admission_decides_before_anything_runs:
  "case run_begin g c i now of
     Inr s \<Rightarrow>
       \<not> gw_shutdown g \<and> \<not> is_disabled (gw_config g) (ca_operation c)
       \<and> (pr_tier (ca_principal c) = Write \<and> mutates (ca_operation c) \<longrightarrow>
            (\<exists>reason. in_reason i = Some reason \<and> \<not> is_blank reason))
       \<and> (if is_human (pr_tier (ca_principal c))
          then fst (take_at (gw_budget g) (cost (ca_operation c)) now) = Inr ()
          else rn_gateway s = g)
       \<and> gw_audit (rn_gateway s) = gw_audit g \<and> rn_handed s = []
   | Inl (resp, g') \<Rightarrow>
       (\<exists>e f. gw_audit g' = gw_audit g @ [e] \<and> ae_phase e = Phase_Answered
          \<and> resp = into_response f \<and> fa_request_id f = ca_request_id c
          \<and> ae_code e = Some (fa_code f) \<and> ae_alpaca_request_ids e = []
          \<and> (mutates (ca_operation c) \<longrightarrow> fa_outcome f = Some NotApplied)
          \<and> fa_code f \<in> {Unavailable, CapabilityDisabled, InvalidRequest, Backpressure})
       \<and> gw_config g' = gw_config g \<and> gw_shutdown g' = gw_shutdown g
       \<and> (\<not> is_human (pr_tier (ca_principal c)) \<longrightarrow> gw_budget g' = gw_budget g)"
proof (cases "admit g c i now")
  case (Pair r g')
  show ?thesis
  proof (cases r)
    case (Inr u)
    with Pair show ?thesis
      by (auto simp: run_begin_def admit_def Let_def
          split: if_splits option.splits prod.splits sum.splits)
  next
    case (Inl f)
    note code = admit_Inl(1) [OF Pair [unfolded Inl]] and kept = admit_Inl(2-5) [OF Pair [unfolded Inl]]
    define f' where "f' = refused c f"
    have f': "fa_code f' = fa_code f" "fa_request_id f' = ca_request_id c"
      "mutates (ca_operation c) \<longrightarrow> fa_outcome f' = Some NotApplied"
      using code by (auto simp: f'_def refused_def for_mutation_def)
    have run: "run_begin g c i now = (Inl (into_response f',
        emit g' (event g' c i Phase_Answered default_traffic (Inl f') now))
        :: ('a response \<times> gateway) + 'a run_state)"
      using Pair Inl by (simp add: run_begin_def refuse_def Let_def f'_def)
    define e where "e = event g' c i Phase_Answered default_traffic (Inl f') now"
    have "gw_audit (emit g' e) = gw_audit g @ [e] \<and> ae_phase e = Phase_Answered
        \<and> ae_code e = Some (fa_code f') \<and> ae_alpaca_request_ids e = []"
      using kept by (simp add: emit_def e_def event_def Let_def audit_ids_def default_traffic_def)
    then have "\<exists>e'' f''. gw_audit (emit g' e) = gw_audit g @ [e''] \<and> ae_phase e'' = Phase_Answered
        \<and> (into_response f' :: 'a response) = into_response f'' \<and> fa_request_id f'' = ca_request_id c
        \<and> ae_code e'' = Some (fa_code f'') \<and> ae_alpaca_request_ids e'' = []
        \<and> (mutates (ca_operation c) \<longrightarrow> fa_outcome f'' = Some NotApplied)
        \<and> fa_code f'' \<in> {Unavailable, CapabilityDisabled, InvalidRequest, Backpressure}"
      using f' code by (intro exI [of _ e] exI [of _ f']) simp
    moreover have "gw_config (emit g' e) = gw_config g" "gw_shutdown (emit g' e) = gw_shutdown g"
      "\<not> is_human (pr_tier (ca_principal c)) \<longrightarrow> gw_budget (emit g' e) = gw_budget g"
      using kept by (simp_all add: emit_def)
    ultimately show ?thesis unfolding run e_def [symmetric] sum.case prod.case by blast
  qed
qed

theorem admission_decides_before_anything_runs_witness:
  "\<exists>resp g'. run_begin (sample_gateway\<lparr>gw_shutdown := True\<rparr>) sample_call default_intent 0
       = (Inl (resp, g') :: (nat response \<times> gateway) + nat run_state)
     \<and> length (gw_audit g') = 1 \<and> gw_budget g' = new_budget 60"
proof -
  obtain resp g' where run: "run_begin (sample_gateway\<lparr>gw_shutdown := True\<rparr>) sample_call default_intent 0
      = (Inl (resp, g') :: (nat response \<times> gateway) + nat run_state)"
    by (simp add: run_begin_def admit_def Let_def refuse_def)
  have "\<exists>e. gw_audit g' = gw_audit (sample_gateway\<lparr>gw_shutdown := True\<rparr>) @ [e]"
    and "gw_budget g' = gw_budget sample_gateway"
    using admission_decides_before_anything_runs
      [of "sample_gateway\<lparr>gw_shutdown := True\<rparr>" sample_call default_intent 0, where ?'a = nat]
    unfolding run by (auto simp: sample_call_def is_human_def)
  with run show ?thesis by (auto simp: sample_gateway_def)
qed

definition field_ok :: "string option \<Rightarrow> bool" where
  "field_ok v = (case v of None \<Rightarrow> True | Some x \<Rightarrow> char_count x \<le> AUDIT_FIELD_MAX)"

definition intent_ok :: "intent \<Rightarrow> bool" where
  "intent_ok i = (field_ok (in_key i) \<and> field_ok (in_reason i) \<and> (\<forall>f. field_ok (in_summary i f)))"

lemma capped_ok: "field_ok (Some (capped v))" "field_ok (map_option capped r)"
  by (auto simp: field_ok_def capped_def cut_def take_chars_count split: option.splits)

lemma intents_ok:
  "intent_ok (intent_of d)" "intent_ok i \<Longrightarrow> intent_ok (with_key i k)"
  "intent_ok i \<Longrightarrow> intent_ok (with_reason i r)" "intent_ok i \<Longrightarrow> intent_ok (with_note i f v)"
  using capped_ok
  by (auto simp: intent_ok_def intent_of_def default_intent_def with_key_def with_reason_def
      with_note_def field_ok_def split: option.splits)

lemma audit_ids_bounds:
  "length (audit_ids ids) \<le> 100 \<and> (\<forall>x \<in> set (audit_ids ids). char_count x \<le> 128)"
  by (auto simp: audit_ids_def AUDIT_IDS_MAX_def AUDIT_ID_MAX_def cut_def take_chars_count)

text \<open>
  An audit record is bounded whatever a caller or Alpaca sends. With an intent built by the
  intent constructors, the key, the reason and every summary value keep at most 256 characters,
  and the record keeps at most 100 Alpaca request ids of at most 128 characters each; what is
  cut is a suffix, so the record always keeps a prefix of the original.
\<close>

theorem audit_record_is_bounded:
  assumes "intent_ok i"
  shows "field_ok (ae_key (event g c (with_note (with_reason (with_key i k) r) f v) ph tr res now))
    \<and> field_ok (ae_reason (event g c (with_note (with_reason (with_key i k) r) f v) ph tr res now))
    \<and> (\<forall>x. field_ok (ae_summary (event g c (with_note (with_reason (with_key i k) r) f v) ph tr res now) x))
    \<and> length (ae_alpaca_request_ids (event g c i ph tr res now)) \<le> 100
    \<and> (\<forall>x \<in> set (ae_alpaca_request_ids (event g c i ph tr res now)). char_count x \<le> 128)
    \<and> prefix (capped v) v"
proof -
  have "intent_ok (with_note (with_reason (with_key i k) r) f v)" using assms by (simp add: intents_ok)
  then show ?thesis
    using audit_ids_bounds [of "request_ids tr"] take_chars_prefix [of AUDIT_FIELD_MAX v]
    by (simp add: event_def Let_def intent_ok_def capped_def cut_def)
qed

theorem audit_record_is_bounded_witness:
  "field_ok (ae_key (event sample_gateway sample_call
     (with_note (with_reason (with_key (intent_of None) ''key'') None) ''symbol'' ''AAPL'')
     Phase_Answered default_traffic (Inr []) 0))"
  using audit_record_is_bounded [OF intents_ok(1) [of None], of sample_gateway sample_call "''key''"
      None "''symbol''" "''AAPL''" Phase_Answered default_traffic "Inr []" 0]
  by blast

end
