(* ===== verification/Broker_Client.thy ===== *)
theory Broker_Client
  imports Errors Config
begin

text \<open>
  The broker HTTP client (\<^verbatim>\<open>src/broker/client.rs\<close>) with the order wire types of
  \<^verbatim>\<open>src/broker/order.rs\<close>. A call runs on a state \<open>(n, w)\<close>: the network state of the gate theory
  and the outside world \<open>'w\<close>. The parameter \<open>alpaca\<close> is what lies outside the repository or below this
  layer: the HTTP transport and Alpaca's answers, the credential runtime, the clocks, serde on
  the wire types, and the decimal type \<open>'f\<close>.
\<close>

subsection \<open>Wire types\<close>

datatype order_side = Side_Buy | Side_Sell

datatype broker_order_status =
    BS_New | BS_PendingNew | BS_PartiallyFilled | BS_Filled | BS_DoneForDay | BS_Canceled
  | BS_Expired | BS_Replaced | BS_PendingCancel | BS_PendingReplace | BS_Rejected | BS_Suspended
  | BS_Calculated | BS_Stopped | BS_AcceptedForBidding | BS_Accepted

datatype 'f crypto_order_size = Quantity 'f | Notional 'f

record 'f order_request =
  rq_symbol :: symbol
  rq_quantity :: 'f
  rq_side :: order_side
  rq_order_type :: string
  rq_limit_price :: "'f option"
  rq_time_in_force :: string
  rq_extended_hours :: bool
  rq_client_order_id :: client_order_id

record 'f crypto_order_request =
  cq_symbol :: string
  cq_size :: "'f crypto_order_size"
  cq_side :: order_side
  cq_order_type :: string
  cq_time_in_force :: string
  cq_client_order_id :: client_order_id

datatype journal_entry_type = Jnls

record 'f journal_request =
  jq_from_account :: uuid
  jq_to_account :: uuid
  jq_entry_type :: journal_entry_type
  jq_symbol :: symbol
  jq_quantity :: 'f

definition journal_security :: "uuid \<Rightarrow> uuid \<Rightarrow> symbol \<Rightarrow> 'f \<Rightarrow> 'f journal_request" where
  "journal_security from to symb quantity = \<lparr>jq_from_account = from, jq_to_account = to,
     jq_entry_type = Jnls, jq_symbol = symb, jq_quantity = quantity\<rparr>"

text \<open>The bodies of the client's POSTs.\<close>

datatype 'f order_body =
    Order_Body "'f order_request"
  | Crypto_Body "'f crypto_order_request"
  | Journal_Body "'f journal_request"

record 'f order_response =
  or_id :: uuid
  or_symbol :: symbol
  or_quantity :: 'f
  or_filled_quantity :: "'f option"
  or_side :: order_side
  or_status :: broker_order_status
  or_filled_average_price :: "'f option"
  or_extended_hours :: "bool option"
  or_limit_price :: "'f option"
  or_created_at :: "utc option"
  or_submitted_at :: "utc option"
  or_updated_at :: "utc option"
  or_filled_at :: "utc option"
  or_canceled_at :: "utc option"
  or_failed_at :: "utc option"

record 'f crypto_order =
  cr_id :: uuid
  cr_symbol :: string
  cr_quantity :: "'f option"
  cr_notional :: "'f option"
  cr_status :: broker_order_status
  cr_filled_average_price :: "'f option"
  cr_filled_quantity :: "'f option"
  cr_created_at :: utc

datatype journal_status =
    Jnl_Queued | Jnl_SentToClearing | Jnl_Pending | Jnl_Executed | Jnl_Rejected | Jnl_Canceled
  | Jnl_Refused | Jnl_Deleted | Jnl_Correct

record 'f journal_response =
  jr_id :: uuid
  jr_status :: journal_status
  jr_symbol :: symbol
  jr_quantity :: 'f
  jr_price :: "'f option"
  jr_from_account :: uuid
  jr_to_account :: uuid
  jr_settle_date :: "string option"
  jr_system_date :: "string option"
  jr_description :: "string option"

record account_response =
  ar_id :: uuid
  ar_status :: account_status
  ar_account_number :: "string option"

record asset_response =
  as_status :: asset_status
  as_tradable :: bool
  as_fractionable :: "bool option"
  as_attributes :: "string list option"

subsection \<open>The transport\<close>

datatype broker_method = M_Get | M_Post | M_Delete

record 'f broker_request =
  br_method :: broker_method
  br_url :: string
  br_body :: "'f order_body option"
  br_authorization :: string

text \<open>An answer's head, and its body or the failure to read it.\<close>

record http_answer =
  ha_status :: status_code
  ha_headers :: headers
  ha_body :: "reqwest_error + bytes"

record ('env, 'w, 'f) alpaca =
  al_env :: "'w \<Rightarrow> 'env"
  al_authorize :: "'w \<Rightarrow> (kms_jwt_error + string) \<times> 'w"
  al_http :: "'f broker_request \<Rightarrow> 'w \<Rightarrow> (reqwest_error + http_answer) \<times> 'w"
  al_system_time :: "'w \<Rightarrow> int"
  al_rfc2822 :: rfc2822_parser
  al_parse_order :: "bytes \<Rightarrow> string + 'f order_response"
  al_parse_crypto :: "bytes \<Rightarrow> string + 'f crypto_order"
  al_parse_error_body :: "bytes \<Rightarrow> (nat option \<times> string) option"
  al_utf8_lossy :: "bytes \<Rightarrow> string"

record broker_client =
  cl_base_url :: string
  cl_account_id :: uuid

type_synonym ('env, 'w, 'f) broker_state = "('env, 'f broker_request) net \<times> 'w"

type_synonym ('env, 'w, 'f, 'e, 'a) broker_call =
  "('env, 'w, 'f) broker_state \<Rightarrow> ('e + 'a) \<times> ('env, 'w, 'f) broker_state"

text \<open>\<open>?\<close> and \<open>map_err\<close> on calls.\<close>

definition then_call :: "('s \<Rightarrow> ('e + 'a) \<times> 's) \<Rightarrow> ('a \<Rightarrow> 's \<Rightarrow> ('e + 'b) \<times> 's) \<Rightarrow> 's \<Rightarrow> ('e + 'b) \<times> 's" where
  "then_call m f s = (case m s of (Inl e, s') \<Rightarrow> (Inl e, s') | (Inr x, s') \<Rightarrow> f x s')"

definition map_err_call :: "('e \<Rightarrow> 'd) \<Rightarrow> ('s \<Rightarrow> ('e + 'a) \<times> 's) \<Rightarrow> 's \<Rightarrow> ('d + 'a) \<times> 's" where
  "map_err_call g m s = (case m s of (r, s') \<Rightarrow> (map_err g r, s'))"

definition return_call :: "'e + 'a \<Rightarrow> 's \<Rightarrow> ('e + 'a) \<times> 's" where
  "return_call r s = (r, s)"

definition exchange ::
  "('env, 'w, 'f) alpaca \<Rightarrow> broker_method \<Rightarrow> string \<Rightarrow> 'f order_body option
   \<Rightarrow> ('env, 'w, 'f, 'f broker_error, http_answer) broker_call" where
  "exchange A method url b s =
     (case s of (n, w) \<Rightarrow>
      (case al_authorize A w of
         (Inl e, w1) \<Rightarrow> (Inl (KmsJwt e), (n, w1))
       | (Inr auth, w1) \<Rightarrow>
           let req = \<lparr>br_method = method, br_url = url, br_body = b, br_authorization = auth\<rparr>
           in (case start (al_env A w1) req n of
                 (Inl e, n1) \<Rightarrow> (Inl (broker_from_send e), (n1, w1))
               | (Inr _, n1) \<Rightarrow>
                   (case al_http A req w1 of
                      (Inl e, w2) \<Rightarrow> (Inl (broker_from_send (SendHttp e)), (n1, w2))
                    | (Inr a, w2) \<Rightarrow>
                        (Inr a,
                         (n1\<lparr>locals := record_answer (ha_status a) (ha_headers a) (locals n1)\<rparr>, w2))))))"

definition parse_api_error ::
  "('env, 'w, 'f) alpaca \<Rightarrow> status_code \<Rightarrow> bytes \<Rightarrow> duration option \<Rightarrow> 'f broker_error" where
  "parse_api_error A status bs w =
     (case al_parse_error_body A bs of
        Some (code, message) \<Rightarrow> ApiError status code message w
      | None \<Rightarrow> ApiError status None (al_utf8_lossy A bs) w)"

definition answer_retry_after ::
  "('env, 'w, 'f) alpaca \<Rightarrow> http_answer \<Rightarrow> ('env, 'w, 'f) broker_state \<Rightarrow> duration option" where
  "answer_retry_after A a s =
     retry_after_from_response_headers (al_rfc2822 A) (ha_headers a) (al_system_time A (snd s))"

definition handle_response ::
  "('env, 'w, 'f) alpaca \<Rightarrow> (bytes \<Rightarrow> string + 'a) \<Rightarrow> http_answer
   \<Rightarrow> ('env, 'w, 'f, 'f broker_error, 'a) broker_call" where
  "handle_response A parse a s =
     (case ha_body a of
        Inl e \<Rightarrow> (Inl (HttpClient e), s)
      | Inr bs \<Rightarrow>
          if is_success (ha_status a) then (map_err JsonParse (parse bs), s)
          else (Inl (parse_api_error A (ha_status a) bs (answer_retry_after A a s)), s))"

definition get ::
  "('env, 'w, 'f) alpaca \<Rightarrow> (bytes \<Rightarrow> string + 'a) \<Rightarrow> string
   \<Rightarrow> ('env, 'w, 'f, 'f broker_error, 'a) broker_call" where
  "get A parse url = then_call (exchange A M_Get url None) (handle_response A parse)"

definition post ::
  "('env, 'w, 'f) alpaca \<Rightarrow> (bytes \<Rightarrow> string + 'a) \<Rightarrow> string \<Rightarrow> 'f order_body
   \<Rightarrow> ('env, 'w, 'f, 'f broker_error, 'a) broker_call" where
  "post A parse url b = then_call (exchange A M_Post url (Some b)) (handle_response A parse)"

definition delete ::
  "('env, 'w, 'f) alpaca \<Rightarrow> string \<Rightarrow> ('env, 'w, 'f, 'f broker_error, unit) broker_call" where
  "delete A url =
     then_call (exchange A M_Delete url None) (\<lambda>a s.
       if is_success (ha_status a) then (Inr (), s)
       else case ha_body a of
           Inl e \<Rightarrow> (Inl (HttpClient e), s)
         | Inr bs \<Rightarrow> (Inl (parse_api_error A (ha_status a) bs (answer_retry_after A a s)), s))"

subsection \<open>Order endpoints\<close>

definition orders_url :: "broker_client \<Rightarrow> string" where
  "orders_url cl = cl_base_url cl @ ''/v1/trading/accounts/'' @ cl_account_id cl @ ''/orders''"

definition order_url :: "broker_client \<Rightarrow> uuid \<Rightarrow> string" where
  "order_url cl i = orders_url cl @ ''/'' @ i"

definition by_client_order_id_url :: "broker_client \<Rightarrow> client_order_id \<Rightarrow> string" where
  "by_client_order_id_url cl k =
     orders_url cl @ '':by_client_order_id?client_order_id='' @ client_order_id_display k"

definition none_on_404 ::
  "('f broker_error + 'a) \<times> 's \<Rightarrow> ('f broker_error + 'a option) \<times> 's" where
  "none_on_404 rs =
     (case rs of
        (Inr x, s) \<Rightarrow> (Inr (Some x), s)
      | (Inl (ApiError status code message w), s) \<Rightarrow>
          if status = 404 then (Inr None, s) else (Inl (ApiError status code message w), s)
      | (Inl e, s) \<Rightarrow> (Inl e, s))"

definition place_order ::
  "('env, 'w, 'f) alpaca \<Rightarrow> broker_client \<Rightarrow> 'f order_request
   \<Rightarrow> ('env, 'w, 'f, 'f broker_error, 'f order_response) broker_call" where
  "place_order A cl r = post A (al_parse_order A) (orders_url cl) (Order_Body r)"

definition get_order ::
  "('env, 'w, 'f) alpaca \<Rightarrow> broker_client \<Rightarrow> uuid
   \<Rightarrow> ('env, 'w, 'f, 'f broker_error, 'f order_response) broker_call" where
  "get_order A cl i = get A (al_parse_order A) (order_url cl i)"

definition get_order_by_client_order_id ::
  "('env, 'w, 'f) alpaca \<Rightarrow> broker_client \<Rightarrow> client_order_id
   \<Rightarrow> ('env, 'w, 'f, 'f broker_error, 'f order_response option) broker_call" where
  "get_order_by_client_order_id A cl k s =
     none_on_404 (get A (al_parse_order A) (by_client_order_id_url cl k) s)"

definition cancel_order ::
  "('env, 'w, 'f) alpaca \<Rightarrow> broker_client \<Rightarrow> uuid
   \<Rightarrow> ('env, 'w, 'f, 'f broker_error, cancellation_outcome) broker_call" where
  "cancel_order A cl i s =
     (case none_on_404 (delete A (order_url cl i) s) of
        (Inl e, s') \<Rightarrow> (Inl e, s')
      | (Inr (Some _), s') \<Rightarrow> (Inr Requested, s')
      | (Inr None, s') \<Rightarrow> (Inr OrderNotFound, s'))"

definition place_crypto_order ::
  "('env, 'w, 'f) alpaca \<Rightarrow> broker_client \<Rightarrow> 'f crypto_order_request
   \<Rightarrow> ('env, 'w, 'f, 'f broker_error, 'f crypto_order) broker_call" where
  "place_crypto_order A cl r = post A (al_parse_crypto A) (orders_url cl) (Crypto_Body r)"

definition get_crypto_order ::
  "('env, 'w, 'f) alpaca \<Rightarrow> broker_client \<Rightarrow> uuid
   \<Rightarrow> ('env, 'w, 'f, 'f broker_error, 'f crypto_order) broker_call" where
  "get_crypto_order A cl i = get A (al_parse_crypto A) (order_url cl i)"

definition get_crypto_order_by_client_order_id ::
  "('env, 'w, 'f) alpaca \<Rightarrow> broker_client \<Rightarrow> client_order_id
   \<Rightarrow> ('env, 'w, 'f, 'f broker_error, 'f crypto_order option) broker_call" where
  "get_crypto_order_by_client_order_id A cl k s =
     none_on_404 (get A (al_parse_crypto A) (by_client_order_id_url cl k) s)"

subsection \<open>Account, asset and journal endpoints\<close>

text \<open>The parsers are serde's on the response types, \<open>encode\<close> is \<open>urlencoding::encode\<close>.\<close>

definition account_url :: "broker_client \<Rightarrow> string" where
  "account_url cl = cl_base_url cl @ ''/v1/trading/accounts/'' @ cl_account_id cl @ ''/account''"

definition verify_account ::
  "('env, 'w, 'f) alpaca \<Rightarrow> (bytes \<Rightarrow> string + account_response) \<Rightarrow> broker_client
   \<Rightarrow> ('env, 'w, 'f, 'f broker_error, account_response) broker_call" where
  "verify_account A parse cl = get A parse (account_url cl)"

definition get_asset ::
  "('env, 'w, 'f) alpaca \<Rightarrow> (bytes \<Rightarrow> string + asset_response) \<Rightarrow> (string \<Rightarrow> string) \<Rightarrow> broker_client
   \<Rightarrow> symbol \<Rightarrow> ('env, 'w, 'f, 'f broker_error, asset_response) broker_call" where
  "get_asset A parse encode cl symb = get A parse (cl_base_url cl @ ''/v1/assets/'' @ encode symb)"

definition create_journal ::
  "('env, 'w, 'f) alpaca \<Rightarrow> (bytes \<Rightarrow> string + 'f journal_response) \<Rightarrow> broker_client \<Rightarrow> uuid
   \<Rightarrow> symbol \<Rightarrow> 'f \<Rightarrow> ('env, 'w, 'f, 'f broker_error, 'f journal_response) broker_call" where
  "create_journal A parse cl to_account symb quantity =
     post A parse (cl_base_url cl @ ''/v1/journals'')
       (Journal_Body (journal_security (cl_account_id cl) to_account symb quantity))"

subsection \<open>Construction\<close>

definition new_broker_client ::
  "(alpaca_auth \<Rightarrow> kms_jwt_error + 'rt) \<Rightarrow> url_parser \<Rightarrow> ip_parser \<Rightarrow> broker_ctx
   \<Rightarrow> 'f broker_error + ('rt \<times> broker_client)" where
  "new_broker_client build parse_url parse_ip ctx =
     and_then (map_err KmsJwt (build (bc_auth ctx))) (\<lambda>auth.
     and_then (map_err InvalidEndpoint (validate_origin parse_url parse_ip (ctx_base_url ctx) BaseUrl)) (\<lambda>_.
     and_then (map_err InvalidEndpoint
         (validate_origin parse_url parse_ip (mode_market_data_base_url (ctx_mode ctx)) BaseUrl)) (\<lambda>_.
     Inr (auth, \<lparr>cl_base_url = ctx_base_url ctx, cl_account_id = bc_account_id ctx\<rparr>))))"

subsection \<open>What one exchange does\<close>

lemma then_call_simps:
  "m s = (Inl e, s') \<Longrightarrow> then_call m f s = (Inl e, s')"
  "m s = (Inr x, s') \<Longrightarrow> then_call m f s = f x s'"
  by (simp_all add: then_call_def)

lemma record_answer_keeps_gate [simp]: "GATE (record_answer st hs l) = GATE l"
  by (simp add: record_answer_def record_id_def update_def split: option.split)

lemma handed_record [simp]: "handed (n\<lparr>locals := l\<rparr>) = handed n"
  by simp

text \<open>
  The three ways a POST ends: nothing was handed over (no credential, or the gate was closed);
  the transport failed; or Alpaca answered, and the result is read off that answer.
\<close>

lemma post_cases:
  assumes "post A parse url b (n, w) = (r, (n', w'))"
  obtains
    (unsent) e where "r = Inl e" "handed n' = handed n" "(\<exists>k. e = KmsJwt k) \<or> e = NotSent GateClosed"
  | (failed) req w1 h where "handed n' = handed n @ [req]" "br_method req = M_Post" "br_body req = Some b"
      "fst (al_http A req w1) = Inl h" "r = Inl (HttpClient h)"
  | (answered) req w1 a where "handed n' = handed n @ [req]" "br_method req = M_Post" "br_body req = Some b"
      "fst (al_http A req w1) = Inr a"
      "r = (case ha_body a of
              Inl h \<Rightarrow> Inl (HttpClient h)
            | Inr bs \<Rightarrow> if is_success (ha_status a) then map_err JsonParse (parse bs)
                else Inl (parse_api_error A (ha_status a) bs (answer_retry_after A a (n', w'))))"
proof (cases "al_authorize A w")
  case (Pair c w1)
  show ?thesis
  proof (cases c)
    case (Inl k)
    with Pair assms show ?thesis
      by (intro unsent [of "KmsJwt k"]) (auto simp: post_def then_call_def exchange_def)
  next
    case (Inr auth)
    define req where "req = \<lparr>br_method = M_Post, br_url = url, br_body = Some b, br_authorization = auth\<rparr>"
    obtain st n1 where st: "start (al_env A w1) req n = (st, n1)" by force
    show ?thesis
    proof (cases st)
      case (Inl e)
      have "e = SendNotSent GateClosed" "n1 = n"
        using st Inl by (auto simp: start_def hold_def split: option.splits if_splits)
      with Pair Inr st Inl assms show ?thesis
        by (intro unsent [of "NotSent GateClosed"])
          (auto simp: post_def then_call_def exchange_def req_def)
    next
      case (Inr u)
      have handed: "handed n1 = handed n @ [req]"
        using start_handed [of "al_env A w1" req n] st Inr by simp
      obtain ans w2 where ans: "al_http A req w1 = (ans, w2)" by force
      show ?thesis
      proof (cases ans)
        case (Inl h)
        show ?thesis
          by (rule failed [of req w1 h])
            (use Pair \<open>c = Inr auth\<close> st Inr ans Inl handed assms in
              \<open>auto simp: post_def then_call_def exchange_def req_def\<close>)
      next
        case (Inr a)
        show ?thesis
          by (rule answered [of req w1 a])
            (use Pair \<open>c = Inr auth\<close> st \<open>st = Inr u\<close> ans Inr handed assms in
              \<open>auto simp: post_def then_call_def exchange_def req_def handle_response_def
                split: sum.splits if_splits\<close>)
      qed
    qed
  qed
qed

text \<open>
  The requests a call hands over: \<open>hands P m\<close> says that whatever state \<open>m\<close> starts from, every request it
  hands to the transport satisfies \<open>P\<close>, and nothing handed before is lost. The rules below carry it
  through the composition of calls.
\<close>

definition hands ::
  "('f broker_request \<Rightarrow> bool) \<Rightarrow> ('env, 'w, 'f, 'e, 'a) broker_call \<Rightarrow> bool" where
  "hands P m \<longleftrightarrow>
     (\<forall>s. \<exists>qs. handed (fst (snd (m s))) = handed (fst s) @ qs \<and> list_all P qs)"

named_theorems hands_rules

lemma handsD:
  assumes "hands P m" "m s = (r, s')"
  obtains qs where "handed (fst s') = handed (fst s) @ qs" "list_all P qs"
proof -
  from assms(1) have "\<exists>qs. handed (fst (snd (m s))) = handed (fst s) @ qs \<and> list_all P qs"
    unfolding hands_def by (rule spec)
  with assms(2) that show ?thesis by auto
qed

lemma hands_return [hands_rules]: "hands P (return_call r)"
  by (auto simp: hands_def return_call_def)

lemma hands_then [hands_rules]:
  fixes m :: "('env, 'w, 'f, 'e, 'a) broker_call"
  assumes "hands P m" "\<And>x. hands P (f x)"
  shows "hands P (then_call m f)"
  unfolding hands_def
proof
  fix s :: "('env, 'w, 'f) broker_state"
  obtain r s1 where m: "m s = (r, s1)" by (cases "m s")
  obtain qs where qs: "handed (fst s1) = handed (fst s) @ qs" "list_all P qs"
    by (rule handsD [OF assms(1) m])
  show "\<exists>qs. handed (fst (snd (then_call m f s))) = handed (fst s) @ qs \<and> list_all P qs"
  proof (cases r)
    case (Inl e)
    with m qs show ?thesis by (auto simp: then_call_def)
  next
    case (Inr x)
    obtain r' s2 where f: "f x s1 = (r', s2)" by (cases "f x s1")
    obtain qs' where "handed (fst s2) = handed (fst s1) @ qs'" "list_all P qs'"
      by (rule handsD [OF assms(2) f])
    with m f qs Inr show ?thesis by (auto simp: then_call_def)
  qed
qed

lemma hands_map_err [hands_rules]: "hands P m \<Longrightarrow> hands P (map_err_call g m)"
  by (simp add: hands_def map_err_call_def case_prod_beta)

lemma hands_exchange:
  fixes A :: "('env, 'w, 'f) alpaca"
  assumes "\<And>auth. P \<lparr>br_method = method, br_url = url, br_body = b, br_authorization = auth\<rparr>"
  shows "hands P (exchange A method url b)"
  unfolding hands_def
proof
  fix s :: "('env, 'w, 'f) broker_state"
  obtain n w where s: "s = (n, w)" by force
  obtain c w1 where c: "al_authorize A w = (c, w1)" by force
  show "\<exists>qs. handed (fst (snd (exchange A method url b s))) = handed (fst s) @ qs \<and> list_all P qs"
  proof (cases c)
    case (Inl e)
    with s c show ?thesis by (simp add: exchange_def)
  next
    case (Inr auth)
    define req where "req = \<lparr>br_method = method, br_url = url, br_body = b, br_authorization = auth\<rparr>"
    have "list_all P (if fst (start (al_env A w1) req n) = Inr () then [req] else [])"
      using assms by (simp add: req_def)
    moreover have "handed (fst (snd (exchange A method url b s))) = handed (snd (start (al_env A w1) req n))"
      using s c Inr
      by (simp add: exchange_def Let_def req_def split: prod.split sum.split)
    ultimately show ?thesis using s start_handed [of "al_env A w1" req n] by auto
  qed
qed

lemma hands_handle_response [hands_rules]: "hands P (handle_response A parse a)"
  by (simp add: hands_def handle_response_def split: sum.split)

lemma hands_get [hands_rules]:
  assumes "\<And>auth. P \<lparr>br_method = M_Get, br_url = url, br_body = None, br_authorization = auth\<rparr>"
  shows "hands P (get A parse url)"
  unfolding get_def by (intro hands_rules hands_exchange assms)

lemma none_on_404_state [simp]: "snd (none_on_404 rs) = snd rs"
  by (simp add: none_on_404_def split: prod.split sum.split broker_error.split)

text \<open>A read that succeeds read a 2xx answer of Alpaca's to a GET of the url.\<close>

lemma get_ok:
  fixes A :: "('env, 'w, 'f) alpaca"
  assumes "get A parse url (n, w) = (Inr x, s')"
  obtains req w1 a bs where "br_method req = M_Get" "br_url req = url" "br_body req = None"
    "fst (al_http A req w1) = Inr a" "ha_body a = Inr bs" "is_success (ha_status a)" "parse bs = Inr x"
    "handed (fst s') = handed n @ [req]"
proof -
  obtain c w1 where c: "al_authorize A w = (c, w1)" by force
  then obtain auth where auth: "c = Inr auth"
    using assms by (cases c) (auto simp: get_def then_call_def exchange_def)
  define req where "req = \<lparr>br_method = M_Get, br_url = url, br_body = (None :: 'f order_body option), br_authorization = auth\<rparr>"
  obtain st n1 where st: "start (al_env A w1) req n = (st, n1)" by force
  then have st': "st = Inr ()"
    using assms c auth by (cases st) (auto simp: get_def then_call_def exchange_def req_def)
  obtain ans w2 where ans: "al_http A req w1 = (ans, w2)" by force
  then obtain a where a: "ans = Inr a"
    using assms c auth st st'
    by (cases ans) (auto simp: get_def then_call_def exchange_def req_def)
  have handed: "handed n1 = handed n @ [req]"
    using start_handed [of "al_env A w1" req n] st st' by simp
  show ?thesis
    by (rule that [of req w1 a "projr (ha_body a)"])
      (use assms c auth st st' ans a handed in
        \<open>auto simp: get_def then_call_def exchange_def req_def handle_response_def
          split: sum.splits if_splits\<close>)
qed

end
