(* ===== verification/Orders.thy ===== *)
theory Orders
  imports Complex_Main Broker_Client Answer
begin

text \<open>
  Equity orders (\<^verbatim>\<open>src/broker/order.rs\<close> up to the conversions, with \<^verbatim>\<open>src/broker/precision.rs\<close>): status
  classification, limit prices, placement with its lost-response adoption, recovery and status
  reads. The decimal operations of rain-math-float are the parameter \<open>F\<close>; each may fail.
\<close>

subsection \<open>Decimals\<close>

record 'f decimals =
  fl_lt :: "'f \<Rightarrow> 'f \<Rightarrow> string + bool"
  fl_eq :: "'f \<Rightarrow> 'f \<Rightarrow> string + bool"
  fl_is_zero :: "'f \<Rightarrow> string + bool"
  fl_to_fixed_decimal_lossy :: "'f \<Rightarrow> nat \<Rightarrow> string + (nat \<times> bool)"
  fl_from_fixed_decimal :: "nat \<Rightarrow> nat \<Rightarrow> string + 'f"
  fl_one :: 'f
  fl_positive :: "'f \<Rightarrow> bool"

definition ALPACA_MAX_DECIMAL_PLACES :: nat where
  "ALPACA_MAX_DECIMAL_PLACES = 9"

definition truncate_to_decimal_places :: "'f decimals \<Rightarrow> 'f \<Rightarrow> nat \<Rightarrow> string + 'f option" where
  "truncate_to_decimal_places F v max_decimals =
     and_then (fl_to_fixed_decimal_lossy F v max_decimals) (\<lambda>(fixed, lossless).
       if lossless then Inr (Some v)
       else
         and_then (fl_is_zero F v) (\<lambda>zero.
           if \<not> zero \<and> fixed = 0 then Inr None
           else and_then (fl_from_fixed_decimal F fixed max_decimals) (\<lambda>t. Inr (Some t))))"

definition truncate_shares_to_alpaca_precision :: "'f decimals \<Rightarrow> 'f \<Rightarrow> 'f broker_error + 'f" where
  "truncate_shares_to_alpaca_precision F shares =
     and_then (map_err FloatConversion
         (truncate_to_decimal_places F shares ALPACA_MAX_DECIMAL_PLACES)) (\<lambda>t.
     and_then (ok_or t (BelowPrecision shares ALPACA_MAX_DECIMAL_PLACES)) (\<lambda>truncated.
     and_then (map_err FloatConversion (fl_eq F truncated shares)) (\<lambda>_.
     if fl_positive F truncated then Inr truncated else Inl (NotPositive truncated))))"

definition validate_limit_price_precision :: "'f decimals \<Rightarrow> 'f \<Rightarrow> 'f broker_error + unit" where
  "validate_limit_price_precision F price =
     and_then (map_err FloatConversion (fl_lt F price (fl_one F))) (\<lambda>below_one.
       let max_decimals = (if below_one then 4 else 2)
       in and_then (map_err FloatConversion (fl_to_fixed_decimal_lossy F price max_decimals))
            (\<lambda>(_, lossless).
               if \<not> lossless then Inl (InvalidLimitPricePrecision price max_decimals) else Inr ()))"

definition limit_price_try_new :: "'f decimals \<Rightarrow> 'f \<Rightarrow> 'f broker_error + 'f" where
  "limit_price_try_new F price = and_then (validate_limit_price_precision F price) (\<lambda>_. Inr price)"

subsection \<open>Status classification\<close>

datatype crypto_order_outcome =
  Out_Filled | Out_Pending | Out_Failed crypto_order_failure_reason

datatype terminal_crypto_outcome = Term_Filled | Term_Failed crypto_order_failure_reason

fun classify :: "broker_order_status \<Rightarrow> crypto_order_outcome" where
  "classify BS_Filled = Out_Filled"
| "classify BS_New = Out_Pending"
| "classify BS_PendingNew = Out_Pending"
| "classify BS_PartiallyFilled = Out_Pending"
| "classify BS_Accepted = Out_Pending"
| "classify BS_AcceptedForBidding = Out_Pending"
| "classify BS_PendingCancel = Out_Pending"
| "classify BS_PendingReplace = Out_Pending"
| "classify BS_Stopped = Out_Pending"
| "classify BS_Canceled = Out_Failed Canceled"
| "classify BS_Expired = Out_Failed Expired"
| "classify BS_Rejected = Out_Failed Rejected"
| "classify BS_DoneForDay = Out_Failed DoneForDay"
| "classify BS_Replaced = Out_Failed Replaced"
| "classify BS_Suspended = Out_Failed Suspended"
| "classify BS_Calculated = Out_Failed Calculated"

fun terminal :: "crypto_order_outcome \<Rightarrow> terminal_crypto_outcome option" where
  "terminal Out_Filled = Some Term_Filled"
| "terminal Out_Pending = None"
| "terminal (Out_Failed reason) =
     (if reason = DoneForDay then None
      else case terminality reason of
          Terminal \<Rightarrow> Some (Term_Failed reason)
        | NotTerminal \<Rightarrow> None)"

definition is_terminal :: "crypto_order_outcome \<Rightarrow> bool" where
  "is_terminal o' = (terminal o' \<noteq> None)"

fun status_display :: "broker_order_status \<Rightarrow> string" where
  "status_display BS_Filled = ''filled''"
| "status_display BS_New = ''new''"
| "status_display BS_PendingNew = ''pending_new''"
| "status_display BS_PartiallyFilled = ''partially_filled''"
| "status_display BS_Canceled = ''canceled''"
| "status_display BS_Expired = ''expired''"
| "status_display BS_Rejected = ''rejected''"
| "status_display BS_Accepted = ''accepted''"
| "status_display BS_AcceptedForBidding = ''accepted_for_bidding''"
| "status_display BS_PendingCancel = ''pending_cancel''"
| "status_display BS_PendingReplace = ''pending_replace''"
| "status_display BS_Stopped = ''stopped''"
| "status_display BS_DoneForDay = ''done_for_day''"
| "status_display BS_Replaced = ''replaced''"
| "status_display BS_Suspended = ''suspended''"
| "status_display BS_Calculated = ''calculated''"

fun classify_broker_status ::
  "broker_order_status \<Rightarrow> order_status \<times> order_failure_terminality option" where
  "classify_broker_status BS_New = (Submitted, None)"
| "classify_broker_status BS_Accepted = (Submitted, None)"
| "classify_broker_status BS_PendingNew = (Submitted, None)"
| "classify_broker_status BS_AcceptedForBidding = (Submitted, None)"
| "classify_broker_status BS_PendingCancel = (Submitted, None)"
| "classify_broker_status BS_PendingReplace = (Submitted, None)"
| "classify_broker_status BS_Stopped = (Submitted, None)"
| "classify_broker_status BS_PartiallyFilled = (PartiallyFilled, None)"
| "classify_broker_status BS_Filled = (Filled, None)"
| "classify_broker_status BS_Canceled = (Cancelled, None)"
| "classify_broker_status BS_Expired = (Failed, Some (terminality Expired))"
| "classify_broker_status BS_Rejected = (Failed, Some (terminality Rejected))"
| "classify_broker_status BS_DoneForDay = (Failed, Some (terminality DoneForDay))"
| "classify_broker_status BS_Replaced = (Failed, Some (terminality Replaced))"
| "classify_broker_status BS_Suspended = (Failed, Some (terminality Suspended))"
| "classify_broker_status BS_Calculated = (Failed, Some (terminality Calculated))"

subsection \<open>Placement\<close>

record 'f alpaca_limit_order =
  lo_symbol :: symbol
  lo_shares :: 'f
  lo_direction :: direction
  lo_limit_price :: 'f
  lo_extended_hours :: bool
  lo_client_order_id :: client_order_id

fun side_of :: "direction \<Rightarrow> order_side" where
  "side_of Buy = Side_Buy"
| "side_of Sell = Side_Sell"

fun direction_of :: "order_side \<Rightarrow> direction" where
  "direction_of Side_Buy = Buy"
| "direction_of Side_Sell = Sell"

fun may_have_reached_alpaca :: "'f broker_error \<Rightarrow> bool" where
  "may_have_reached_alpaca (ApiError status _ _ _) = (\<not> (is_client_error status \<and> status \<noteq> 408))"
| "may_have_reached_alpaca (HttpClient h) = (\<not> (is_builder h \<or> is_connect h))"
| "may_have_reached_alpaca (Gateway hop) = hop_outcome_unknown hop"
| "may_have_reached_alpaca (KmsJwt _) = False"
| "may_have_reached_alpaca (InvalidHeader _) = False"
| "may_have_reached_alpaca (InvalidEndpoint _) = False"
| "may_have_reached_alpaca (NotSent _) = False"
| "may_have_reached_alpaca _ = True"

definition order_post_failure :: "'f broker_error \<Rightarrow> 'f placement_error" where
  "order_post_failure e = \<lparr>written = may_have_reached_alpaca e, error = e\<rparr>"

definition broker_order_placed_at ::
  "('env, 'w, 'f) alpaca \<Rightarrow> broker_client \<Rightarrow> uuid \<Rightarrow> utc option \<Rightarrow> utc option
   \<Rightarrow> ('env, 'w, 'f, 'f broker_error, utc) broker_call" where
  "broker_order_placed_at A cl i created submitted =
     (case or_else created submitted of
        Some t \<Rightarrow> return_call (Inr t)
      | None \<Rightarrow>
          then_call (get_order A cl i) (\<lambda>r.
            return_call
              (case or_else (or_created_at r) (or_submitted_at r) of
                 Some t \<Rightarrow> Inr t
               | None \<Rightarrow>
                   (case or_updated_at r of
                      Some t \<Rightarrow> Inr t
                    | None \<Rightarrow> Inl (IncompleteOrder (ExecutorOrderId i) PlacedAt)))))"

definition parse_limit_price :: "'f decimals \<Rightarrow> 'f option \<Rightarrow> 'f broker_error + 'f option" where
  "parse_limit_price F p =
     (case p of
        None \<Rightarrow> Inr None
      | Some x \<Rightarrow> if fl_positive F x then Inr (Some x) else Inl (NotPositiveLimitPrice x))"

definition find_duplicate_order ::
  "('env, 'w, 'f) alpaca \<Rightarrow> broker_client \<Rightarrow> client_order_id
   \<Rightarrow> ('env, 'w, 'f, 'f broker_error, 'f order_response) broker_call" where
  "find_duplicate_order A cl k =
     then_call (get_order_by_client_order_id A cl k) (\<lambda>o'.
       return_call (ok_or o' (DuplicateOrderNotFound k)))"

text \<open>
  The order POST and what follows an accepted or duplicate key answer, shared by the market and
  the limit placement: \<open>fresh\<close> are the request's terms, \<open>adopt\<close> reads the terms off the order Alpaca
  already holds.
\<close>

definition place_and_adopt ::
  "('env, 'w, 'f) alpaca \<Rightarrow> broker_client \<Rightarrow> 'f order_request
   \<Rightarrow> 'f \<times> bool \<times> 'f option
   \<Rightarrow> ('f order_response \<Rightarrow> 'f broker_error + ('f \<times> bool \<times> 'f option))
   \<Rightarrow> ('env, 'w, 'f, 'f placement_error, uuid \<times> ('f \<times> bool \<times> 'f option) \<times> utc) broker_call" where
  "place_and_adopt A cl request fresh adopt s =
     (case place_order A cl request s of
        (Inr r, s1) \<Rightarrow>
          map_err_call maybe_written
            (then_call (broker_order_placed_at A cl (or_id r) (or_created_at r) (or_submitted_at r))
              (\<lambda>t. return_call (Inr (or_id r, fresh, t)))) s1
      | (Inl e, s1) \<Rightarrow>
          if is_duplicate_client_order_id e
          then map_err_call maybe_written
            (then_call (find_duplicate_order A cl (rq_client_order_id request)) (\<lambda>x.
             then_call (return_call (adopt x)) (\<lambda>terms.
             then_call (broker_order_placed_at A cl (or_id x) (or_created_at x) (or_submitted_at x)) (\<lambda>t.
             return_call (Inr (or_id x, terms, t)))))) s1
          else (Inl (order_post_failure e), s1))"

definition market_request :: "'f market_order \<Rightarrow> time_in_force \<Rightarrow> 'f \<Rightarrow> 'f order_request" where
  "market_request mo tif shares = \<lparr>
     rq_symbol = mo_symbol mo, rq_quantity = shares, rq_side = side_of (mo_direction mo),
     rq_order_type = ''market'', rq_limit_price = None, rq_time_in_force = tif_as_api_str tif,
     rq_extended_hours = False, rq_client_order_id = mo_client_order_id mo\<rparr>"

definition place_market_order ::
  "'f decimals \<Rightarrow> ('env, 'w, 'f) alpaca \<Rightarrow> broker_client \<Rightarrow> 'f market_order \<Rightarrow> time_in_force
   \<Rightarrow> ('env, 'w, 'f, 'f placement_error, 'f order_placement) broker_call" where
  "place_market_order F A cl mo tif =
     then_call (return_call (map_err unwritten (truncate_shares_to_alpaca_precision F (mo_shares mo)))) (\<lambda>shares.
     then_call (place_and_adopt A cl (market_request mo tif shares) (shares, False, None)
         (\<lambda>x. and_then (parse_limit_price F (or_limit_price x)) (\<lambda>p.
            Inr (or_quantity x, unwrap_or (or_extended_hours x) False, p)))) (\<lambda>(i, (sh, ext, lim), t).
     return_call (Inr \<lparr>op_order_id = i, op_symbol = mo_symbol mo, op_shares = sh,
       op_direction = mo_direction mo, op_placed_at = t, op_extended_hours = ext,
       op_limit_price = lim\<rparr>)))"

definition limit_request :: "'f alpaca_limit_order \<Rightarrow> 'f \<Rightarrow> 'f order_request" where
  "limit_request lo shares = \<lparr>
     rq_symbol = lo_symbol lo, rq_quantity = shares, rq_side = side_of (lo_direction lo),
     rq_order_type = ''limit'', rq_limit_price = Some (lo_limit_price lo),
     rq_time_in_force = tif_as_api_str Day, rq_extended_hours = lo_extended_hours lo,
     rq_client_order_id = lo_client_order_id lo\<rparr>"

definition place_limit_order ::
  "'f decimals \<Rightarrow> ('env, 'w, 'f) alpaca \<Rightarrow> broker_client \<Rightarrow> 'f alpaca_limit_order
   \<Rightarrow> ('env, 'w, 'f, 'f placement_error, 'f order_placement) broker_call" where
  "place_limit_order F A cl lo =
     then_call (return_call (map_err unwritten (truncate_shares_to_alpaca_precision F (lo_shares lo)))) (\<lambda>shares.
     then_call (place_and_adopt A cl (limit_request lo shares)
         (shares, lo_extended_hours lo, Some (lo_limit_price lo))
         (\<lambda>x. and_then (parse_limit_price F (or_limit_price x)) (\<lambda>p.
            Inr (or_quantity x, unwrap_or (or_extended_hours x) (lo_extended_hours lo),
                 or_else p (Some (lo_limit_price lo)))))) (\<lambda>(i, (sh, ext, lim), t).
     return_call (Inr \<lparr>op_order_id = i, op_symbol = lo_symbol lo, op_shares = sh,
       op_direction = lo_direction lo, op_placed_at = t, op_extended_hours = ext,
       op_limit_price = lim\<rparr>)))"

definition recover_order_by_client_id ::
  "'f decimals \<Rightarrow> ('env, 'w, 'f) alpaca \<Rightarrow> broker_client \<Rightarrow> 'f market_order
   \<Rightarrow> ('env, 'w, 'f, 'f broker_error, 'f order_placement option) broker_call" where
  "recover_order_by_client_id F A cl mo =
     then_call (get_order_by_client_order_id A cl (mo_client_order_id mo)) (\<lambda>found.
       case found of
         None \<Rightarrow> return_call (Inr None)
       | Some x \<Rightarrow>
           then_call (return_call (ok_or (or_extended_hours x)
               (IncompleteOrder (ExecutorOrderId (or_id x)) ExtendedHours))) (\<lambda>ext.
           then_call (return_call (parse_limit_price F (or_limit_price x))) (\<lambda>lim.
           if ext \<and> lim = None
           then return_call (Inl (IncompleteOrder (ExecutorOrderId (or_id x)) Price))
           else then_call (broker_order_placed_at A cl (or_id x) (or_created_at x) (or_submitted_at x)) (\<lambda>t.
           return_call (Inr (Some \<lparr>op_order_id = or_id x, op_symbol = or_symbol x,
             op_shares = or_quantity x, op_direction = direction_of (or_side x), op_placed_at = t,
             op_extended_hours = ext, op_limit_price = lim\<rparr>))))))"

subsection \<open>Status reads\<close>

definition terminal_broker_time ::
  "utc option \<Rightarrow> utc option \<Rightarrow> string \<Rightarrow> missing_order_field \<Rightarrow> 'f broker_error + utc" where
  "terminal_broker_time specific updated_at order_id field =
     (case specific of
        Some t \<Rightarrow> Inr t
      | None \<Rightarrow>
          (case updated_at of
             Some t \<Rightarrow> Inr t
           | None \<Rightarrow> Inl (IncompleteOrder (ExecutorOrderId order_id) field)))"

text \<open>\<open>observed\<close> is the reading of \<open>Utc::now()\<close>.\<close>

definition broker_time_or_observation :: "utc option \<Rightarrow> utc \<Rightarrow> utc" where
  "broker_time_or_observation t observed = unwrap_or t observed"

definition status_time :: "'f order_response \<Rightarrow> string \<Rightarrow> utc \<Rightarrow> 'f broker_error + utc" where
  "status_time r order_id observed =
     (case fst (classify_broker_status (or_status r)) of
        Filled \<Rightarrow> terminal_broker_time (or_filled_at r) (or_updated_at r) order_id FilledAt
      | Cancelled \<Rightarrow> terminal_broker_time (or_canceled_at r) (or_updated_at r) order_id CanceledAt
      | Failed \<Rightarrow> Inr (broker_time_or_observation (or_else (or_failed_at r) (or_updated_at r)) observed)
      | _ \<Rightarrow> Inr (broker_time_or_observation (or_updated_at r) observed))"

definition get_order_status ::
  "uuid_parser \<Rightarrow> ('env, 'w, 'f) alpaca \<Rightarrow> broker_client \<Rightarrow> utc \<Rightarrow> string
   \<Rightarrow> ('env, 'w, 'f, 'f broker_error, 'f order_update) broker_call" where
  "get_order_status parse_uuid A cl observed order_id =
     then_call (return_call (map_err InvalidOrderId (parse_uuid order_id))) (\<lambda>u.
     then_call (get_order A cl u) (\<lambda>r.
     then_call (return_call (status_time r order_id observed)) (\<lambda>t.
     return_call (Inr \<lparr>ou_order_id = order_id, ou_symbol = or_symbol r, ou_shares = or_quantity r,
       ou_direction = direction_of (or_side r), ou_status = fst (classify_broker_status (or_status r)),
       ou_updated_at = t, ou_price = or_filled_average_price r,
       ou_shares_filled = or_filled_quantity r,
       ou_failure_terminality = snd (classify_broker_status (or_status r))\<rparr>))))"

subsection \<open>What a placement sends\<close>

definition is_read :: "'f broker_request \<Rightarrow> bool" where
  "is_read q \<longleftrightarrow> br_method q = M_Get \<and> br_body q = None"

definition posts_order :: "'f order_request \<Rightarrow> 'f broker_request \<Rightarrow> bool" where
  "posts_order rq q \<longleftrightarrow> br_method q = M_Post \<and> br_body q = Some (Order_Body rq)"

text \<open>
  What the transport or Alpaca said to a request shows that it took no effect: it was never
  built or connected, or Alpaca refused it with a 4xx other than 408.
\<close>

fun took_no_effect :: "reqwest_error + http_answer \<Rightarrow> bool" where
  "took_no_effect (Inl h) \<longleftrightarrow> is_builder h \<or> is_connect h"
| "took_no_effect (Inr a) \<longleftrightarrow> is_client_error (ha_status a) \<and> ha_status a \<noteq> 408"

text \<open>
  reqwest: an error raised while the body of an answer is read is neither a builder nor a connect
  error.
\<close>

definition read_errors_come_late :: "('env, 'w, 'f) alpaca \<Rightarrow> bool" where
  "read_errors_come_late A \<longleftrightarrow>
     (\<forall>req w a h. fst (al_http A req w) = Inr a \<longrightarrow> ha_body a = Inl h \<longrightarrow> \<not> is_builder h \<and> \<not> is_connect h)"

lemma hands_get_order [hands_rules]: "hands is_read (get_order A cl i)"
  unfolding get_order_def by (intro hands_rules) (simp add: is_read_def)

lemma hands_lookup [hands_rules]: "hands is_read (get_order_by_client_order_id A cl k)"
proof -
  have "hands is_read (get A (al_parse_order A) (by_client_order_id_url cl k))"
    by (intro hands_rules) (simp add: is_read_def)
  then show ?thesis by (simp add: hands_def get_order_by_client_order_id_def)
qed

lemma hands_placed_at [hands_rules]: "hands is_read (broker_order_placed_at A cl i c t)"
  unfolding broker_order_placed_at_def
  by (cases "or_else c t") (auto intro!: hands_rules)

lemma hands_find_duplicate [hands_rules]: "hands is_read (find_duplicate_order A cl k)"
  unfolding find_duplicate_order_def by (intro hands_rules)

text \<open>A placement past its POST: an adoption or a timestamp read, and every failure is written.\<close>

lemma after_post:
  assumes "map_err_call maybe_written m (n1, w1) = (r, (n', w'))" "hands is_read m"
  obtains gs where "handed n' = handed n1 @ gs" "list_all is_read gs" "\<forall>pe. r = Inl pe \<longrightarrow> written pe"
proof -
  obtain gs where "handed (fst (n', w')) = handed (fst (n1, w1)) @ gs" "list_all is_read gs"
    by (rule handsD [OF hands_map_err [OF assms(2)] assms(1)])
  moreover have "\<forall>pe. r = Inl pe \<longrightarrow> written pe"
    using assms(1) by (auto simp: map_err_call_def map_err_def maybe_written_def split: prod.splits sum.splits)
  ultimately show ?thesis using that by simp
qed

lemma hands_adoption [hands_rules]:
  "hands is_read (then_call (find_duplicate_order A cl k) (\<lambda>x.
     then_call (return_call (adopt x)) (\<lambda>terms.
     then_call (broker_order_placed_at A cl (or_id x) (or_created_at x) (or_submitted_at x)) (\<lambda>t.
     return_call (Inr (or_id x, terms, t))))))"
  by (intro hands_rules)

lemma parse_api_error_reached [simp]:
  "may_have_reached_alpaca (parse_api_error A status bs w) \<longleftrightarrow> \<not> (is_client_error status \<and> status \<noteq> 408)"
  by (simp add: parse_api_error_def split: option.split prod.split)

text \<open>A POST that failed with anything but the duplicate key refusal.\<close>

lemma failed_post_flag:
  assumes "place_order A cl rq (n, w) = (Inl e, (n', w'))"
  obtains
    (unsent) "handed n' = handed n" "\<not> may_have_reached_alpaca e" "\<not> is_duplicate_client_order_id e"
  | (sent) p w1 where "handed n' = handed n @ [p]" "posts_order rq p"
      "read_errors_come_late A \<Longrightarrow> \<not> may_have_reached_alpaca e \<Longrightarrow> took_no_effect (fst (al_http A p w1))"
  using assms unfolding place_order_def
proof (cases rule: post_cases)
  case (unsent e')
  then show ?thesis by (intro that(1)) auto
next
  case (failed p w1 h)
  then show ?thesis by (intro that(2) [of p w1]) (auto simp: posts_order_def)
next
  case (answered p w1 a)
  show ?thesis
  proof (intro that(2) [of p w1])
    assume late: "read_errors_come_late A" and no: "\<not> may_have_reached_alpaca e"
    obtain bs where bs: "ha_body a = Inr bs"
      using late no answered by (cases "ha_body a") (auto simp: read_errors_come_late_def)
    show "took_no_effect (fst (al_http A p w1))"
    proof (cases "is_success (ha_status a)")
      case True
      with answered(5) bs no show ?thesis by (cases "al_parse_order A bs") auto
    next
      case False
      with answered(4,5) bs no show ?thesis by simp
    qed
  qed (use answered in \<open>auto simp: posts_order_def\<close>)
qed

lemma answered_post:
  assumes "place_order A cl rq (n, w) = (po, (n', w'))" "\<And>e. po = Inl e \<Longrightarrow> is_duplicate_client_order_id e"
  obtains p w1 a bs where "handed n' = handed n @ [p]" "posts_order rq p"
    "fst (al_http A p w1) = Inr a" "ha_body a = Inr bs"
    "po = (if is_success (ha_status a) then map_err JsonParse (al_parse_order A bs)
           else Inl (parse_api_error A (ha_status a) bs (answer_retry_after A a (n', w'))))"
  using assms(1) unfolding place_order_def
proof (cases rule: post_cases)
  case (answered p w1 a)
  then obtain bs where bs: "ha_body a = Inr bs"
    using assms(2) by (cases "ha_body a") auto
  show ?thesis
    by (rule that [of p w1 a bs]) (use answered bs in \<open>auto simp: posts_order_def\<close>)
qed (use assms(2) in auto)

lemma place_and_adopt_cases:
  assumes "place_and_adopt A cl rq fresh adopt (n, w) = (r, (n', w'))"
  obtains
    (unsent) pe where "handed n' = handed n" "r = Inl pe" "\<not> written pe"
  | (sent) p gs where "handed n' = handed n @ p # gs" "posts_order rq p" "list_all is_read gs"
      "\<forall>pe. r = Inl pe \<longrightarrow> written pe"
  | (rejected) p w1 pe where "handed n' = handed n @ [p]" "posts_order rq p" "r = Inl pe"
      "\<not> written pe" "read_errors_come_late A \<Longrightarrow> took_no_effect (fst (al_http A p w1))"
proof -
  obtain po n1 w1 where po: "place_order A cl rq (n, w) = (po, (n1, w1))" by (metis prod_cases3)
  show ?thesis
  proof (cases "\<exists>e. po = Inl e \<and> \<not> is_duplicate_client_order_id e")
    case True
    then obtain e where e: "po = Inl e" "\<not> is_duplicate_client_order_id e" by blast
    have r: "r = Inl (order_post_failure e)" "n' = n1" using assms po e by (auto simp: place_and_adopt_def)
    from po [unfolded e(1)] show ?thesis
    proof (cases rule: failed_post_flag)
      case unsent
      with r show ?thesis by (intro that(1)) (auto simp: order_post_failure_def)
    next
      case (sent p w1)
      show ?thesis
      proof (cases "may_have_reached_alpaca e")
        case True
        with sent r show ?thesis by (intro that(2) [of p "[]"]) (auto simp: order_post_failure_def)
      next
        case False
        with sent r show ?thesis by (intro that(3) [of p _ w1]) (auto simp: order_post_failure_def)
      qed
    qed
  next
    case False
    then obtain p where p: "handed n1 = handed n @ [p]" "posts_order rq p"
      using answered_post [OF po] by metis
    obtain m where m: "map_err_call maybe_written m (n1, w1) = (r, (n', w'))" "hands is_read m"
    proof (cases po)
      case (Inl e)
      with False have "is_duplicate_client_order_id e" by auto
      with Inl assms po show ?thesis
        by (intro that [OF _ hands_adoption]) (auto simp: place_and_adopt_def)
    next
      case (Inr x)
      show ?thesis
        by (rule that [where m = "then_call (broker_order_placed_at A cl (or_id x) (or_created_at x) (or_submitted_at x))
              (\<lambda>t. return_call (Inr (or_id x, fresh, t)))"])
          (use Inr assms po in \<open>auto simp: place_and_adopt_def intro!: hands_rules\<close>)
    qed
    from m obtain gs where "handed n' = handed n1 @ gs" "list_all is_read gs" "\<forall>pe. r = Inl pe \<longrightarrow> written pe"
      by (rule after_post)
    with p show ?thesis by (intro that(2) [of p gs]) auto
  qed
qed

lemma placement_cases:
  assumes "then_call (return_call (map_err unwritten t))
      (\<lambda>sh. then_call (place_and_adopt A cl (rq sh) (fresh sh) adopt) (\<lambda>x. return_call (Inr (g x))))
      (n, w) = (r, (n', w'))"
  obtains
    (unsent) pe where "handed n' = handed n" "r = Inl pe" "\<not> written pe"
  | (sent) sh p gs where "handed n' = handed n @ p # gs" "posts_order (rq sh) p" "list_all is_read gs"
      "\<forall>pe. r = Inl pe \<longrightarrow> written pe" "t = Inr sh"
  | (rejected) sh p w1 pe where "handed n' = handed n @ [p]" "posts_order (rq sh) p" "r = Inl pe"
      "\<not> written pe" "read_errors_come_late A \<Longrightarrow> took_no_effect (fst (al_http A p w1))" "t = Inr sh"
proof (cases t)
  case (Inl e)
  with assms show ?thesis by (intro that(1)) (auto simp: then_call_def return_call_def unwritten_def)
next
  case (Inr sh)
  obtain r1 n1 w1 where pa: "place_and_adopt A cl (rq sh) (fresh sh) adopt (n, w) = (r1, (n1, w1))"
    by (metis prod_cases3)
  have r: "r = (case r1 of Inl e \<Rightarrow> Inl e | Inr x \<Rightarrow> Inr (g x))" "n' = n1"
    using assms Inr pa by (auto simp: then_call_def return_call_def split: sum.splits)
  from pa show ?thesis
  proof (cases rule: place_and_adopt_cases)
    case (unsent pe)
    with r show ?thesis by (intro that(1)) auto
  next
    case (sent p gs)
    with r Inr show ?thesis by (intro that(2) [of p gs sh]) (auto split: sum.splits)
  next
    case (rejected p w1 pe)
    with r Inr show ?thesis by (intro that(3) [of p sh pe w1]) auto
  qed
qed

lemma place_limit_order_eq:
  "place_limit_order F A cl lo =
     then_call (return_call (map_err unwritten (truncate_shares_to_alpaca_precision F (lo_shares lo))))
       (\<lambda>sh. then_call (place_and_adopt A cl (limit_request lo sh)
          (sh, lo_extended_hours lo, Some (lo_limit_price lo))
          (\<lambda>x. and_then (parse_limit_price F (or_limit_price x)) (\<lambda>p.
             Inr (or_quantity x, unwrap_or (or_extended_hours x) (lo_extended_hours lo),
                  or_else p (Some (lo_limit_price lo))))))
          (\<lambda>x. return_call (Inr \<lparr>op_order_id = fst x, op_symbol = lo_symbol lo,
             op_shares = fst (fst (snd x)), op_direction = lo_direction lo, op_placed_at = snd (snd x),
             op_extended_hours = fst (snd (fst (snd x))), op_limit_price = snd (snd (fst (snd x)))\<rparr>)))"
  by (simp add: place_limit_order_def split_def)

lemma place_market_order_eq:
  "place_market_order F A cl mo tif =
     then_call (return_call (map_err unwritten (truncate_shares_to_alpaca_precision F (mo_shares mo))))
       (\<lambda>sh. then_call (place_and_adopt A cl (market_request mo tif sh) (sh, False, None)
          (\<lambda>x. and_then (parse_limit_price F (or_limit_price x)) (\<lambda>p.
             Inr (or_quantity x, unwrap_or (or_extended_hours x) False, p))))
          (\<lambda>x. return_call (Inr \<lparr>op_order_id = fst x, op_symbol = mo_symbol mo,
             op_shares = fst (fst (snd x)), op_direction = mo_direction mo, op_placed_at = snd (snd x),
             op_extended_hours = fst (snd (fst (snd x))), op_limit_price = snd (snd (fst (snd x)))\<rparr>)))"
  by (simp add: place_market_order_def split_def)

lemma limit_request_key [simp]: "rq_client_order_id (limit_request lo sh) = lo_client_order_id lo"
  by (simp add: limit_request_def)

lemma market_request_key [simp]: "rq_client_order_id (market_request mo tif sh) = mo_client_order_id mo"
  by (simp add: market_request_def)

text \<open>One placement: the requests \<open>qs\<close> it handed over under the key \<open>k\<close>.\<close>

definition one_order_post :: "client_order_id \<Rightarrow> 'f broker_request list \<Rightarrow> bool" where
  "one_order_post k qs \<longleftrightarrow>
     (case qs of
        [] \<Rightarrow> True
      | p # gs \<Rightarrow> (\<exists>rq. posts_order rq p \<and> rq_client_order_id rq = k) \<and> list_all is_read gs)"

lemma one_order_post_Nil [simp]: "one_order_post k []"
  by (simp add: one_order_post_def)

lemma one_order_post_Cons:
  "posts_order rq p \<Longrightarrow> rq_client_order_id rq = k \<Longrightarrow> list_all is_read gs \<Longrightarrow> one_order_post k (p # gs)"
  by (auto simp: one_order_post_def)

lemma placement_posts:
  assumes "then_call (return_call (map_err unwritten t))
      (\<lambda>sh. then_call (place_and_adopt A cl (rq sh) (fresh sh) adopt) (\<lambda>x. return_call (Inr (g x))))
      (n, w) = (r, (n', w'))" "\<And>sh. rq_client_order_id (rq sh) = k"
  shows "\<exists>qs. handed n' = handed n @ qs \<and> one_order_post k qs"
  using assms(1)
proof (cases rule: placement_cases)
  case (sent sh p gs)
  with one_order_post_Cons [OF sent(2) assms(2) sent(3)] show ?thesis by blast
next
  case (rejected sh p w1 pe)
  with one_order_post_Cons [OF rejected(2) assms(2), of "[]"] show ?thesis by auto
qed (auto intro: exI [of _ "[]"])

text \<open>The requests a call hands over, as the difference of the transport's log.\<close>

definition sent_by :: "('env, 'w, 'f, 'e, 'a) broker_call \<Rightarrow> ('env, 'w, 'f) broker_state \<Rightarrow> 'f broker_request list" where
  "sent_by m s = drop (length (handed (fst s))) (handed (fst (snd (m s))))"

text \<open>
  C9: A placement, market or limit, hands at most one order to the transport. Whatever it sends
  begins with that single POST, which carries the caller's \<open>client_order_id\<close>; everything after it, the
  adoption of a duplicate and the timestamp read included, is a GET.
\<close>

theorem placement_posts_once:
  "one_order_post (lo_client_order_id lo) (sent_by (place_limit_order F A cl lo) s)
   \<and> one_order_post (mo_client_order_id mo) (sent_by (place_market_order F A cl mo tif) s)"
proof -
  obtain n w where s: "s = (n, w)" by force
  obtain r n' w' where l: "place_limit_order F A cl lo (n, w) = (r, (n', w'))" by (metis prod_cases3)
  obtain r2 n2 w2 where m: "place_market_order F A cl mo tif (n, w) = (r2, (n2, w2))" by (metis prod_cases3)
  show ?thesis
    using placement_posts [OF l [unfolded place_limit_order_eq] limit_request_key]
      placement_posts [OF m [unfolded place_market_order_eq] market_request_key]
    by (auto simp: s sent_by_def l m)
qed

lemma placement_flag:
  assumes "then_call (return_call (map_err unwritten t))
      (\<lambda>sh. then_call (place_and_adopt A cl (rq sh) (fresh sh) adopt) (\<lambda>x. return_call (Inr (g x))))
      (n, w) = (Inl pe, (n', w'))" "read_errors_come_late A"
  shows "if written pe
    then \<exists>rq p gs. handed n' = handed n @ p # gs \<and> posts_order rq p \<and> list_all is_read gs
    else handed n' = handed n
      \<or> (\<exists>rq p w1. handed n' = handed n @ [p] \<and> posts_order rq p \<and> took_no_effect (fst (al_http A p w1)))"
  using assms(1) by (cases rule: placement_cases) (use assms(2) in auto)

lemma failed_placement:
  assumes "read_errors_come_late A"
    and "place_limit_order F A cl lo (n, w) = (Inl pe, (n', w'))
         \<or> place_market_order F A cl mo tif (n, w) = (Inl pe, (n', w'))"
  shows "if written pe
    then \<exists>rq p gs. handed n' = handed n @ p # gs \<and> posts_order rq p \<and> list_all is_read gs
    else handed n' = handed n
      \<or> (\<exists>rq p w1. handed n' = handed n @ [p] \<and> posts_order rq p \<and> took_no_effect (fst (al_http A p w1)))"
  using assms(2)
proof
  assume "place_limit_order F A cl lo (n, w) = (Inl pe, (n', w'))"
  from placement_flag [OF this [unfolded place_limit_order_eq] assms(1)] show ?thesis .
next
  assume "place_market_order F A cl mo tif (n, w) = (Inl pe, (n', w'))"
  from placement_flag [OF this [unfolded place_market_order_eq] assms(1)] show ?thesis .
qed

text \<open>
  The \<open>written\<close> flag of a failed placement is sound both ways. When it is clear, either nothing was
  handed to the transport, or the only request handed over was the order POST and what came back
  shows that it took no effect. When it is set, the order POST was handed over and nothing but
  reads after it.
\<close>

theorem written_flag_is_sound:
  assumes "read_errors_come_late A"
    and "place_limit_order F A cl lo (n, w) = (Inl pe, (n', w'))
         \<or> place_market_order F A cl mo tif (n, w) = (Inl pe, (n', w'))"
  shows "if written pe
    then \<exists>rq p gs. handed n' = handed n @ p # gs \<and> posts_order rq p \<and> list_all is_read gs
    else handed n' = handed n
      \<or> (\<exists>rq p w1. handed n' = handed n @ [p] \<and> posts_order rq p \<and> took_no_effect (fst (al_http A p w1)))"
  using assms by (rule failed_placement)

text \<open>
  A concrete setting: decimals as multiples of 1e-18, and an Alpaca that gives one answer to every
  POST and another to every GET.
\<close>

definition fixed18 :: "nat decimals" where
  "fixed18 = \<lparr>
     fl_lt = (\<lambda>a b. Inr (a < b)),
     fl_eq = (\<lambda>a b. Inr (a = b)),
     fl_is_zero = (\<lambda>a. Inr (a = 0)),
     fl_to_fixed_decimal_lossy = (\<lambda>v d.
       if d \<le> 18 then Inr (v div 10 ^ (18 - d), v mod 10 ^ (18 - d) = 0) else Inl ''overflow''),
     fl_from_fixed_decimal = (\<lambda>n d. if d \<le> 18 then Inr (n * 10 ^ (18 - d)) else Inl ''overflow''),
     fl_one = 10 ^ 18,
     fl_positive = (\<lambda>a. 0 < a)\<rparr>"

definition sample_order :: "nat order_response" where
  "sample_order = \<lparr>or_id = ''u1'', or_symbol = ''AAPL'', or_quantity = 2 * 10 ^ 18, or_filled_quantity = None,
     or_side = Side_Buy, or_status = BS_New, or_filled_average_price = None,
     or_extended_hours = Some True, or_limit_price = None, or_created_at = Some 7,
     or_submitted_at = None, or_updated_at = None, or_filled_at = None, or_canceled_at = None,
     or_failed_at = None\<rparr>"

definition sample_alpaca :: "nat \<Rightarrow> nat \<Rightarrow> (unit, unit, nat) alpaca" where
  "sample_alpaca on_post on_get = \<lparr>
     al_env = (\<lambda>_. ()),
     al_authorize = (\<lambda>w. (Inr ''Bearer t'', w)),
     al_http = (\<lambda>req w.
       (Inr \<lparr>ha_status = (if br_method req = M_Post then on_post else on_get), ha_headers = [],
             ha_body = Inr []\<rparr>, w)),
     al_system_time = (\<lambda>_. 0),
     al_rfc2822 = (\<lambda>_. None),
     al_parse_order = (\<lambda>_. Inr sample_order),
     al_parse_crypto = (\<lambda>_. Inl ''not a crypto order''),
     al_parse_error_body = (\<lambda>_. Some (None, ''client_order_id must be unique'')),
     al_utf8_lossy = (\<lambda>bs. bs)\<rparr>"

definition sample_net :: "(unit, nat broker_request) net" where
  "sample_net = \<lparr>locals = \<lparr>TRAFFIC = None, GATE = None, LAST_ANSWER = None\<rparr>,
     gates = (\<lambda>_. new_gate (\<lambda>_. True)), handed = []\<rparr>"

definition sample_limit_order :: "nat alpaca_limit_order" where
  "sample_limit_order = \<lparr>lo_symbol = ''AAPL'', lo_shares = 3 * 10 ^ 18, lo_direction = Buy,
     lo_limit_price = 5 * 10 ^ 18, lo_extended_hours = True, lo_client_order_id = Automated ''k''\<rparr>"

definition sample_client :: broker_client where
  "sample_client = \<lparr>cl_base_url = ''https://alpaca'', cl_account_id = ''acct''\<rparr>"

lemmas sample_defs = fixed18_def sample_order_def sample_alpaca_def sample_net_def
  sample_limit_order_def sample_client_def

lemmas call_defs = then_call_def return_call_def map_err_call_def place_and_adopt_def place_order_def
  post_def get_def exchange_def handle_response_def parse_api_error_def get_order_def
  get_order_by_client_order_id_def none_on_404_def find_duplicate_order_def
  broker_order_placed_at_def start_def Let_def

lemma sample_reads_late: "read_errors_come_late (sample_alpaca p g)"
  by (auto simp: read_errors_come_late_def sample_alpaca_def)

lemma sample_truncation:
  "truncate_shares_to_alpaca_precision fixed18 (lo_shares sample_limit_order) = Inr (3 * 10 ^ 18)"
  by (simp add: truncate_shares_to_alpaca_precision_def truncate_to_decimal_places_def
      ALPACA_MAX_DECIMAL_PLACES_def fixed18_def sample_limit_order_def ok_or_def)

lemma sample_no_wait: "retry_after_from_response_headers parse [] now = None"
  by (simp add: retry_after_from_response_headers_def header_text_def header_get_def)

lemma sample_forbidden:
  "\<exists>n'. place_limit_order fixed18 (sample_alpaca 403 200) sample_client sample_limit_order (sample_net, ())
     = (Inl \<lparr>written = False, error = ApiError 403 None ''client_order_id must be unique'' None\<rparr>, (n', ()))"
  by (simp add: place_limit_order_eq sample_truncation then_call_def return_call_def place_and_adopt_def
      place_order_def post_def exchange_def handle_response_def parse_api_error_def start_def
      sample_alpaca_def sample_net_def order_post_failure_def status_defs answer_retry_after_def sample_no_wait)

theorem written_flag_is_sound_witness:
  "\<exists>pe n'. place_limit_order fixed18 (sample_alpaca 403 200) sample_client sample_limit_order (sample_net, ())
       = (Inl pe, (n', ()))
     \<and> \<not> written pe
     \<and> (handed n' = handed sample_net
        \<or> (\<exists>rq p w1. handed n' = handed sample_net @ [p] \<and> posts_order rq p
             \<and> took_no_effect (fst (al_http (sample_alpaca 403 200) p w1))))"
proof -
  obtain pe n' where p: "place_limit_order fixed18 (sample_alpaca 403 200) sample_client
      sample_limit_order (sample_net, ()) = (Inl pe, (n', ()))" "\<not> written pe"
    using sample_forbidden by auto
  from written_flag_is_sound [OF sample_reads_late disjI1 [OF p(1)]] p show ?thesis by auto
qed

text \<open>Behind a closed gate a POST ends before it is handed over.\<close>

lemma place_order_gate_closed:
  assumes "GATE (locals n) = Some g" "closed (gates n g)" "place_order A cl rq (n, w) = (po, (n', w'))"
  shows "\<exists>e. po = Inl e \<and> \<not> may_have_reached_alpaca e \<and> \<not> is_duplicate_client_order_id e \<and> n' = n"
  using assms
  by (auto simp: place_order_def post_def then_call_def exchange_def start_def hold_def Let_def
      split: prod.splits sum.splits if_splits)

lemma place_limit_order_gate_closed:
  assumes "GATE (locals n) = Some g" "closed (gates n g)"
    and "place_limit_order F A cl lo (n, w) = (r, (n', w'))"
  shows "\<exists>pe. r = Inl pe \<and> \<not> written pe \<and> n' = n"
proof (cases "truncate_shares_to_alpaca_precision F (lo_shares lo)")
  case (Inl e)
  with assms(3) show ?thesis
    by (auto simp: place_limit_order_eq then_call_def return_call_def unwritten_def)
next
  case (Inr sh)
  obtain po n1 w1 where po: "place_order A cl (limit_request lo sh) (n, w) = (po, (n1, w1))"
    by (metis prod_cases3)
  from place_order_gate_closed [OF assms(1,2) po] obtain e where
    "po = Inl e" "\<not> may_have_reached_alpaca e" "\<not> is_duplicate_client_order_id e" "n1 = n" by blast
  with assms(3) Inr po show ?thesis
    by (auto simp: place_limit_order_eq then_call_def return_call_def place_and_adopt_def order_post_failure_def)
qed

subsection \<open>What a placement reports\<close>

text \<open>Alpaca answered the request with this order, at some moment.\<close>

definition answers_order :: "('env, 'w, 'f) alpaca \<Rightarrow> 'f broker_request \<Rightarrow> 'f order_response \<Rightarrow> bool" where
  "answers_order A q x \<longleftrightarrow>
     (\<exists>w a bs. fst (al_http A q w) = Inr a \<and> is_success (ha_status a) \<and> ha_body a = Inr bs
        \<and> al_parse_order A bs = Inr x)"

lemma find_duplicate_ok:
  assumes "find_duplicate_order A cl k (n, w) = (Inr x, s')"
  obtains q where "is_read q" "br_url q = by_client_order_id_url cl k" "answers_order A q x"
    "handed (fst s') = handed n @ [q]"
proof -
  have "get A (al_parse_order A) (by_client_order_id_url cl k) (n, w) = (Inr x, s')"
    using assms
    by (auto simp: find_duplicate_order_def get_order_by_client_order_id_def then_call_def
        return_call_def none_on_404_def ok_or_def
        split: prod.splits sum.splits option.splits broker_error.splits if_splits)
  then show ?thesis
  proof (cases rule: get_ok)
    case (1 req w1 a bs)
    then show ?thesis by (intro that [of req]) (auto simp: is_read_def answers_order_def)
  qed
qed

text \<open>A placement that succeeds reports the order Alpaca answered the POST with, or the one it already held.\<close>

lemma place_and_adopt_ok:
  assumes "place_and_adopt A cl rq fresh adopt (n, w) = (Inr (i, terms, t), (n', w'))"
  obtains
    (new) p gs x where "handed n' = handed n @ p # gs" "posts_order rq p" "answers_order A p x"
      "i = or_id x" "terms = fresh"
  | (adopted) p q gs x where "handed n' = handed n @ p # q # gs" "posts_order rq p" "is_read q"
      "br_url q = by_client_order_id_url cl (rq_client_order_id rq)" "answers_order A q x"
      "i = or_id x" "adopt x = Inr terms"
proof -
  obtain po n1 w1 where po: "place_order A cl rq (n, w) = (po, (n1, w1))" by (metis prod_cases3)
  have dup: "\<And>e. po = Inl e \<Longrightarrow> is_duplicate_client_order_id e"
    using assms po by (auto simp: place_and_adopt_def split: if_splits)
  from po dup obtain p w2 a bs where p: "handed n1 = handed n @ [p]" "posts_order rq p"
    "fst (al_http A p w2) = Inr a" "ha_body a = Inr bs"
    "po = (if is_success (ha_status a) then map_err JsonParse (al_parse_order A bs)
           else Inl (parse_api_error A (ha_status a) bs (answer_retry_after A a (n1, w1))))"
    by (rule answered_post)
  show ?thesis
  proof (cases po)
    case (Inr x)
    obtain t1 s1 where pl: "broker_order_placed_at A cl (or_id x) (or_created_at x) (or_submitted_at x) (n1, w1)
        = (t1, s1)" by (metis surj_pair)
    obtain gs where gs: "handed (fst s1) = handed (fst (n1, w1)) @ gs" "list_all is_read gs"
      by (rule handsD [OF hands_placed_at pl])
    have "i = or_id x" "terms = fresh" "n' = fst s1"
      using assms po Inr pl by (auto simp: place_and_adopt_def map_err_call_def then_call_def return_call_def
          map_err_def split: prod.splits sum.splits)
    moreover have "answers_order A p x"
      using p Inr map_err_Inr_iff [of JsonParse "al_parse_order A bs" x]
      unfolding answers_order_def by (metis Inl_Inr_False)
    ultimately show ?thesis using p gs by (intro that(1) [of p gs x]) auto
  next
    case (Inl e)
    obtain f s1 where f: "find_duplicate_order A cl (rq_client_order_id rq) (n1, w1) = (f, s1)" by (metis surj_pair)
    obtain x where x: "f = Inr x"
      using assms po Inl dup f by (cases f) (auto simp: place_and_adopt_def map_err_call_def then_call_def)
    obtain t1 s2 where pl: "broker_order_placed_at A cl (or_id x) (or_created_at x) (or_submitted_at x) s1
        = (t1, s2)" by (metis surj_pair)
    obtain gs where gs: "handed (fst s2) = handed (fst s1) @ gs" "list_all is_read gs"
      by (rule handsD [OF hands_placed_at pl])
    have "i = or_id x" "adopt x = Inr terms" "n' = fst s2"
      using assms po Inl dup [OF Inl] f x pl
      by (auto simp: place_and_adopt_def map_err_call_def then_call_def return_call_def map_err_def
          split: prod.splits sum.splits)
    with p gs f [unfolded x] show ?thesis
      by (elim find_duplicate_ok) (rule that(2), auto)
  qed
qed

text \<open>
  A limit placement that succeeds reports an order Alpaca holds. Either Alpaca answered the
  POST of the truncated request with that order, and the terms reported are the request's; or it
  refused the key as already used, the order it holds under that key was read back, and the terms
  reported are that order's, the request's standing in only for fields its answer omits.
\<close>

theorem placement_reports_the_held_order:
  assumes "place_limit_order F A cl lo (n, w) = (Inr pl, (n', w'))"
  shows "\<exists>sh p gs x. truncate_shares_to_alpaca_precision F (lo_shares lo) = Inr sh
    \<and> handed n' = handed n @ p # gs \<and> posts_order (limit_request lo sh) p \<and> op_order_id pl = or_id x
    \<and> op_symbol pl = lo_symbol lo \<and> op_direction pl = lo_direction lo
    \<and> (answers_order A p x \<and> op_shares pl = sh \<and> op_extended_hours pl = lo_extended_hours lo
         \<and> op_limit_price pl = Some (lo_limit_price lo)
       \<or> (\<exists>q gs'. gs = q # gs' \<and> br_url q = by_client_order_id_url cl (lo_client_order_id lo)
            \<and> answers_order A q x \<and> op_shares pl = or_quantity x
            \<and> op_extended_hours pl = unwrap_or (or_extended_hours x) (lo_extended_hours lo)
            \<and> op_limit_price pl = or_else (or_limit_price x) (Some (lo_limit_price lo))))"
proof -
  obtain sh where sh: "truncate_shares_to_alpaca_precision F (lo_shares lo) = Inr sh"
    using assms by (cases "truncate_shares_to_alpaca_precision F (lo_shares lo)")
      (auto simp: place_limit_order_eq then_call_def return_call_def)
  define adopt where "adopt = (\<lambda>x :: 'a order_response. and_then (parse_limit_price F (or_limit_price x)) (\<lambda>p.
      Inr (or_quantity x, unwrap_or (or_extended_hours x) (lo_extended_hours lo),
           or_else p (Some (lo_limit_price lo)))))"
  obtain i terms t where
    pa: "place_and_adopt A cl (limit_request lo sh) (sh, lo_extended_hours lo, Some (lo_limit_price lo)) adopt (n, w)
      = (Inr (i, terms, t), (n', w'))"
    and pl: "pl = \<lparr>op_order_id = i, op_symbol = lo_symbol lo, op_shares = fst terms,
      op_direction = lo_direction lo, op_placed_at = t, op_extended_hours = fst (snd terms),
      op_limit_price = snd (snd terms)\<rparr>"
    using assms [unfolded place_limit_order_eq, folded adopt_def] sh
    by (auto simp: then_call_def return_call_def split: prod.splits sum.splits)
  from pa show ?thesis
  proof (cases rule: place_and_adopt_ok)
    case (new p gs x)
    with sh pl show ?thesis by auto
  next
    case (adopted p q gs x)
    have "terms = (or_quantity x, unwrap_or (or_extended_hours x) (lo_extended_hours lo),
        or_else (or_limit_price x) (Some (lo_limit_price lo)))"
      using adopted(7) by (auto simp: adopt_def parse_limit_price_def and_then_Inr_iff split: option.splits if_splits)
    with adopted sh pl show ?thesis by auto
  qed
qed

lemma sample_adopts:
  "\<exists>n'. place_limit_order fixed18 (sample_alpaca 422 200) sample_client sample_limit_order (sample_net, ())
     = (Inr \<lparr>op_order_id = ''u1'', op_symbol = ''AAPL'', op_shares = 2 * 10 ^ 18, op_direction = Buy,
         op_placed_at = 7, op_extended_hours = True, op_limit_price = Some (5 * 10 ^ 18)\<rparr>, (n', ()))"
  unfolding place_limit_order_eq sample_truncation
  by (simp add: call_defs sample_defs status_defs parse_limit_price_def answer_retry_after_def
      sample_no_wait starts_with_def)

theorem placement_reports_the_held_order_witness:
  "\<exists>pl n' p gs. place_limit_order fixed18 (sample_alpaca 422 200) sample_client sample_limit_order (sample_net, ())
     = (Inr pl, (n', ())) \<and> handed n' = handed sample_net @ p # gs \<and> op_symbol pl = ''AAPL''"
proof -
  obtain pl n' where pl: "place_limit_order fixed18 (sample_alpaca 422 200) sample_client sample_limit_order
      (sample_net, ()) = (Inr pl, (n', ()))"
    using sample_adopts by auto
  have "lo_symbol sample_limit_order = ''AAPL''" by (simp add: sample_limit_order_def)
  with placement_reports_the_held_order [OF pl] pl show ?thesis by (metis (no_types))
qed

subsection \<open>Status classification and times\<close>

text \<open>
  The two classifications of an Alpaca order status agree. An order is filled, working, or
  failed in one exactly when it is in the other (a cancellation counts as its own status for
  equities and as a failure for conversions), a failure carries the same terminality in both, and a
  conversion's outcome is final exactly when the order is filled, cancelled, or failed for good, with
  the one exception of \<open>done_for_day\<close>, which is never final for a conversion.
\<close>

theorem classifications_agree:
  "(classify st = Out_Filled \<longleftrightarrow> fst (classify_broker_status st) = Filled)
   \<and> (classify st = Out_Pending \<longleftrightarrow> fst (classify_broker_status st) \<in> {Submitted, PartiallyFilled})
   \<and> (classify st = Out_Failed Canceled \<longleftrightarrow> fst (classify_broker_status st) = Cancelled)
   \<and> snd (classify_broker_status st) =
       (case classify st of
          Out_Failed reason \<Rightarrow> if reason = Canceled then None else Some (terminality reason)
        | _ \<Rightarrow> None)
   \<and> (is_terminal (classify st) \<longleftrightarrow> st \<noteq> BS_DoneForDay
        \<and> (fst (classify_broker_status st) \<in> {Filled, Cancelled}
           \<or> snd (classify_broker_status st) = Some Terminal))"
  by (cases st) (simp_all add: is_terminal_def)

text \<open>
  A status read fails for want of a time exactly when the order is filled or cancelled and Alpaca
  gave neither the time of that event nor an update time. Otherwise the time reported is the most
  specific one Alpaca gave for the status, and the local clock is used only for orders that are
  neither filled nor cancelled and carry no broker time.
\<close>

theorem status_times_are_the_brokers:
  fixes r :: "'f order_response"
  defines "k \<equiv> fst (classify_broker_status (or_status r))"
  defines "specific \<equiv> (case k of Filled \<Rightarrow> or_filled_at r | Cancelled \<Rightarrow> or_canceled_at r
      | Failed \<Rightarrow> or_failed_at r | _ \<Rightarrow> None)"
  shows "status_time r i observed =
    (case or_else specific (or_updated_at r) of
       Some t \<Rightarrow> Inr t
     | None \<Rightarrow>
         if k = Filled then Inl (IncompleteOrder (ExecutorOrderId i) FilledAt)
         else if k = Cancelled then Inl (IncompleteOrder (ExecutorOrderId i) CanceledAt)
         else Inr observed)"
  unfolding k_def specific_def
  by (cases "or_status r")
    (simp_all add: status_time_def terminal_broker_time_def broker_time_or_observation_def
      or_else_def unwrap_or_def split: option.split)

subsection \<open>Precision\<close>

text \<open>
  rain-math-float, as the code relies on it: \<open>val\<close> reads a decimal, \<open>to_fixed_decimal_lossy\<close> rounds a
  non-negative one down to a multiple of \<open>10 ^ - d\<close> and says whether that was exact, and
  \<open>from_fixed_decimal\<close> and the comparisons are exact. Each operation may still fail.
\<close>

definition decimal_laws :: "'f decimals \<Rightarrow> ('f \<Rightarrow> rat) \<Rightarrow> bool" where
  "decimal_laws F val \<longleftrightarrow>
     (\<forall>v d k ll. 0 \<le> val v \<longrightarrow> fl_to_fixed_decimal_lossy F v d = Inr (k, ll) \<longrightarrow>
        of_nat k \<le> val v * 10 ^ d \<and> val v * 10 ^ d < of_nat k + 1 \<and> (ll \<longleftrightarrow> val v * 10 ^ d = of_nat k))
     \<and> (\<forall>k d v. fl_from_fixed_decimal F k d = Inr v \<longrightarrow> val v = of_nat k / 10 ^ d)
     \<and> (\<forall>v b. fl_is_zero F v = Inr b \<longrightarrow> (b \<longleftrightarrow> val v = 0))
     \<and> (\<forall>v u b. fl_lt F v u = Inr b \<longrightarrow> (b \<longleftrightarrow> val v < val u))
     \<and> (\<forall>v. fl_positive F v \<longleftrightarrow> 0 < val v) \<and> val (fl_one F) = 1"

lemma decimal_laws_lossy:
  assumes "decimal_laws F val" "0 \<le> val v" "fl_to_fixed_decimal_lossy F v d = Inr (k, ll)"
  shows "of_nat k \<le> val v * 10 ^ d" "val v * 10 ^ d < of_nat k + 1" "ll \<longleftrightarrow> val v * 10 ^ d = of_nat k"
  using assms unfolding decimal_laws_def by blast+

lemma truncation_bounds:
  assumes laws: "decimal_laws F val" and v: "0 < val v"
    and t: "truncate_to_decimal_places F v d = Inr t"
  shows "case t of
      Some u \<Rightarrow> val u \<le> val v \<and> val v < val u + 1 / 10 ^ d \<and> (\<exists>k. val u = of_nat k / 10 ^ d)
    | None \<Rightarrow> val v < 1 / 10 ^ d"
proof -
  obtain k ll where kl: "fl_to_fixed_decimal_lossy F v d = Inr (k, ll)"
    using t by (auto simp: truncate_to_decimal_places_def and_then_Inr_iff)
  note b = decimal_laws_lossy [OF laws _ kl]
  have from_fixed: "val u = of_nat k / 10 ^ d" if "fl_from_fixed_decimal F k d = Inr u" for u
    using laws that unfolding decimal_laws_def by blast
  show ?thesis
  proof (cases ll)
    case True
    with t kl b v have "t = Some v" "val v = of_nat k / 10 ^ d"
      by (auto simp: truncate_to_decimal_places_def field_simps)
    then show ?thesis by auto
  next
    case False
    show ?thesis
    proof (cases t)
      case None
      with t kl False have "k = 0"
        by (auto simp: truncate_to_decimal_places_def and_then_Inr_iff split: if_splits)
      with None b v show ?thesis by (simp add: field_simps)
    next
      case (Some u)
      with t kl False have "fl_from_fixed_decimal F k d = Inr u"
        by (auto simp: truncate_to_decimal_places_def and_then_Inr_iff split: if_splits)
      with from_fixed have u: "val u = of_nat k / 10 ^ d" by simp
      from u b v have "val u \<le> val v" by (simp add: divide_le_eq)
      moreover from u b v have "val v < val u + 1 / 10 ^ d"
        by (simp add: add_divide_distrib [symmetric] less_divide_eq)
      ultimately show ?thesis using Some u by auto
    qed
  qed
qed

lemma valid_price:
  assumes "decimal_laws F val" "0 \<le> val p" "validate_limit_price_precision F p = Inr ()"
  shows "\<exists>k. val p = of_nat k / 10 ^ (if val p < 1 then 4 else 2)"
proof -
  obtain b where b: "fl_lt F p (fl_one F) = Inr b"
    using assms(3) by (auto simp: validate_limit_price_precision_def and_then_Inr_iff)
  have below: "b \<longleftrightarrow> val p < 1" using assms(1) b unfolding decimal_laws_def by metis
  define d :: nat where "d = (if val p < 1 then 4 else 2)"
  obtain k ll where k: "fl_to_fixed_decimal_lossy F p d = Inr (k, ll)" "ll"
    using assms(3) b below unfolding d_def validate_limit_price_precision_def
    by (auto simp: and_then_Inr_iff split: if_splits)
  then have "val p * 10 ^ d = of_nat k" using decimal_laws_lossy(3) [OF assms(1,2) k(1)] by simp
  then have "val p = of_nat k / 10 ^ d" by (simp add: eq_divide_eq)
  then show ?thesis unfolding d_def by blast
qed

text \<open>
  Precision. An order is never placed for more shares than asked, nor for a billionth of a
  share less: the truncated quantity is a positive multiple of 1e-9 at most the quantity asked and
  within 1e-9 of it, and a quantity refused as below precision is below 1e-9. A limit price that is
  accepted is unchanged and a multiple of 0.0001 below one dollar and of 0.01 from there on.
\<close>

theorem precision_is_enforced:
  assumes "decimal_laws F val" "0 < val s" "0 < val p"
  shows "(case truncate_shares_to_alpaca_precision F s of
      Inr t \<Rightarrow> 0 < val t \<and> val t \<le> val s \<and> val s < val t + 1 / 10 ^ 9 \<and> (\<exists>k. val t = of_nat k / 10 ^ 9)
    | Inl e \<Rightarrow> e = BelowPrecision s 9 \<longrightarrow> val s < 1 / 10 ^ 9)
    \<and> (case limit_price_try_new F p of
         Inr q \<Rightarrow> q = p \<and> (\<exists>k. val p = of_nat k / 10 ^ (if val p < 1 then 4 else 2))
       | Inl e \<Rightarrow> True)"
proof
  have pos: "fl_positive F v \<longleftrightarrow> 0 < val v" for v using assms(1) unfolding decimal_laws_def by blast
  show "case truncate_shares_to_alpaca_precision F s of
      Inr t \<Rightarrow> 0 < val t \<and> val t \<le> val s \<and> val s < val t + 1 / 10 ^ 9 \<and> (\<exists>k. val t = of_nat k / 10 ^ 9)
    | Inl e \<Rightarrow> e = BelowPrecision s 9 \<longrightarrow> val s < 1 / 10 ^ 9"
    using truncation_bounds [OF assms(1,2), of 9] pos
    by (fastforce simp: truncate_shares_to_alpaca_precision_def ALPACA_MAX_DECIMAL_PLACES_def
        and_then_def map_err_def ok_or_def split: sum.splits option.splits if_splits)
  show "case limit_price_try_new F p of
         Inr q \<Rightarrow> q = p \<and> (\<exists>k. val p = of_nat k / 10 ^ (if val p < 1 then 4 else 2))
       | Inl e \<Rightarrow> True"
  proof (cases "limit_price_try_new F p")
    case (Inr q)
    then have valid: "validate_limit_price_precision F p = Inr ()" and q: "q = p"
      by (auto simp: limit_price_try_new_def and_then_Inr_iff)
    with valid_price [OF assms(1) less_imp_le [OF assms(3)]] Inr show ?thesis by simp
  qed simp
qed

definition fixed18_val :: "nat \<Rightarrow> rat" where
  "fixed18_val n = of_nat n / 10 ^ 18"

lemma fixed18_lossy:
  assumes "fl_to_fixed_decimal_lossy fixed18 v d = Inr (k, ll)"
  shows "of_nat k \<le> fixed18_val v * 10 ^ d \<and> fixed18_val v * 10 ^ d < of_nat k + 1
    \<and> (ll \<longleftrightarrow> fixed18_val v * 10 ^ d = of_nat k)"
proof -
  define m :: nat where "m = 10 ^ (18 - d)"
  have d: "d \<le> 18" and k: "k = v div m" and ll: "ll \<longleftrightarrow> v mod m = 0"
    using assms by (auto simp: fixed18_def m_def split: if_splits)
  have m: "0 < m" "(10 :: rat) ^ 18 = of_nat m * 10 ^ d"
    using d by (simp_all add: m_def power_add [symmetric])
  have v: "of_nat v = (of_nat (v div m) * of_nat m + of_nat (v mod m) :: rat)"
    by (metis div_mult_mod_eq of_nat_add of_nat_mult)
  have "fixed18_val v * 10 ^ d = of_nat v / of_nat m"
    unfolding fixed18_val_def m(2) by simp
  also have "\<dots> = of_nat k + of_nat (v mod m) / of_nat m"
    using m(1) by (subst v) (simp add: k add_divide_distrib)
  finally have x: "fixed18_val v * 10 ^ d = of_nat k + of_nat (v mod m) / of_nat m" .
  have "of_nat (v mod m) / of_nat m < (1 :: rat)" "0 \<le> of_nat (v mod m) / (of_nat m :: rat)"
    using m(1) by (simp_all add: divide_less_eq)
  then show ?thesis unfolding x using m(1) ll by auto
qed

lemma fixed18_laws: "decimal_laws fixed18 fixed18_val"
proof -
  have "fixed18_val (k * 10 ^ (18 - d)) = of_nat k / 10 ^ d" if "d \<le> 18" for k d :: nat
  proof -
    have ten: "(10 :: rat) ^ 18 = 10 ^ (18 - d) * 10 ^ d" using that by (simp add: power_add [symmetric])
    show ?thesis unfolding fixed18_val_def ten by simp
  qed
  then have "fl_from_fixed_decimal fixed18 k d = Inr v \<Longrightarrow> fixed18_val v = of_nat k / 10 ^ d" for k d v
    by (auto simp: fixed18_def split: if_splits)
  moreover have "fl_is_zero fixed18 v = Inr b \<Longrightarrow> b = (fixed18_val v = 0)" for v b
    by (auto simp: fixed18_def fixed18_val_def)
  moreover have "fl_lt fixed18 v u = Inr b \<Longrightarrow> b = (fixed18_val v < fixed18_val u)" for v u b
    by (auto simp: fixed18_def fixed18_val_def divide_less_cancel)
  moreover have "fl_positive fixed18 v = (0 < fixed18_val v)" "fixed18_val (fl_one fixed18) = 1" for v
    by (auto simp: fixed18_def fixed18_val_def)
  ultimately show ?thesis unfolding decimal_laws_def using fixed18_lossy by blast
qed

theorem precision_is_enforced_witness:
  "truncate_shares_to_alpaca_precision fixed18 (10 ^ 18 + 1) = Inr (10 ^ 18)
   \<and> fixed18_val (10 ^ 18) \<le> fixed18_val (10 ^ 18 + 1)
   \<and> fixed18_val (10 ^ 18 + 1) < fixed18_val (10 ^ 18) + 1 / 10 ^ 9
   \<and> limit_price_try_new fixed18 (5 * 10 ^ 15) = Inr (5 * 10 ^ 15)
   \<and> (\<exists>k. fixed18_val (5 * 10 ^ 15) = of_nat k / 10 ^ 4)"
proof -
  have t: "truncate_shares_to_alpaca_precision fixed18 (10 ^ 18 + 1) = Inr (10 ^ 18)"
    by (simp add: truncate_shares_to_alpaca_precision_def truncate_to_decimal_places_def
        ALPACA_MAX_DECIMAL_PLACES_def fixed18_def)
  have l: "limit_price_try_new fixed18 (5 * 10 ^ 15) = Inr (5 * 10 ^ 15)"
    by (simp add: limit_price_try_new_def validate_limit_price_precision_def fixed18_def)
  have "0 < fixed18_val (10 ^ 18 + 1)" "0 < fixed18_val (5 * 10 ^ 15)" "fixed18_val (5 * 10 ^ 15) < 1"
    by (simp_all add: fixed18_val_def)
  with precision_is_enforced [OF fixed18_laws this(1,2)] t l show ?thesis by simp
qed

end
