(* ===== verification/Polling.thy ===== *)
theory Polling
  imports Rate_Limit
begin

text \<open>
  What the polls see of time. A poll runs in a world \<open>'w\<close>; the timer reads its clock, sleeps in it, and
  says when a future bounded by \<open>timeout_at\<close> is dropped. The laws are tokio's: a sleep lasts at least
  its duration, a future that is ready before the instant is never dropped, and a dropped one is
  dropped at the instant or later. \<open>read_before\<close> of \<^verbatim>\<open>src/rate_limit.rs\<close> runs in it.
\<close>

subsection \<open>Timers\<close>

record 'w timer =
  tm_now :: "'w \<Rightarrow> instant"
  tm_sleep :: "duration \<Rightarrow> 'w \<Rightarrow> 'w"
  tm_dropped :: "instant \<Rightarrow> 'w \<Rightarrow> 'w \<Rightarrow> 'w option"

text \<open>
  \<open>tm_dropped T D w w'\<close> is the world in which a future that leads from \<open>w\<close> to \<open>w'\<close> was dropped at \<open>D\<close>,
  or \<open>None\<close> when it was ready first.
\<close>

definition timeout_at ::
  "'w timer \<Rightarrow> instant \<Rightarrow> ('w \<Rightarrow> 'a \<times> 'w) \<Rightarrow> 'w \<Rightarrow> 'a option \<times> 'w" where
  "timeout_at T D f w =
     (case f w of (r, w') \<Rightarrow>
        (case tm_dropped T D w w' of
           None \<Rightarrow> (Some r, w')
         | Some w'' \<Rightarrow> (None, w'')))"

definition timer_laws :: "'w timer \<Rightarrow> bool" where
  "timer_laws T \<longleftrightarrow>
     (\<forall>d w. tm_now T w + d \<le> tm_now T (tm_sleep T d w))
     \<and> (\<forall>D w w' w''. tm_dropped T D w w' = Some w'' \<longrightarrow>
          D \<le> tm_now T w' \<and> D \<le> tm_now T w'' \<and> tm_now T w \<le> tm_now T w'')"

definition takes_time :: "'w timer \<Rightarrow> ('w \<Rightarrow> 'a \<times> 'w) \<Rightarrow> bool" where
  "takes_time T f \<longleftrightarrow> (\<forall>w. tm_now T w \<le> tm_now T (snd (f w)))"

text \<open>\<open>timed_out\<close> is evaluated where the poll ends.\<close>

definition read_before ::
  "'w timer \<Rightarrow> instant \<Rightarrow> ('w \<Rightarrow> ('e + 'a) \<times> 'w) \<Rightarrow> ('w \<Rightarrow> 'e) \<Rightarrow> 'w \<Rightarrow> ('e + 'a) \<times> 'w" where
  "read_before T deadline read timed_out w =
     (if deadline \<le> tm_now T w then (Inl (timed_out w), w)
      else case timeout_at T deadline read w of
          (Some r, w') \<Rightarrow> (r, w')
        | (None, w') \<Rightarrow> (Inl (timed_out w'), w'))"

text \<open>The sleep at the end of a poll's iteration.\<close>

definition poll_sleep :: "'w timer \<Rightarrow> duration \<Rightarrow> instant \<Rightarrow> 'w \<Rightarrow> 'w" where
  "poll_sleep T delay deadline w = tm_sleep T (next_poll_delay delay deadline (tm_now T w)) w"

subsection \<open>Lemmas\<close>

lemma timer_sleep: "timer_laws T \<Longrightarrow> tm_now T w + d \<le> tm_now T (tm_sleep T d w)"
  by (simp add: timer_laws_def)

lemma timeout_at_later:
  assumes "timer_laws T" "takes_time T f" "timeout_at T D f w = (r, w')"
  shows "tm_now T w \<le> tm_now T w'"
proof -
  obtain x w1 where f: "f w = (x, w1)" by force
  have "tm_now T w \<le> tm_now T w1" using assms(2) f unfolding takes_time_def by (metis snd_conv)
  with assms f show ?thesis
    by (auto simp: timeout_at_def timer_laws_def split: option.splits)
qed

lemma timeout_at_dropped:
  "timer_laws T \<Longrightarrow> timeout_at T D f w = (None, w') \<Longrightarrow> D \<le> tm_now T w' \<and> D \<le> tm_now T (snd (f w))"
  by (auto simp: timeout_at_def timer_laws_def split: option.splits prod.splits)

lemma timeout_at_ready: "timeout_at T D f w = (Some r, w') \<Longrightarrow> f w = (r, w')"
  by (auto simp: timeout_at_def split: option.splits prod.splits)

lemma poll_sleep_later:
  "timer_laws T \<Longrightarrow> tm_now T w \<le> tm_now T (poll_sleep T delay D w)"
  using timer_sleep [of T w "next_poll_delay delay D (tm_now T w)"] by (simp add: poll_sleep_def)

text \<open>An iteration that sleeps a positive delay brings the deadline nearer.\<close>

lemma poll_sleep_progress:
  assumes "timer_laws T" "0 < delay" "tm_now T w0 \<le> tm_now T w" "tm_now T w0 < D"
  shows "D - tm_now T (poll_sleep T delay D w) < D - tm_now T w0"
  using timer_sleep [OF assms(1), of w "next_poll_delay delay D (tm_now T w)"] assms(2-4)
  by (auto simp: poll_sleep_def next_poll_delay_def min_def split: if_splits)

lemma read_before_later:
  assumes "timer_laws T" "takes_time T read" "read_before T D read timed_out w = (r, w')"
  shows "tm_now T w \<le> tm_now T w'"
  using assms timeout_at_later [OF assms(1,2), of D w]
  by (auto simp: read_before_def split: if_splits prod.splits option.splits)

lemma read_before_cases:
  assumes "read_before T D read timed_out w = (r, w')"
  obtains (ended) "r = Inl (timed_out w')" "D \<le> tm_now T w \<or> timeout_at T D read w = (None, w')"
  | (read) "read w = (r, w')" "tm_now T w < D"
  using assms
  by (auto simp: read_before_def split: if_splits prod.splits option.splits dest: timeout_at_ready)

lemma read_before_ended:
  assumes "timer_laws T" "read_before T D read timed_out w = (r, w')"
  shows "read w = (r, w') \<and> tm_now T w < D \<or> r = Inl (timed_out w') \<and> D \<le> tm_now T w'"
  using assms(2)
proof (cases rule: read_before_cases)
  case ended
  show ?thesis
  proof (cases "D \<le> tm_now T w")
    case True
    with assms(2) show ?thesis by (auto simp: read_before_def)
  next
    case False
    with ended timeout_at_dropped [OF assms(1)] show ?thesis by blast
  qed
qed simp

subsection \<open>A concrete timer\<close>

text \<open>The world is a clock and what else the poll changes; a dropped future leaves no trace but the time.\<close>

definition clock_timer :: "(instant \<times> 'x) timer" where
  "clock_timer = \<lparr>
     tm_now = fst,
     tm_sleep = (\<lambda>d w. (fst w + d, snd w)),
     tm_dropped = (\<lambda>D w w'. if D \<le> fst w' then Some (max D (fst w), snd w) else None)\<rparr>"

lemma clock_now [simp]: "tm_now clock_timer w = fst w"
  by (simp add: clock_timer_def)

lemma clock_timer_laws: "timer_laws clock_timer"
  by (auto simp: timer_laws_def clock_timer_def split: if_splits)

subsection \<open>Properties\<close>

text \<open>
  A poll never waits or reads past its deadline. Both waits of a poll end by the deadline, a
  backpressure wait strictly before it, so the read after it may start; a read at or after the
  deadline never starts and gives the timeout; a read that is ready before the deadline gives its own
  result. A backpressure wait is never shorter than the schedule, and a \<open>Retry-After\<close> hint, however
  large, never makes it longer than five minutes or the schedule.
\<close>

theorem polls_end_by_their_deadline:
  assumes "now \<le> deadline" and "timer_laws T"
  shows "now + next_poll_delay scheduled deadline now \<le> deadline
    \<and> (case backpressure_wait policy b scheduled deadline now of
         None \<Rightarrow> policy = Return \<or> deadline \<le> now + capped_backpressure_wait b scheduled
       | Some wait \<Rightarrow> now + wait < deadline \<and> scheduled \<le> wait
           \<and> wait \<le> max scheduled (from_secs 300))
    \<and> (deadline \<le> tm_now T w \<longrightarrow> read_before T deadline read timed_out w = (Inl (timed_out w), w))
    \<and> (tm_now T w < deadline \<and> tm_now T (snd (read w)) < deadline \<longrightarrow>
         read_before T deadline read timed_out w = read w)"
proof -
  have "read_before T deadline read timed_out w = read w"
    if "tm_now T w < deadline" "tm_now T (snd (read w)) < deadline"
  proof -
    obtain r w' where rd: "read w = (r, w')" by force
    have "tm_dropped T deadline w w' = None"
      using assms(2) that(2) rd unfolding timer_laws_def
      by (cases "tm_dropped T deadline w w'") (auto, fastforce)
    with rd that(1) show ?thesis by (simp add: read_before_def timeout_at_def)
  qed
  moreover have "deadline \<le> tm_now T w \<longrightarrow> read_before T deadline read timed_out w = (Inl (timed_out w), w)"
    by (simp add: read_before_def)
  moreover have "case backpressure_wait policy b scheduled deadline now of
         None \<Rightarrow> policy = Return \<or> deadline \<le> now + capped_backpressure_wait b scheduled
       | Some wait \<Rightarrow> now + wait < deadline \<and> scheduled \<le> wait \<and> wait \<le> max scheduled (from_secs 300)"
    using assms(1) capped_wait_bounds [of scheduled b]
    by (auto simp: backpressure_wait_def Let_def MAX_RETRY_AFTER_HOLD_def)
  ultimately show ?thesis using next_poll_delay_stays [OF assms(1)] by blast
qed

theorem polls_end_by_their_deadline_witness:
  "backpressure_wait RetryInPlace \<lparr>retry_after = Some (from_secs 86400)\<rparr> (from_secs 2)
     (from_secs 600) (from_secs 100) = Some (from_secs 300)
   \<and> from_secs 100 + from_secs 300 < from_secs 600
   \<and> read_before clock_timer (from_secs 600) (\<lambda>w. (Inr ''a'', w)) (\<lambda>_. ()) (from_secs 600, ()) =
       (Inl (), (from_secs 600, ()))"
  using polls_end_by_their_deadline [OF _ clock_timer_laws,
      of "from_secs 100" "from_secs 600" "from_secs 2" RetryInPlace
        "\<lparr>retry_after = Some (from_secs 86400)\<rparr>" "(from_secs 600, ())" "\<lambda>w. (Inr ''a'', w)" "\<lambda>_. ()"]
  by (simp add: backpressure_wait_def capped_backpressure_wait_def MAX_RETRY_AFTER_HOLD_def
      from_secs_def nanos_per_sec_def)

end
