(* ===== verification/Conversions.thy ===== *)
theory Conversions
  imports Orders Polling
begin

text \<open>
  USDC/USD conversions (\<^verbatim>\<open>src/broker/order.rs\<close> from \<open>validate_usdc_amount_for_alpaca_precision\<close> on):
  sizing, placement, and the poll that waits for a terminal state and cancels the remainder at its
  deadline. The trait \<open>ConversionOrders\<close> is the record \<open>conversion_orders\<close>; \<open>broker_orders\<close> is its
  implementation by the broker client. The loops may run forever on a clock that stands still, so
  they are partial: \<open>None\<close> is a poll that never returns.
\<close>

subsection \<open>Sizing and placement\<close>

definition ALPACA_CRYPTO_MAX_DECIMAL_PLACES :: nat where
  "ALPACA_CRYPTO_MAX_DECIMAL_PLACES = 6"

definition ALPACA_NOTIONAL_MAX_DECIMAL_PLACES :: nat where
  "ALPACA_NOTIONAL_MAX_DECIMAL_PLACES = 2"

datatype conversion_direction = UsdcToUsd | UsdToUsdc

datatype 'f conversion_order = SellUsdc 'f | BuyWithUsd 'f

fun conversion_direction_of :: "'f conversion_order \<Rightarrow> conversion_direction" where
  "conversion_direction_of (SellUsdc _) = UsdcToUsd"
| "conversion_direction_of (BuyWithUsd _) = UsdToUsdc"

definition validate_usdc_amount_for_alpaca_precision :: "'f decimals \<Rightarrow> 'f \<Rightarrow> 'f broker_error + 'f" where
  "validate_usdc_amount_for_alpaca_precision F amount =
     and_then (map_err FloatConversion
         (truncate_to_decimal_places F amount ALPACA_CRYPTO_MAX_DECIMAL_PLACES)) (\<lambda>t.
     and_then (ok_or t (UsdcBelowPrecision amount ALPACA_CRYPTO_MAX_DECIMAL_PLACES)) (\<lambda>truncated.
     and_then (map_err FloatConversion (fl_eq F truncated amount)) (\<lambda>same.
     if \<not> same then Inl (UsdcPrecisionExceeded amount ALPACA_CRYPTO_MAX_DECIMAL_PLACES)
     else Inr amount)))"

definition truncate_notional_to_whole_cents :: "'f decimals \<Rightarrow> 'f \<Rightarrow> 'f broker_error + 'f" where
  "truncate_notional_to_whole_cents F amount =
     and_then (map_err FloatConversion
         (truncate_to_decimal_places F amount ALPACA_NOTIONAL_MAX_DECIMAL_PLACES)) (\<lambda>t.
     and_then (ok_or t (UsdcBelowPrecision amount ALPACA_NOTIONAL_MAX_DECIMAL_PLACES)) (\<lambda>truncated.
     and_then (map_err FloatConversion (fl_eq F truncated amount)) (\<lambda>_.
     Inr truncated)))"

fun is_insufficient_usd_balance :: "'f broker_error \<Rightarrow> bool" where
  "is_insufficient_usd_balance (ApiError status code message _) =
     (status = 403 \<and> code = Some 40310000
      \<and> contains (to_ascii_lowercase message) ''insufficient balance'')"
| "is_insufficient_usd_balance _ = False"

fun classify_conversion_placement_error :: "'f conversion_order \<Rightarrow> 'f broker_error \<Rightarrow> 'f broker_error" where
  "classify_conversion_placement_error (BuyWithUsd _) e =
     (if is_insufficient_usd_balance e then UsdConversionInsufficientBalance e else e)"
| "classify_conversion_placement_error (SellUsdc _) e = e"

definition conversion_size ::
  "'f decimals \<Rightarrow> 'f conversion_order \<Rightarrow> 'f broker_error + (order_side \<times> 'f crypto_order_size)" where
  "conversion_size F c =
     (case c of
        SellUsdc q \<Rightarrow>
          and_then (validate_usdc_amount_for_alpaca_precision F q) (\<lambda>x. Inr (Side_Sell, Quantity x))
      | BuyWithUsd d \<Rightarrow>
          and_then (truncate_notional_to_whole_cents F d) (\<lambda>x. Inr (Side_Buy, Notional x)))"

definition convert_usdc_usd ::
  "'f decimals \<Rightarrow> ('env, 'w, 'f) alpaca \<Rightarrow> broker_client \<Rightarrow> 'f conversion_order \<Rightarrow> client_order_id
   \<Rightarrow> ('env, 'w, 'f, 'f broker_error, 'f crypto_order) broker_call" where
  "convert_usdc_usd F A cl c k =
     then_call (return_call (conversion_size F c)) (\<lambda>(side, size).
     map_err_call (classify_conversion_placement_error c)
       (place_crypto_order A cl \<lparr>cq_symbol = ''USDCUSD'', cq_size = size, cq_side = side,
          cq_order_type = ''market'', cq_time_in_force = ''gtc'', cq_client_order_id = k\<rparr>))"

record ('w, 'f) conversion_orders =
  co_submit_conversion :: "'f conversion_order \<Rightarrow> client_order_id \<Rightarrow> 'w \<Rightarrow> ('f broker_error + 'f crypto_order) \<times> 'w"
  co_get_conversion_order :: "uuid \<Rightarrow> 'w \<Rightarrow> ('f broker_error + 'f crypto_order) \<times> 'w"
  co_find_conversion_order :: "client_order_id \<Rightarrow> 'w \<Rightarrow> ('f broker_error + 'f crypto_order option) \<times> 'w"
  co_cancel_order :: "string \<Rightarrow> 'w \<Rightarrow> ('f broker_error + cancellation_outcome) \<times> 'w"

definition broker_orders ::
  "uuid_parser \<Rightarrow> 'f decimals \<Rightarrow> ('env, 'w, 'f) alpaca \<Rightarrow> broker_client
   \<Rightarrow> (('env, 'w, 'f) broker_state, 'f) conversion_orders" where
  "broker_orders parse_uuid F A cl = \<lparr>
     co_submit_conversion = convert_usdc_usd F A cl,
     co_get_conversion_order = get_crypto_order A cl,
     co_find_conversion_order = get_crypto_order_by_client_order_id A cl,
     co_cancel_order = (\<lambda>i. then_call (return_call (map_err InvalidOrderId (parse_uuid i))) (cancel_order A cl))\<rparr>"

subsection \<open>Deadlines\<close>

definition CONVERSION_ORDER_DEADLINE :: duration where
  "CONVERSION_ORDER_DEADLINE = from_secs 300"

definition CANCEL_SETTLE_DEADLINE :: duration where
  "CANCEL_SETTLE_DEADLINE = from_secs 30"

definition CONVERSION_POLL_INTERVAL :: duration where
  "CONVERSION_POLL_INTERVAL = from_millis 500"

record conversion_poll_deadlines =
  cd_order :: duration
  cd_cancel_settle :: duration
  cd_interval :: duration
  cd_backpressure :: backpressure_policy

definition PRODUCTION :: conversion_poll_deadlines where
  "PRODUCTION = \<lparr>cd_order = CONVERSION_ORDER_DEADLINE, cd_cancel_settle = CANCEL_SETTLE_DEADLINE,
     cd_interval = CONVERSION_POLL_INTERVAL, cd_backpressure = RetryInPlace\<rparr>"

definition polling_every :: "duration \<Rightarrow> conversion_poll_deadlines" where
  "polling_every interval = PRODUCTION\<lparr>cd_interval := interval\<rparr>"

definition with_backpressure :: "conversion_poll_deadlines \<Rightarrow> backpressure_policy \<Rightarrow> conversion_poll_deadlines" where
  "with_backpressure dl policy = dl\<lparr>cd_backpressure := policy\<rparr>"

subsection \<open>The polls\<close>

record 'f settled_conversion_order =
  so_order :: "'f crypto_order"
  so_outcome :: terminal_crypto_outcome
  so_deadline_cancelled :: bool

definition request_cancel ::
  "('w, 'f) conversion_orders \<Rightarrow> uuid \<Rightarrow> 'w \<Rightarrow> ('f broker_error + deadline_cancel) \<times> 'w" where
  "request_cancel os i w =
     (case co_cancel_order os i w of
        (Inr Requested, w') \<Rightarrow> (Inr Accepted, w')
      | (Inr OrderNotFound, w') \<Rightarrow> (Inl (ConversionOrderNotFound i), w')
      | (Inl (ApiError status code message wait), w') \<Rightarrow>
          if status = 422 then (Inr Declined, w') else (Inr CancelFailed, w')
      | (Inl e, w') \<Rightarrow> (Inr CancelFailed, w'))"

text \<open>
  The loop of \<open>cancel_and_settle\<close>: \<open>cancel\<close> is how the broker answered the last cancel, \<open>filled\<close> the last
  fill reported.
\<close>

partial_function (option) settle_loop ::
  "'w timer \<Rightarrow> ('w, 'f) conversion_orders \<Rightarrow> uuid \<Rightarrow> conversion_poll_deadlines \<Rightarrow> instant
   \<Rightarrow> deadline_cancel \<Rightarrow> 'f option \<Rightarrow> 'w
   \<Rightarrow> (('f broker_error + ('f crypto_order \<times> terminal_crypto_outcome)) \<times> 'w) option" where
  "settle_loop T os i dl window_end cancel filled w =
     (if tm_now T w < window_end
      then (case timeout_at T window_end (co_get_conversion_order os i) w of
          (None, w1) \<Rightarrow> Some (Inl (ConversionCancelNotSettled i cancel filled), w1)
        | (Some r, w1) \<Rightarrow>
            (let again = (case r of
                   Inl _ \<Rightarrow> Inr filled
                 | Inr x \<Rightarrow>
                     (case terminal (classify (cr_status x)) of
                        Some outcome \<Rightarrow> Inl (x, outcome)
                      | None \<Rightarrow> Inr (or_else (cr_filled_quantity x) filled)))
             in case again of
                  Inl settled \<Rightarrow> Some (Inr settled, w1)
                | Inr filled' \<Rightarrow>
                    (let w2 = poll_sleep T (cd_interval dl) window_end w1
                     in if cancel = CancelFailed \<and> tm_now T w2 < window_end
                        then (case request_cancel os i w2 of
                            (Inl e, w3) \<Rightarrow> Some (Inl e, w3)
                          | (Inr cancel', w3) \<Rightarrow> settle_loop T os i dl window_end cancel' filled' w3)
                        else settle_loop T os i dl window_end cancel filled' w2)))
      else Some (Inl (ConversionCancelNotSettled i cancel filled), w))"

definition cancel_and_settle ::
  "'w timer \<Rightarrow> ('w, 'f) conversion_orders \<Rightarrow> uuid \<Rightarrow> conversion_poll_deadlines \<Rightarrow> 'f option \<Rightarrow> 'w
   \<Rightarrow> (('f broker_error + ('f crypto_order \<times> terminal_crypto_outcome)) \<times> 'w) option" where
  "cancel_and_settle T os i dl last_filled w =
     (case request_cancel os i w of
        (Inl e, w1) \<Rightarrow> Some (Inl e, w1)
      | (Inr cancel, w1) \<Rightarrow>
          settle_loop T os i dl (poll_deadline (tm_now T w1) (cd_cancel_settle dl)) cancel last_filled w1)"

text \<open>
  The loop of \<open>poll_until_terminal\<close>: it ends with a result, or at the deadline with the last fill
  reported.
\<close>

partial_function (option) await_loop ::
  "'w timer \<Rightarrow> ('w, 'f) conversion_orders \<Rightarrow> uuid \<Rightarrow> conversion_poll_deadlines \<Rightarrow> instant
   \<Rightarrow> 'f option \<Rightarrow> 'w
   \<Rightarrow> ((('f broker_error + 'f settled_conversion_order) + 'f option) \<times> 'w) option" where
  "await_loop T os i dl deadline last_filled w =
     (if tm_now T w < deadline
      then (case timeout_at T deadline (co_get_conversion_order os i) w of
          (None, w1) \<Rightarrow> Some (Inr last_filled, w1)
        | (Some (Inr x), w1) \<Rightarrow>
            (case terminal (classify (cr_status x)) of
               Some outcome \<Rightarrow>
                 Some (Inl (Inr \<lparr>so_order = x, so_outcome = outcome, so_deadline_cancelled = False\<rparr>), w1)
             | None \<Rightarrow>
                 await_loop T os i dl deadline (or_else (cr_filled_quantity x) last_filled)
                   (poll_sleep T (cd_interval dl) deadline w1))
        | (Some (Inl e), w1) \<Rightarrow>
            if broker_permanence e = Transient
            then (if broker_backpressure e \<noteq> None \<and> cd_backpressure dl = Return
                  then Some (Inl (Inl e), w1)
                  else await_loop T os i dl deadline last_filled
                    (poll_sleep T
                      (case broker_backpressure e of
                         None \<Rightarrow> cd_interval dl
                       | Some b \<Rightarrow> capped_backpressure_wait b (cd_interval dl)) deadline w1))
            else Some (Inl (Inl e), w1))
      else Some (Inr last_filled, w))"

definition poll_until_terminal ::
  "'w timer \<Rightarrow> ('w, 'f) conversion_orders \<Rightarrow> uuid \<Rightarrow> conversion_poll_deadlines \<Rightarrow> 'w
   \<Rightarrow> (('f broker_error + 'f settled_conversion_order) \<times> 'w) option" where
  "poll_until_terminal T os i dl w =
     Option.bind (await_loop T os i dl (poll_deadline (tm_now T w) (cd_order dl)) None w) (\<lambda>(r, w1).
       case r of
         Inl result \<Rightarrow> Some (result, w1)
       | Inr last_filled \<Rightarrow>
           Option.bind (cancel_and_settle T os i dl last_filled w1) (\<lambda>(s, w2).
             Some (and_then s (\<lambda>(x, outcome).
               Inr \<lparr>so_order = x, so_outcome = outcome, so_deadline_cancelled = True\<rparr>), w2)))"

definition filled_or_failed ::
  "'f decimals \<Rightarrow> uuid \<Rightarrow> 'f settled_conversion_order \<Rightarrow> 'f broker_error + 'f crypto_order" where
  "filled_or_failed F i settled =
     (case so_outcome settled of
        Term_Filled \<Rightarrow> Inr (so_order settled)
      | Term_Failed reason \<Rightarrow>
          if reason = Canceled \<and> so_deadline_cancelled settled
          then and_then (ok_or (cr_filled_quantity (so_order settled))
                 (IncompleteOrder (ExecutorOrderId i) FilledQty)) (\<lambda>filled.
               and_then (map_err FloatConversion (fl_is_zero F filled)) (\<lambda>zero.
               if zero then Inl (ConversionTimedOut i) else Inr (so_order settled)))
          else Inl (CryptoOrderFailed i reason))"

definition poll_crypto_order_until_filled ::
  "'f decimals \<Rightarrow> 'w timer \<Rightarrow> ('w, 'f) conversion_orders \<Rightarrow> uuid \<Rightarrow> conversion_poll_deadlines \<Rightarrow> 'w
   \<Rightarrow> (('f broker_error + 'f crypto_order) \<times> 'w) option" where
  "poll_crypto_order_until_filled F T os i dl w =
     map_option (\<lambda>(r, w'). (and_then r (filled_or_failed F i), w')) (poll_until_terminal T os i dl w)"

definition poll_crypto_order_to_terminal ::
  "'w timer \<Rightarrow> ('w, 'f) conversion_orders \<Rightarrow> uuid \<Rightarrow> conversion_poll_deadlines \<Rightarrow> 'w
   \<Rightarrow> (('f broker_error + 'f crypto_order) \<times> 'w) option" where
  "poll_crypto_order_to_terminal T os i dl w =
     map_option (\<lambda>(r, w'). (and_then r (\<lambda>settled. Inr (so_order settled)), w')) (poll_until_terminal T os i dl w)"

definition place_and_poll_conversion ::
  "'f decimals \<Rightarrow> 'w timer \<Rightarrow> ('w, 'f) conversion_orders \<Rightarrow> 'f conversion_order \<Rightarrow> client_order_id
   \<Rightarrow> conversion_poll_deadlines \<Rightarrow> 'w \<Rightarrow> (('f broker_error + 'f crypto_order) \<times> 'w) option" where
  "place_and_poll_conversion F T os c k dl w =
     (case co_submit_conversion os c k w of
        (Inl e, w1) \<Rightarrow> Some (Inl e, w1)
      | (Inr x, w1) \<Rightarrow> poll_crypto_order_until_filled F T os (cr_id x) dl w1)"

definition convert_usdc_usd_with ::
  "'f decimals \<Rightarrow> 'w timer \<Rightarrow> ('w, 'f) conversion_orders \<Rightarrow> 'f conversion_order \<Rightarrow> client_order_id
   \<Rightarrow> duration \<Rightarrow> 'w \<Rightarrow> (('f broker_error + 'f crypto_order) \<times> 'w) option" where
  "convert_usdc_usd_with F T os c k poll_interval =
     place_and_poll_conversion F T os c k (polling_every poll_interval)"

definition poll_conversion_to_terminal_with ::
  "'w timer \<Rightarrow> ('w, 'f) conversion_orders \<Rightarrow> uuid \<Rightarrow> duration \<Rightarrow> 'w
   \<Rightarrow> (('f broker_error + 'f crypto_order) \<times> 'w) option" where
  "poll_conversion_to_terminal_with T os i poll_interval =
     poll_crypto_order_to_terminal T os i (polling_every poll_interval)"

subsection \<open>The polls return\<close>

lemma request_cancel_state: "snd (request_cancel os i w) = snd (co_cancel_order os i w)"
  by (simp add: request_cancel_def split: prod.split sum.split cancellation_outcome.split broker_error.split)

lemma request_cancel_later:
  "takes_time T (co_cancel_order os i) \<Longrightarrow> request_cancel os i w = (r, w') \<Longrightarrow> tm_now T w \<le> tm_now T w'"
  using request_cancel_state [of os i w] by (auto simp: takes_time_def)

lemma capped_wait_positive: "0 < scheduled \<Longrightarrow> 0 < capped_backpressure_wait b scheduled"
  using capped_wait_bounds [of scheduled b] by simp

text \<open>What a read of the order said when a loop returned.\<close>

definition reported :: "('w, 'f) conversion_orders \<Rightarrow> uuid \<Rightarrow> 'f crypto_order \<Rightarrow> terminal_crypto_outcome \<Rightarrow> 'w \<Rightarrow> bool" where
  "reported os i x outcome w' \<longleftrightarrow>
     (\<exists>w0. co_get_conversion_order os i w0 = (Inr x, w')) \<and> terminal (classify (cr_status x)) = Some outcome"

definition ends_the_poll :: "conversion_poll_deadlines \<Rightarrow> 'f broker_error \<Rightarrow> bool" where
  "ends_the_poll dl e \<longleftrightarrow>
     broker_permanence e \<noteq> Transient \<or> broker_backpressure e \<noteq> None \<and> cd_backpressure dl = Return"

fun await_ok ::
  "'w timer \<Rightarrow> ('w, 'f) conversion_orders \<Rightarrow> uuid \<Rightarrow> conversion_poll_deadlines \<Rightarrow> instant
   \<Rightarrow> (('f broker_error + 'f settled_conversion_order) + 'f option) \<Rightarrow> 'w \<Rightarrow> bool" where
  "await_ok T os i dl D (Inl (Inr s)) w' \<longleftrightarrow>
     reported os i (so_order s) (so_outcome s) w' \<and> \<not> so_deadline_cancelled s"
| "await_ok T os i dl D (Inl (Inl e)) w' \<longleftrightarrow>
     (\<exists>w0. co_get_conversion_order os i w0 = (Inl e, w')) \<and> ends_the_poll dl e"
| "await_ok T os i dl D (Inr lf) w' \<longleftrightarrow> D \<le> tm_now T w'"

lemma await_loop_ends:
  assumes "timer_laws T" "takes_time T (co_get_conversion_order os i)" "0 < cd_interval dl"
  shows "\<exists>x w'. await_loop T os i dl D f w = Some (x, w') \<and> tm_now T w \<le> tm_now T w'
    \<and> await_ok T os i dl D x w'"
proof (induction "D - tm_now T w" arbitrary: w f rule: less_induct)
  case less
  show ?case
  proof (cases "tm_now T w < D")
    case False
    then show ?thesis by (subst await_loop.simps) simp
  next
    case True
    obtain r w1 where t: "timeout_at T D (co_get_conversion_order os i) w = (r, w1)" by force
    have later: "tm_now T w \<le> tm_now T w1" by (rule timeout_at_later [OF assms(1,2) t])
    have step: "\<exists>x w'. await_loop T os i dl D f' (poll_sleep T d D w1) = Some (x, w')
        \<and> tm_now T w \<le> tm_now T w' \<and> await_ok T os i dl D x w'" if "0 < d" for d f'
      using less [OF poll_sleep_progress [OF assms(1) that later True], of f']
        poll_sleep_later [OF assms(1), of w1 d D] later by (meson order_trans)
    show ?thesis
    proof (cases r)
      case None
      with t True later timeout_at_dropped [OF assms(1)] show ?thesis
        by (subst await_loop.simps) auto
    next
      case (Some a)
      from timeout_at_ready [OF t [unfolded Some]] have "co_get_conversion_order os i w = (a, w1)" .
      then show ?thesis
        using t True Some later step assms(3) capped_wait_positive
        by (subst await_loop.simps)
          (auto simp: reported_def ends_the_poll_def split: sum.split option.split)
    qed
  qed
qed

text \<open>The answers to the deadline cancel, at or after the instant \<open>D\<close>.\<close>

definition cancel_answered ::
  "'w timer \<Rightarrow> ('w, 'f) conversion_orders \<Rightarrow> uuid \<Rightarrow> instant \<Rightarrow> 'f broker_error + deadline_cancel \<Rightarrow> bool" where
  "cancel_answered T os i D a \<longleftrightarrow> (\<exists>wc. D \<le> tm_now T wc \<and> fst (request_cancel os i wc) = a)"

fun settle_ok ::
  "'w timer \<Rightarrow> ('w, 'f) conversion_orders \<Rightarrow> uuid \<Rightarrow> instant
   \<Rightarrow> ('f broker_error + ('f crypto_order \<times> terminal_crypto_outcome)) \<Rightarrow> 'w \<Rightarrow> bool" where
  "settle_ok T os i D (Inr (x, outcome)) w' \<longleftrightarrow> reported os i x outcome w'"
| "settle_ok T os i D (Inl e) w' \<longleftrightarrow>
     cancel_answered T os i D (Inl e) \<and> e = ConversionOrderNotFound i
     \<or> (\<exists>c f. e = ConversionCancelNotSettled i c f \<and> cancel_answered T os i D (Inr c))"

lemma request_cancel_Inl: "request_cancel os i w = (Inl e, w') \<Longrightarrow> e = ConversionOrderNotFound i"
  by (auto simp: request_cancel_def split: prod.splits sum.splits cancellation_outcome.splits
      broker_error.splits if_splits)

lemma settle_loop_ends:
  assumes "timer_laws T" "takes_time T (co_get_conversion_order os i)" "takes_time T (co_cancel_order os i)"
    and "0 < cd_interval dl"
  shows "cancel_answered T os i D (Inr c) \<Longrightarrow> D \<le> tm_now T w \<Longrightarrow>
    \<exists>x w'. settle_loop T os i dl E c f w = Some (x, w') \<and> settle_ok T os i D x w'"
proof (induction "E - tm_now T w" arbitrary: w c f rule: less_induct)
  case less
  show ?case
  proof (cases "tm_now T w < E")
    case False
    with less.prems show ?thesis by (subst settle_loop.simps) auto
  next
    case True
    obtain r w1 where t: "timeout_at T E (co_get_conversion_order os i) w = (r, w1)" by force
    have later: "tm_now T w \<le> tm_now T w1" by (rule timeout_at_later [OF assms(1,2) t])
    let ?w2 = "poll_sleep T (cd_interval dl) E w1"
    have near: "E - tm_now T ?w2 < E - tm_now T w"
      by (rule poll_sleep_progress [OF assms(1,4) later True])
    have D: "D \<le> tm_now T ?w2" using less.prems(2) later poll_sleep_later [OF assms(1), of w1 "cd_interval dl" E] by simp
    have step: "\<exists>x w'. settle_loop T os i dl E c' f' w3 = Some (x, w') \<and> settle_ok T os i D x w'"
      if "tm_now T ?w2 \<le> tm_now T w3" "cancel_answered T os i D (Inr c')" for c' f' w3
      using less.hyps [of w3 c' f'] near that D by simp
    have after: "tm_now T ?w2 \<le> tm_now T w3 \<and> cancel_answered T os i D x" if "request_cancel os i ?w2 = (x, w3)" for x w3
      using request_cancel_later [OF assms(3) that] that D by (auto simp: cancel_answered_def intro: exI [of _ ?w2])
    have notfound: "e = ConversionOrderNotFound i" if "request_cancel os i ?w2 = (Inl e, w3)" for e w3
      by (rule request_cancel_Inl [OF that])
    show ?thesis
    proof (cases r)
      case None
      with t True less.prems show ?thesis by (subst settle_loop.simps) auto
    next
      case (Some a)
      from timeout_at_ready [OF t [unfolded Some]] have read: "co_get_conversion_order os i w = (a, w1)" .
      have again: "\<exists>x w'. (if c = CancelFailed \<and> tm_now T ?w2 < E
            then (case request_cancel os i ?w2 of
                (Inl e, w3) \<Rightarrow> Some (Inl e, w3)
              | (Inr c', w3) \<Rightarrow> settle_loop T os i dl E c' f' w3)
            else settle_loop T os i dl E c f' ?w2) = Some (x, w') \<and> settle_ok T os i D x w'" for f'
        using step [OF order_refl less.prems(1), of f'] step after notfound
        by (force split: prod.split sum.split)
      show ?thesis
        using t True Some read again
        by (subst settle_loop.simps) (auto simp: Let_def reported_def split: sum.split option.split)
    qed
  qed
qed

lemma cancel_and_settle_ends:
  assumes "timer_laws T" "takes_time T (co_get_conversion_order os i)" "takes_time T (co_cancel_order os i)"
    and "0 < cd_interval dl" "D \<le> tm_now T w"
  shows "\<exists>x w'. cancel_and_settle T os i dl f w = Some (x, w') \<and> settle_ok T os i D x w'
    \<and> (\<exists>a. cancel_answered T os i D a)"
proof -
  obtain a w1 where a: "request_cancel os i w = (a, w1)" by force
  have ans: "cancel_answered T os i D a" using a assms(5) by (auto simp: cancel_answered_def intro: exI [of _ w])
  have D: "D \<le> tm_now T w1" using request_cancel_later [OF assms(3) a] assms(5) by simp
  show ?thesis
  proof (cases a)
    case (Inl e)
    with a ans request_cancel_Inl [of os i w e w1] show ?thesis by (auto simp: cancel_and_settle_def)
  next
    case (Inr c)
    obtain x w' where
      "settle_loop T os i dl (poll_deadline (tm_now T w1) (cd_cancel_settle dl)) c f w1 = Some (x, w')"
      "settle_ok T os i D x w'"
      using settle_loop_ends [OF assms(1-4), of D c w1] ans D Inr by blast
    with ans a Inr show ?thesis by (auto simp: cancel_and_settle_def)
  qed
qed

subsection \<open>Properties\<close>

lemma poll_until_terminal_ends:
  assumes "timer_laws T" "takes_time T (co_get_conversion_order os i)" "takes_time T (co_cancel_order os i)"
    and "0 < cd_interval dl" and D: "D = poll_deadline (tm_now T w) (cd_order dl)"
  obtains r w' where "poll_until_terminal T os i dl w = Some (r, w')"
    "\<And>s. r = Inr s \<Longrightarrow> reported os i (so_order s) (so_outcome s) w'"
    "\<And>s. r = Inr s \<Longrightarrow> so_deadline_cancelled s \<Longrightarrow> \<exists>a. cancel_answered T os i D a"
    "\<And>e. r = Inl e \<Longrightarrow> (\<exists>w0. co_get_conversion_order os i w0 = (Inl e, w')) \<and> ends_the_poll dl e
       \<or> settle_ok T os i D (Inl e) w'"
proof -
  obtain x w1 where aw: "await_loop T os i dl D None w = Some (x, w1)" "await_ok T os i dl D x w1"
    using await_loop_ends [OF assms(1,2,4)] by blast
  show ?thesis
  proof (cases x)
    case (Inl res)
    show ?thesis
      by (rule that [of res w1]) (use Inl aw D in \<open>auto simp: poll_until_terminal_def\<close>)
  next
    case (Inr lf)
    with aw have "D \<le> tm_now T w1" by simp
    then obtain y w2 a where y: "cancel_and_settle T os i dl lf w1 = Some (y, w2)" "settle_ok T os i D y w2"
      "cancel_answered T os i D a"
      using cancel_and_settle_ends [OF assms(1-4)] by blast
    show ?thesis
      by (rule that [of "and_then y (\<lambda>(x, outcome).
            Inr \<lparr>so_order = x, so_outcome = outcome, so_deadline_cancelled = True\<rparr>)" w2])
        (use Inr aw D y in \<open>auto simp: poll_until_terminal_def and_then_Inr_iff and_then_Inl_iff split: prod.splits\<close>)
  qed
qed

text \<open>
  C27: A conversion poll always returns. Whatever Alpaca answers, on a clock that moves with the
  poll's own sleeps and with a positive interval, neither the wait for a terminal state nor the wait
  for the cancel to settle runs forever.
\<close>

theorem conversion_poll_returns:
  assumes "timer_laws T" and "takes_time T (co_get_conversion_order os i)"
    and "takes_time T (co_cancel_order os i)" and "0 < cd_interval dl"
  shows "(\<exists>r w'. poll_crypto_order_until_filled F T os i dl w = Some (r, w'))
    \<and> (\<exists>r w'. poll_crypto_order_to_terminal T os i dl w = Some (r, w'))"
  by (rule poll_until_terminal_ends [OF assms refl, of w])
    (simp add: poll_crypto_order_until_filled_def poll_crypto_order_to_terminal_def)

text \<open>
  C26: A stalled conversion is never left alone. A poll ends in one of three ways: Alpaca reported a
  state the order can no longer leave; a read failed with an error that ends the poll (one a later
  read cannot clear, or a throttle the caller asked to have back); or, at or after the deadline, the
  cancel was sent, and the error says that Alpaca does not know the order or that the cancel did not
  settle, with the answer the cancel really got.
\<close>

theorem stalled_conversion_is_cancelled:
  assumes "timer_laws T" and "takes_time T (co_get_conversion_order os i)"
    and "takes_time T (co_cancel_order os i)" and "0 < cd_interval dl"
    and "poll_until_terminal T os i dl w = Some (r, w')"
  shows "case r of
      Inr s \<Rightarrow> reported os i (so_order s) (so_outcome s) w'
        \<and> (so_deadline_cancelled s \<longrightarrow>
             (\<exists>a. cancel_answered T os i (poll_deadline (tm_now T w) (cd_order dl)) a))
    | Inl e \<Rightarrow>
        (\<exists>w0. co_get_conversion_order os i w0 = (Inl e, w')) \<and> ends_the_poll dl e
        \<or> cancel_answered T os i (poll_deadline (tm_now T w) (cd_order dl)) (Inl e)
            \<and> e = ConversionOrderNotFound i
        \<or> (\<exists>c f. e = ConversionCancelNotSettled i c f
             \<and> cancel_answered T os i (poll_deadline (tm_now T w) (cd_order dl)) (Inr c))"
  by (rule poll_until_terminal_ends [OF assms(1-4) refl, of w])
    (use assms(5) in \<open>auto split: sum.split\<close>)

text \<open>
  A conversion that succeeds moved money. The order returned is one Alpaca reported, filled, or
  cancelled by this poll's own deadline cancel with a fill that is known and not zero; a partial
  fill is never accepted from an order somebody else cancelled.
\<close>

theorem converted_means_filled:
  assumes "timer_laws T" and "takes_time T (co_get_conversion_order os i)"
    and "takes_time T (co_cancel_order os i)" and "0 < cd_interval dl"
    and "poll_crypto_order_until_filled F T os i dl w = Some (Inr x, w')"
  shows "(\<exists>w0. co_get_conversion_order os i w0 = (Inr x, w'))
    \<and> (cr_status x = BS_Filled
       \<or> cr_status x = BS_Canceled
         \<and> (\<exists>q. cr_filled_quantity x = Some q \<and> fl_is_zero F q = Inr False)
         \<and> (\<exists>a. cancel_answered T os i (poll_deadline (tm_now T w) (cd_order dl)) a))"
proof -
  obtain s where p: "poll_until_terminal T os i dl w = Some (Inr s, w')" and s: "filled_or_failed F i s = Inr x"
    using assms(5) by (auto simp: poll_crypto_order_until_filled_def and_then_Inr_iff)
  have r: "reported os i (so_order s) (so_outcome s) w'"
    "so_deadline_cancelled s \<Longrightarrow> \<exists>a. cancel_answered T os i (poll_deadline (tm_now T w) (cd_order dl)) a"
    by (rule poll_until_terminal_ends [OF assms(1-4) refl, of w]; use p in auto)+
  have term_filled: "terminal (classify st) = Some Term_Filled \<Longrightarrow> st = BS_Filled"
    and term_canceled: "terminal (classify st) = Some (Term_Failed Canceled) \<Longrightarrow> st = BS_Canceled" for st
    by (cases st; simp)+
  show ?thesis
    using s r term_filled term_canceled
    by (auto simp: filled_or_failed_def reported_def and_then_Inr_iff
        split: terminal_crypto_outcome.splits if_splits)
qed

text \<open>A conversion that Alpaca never settles, on a clock of its own.\<close>

definition stuck_order :: "nat crypto_order" where
  "stuck_order = \<lparr>cr_id = ''c1'', cr_symbol = ''USDCUSD'', cr_quantity = None, cr_notional = Some 5,
     cr_status = BS_PartiallyFilled, cr_filled_average_price = None, cr_filled_quantity = Some 3,
     cr_created_at = 0\<rparr>"

text \<open>The second component of the world is whether the order was cancelled.\<close>

definition stuck_orders :: "(instant \<times> bool, nat) conversion_orders" where
  "stuck_orders = \<lparr>
     co_submit_conversion = (\<lambda>_ _ w. (Inr stuck_order, w)),
     co_get_conversion_order = (\<lambda>_ w.
       (Inr (stuck_order\<lparr>cr_status := (if snd w then BS_Canceled else BS_PartiallyFilled)\<rparr>), w)),
     co_find_conversion_order = (\<lambda>_ w. (Inr None, w)),
     co_cancel_order = (\<lambda>_ w. (Inr Requested, (fst w, True)))\<rparr>"

definition short_deadlines :: conversion_poll_deadlines where
  "short_deadlines = PRODUCTION\<lparr>cd_order := 5, cd_interval := 5\<rparr>"

lemma stuck_takes_time:
  "takes_time clock_timer (co_get_conversion_order stuck_orders i)"
  "takes_time clock_timer (co_cancel_order stuck_orders i)"
  by (simp_all add: takes_time_def stuck_orders_def)

lemma stuck_poll:
  "poll_until_terminal clock_timer stuck_orders ''c1'' short_deadlines (0, False) =
     Some (Inr \<lparr>so_order = stuck_order\<lparr>cr_status := BS_Canceled\<rparr>, so_outcome = Term_Failed Canceled,
       so_deadline_cancelled = True\<rparr>, (5, True))"
proof -
  have "poll_deadline 0 5 = 5"
    by (simp add: poll_deadline_def checked_add_def INSTANT_MAX_def nanos_per_sec_def)
  moreover have "5 < poll_deadline 5 (cd_cancel_settle short_deadlines)"
    by (simp add: poll_deadline_def checked_add_def INSTANT_MAX_def short_deadlines_def PRODUCTION_def
        CANCEL_SETTLE_DEADLINE_def from_secs_def nanos_per_sec_def)
  ultimately show ?thesis
    by (simp add: poll_until_terminal_def await_loop.simps settle_loop.simps cancel_and_settle_def
        request_cancel_def timeout_at_def stuck_orders_def stuck_order_def short_deadlines_def
        PRODUCTION_def clock_timer_def poll_sleep_def next_poll_delay_def Let_def)
qed

theorem conversion_poll_returns_witness:
  "(\<exists>r w'. poll_crypto_order_until_filled fixed18 clock_timer stuck_orders ''c1'' PRODUCTION (0, False) = Some (r, w'))
   \<and> (\<exists>r w'. poll_crypto_order_to_terminal clock_timer stuck_orders ''c1'' PRODUCTION (0, False) = Some (r, w'))"
  by (rule conversion_poll_returns [OF clock_timer_laws stuck_takes_time])
    (simp add: PRODUCTION_def CONVERSION_POLL_INTERVAL_def from_millis_def)

theorem stalled_conversion_is_cancelled_witness:
  "\<exists>s w' a. poll_until_terminal clock_timer stuck_orders ''c1'' short_deadlines (0, False) = Some (Inr s, w')
     \<and> so_deadline_cancelled s \<and> cancel_answered clock_timer stuck_orders ''c1'' 5 a"
proof -
  have "0 < cd_interval short_deadlines" by (simp add: short_deadlines_def)
  from stalled_conversion_is_cancelled [OF clock_timer_laws stuck_takes_time this stuck_poll] stuck_poll
  show ?thesis
    by (auto simp: poll_deadline_def checked_add_def INSTANT_MAX_def nanos_per_sec_def short_deadlines_def)
qed

theorem converted_means_filled_witness:
  "\<exists>x w'. poll_crypto_order_until_filled fixed18 clock_timer stuck_orders ''c1'' short_deadlines (0, False)
      = Some (Inr x, w')
    \<and> (\<exists>q. cr_filled_quantity x = Some q \<and> fl_is_zero fixed18 q = Inr False)"
proof -
  have i: "0 < cd_interval short_deadlines" by (simp add: short_deadlines_def)
  have p: "poll_crypto_order_until_filled fixed18 clock_timer stuck_orders ''c1'' short_deadlines (0, False)
      = Some (Inr (stuck_order\<lparr>cr_status := BS_Canceled\<rparr>), (5, True))"
    by (simp add: poll_crypto_order_until_filled_def stuck_poll filled_or_failed_def stuck_order_def fixed18_def)
  from converted_means_filled [OF clock_timer_laws stuck_takes_time i p] p show ?thesis
    by (auto simp: stuck_order_def)
qed

end
