(* ===== verification/Wire.thy ===== *)
theory Wire
  imports Broker_Client
begin

text \<open>
  What the wallet, tokenization and issuer clients share: a request built on the client's base URL,
  authorised by the credential runtime, sent through the task's gate, and answered by Alpaca. The
  record \<open>wire\<close> holds what lies below these clients (the HTTP transport and Alpaca behind it, the
  credential runtime, the clock, lossy UTF-8 decoding). JSON values are data; parsing and printing
  them is a parameter of the clients.
\<close>

subsection \<open>JSON values\<close>

datatype json =
    JNull
  | JBool bool
  | JNumber string
  | JString string
  | JArray "json list"
  | JObject "(string \<times> json) list"

text \<open>\<open>Value::get\<close> by key and \<open>Value::as_str\<close>.\<close>

fun json_get :: "json \<Rightarrow> string \<Rightarrow> json option" where
  "json_get (JObject m) k = map_of m k"
| "json_get _ k = None"

fun json_str :: "json \<Rightarrow> string option" where
  "json_str (JString s) = Some s"
| "json_str _ = None"

definition json_field :: "json \<Rightarrow> string \<Rightarrow> string option" where
  "json_field v k = Option.bind (json_get v k) json_str"

subsection \<open>Requests\<close>

datatype wire_method = W_Get | W_Post | W_Patch | W_Delete

record 'b wire_request =
  wq_method :: wire_method
  wq_url :: string
  wq_query :: "(string \<times> string) list"
  wq_body :: "'b option"
  wq_authorization :: string

record ('env, 'w, 'b) wire =
  wi_env :: "'w \<Rightarrow> 'env"
  wi_authorize :: "'w \<Rightarrow> (kms_jwt_error + string) \<times> 'w"
  wi_http :: "'b wire_request \<Rightarrow> 'w \<Rightarrow> (reqwest_error + http_answer) \<times> 'w"
  wi_system_time :: "'w \<Rightarrow> int"
  wi_rfc2822 :: rfc2822_parser
  wi_utf8_lossy :: "bytes \<Rightarrow> string"

type_synonym ('env, 'w, 'b) wire_state = "('env, 'b wire_request) net \<times> 'w"

type_synonym ('env, 'w, 'b, 'e, 'a) wire_call =
  "('env, 'w, 'b) wire_state \<Rightarrow> ('e + 'a) \<times> ('env, 'w, 'b) wire_state"

text \<open>
  \<open>auth.apply\<close> followed by \<open>request_id::send\<close>: a request is authorised first, and goes out only
  through an open gate. \<open>of_auth\<close> and \<open>of_send\<close> are the client's \<open>From\<close> implementations.
\<close>

definition transmit ::
  "(kms_jwt_error \<Rightarrow> 'e) \<Rightarrow> (send_error \<Rightarrow> 'e) \<Rightarrow> ('env, 'w, 'b) wire \<Rightarrow> wire_method \<Rightarrow> string
   \<Rightarrow> (string \<times> string) list \<Rightarrow> 'b option \<Rightarrow> ('env, 'w, 'b, 'e, http_answer) wire_call" where
  "transmit of_auth of_send X m url q b s =
     (case s of (n, w) \<Rightarrow>
      (case wi_authorize X w of
         (Inl e, w1) \<Rightarrow> (Inl (of_auth e), (n, w1))
       | (Inr auth, w1) \<Rightarrow>
           let req = \<lparr>wq_method = m, wq_url = url, wq_query = q, wq_body = b, wq_authorization = auth\<rparr>
           in (case start (wi_env X w1) req n of
                 (Inl e, n1) \<Rightarrow> (Inl (of_send e), (n1, w1))
               | (Inr _, n1) \<Rightarrow>
                   (case wi_http X req w1 of
                      (Inl e, w2) \<Rightarrow> (Inl (of_send (SendHttp e)), (n1, w2))
                    | (Inr a, w2) \<Rightarrow> (Inr a, (n1, w2))))))"

text \<open>\<open>request_id::record\<close> of an answer's status and headers.\<close>

definition record_head :: "http_answer \<Rightarrow> ('env, 'w, 'b) wire_state \<Rightarrow> ('env, 'w, 'b) wire_state" where
  "record_head a s =
     (case s of (n, w) \<Rightarrow> (n\<lparr>locals := record_answer (ha_status a) (ha_headers a) (locals n)\<rparr>, w))"

definition head_retry_after ::
  "('env, 'w, 'b) wire \<Rightarrow> http_answer \<Rightarrow> ('env, 'w, 'b) wire_state \<Rightarrow> duration option" where
  "head_retry_after X a s =
     retry_after_from_response_headers (wi_rfc2822 X) (ha_headers a) (wi_system_time X (snd s))"

subsection \<open>What was sent\<close>

abbreviation sent_so_far :: "('env, 'w, 'b) wire_state \<Rightarrow> 'b wire_request list" where
  "sent_so_far s \<equiv> handed (fst s)"

lemma record_head_sent [simp]: "sent_so_far (record_head a s) = sent_so_far s"
  by (cases s) (simp add: record_head_def)

lemma record_head_world [simp]: "snd (record_head a s) = snd s"
  by (cases s) (simp add: record_head_def)

lemma start_sent:
  "start env req n = (r, n') \<Longrightarrow> handed n' = (if r = Inr () then handed n @ [req] else handed n)"
  by (auto simp: start_def split: option.splits sum.splits)

text \<open>A transmission hands over one request or none; with none, the error says so.\<close>

lemma transmit_cases:
  assumes "transmit of_auth of_send X m url q b s = (r, s')"
  obtains
    (unsent) e where "r = Inl e" "sent_so_far s' = sent_so_far s"
      "(\<exists>k. e = of_auth k) \<or> e = of_send (SendNotSent GateClosed)"
  | (failed) req h where "sent_so_far s' = sent_so_far s @ [req]" "r = Inl (of_send (SendHttp h))"
      "wq_method req = m" "wq_url req = url" "wq_query req = q" "wq_body req = b"
      "\<exists>w1. wi_http X req w1 = (Inl h, snd s')"
  | (answered) req a w1 where "sent_so_far s' = sent_so_far s @ [req]" "r = Inr a"
      "wq_method req = m" "wq_url req = url" "wq_query req = q" "wq_body req = b"
      "wi_http X req w1 = (Inr a, snd s')"
proof -
  obtain n w where s: "s = (n, w)" by force
  obtain au w1 where au: "wi_authorize X w = (au, w1)" by force
  show ?thesis
  proof (cases au)
    case (Inl e)
    with assms s au show ?thesis by (intro unsent) (auto simp: transmit_def)
  next
    case (Inr tok)
    let ?req = "\<lparr>wq_method = m, wq_url = url, wq_query = q, wq_body = b, wq_authorization = tok\<rparr>"
    obtain st n1 where st: "start (wi_env X w1) ?req n = (st, n1)" by force
    show ?thesis
    proof (cases st)
      case (Inl e)
      then have "e = SendNotSent GateClosed"
        using st by (auto simp: start_def hold_def split: option.splits sum.splits if_splits)
      with Inl assms s au Inr st start_sent [OF st] show ?thesis
        by (intro unsent) (auto simp: transmit_def Let_def)
    next
      case start: (Inr u)
      obtain h w2 where h: "wi_http X ?req w1 = (h, w2)" by force
      have hd: "handed n1 = handed n @ [?req]" using start_sent [OF st] start by simp
      show ?thesis
      proof (cases h)
        case (Inl e)
        with assms s au Inr st start h hd show ?thesis
          by (intro failed [of ?req e]) (auto simp: transmit_def Let_def)
      next
        case (Inr a)
        with assms s au \<open>au = Inr tok\<close> st start h hd show ?thesis
          by (intro answered [of ?req a w1]) (auto simp: transmit_def Let_def)
      qed
    qed
  qed
qed

lemma transmit_sent:
  "transmit of_auth of_send X m url q b s = (r, s') \<Longrightarrow>
     sent_so_far s' = sent_so_far s
     \<or> (\<exists>req. sent_so_far s' = sent_so_far s @ [req] \<and> wq_method req = m \<and> wq_url req = url
          \<and> wq_query req = q \<and> wq_body req = b)"
  by (erule transmit_cases) auto

definition keeps_sent :: "('a \<Rightarrow> ('env, 'w, 'b) wire_state \<Rightarrow> 'r \<times> ('env, 'w, 'b) wire_state) \<Rightarrow> bool" where
  "keeps_sent k \<longleftrightarrow> (\<forall>a s. sent_so_far (snd (k a s)) = sent_so_far s)"

lemma keeps_sentD:
  assumes "keeps_sent k" "k a s = (r, s')"
  shows "sent_so_far s' = sent_so_far s"
proof -
  from assms(1) have "sent_so_far (snd (k a s)) = sent_so_far s" unfolding keeps_sent_def by blast
  with assms(2) show ?thesis by simp
qed

lemma then_call_Pair:
  assumes "then_call m f s = (r, s')"
  obtains (failed) e where "m s = (Inl e, s')" "r = Inl e"
  | (went_on) x s1 where "m s = (Inr x, s1)" "f x s1 = (r, s')"
  using assms by (auto simp: then_call_def split: prod.splits sum.splits)

text \<open>The requests a call sent, oldest first.\<close>

definition sends :: "('env, 'w, 'b) wire_state \<Rightarrow> 'b wire_request list \<Rightarrow> ('env, 'w, 'b) wire_state \<Rightarrow> bool" where
  "sends s reqs s' \<longleftrightarrow> sent_so_far s' = sent_so_far s @ reqs"

definition is_query ::
  "wire_method \<Rightarrow> string \<Rightarrow> (string \<times> string) list \<Rightarrow> 'b option \<Rightarrow> 'b wire_request \<Rightarrow> bool" where
  "is_query m url q b req \<longleftrightarrow> wq_method req = m \<and> wq_url req = url \<and> wq_query req = q \<and> wq_body req = b"

abbreviation is_request :: "wire_method \<Rightarrow> string \<Rightarrow> 'b option \<Rightarrow> 'b wire_request \<Rightarrow> bool" where
  "is_request m url b \<equiv> is_query m url [] b"

lemma sends_refl [simp]: "sends s [] s"
  by (simp add: sends_def)

lemma sends_trans: "sends s xs s1 \<Longrightarrow> sends s1 ys s2 \<Longrightarrow> sends s (xs @ ys) s2"
  by (simp add: sends_def)

text \<open>\<open>req\<close> was answered with success and the body \<open>b\<close>.\<close>

definition answered_with :: "('env, 'w, 'b) wire \<Rightarrow> 'b wire_request \<Rightarrow> bytes \<Rightarrow> bool" where
  "answered_with X req b \<longleftrightarrow>
     (\<exists>a w1 w2. wi_http X req w1 = (Inr a, w2) \<and> is_success (ha_status a) \<and> ha_body a = Inr b)"

lemma exchange_sends:
  assumes "then_call (transmit of_auth of_send X m url q b) k s = (r, s')"
    and k: "keeps_sent k"
  shows "sends s [] s' \<and> ((\<exists>k. r = Inl (of_auth k)) \<or> r = Inl (of_send (SendNotSent GateClosed)))
    \<or> (\<exists>req. sends s [req] s' \<and> is_query m url q b req
         \<and> ((\<exists>h w1 w2. wi_http X req w1 = (Inl h, w2) \<and> r = Inl (of_send (SendHttp h)))
            \<or> (\<exists>a w1 w2 s1. wi_http X req w1 = (Inr a, w2) \<and> k a s1 = (r, s'))))"
  using assms(1)
proof (cases rule: then_call_Pair)
  case (failed e)
  from failed(1) show ?thesis
  proof (cases rule: transmit_cases)
    case (unsent e')
    with failed(2) show ?thesis by (auto simp: sends_def)
  next
    case (failed req h)
    with \<open>r = Inl e\<close> have "sends s [req] s' \<and> is_query m url q b req" "r = Inl (of_send (SendHttp h))"
      "\<exists>w1 w2. wi_http X req w1 = (Inl h, w2)"
      by (auto simp: sends_def is_query_def)
    then show ?thesis by blast
  qed simp
next
  case (went_on a s1)
  from went_on(1) show ?thesis
  proof (cases rule: transmit_cases)
    case (answered req a' w1)
    then have "wi_http X req w1 = (Inr a, snd s1)" by simp
    moreover have "sends s [req] s' \<and> is_query m url q b req"
      using answered keeps_sentD [OF k went_on(2)] by (simp add: sends_def is_query_def)
    ultimately show ?thesis using went_on(2) by blast
  qed auto
qed

text \<open>A body that cannot be read fails after the connection was made.\<close>

definition wire_reads_late :: "('env, 'w, 'b) wire \<Rightarrow> bool" where
  "wire_reads_late X \<longleftrightarrow>
     (\<forall>req w a w' e. wi_http X req w = (Inr a, w') \<longrightarrow> ha_body a = Inl e \<longrightarrow> \<not> (is_builder e \<or> is_connect e))"

subsection \<open>A concrete wire\<close>

text \<open>Outside every gate and scope, with one credential and a fixed answer to each request.\<close>

definition open_net :: "(unit, 'b wire_request) net" where
  "open_net = \<lparr>locals = \<lparr>TRAFFIC = None, GATE = None, LAST_ANSWER = None\<rparr>,
     gates = (\<lambda>_. new_gate (\<lambda>_. True)), handed = []\<rparr>"

definition canned_wire :: "('b wire_request \<Rightarrow> reqwest_error + http_answer) \<Rightarrow> (unit, unit, 'b) wire" where
  "canned_wire answer = \<lparr>wi_env = (\<lambda>_. ()), wi_authorize = (\<lambda>w. (Inr ''token'', w)),
     wi_http = (\<lambda>req w. (answer req, w)), wi_system_time = (\<lambda>_. 0), wi_rfc2822 = (\<lambda>_. None),
     wi_utf8_lossy = (\<lambda>b. b)\<rparr>"

definition answer_of :: "nat \<Rightarrow> bytes \<Rightarrow> reqwest_error + http_answer" where
  "answer_of status b = Inr \<lparr>ha_status = status, ha_headers = [], ha_body = Inr b\<rparr>"

lemma canned_lossy [simp]: "wi_utf8_lossy (canned_wire answer) b = b"
  by (simp add: canned_wire_def)

text \<open>One exchange on it, evaluated.\<close>

lemma canned_transmit:
  assumes "GATE (locals n) = None"
  shows "transmit of_auth of_send (canned_wire answer) m url q b (n, u) =
     (let req = \<lparr>wq_method = m, wq_url = url, wq_query = q, wq_body = b, wq_authorization = ''token''\<rparr>
      in (map_err (\<lambda>e. of_send (SendHttp e)) (answer req), (n\<lparr>handed := handed n @ [req]\<rparr>, u)))"
  using assms
  by (auto simp: transmit_def canned_wire_def start_def Let_def map_err_def split: sum.split)

end
