(* ===== verification/Wallet_Client.thy ===== *)
theory Wallet_Client
  imports Wire
begin

text \<open>
  The wallet client and service (\<^verbatim>\<open>src/wallet/client.rs\<close>, \<^verbatim>\<open>transfer.rs\<close>, \<^verbatim>\<open>whitelist.rs\<close>, \<^verbatim>\<open>asset.rs\<close>,
  \<^verbatim>\<open>mod.rs\<close>): exchanges with their error bodies and redaction, whitelist entries, withdrawals, transfer
  reads. Addresses and transaction hashes are their canonical text. The record \<open>wallet_json\<close> holds what
  serde derives for the wire types and what serde_json and alloy parse and print.
\<close>

subsection \<open>Types\<close>

datatype transfer_direction = Incoming | Outgoing

fun is_pending :: "transfer_status \<Rightarrow> bool" where
  "is_pending TransferPending = True"
| "is_pending TransferProcessing = True"
| "is_pending TransferComplete = False"
| "is_pending TransferFailedStatus = False"

record 'f transfer =
  tr_id :: uuid
  tr_tx :: "string option"
  tr_direction :: transfer_direction
  tr_amount :: 'f
  tr_chain :: string
  tr_asset :: string
  tr_from :: string
  tr_to :: string
  tr_status :: transfer_status
  tr_created_at :: utc

record 'f transfer_with_fees =
  tf_transfer :: "'f transfer"
  tf_network_fee :: "'f option"
  tf_fees :: "'f option"

datatype reported_fees_error = NonUsdcAsset string | FeesFloat string

text \<open>\<open>add\<close> is the checked sum of two amounts of rain-math-float.\<close>

definition reported_fees ::
  "('f \<Rightarrow> 'f \<Rightarrow> string + 'f) \<Rightarrow> 'f transfer_with_fees \<Rightarrow> reported_fees_error + 'f option" where
  "reported_fees add t =
     (if tr_asset (tf_transfer t) \<noteq> ''USDC'' then Inl (NonUsdcAsset (tr_asset (tf_transfer t)))
      else case (tf_network_fee t, tf_fees t) of
          (Some network_fee, Some fees) \<Rightarrow>
            and_then (map_err FeesFloat (add network_fee fees)) (\<lambda>total. Inr (Some total))
        | _ \<Rightarrow> Inr None)"

record transfer_list_key =
  lk_tx :: "string option"
  lk_direction :: transfer_direction

record travel_rule_info =
  is_self_hosted :: bool
  entity_name :: string

definition new_travel_rule_info :: "string \<Rightarrow> travel_rule_info" where
  "new_travel_rule_info entity = \<lparr>is_self_hosted = True, entity_name = entity\<rparr>"

datatype whitelist_status = WhitelistPending | WhitelistApproved | WhitelistRejected

record whitelist_entry =
  we_id :: string
  we_address :: string
  we_asset :: string
  we_chain :: string
  we_status :: whitelist_status
  we_created_at :: utc

text \<open>The three bodies the client sends; addresses in their EIP-55 form.\<close>

datatype 'f wallet_body =
    Withdrawal_Body 'f string string
  | Whitelist_Body string string travel_rule_info
  | Travel_Rule_Body travel_rule_info

record 'f wallet_json =
  wj_value :: "string \<Rightarrow> string + json"
  wj_print :: "json \<Rightarrow> string + string"
  wj_entries :: "string \<Rightarrow> string + whitelist_entry list"
  wj_entry :: "string \<Rightarrow> string + whitelist_entry"
  wj_transfer :: "string \<Rightarrow> string + 'f transfer"
  wj_transfer_with_fees :: "string \<Rightarrow> string + 'f transfer_with_fees"
  wj_transfers :: "string \<Rightarrow> string + 'f transfer list"
  wj_rows :: "string \<Rightarrow> string + json list"
  wj_list_key :: "json \<Rightarrow> string + transfer_list_key"
  wj_transfer_of :: "json \<Rightarrow> string + 'f transfer"
  wj_wallet_address :: "string \<Rightarrow> string + string"
  wj_tx_hash :: "string \<Rightarrow> string option"
  wj_checksum :: "string \<Rightarrow> string"

record wallet_client =
  wc_base_url :: string
  wc_account_id :: uuid

fun wallet_from_send :: "send_error \<Rightarrow> wallet_error" where
  "wallet_from_send (SendHttp e) = Wal_Reqwest e"
| "wallet_from_send (SendNotSent c) = Wal_NotSent c"

text \<open>\<open>http_build\<close> is \<open>ClientBuilder::build\<close> with the given total timeout, \<open>rt\<close> the credential runtime.\<close>

definition build_wallet_client ::
  "(duration option \<Rightarrow> reqwest_error + unit) \<Rightarrow> (alpaca_auth \<Rightarrow> kms_jwt_error + 'rt)
   \<Rightarrow> url_parser \<Rightarrow> ip_parser \<Rightarrow> string \<Rightarrow> uuid \<Rightarrow> alpaca_auth \<Rightarrow> duration option
   \<Rightarrow> wallet_error + ('rt \<times> wallet_client)" where
  "build_wallet_client http_build build parse_url parse_ip base_url account auth request_timeout =
     (case auth of
        Auth_PrivateKeyJwt _ _ \<Rightarrow> Inl Wal_PrivateKeyJwtUnsupported
      | _ \<Rightarrow>
          and_then (map_err Wal_InvalidBaseUrl (validate_origin parse_url parse_ip base_url BaseUrl)) (\<lambda>_.
          and_then (map_err Wal_Reqwest (http_build request_timeout)) (\<lambda>_.
          and_then (map_err Wal_Auth (build auth)) (\<lambda>rt.
          Inr (rt, \<lparr>wc_base_url = base_url, wc_account_id = account\<rparr>)))))"

subsection \<open>Redaction\<close>

definition BENEFICIARY :: string where
  "BENEFICIARY = ''beneficiary_entity_name''"

fun redact_beneficiary_in_place :: "json \<Rightarrow> json" where
  "redact_beneficiary_in_place (JObject m) =
     JObject (map (\<lambda>(key, child).
       (key, if key = BENEFICIARY then JString ''<redacted>'' else redact_beneficiary_in_place child)) m)"
| "redact_beneficiary_in_place (JArray items) = JArray (map redact_beneficiary_in_place items)"
| "redact_beneficiary_in_place JNull = JNull"
| "redact_beneficiary_in_place (JBool b) = JBool b"
| "redact_beneficiary_in_place (JNumber n) = JNumber n"
| "redact_beneficiary_in_place (JString s) = JString s"

definition redact_beneficiary_for_logging :: "'f wallet_json \<Rightarrow> string \<Rightarrow> string" where
  "redact_beneficiary_for_logging J b =
     (case wj_value J b of
        Inr v \<Rightarrow>
          (case wj_print J (redact_beneficiary_in_place v) of
             Inr redacted \<Rightarrow> redacted
           | Inl _ \<Rightarrow> ''<redaction failed, body '' @ show_nat (length b) @ '' bytes>'')
      | Inl _ \<Rightarrow>
          if contains b BENEFICIARY
          then ''<redaction failed, non-JSON body '' @ show_nat (length b) @ '' bytes>''
          else b)"

subsection \<open>Exchanges\<close>

definition read_response_body ::
  "'f wallet_json \<Rightarrow> ('env, 'w, 'f wallet_body) wire \<Rightarrow> http_answer
   \<Rightarrow> ('env, 'w, 'f wallet_body, wallet_error, string) wire_call" where
  "read_response_body J X a s =
     (let s' = record_head a s;
          retry_after = head_retry_after X a s
      in (case ha_body a of
            Inl e \<Rightarrow>
              (Inl (if is_success (ha_status a) then Wal_Reqwest e
                    else Wal_ApiError (ha_status a) ''Unknown error'' retry_after), s')
          | Inr bs \<Rightarrow>
              if \<not> is_success (ha_status a)
              then (Inl (Wal_ApiError (ha_status a)
                      (redact_beneficiary_for_logging J (wi_utf8_lossy X bs)) retry_after), s')
              else (map_err (\<lambda>_. Wal_Utf8 bs) (from_utf8 bs), s')))"

definition confirm_write ::
  "'f wallet_json \<Rightarrow> ('env, 'w, 'f wallet_body) wire \<Rightarrow> http_answer
   \<Rightarrow> ('env, 'w, 'f wallet_body, wallet_error, unit) wire_call" where
  "confirm_write J X a s =
     (if \<not> is_success (ha_status a)
      then (case read_response_body J X a s of (r, s') \<Rightarrow> (and_then r (\<lambda>_. Inr ()), s'))
      else (Inr (), record_head a s))"

abbreviation wallet_transmit ::
  "('env, 'w, 'f wallet_body) wire \<Rightarrow> wire_method \<Rightarrow> string \<Rightarrow> 'f wallet_body option
   \<Rightarrow> ('env, 'w, 'f wallet_body, wallet_error, http_answer) wire_call" where
  "wallet_transmit X m url b \<equiv> transmit Wal_Auth wallet_from_send X m url [] b"

definition wallet_get ::
  "'f wallet_json \<Rightarrow> ('env, 'w, 'f wallet_body) wire \<Rightarrow> wallet_client \<Rightarrow> string
   \<Rightarrow> ('env, 'w, 'f wallet_body, wallet_error, string) wire_call" where
  "wallet_get J X c route_path =
     then_call (wallet_transmit X W_Get (wc_base_url c @ route_path) None) (read_response_body J X)"

definition wallet_post ::
  "'f wallet_json \<Rightarrow> ('env, 'w, 'f wallet_body) wire \<Rightarrow> wallet_client \<Rightarrow> string \<Rightarrow> 'f wallet_body
   \<Rightarrow> ('env, 'w, 'f wallet_body, wallet_error, string) wire_call" where
  "wallet_post J X c route_path b =
     then_call (wallet_transmit X W_Post (wc_base_url c @ route_path) (Some b)) (read_response_body J X)"

definition wallet_delete ::
  "'f wallet_json \<Rightarrow> ('env, 'w, 'f wallet_body) wire \<Rightarrow> wallet_client \<Rightarrow> string
   \<Rightarrow> ('env, 'w, 'f wallet_body, wallet_error, unit) wire_call" where
  "wallet_delete J X c route_path =
     then_call (wallet_transmit X W_Delete (wc_base_url c @ route_path) None) (confirm_write J X)"

definition wallet_patch ::
  "'f wallet_json \<Rightarrow> ('env, 'w, 'f wallet_body) wire \<Rightarrow> wallet_client \<Rightarrow> string \<Rightarrow> 'f wallet_body
   \<Rightarrow> ('env, 'w, 'f wallet_body, wallet_error, unit) wire_call" where
  "wallet_patch J X c route_path b =
     then_call (wallet_transmit X W_Patch (wc_base_url c @ route_path) (Some b)) (confirm_write J X)"

text \<open>\<open>serde_json::from_str(&body)?\<close> after a read.\<close>

definition parse_body :: "(string \<Rightarrow> string + 'a) \<Rightarrow> string \<Rightarrow> 's \<Rightarrow> (wallet_error + 'a) \<times> 's" where
  "parse_body parse b = return_call (map_err Wal_ParseError (parse b))"

subsection \<open>Whitelist\<close>

definition whitelists_path :: "wallet_client \<Rightarrow> string" where
  "whitelists_path c = ''/v1/accounts/'' @ wc_account_id c @ ''/wallets/whitelists''"

definition get_whitelisted_addresses ::
  "'f wallet_json \<Rightarrow> ('env, 'w, 'f wallet_body) wire \<Rightarrow> wallet_client
   \<Rightarrow> ('env, 'w, 'f wallet_body, wallet_error, whitelist_entry list) wire_call" where
  "get_whitelisted_addresses J X c =
     then_call (wallet_get J X c (whitelists_path c)) (parse_body (wj_entries J))"

definition whitelisted_and_approved :: "string \<Rightarrow> string \<Rightarrow> whitelist_entry list \<Rightarrow> bool" where
  "whitelisted_and_approved address asset entries =
     list_ex (\<lambda>e. we_address e = address \<and> we_asset e = asset \<and> we_status e = WhitelistApproved) entries"

definition is_address_whitelisted_and_approved ::
  "'f wallet_json \<Rightarrow> ('env, 'w, 'f wallet_body) wire \<Rightarrow> wallet_client \<Rightarrow> string \<Rightarrow> string
   \<Rightarrow> ('env, 'w, 'f wallet_body, wallet_error, bool) wire_call" where
  "is_address_whitelisted_and_approved J X c address asset =
     then_call (get_whitelisted_addresses J X c) (\<lambda>entries.
       return_call (Inr (whitelisted_and_approved address asset entries)))"

definition create_whitelist_entry ::
  "'f wallet_json \<Rightarrow> ('env, 'w, 'f wallet_body) wire \<Rightarrow> wallet_client \<Rightarrow> string \<Rightarrow> string \<Rightarrow> travel_rule_info
   \<Rightarrow> ('env, 'w, 'f wallet_body, wallet_error, whitelist_entry) wire_call" where
  "create_whitelist_entry J X c address asset info =
     then_call (wallet_post J X c (whitelists_path c) (Whitelist_Body (wj_checksum J address) asset info))
       (parse_body (wj_entry J))"

definition delete_whitelist_entry ::
  "'f wallet_json \<Rightarrow> ('env, 'w, 'f wallet_body) wire \<Rightarrow> wallet_client \<Rightarrow> string
   \<Rightarrow> ('env, 'w, 'f wallet_body, wallet_error, unit) wire_call" where
  "delete_whitelist_entry J X c i = wallet_delete J X c (whitelists_path c @ ''/'' @ i)"

definition patch_whitelist_travel_rule ::
  "'f wallet_json \<Rightarrow> ('env, 'w, 'f wallet_body) wire \<Rightarrow> wallet_client \<Rightarrow> string \<Rightarrow> travel_rule_info
   \<Rightarrow> ('env, 'w, 'f wallet_body, wallet_error, unit) wire_call" where
  "patch_whitelist_travel_rule J X c i info =
     wallet_patch J X c (whitelists_path c @ ''/'' @ i @ ''/travel-rule-info'') (Travel_Rule_Body info)"

definition get_wallet_address ::
  "'f wallet_json \<Rightarrow> ('env, 'w, 'f wallet_body) wire \<Rightarrow> wallet_client \<Rightarrow> string \<Rightarrow> string
   \<Rightarrow> ('env, 'w, 'f wallet_body, wallet_error, string) wire_call" where
  "get_wallet_address J X c asset network =
     then_call (wallet_get J X c
         (''/v1/accounts/'' @ wc_account_id c @ ''/wallets?asset='' @ asset @ ''&network='' @ network))
       (parse_body (wj_wallet_address J))"

subsection \<open>Transfers\<close>

definition transfers_path :: "wallet_client \<Rightarrow> string" where
  "transfers_path c = ''/v1/accounts/'' @ wc_account_id c @ ''/wallets/transfers''"

definition submit_withdrawal ::
  "'f wallet_json \<Rightarrow> ('env, 'w, 'f wallet_body) wire \<Rightarrow> wallet_client \<Rightarrow> 'f \<Rightarrow> string \<Rightarrow> string
   \<Rightarrow> ('env, 'w, 'f wallet_body, wallet_error, 'f transfer) wire_call" where
  "submit_withdrawal J X c amount asset address =
     then_call (wallet_post J X c (transfers_path c) (Withdrawal_Body amount asset (wj_checksum J address)))
       (parse_body (wj_transfer J))"

definition get_transfer_response ::
  "'f wallet_json \<Rightarrow> ('env, 'w, 'f wallet_body) wire \<Rightarrow> wallet_client \<Rightarrow> uuid
   \<Rightarrow> ('env, 'w, 'f wallet_body, wallet_error, string) wire_call" where
  "get_transfer_response J X c i =
     map_err_call (\<lambda>e. case e of
         Wal_ApiError status _ _ \<Rightarrow> if status = 404 then Wal_TransferNotFound i else e
       | _ \<Rightarrow> e)
       (wallet_get J X c (transfers_path c @ ''/'' @ i))"

definition get_transfer_status ::
  "'f wallet_json \<Rightarrow> ('env, 'w, 'f wallet_body) wire \<Rightarrow> wallet_client \<Rightarrow> uuid
   \<Rightarrow> ('env, 'w, 'f wallet_body, wallet_error, 'f transfer) wire_call" where
  "get_transfer_status J X c i = then_call (get_transfer_response J X c i) (parse_body (wj_transfer J))"

definition get_transfer_with_fees ::
  "'f wallet_json \<Rightarrow> ('env, 'w, 'f wallet_body) wire \<Rightarrow> wallet_client \<Rightarrow> uuid
   \<Rightarrow> ('env, 'w, 'f wallet_body, wallet_error, 'f transfer_with_fees) wire_call" where
  "get_transfer_with_fees J X c i =
     then_call (get_transfer_response J X c i) (parse_body (wj_transfer_with_fees J))"

definition list_all_transfers ::
  "'f wallet_json \<Rightarrow> ('env, 'w, 'f wallet_body) wire \<Rightarrow> wallet_client
   \<Rightarrow> ('env, 'w, 'f wallet_body, wallet_error, 'f transfer list) wire_call" where
  "list_all_transfers J X c =
     then_call (wallet_get J X c (transfers_path c)) (parse_body (wj_transfers J))"

text \<open>Whether a row of the transfer list is the incoming transfer of a hash.\<close>

definition row_is_deposit :: "'f wallet_json \<Rightarrow> string \<Rightarrow> json \<Rightarrow> bool" where
  "row_is_deposit J tx_hash row =
     (case wj_list_key J row of
        Inl _ \<Rightarrow> False
      | Inr key \<Rightarrow>
          lk_direction key = Incoming
          \<and> (case lk_tx key of None \<Rightarrow> False | Some raw \<Rightarrow> wj_tx_hash J raw = Some tx_hash))"

definition find_deposit_by_tx_hash ::
  "'f wallet_json \<Rightarrow> ('env, 'w, 'f wallet_body) wire \<Rightarrow> wallet_client \<Rightarrow> string
   \<Rightarrow> ('env, 'w, 'f wallet_body, wallet_error, 'f transfer option) wire_call" where
  "find_deposit_by_tx_hash J X c tx_hash =
     then_call (wallet_get J X c (transfers_path c)) (\<lambda>b.
     then_call (parse_body (wj_rows J) b) (\<lambda>rows.
     return_call
       (case List.find (row_is_deposit J tx_hash) rows of
          None \<Rightarrow> Inr None
        | Some row \<Rightarrow> and_then (map_err Wal_ParseError (wj_transfer_of J row)) (\<lambda>t. Inr (Some t)))))"

subsection \<open>The service\<close>

definition check_withdrawal_whitelist ::
  "'f wallet_json \<Rightarrow> ('env, 'w, 'f wallet_body) wire \<Rightarrow> wallet_client \<Rightarrow> string \<Rightarrow> string
   \<Rightarrow> ('env, 'w, 'f wallet_body, wallet_error, unit) wire_call" where
  "check_withdrawal_whitelist J X c asset to_address =
     then_call (is_address_whitelisted_and_approved J X c to_address asset) (\<lambda>approved.
       return_call (if approved then Inr ()
         else Inl (Wal_AddressNotWhitelisted to_address asset ''ethereum'')))"

definition initiate_withdrawal ::
  "'f wallet_json \<Rightarrow> ('env, 'w, 'f wallet_body) wire \<Rightarrow> wallet_client \<Rightarrow> 'f \<Rightarrow> string \<Rightarrow> string
   \<Rightarrow> ('env, 'w, 'f wallet_body, wallet_error, 'f transfer) wire_call" where
  "initiate_withdrawal J X c amount asset to_address =
     then_call (check_withdrawal_whitelist J X c asset to_address) (\<lambda>_.
       submit_withdrawal J X c amount asset to_address)"

text \<open>The loop over entries: one write each, stopping at the first that fails.\<close>

fun write_each :: "('a \<Rightarrow> 's \<Rightarrow> ('e + unit) \<times> 's) \<Rightarrow> 'a list \<Rightarrow> 's \<Rightarrow> ('e + unit) \<times> 's" where
  "write_each f [] s = (Inr (), s)"
| "write_each f (x # xs) s = then_call (f x) (\<lambda>_. write_each f xs) s"

definition remove_whitelist_entries ::
  "'f wallet_json \<Rightarrow> ('env, 'w, 'f wallet_body) wire \<Rightarrow> wallet_client \<Rightarrow> string
   \<Rightarrow> ('env, 'w, 'f wallet_body, wallet_error, whitelist_entry list) wire_call" where
  "remove_whitelist_entries J X c address =
     then_call (get_whitelisted_addresses J X c) (\<lambda>entries.
       let matching = filter (\<lambda>e. we_address e = address) entries
       in if matching = [] then return_call (Inl (Wal_NoWhitelistEntries address))
          else then_call (write_each (\<lambda>e. delete_whitelist_entry J X c (we_id e)) matching) (\<lambda>_.
            return_call (Inr matching)))"

definition patch_all_whitelist_travel_rules ::
  "'f wallet_json \<Rightarrow> ('env, 'w, 'f wallet_body) wire \<Rightarrow> wallet_client \<Rightarrow> travel_rule_info
   \<Rightarrow> ('env, 'w, 'f wallet_body, wallet_error, whitelist_entry list) wire_call" where
  "patch_all_whitelist_travel_rules J X c info =
     then_call (get_whitelisted_addresses J X c) (\<lambda>entries.
     then_call (write_each (\<lambda>e. patch_whitelist_travel_rule J X c (we_id e) info) entries) (\<lambda>_.
     return_call (Inr entries)))"

subsection \<open>What the calls send\<close>

lemma read_response_body_keeps: "keeps_sent (read_response_body J X)"
  by (auto simp: keeps_sent_def read_response_body_def Let_def split: sum.split)

lemma read_response_body_ok:
  "read_response_body J X a s = (Inr b, s') \<Longrightarrow> is_success (ha_status a) \<and> ha_body a = Inr b"
  by (auto simp: read_response_body_def Let_def split: sum.splits if_splits dest: from_utf8_same)

lemma confirm_write_keeps: "keeps_sent (confirm_write J X)"
  unfolding keeps_sent_def confirm_write_def
  by (auto split: prod.split dest: keeps_sentD [OF read_response_body_keeps])

lemma wallet_get_sends:
  assumes "wallet_get J X c route_path s = (r, s')"
  shows "sends s [] s' \<and> (\<exists>e. r = Inl e)
    \<or> (\<exists>req. sends s [req] s' \<and> is_request W_Get (wc_base_url c @ route_path) None req
         \<and> (\<forall>x. r = Inr x \<longrightarrow> answered_with X req x))"
  using exchange_sends [OF assms [unfolded wallet_get_def] read_response_body_keeps]
proof (elim disjE exE conjE)
  fix req a w1 w2 s1
  assume sent: "sends s [req] s'" "is_request W_Get (wc_base_url c @ route_path) None req"
    and ok: "wi_http X req w1 = (Inr a, w2)" "read_response_body J X a s1 = (r, s')"
  have "answered_with X req x" if "r = Inr x" for x
    using ok that read_response_body_ok unfolding answered_with_def by fast
  with sent show ?thesis by blast
qed auto

text \<open>A JSON read: its request and, on success, the answer the result was parsed from.\<close>

lemma parsed_read_sends:
  assumes "then_call (wallet_get J X c route_path) (parse_body parse) s = (r, s')"
  shows "sends s [] s' \<and> (\<exists>e. r = Inl e)
    \<or> (\<exists>req. sends s [req] s' \<and> is_request W_Get (wc_base_url c @ route_path) None req
         \<and> (\<forall>x. r = Inr x \<longrightarrow> (\<exists>b. answered_with X req b \<and> parse b = Inr x)))"
  using assms
proof (cases rule: then_call_Pair)
  case (failed e)
  with wallet_get_sends [OF failed(1)] show ?thesis by auto
next
  case (went_on b s1)
  then have "s' = s1" "r = map_err Wal_ParseError (parse b)"
    by (auto simp: parse_body_def return_call_def)
  with wallet_get_sends [OF went_on(1)] show ?thesis by auto
qed

lemma write_each_sends:
  assumes "write_each f xs s = (r, s')"
    and each: "\<And>x s r s'. x \<in> set xs \<Longrightarrow> f x s = (r, s') \<Longrightarrow>
       (\<exists>req. sends s [req] s' \<and> P x req) \<or> sends s [] s' \<and> (\<exists>e. r = Inl e)"
  shows "\<exists>k reqs. k \<le> length xs \<and> sends s reqs s' \<and> list_all2 P (take k xs) reqs \<and> (r = Inr () \<longrightarrow> k = length xs)"
  using assms
proof (induction xs arbitrary: s)
  case Nil
  then show ?case by auto
next
  case (Cons x xs)
  from Cons.prems(1) have "then_call (f x) (\<lambda>_. write_each f xs) s = (r, s')" by simp
  then show ?case
  proof (cases rule: then_call_Pair)
    case (failed e)
    then consider req where "sends s [req] s'" "P x req" | "sends s [] s'"
      using Cons.prems(2) [OF _ failed(1)] by auto
    then show ?thesis
    proof cases
      case 1
      with failed(2) show ?thesis by (intro exI [of _ 1] exI [of _ "[req]"]) simp
    next
      case 2
      with failed(2) show ?thesis by (intro exI [of _ 0] exI [of _ "[]"]) simp
    qed
  next
    case (went_on u s1)
    from Cons.prems(2) [OF _ went_on(1)] obtain req where req: "sends s [req] s1" "P x req" by auto
    have "\<exists>k reqs. k \<le> length xs \<and> sends s1 reqs s' \<and> list_all2 P (take k xs) reqs \<and> (r = Inr () \<longrightarrow> k = length xs)"
      by (rule Cons.IH [OF went_on(2) Cons.prems(2)]) simp_all
    then obtain k reqs where rest: "k \<le> length xs" "sends s1 reqs s'" "list_all2 P (take k xs) reqs"
      "r = Inr () \<longrightarrow> k = length xs" by blast
    with req sends_trans [OF req(1) rest(2)] show ?thesis
      by (intro exI [of _ "Suc k"] exI [of _ "req # reqs"]) simp
  qed
qed

lemma delete_entry_sends:
  assumes "delete_whitelist_entry J X c i s = (r, s')"
  shows "(\<exists>req. sends s [req] s' \<and> is_request W_Delete (wc_base_url c @ whitelists_path c @ ''/'' @ i) None req)
    \<or> sends s [] s' \<and> (\<exists>e. r = Inl e)"
  using exchange_sends [OF assms [unfolded delete_whitelist_entry_def wallet_delete_def] confirm_write_keeps]
  by auto

subsection \<open>Redaction\<close>

text \<open>The values under the beneficiary key, at any depth.\<close>

fun beneficiaries :: "json \<Rightarrow> json list" where
  "beneficiaries (JObject m) =
     concat (map (\<lambda>(key, child). if key = BENEFICIARY then [child] else beneficiaries child) m)"
| "beneficiaries (JArray items) = concat (map beneficiaries items)"
| "beneficiaries _ = []"

lemma redacted_beneficiaries: "set (beneficiaries (redact_beneficiary_in_place v)) \<subseteq> {JString ''<redacted>''}"
proof (induction v rule: redact_beneficiary_in_place.induct)
  case (1 m)
  show ?case
  proof
    fix x
    assume "x \<in> set (beneficiaries (redact_beneficiary_in_place (JObject m)))"
    then have "\<exists>k c. (k, c) \<in> set m \<and> (x = JString ''<redacted>''
        \<or> k \<noteq> BENEFICIARY \<and> x \<in> set (beneficiaries (redact_beneficiary_in_place c)))"
      by (auto simp: split_def split: if_splits) blast+
    then obtain k c where "(k, c) \<in> set m"
      "x = JString ''<redacted>'' \<or> k \<noteq> BENEFICIARY \<and> x \<in> set (beneficiaries (redact_beneficiary_in_place c))"
      by blast
    with 1 [of "(k, c)" k c] show "x \<in> {JString ''<redacted>''}" by auto
  qed
qed (auto simp: subset_iff)

lemma redaction_is_local: "beneficiaries v = [] \<Longrightarrow> redact_beneficiary_in_place v = v"
proof (induction v rule: redact_beneficiary_in_place.induct)
  case (1 m)
  have "(k, if k = BENEFICIARY then JString ''<redacted>'' else redact_beneficiary_in_place c) = (k, c)"
    if "(k, c) \<in> set m" for k c
  proof -
    have none: "(if k = BENEFICIARY then [c] else beneficiaries c) = []" using 1(2) that by auto
    then have "k \<noteq> BENEFICIARY" by auto
    with none 1(1) [OF that refl] show ?thesis by simp
  qed
  then show ?case by (auto intro!: map_idI)
qed (auto intro!: map_idI)

definition placeholder :: "string \<Rightarrow> bool" where
  "placeholder m \<longleftrightarrow> (\<exists>n. m = ''<redaction failed, body '' @ show_nat n @ '' bytes>''
     \<or> m = ''<redaction failed, non-JSON body '' @ show_nat n @ '' bytes>'')"

lemma redaction_cases:
  obtains (json) v where "wj_print J v = Inr (redact_beneficiary_for_logging J b)"
      "set (beneficiaries v) \<subseteq> {JString ''<redacted>''}"
  | (omitted) "placeholder (redact_beneficiary_for_logging J b)"
  | (text_body) e where "redact_beneficiary_for_logging J b = b" "wj_value J b = Inl e" "\<not> contains b BENEFICIARY"
proof (cases "wj_value J b")
  case (Inl e)
  show ?thesis
  proof (cases "contains b BENEFICIARY")
    case True
    with Inl show ?thesis by (intro omitted) (auto simp: redact_beneficiary_for_logging_def placeholder_def)
  next
    case False
    with Inl show ?thesis by (intro text_body) (simp_all add: redact_beneficiary_for_logging_def)
  qed
next
  case (Inr v)
  show ?thesis
  proof (cases "wj_print J (redact_beneficiary_in_place v)")
    case Inl
    with Inr show ?thesis by (intro omitted) (auto simp: redact_beneficiary_for_logging_def placeholder_def)
  next
    case print: (Inr m)
    with Inr show ?thesis
      by (intro json [of "redact_beneficiary_in_place v"] redacted_beneficiaries)
        (simp add: redact_beneficiary_for_logging_def)
  qed
qed

text \<open>
  Wallet errors never carry the Travel Rule beneficiary. The message of an API error is the fixed
  text for an unreadable body, the printed form of a JSON value whose every beneficiary field reads
  \<open><redacted>\<close>, a placeholder with the body's length, or a body that is not JSON and does not name the
  field. A JSON value that has no such field is unchanged by the redaction.
\<close>

theorem wallet_errors_hide_the_beneficiary:
  assumes "read_response_body J X a s = (Inl (Wal_ApiError status message wait), s')"
  shows "(message = ''Unknown error''
      \<or> (\<exists>v. wj_print J v = Inr message \<and> set (beneficiaries v) \<subseteq> {JString ''<redacted>''})
      \<or> placeholder message
      \<or> (\<exists>e. wj_value J message = Inl e) \<and> \<not> contains message BENEFICIARY)
    \<and> (\<forall>v. beneficiaries v = [] \<longrightarrow> redact_beneficiary_in_place v = v)"
proof -
  from assms consider "message = ''Unknown error''" | b where "message = redact_beneficiary_for_logging J b"
    by (auto simp: read_response_body_def Let_def map_err_def split: sum.splits if_splits)
  then show ?thesis
  proof cases
    case 2
    then show ?thesis
      by (cases rule: redaction_cases [of J b]) (auto simp: redaction_is_local)
  qed (simp add: redaction_is_local)
qed

subsection \<open>Withdrawals and whitelist writes\<close>

text \<open>The whitelist answer \<open>req\<close> got: a success whose body lists \<open>entries\<close>.\<close>

definition listed_by ::
  "'f wallet_json \<Rightarrow> ('env, 'w, 'f wallet_body) wire \<Rightarrow> 'f wallet_body wire_request \<Rightarrow> whitelist_entry list \<Rightarrow> bool" where
  "listed_by J X req entries \<longleftrightarrow> (\<exists>b. answered_with X req b \<and> wj_entries J b = Inr entries)"

lemma whitelist_read_sends:
  assumes "get_whitelisted_addresses J X c s = (r, s')"
  shows "sends s [] s' \<and> (\<exists>e. r = Inl e)
    \<or> (\<exists>g. sends s [g] s' \<and> is_request W_Get (wc_base_url c @ whitelists_path c) None g
         \<and> (\<forall>entries. r = Inr entries \<longrightarrow> listed_by J X g entries))"
  using parsed_read_sends [OF assms [unfolded get_whitelisted_addresses_def]] by (simp add: listed_by_def)

lemma check_whitelist_sends:
  assumes "check_withdrawal_whitelist J X c asset to_address s = (r, s')"
  shows "sends s [] s' \<and> (\<exists>e. r = Inl e)
    \<or> (\<exists>g. sends s [g] s' \<and> is_request W_Get (wc_base_url c @ whitelists_path c) None g
         \<and> (r = Inr () \<longrightarrow> (\<exists>entries. listed_by J X g entries \<and> whitelisted_and_approved to_address asset entries)))"
proof -
  obtain x s1 where g: "get_whitelisted_addresses J X c s = (x, s1)" by (rule prod.exhaust)
  from assms have "s' = s1" and r: "r = and_then x (\<lambda>entries.
      if whitelisted_and_approved to_address asset entries then Inr ()
      else Inl (Wal_AddressNotWhitelisted to_address asset ''ethereum''))"
    using g by (auto simp: check_withdrawal_whitelist_def is_address_whitelisted_and_approved_def
        then_call_def return_call_def split: sum.splits)
  with whitelist_read_sends [OF g] show ?thesis by (cases x) auto
qed

lemma submit_withdrawal_sends:
  assumes "submit_withdrawal J X c amount asset to_address s = (r, s')"
  shows "sends s [] s' \<and> ((\<exists>k. r = Inl (Wal_Auth k)) \<or> r = Inl (Wal_NotSent GateClosed))
    \<or> (\<exists>p. sends s [p] s' \<and> is_request W_Post (wc_base_url c @ transfers_path c)
           (Some (Withdrawal_Body amount asset (wj_checksum J to_address))) p
         \<and> ((\<exists>h w1 w2. wi_http X p w1 = (Inl h, w2) \<and> r = Inl (Wal_Reqwest h))
            \<or> (\<exists>a w1 w2 x s1 s2. wi_http X p w1 = (Inr a, w2) \<and> read_response_body J X a s1 = (x, s2)
                 \<and> r = and_then x (\<lambda>b. map_err Wal_ParseError (wj_transfer J b)))))"
proof -
  obtain x s2 where p: "wallet_post J X c (transfers_path c)
      (Withdrawal_Body amount asset (wj_checksum J to_address)) s = (x, s2)" by (rule prod.exhaust)
  have s': "s' = s2" and r: "r = and_then x (\<lambda>b. map_err Wal_ParseError (wj_transfer J b))"
    using assms p by (auto simp: submit_withdrawal_def then_call_def parse_body_def return_call_def split: sum.splits)
  from exchange_sends [OF p [unfolded wallet_post_def] read_response_body_keeps] show ?thesis
    unfolding s' r by (elim disjE exE conjE) (simp, simp, fastforce, blast)
qed

text \<open>
  Money leaves for approved addresses only, and at most once. A withdrawal sends nothing, or the
  whitelist read alone, or the whitelist read followed by one POST with exactly the amount, asset and
  address asked for; the POST is sent only after Alpaca answered that read with success and a list
  holding an approved entry for this address and this asset.
\<close>

theorem withdrawal_needs_approval:
  assumes "initiate_withdrawal J X c amount asset to_address s = (r, s')"
  shows "sends s [] s' \<and> (\<exists>e. r = Inl e)
    \<or> (\<exists>g. sends s [g] s' \<and> wq_method g = W_Get \<and> (\<exists>e. r = Inl e))
    \<or> (\<exists>g p entries. sends s [g, p] s'
         \<and> is_request W_Get (wc_base_url c @ whitelists_path c) None g
         \<and> is_request W_Post (wc_base_url c @ transfers_path c)
              (Some (Withdrawal_Body amount asset (wj_checksum J to_address))) p
         \<and> listed_by J X g entries \<and> whitelisted_and_approved to_address asset entries)"
  using assms unfolding initiate_withdrawal_def
proof (cases rule: then_call_Pair)
  case (failed e)
  with check_whitelist_sends [OF failed(1)] show ?thesis by (auto simp: is_query_def)
next
  case (went_on u s1)
  obtain g entries where g: "sends s [g] s1" "is_request W_Get (wc_base_url c @ whitelists_path c) None g"
    "listed_by J X g entries" "whitelisted_and_approved to_address asset entries"
    using check_whitelist_sends [OF went_on(1)] by auto
  from submit_withdrawal_sends [OF went_on(2)]
  consider "sends s1 [] s'" "\<exists>e. r = Inl e"
    | q where "sends s1 [q] s'" "is_request W_Post (wc_base_url c @ transfers_path c)
        (Some (Withdrawal_Body amount asset (wj_checksum J to_address))) q"
    by blast
  then show ?thesis
  proof cases
    case 1
    with g sends_trans [OF g(1) 1(1)] show ?thesis by (auto simp: is_query_def)
  next
    case 2
    with g sends_trans [OF g(1) 2(1)] show ?thesis by auto
  qed
qed

text \<open>
  Removing an address deletes its entries and nothing else. The deletes sent after the whitelist
  read are those of the first \<open>k\<close> entries of this address, in order; a success deleted all of them and
  reports them, and an address with no entry is an error that deleted nothing.
\<close>

theorem removal_deletes_the_listed_entries:
  assumes "remove_whitelist_entries J X c address s = (r, s')"
  shows "sends s [] s' \<and> (\<exists>e. r = Inl e)
    \<or> (\<exists>g. sends s [g] s' \<and> wq_method g = W_Get \<and> (\<exists>e. r = Inl e))
    \<or> (\<exists>g entries k deletes. sends s (g # deletes) s' \<and> listed_by J X g entries
         \<and> list_all2 (\<lambda>e. is_request W_Delete (wc_base_url c @ whitelists_path c @ ''/'' @ we_id e) None)
             (take k (filter (\<lambda>e. we_address e = address) entries)) deletes
         \<and> (case r of
              Inr removed \<Rightarrow> removed = filter (\<lambda>e. we_address e = address) entries
                \<and> k = length removed \<and> removed \<noteq> []
            | Inl _ \<Rightarrow> True))"
  using assms unfolding remove_whitelist_entries_def
proof (cases rule: then_call_Pair)
  case (failed e)
  with whitelist_read_sends [OF failed(1)] show ?thesis by (auto simp: is_query_def)
next
  case (went_on entries s1)
  let ?m = "filter (\<lambda>e. we_address e = address) entries"
  obtain g where g: "sends s [g] s1" "listed_by J X g entries" "wq_method g = W_Get"
    using whitelist_read_sends [OF went_on(1)] by (auto simp: is_query_def)
  show ?thesis
  proof (cases "?m = []")
    case True
    with went_on(2) g show ?thesis by (auto simp: Let_def return_call_def)
  next
    case False
    obtain x s2 where x: "write_each (\<lambda>e. delete_whitelist_entry J X c (we_id e)) ?m s1 = (x, s2)" by (rule prod.exhaust)
    with went_on(2) False have s': "s' = s2" and r: "r = and_then x (\<lambda>_. Inr ?m)"
      by (auto simp: Let_def then_call_def return_call_def split: sum.splits)
    obtain k deletes where d: "sends s1 deletes s2"
      "list_all2 (\<lambda>e. is_request W_Delete (wc_base_url c @ whitelists_path c @ ''/'' @ we_id e) None) (take k ?m) deletes"
      "x = Inr () \<longrightarrow> k = length ?m"
      using write_each_sends [OF x, where P = "\<lambda>e. is_request W_Delete
          (wc_base_url c @ whitelists_path c @ ''/'' @ we_id e) None"] delete_entry_sends by blast
    with g s' r False sends_trans [OF g(1) d(1)] show ?thesis
      by (intro disjI2 exI [of _ g] exI [of _ entries] exI [of _ k] exI [of _ deletes]) (cases x; simp)
  qed
qed

subsection \<open>Witnesses\<close>

definition approved_entry :: whitelist_entry where
  "approved_entry = \<lparr>we_id = ''e1'', we_address = ''0xa'', we_asset = ''USDC'', we_chain = ''ethereum'',
     we_status = WhitelistApproved, we_created_at = 0\<rparr>"

definition sample_transfer :: "nat transfer" where
  "sample_transfer = \<lparr>tr_id = ''t1'', tr_tx = None, tr_direction = Outgoing, tr_amount = 5,
     tr_chain = ''ethereum'', tr_asset = ''USDC'', tr_from = ''0x1'', tr_to = ''0xa'', tr_status = TransferPending,
     tr_created_at = 0\<rparr>"

text \<open>A whitelist with one approved entry and one accepted withdrawal; \<open>{}\<close> parses as an object.\<close>

definition sample_wallet_json :: "nat wallet_json" where
  "sample_wallet_json = \<lparr>
     wj_value = (\<lambda>b. if b = ''{}'' then Inr (JObject [(BENEFICIARY, JString ''Alice'')]) else Inl ''syntax''),
     wj_print = (\<lambda>v. Inr (if v = JObject [(BENEFICIARY, JString ''<redacted>'')] then ''redacted'' else ''other'')),
     wj_entries = (\<lambda>b. Inr [approved_entry]), wj_entry = (\<lambda>b. Inr approved_entry),
     wj_transfer = (\<lambda>b. Inr sample_transfer), wj_transfer_with_fees = (\<lambda>b. Inl ''none''),
     wj_transfers = (\<lambda>b. Inr []), wj_rows = (\<lambda>b. Inr []), wj_list_key = (\<lambda>v. Inl ''none''),
     wj_transfer_of = (\<lambda>v. Inl ''none''), wj_wallet_address = (\<lambda>b. Inl ''none''),
     wj_tx_hash = (\<lambda>h. Some h), wj_checksum = (\<lambda>a. a)\<rparr>"

definition sample_wallet :: wallet_client where
  "sample_wallet = \<lparr>wc_base_url = ''https://b'', wc_account_id = ''a1''\<rparr>"

definition sample_wire :: "(unit, unit, nat wallet_body) wire" where
  "sample_wire = canned_wire (\<lambda>_. answer_of 200 ''ok'')"

lemmas sample_wallet_run = sample_wire_def canned_transmit answer_of_def Let_def then_call_def record_head_def
  record_answer_def record_id_def update_def open_net_def is_success_def from_utf8_def utf8_check.simps utf8_width_def between_def
  read_response_body_def parse_body_def return_call_def

lemma sample_withdrawal:
  "\<exists>t s'. initiate_withdrawal sample_wallet_json sample_wire sample_wallet 5 ''USDC'' ''0xa'' (open_net, ()) = (Inr t, s')
     \<and> length (sent_so_far s') = 2"
  by (simp add: initiate_withdrawal_def check_withdrawal_whitelist_def is_address_whitelisted_and_approved_def
      get_whitelisted_addresses_def wallet_get_def submit_withdrawal_def wallet_post_def sample_wallet_json_def
      whitelisted_and_approved_def approved_entry_def sample_wallet_run header_text_def header_get_def
      split: option.split)

theorem withdrawal_needs_approval_witness:
  "\<exists>s' g p entries. sends (open_net, ()) [g, p] s' \<and> listed_by sample_wallet_json sample_wire g entries
     \<and> whitelisted_and_approved ''0xa'' ''USDC'' entries"
proof -
  obtain t s' where w: "initiate_withdrawal sample_wallet_json sample_wire sample_wallet 5 ''USDC'' ''0xa'' (open_net, ())
      = (Inr t, s')" using sample_withdrawal by blast
  from withdrawal_needs_approval [OF w]
  have "\<exists>g p entries. sends (open_net, ()) [g, p] s' \<and> listed_by sample_wallet_json sample_wire g entries
      \<and> whitelisted_and_approved ''0xa'' ''USDC'' entries" by auto
  then show ?thesis by blast
qed

lemma sample_removal:
  "\<exists>t s'. remove_whitelist_entries sample_wallet_json sample_wire sample_wallet ''0xa'' (open_net, ()) = (Inr t, s')"
  by (simp add: remove_whitelist_entries_def get_whitelisted_addresses_def wallet_get_def sample_wallet_json_def
      delete_whitelist_entry_def wallet_delete_def confirm_write_def approved_entry_def sample_wallet_run
      header_text_def header_get_def split: option.split)

theorem removal_deletes_the_listed_entries_witness:
  "\<exists>s' g entries deletes. sends (open_net, ()) (g # deletes) s' \<and> listed_by sample_wallet_json sample_wire g entries
     \<and> length (filter (\<lambda>e. we_address e = ''0xa'') entries) = length deletes"
proof -
  obtain t s' where w: "remove_whitelist_entries sample_wallet_json sample_wire sample_wallet ''0xa'' (open_net, ())
      = (Inr t, s')" using sample_removal by blast
  from removal_deletes_the_listed_entries [OF w]
  have "\<exists>g entries deletes. sends (open_net, ()) (g # deletes) s' \<and> listed_by sample_wallet_json sample_wire g entries
      \<and> length (filter (\<lambda>e. we_address e = ''0xa'') entries) = length deletes"
    by (auto dest!: list_all2_lengthD) blast
  then show ?thesis by blast
qed

lemma sample_error:
  "\<exists>s'. read_response_body sample_wallet_json sample_wire \<lparr>ha_status = 422, ha_headers = [], ha_body = Inr ''{}''\<rparr> (open_net, ())
     = (Inl (Wal_ApiError 422 ''redacted'' None), s')"
  by (simp add: read_response_body_def redact_beneficiary_for_logging_def sample_wallet_json_def sample_wire_def
      canned_wire_def is_success_def head_retry_after_def retry_after_from_response_headers_def header_text_def header_get_def
      record_head_def)

theorem wallet_errors_hide_the_beneficiary_witness:
  "wj_value sample_wallet_json ''{}'' = Inr (JObject [(BENEFICIARY, JString ''Alice'')])
   \<and> (\<exists>v. wj_print sample_wallet_json v = Inr ''redacted'' \<and> set (beneficiaries v) \<subseteq> {JString ''<redacted>''})"
proof -
  obtain s' where e: "read_response_body sample_wallet_json sample_wire
      \<lparr>ha_status = 422, ha_headers = [], ha_body = Inr ''{}''\<rparr> (open_net, ())
     = (Inl (Wal_ApiError 422 ''redacted'' None), s')" using sample_error by blast
  have "\<not> placeholder ''redacted''" by (simp add: placeholder_def)
  with wallet_errors_hide_the_beneficiary [OF e] show ?thesis
    by (auto simp: sample_wallet_json_def beneficiaries.simps split: if_splits intro!: exI [of _ "JObject [(BENEFICIARY, JString ''<redacted>'')]"])
qed

end
