(* ===== verification/Poll_Loop.thy ===== *)
theory Poll_Loop
  imports Polling
begin

text \<open>
  The shape the wallet and tokenization polls share: a step reads once and either ends the poll or
  says how it goes on. The loop is partial, \<open>None\<close> being a poll that never ends; it ends when every
  step that goes on brings the deadline nearer.
\<close>

partial_function (option) poll_loop ::
  "('s \<Rightarrow> 'w \<Rightarrow> ('r + 's) \<times> 'w) \<Rightarrow> 's \<Rightarrow> 'w \<Rightarrow> ('r \<times> 'w) option" where
  "poll_loop step s w =
     (case step s w of
        (Inl r, w') \<Rightarrow> Some (r, w')
      | (Inr s', w') \<Rightarrow> poll_loop step s' w')"

text \<open>An invariant of the steps carries over to the result, and a measure that falls ends the loop.\<close>

lemma poll_loop_ends:
  fixes m :: "'s \<Rightarrow> 'w \<Rightarrow> nat"
  assumes "I s w"
    and stop: "\<And>s w r w'. I s w \<Longrightarrow> step s w = (Inl r, w') \<Longrightarrow> Q r w'"
    and go: "\<And>s w s' w'. I s w \<Longrightarrow> step s w = (Inr s', w') \<Longrightarrow> I s' w' \<and> m s' w' < m s w"
  shows "\<exists>r w'. poll_loop step s w = Some (r, w') \<and> Q r w'"
  using assms(1)
proof (induction "m s w" arbitrary: s w rule: less_induct)
  case less
  obtain x w' where x: "step s w = (x, w')" by force
  show ?case
  proof (cases x)
    case (Inl r)
    with stop [OF less.prems] x show ?thesis by (subst poll_loop.simps) simp
  next
    case (Inr s')
    with go [OF less.prems] x less.hyps [of s' w'] show ?thesis
      by (subst poll_loop.simps) simp
  qed
qed

text \<open>Partial correctness alone, for polls on any clock.\<close>

lemma poll_loop_result:
  assumes "poll_loop step s w = Some (r, w')" and "I s w"
    and stop: "\<And>s w r w'. I s w \<Longrightarrow> step s w = (Inl r, w') \<Longrightarrow> Q r w'"
    and go: "\<And>s w s' w'. I s w \<Longrightarrow> step s w = (Inr s', w') \<Longrightarrow> I s' w'"
  shows "Q r w'"
proof -
  have "step = f \<longrightarrow> I s w \<longrightarrow> Q (fst x) (snd x)" if "poll_loop f s w = Some x" for x f s w
    using that
    by (rule poll_loop.raw_induct [rotated])
      (use stop go in \<open>auto split: prod.splits sum.splits\<close>)
  from this [OF assms(1)] assms(2) show ?thesis by simp
qed

end
