(* ===== verification/Wallet_Polls.thy ===== *)
theory Wallet_Polls
  imports Wallet_Client Poll_Loop
begin

text \<open>
  The three wallet polls (\<^verbatim>\<open>src/wallet/status.rs\<close>) over any \<open>WalletTransfers\<close>, the record
  \<open>wallet_transfers\<close>; \<open>client_transfers\<close> is its implementation by the wallet client. The exponential
  backoff of the backon crate is the parameter \<open>backoff\<close>: the finite list of delays the iterator built
  from (retries, shortest delay, longest delay) yields.
\<close>

subsection \<open>Reads and retries\<close>

record polling_config =
  pc_interval :: duration
  pc_timeout :: duration
  pc_max_retries :: nat
  pc_min_retry_delay :: duration
  pc_max_retry_delay :: duration

definition default_polling_config :: polling_config where
  "default_polling_config = \<lparr>pc_interval = from_secs 10, pc_timeout = from_secs (30 * 60),
     pc_max_retries = 10, pc_min_retry_delay = from_secs 1, pc_max_retry_delay = from_secs 60\<rparr>"

type_synonym exponential_builder = "nat \<Rightarrow> duration \<Rightarrow> duration \<Rightarrow> duration list"

definition retry_delays :: "exponential_builder \<Rightarrow> polling_config \<Rightarrow> duration list" where
  "retry_delays backoff cfg = backoff (pc_max_retries cfg) (pc_min_retry_delay cfg) (pc_max_retry_delay cfg)"

record ('w, 'f) wallet_transfers =
  wt_get_transfer :: "uuid \<Rightarrow> 'w \<Rightarrow> (wallet_error + 'f transfer) \<times> 'w"
  wt_find_deposit :: "string \<Rightarrow> 'w \<Rightarrow> (wallet_error + 'f transfer option) \<times> 'w"

definition client_transfers ::
  "'f wallet_json \<Rightarrow> ('env, 'w, 'f wallet_body) wire \<Rightarrow> wallet_client
   \<Rightarrow> (('env, 'w, 'f wallet_body) wire_state, 'f) wallet_transfers" where
  "client_transfers J X c = \<lparr>
     wt_get_transfer = get_transfer_status J X c,
     wt_find_deposit = find_deposit_by_tx_hash J X c\<rparr>"

definition is_retried :: "wallet_error \<Rightarrow> bool" where
  "is_retried e = (wallet_permanence e = Transient)"

definition retry_wait ::
  "wallet_error \<Rightarrow> duration \<Rightarrow> backpressure_policy \<Rightarrow> instant \<Rightarrow> instant \<Rightarrow> duration option" where
  "retry_wait e scheduled policy deadline now =
     (case wallet_backpressure e of
        Some b \<Rightarrow> backpressure_wait policy b scheduled deadline now
      | None \<Rightarrow> Some scheduled)"

definition throttle_of :: "wallet_error \<Rightarrow> wallet_error option" where
  "throttle_of e = (if wallet_backpressure e \<noteq> None then Some e else None)"

fun retry_read_before ::
  "'w timer \<Rightarrow> instant \<Rightarrow> ('w \<Rightarrow> (wallet_error + 'a) \<times> 'w) \<Rightarrow> backpressure_policy
   \<Rightarrow> ('w \<Rightarrow> wallet_error) \<Rightarrow> duration list \<Rightarrow> wallet_error option \<Rightarrow> 'w \<Rightarrow> (wallet_error + 'a) \<times> 'w" where
  "retry_read_before T deadline read policy timed_out delays throttled w =
     (case read_before T deadline read (\<lambda>w. unwrap_or throttled (timed_out w)) w of
        (Inr v, w1) \<Rightarrow> (Inr v, w1)
      | (Inl e, w1) \<Rightarrow>
          if is_retried e
          then (case delays of
              [] \<Rightarrow> (Inl e, w1)
            | d # rest \<Rightarrow>
                (case retry_wait e d policy deadline (tm_now T w1) of
                   None \<Rightarrow> (Inl e, w1)
                 | Some wait \<Rightarrow>
                     retry_read_before T deadline read policy timed_out rest (throttle_of e)
                       (poll_sleep T wait deadline w1)))
          else (Inl e, w1))"

declare retry_read_before.simps [simp del]

subsection \<open>Status transitions\<close>

record validated_transition =
  vt_new_status :: transfer_status
  vt_changed :: bool

definition parse_status_transition ::
  "transfer_status \<Rightarrow> transfer_status \<Rightarrow> (transfer_status \<times> transfer_status) + validated_transition" where
  "parse_status_transition prev next =
     (if (prev = TransferProcessing \<and> next = TransferPending)
         \<or> prev = TransferComplete \<or> prev = TransferFailedStatus
      then Inl (prev, next)
      else Inr \<lparr>vt_new_status = next, vt_changed = (prev \<noteq> next)\<rparr>)"

definition validate_status_change ::
  "uuid \<Rightarrow> transfer_status option \<Rightarrow> 'f transfer \<Rightarrow> wallet_error + unit" where
  "validate_status_change i prior t =
     (case prior of
        None \<Rightarrow> Inr ()
      | Some prev \<Rightarrow>
          and_then (map_err (\<lambda>(p, n). Wal_InvalidStatusTransition i p n)
              (parse_status_transition prev (tr_status t))) (\<lambda>_. Inr ()))"

definition validate_deposit_status_change ::
  "string \<Rightarrow> transfer_status option \<Rightarrow> 'f transfer \<Rightarrow> wallet_error + unit" where
  "validate_deposit_status_change h prior t =
     (case prior of
        None \<Rightarrow> Inr ()
      | Some prev \<Rightarrow>
          and_then (map_err (\<lambda>(p, n). Wal_InvalidDepositTransition h p n)
              (parse_status_transition prev (tr_status t))) (\<lambda>_. Inr ()))"

definition transfer_tx_hash_state :: "'f transfer \<Rightarrow> uuid \<Rightarrow> wallet_error + string option" where
  "transfer_tx_hash_state t i =
     (case (tr_status t, tr_tx t) of
        (TransferFailedStatus, Some h) \<Rightarrow> Inl (Wal_FailedTransferHasTx i h)
      | (TransferFailedStatus, None) \<Rightarrow> Inl (Wal_TransferFailed i)
      | (TransferComplete, Some h) \<Rightarrow> Inr (Some h)
      | _ \<Rightarrow> Inr None)"

subsection \<open>The polls\<close>

text \<open>
  Each poll is \<open>poll_loop\<close> over its loop body. The state of the status polls is \<open>last_status\<close>, that of
  the hash poll is \<open>throttled\<close>.
\<close>

definition transfer_step ::
  "'w timer \<Rightarrow> exponential_builder \<Rightarrow> ('w, 'f) wallet_transfers \<Rightarrow> uuid \<Rightarrow> polling_config \<Rightarrow> backpressure_policy
   \<Rightarrow> instant \<Rightarrow> instant \<Rightarrow> transfer_status option \<Rightarrow> 'w
   \<Rightarrow> ((wallet_error + 'f transfer) + transfer_status option) \<times> 'w" where
  "transfer_step T backoff ts i cfg policy started deadline prior w =
     (case retry_read_before T deadline (wt_get_transfer ts i) policy
         (\<lambda>w. Wal_TransferTimeout i (tm_now T w - started)) (retry_delays backoff cfg) None w of
        (Inl e, w1) \<Rightarrow> (Inl (Inl e), w1)
      | (Inr t, w1) \<Rightarrow>
          (case validate_status_change i prior t of
             Inl e \<Rightarrow> (Inl (Inl e), w1)
           | Inr _ \<Rightarrow>
               if tr_status t = TransferComplete \<or> tr_status t = TransferFailedStatus
               then (Inl (Inr t), w1)
               else (Inr (Some (tr_status t)), poll_sleep T (pc_interval cfg) deadline w1)))"

definition poll_transfer_until_complete_under ::
  "'w timer \<Rightarrow> exponential_builder \<Rightarrow> ('w, 'f) wallet_transfers \<Rightarrow> uuid \<Rightarrow> polling_config \<Rightarrow> backpressure_policy
   \<Rightarrow> 'w \<Rightarrow> ((wallet_error + 'f transfer) \<times> 'w) option" where
  "poll_transfer_until_complete_under T backoff ts i cfg policy w =
     poll_loop (transfer_step T backoff ts i cfg policy (tm_now T w)
       (poll_deadline (tm_now T w) (pc_timeout cfg))) None w"

definition tx_hash_step ::
  "'w timer \<Rightarrow> ('w, 'f) wallet_transfers \<Rightarrow> uuid \<Rightarrow> polling_config \<Rightarrow> backpressure_policy
   \<Rightarrow> instant \<Rightarrow> instant \<Rightarrow> wallet_error option \<Rightarrow> 'w
   \<Rightarrow> ((wallet_error + string) + wallet_error option) \<times> 'w" where
  "tx_hash_step T ts i cfg policy started deadline throttled w =
     (case read_before T deadline (wt_get_transfer ts i)
         (\<lambda>w. unwrap_or throttled (Wal_TransferTimeout i (tm_now T w - started))) w of
        (Inr t, w1) \<Rightarrow>
          (case transfer_tx_hash_state t i of
             Inl e \<Rightarrow> (Inl (Inl e), w1)
           | Inr (Some h) \<Rightarrow> (Inl (Inr h), w1)
           | Inr None \<Rightarrow> (Inr None, poll_sleep T (pc_interval cfg) deadline w1))
      | (Inl e, w1) \<Rightarrow>
          if is_retried e
          then (case retry_wait e (pc_interval cfg) policy deadline (tm_now T w1) of
              None \<Rightarrow> (Inl (Inl e), w1)
            | Some wait \<Rightarrow> (Inr (throttle_of e), poll_sleep T wait deadline w1))
          else (Inl (Inl e), w1))"

definition poll_transfer_tx_hash_under ::
  "'w timer \<Rightarrow> ('w, 'f) wallet_transfers \<Rightarrow> uuid \<Rightarrow> polling_config \<Rightarrow> backpressure_policy
   \<Rightarrow> 'w \<Rightarrow> ((wallet_error + string) \<times> 'w) option" where
  "poll_transfer_tx_hash_under T ts i cfg policy w =
     poll_loop (tx_hash_step T ts i cfg policy (tm_now T w) (poll_deadline (tm_now T w) (pc_timeout cfg))) None w"

definition deposit_step ::
  "'w timer \<Rightarrow> exponential_builder \<Rightarrow> ('w, 'f) wallet_transfers \<Rightarrow> string \<Rightarrow> polling_config \<Rightarrow> backpressure_policy
   \<Rightarrow> instant \<Rightarrow> instant \<Rightarrow> transfer_status option \<Rightarrow> 'w
   \<Rightarrow> ((wallet_error + 'f transfer) + transfer_status option) \<times> 'w" where
  "deposit_step T backoff ts h cfg policy started deadline prior w =
     (case retry_read_before T deadline (wt_find_deposit ts h) policy
         (\<lambda>w. Wal_DepositTimeout h (tm_now T w - started)) (retry_delays backoff cfg) None w of
        (Inl e, w1) \<Rightarrow> (Inl (Inl e), w1)
      | (Inr None, w1) \<Rightarrow> (Inr prior, poll_sleep T (pc_interval cfg) deadline w1)
      | (Inr (Some t), w1) \<Rightarrow>
          (case validate_deposit_status_change h prior t of
             Inl e \<Rightarrow> (Inl (Inl e), w1)
           | Inr _ \<Rightarrow>
               if tr_status t = TransferComplete \<or> tr_status t = TransferFailedStatus
               then (Inl (Inr t), w1)
               else (Inr (Some (tr_status t)), poll_sleep T (pc_interval cfg) deadline w1)))"

definition poll_deposit_by_tx_hash_under ::
  "'w timer \<Rightarrow> exponential_builder \<Rightarrow> ('w, 'f) wallet_transfers \<Rightarrow> string \<Rightarrow> polling_config \<Rightarrow> backpressure_policy
   \<Rightarrow> 'w \<Rightarrow> ((wallet_error + 'f transfer) \<times> 'w) option" where
  "poll_deposit_by_tx_hash_under T backoff ts h cfg policy w =
     poll_loop (deposit_step T backoff ts h cfg policy (tm_now T w)
       (poll_deadline (tm_now T w) (pc_timeout cfg))) None w"

definition poll_transfer_until_complete_with ::
  "'w timer \<Rightarrow> exponential_builder \<Rightarrow> ('w, 'f) wallet_transfers \<Rightarrow> uuid \<Rightarrow> polling_config
   \<Rightarrow> 'w \<Rightarrow> ((wallet_error + 'f transfer) \<times> 'w) option" where
  "poll_transfer_until_complete_with T backoff ts i cfg =
     poll_transfer_until_complete_under T backoff ts i cfg RetryInPlace"

definition poll_transfer_tx_hash_with ::
  "'w timer \<Rightarrow> ('w, 'f) wallet_transfers \<Rightarrow> uuid \<Rightarrow> polling_config \<Rightarrow> 'w \<Rightarrow> ((wallet_error + string) \<times> 'w) option" where
  "poll_transfer_tx_hash_with T ts i cfg = poll_transfer_tx_hash_under T ts i cfg RetryInPlace"

definition poll_deposit_by_tx_hash_with ::
  "'w timer \<Rightarrow> exponential_builder \<Rightarrow> ('w, 'f) wallet_transfers \<Rightarrow> string \<Rightarrow> polling_config
   \<Rightarrow> 'w \<Rightarrow> ((wallet_error + 'f transfer) \<times> 'w) option" where
  "poll_deposit_by_tx_hash_with T backoff ts h cfg =
     poll_deposit_by_tx_hash_under T backoff ts h cfg RetryInPlace"

subsection \<open>The service\<close>

record wallet_service =
  ws_client :: wallet_client
  ws_polling_config :: polling_config
  ws_backpressure_policy :: backpressure_policy

definition new_wallet_service ::
  "(duration option \<Rightarrow> reqwest_error + unit) \<Rightarrow> (alpaca_auth \<Rightarrow> kms_jwt_error + 'rt)
   \<Rightarrow> url_parser \<Rightarrow> ip_parser \<Rightarrow> string \<Rightarrow> uuid \<Rightarrow> alpaca_auth \<Rightarrow> duration option
   \<Rightarrow> wallet_error + ('rt \<times> wallet_service)" where
  "new_wallet_service http_build build parse_url parse_ip base_url account auth request_timeout =
     and_then (build_wallet_client http_build build parse_url parse_ip base_url account auth request_timeout)
       (\<lambda>(rt, c). Inr (rt, \<lparr>ws_client = c, ws_polling_config = default_polling_config,
          ws_backpressure_policy = RetryInPlace\<rparr>))"

definition with_backpressure_policy :: "wallet_service \<Rightarrow> backpressure_policy \<Rightarrow> wallet_service" where
  "with_backpressure_policy sv policy = sv\<lparr>ws_backpressure_policy := policy\<rparr>"

definition service_poll_transfer where
  "service_poll_transfer T backoff J X sv i =
     poll_transfer_until_complete_under T backoff (client_transfers J X (ws_client sv)) i
       (ws_polling_config sv) (ws_backpressure_policy sv)"

definition service_poll_tx_hash where
  "service_poll_tx_hash T J X sv i =
     poll_transfer_tx_hash_under T (client_transfers J X (ws_client sv)) i
       (ws_polling_config sv) (ws_backpressure_policy sv)"

definition service_poll_deposit where
  "service_poll_deposit T backoff J X sv h =
     poll_deposit_by_tx_hash_under T backoff (client_transfers J X (ws_client sv)) h
       (ws_polling_config sv) (ws_backpressure_policy sv)"

subsection \<open>One read with its retries\<close>

lemma retry_read_later:
  assumes "timer_laws T" "takes_time T read"
  shows "retry_read_before T D read policy timed_out delays th w = (r, w') \<Longrightarrow> tm_now T w \<le> tm_now T w'"
proof (induction delays arbitrary: th w)
  case Nil
  then show ?case
    by (subst (asm) retry_read_before.simps)
      (auto split: prod.splits sum.splits if_splits dest: read_before_later [OF assms])
next
  case (Cons d delays)
  obtain x w1 where x: "read_before T D read (\<lambda>w. unwrap_or th (timed_out w)) w = (x, w1)" by force
  have "tm_now T w \<le> tm_now T w1" by (rule read_before_later [OF assms x])
  then show ?case
    using Cons.prems x poll_sleep_later [OF assms(1), of w1] Cons.IH
    by (subst (asm) retry_read_before.simps)
      (auto split: sum.splits if_splits option.splits dest!: Cons.IH, (meson order_trans)+)
qed

text \<open>
  How a read with retries ends: with an answer read before the deadline; with an error of a read that
  is not retried, or that came after the last retry, or whose throttle the policy returns or the
  deadline cuts short; or, at or after the deadline, with the timeout or the throttle of the read
  before.
\<close>

definition poll_read :: "'w timer \<Rightarrow> instant \<Rightarrow> ('w \<Rightarrow> 'r \<times> 'w) \<Rightarrow> 'r \<Rightarrow> bool" where
  "poll_read T D read r \<longleftrightarrow> (\<exists>w0 w1. read w0 = (r, w1) \<and> tm_now T w0 < D)"

lemma retry_read_ends:
  assumes "timer_laws T" and permanent: "\<And>w. \<not> is_retried (timed_out w)"
    and th: "\<And>e. th = Some e \<Longrightarrow> poll_read T D read (Inl e) \<and> wallet_backpressure e \<noteq> None"
    and "retry_read_before T D read policy timed_out delays th w = (r, w')"
  shows "poll_read T D read r
    \<or> r = Inl (timed_out w') \<and> D \<le> tm_now T w'"
  using assms(3,4)
proof (induction delays arbitrary: th w)
  case Nil
  obtain x w1 where x: "read_before T D read (\<lambda>w. unwrap_or th (timed_out w)) w = (x, w1)" by force
  from read_before_ended [OF assms(1) x] Nil x show ?case
    by (cases th) (auto simp: retry_read_before.simps poll_read_def split: sum.splits if_splits)
next
  case (Cons d delays)
  obtain x w1 where x: "read_before T D read (\<lambda>w. unwrap_or th (timed_out w)) w = (x, w1)" by force
  have x': "poll_read T D read x \<or> x = Inl (timed_out w1) \<and> D \<le> tm_now T w1"
    using read_before_ended [OF assms(1) x] Cons.prems(1) by (cases th) (auto simp: poll_read_def)
  show ?case
  proof (cases "r = x \<and> w' = w1")
    case True
    with x' show ?thesis by auto
  next
    case False
    then obtain e wait where e: "x = Inl e" "is_retried e" "retry_wait e d policy D (tm_now T w1) = Some wait"
      "retry_read_before T D read policy timed_out delays (throttle_of e) (poll_sleep T wait D w1) = (r, w')"
      using Cons.prems(2) x by (subst (asm) retry_read_before.simps) (auto split: sum.splits if_splits option.splits)
    show ?thesis
    proof (rule Cons.IH [OF _ e(4)])
      fix e' assume "throttle_of e = Some e'"
      then show "poll_read T D read (Inl e') \<and> wallet_backpressure e' \<noteq> None"
        using x' e permanent by (auto simp: throttle_of_def split: if_splits)
    qed
  qed
qed

lemma retry_read_open:
  assumes "retry_read_before T D read policy timed_out delays None w = (Inr v, w')"
    and "\<And>w. \<not> is_retried (timed_out w)"
  shows "tm_now T w < D"
proof (rule ccontr)
  assume "\<not> tm_now T w < D"
  with assms show False by (simp add: retry_read_before.simps read_before_def)
qed

lemma timeouts_permanent:
  "\<not> is_retried (Wal_TransferTimeout i d)" "\<not> is_retried (Wal_DepositTimeout h d)"
  by (simp_all add: is_retried_def)

lemma retry_wait_bounds:
  assumes "retry_wait e scheduled policy D now = Some wait"
  shows "scheduled \<le> wait" and "wallet_backpressure e \<noteq> None \<Longrightarrow> now < D"
  using assms capped_wait_bounds [of scheduled]
  by (auto simp: retry_wait_def backpressure_wait_def Let_def split: option.splits if_splits
      backpressure_policy.splits)

subsection \<open>The polls end\<close>

text \<open>What the result of a status poll rests on: \<open>read\<close> is the poll's read as a read of a transfer.\<close>

definition settled :: "'f transfer \<Rightarrow> bool" where
  "settled t \<longleftrightarrow> tr_status t = TransferComplete \<or> tr_status t = TransferFailedStatus"

lemma is_pending_iff: "is_pending st \<longleftrightarrow> st \<noteq> TransferComplete \<and> st \<noteq> TransferFailedStatus"
  by (cases st) simp_all

lemma regression_cases:
  "parse_status_transition p n = Inl (p', n') \<longleftrightarrow>
     p' = p \<and> n' = n \<and> ((p = TransferProcessing \<and> n = TransferPending) \<or> \<not> is_pending p)"
  by (cases p) (auto simp: parse_status_transition_def)

fun transfer_result ::
  "'w timer \<Rightarrow> instant \<Rightarrow> instant \<Rightarrow> ('w, 'f) wallet_transfers \<Rightarrow> uuid \<Rightarrow> wallet_error + 'f transfer \<Rightarrow> 'w \<Rightarrow> bool" where
  "transfer_result T t0 D ts i (Inr t) w' \<longleftrightarrow> poll_read T D (wt_get_transfer ts i) (Inr t) \<and> settled t"
| "transfer_result T t0 D ts i (Inl e) w' \<longleftrightarrow>
     poll_read T D (wt_get_transfer ts i) (Inl e)
     \<or> e = Wal_TransferTimeout i (tm_now T w' - t0) \<and> D \<le> tm_now T w'
     \<or> (\<exists>t. poll_read T D (wt_get_transfer ts i) (Inr t)
          \<and> e = Wal_InvalidStatusTransition i TransferProcessing TransferPending \<and> tr_status t = TransferPending)"

lemma transfer_poll_ends:
  assumes "timer_laws T" "takes_time T (wt_get_transfer ts i)" "0 < pc_interval cfg"
  shows "\<exists>r w'. poll_transfer_until_complete_under T backoff ts i cfg policy w = Some (r, w')
    \<and> transfer_result T (tm_now T w) (poll_deadline (tm_now T w) (pc_timeout cfg)) ts i r w'"
  unfolding poll_transfer_until_complete_under_def
proof (rule poll_loop_ends [where I = "\<lambda>p w. \<forall>st. p = Some st \<longrightarrow> is_pending st"
      and m = "\<lambda>p w'. poll_deadline (tm_now T w) (pc_timeout cfg) - tm_now T w'"])
  let ?D = "poll_deadline (tm_now T w) (pc_timeout cfg)"
  let ?read = "wt_get_transfer ts i"
  let ?to = "\<lambda>w'. Wal_TransferTimeout i (tm_now T w' - tm_now T w)"
  fix p w0 r w'
  assume I: "\<forall>st. p = Some st \<longrightarrow> is_pending st"
  assume step: "transfer_step T backoff ts i cfg policy (tm_now T w) ?D p w0 = (Inl r, w')"
  obtain x w1 where x: "retry_read_before T ?D ?read policy ?to (retry_delays backoff cfg) None w0 = (x, w1)" by force
  have "poll_read T ?D ?read x \<or> x = Inl (?to w1) \<and> ?D \<le> tm_now T w1"
    by (rule retry_read_ends [OF assms(1) timeouts_permanent(1) _ x]) simp
  with step x I show "transfer_result T (tm_now T w) ?D ts i r w'"
    by (auto simp: transfer_step_def validate_status_change_def settled_def regression_cases map_err_def and_then_def
        split: sum.splits option.splits if_splits)
next
  let ?D = "poll_deadline (tm_now T w) (pc_timeout cfg)"
  let ?to = "\<lambda>w'. Wal_TransferTimeout i (tm_now T w' - tm_now T w)"
  fix p w0 p' w'
  assume step: "transfer_step T backoff ts i cfg policy (tm_now T w) ?D p w0 = (Inr p', w')"
  then obtain t w1 where x: "retry_read_before T ?D (wt_get_transfer ts i) policy ?to (retry_delays backoff cfg) None w0
      = (Inr t, w1)" and w': "w' = poll_sleep T (pc_interval cfg) ?D w1" and p': "p' = Some (tr_status t)" "\<not> settled t"
    by (auto simp: transfer_step_def settled_def split: prod.splits sum.splits if_splits)
  show "(\<forall>st. p' = Some st \<longrightarrow> is_pending st) \<and> ?D - tm_now T w' < ?D - tm_now T w0"
    using poll_sleep_progress [OF assms(1,3) retry_read_later [OF assms(1,2) x] retry_read_open [OF x timeouts_permanent(1)]] w' p'
    by (cases "tr_status t") (auto simp: settled_def)
qed simp

fun deposit_result ::
  "'w timer \<Rightarrow> instant \<Rightarrow> instant \<Rightarrow> ('w, 'f) wallet_transfers \<Rightarrow> string \<Rightarrow> wallet_error + 'f transfer \<Rightarrow> 'w \<Rightarrow> bool" where
  "deposit_result T t0 D ts h (Inr t) w' \<longleftrightarrow> poll_read T D (wt_find_deposit ts h) (Inr (Some t)) \<and> settled t"
| "deposit_result T t0 D ts h (Inl e) w' \<longleftrightarrow>
     poll_read T D (wt_find_deposit ts h) (Inl e)
     \<or> e = Wal_DepositTimeout h (tm_now T w' - t0) \<and> D \<le> tm_now T w'
     \<or> (\<exists>t. poll_read T D (wt_find_deposit ts h) (Inr (Some t))
          \<and> e = Wal_InvalidDepositTransition h TransferProcessing TransferPending \<and> tr_status t = TransferPending)"

lemma deposit_poll_ends:
  assumes "timer_laws T" "takes_time T (wt_find_deposit ts h)" "0 < pc_interval cfg"
  shows "\<exists>r w'. poll_deposit_by_tx_hash_under T backoff ts h cfg policy w = Some (r, w')
    \<and> deposit_result T (tm_now T w) (poll_deadline (tm_now T w) (pc_timeout cfg)) ts h r w'"
  unfolding poll_deposit_by_tx_hash_under_def
proof (rule poll_loop_ends [where I = "\<lambda>p w. \<forall>st. p = Some st \<longrightarrow> is_pending st"
      and m = "\<lambda>p w'. poll_deadline (tm_now T w) (pc_timeout cfg) - tm_now T w'"])
  let ?D = "poll_deadline (tm_now T w) (pc_timeout cfg)"
  let ?read = "wt_find_deposit ts h"
  let ?to = "\<lambda>w'. Wal_DepositTimeout h (tm_now T w' - tm_now T w)"
  fix p w0 r w'
  assume I: "\<forall>st. p = Some st \<longrightarrow> is_pending st"
  assume step: "deposit_step T backoff ts h cfg policy (tm_now T w) ?D p w0 = (Inl r, w')"
  obtain x w1 where x: "retry_read_before T ?D ?read policy ?to (retry_delays backoff cfg) None w0 = (x, w1)" by force
  have "poll_read T ?D ?read x \<or> x = Inl (?to w1) \<and> ?D \<le> tm_now T w1"
    by (rule retry_read_ends [OF assms(1) timeouts_permanent(2) _ x]) simp
  with step x I show "deposit_result T (tm_now T w) ?D ts h r w'"
    by (auto simp: deposit_step_def validate_deposit_status_change_def settled_def regression_cases map_err_def and_then_def
        split: sum.splits option.splits if_splits)
next
  let ?D = "poll_deadline (tm_now T w) (pc_timeout cfg)"
  let ?to = "\<lambda>w'. Wal_DepositTimeout h (tm_now T w' - tm_now T w)"
  fix p w0 p' w'
  assume I: "\<forall>st. p = Some st \<longrightarrow> is_pending st"
  assume step: "deposit_step T backoff ts h cfg policy (tm_now T w) ?D p w0 = (Inr p', w')"
  then obtain t w1 where x: "retry_read_before T ?D (wt_find_deposit ts h) policy ?to (retry_delays backoff cfg) None w0
      = (Inr t, w1)" and w': "w' = poll_sleep T (pc_interval cfg) ?D w1"
    and p': "p' = p \<or> (\<exists>st. p' = Some st \<and> is_pending st)"
    by (auto simp: deposit_step_def is_pending_iff split: prod.splits sum.splits option.splits if_splits)
  from I p' show "(\<forall>st. p' = Some st \<longrightarrow> is_pending st) \<and> ?D - tm_now T w' < ?D - tm_now T w0"
    using poll_sleep_progress [OF assms(1,3) retry_read_later [OF assms(1,2) x] retry_read_open [OF x timeouts_permanent(2)]] w'
    by auto
qed simp

definition failed_transfer_error :: "uuid \<Rightarrow> 'f transfer \<Rightarrow> wallet_error" where
  "failed_transfer_error i t =
     (case tr_tx t of None \<Rightarrow> Wal_TransferFailed i | Some h \<Rightarrow> Wal_FailedTransferHasTx i h)"

fun tx_hash_result ::
  "'w timer \<Rightarrow> instant \<Rightarrow> instant \<Rightarrow> ('w, 'f) wallet_transfers \<Rightarrow> uuid \<Rightarrow> wallet_error + string \<Rightarrow> 'w \<Rightarrow> bool" where
  "tx_hash_result T t0 D ts i (Inr h) w' \<longleftrightarrow>
     (\<exists>t. poll_read T D (wt_get_transfer ts i) (Inr t) \<and> tr_status t = TransferComplete \<and> tr_tx t = Some h)"
| "tx_hash_result T t0 D ts i (Inl e) w' \<longleftrightarrow>
     poll_read T D (wt_get_transfer ts i) (Inl e)
     \<or> e = Wal_TransferTimeout i (tm_now T w' - t0) \<and> D \<le> tm_now T w'
     \<or> (\<exists>t. poll_read T D (wt_get_transfer ts i) (Inr t) \<and> tr_status t = TransferFailedStatus
          \<and> e = failed_transfer_error i t)"

lemma transfer_tx_hash_state_cases:
  "transfer_tx_hash_state t i = Inr (Some h) \<longleftrightarrow> tr_status t = TransferComplete \<and> tr_tx t = Some h"
  "transfer_tx_hash_state t i = Inl e \<longleftrightarrow> tr_status t = TransferFailedStatus
     \<and> e = failed_transfer_error i t"
  by (cases "tr_status t"; cases "tr_tx t"; auto simp: transfer_tx_hash_state_def failed_transfer_error_def)+

lemma tx_hash_poll_ends:
  assumes "timer_laws T" "takes_time T (wt_get_transfer ts i)" "0 < pc_interval cfg"
  shows "\<exists>r w'. poll_transfer_tx_hash_under T ts i cfg policy w = Some (r, w')
    \<and> tx_hash_result T (tm_now T w) (poll_deadline (tm_now T w) (pc_timeout cfg)) ts i r w'"
  unfolding poll_transfer_tx_hash_under_def
proof (rule poll_loop_ends [where I = "\<lambda>th w0. \<forall>e. th = Some e \<longrightarrow>
        poll_read T (poll_deadline (tm_now T w) (pc_timeout cfg)) (wt_get_transfer ts i) (Inl e) \<and> wallet_backpressure e \<noteq> None"
      and m = "\<lambda>th w'. poll_deadline (tm_now T w) (pc_timeout cfg) - tm_now T w'"])
  let ?D = "poll_deadline (tm_now T w) (pc_timeout cfg)"
  let ?read = "wt_get_transfer ts i"
  let ?to = "\<lambda>w'. Wal_TransferTimeout i (tm_now T w' - tm_now T w)"
  fix th w0
  assume I: "\<forall>e. th = Some e \<longrightarrow> poll_read T ?D ?read (Inl e) \<and> wallet_backpressure e \<noteq> None"
  obtain x w1 where x: "read_before T ?D ?read (\<lambda>w'. unwrap_or th (?to w')) w0 = (x, w1)" by force
  have x': "poll_read T ?D ?read x \<or> x = Inl (?to w1) \<and> ?D \<le> tm_now T w1"
    using read_before_ended [OF assms(1) x] I by (cases th) (auto simp: poll_read_def)
  show "tx_hash_result T (tm_now T w) ?D ts i r w'"
    if step: "tx_hash_step T ts i cfg policy (tm_now T w) ?D th w0 = (Inl r, w')" for r w'
    using step x x'
    by (auto simp: tx_hash_step_def transfer_tx_hash_state_cases split: sum.splits option.splits if_splits)
  show "(\<forall>e. th' = Some e \<longrightarrow> poll_read T ?D ?read (Inl e) \<and> wallet_backpressure e \<noteq> None)
      \<and> ?D - tm_now T w' < ?D - tm_now T w0"
    if step: "tx_hash_step T ts i cfg policy (tm_now T w) ?D th w0 = (Inr th', w')" for th' w'
  proof -
    from step x obtain d where w': "w' = poll_sleep T d ?D w1" "0 < d"
      and th': "\<And>e. th' = Some e \<Longrightarrow> x = Inl e \<and> wallet_backpressure e \<noteq> None"
      and open': "(\<exists>t. x = Inr t) \<or> (\<exists>e. x = Inl e \<and> is_retried e \<and> (wallet_backpressure e \<noteq> None \<longrightarrow> tm_now T w1 < ?D))"
      using assms(3) retry_wait_bounds [where scheduled = "pc_interval cfg"]
      by (fastforce simp: tx_hash_step_def throttle_of_def split: sum.splits option.splits if_splits)
    have later: "tm_now T w0 \<le> tm_now T w1" by (rule read_before_later [OF assms(1,2) x])
    have "tm_now T w0 < ?D"
    proof (rule ccontr)
      assume late: "\<not> tm_now T w0 < ?D"
      then have "x = Inl (unwrap_or th (?to w0))" "w1 = w0" using x by (auto simp: read_before_def)
      with open' late I timeouts_permanent(1) show False by (cases th) auto
    qed
    with poll_sleep_progress [OF assms(1) w'(2) later] w'(1) th' x' show ?thesis
      using timeouts_permanent by fastforce
  qed
qed simp

subsection \<open>Properties\<close>

text \<open>
  Every wallet poll returns, on a clock that moves with the poll's own sleeps and with a positive
  interval, whatever Alpaca answers and whatever delays the backoff yields.
\<close>

theorem wallet_polls_return:
  assumes "timer_laws T" and "0 < pc_interval cfg"
    and "takes_time T (wt_get_transfer ts i)" and "takes_time T (wt_find_deposit ts h)"
  shows "(\<exists>x. poll_transfer_until_complete_under T backoff ts i cfg policy w = Some x)
    \<and> (\<exists>x. poll_transfer_tx_hash_under T ts i cfg policy w = Some x)
    \<and> (\<exists>x. poll_deposit_by_tx_hash_under T backoff ts h cfg policy w = Some x)"
  using transfer_poll_ends [OF assms(1,3,2)] tx_hash_poll_ends [OF assms(1,3,2)]
    deposit_poll_ends [OF assms(1,4,2)] by meson

text \<open>
  What a wallet poll's result means. A transfer or deposit it returns was read before the deadline
  and is complete or failed. A transaction hash it returns is the hash of a transfer read as complete,
  never of a pending or failed one. An error is one that a read before the deadline gave, a status
  that moved from processing back to pending, a failed transfer (in the hash poll), or the timeout,
  with the time the poll really took, and only at or after the deadline.
\<close>

theorem wallet_poll_results:
  assumes "timer_laws T" and "0 < pc_interval cfg"
    and "takes_time T (wt_get_transfer ts i)" and "takes_time T (wt_find_deposit ts h)"
    and "D = poll_deadline (tm_now T w) (pc_timeout cfg)"
  shows "(\<forall>r w'. poll_transfer_until_complete_under T backoff ts i cfg policy w = Some (r, w') \<longrightarrow>
        transfer_result T (tm_now T w) D ts i r w')
    \<and> (\<forall>r w'. poll_transfer_tx_hash_under T ts i cfg policy w = Some (r, w') \<longrightarrow>
        tx_hash_result T (tm_now T w) D ts i r w')
    \<and> (\<forall>r w'. poll_deposit_by_tx_hash_under T backoff ts h cfg policy w = Some (r, w') \<longrightarrow>
        deposit_result T (tm_now T w) D ts h r w')"
  unfolding assms(5)
  using transfer_poll_ends [OF assms(1,3,2), of backoff policy w] tx_hash_poll_ends [OF assms(1,3,2), of policy w]
    deposit_poll_ends [OF assms(1,4,2), of backoff policy w] by fastforce

text \<open>A transfer that is processing until its tenth second and then complete, with reads that take a second.\<close>

definition slow_transfer :: "transfer_status \<Rightarrow> nat transfer" where
  "slow_transfer st = \<lparr>tr_id = ''t1'', tr_tx = Some ''0xab'', tr_direction = Outgoing, tr_amount = 5,
     tr_chain = ''ethereum'', tr_asset = ''USDC'', tr_from = ''0x1'', tr_to = ''0x2'', tr_status = st,
     tr_created_at = 0\<rparr>"

definition slow_transfers :: "(instant \<times> unit, nat) wallet_transfers" where
  "slow_transfers = \<lparr>
     wt_get_transfer = (\<lambda>_ w. (Inr (slow_transfer (if fst w < 10 then TransferProcessing else TransferComplete)),
       (Suc (fst w), ()))),
     wt_find_deposit = (\<lambda>_ w. (Inr None, (Suc (fst w), ())))\<rparr>"

definition quick_config :: polling_config where
  "quick_config = \<lparr>pc_interval = 20, pc_timeout = 100, pc_max_retries = 0, pc_min_retry_delay = 1, pc_max_retry_delay = 1\<rparr>"

lemma slow_takes_time:
  "takes_time clock_timer (wt_get_transfer slow_transfers i)"
  "takes_time clock_timer (wt_find_deposit slow_transfers h)"
  by (simp_all add: takes_time_def slow_transfers_def)

lemma quick_interval: "0 < pc_interval quick_config"
  by (simp add: quick_config_def)

theorem wallet_polls_return_witness:
  "(\<exists>x. poll_transfer_until_complete_under clock_timer (\<lambda>_ _ _. []) slow_transfers ''t1'' quick_config Return (0, ()) = Some x)
   \<and> (\<exists>x. poll_deposit_by_tx_hash_under clock_timer (\<lambda>_ _ _. []) slow_transfers ''0xab'' quick_config Return (0, ()) = Some x)"
  using wallet_polls_return [OF clock_timer_laws quick_interval slow_takes_time, where policy = Return
      and backoff = "\<lambda>_ _ _. []" and w = "(0, ())"] by blast

lemma slow_hash_poll:
  "poll_transfer_tx_hash_under clock_timer slow_transfers ''t1'' quick_config Return (0, ()) = Some (Inr ''0xab'', (22, ()))"
proof -
  have "poll_deadline 0 100 = 100"
    by (simp add: poll_deadline_def checked_add_def INSTANT_MAX_def nanos_per_sec_def)
  then show ?thesis
    by (simp add: poll_transfer_tx_hash_under_def poll_loop.simps tx_hash_step_def read_before_def timeout_at_def
        slow_transfers_def slow_transfer_def quick_config_def clock_timer_def transfer_tx_hash_state_def
        poll_sleep_def next_poll_delay_def)
qed

theorem wallet_poll_results_witness:
  "poll_transfer_tx_hash_under clock_timer slow_transfers ''t1'' quick_config Return (0, ()) = Some (Inr ''0xab'', (22, ()))
   \<and> tx_hash_result clock_timer 0 100 slow_transfers ''t1'' (Inr ''0xab'') (22, ())"
proof -
  have "100 = poll_deadline (tm_now clock_timer (0, ())) (pc_timeout quick_config)"
    by (simp add: poll_deadline_def checked_add_def INSTANT_MAX_def nanos_per_sec_def quick_config_def)
  from wallet_poll_results [OF clock_timer_laws quick_interval slow_takes_time this] slow_hash_poll
  show ?thesis by fastforce
qed

end
