(* ===== verification/Tokenization.thy ===== *)
theory Tokenization
  imports Wire
begin

text \<open>
  The tokenization client (\<^verbatim>\<open>src/tokenization/client.rs\<close>, \<^verbatim>\<open>mod.rs\<close>): identifiers, mint requests with
  the classification of Alpaca's refusals, the request history and the lookups on it, and the network
  check every single request passes. The record \<open>tokenization_json\<close> is what serde derives for the wire
  types.
\<close>

subsection \<open>Identifiers\<close>

datatype client_request_id_error =
  ClientRequestIdEmpty | ClientRequestIdTooLong | NonPrintableAscii | SurroundingWhitespace

definition client_request_id_try_new :: "string \<Rightarrow> client_request_id_error + string" where
  "client_request_id_try_new v =
     (if v = [] then Inl ClientRequestIdEmpty
      else if length v > 128 then Inl ClientRequestIdTooLong
      else if \<not> list_all (between 32 126) v then Inl NonPrintableAscii
      else if ws_front v \<noteq> None \<or> ws_back (rev v) \<noteq> None then Inl SurroundingWhitespace
      else Inr v)"

datatype tokenization_request_id_error = TokenizationRequestIdEmpty

definition tokenization_request_id_try_new :: "string \<Rightarrow> tokenization_request_id_error + string" where
  "tokenization_request_id_try_new v = (if v = [] then Inl TokenizationRequestIdEmpty else Inr v)"

subsection \<open>Requests\<close>

datatype tokenization_request_type = Mint | Redeem

fun request_type_display :: "tokenization_request_type \<Rightarrow> string" where
  "request_type_display Mint = ''mint''"
| "request_type_display Redeem = ''redeem''"

datatype tokenization_request_status = Tok_Pending | Tok_Completed | Tok_Rejected

fun request_status_display :: "tokenization_request_status \<Rightarrow> string" where
  "request_status_display Tok_Pending = ''pending''"
| "request_status_display Tok_Completed = ''completed''"
| "request_status_display Tok_Rejected = ''rejected''"

record 'f tokenization_request =
  tq_id :: string
  tq_type :: "tokenization_request_type option"
  tq_status :: tokenization_request_status
  tq_underlying_symbol :: symbol
  tq_token_symbol :: "string option"
  tq_quantity :: 'f
  tq_wallet :: "string option"
  tq_client_request_id :: "string option"
  tq_network :: "string option"
  tq_issuer_request_id :: "uuid option"
  tq_tx_hash :: "string option"
  tq_fees :: "'f option"
  tq_created_at :: utc

text \<open>The two custom field decoders, on the optional string serde read.\<close>

definition deserialize_token_symbol :: "string option \<Rightarrow> string option" where
  "deserialize_token_symbol o' = Option.bind o' (\<lambda>s. if s \<noteq> [] then Some s else None)"

definition deserialize_tx_hash :: "(string \<Rightarrow> string + string) \<Rightarrow> string option \<Rightarrow> string + string option" where
  "deserialize_tx_hash parse o' =
     (case o' of
        None \<Rightarrow> Inr None
      | Some v \<Rightarrow> if v = [] then Inr None else and_then (parse v) (\<lambda>h. Inr (Some h)))"

record 'f mint_request =
  mr_underlying_symbol :: symbol
  mr_quantity :: 'f
  mr_issuer :: string
  mr_network :: string
  mr_wallet :: string
  mr_client_request_id :: uuid

record list_requests_params =
  lp_request_type :: "tokenization_request_type option"
  lp_status :: "tokenization_request_status option"
  lp_underlying_symbol :: "symbol option"

definition default_list_params :: list_requests_params where
  "default_list_params = \<lparr>lp_request_type = None, lp_status = None, lp_underlying_symbol = None\<rparr>"

record 'f tokenization_json =
  tj_rows :: "string \<Rightarrow> string + json list"
  tj_request :: "json \<Rightarrow> string + 'f tokenization_request"
  tj_request_bytes :: "bytes \<Rightarrow> string + 'f tokenization_request"

fun tokenization_from_send :: "send_error \<Rightarrow> tokenization_error" where
  "tokenization_from_send (SendHttp e) = Tok_Reqwest e"
| "tokenization_from_send (SendNotSent c) = Tok_NotSent c"

definition map_mint_error ::
  "status_code \<Rightarrow> string \<Rightarrow> symbol \<Rightarrow> duration option \<Rightarrow> tokenization_error" where
  "map_mint_error status message s wait =
     (let normalized = to_ascii_lowercase message
      in if status = 403
         then (if contains normalized ''insufficient'' \<and> contains normalized ''position''
               then Tok_InsufficientPosition s
               else if contains normalized ''not supported'' \<and> contains normalized ''tokenization''
               then Tok_UnsupportedAccount
               else Tok_ApiError status message wait)
         else if status = 422 \<and> contains normalized ''no positions found'' then Tok_InsufficientPosition s
         else if status = 422 \<and> contains normalized ''invalid wallet address'' then Tok_InvalidParameters message
         else Tok_ApiError status message wait)"

subsection \<open>The client\<close>

record tokenization_client =
  tc_base_url :: string
  tc_account_id :: uuid
  tc_chain :: network

text \<open>A mint body with the \<open>Idempotency-Key\<close> header sent beside it.\<close>

datatype 'f tokenization_body = Mint_Body string "'f mint_request"

definition new_tokenization_client ::
  "(unit \<Rightarrow> reqwest_error + unit) \<Rightarrow> (alpaca_auth \<Rightarrow> kms_jwt_error + 'rt) \<Rightarrow> url_parser \<Rightarrow> ip_parser
   \<Rightarrow> string \<Rightarrow> uuid \<Rightarrow> alpaca_auth \<Rightarrow> network \<Rightarrow> tokenization_error + ('rt \<times> tokenization_client)" where
  "new_tokenization_client http_build build parse_url parse_ip base_url account auth chain =
     and_then (map_err Tok_InvalidBaseUrl (validate_origin parse_url parse_ip base_url BaseUrl)) (\<lambda>_.
     case auth of
       Auth_PrivateKeyJwt _ _ \<Rightarrow> Inl Tok_PrivateKeyJwtUnsupported
     | _ \<Rightarrow>
         and_then (map_err Tok_Reqwest (http_build ())) (\<lambda>_.
         and_then (map_err Tok_Auth (build auth)) (\<lambda>rt.
         Inr (rt, \<lparr>tc_base_url = base_url, tc_account_id = account, tc_chain = chain\<rparr>))))"

definition confirm_network ::
  "tokenization_client \<Rightarrow> 'f tokenization_request \<Rightarrow> tokenization_error + 'f tokenization_request" where
  "confirm_network c r =
     (case tq_network r of
        Some n \<Rightarrow>
          if n = network_as_str (tc_chain c) then Inr r
          else Inl (Tok_WrongNetwork (tq_id r) n (tc_chain c))
      | None \<Rightarrow> Inl (Tok_NetworkMissing (tq_id r)))"

abbreviation tokenization_transmit ::
  "('env, 'w, 'f tokenization_body) wire \<Rightarrow> wire_method \<Rightarrow> string \<Rightarrow> (string \<times> string) list \<Rightarrow> 'f tokenization_body option
   \<Rightarrow> ('env, 'w, 'f tokenization_body, tokenization_error, http_answer) wire_call" where
  "tokenization_transmit X m url q b \<equiv> transmit Tok_Auth tokenization_from_send X m url q b"

text \<open>What \<open>request_mint\<close> makes of Alpaca's answer.\<close>

definition mint_answer ::
  "'f tokenization_json \<Rightarrow> ('env, 'w, 'f tokenization_body) wire \<Rightarrow> tokenization_client \<Rightarrow> symbol \<Rightarrow> http_answer
   \<Rightarrow> ('env, 'w, 'f tokenization_body, tokenization_error, 'f tokenization_request) wire_call" where
  "mint_answer J X c ticker a s =
     (let retry_after = head_retry_after X a s
      in ((case ha_body a of
             Inl e \<Rightarrow> Inl (Tok_Reqwest e)
           | Inr bs \<Rightarrow>
               if is_success (ha_status a)
               then and_then (map_err Tok_JsonParse (tj_request_bytes J bs)) (confirm_network c)
               else Inl (map_mint_error (ha_status a) (wi_utf8_lossy X bs) ticker retry_after)),
          record_head a s))"

definition mint_url :: "tokenization_client \<Rightarrow> string" where
  "mint_url c = tc_base_url c @ ''/v1/accounts/'' @ tc_account_id c @ ''/tokenization/mint''"

definition client_request_mint ::
  "'f tokenization_json \<Rightarrow> ('env, 'w, 'f tokenization_body) wire \<Rightarrow> tokenization_client \<Rightarrow> 'f mint_request
   \<Rightarrow> ('env, 'w, 'f tokenization_body, tokenization_error, 'f tokenization_request) wire_call" where
  "client_request_mint J X c r =
     then_call (tokenization_transmit X W_Post (mint_url c) [] (Some (Mint_Body (mr_client_request_id r) r)))
       (mint_answer J X c (mr_underlying_symbol r))"

definition request_mint ::
  "'f tokenization_json \<Rightarrow> ('env, 'w, 'f tokenization_body) wire \<Rightarrow> tokenization_client
   \<Rightarrow> symbol \<Rightarrow> 'f \<Rightarrow> string \<Rightarrow> uuid
   \<Rightarrow> ('env, 'w, 'f tokenization_body, tokenization_error, 'f tokenization_request) wire_call" where
  "request_mint J X c ticker q wallet i =
     client_request_mint J X c \<lparr>mr_underlying_symbol = ticker, mr_quantity = q, mr_issuer = ''st0x'',
       mr_network = network_as_str (tc_chain c), mr_wallet = wallet, mr_client_request_id = i\<rparr>"

subsection \<open>History\<close>

definition requests_url :: "tokenization_client \<Rightarrow> string" where
  "requests_url c = tc_base_url c @ ''/v1/accounts/'' @ tc_account_id c @ ''/tokenization/requests''"

definition list_query :: "list_requests_params \<Rightarrow> (string \<times> string) list" where
  "list_query p =
     (case lp_request_type p of None \<Rightarrow> [] | Some t \<Rightarrow> [(''type'', request_type_display t)])
     @ (case lp_status p of None \<Rightarrow> [] | Some st \<Rightarrow> [(''status'', request_status_display st)])
     @ (case lp_underlying_symbol p of None \<Rightarrow> [] | Some s \<Rightarrow> [(''underlying_symbol'', s)])"

definition requests_answer ::
  "('env, 'w, 'f tokenization_body) wire \<Rightarrow> http_answer
   \<Rightarrow> ('env, 'w, 'f tokenization_body, tokenization_error, string) wire_call" where
  "requests_answer X a s =
     (let retry_after = head_retry_after X a s
      in ((case ha_body a of
             Inl e \<Rightarrow> Inl (Tok_Reqwest e)
           | Inr bs \<Rightarrow>
               if is_success (ha_status a) then map_err (\<lambda>_. Tok_Utf8 bs) (from_utf8 bs)
               else Inl (Tok_ApiError (ha_status a) (wi_utf8_lossy X bs) retry_after)),
          record_head a s))"

definition fetch_requests_body ::
  "('env, 'w, 'f tokenization_body) wire \<Rightarrow> tokenization_client \<Rightarrow> list_requests_params
   \<Rightarrow> ('env, 'w, 'f tokenization_body, tokenization_error, string) wire_call" where
  "fetch_requests_body X c p =
     then_call (tokenization_transmit X W_Get (requests_url c) (list_query p) None) (requests_answer X)"

definition parse_request_list ::
  "'f tokenization_json \<Rightarrow> string \<Rightarrow> string + 'f tokenization_request list" where
  "parse_request_list J b =
     and_then (tj_rows J b) (\<lambda>rows.
       Inr (List.map_filter (\<lambda>row. case tj_request J row of Inr r \<Rightarrow> Some r | Inl _ \<Rightarrow> None) rows))"

text \<open>The loop of \<open>scan_request_list\<close>.\<close>

fun scan_rows :: "(json \<Rightarrow> string + 'a option) \<Rightarrow> json list \<Rightarrow> string + 'a option" where
  "scan_rows matcher [] = Inr None"
| "scan_rows matcher (row # rows) =
     and_then (matcher row) (\<lambda>found.
       case found of Some x \<Rightarrow> Inr (Some x) | None \<Rightarrow> scan_rows matcher rows)"

definition scan_request_list ::
  "'f tokenization_json \<Rightarrow> string \<Rightarrow> (json \<Rightarrow> string + 'a option) \<Rightarrow> string + 'a option" where
  "scan_request_list J b matcher = and_then (tj_rows J b) (scan_rows matcher)"

definition parse_if ::
  "'f tokenization_json \<Rightarrow> (json \<Rightarrow> bool) \<Rightarrow> json \<Rightarrow> string + 'f tokenization_request option" where
  "parse_if J P row = (if P row then and_then (tj_request J row) (\<lambda>r. Inr (Some r)) else Inr None)"

definition row_has_id :: "string \<Rightarrow> json \<Rightarrow> bool" where
  "row_has_id i row = (json_field row ''tokenization_request_id'' = Some i)"

definition row_has_tx :: "string \<Rightarrow> json \<Rightarrow> bool" where
  "row_has_tx tx_hash row =
     (case json_field row ''tx_hash'' of
        None \<Rightarrow> False
      | Some h \<Rightarrow> to_ascii_lowercase h = to_ascii_lowercase tx_hash)"

definition row_is_mint_of :: "string \<Rightarrow> json \<Rightarrow> bool" where
  "row_is_mint_of client_id row =
     (json_field row ''type'' = Some ''mint'' \<and> json_field row ''client_request_id'' = Some client_id)"

definition find_unique_mint_request ::
  "'f tokenization_json \<Rightarrow> string \<Rightarrow> uuid \<Rightarrow> tokenization_error + 'f tokenization_request option" where
  "find_unique_mint_request J b i =
     and_then (map_err Tok_JsonParse (tj_rows J b)) (\<lambda>rows.
       case filter (row_is_mint_of i) rows of
         [] \<Rightarrow> Inr None
       | row # others \<Rightarrow>
           if others \<noteq> [] then Inl (Tok_DuplicateMintIssuerRequestId i)
           else and_then (map_err Tok_JsonParse (tj_request J row)) (\<lambda>r. Inr (Some r)))"

definition list_requests_with ::
  "'f tokenization_json \<Rightarrow> ('env, 'w, 'f tokenization_body) wire \<Rightarrow> tokenization_client \<Rightarrow> list_requests_params
   \<Rightarrow> ('env, 'w, 'f tokenization_body, tokenization_error, 'f tokenization_request list) wire_call" where
  "list_requests_with J X c p =
     then_call (fetch_requests_body X c p) (\<lambda>b. return_call (map_err Tok_JsonParse (parse_request_list J b)))"

definition list_requests ::
  "'f tokenization_json \<Rightarrow> ('env, 'w, 'f tokenization_body) wire \<Rightarrow> tokenization_client
   \<Rightarrow> ('env, 'w, 'f tokenization_body, tokenization_error, 'f tokenization_request list) wire_call" where
  "list_requests J X c = list_requests_with J X c default_list_params"

definition list_pending_requests ::
  "'f tokenization_json \<Rightarrow> ('env, 'w, 'f tokenization_body) wire \<Rightarrow> tokenization_client
   \<Rightarrow> ('env, 'w, 'f tokenization_body, tokenization_error, 'f tokenization_request list) wire_call" where
  "list_pending_requests J X c =
     then_call (list_requests_with J X c (default_list_params\<lparr>lp_status := Some Tok_Pending\<rparr>)) (\<lambda>rs.
       return_call (Inr (filter (\<lambda>r. tq_status r = Tok_Pending) rs)))"

definition get_request ::
  "'f tokenization_json \<Rightarrow> ('env, 'w, 'f tokenization_body) wire \<Rightarrow> tokenization_client \<Rightarrow> string
   \<Rightarrow> ('env, 'w, 'f tokenization_body, tokenization_error, 'f tokenization_request) wire_call" where
  "get_request J X c i =
     then_call (fetch_requests_body X c default_list_params) (\<lambda>b.
     return_call
       (and_then (map_err Tok_JsonParse (scan_request_list J b (parse_if J (row_has_id i)))) (\<lambda>found.
        and_then (ok_or found (Tok_RequestNotFound i)) (confirm_network c))))"

definition find_redemption_by_tx ::
  "'f tokenization_json \<Rightarrow> ('env, 'w, 'f tokenization_body) wire \<Rightarrow> tokenization_client \<Rightarrow> string
   \<Rightarrow> ('env, 'w, 'f tokenization_body, tokenization_error, 'f tokenization_request option) wire_call" where
  "find_redemption_by_tx J X c tx_hash =
     then_call (fetch_requests_body X c (default_list_params\<lparr>lp_request_type := Some Redeem\<rparr>)) (\<lambda>b.
     return_call
       (and_then (map_err Tok_JsonParse (scan_request_list J b (parse_if J (row_has_tx tx_hash)))) (\<lambda>found.
        case found of
          None \<Rightarrow> Inr None
        | Some r \<Rightarrow> and_then (confirm_network c r) (\<lambda>r. Inr (Some r)))))"

definition find_mint_by_issuer_request_id ::
  "'f tokenization_json \<Rightarrow> ('env, 'w, 'f tokenization_body) wire \<Rightarrow> tokenization_client \<Rightarrow> uuid
   \<Rightarrow> ('env, 'w, 'f tokenization_body, tokenization_error, 'f tokenization_request option) wire_call" where
  "find_mint_by_issuer_request_id J X c i =
     then_call (fetch_requests_body X c (default_list_params\<lparr>lp_request_type := Some Mint\<rparr>)) (\<lambda>b.
     return_call (find_unique_mint_request J b i))"

subsection \<open>Lemmas\<close>

lemma mint_answer_keeps: "keeps_sent (mint_answer J X c ticker)"
  by (simp add: keeps_sent_def mint_answer_def Let_def)

lemma requests_answer_keeps: "keeps_sent (requests_answer X)"
  by (simp add: keeps_sent_def requests_answer_def Let_def)

lemma confirm_network_Inr:
  "confirm_network c r = Inr r' \<longleftrightarrow> r' = r \<and> tq_network r = Some (network_as_str (tc_chain c))"
  by (auto simp: confirm_network_def split: option.splits)

lemma scan_rows_found:
  "scan_rows (parse_if J P) rows = Inr found \<longleftrightarrow>
     (case List.find P rows of
        None \<Rightarrow> found = None
      | Some row \<Rightarrow> (\<exists>r. tj_request J row = Inr r \<and> found = Some r))"
  by (induction rows) (auto simp: parse_if_def and_then_Inr_iff split: option.splits)

lemma find_first_found: "List.find P rows = Some row \<Longrightarrow> row \<in> set rows \<and> P row"
  by (rule find_Some_set)

lemma map_mint_error_definitive:
  assumes "is_definitive_mint_rejection (map_mint_error status message s wait)"
  shows "status = 403 \<or> status = 422"
  using assms by (auto simp: map_mint_error_def Let_def split: if_splits)

lemma printable_byte:
  "between 32 126 c \<Longrightarrow> \<not> between 9 13 c \<and> c \<noteq> CHR 0xC2 \<and> c \<noteq> CHR 0xE1 \<and> c \<noteq> CHR 0xE2 \<and> c \<noteq> CHR 0xE3"
  by (auto simp: between_def)

lemma ws_printable:
  assumes "list_all (between 32 126) (c # s)"
  shows "ws_front (c # s) = None \<longleftrightarrow> c \<noteq> CHR '' ''" and "ws_back (c # s) = None \<longleftrightarrow> c \<noteq> CHR '' ''"
proof -
  from assms have c: "between 32 126 c" and s: "list_all (between 32 126) s" by simp_all
  show "ws_front (c # s) = None \<longleftrightarrow> c \<noteq> CHR '' ''"
    by (subst ws_front.simps) (simp add: printable_byte [OF c] split: list.split)
  show "ws_back (c # s) = None \<longleftrightarrow> c \<noteq> CHR '' ''"
  proof (cases s)
    case Nil
    then show ?thesis by (subst ws_back.simps) (simp add: printable_byte [OF c])
  next
    case (Cons d t)
    with s have d: "between 32 126 d" and t: "list_all (between 32 126) t" by simp_all
    show ?thesis
    proof (cases t)
      case Nil
      with Cons show ?thesis by (subst ws_back.simps) (simp add: printable_byte [OF c] printable_byte [OF d])
    next
      case (Cons e u)
      with t have e: "between 32 126 e" by simp
      from \<open>s = d # t\<close> Cons show ?thesis
        by (subst ws_back.simps) (simp add: printable_byte [OF c] printable_byte [OF d] printable_byte [OF e])
    qed
  qed
qed

subsection \<open>Properties\<close>

text \<open>
  The tokenization client acts on its own chain only. A mint response, a request found by id and a
  redemption found by transaction that it returns all name the client's network; a request found by id
  or transaction is the first row of the answered history with that id or hash, whatever other rows,
  malformed ones included, stand before it.
\<close>

theorem tokenized_requests_are_on_this_chain:
  "(request_mint J X c ticker q wallet i s = (Inr r, s') \<longrightarrow> tq_network r = Some (network_as_str (tc_chain c)))
   \<and> (get_request J X c j s = (Inr r, s') \<longrightarrow>
        tq_network r = Some (network_as_str (tc_chain c))
        \<and> (\<exists>b rows row. tj_rows J b = Inr rows \<and> List.find (row_has_id j) rows = Some row \<and> tj_request J row = Inr r))
   \<and> (find_redemption_by_tx J X c h s = (Inr (Some r), s') \<longrightarrow>
        tq_network r = Some (network_as_str (tc_chain c))
        \<and> (\<exists>b rows row. tj_rows J b = Inr rows \<and> List.find (row_has_tx h) rows = Some row \<and> tj_request J row = Inr r))"
proof (intro conjI impI)
  assume "request_mint J X c ticker q wallet i s = (Inr r, s')"
  then show "tq_network r = Some (network_as_str (tc_chain c))"
    unfolding request_mint_def client_request_mint_def
    by (cases rule: then_call_Pair)
      (auto simp: mint_answer_def Let_def and_then_Inr_iff confirm_network_Inr split: sum.splits if_splits)
next
  assume get: "get_request J X c j s = (Inr r, s')"
  then obtain b found where "scan_request_list J b (parse_if J (row_has_id j)) = Inr found"
    and f: "found = Some r" "tq_network r = Some (network_as_str (tc_chain c))"
    unfolding get_request_def
    by (cases rule: then_call_Pair) (auto simp: return_call_def and_then_Inr_iff confirm_network_Inr)
  then show "tq_network r = Some (network_as_str (tc_chain c))"
    and "\<exists>b rows row. tj_rows J b = Inr rows \<and> List.find (row_has_id j) rows = Some row \<and> tj_request J row = Inr r"
    by (auto simp: scan_request_list_def and_then_Inr_iff scan_rows_found split: option.splits)
next
  assume get: "find_redemption_by_tx J X c h s = (Inr (Some r), s')"
  then obtain b found where "scan_request_list J b (parse_if J (row_has_tx h)) = Inr found"
    and f: "found = Some r" "tq_network r = Some (network_as_str (tc_chain c))"
    unfolding find_redemption_by_tx_def
    by (cases rule: then_call_Pair)
      (auto simp: return_call_def and_then_Inr_iff confirm_network_Inr split: option.splits)
  then show "tq_network r = Some (network_as_str (tc_chain c))"
    and "\<exists>b rows row. tj_rows J b = Inr rows \<and> List.find (row_has_tx h) rows = Some row \<and> tj_request J row = Inr r"
    by (auto simp: scan_request_list_def and_then_Inr_iff scan_rows_found split: option.splits)
qed

lemma mint_sends:
  assumes "request_mint J X c ticker q wallet i s = (r, s')"
  shows "sends s [] s' \<and> ((\<exists>k. r = Inl (Tok_Auth k)) \<or> r = Inl (Tok_NotSent GateClosed))
    \<or> (\<exists>p m. sends s [p] s' \<and> is_request W_Post (mint_url c) (Some (Mint_Body i m)) p
         \<and> mr_client_request_id m = i \<and> mr_quantity m = q \<and> mr_wallet m = wallet
         \<and> mr_network m = network_as_str (tc_chain c)
         \<and> (\<forall>e. r = Inl e \<and> is_definitive_mint_rejection e \<longrightarrow>
              (\<exists>a w1 w2. wi_http X p w1 = (Inr a, w2) \<and> (ha_status a = 403 \<or> ha_status a = 422))))"
proof -
  let ?m = "\<lparr>mr_underlying_symbol = ticker, mr_quantity = q, mr_issuer = ''st0x'',
    mr_network = network_as_str (tc_chain c), mr_wallet = wallet, mr_client_request_id = i\<rparr>"
  from exchange_sends [OF assms [unfolded request_mint_def client_request_mint_def] mint_answer_keeps]
  show ?thesis
  proof (elim disjE exE conjE)
    fix p h
    assume "sends s [p] s'" "is_request W_Post (mint_url c) (Some (Mint_Body (mr_client_request_id ?m) ?m)) p"
      "r = Inl (tokenization_from_send (SendHttp h))"
    then show ?thesis by (intro disjI2 exI [of _ p] exI [of _ ?m]) simp
  next
    fix p a w1 w2 s1
    assume p: "sends s [p] s'" "is_request W_Post (mint_url c) (Some (Mint_Body (mr_client_request_id ?m) ?m)) p"
      "wi_http X p w1 = (Inr a, w2)" "mint_answer J X c (mr_underlying_symbol ?m) a s1 = (r, s')"
    have "ha_status a = 403 \<or> ha_status a = 422" if "r = Inl e" "is_definitive_mint_rejection e" for e
      using p(4) that map_mint_error_definitive
      by (auto simp: mint_answer_def Let_def and_then_Inl_iff map_err_def confirm_network_def
          split: sum.splits if_splits option.splits)
    with p show ?thesis by (intro disjI2 exI [of _ p] exI [of _ ?m]) auto
  qed simp_all
qed

text \<open>
  A mint is requested at most once, and a definitive rejection is Alpaca's own. A mint sends nothing
  (no credential, or the gate is closed) or one POST with the issuer request id as its idempotency key
  and client request id and with the client's network; an error that counts as a definitive rejection
  came with a 403 or 422 answer to that POST.
\<close>

theorem mint_is_posted_once:
  assumes "request_mint J X c ticker q wallet i s = (r, s')"
  shows "sends s [] s' \<and> ((\<exists>k. r = Inl (Tok_Auth k)) \<or> r = Inl (Tok_NotSent GateClosed))
    \<or> (\<exists>p m. sends s [p] s' \<and> is_request W_Post (mint_url c) (Some (Mint_Body i m)) p
         \<and> mr_client_request_id m = i \<and> mr_quantity m = q \<and> mr_wallet m = wallet
         \<and> mr_network m = network_as_str (tc_chain c)
         \<and> (\<forall>e. r = Inl e \<and> is_definitive_mint_rejection e \<longrightarrow>
              (\<exists>a w1 w2. wi_http X p w1 = (Inr a, w2) \<and> (ha_status a = 403 \<or> ha_status a = 422))))"
  using assms by (rule mint_sends)

text \<open>
  Recovery of a mint never guesses. From the history the lookup returns a mint only when exactly one
  row is a mint with this issuer request id, and then that row's request; with none it answers that
  there is none; with several it fails and names the id.
\<close>

theorem recovered_mint_is_unique:
  assumes "tj_rows J b = Inr rows"
  shows "case filter (row_is_mint_of i) rows of
      [] \<Rightarrow> find_unique_mint_request J b i = Inr None
    | [row] \<Rightarrow> (\<forall>found. find_unique_mint_request J b i = Inr found \<longleftrightarrow>
        (\<exists>r. tj_request J row = Inr r \<and> found = Some r))
    | _ \<Rightarrow> find_unique_mint_request J b i = Inl (Tok_DuplicateMintIssuerRequestId i)"
  using assms
  by (auto simp: find_unique_mint_request_def and_then_Inr_iff split: list.split)

text \<open>
  C40: Identifiers of the tokenization API are well formed once built. A client request id has between 1
  and 128 bytes, all printable ASCII, and neither starts nor ends with a space; building one from its
  own text gives it back; a request id is never empty.
\<close>

theorem request_ids_are_well_formed:
  "(client_request_id_try_new v = Inr x \<longleftrightarrow>
      x = v \<and> v \<noteq> [] \<and> length v \<le> 128 \<and> (\<forall>ch \<in> set v. between 32 126 ch)
      \<and> hd v \<noteq> CHR '' '' \<and> List.last v \<noteq> CHR '' '')
   \<and> (client_request_id_try_new v = Inr x \<longrightarrow> client_request_id_try_new x = Inr x)
   \<and> (tokenization_request_id_try_new v = Inr x \<longleftrightarrow> x = v \<and> v \<noteq> [])"
proof -
  have "ws_front v = None \<longleftrightarrow> hd v \<noteq> CHR '' ''" "ws_back (rev v) = None \<longleftrightarrow> List.last v \<noteq> CHR '' ''"
    if ne: "v \<noteq> []" and pr: "list_all (between 32 126) v"
  proof -
    obtain a w where v: "v = a # w" using ne by (cases v) auto
    obtain d u where u: "rev v = d # u" using ne by (cases "rev v") simp_all
    have d: "d = List.last v" using arg_cong [OF u, of hd] by (simp add: hd_rev)
    have "list_all (between 32 126) (rev v)" using pr by (simp add: list_all_iff)
    then have "list_all (between 32 126) (d # u)" by (simp only: u)
    with ws_printable(2) [of d u] show "ws_back (rev v) = None \<longleftrightarrow> List.last v \<noteq> CHR '' ''" by (simp only: u d)
    from pr ws_printable(1) [of a w] show "ws_front v = None \<longleftrightarrow> hd v \<noteq> CHR '' ''" by (simp only: v list.sel)
  qed
  then show ?thesis
    by (auto simp: client_request_id_try_new_def tokenization_request_id_try_new_def list_all_iff)
qed

subsection \<open>Witnesses\<close>

definition sample_row :: json where
  "sample_row = JObject [(''tokenization_request_id'', JString ''r1''), (''type'', JString ''mint''),
     (''client_request_id'', JString ''k1'')]"

definition sample_request :: "nat tokenization_request" where
  "sample_request = \<lparr>tq_id = ''r1'', tq_type = Some Mint, tq_status = Tok_Completed, tq_underlying_symbol = ''AAPL'',
     tq_token_symbol = None, tq_quantity = 5, tq_wallet = None, tq_client_request_id = Some ''k1'',
     tq_network = Some ''base'', tq_issuer_request_id = None, tq_tx_hash = None, tq_fees = None, tq_created_at = 0\<rparr>"

text \<open>A history whose first row does not parse.\<close>

definition sample_history :: "nat tokenization_json" where
  "sample_history = \<lparr>tj_rows = (\<lambda>b. Inr [JNull, sample_row]),
     tj_request = (\<lambda>row. if row = sample_row then Inr sample_request else Inl ''not a request''),
     tj_request_bytes = (\<lambda>b. Inr sample_request)\<rparr>"

definition sample_tokenizer :: tokenization_client where
  "sample_tokenizer = \<lparr>tc_base_url = ''https://b'', tc_account_id = ''a1'', tc_chain = Base\<rparr>"

lemmas tokenization_run = canned_transmit answer_of_def Let_def then_call_def open_net_def is_success_def
  from_utf8_def utf8_check.simps utf8_width_def between_def return_call_def sample_tokenizer_def sample_history_def

lemma sample_lookup:
  "\<exists>s'. get_request sample_history (canned_wire (\<lambda>_. answer_of 200 ''ok'')) sample_tokenizer ''r1'' (open_net, ())
     = (Inr sample_request, s')"
  by (simp add: get_request_def fetch_requests_body_def requests_answer_def scan_request_list_def
      parse_if_def row_has_id_def json_field_def sample_row_def confirm_network_def sample_request_def tokenization_run
      record_head_def)

theorem tokenized_requests_are_on_this_chain_witness:
  "\<exists>s'. get_request sample_history (canned_wire (\<lambda>_. answer_of 200 ''ok'')) sample_tokenizer ''r1'' (open_net, ())
      = (Inr sample_request, s')
     \<and> tq_network sample_request = Some (network_as_str (tc_chain sample_tokenizer))"
proof -
  obtain s' where g: "get_request sample_history (canned_wire (\<lambda>_. answer_of 200 ''ok'')) sample_tokenizer ''r1''
      (open_net, ()) = (Inr sample_request, s')" using sample_lookup by blast
  with tokenized_requests_are_on_this_chain [where J = sample_history and c = sample_tokenizer and j = "''r1''"
      and s = "(open_net, ())" and r = sample_request and s' = s'] show ?thesis by blast
qed

lemma sample_mint:
  "\<exists>s'. request_mint sample_history (canned_wire (\<lambda>_. answer_of 403 ''insufficient position'')) sample_tokenizer
      ''AAPL'' 5 ''0xa'' ''k1'' (open_net, ()) = (Inl (Tok_InsufficientPosition ''AAPL''), s')"
  by (simp add: request_mint_def client_request_mint_def mint_answer_def map_mint_error_def to_ascii_lowercase_def
      ascii_lower_def starts_with_def tokenization_run record_head_def)

theorem mint_is_posted_once_witness:
  "\<exists>s' p m. sends (open_net, ()) [p] s' \<and> wq_body p = Some (Mint_Body ''k1'' m) \<and> mr_quantity m = (5 :: nat)"
proof -
  obtain s' where w: "request_mint sample_history (canned_wire (\<lambda>_. answer_of 403 ''insufficient position'')) sample_tokenizer
      ''AAPL'' 5 ''0xa'' ''k1'' (open_net, ()) = (Inl (Tok_InsufficientPosition ''AAPL''), s')"
    using sample_mint by blast
  from mint_is_posted_once [OF w]
  have "\<exists>p m. sends (open_net, ()) [p] s' \<and> wq_body p = Some (Mint_Body ''k1'' m) \<and> mr_quantity m = (5 :: nat)"
    by (auto simp: is_query_def)
  then show ?thesis by blast
qed

theorem recovered_mint_is_unique_witness:
  "find_unique_mint_request sample_history ''x'' ''k1'' = Inr (Some sample_request)"
  using recovered_mint_is_unique [of sample_history "''x''" "[JNull, sample_row]" "''k1''"]
  by (simp add: sample_history_def sample_row_def row_is_mint_of_def json_field_def)

theorem request_ids_are_well_formed_witness:
  "client_request_id_try_new ''k 1'' = Inr ''k 1'' \<and> (\<forall>x. client_request_id_try_new ''k1 '' \<noteq> Inr x)"
  using request_ids_are_well_formed [of "''k 1''" "''k 1''"] request_ids_are_well_formed [of "''k1 ''"]
  by (simp add: between_def)

end
