(* ===== verification/Tokenization_Polls.thy ===== *)
theory Tokenization_Polls
  imports Tokenization Wallet_Polls
begin

text \<open>
  The tokenization polls (\<^verbatim>\<open>src/tokenization/client.rs\<close>, \<open>poll_request_until_complete_under\<close> and
  \<open>poll_for_redemption_under\<close>) over any \<open>TokenizationLookups\<close>, and the service. The ticks of a tokio
  interval are the parameter \<open>tick\<close>: from the period and the instant of the next tick, the instant of
  the tick after it. Its law is the documented one of \<open>MissedTickBehavior::Skip\<close>: a tick never comes
  before its instant, and the next one is at least a period later.
\<close>

subsection \<open>The polls\<close>

record ('w, 'f) tokenization_lookups =
  tl_get_request :: "string \<Rightarrow> 'w \<Rightarrow> (tokenization_error + 'f tokenization_request) \<times> 'w"
  tl_find_redemption_by_tx :: "string \<Rightarrow> 'w \<Rightarrow> (tokenization_error + 'f tokenization_request option) \<times> 'w"

definition client_lookups ::
  "'f tokenization_json \<Rightarrow> ('env, 'w, 'f tokenization_body) wire \<Rightarrow> tokenization_client
   \<Rightarrow> (('env, 'w, 'f tokenization_body) wire_state, 'f) tokenization_lookups" where
  "client_lookups J X c = \<lparr>tl_get_request = get_request J X c,
     tl_find_redemption_by_tx = find_redemption_by_tx J X c\<rparr>"

type_synonym 'w ticker = "duration \<Rightarrow> instant \<Rightarrow> 'w \<Rightarrow> instant \<times> 'w"

definition tick_laws :: "'w timer \<Rightarrow> 'w ticker \<Rightarrow> bool" where
  "tick_laws T tick \<longleftrightarrow>
     (\<forall>p next w. (case tick p next w of (next', w') \<Rightarrow>
        next \<le> tm_now T w' \<and> tm_now T w \<le> tm_now T w' \<and> next + p \<le> next'))"

definition tick_before ::
  "'w timer \<Rightarrow> 'w ticker \<Rightarrow> duration \<Rightarrow> instant \<Rightarrow> instant \<Rightarrow> ('w \<Rightarrow> tokenization_error) \<Rightarrow> 'w
   \<Rightarrow> (tokenization_error + instant) \<times> 'w" where
  "tick_before T tick p next deadline timed_out w =
     (case timeout_at T deadline (tick p next) w of
        (Some next', w') \<Rightarrow> (Inr next', w')
      | (None, w') \<Rightarrow> (Inl (timed_out w'), w'))"

definition retry_transient ::
  "'w timer \<Rightarrow> tokenization_error \<Rightarrow> backpressure_policy \<Rightarrow> instant \<Rightarrow> 'w
   \<Rightarrow> (tokenization_error + tokenization_error option) \<times> 'w" where
  "retry_transient T e policy deadline w =
     (if tokenization_permanence e \<noteq> Transient then (Inl e, w)
      else case tokenization_backpressure e of
          None \<Rightarrow> (Inr None, w)
        | Some b \<Rightarrow>
            (case backpressure_wait policy b 0 deadline (tm_now T w) of
               None \<Rightarrow> (Inl e, w)
             | Some wait \<Rightarrow> (Inr (Some e), poll_sleep T wait deadline w)))"

text \<open>
  The body both loops share: a tick, a lookup, and what the lookup ends the poll with. The state is
  the instant of the next tick and \<open>throttled\<close>.
\<close>

definition lookup_step ::
  "'w timer \<Rightarrow> 'w ticker \<Rightarrow> ('w \<Rightarrow> (tokenization_error + 'a) \<times> 'w) \<Rightarrow> ('a \<Rightarrow> 'f tokenization_request option)
   \<Rightarrow> polling_config \<Rightarrow> backpressure_policy \<Rightarrow> instant \<Rightarrow> instant \<Rightarrow> instant \<times> tokenization_error option \<Rightarrow> 'w
   \<Rightarrow> ((tokenization_error + 'f tokenization_request) + (instant \<times> tokenization_error option)) \<times> 'w" where
  "lookup_step T tick read finished cfg policy started deadline st w =
     (case st of (next, throttled) \<Rightarrow>
      let timed_out = (\<lambda>w. unwrap_or throttled (Tok_PollTimeout (tm_now T w - started)))
      in (case tick_before T tick (pc_interval cfg) next deadline timed_out w of
            (Inl e, w1) \<Rightarrow> (Inl (Inl e), w1)
          | (Inr next', w1) \<Rightarrow>
              (case read_before T deadline read timed_out w1 of
                 (Inr v, w2) \<Rightarrow>
                   (case finished v of
                      Some r \<Rightarrow> (Inl (Inr r), w2)
                    | None \<Rightarrow> (Inr (next', None), w2))
               | (Inl e, w2) \<Rightarrow>
                   (case retry_transient T e policy deadline w2 of
                      (Inl e', w3) \<Rightarrow> (Inl (Inl e'), w3)
                    | (Inr throttled', w3) \<Rightarrow> (Inr (next', throttled'), w3)))))"

definition request_finished :: "'f tokenization_request \<Rightarrow> 'f tokenization_request option" where
  "request_finished r = (if tq_status r = Tok_Completed \<or> tq_status r = Tok_Rejected then Some r else None)"

definition poll_request_until_complete_under ::
  "'w timer \<Rightarrow> 'w ticker \<Rightarrow> ('w, 'f) tokenization_lookups \<Rightarrow> string \<Rightarrow> polling_config \<Rightarrow> backpressure_policy \<Rightarrow> 'w
   \<Rightarrow> ((tokenization_error + 'f tokenization_request) \<times> 'w) option" where
  "poll_request_until_complete_under T tick ls i cfg policy w =
     poll_loop (lookup_step T tick (tl_get_request ls i) request_finished cfg policy (tm_now T w)
       (poll_deadline (tm_now T w) (pc_timeout cfg))) (tm_now T w, None) w"

definition poll_for_redemption_under ::
  "'w timer \<Rightarrow> 'w ticker \<Rightarrow> ('w, 'f) tokenization_lookups \<Rightarrow> string \<Rightarrow> polling_config \<Rightarrow> backpressure_policy \<Rightarrow> 'w
   \<Rightarrow> ((tokenization_error + 'f tokenization_request) \<times> 'w) option" where
  "poll_for_redemption_under T tick ls h cfg policy w =
     poll_loop (lookup_step T tick (tl_find_redemption_by_tx ls h) (\<lambda>found. found) cfg policy (tm_now T w)
       (poll_deadline (tm_now T w) (pc_timeout cfg))) (tm_now T w, None) w"

definition poll_request_until_complete_with ::
  "'w timer \<Rightarrow> 'w ticker \<Rightarrow> ('w, 'f) tokenization_lookups \<Rightarrow> string \<Rightarrow> polling_config \<Rightarrow> 'w
   \<Rightarrow> ((tokenization_error + 'f tokenization_request) \<times> 'w) option" where
  "poll_request_until_complete_with T tick ls i cfg = poll_request_until_complete_under T tick ls i cfg RetryInPlace"

definition poll_for_redemption_with ::
  "'w timer \<Rightarrow> 'w ticker \<Rightarrow> ('w, 'f) tokenization_lookups \<Rightarrow> string \<Rightarrow> polling_config \<Rightarrow> 'w
   \<Rightarrow> ((tokenization_error + 'f tokenization_request) \<times> 'w) option" where
  "poll_for_redemption_with T tick ls h cfg = poll_for_redemption_under T tick ls h cfg RetryInPlace"

subsection \<open>The service\<close>

record tokenization_service =
  ts_client :: tokenization_client
  ts_polling_config :: polling_config
  ts_backpressure_policy :: backpressure_policy

definition new_tokenization_service ::
  "(unit \<Rightarrow> reqwest_error + unit) \<Rightarrow> (alpaca_auth \<Rightarrow> kms_jwt_error + 'rt) \<Rightarrow> url_parser \<Rightarrow> ip_parser
   \<Rightarrow> string \<Rightarrow> uuid \<Rightarrow> alpaca_auth \<Rightarrow> network \<Rightarrow> tokenization_error + ('rt \<times> tokenization_service)" where
  "new_tokenization_service http_build build parse_url parse_ip base_url account auth chain =
     and_then (new_tokenization_client http_build build parse_url parse_ip base_url account auth chain)
       (\<lambda>(rt, c). Inr (rt, \<lparr>ts_client = c, ts_polling_config = default_polling_config,
          ts_backpressure_policy = RetryInPlace\<rparr>))"

definition with_polling_config :: "tokenization_service \<Rightarrow> polling_config \<Rightarrow> tokenization_service" where
  "with_polling_config sv cfg = sv\<lparr>ts_polling_config := cfg\<rparr>"

definition with_tokenization_policy :: "tokenization_service \<Rightarrow> backpressure_policy \<Rightarrow> tokenization_service" where
  "with_tokenization_policy sv policy = sv\<lparr>ts_backpressure_policy := policy\<rparr>"

definition poll_mint_until_complete where
  "poll_mint_until_complete T tick J X sv i =
     poll_request_until_complete_under T tick (client_lookups J X (ts_client sv)) i
       (ts_polling_config sv) (ts_backpressure_policy sv)"

definition poll_for_redemption where
  "poll_for_redemption T tick J X sv h =
     poll_for_redemption_under T tick (client_lookups J X (ts_client sv)) h
       (ts_polling_config sv) (ts_backpressure_policy sv)"

definition poll_redemption_until_complete where
  "poll_redemption_until_complete T tick J X sv i =
     poll_request_until_complete_under T tick (client_lookups J X (ts_client sv)) i
       (ts_polling_config sv) (ts_backpressure_policy sv)"

subsection \<open>The polls end\<close>

text \<open>What a result rests on: a lookup before the deadline, or the timeout at it.\<close>

fun lookup_result ::
  "'w timer \<Rightarrow> instant \<Rightarrow> instant \<Rightarrow> ('w \<Rightarrow> (tokenization_error + 'a) \<times> 'w) \<Rightarrow> ('a \<Rightarrow> 'f tokenization_request option)
   \<Rightarrow> tokenization_error + 'f tokenization_request \<Rightarrow> 'w \<Rightarrow> bool" where
  "lookup_result T t0 D read finished (Inr r) w' \<longleftrightarrow>
     (\<exists>v. poll_read T D read (Inr v) \<and> finished v = Some r)"
| "lookup_result T t0 D read finished (Inl e) w' \<longleftrightarrow>
     poll_read T D read (Inl e) \<or> e = Tok_PollTimeout (tm_now T w' - t0) \<and> D \<le> tm_now T w'"

definition throttle_read :: "'w timer \<Rightarrow> instant \<Rightarrow> ('w \<Rightarrow> (tokenization_error + 'a) \<times> 'w) \<Rightarrow> tokenization_error option \<Rightarrow> bool" where
  "throttle_read T D read th \<longleftrightarrow> (\<forall>e. th = Some e \<longrightarrow>
     poll_read T D read (Inl e) \<and> tokenization_backpressure e \<noteq> None)"

lemma retry_transient_go:
  assumes "retry_transient T e policy D w = (Inr th, w')"
  shows "tokenization_permanence e = Transient" and "th = Some e' \<Longrightarrow> e' = e \<and> tokenization_backpressure e \<noteq> None"
    and "tokenization_backpressure e \<noteq> None \<Longrightarrow> tm_now T w < D"
  using assms by (auto simp: retry_transient_def backpressure_wait_def Let_def split: if_splits option.splits)

lemma retry_transient_stop: "retry_transient T e policy D w = (Inl e', w') \<Longrightarrow> e' = e \<and> w' = w"
  by (auto simp: retry_transient_def split: if_splits option.splits)

text \<open>The timeout of a step is the throttle of an earlier read, or a timeout that is permanent.\<close>

definition step_timeout :: "'w timer \<Rightarrow> instant \<Rightarrow> tokenization_error option \<Rightarrow> 'w \<Rightarrow> tokenization_error" where
  "step_timeout T t0 th w = unwrap_or th (Tok_PollTimeout (tm_now T w - t0))"

lemma step_timeout_result:
  "throttle_read T D read th \<Longrightarrow> D \<le> tm_now T w \<Longrightarrow>
     lookup_result T t0 D read finished (Inl (step_timeout T t0 th w)) w"
  by (cases th) (auto simp: throttle_read_def step_timeout_def)

lemma lookup_read_cases:
  assumes "timer_laws T" "throttle_read T D read th" "read_before T D read (step_timeout T t0 th) w = (y, w')"
  shows "poll_read T D read y \<or> y = Inl (step_timeout T t0 th w') \<and> D \<le> tm_now T w'"
  using read_before_ended [OF assms(1,3)] by (auto simp: poll_read_def)

lemma lookup_step_stop:
  assumes "timer_laws T" "throttle_read T D read th"
    and step: "lookup_step T tick read finished cfg policy t0 D (nx, th) w = (Inl r, w')"
  shows "lookup_result T t0 D read finished r w'"
proof -
  obtain x w1 where x: "tick_before T tick (pc_interval cfg) nx D (step_timeout T t0 th) w = (x, w1)" by force
  show ?thesis
  proof (cases x)
    case (Inl e)
    then have "e = step_timeout T t0 th w1" "D \<le> tm_now T w1"
      using x timeout_at_dropped [OF assms(1)] by (auto simp: tick_before_def split: prod.splits option.splits)
    with step x Inl step_timeout_result [OF assms(2)] show ?thesis
      by (auto simp: lookup_step_def Let_def step_timeout_def [abs_def])
  next
    case (Inr nx')
    obtain y w2 where y: "read_before T D read (step_timeout T t0 th) w1 = (y, w2)" by force
    have y': "lookup_result T t0 D read finished (Inl e) w2" if "y = Inl e" for e
      using lookup_read_cases [OF assms(1,2) y] step_timeout_result [OF assms(2)] that by auto
    from step x Inr y y' lookup_read_cases [OF assms(1,2) y] show ?thesis
      by (auto simp: lookup_step_def Let_def step_timeout_def [abs_def] split: sum.splits option.splits prod.splits
          dest!: retry_transient_stop)
  qed
qed

lemma lookup_step_go:
  assumes "timer_laws T" "throttle_read T D read th" and tick: "tick_laws T tick" and cfg: "0 < pc_interval cfg"
    and step: "lookup_step T tick read finished cfg policy t0 D (nx, th) w = (Inr (nx', th'), w')"
  shows "throttle_read T D read th'" and "D - nx' < D - nx"
proof -
  obtain w1 where x: "tick_before T tick (pc_interval cfg) nx D (step_timeout T t0 th) w = (Inr nx', w1)"
    using step by (auto simp: lookup_step_def Let_def step_timeout_def [abs_def] split: prod.splits sum.splits option.splits)
  then have tk: "tick (pc_interval cfg) nx w = (nx', w1)"
    using timeout_at_ready by (fastforce simp: tick_before_def split: prod.splits option.splits)
  have t: "nx \<le> tm_now T w1" "nx + pc_interval cfg \<le> nx'"
    using tick [unfolded tick_laws_def, THEN spec [of _ "pc_interval cfg"], THEN spec [of _ nx], THEN spec [of _ w]] by (simp_all add: tk)
  obtain y w2 where y: "read_before T D read (step_timeout T t0 th) w1 = (y, w2)" by force
  have go: "\<exists>e. y = Inl e \<and> retry_transient T e policy D w2 = (Inr th', w')" if "\<nexists>v. y = Inr v"
    using that step x y by (cases y)
      (auto simp: lookup_step_def Let_def step_timeout_def [abs_def] split: prod.splits sum.splits)
  show near: "D - nx' < D - nx"
  proof -
    have "tm_now T w1 < D"
    proof (rule ccontr)
      assume late: "\<not> tm_now T w1 < D"
      then have yl: "y = Inl (step_timeout T t0 th w1)" "w2 = w1" using y by (auto simp: read_before_def)
      with go obtain r where r: "retry_transient T (step_timeout T t0 th w1) policy D w1 = (Inr th', r)" by auto
      show False
        using retry_transient_go(1,3) [OF r] late assms(2) by (cases th) (auto simp: step_timeout_def throttle_read_def)
    qed
    with t cfg show ?thesis by simp
  qed
  show "throttle_read T D read th'"
  proof (cases y)
    case (Inr v)
    with step x y show ?thesis
      by (auto simp: lookup_step_def Let_def step_timeout_def [abs_def] throttle_read_def split: option.splits)
  next
    case (Inl e)
    then have r: "retry_transient T e policy D w2 = (Inr th', w')" using go by auto
    have "poll_read T D read (Inl e)" if "tokenization_backpressure e \<noteq> None"
      using lookup_read_cases [OF assms(1,2) y] Inl retry_transient_go(3) [OF r that] by auto
    with retry_transient_go(2) [OF r] show ?thesis by (auto simp: throttle_read_def)
  qed
qed

lemma lookup_poll_ends:
  assumes "timer_laws T" "tick_laws T tick" "0 < pc_interval cfg"
  shows "\<exists>r w'. poll_loop (lookup_step T tick read finished cfg policy t0 D) (t0, None) w = Some (r, w')
    \<and> lookup_result T t0 D read finished r w'"
proof (rule poll_loop_ends [where I = "\<lambda>st w. throttle_read T D read (snd st)" and m = "\<lambda>st w. D - fst st"])
  fix st :: "instant \<times> tokenization_error option" and w0
  assume "throttle_read T D read (snd st)"
  then have I: "throttle_read T D read th" if "st = (nx, th)" for nx th using that by simp
  show "lookup_result T t0 D read finished r w'"
    if "lookup_step T tick read finished cfg policy t0 D st w0 = (Inl r, w')" for r w'
    using lookup_step_stop [OF assms(1) I] that by (cases st) blast
  show "throttle_read T D read (snd st') \<and> D - fst st' < D - fst st"
    if "lookup_step T tick read finished cfg policy t0 D st w0 = (Inr st', w')" for st' w'
    using lookup_step_go [OF assms(1) I assms(2,3)] that by (cases st; cases st') fastforce
qed (simp add: throttle_read_def)

subsection \<open>Properties\<close>

text \<open>
  C34: Every tokenization poll returns, on a clock and an interval that move, with a positive period,
  whatever the lookups answer. A request it returns was looked up before the deadline, and a polled
  mint or redemption is completed or rejected; an error is one that a lookup before the deadline gave,
  or the timeout, with the time the poll really took, and only at or after the deadline.
\<close>

theorem tokenization_polls_end:
  assumes "timer_laws T" and "tick_laws T tick" and "0 < pc_interval cfg"
    and "D = poll_deadline (tm_now T w) (pc_timeout cfg)"
  shows "(\<exists>r w'. poll_request_until_complete_under T tick ls i cfg policy w = Some (r, w')
        \<and> (case r of
             Inr q \<Rightarrow> poll_read T D (tl_get_request ls i) (Inr q) \<and> tq_status q \<noteq> Tok_Pending
           | Inl e \<Rightarrow> poll_read T D (tl_get_request ls i) (Inl e)
               \<or> e = Tok_PollTimeout (tm_now T w' - tm_now T w) \<and> D \<le> tm_now T w'))
    \<and> (\<exists>r w'. poll_for_redemption_under T tick ls h cfg policy w = Some (r, w')
        \<and> (case r of
             Inr q \<Rightarrow> poll_read T D (tl_find_redemption_by_tx ls h) (Inr (Some q))
           | Inl e \<Rightarrow> poll_read T D (tl_find_redemption_by_tx ls h) (Inl e)
               \<or> e = Tok_PollTimeout (tm_now T w' - tm_now T w) \<and> D \<le> tm_now T w'))"
proof
  obtain r w' where p: "poll_request_until_complete_under T tick ls i cfg policy w = Some (r, w')"
    and r: "lookup_result T (tm_now T w) D (tl_get_request ls i) request_finished r w'"
    using lookup_poll_ends [OF assms(1-3)] unfolding poll_request_until_complete_under_def assms(4) by blast
  from r have "case r of
             Inr q \<Rightarrow> poll_read T D (tl_get_request ls i) (Inr q) \<and> tq_status q \<noteq> Tok_Pending
           | Inl e \<Rightarrow> poll_read T D (tl_get_request ls i) (Inl e)
               \<or> e = Tok_PollTimeout (tm_now T w' - tm_now T w) \<and> D \<le> tm_now T w'"
    by (cases r) (auto simp: request_finished_def split: if_splits)
  with p show "\<exists>r w'. poll_request_until_complete_under T tick ls i cfg policy w = Some (r, w')
        \<and> (case r of
             Inr q \<Rightarrow> poll_read T D (tl_get_request ls i) (Inr q) \<and> tq_status q \<noteq> Tok_Pending
           | Inl e \<Rightarrow> poll_read T D (tl_get_request ls i) (Inl e)
               \<or> e = Tok_PollTimeout (tm_now T w' - tm_now T w) \<and> D \<le> tm_now T w')" by blast
next
  obtain r w' where p: "poll_for_redemption_under T tick ls h cfg policy w = Some (r, w')"
    and r: "lookup_result T (tm_now T w) D (tl_find_redemption_by_tx ls h) (\<lambda>found. found) r w'"
    using lookup_poll_ends [OF assms(1-3)] unfolding poll_for_redemption_under_def assms(4) by blast
  from r have "case r of
             Inr q \<Rightarrow> poll_read T D (tl_find_redemption_by_tx ls h) (Inr (Some q))
           | Inl e \<Rightarrow> poll_read T D (tl_find_redemption_by_tx ls h) (Inl e)
               \<or> e = Tok_PollTimeout (tm_now T w' - tm_now T w) \<and> D \<le> tm_now T w'"
    by (cases r) auto
  with p show "\<exists>r w'. poll_for_redemption_under T tick ls h cfg policy w = Some (r, w')
        \<and> (case r of
             Inr q \<Rightarrow> poll_read T D (tl_find_redemption_by_tx ls h) (Inr (Some q))
           | Inl e \<Rightarrow> poll_read T D (tl_find_redemption_by_tx ls h) (Inl e)
               \<or> e = Tok_PollTimeout (tm_now T w' - tm_now T w) \<and> D \<le> tm_now T w')" by blast
qed

text \<open>On the clock, a tick sleeps to its instant, and the next is a period after the later of the two.\<close>

definition clock_tick :: "(instant \<times> 'x) ticker" where
  "clock_tick p next w = (max next (fst w) + p, (max next (fst w), snd w))"

lemma clock_tick_laws: "tick_laws clock_timer clock_tick"
  by (simp add: tick_laws_def clock_tick_def)

theorem tokenization_polls_end_witness:
  "\<exists>r w'. poll_for_redemption_under clock_timer clock_tick
      \<lparr>tl_get_request = (\<lambda>_ w. (Inr sample_request, w)), tl_find_redemption_by_tx = (\<lambda>_ w. (Inr None, w))\<rparr>
      ''0xab'' default_polling_config Return (0, ()) = Some (r, w')"
proof -
  have "0 < pc_interval default_polling_config" by (simp add: default_polling_config_def)
  from tokenization_polls_end [OF clock_timer_laws clock_tick_laws this refl] show ?thesis by blast
qed

end
