(* ===== verification/Issuer_Retry.thy ===== *)
theory Issuer_Retry
  imports Wire Polling
begin

text \<open>
  The shared issuer client's retry loop and its \<open>Retry-After\<close> hold (\<^verbatim>\<open>src/core.rs\<close>, \<open>AlpacaClient\<close>). The
  hold is a cell every clone of the client shares; the state of a call is the cell beside the rest of
  the world, and the timer's sleeps run on both, so other callers may extend the hold meanwhile. The
  delays of the exponential backoff are a list, and the random source is a function of the state.
\<close>

subsection \<open>The hold\<close>

type_synonym 's held = "(instant \<times> duration) option \<times> 's"

definition RETRY_AFTER_BUDGET :: duration where
  "RETRY_AFTER_BUDGET = from_secs 30"

definition RETRY_AFTER_JITTER_MS :: nat where
  "RETRY_AFTER_JITTER_MS = 1000"

definition retry_after_jitter :: "('s \<Rightarrow> nat) \<Rightarrow> 's \<Rightarrow> duration" where
  "retry_after_jitter random s = from_millis (random s mod RETRY_AFTER_JITTER_MS)"

definition client_backpressure_wait :: "'s held timer \<Rightarrow> 's held \<Rightarrow> duration option" where
  "client_backpressure_wait T s =
     (case fst s of
        None \<Rightarrow> None
      | Some (started, delay) \<Rightarrow>
          let wait = delay - (tm_now T s - started)
          in if wait = 0 then None else Some wait)"

definition hold_for :: "'s held timer \<Rightarrow> duration \<Rightarrow> 's held \<Rightarrow> 's held" where
  "hold_for T d s =
     (let delay = min d MAX_RETRY_AFTER_HOLD
      in if (case fst s of
               None \<Rightarrow> True
             | Some (started, current) \<Rightarrow> current - (tm_now T s - started) < delay)
         then (Some (tm_now T s, delay), snd s) else s)"

subsection \<open>The retry loop\<close>

definition hold_message :: string where
  "hold_message = ''client is inside an earlier Retry-After deadline''"

lemma client_wait_pos: "client_backpressure_wait T s = Some wait \<Longrightarrow> 0 < wait"
  by (auto simp: client_backpressure_wait_def Let_def split: option.splits if_splits)

text \<open>The inner loop: it waits out the hold while the budget lasts, and gives the budget left.\<close>

function wait_out ::
  "'s held timer \<Rightarrow> ('s held \<Rightarrow> nat) \<Rightarrow> duration \<Rightarrow> 's held \<Rightarrow> (alpaca_error + duration) \<times> 's held" where
  "wait_out T random budget s =
     (case client_backpressure_wait T s of
        None \<Rightarrow> (Inr budget, s)
      | Some wait \<Rightarrow>
          if budget < wait then (Inl (Iss_RateLimited hold_message (Some wait)), s)
          else let wait' = min (wait + retry_after_jitter random s) budget
               in wait_out T random (budget - wait') (tm_sleep T wait' s))"
  by pat_completeness auto
termination
  by (relation "measure (\<lambda>(T, random, budget, s). budget)") (auto dest: client_wait_pos)

declare wait_out.simps [simp del]

definition hold_hint :: "'s held timer \<Rightarrow> alpaca_error \<Rightarrow> 's held \<Rightarrow> 's held" where
  "hold_hint T e s =
     (case Option.bind (alpaca_backpressure e) retry_after of None \<Rightarrow> s | Some d \<Rightarrow> hold_for T d s)"

text \<open>\<open>delays\<close> are the backoff delays left, \<open>written\<close> whether an attempt may have reached Alpaca.\<close>

fun attempts ::
  "'s held timer \<Rightarrow> ('s held \<Rightarrow> nat) \<Rightarrow> ('s held \<Rightarrow> (alpaca_error + 'v) \<times> 's held)
   \<Rightarrow> duration list \<Rightarrow> duration \<Rightarrow> bool \<Rightarrow> 's held \<Rightarrow> ((bool \<times> alpaca_error) + 'v) \<times> 's held" where
  "attempts T random op delays budget wr s =
     (case wait_out T random budget s of
        (Inl e, s1) \<Rightarrow> (Inl (wr, e), s1)
      | (Inr budget', s1) \<Rightarrow>
          (case op s1 of
             (Inr v, s2) \<Rightarrow> (Inr v, s2)
           | (Inl e, s2) \<Rightarrow>
               let wr' = (wr \<or> issuer_may_have_reached_alpaca e);
                   s3 = hold_hint T e s2
               in if \<not> alpaca_is_retryable e then (Inl (wr', e), s3)
                  else (case delays of
                      [] \<Rightarrow> (Inl (wr', e), s3)
                    | d # ds \<Rightarrow>
                        if budget' < unwrap_or (client_backpressure_wait T s3) 0 then (Inl (wr', e), s3)
                        else attempts T random op ds budget' wr' (tm_sleep T d s3))))"

declare attempts.simps [simp del]

type_synonym ('env, 'w, 'b) issuer_state = "('env, 'w, 'b) wire_state held"

definition set_last_answer ::
  "nat option option \<Rightarrow> ('env, 'w, 'b) issuer_state \<Rightarrow> ('env, 'w, 'b) issuer_state" where
  "set_last_answer v s = (case s of (h, n, w) \<Rightarrow> (h, n\<lparr>locals := (locals n)\<lparr>LAST_ANSWER := v\<rparr>\<rparr>, w))"

definition retry_attempts where
  "retry_attempts T random op delays s =
     (case attempts T random op delays RETRY_AFTER_BUDGET False s of
        (Inr v, s') \<Rightarrow> (Inr v, s')
      | (Inl (wr, e), s') \<Rightarrow>
          (Inl \<lparr>ice_written = wr, ice_alpaca_status = last_answer (locals (fst (snd s'))), ice_error = e\<rparr>, s'))"

text \<open>The \<open>tracking_last_answer\<close> scope around it.\<close>

definition with_retry_reporting ::
  "('env, 'w, 'b) issuer_state timer \<Rightarrow> (('env, 'w, 'b) issuer_state \<Rightarrow> nat)
   \<Rightarrow> (('env, 'w, 'b) issuer_state \<Rightarrow> (alpaca_error + 'v) \<times> ('env, 'w, 'b) issuer_state) \<Rightarrow> duration list
   \<Rightarrow> ('env, 'w, 'b) issuer_state \<Rightarrow> (issuer_call_error + 'v) \<times> ('env, 'w, 'b) issuer_state" where
  "with_retry_reporting T random op delays s =
     (case retry_attempts T random op delays (set_last_answer (Some None) s) of
        (r, s') \<Rightarrow> (r, set_last_answer (LAST_ANSWER (locals (fst (snd s)))) s'))"

definition with_retry ::
  "('env, 'w, 'b) issuer_state timer \<Rightarrow> (('env, 'w, 'b) issuer_state \<Rightarrow> nat)
   \<Rightarrow> (('env, 'w, 'b) issuer_state \<Rightarrow> (alpaca_error + 'v) \<times> ('env, 'w, 'b) issuer_state) \<Rightarrow> duration list
   \<Rightarrow> ('env, 'w, 'b) issuer_state \<Rightarrow> (alpaca_error + 'v) \<times> ('env, 'w, 'b) issuer_state" where
  "with_retry T random op delays s =
     (case with_retry_reporting T random op delays s of (r, s') \<Rightarrow> (map_err ice_error r, s'))"

subsection \<open>Lemmas\<close>

text \<open>What the waits on the hold keep: \<open>I\<close> relates the budget left to the state.\<close>

lemma wait_out_inv:
  assumes sleep: "\<And>b d s. I b s \<Longrightarrow> 0 < d \<Longrightarrow> d \<le> b \<Longrightarrow> I (b - d) (tm_sleep T d s)"
  shows "wait_out T random budget s = (r, s') \<Longrightarrow> I budget s \<Longrightarrow>
    \<exists>b. I b s' \<and> (\<forall>b'. r = Inr b' \<longrightarrow> b' = b \<and> client_backpressure_wait T s' = None)"
proof (induction budget arbitrary: s rule: less_induct)
  case (less budget)
  show ?case
  proof (cases "client_backpressure_wait T s")
    case None
    with less.prems show ?thesis by (subst (asm) wait_out.simps) auto
  next
    case (Some wait)
    let ?w = "min (wait + retry_after_jitter random s) budget"
    show ?thesis
    proof (cases "budget < wait")
      case True
      with less.prems Some show ?thesis by (subst (asm) wait_out.simps) auto
    next
      case False
      with client_wait_pos [OF Some] have w: "0 < ?w" "?w \<le> budget" by auto
      have "wait_out T random (budget - ?w) (tm_sleep T ?w s) = (r, s')"
        using less.prems(1) Some False by (subst (asm) wait_out.simps) (simp add: Let_def)
      moreover have "budget - ?w < budget" using w by linarith
      ultimately show ?thesis using less.IH sleep [OF less.prems(2) w] by blast
    qed
  qed
qed

lemma wait_out_clear:
  assumes "wait_out T random budget s = (Inr b, s')"
  shows "client_backpressure_wait T s' = None"
  using wait_out_inv [OF _ assms, of "\<lambda>_ _. True"] by simp

lemma wait_out_error:
  "wait_out T random budget s = (Inl e, s') \<Longrightarrow> \<exists>w. e = Iss_RateLimited hold_message (Some w) \<and> client_backpressure_wait T s' = Some w"
proof (induction T random budget s rule: wait_out.induct)
  case (1 T random budget s)
  from 1(2) show ?case
    by (subst (asm) wait_out.simps) (auto simp: Let_def split: option.splits if_splits intro: 1(1))
qed

text \<open>\<open>slept\<close> counts the time a call slept, \<open>calls\<close> the attempts it made.\<close>

definition counts_sleep :: "'s held timer \<Rightarrow> ('s held \<Rightarrow> nat) \<Rightarrow> bool" where
  "counts_sleep T slept \<longleftrightarrow> (\<forall>d s. slept (tm_sleep T d s) = slept s + d) \<and> (\<forall>h h' x. slept (h, x) = slept (h', x))"

definition counts_calls ::
  "'s held timer \<Rightarrow> ('s held \<Rightarrow> (alpaca_error + 'v) \<times> 's held) \<Rightarrow> ('s held \<Rightarrow> nat) \<Rightarrow> bool" where
  "counts_calls T op calls \<longleftrightarrow>
     (\<forall>d s. calls (tm_sleep T d s) = calls s) \<and> (\<forall>h h' x. calls (h, x) = calls (h', x))
     \<and> (\<forall>s. calls (snd (op s)) \<le> Suc (calls s))"

lemma counts_sleepD:
  assumes "counts_sleep T slept"
  shows "slept (tm_sleep T d s) = slept s + d" and "slept (h, x) = slept (h', x)"
  using assms unfolding counts_sleep_def by blast+

lemma counts_callsD:
  assumes "counts_calls T op calls"
  shows "calls (tm_sleep T d s) = calls s" and "calls (h, x) = calls (h', x)" and "calls (snd (op s)) \<le> Suc (calls s)"
  using assms unfolding counts_calls_def by blast+

lemma hold_hint_snd: "snd (hold_hint T e s) = snd s"
  by (auto simp: hold_hint_def hold_for_def Let_def split: option.splits)

lemma hold_hint_same:
  assumes "\<And>h h' x. f (h, x) = f (h', x)"
  shows "f (hold_hint T e s) = f s"
proof -
  have "f (fst (hold_hint T e s), snd s) = f (fst s, snd s)" by (rule assms)
  then show ?thesis using hold_hint_snd [of T e s] by (metis prod.collapse)
qed

lemma wait_out_slept:
  assumes "counts_sleep T slept" "wait_out T random budget s = (r, s')"
  shows "slept s' \<le> slept s + budget" and "r = Inr b \<Longrightarrow> slept s' + b = slept s + budget"
  using wait_out_inv [OF _ assms(2), of "\<lambda>b x. slept x + b = slept s + budget"] counts_sleepD(1) [OF assms(1)]
  by (auto simp: add.assoc)

lemma wait_out_calls:
  assumes "counts_calls T op calls" "wait_out T random budget s = (r, s')"
  shows "calls s' = calls s"
  using wait_out_inv [OF _ assms(2), of "\<lambda>_ x. calls x = calls s"] counts_callsD(1) [OF assms(1)] by auto

text \<open>One round of the loop: it ends, or it goes on after an attempt.\<close>

lemma attempts_cases:
  assumes "attempts T random op delays budget wr s = (r, s')"
  obtains (held) e where "wait_out T random budget s = (Inl e, s')" "r = Inl (wr, e)"
  | (done_op) b s1 v where "wait_out T random budget s = (Inr b, s1)" "op s1 = (Inr v, s')" "r = Inr v"
  | (failed) b s1 e s2 where "wait_out T random budget s = (Inr b, s1)" "op s1 = (Inl e, s2)"
      "r = Inl (wr \<or> issuer_may_have_reached_alpaca e, e)" "s' = hold_hint T e s2"
  | (again) b s1 e s2 d ds where "wait_out T random budget s = (Inr b, s1)" "op s1 = (Inl e, s2)" "alpaca_is_retryable e"
      "delays = d # ds" "attempts T random op ds b (wr \<or> issuer_may_have_reached_alpaca e) (tm_sleep T d (hold_hint T e s2)) = (r, s')"
proof -
  obtain x s1 where x: "wait_out T random budget s = (x, s1)" by (rule prod.exhaust)
  show ?thesis
  proof (cases x)
    case (Inl e)
    with assms x show ?thesis by (intro held [of e]) (auto simp: attempts.simps)
  next
    case (Inr b)
    obtain y s2 where y: "op s1 = (y, s2)" by (rule prod.exhaust)
    show ?thesis
    proof (cases y)
      case (Inl e)
      from assms x Inr y Inl consider "(Inl (wr \<or> issuer_may_have_reached_alpaca e, e), hold_hint T e s2) = (r, s')"
        | d ds where "alpaca_is_retryable e" "delays = d # ds"
          "attempts T random op ds b (wr \<or> issuer_may_have_reached_alpaca e) (tm_sleep T d (hold_hint T e s2)) = (r, s')"
        by (subst (asm) attempts.simps) (auto simp: Let_def split: if_splits list.splits)
      then show ?thesis
        using failed [of b s1 e s2] again [of b s1 e s2] x y Inr Inl by cases auto
    next
      case ok: (Inr v)
      with assms x Inr y show ?thesis by (intro done_op [of b s1 v]) (auto simp: attempts.simps)
    qed
  qed
qed

lemma attempts_first:
  assumes "client_backpressure_wait T s = None"
  shows "op s = (Inr v, s') \<Longrightarrow> attempts T random op delays budget wr s = (Inr v, s')"
    and "op s = (Inl e, s') \<Longrightarrow> \<not> alpaca_is_retryable e \<Longrightarrow>
      attempts T random op delays budget wr s = (Inl (wr \<or> issuer_may_have_reached_alpaca e, e), hold_hint T e s')"
proof -
  have "wait_out T random budget s = (Inr budget, s)" using assms by (subst wait_out.simps) simp
  then show "op s = (Inr v, s') \<Longrightarrow> attempts T random op delays budget wr s = (Inr v, s')"
    "op s = (Inl e, s') \<Longrightarrow> \<not> alpaca_is_retryable e \<Longrightarrow>
      attempts T random op delays budget wr s = (Inl (wr \<or> issuer_may_have_reached_alpaca e, e), hold_hint T e s')"
    by (simp_all add: attempts.simps Let_def)
qed

lemma attempts_slept:
  assumes sl: "counts_sleep T slept" and ops: "\<And>s. slept (snd (op s)) = slept s"
  shows "attempts T random op delays budget wr s = (r, s') \<Longrightarrow> slept s' \<le> slept s + budget + sum_list delays"
proof (induction delays arbitrary: budget wr s rule: measure_induct_rule [of length])
  case (less delays)
  have step: "slept s1 + b = slept s + budget \<and> slept (hold_hint T e s2) = slept s1 \<and> slept s2 = slept s1"
    if "wait_out T random budget s = (Inr b, s1)" "op s1 = (y, s2)" for b s1 s2 e y
    using wait_out_slept(2) [OF sl that(1) refl] ops [of s1] that(2)
      hold_hint_same [of slept T e s2, OF counts_sleepD(2) [OF sl]] by simp
  from less.prems show ?case
  proof (cases rule: attempts_cases)
    case (held e)
    with wait_out_slept(1) [OF sl held(1)] show ?thesis by simp
  next
    case (done_op b s1 v)
    with step [OF done_op(1,2), of undefined] show ?thesis by linarith
  next
    case (failed b s1 e s2)
    with step [OF failed(1,2), of e] show ?thesis by simp
  next
    case (again b s1 e s2 d ds)
    from less.IH [OF _ again(5)] again(4) step [OF again(1,2), of e]
      counts_sleepD(1) [OF sl, of d "hold_hint T e s2"] show ?thesis by simp
  qed
qed

lemma attempts_calls:
  assumes ca: "counts_calls T op calls"
  shows "attempts T random op delays budget wr s = (r, s') \<Longrightarrow> calls s' \<le> calls s + Suc (length delays)"
proof (induction delays arbitrary: budget wr s rule: measure_induct_rule [of length])
  case (less delays)
  have step: "calls (hold_hint T e s2) \<le> Suc (calls s) \<and> calls s2 \<le> Suc (calls s)"
    if "wait_out T random budget s = (Inr b, s1)" "op s1 = (y, s2)" for b s1 s2 e y
    using wait_out_calls [OF ca that(1)] counts_callsD(3) [OF ca, of s1] that(2)
      hold_hint_same [of calls T e s2, OF counts_callsD(2) [OF ca]] by simp
  from less.prems show ?case
  proof (cases rule: attempts_cases)
    case (held e)
    with wait_out_calls [OF ca held(1)] show ?thesis by simp
  next
    case (done_op b s1 v)
    with step [OF done_op(1,2), of undefined] show ?thesis by linarith
  next
    case (failed b s1 e s2)
    with step [OF failed(1,2), of e] show ?thesis by simp
  next
    case (again b s1 e s2 d ds)
    from less.IH [OF _ again(5)] again(4) step [OF again(1,2), of e]
      counts_callsD(1) [OF ca, of d "hold_hint T e s2"] show ?thesis by simp
  qed
qed

text \<open>
  The rule for the loop: \<open>I\<close> is what holds between attempts, \<open>K\<close> of a failure and \<open>J\<close> of a success.
\<close>

lemma attempts_rule:
  assumes sleep: "\<And>wr d s. I wr s \<Longrightarrow> I wr (tm_sleep T d s)"
    and held: "\<And>wr w s. I wr s \<Longrightarrow> K wr (Iss_RateLimited hold_message w) s"
    and good: "\<And>wr s v s'. I wr s \<Longrightarrow> op s = (Inr v, s') \<Longrightarrow> J v s'"
    and bad: "\<And>wr s e s' h. I wr s \<Longrightarrow> op s = (Inl e, s')
      \<Longrightarrow> K (wr \<or> issuer_may_have_reached_alpaca e) e (h, snd s')"
    and more: "\<And>wr s e s' h. I wr s \<Longrightarrow> op s = (Inl e, s') \<Longrightarrow> alpaca_is_retryable e
      \<Longrightarrow> I (wr \<or> issuer_may_have_reached_alpaca e) (h, snd s')"
  shows "attempts T random op delays budget wr s = (r, s') \<Longrightarrow> I wr s \<Longrightarrow>
    (case r of Inl (wr', e) \<Rightarrow> K wr' e s' | Inr v \<Rightarrow> J v s')"
proof (induction delays arbitrary: budget wr s rule: measure_induct_rule [of length])
  case (less delays)
  have ready: "I wr s1" if "wait_out T random budget s = (x, s1)" for x s1
    using wait_out_inv [OF _ that, of "\<lambda>_. I wr"] sleep less.prems(2) by blast
  have hint: "hold_hint T e s2 = (fst (hold_hint T e s2), snd s2)" for e s2
    using hold_hint_snd [of T e s2] by (metis prod.collapse)
  from less.prems(1) show ?case
  proof (cases rule: attempts_cases)
    case (held e)
    then obtain w where "e = Iss_RateLimited hold_message w" using wait_out_error by blast
    with held assms(2) [OF ready [OF held(1)]] show ?thesis by simp
  next
    case (done_op b s1 v)
    with good [OF ready [OF done_op(1)]] show ?thesis by simp
  next
    case (failed b s1 e s2)
    with bad [OF ready [OF failed(1)] failed(2)] hint show ?thesis by (metis old.prod.case sum.case(1))
  next
    case (again b s1 e s2 d ds)
    then have "I (wr \<or> issuer_may_have_reached_alpaca e) (tm_sleep T d (hold_hint T e s2))"
      using more [OF ready [OF again(1)] again(2,3)] hint sleep by metis
    with less.IH [OF _ again(5)] again(4) show ?thesis by simp
  qed
qed

text \<open>The loop depends on an attempt only where no hold is ahead.\<close>

lemma attempts_outside_hold:
  assumes "\<And>s. client_backpressure_wait T s = None \<Longrightarrow> op s = op' s"
  shows "attempts T random op delays budget wr s = attempts T random op' delays budget wr s"
proof (induction delays arbitrary: budget wr s)
  case Nil
  show ?case
    by (subst (1 2) attempts.simps) (auto split: prod.splits sum.splits dest!: wait_out_clear simp: assms Let_def)
next
  case (Cons d delays)
  show ?case
    by (subst (1 2) attempts.simps)
      (auto split: prod.splits sum.splits dest!: wait_out_clear simp: assms Cons.IH Let_def)
qed

lemma set_last_answer_world [simp]: "snd (snd (set_last_answer v s)) = snd (snd s)"
  by (cases s) (simp add: set_last_answer_def split: prod.split)

lemma with_retry_attempts:
  assumes "with_retry T random op delays s = (r, s')"
  obtains x s1 where "attempts T random op delays RETRY_AFTER_BUDGET False (set_last_answer (Some None) s) = (x, s1)"
    "snd (snd s') = snd (snd s1)"
proof -
  obtain x s1 where x: "attempts T random op delays RETRY_AFTER_BUDGET False (set_last_answer (Some None) s) = (x, s1)"
    by (rule prod.exhaust)
  with assms have "snd (snd s') = snd (snd s1)"
    by (auto simp: with_retry_def with_retry_reporting_def retry_attempts_def split: sum.splits prod.splits)
  with x that show ?thesis by blast
qed

lemma remaining_hold:
  assumes "\<And>h h' x. tm_now T (h, x) = tm_now T (h', x)"
  shows "unwrap_or (client_backpressure_wait T (hold_for T d s)) 0
    = max (unwrap_or (client_backpressure_wait T s) 0) (min d MAX_RETRY_AFTER_HOLD)"
proof -
  obtain h x where s: "s = (h, x)" by (rule prod.exhaust)
  define t0 where "t0 = tm_now T (None, x)"
  have now: "tm_now T (h', x) = t0" for h' unfolding t0_def by (rule assms)
  have left: "unwrap_or (client_backpressure_wait T (Some (t, c), x)) 0 = c - (t0 - t)"
      "unwrap_or (client_backpressure_wait T (None, x)) 0 = 0" for t c
    by (simp_all add: client_backpressure_wait_def unwrap_or_def Let_def now)
  show ?thesis
  proof (cases h)
    case None
    with left now show ?thesis by (simp add: s hold_for_def Let_def)
  next
    case (Some y)
    obtain t c where "y = (t, c)" by (rule prod.exhaust)
    with Some left now show ?thesis by (auto simp: s hold_for_def Let_def)
  qed
qed

subsection \<open>Properties\<close>

text \<open>
  The client sends nothing inside a \<open>Retry-After\<close> deadline. What a call does is the same for any two
  operations that agree outside the hold, so no attempt is ever made while one is ahead; and a hint only
  extends the hold, to the longer of what is left and the hint capped at five minutes.
\<close>

theorem issuer_waits_out_the_hold:
  assumes "\<And>s. client_backpressure_wait T s = None \<Longrightarrow> op s = op' s"
    and "\<And>h h' x. tm_now T (h, x) = tm_now T (h', x)"
  shows "with_retry T random op delays s = with_retry T random op' delays s
    \<and> unwrap_or (client_backpressure_wait T (hold_for T d s)) 0
        = max (unwrap_or (client_backpressure_wait T s) 0) (min d (from_secs 300))"
  using attempts_outside_hold [where T = T and op = op and op' = op', OF assms(1)] remaining_hold [OF assms(2)]
  by (simp add: with_retry_def with_retry_reporting_def retry_attempts_def MAX_RETRY_AFTER_HOLD_def)

text \<open>
  A call of the issuer client is bounded. Beyond its attempts it sleeps at most the thirty seconds
  of the hold budget and its backoff delays, and it makes at most one attempt more than it has delays.
\<close>

theorem issuer_retries_are_bounded:
  assumes "counts_sleep T (\<lambda>s. slept (snd (snd s)))"
    and "\<And>s. slept (snd (snd (snd (op s)))) = slept (snd (snd s))"
    and "counts_calls T op (\<lambda>s. calls (snd (snd s)))"
    and "with_retry T random op delays s = (r, s')"
  shows "slept (snd (snd s')) \<le> slept (snd (snd s)) + from_secs 30 + sum_list delays
    \<and> calls (snd (snd s')) \<le> calls (snd (snd s)) + Suc (length delays)"
  using assms(4)
proof (rule with_retry_attempts)
  fix x s1
  assume x: "attempts T random op delays RETRY_AFTER_BUDGET False (set_last_answer (Some None) s) = (x, s1)"
    and w: "snd (snd s') = snd (snd s1)"
  from attempts_slept [where T = T and op = op, OF assms(1,2) x] attempts_calls [OF assms(3) x] show ?thesis
    by (simp add: w RETRY_AFTER_BUDGET_def)
qed

subsection \<open>Witnesses\<close>

text \<open>A world that is a clock and a counter of attempts; every attempt is throttled.\<close>

definition counting_timer :: "('env, instant \<times> nat, 'b) issuer_state timer" where
  "counting_timer = \<lparr>tm_now = (\<lambda>s. fst (snd (snd s))),
     tm_sleep = (\<lambda>d s. (fst s, fst (snd s), fst (snd (snd s)) + d, snd (snd (snd s)))),
     tm_dropped = (\<lambda>_ _ _. None)\<rparr>"

definition throttled_op ::
  "('env, instant \<times> nat, 'b) issuer_state \<Rightarrow> (alpaca_error + unit) \<times> ('env, instant \<times> nat, 'b) issuer_state" where
  "throttled_op s = (Inl (Iss_RateLimited [] (Some (from_secs 2))),
     (fst s, fst (snd s), fst (snd (snd s)), Suc (snd (snd (snd s)))))"

definition idle :: "(unit, instant \<times> nat, unit) issuer_state" where
  "idle = (None, open_net, 0, 0)"

lemma counting_now: "tm_now counting_timer s = fst (snd (snd s))"
  by (simp add: counting_timer_def)

lemma counting_laws:
  "counts_sleep counting_timer (\<lambda>s. fst (snd (snd s)))"
  "counts_calls counting_timer throttled_op (\<lambda>s. snd (snd (snd s)))"
  by (simp_all add: counts_sleep_def counts_calls_def counting_timer_def throttled_op_def)

theorem issuer_retries_are_bounded_witness:
  "fst (snd (snd (snd (with_retry counting_timer (\<lambda>_. 0) throttled_op [from_secs 1, from_secs 2] idle))))
      \<le> from_secs 33
   \<and> snd (snd (snd (snd (with_retry counting_timer (\<lambda>_. 0) throttled_op [from_secs 1, from_secs 2] idle)))) \<le> 3"
proof -
  obtain r s' where w: "with_retry counting_timer (\<lambda>_. 0) throttled_op [from_secs 1, from_secs 2] idle = (r, s')"
    by (rule prod.exhaust)
  have "fst (snd (snd (snd (throttled_op s)))) = fst (snd (snd s))" for s :: "(unit, instant \<times> nat, unit) issuer_state"
    by (simp add: throttled_op_def)
  from issuer_retries_are_bounded [OF counting_laws(1) this counting_laws(2) w] w show ?thesis
    by (simp add: idle_def from_secs_def nanos_per_sec_def)
qed

theorem issuer_waits_out_the_hold_witness:
  "client_backpressure_wait counting_timer (hold_for counting_timer (from_secs 900) idle) = Some (from_secs 300)
   \<and> with_retry counting_timer (\<lambda>_. 0) throttled_op [from_secs 1] idle
     = with_retry counting_timer (\<lambda>_. 0)
         (\<lambda>s. if client_backpressure_wait counting_timer s = None then throttled_op s else (Inr (), s)) [from_secs 1] idle"
proof -
  have "tm_now counting_timer (h, x) = tm_now counting_timer (h', x)" for h h' and x :: "(unit, instant \<times> nat, unit) wire_state"
    by (simp add: counting_now)
  from issuer_waits_out_the_hold [of counting_timer throttled_op
      "\<lambda>s. if client_backpressure_wait counting_timer s = None then throttled_op s else (Inr (), s)", OF _ this,
      where d = "from_secs 900" and s = idle and delays = "[from_secs 1]" and random = "\<lambda>_. 0"]
  show ?thesis
    by (simp add: idle_def client_backpressure_wait_def hold_for_def counting_now MAX_RETRY_AFTER_HOLD_def
        from_secs_def nanos_per_sec_def)
qed

end
