(* ===== verification/Issuer.thy ===== *)
theory Issuer
  imports Issuer_Retry
begin

text \<open>
  The issuer surface (\<^verbatim>\<open>src/issuer/mod.rs\<close>, \<^verbatim>\<open>src/issuer/itn.rs\<close>): the mint callback, the redeem call
  and the keyed status poll, each an attempt run by the retry loop of \<open>Issuer_Retry\<close>. The url crate's
  path building, the v5 UUID, the JSON parsers, the backoff's delays and the random source are the
  fields of \<open>issuer_io\<close>.
\<close>

subsection \<open>The network preflight\<close>

definition TOKENIZATION_NETWORK_WIRE_STRINGS :: "string list" where
  "TOKENIZATION_NETWORK_WIRE_STRINGS =
     [''solana'', ''arbitrum'', ''ethereum'', ''binance'', ''base'', ''ton'', ''tron'', ''mantle'',
      ''hyperevm'', ''robinhood'']"

definition accepts_network_wire_string :: "string \<Rightarrow> bool" where
  "accepts_network_wire_string wire \<longleftrightarrow> wire \<in> set TOKENIZATION_NETWORK_WIRE_STRINGS"

subsection \<open>Payloads\<close>

record mint_callback_request =
  mc_tokenization_request_id :: string
  mc_client_id :: uuid
  mc_wallet_address :: string
  mc_tx_hash :: string
  mc_network :: network

text \<open>A redeem quantity keeps the caller's spelling beside its value.\<close>

record 'f redeem_qty =
  rq_wire :: string
  rq_shares :: 'f

definition redeem_qty_new :: "(string \<Rightarrow> 'e + 'f) \<Rightarrow> string \<Rightarrow> 'e + 'f redeem_qty" where
  "redeem_qty_new parse wire =
     and_then (parse wire) (\<lambda>shares. Inr \<lparr>rq_wire = wire, rq_shares = shares\<rparr>)"

definition redeem_qty_serialize :: "'f redeem_qty \<Rightarrow> json" where
  "redeem_qty_serialize q = JString (rq_wire q)"

record 'f redeem_request =
  rr_issuer_request_id :: string
  rr_underlying :: symbol
  rr_token :: string
  rr_client_id :: uuid
  rr_quantity :: "'f redeem_qty"
  rr_network :: network
  rr_wallet :: string
  rr_tx_hash :: string

datatype issuer_request_type = Iss_Mint | Iss_Redeem

datatype redeem_request_status = Red_Pending | Red_Completed | Red_Rejected

record 'f redeem_response =
  rs_tokenization_request_id :: string
  rs_issuer_request_id :: string
  rs_created_at :: string
  rs_type :: issuer_request_type
  rs_status :: redeem_request_status
  rs_underlying :: symbol
  rs_token :: string
  rs_quantity :: 'f
  rs_issuer :: string
  rs_network :: network
  rs_wallet :: string
  rs_tx_hash :: string
  rs_fees :: "'f option"

record 'f redeem_status =
  rd_id :: string
  rd_issuer_request_id :: string
  rd_status :: redeem_request_status
  rd_underlying :: symbol
  rd_token :: string
  rd_quantity :: 'f
  rd_network :: network
  rd_wallet :: string
  rd_tx_hash :: "string option"
  rd_updated_at :: "string option"

datatype 'f issuer_tokenization_request = Mint_Request | Redeem_Request "'f redeem_status"

definition deserialize_optional_b256 ::
  "(string \<Rightarrow> string + string) \<Rightarrow> string option \<Rightarrow> string + string option" where
  "deserialize_optional_b256 parse raw =
     (case raw of
        None \<Rightarrow> Inr None
      | Some v \<Rightarrow> if v = [] then Inr None else and_then (parse v) (\<lambda>h. Inr (Some h)))"

subsection \<open>The client\<close>

record alpaca_client =
  ac_base_url :: url
  ac_account_id :: string
  ac_max_retries :: nat

text \<open>What a request carries: a redeem carries its \<open>Idempotency-Key\<close> header beside its body.\<close>

datatype 'f issuer_body = Mint_Callback mint_callback_request | Redeem_Call string "'f redeem_request"

record ('env, 'w, 'f) issuer_io =
  ii_wire :: "('env, 'w, 'f issuer_body) wire"
  ii_timer :: "('env, 'w, 'f issuer_body) issuer_state timer"
  ii_random :: "('env, 'w, 'f issuer_body) issuer_state \<Rightarrow> nat"
  ii_backoff :: "nat \<Rightarrow> ('env, 'w, 'f issuer_body) issuer_state \<Rightarrow> duration list"
  ii_extend_path :: "url \<Rightarrow> string list \<Rightarrow> url"
  ii_new_v5 :: "uuid \<Rightarrow> string \<Rightarrow> uuid"
  ii_redeem_response :: "string \<Rightarrow> string + 'f redeem_response"
  ii_request :: "string \<Rightarrow> string + 'f issuer_tokenization_request"

type_synonym ('env, 'w, 'f, 'e, 'a) issuer_call =
  "('env, 'w, 'f issuer_body) issuer_state \<Rightarrow> ('e + 'a) \<times> ('env, 'w, 'f issuer_body) issuer_state"

definition with_auth ::
  "(unit \<Rightarrow> reqwest_error + unit) \<Rightarrow> (alpaca_auth \<Rightarrow> string \<Rightarrow> kms_jwt_error + 'rt) \<Rightarrow> url_parser \<Rightarrow> ip_parser
   \<Rightarrow> string \<Rightarrow> string \<Rightarrow> alpaca_auth \<Rightarrow> string \<Rightarrow> alpaca_error + ('rt \<times> alpaca_client)" where
  "with_auth http_build build parse_url parse_ip base_url account auth token_url =
     and_then (map_err Iss_InvalidUrl (validate_origin parse_url parse_ip base_url BaseUrl)) (\<lambda>base.
     and_then (map_err Iss_Reqwest (http_build ())) (\<lambda>_.
     and_then (map_err Iss_Jwt (build auth token_url)) (\<lambda>rt.
     Inr (rt, \<lparr>ac_base_url = base, ac_account_id = account, ac_max_retries = 5\<rparr>))))"

definition with_max_retries :: "alpaca_client \<Rightarrow> nat \<Rightarrow> alpaca_client" where
  "with_max_retries c n = c\<lparr>ac_max_retries := n\<rparr>"

fun issuer_from_send :: "send_error \<Rightarrow> alpaca_error" where
  "issuer_from_send (SendHttp e) = Iss_Reqwest e"
| "issuer_from_send (SendNotSent g) = Iss_NotSent g"

text \<open>A call on the wire, beside the hold.\<close>

definition on_wire :: "('a \<Rightarrow> 'r \<times> 'a) \<Rightarrow> 'h \<times> 'a \<Rightarrow> 'r \<times> ('h \<times> 'a)" where
  "on_wire f s = (case f (snd s) of (r, x) \<Rightarrow> (r, (fst s, x)))"

text \<open>\<open>get\<close> and \<open>post\<close> build the URL and authenticate; \<open>request_id::send\<close> sends what they built.\<close>

definition issuer_send ::
  "('env, 'w, 'f) issuer_io \<Rightarrow> alpaca_client \<Rightarrow> wire_method \<Rightarrow> string list \<Rightarrow> 'f issuer_body option
   \<Rightarrow> ('env, 'w, 'f issuer_body, alpaca_error, http_answer) wire_call" where
  "issuer_send A c m segments b s =
     (case resolve_segments (ii_extend_path A) (ac_base_url c) segments of
        Inl e \<Rightarrow> (Inl (Iss_InvalidUrl e), s)
      | Inr u \<Rightarrow> transmit Iss_Jwt issuer_from_send (ii_wire A) m (u_text u) [] b s)"

definition retrying ::
  "('env, 'w, 'f) issuer_io \<Rightarrow> alpaca_client
   \<Rightarrow> ('env, 'w, 'f issuer_body, alpaca_error, 'a) wire_call \<Rightarrow> ('env, 'w, 'f, issuer_call_error, 'a) issuer_call" where
  "retrying A c op s =
     with_retry_reporting (ii_timer A) (ii_random A) (on_wire op) (ii_backoff A (ac_max_retries c) s) s"

text \<open>\<open>response.text().await.unwrap_or_default()\<close>, and the arms the three calls share.\<close>

definition text_or_default :: "('env, 'w, 'f issuer_body) wire \<Rightarrow> http_answer \<Rightarrow> string" where
  "text_or_default X a = (case ha_body a of Inl _ \<Rightarrow> [] | Inr b \<Rightarrow> wi_utf8_lossy X b)"

definition refused_answer :: "('env, 'w, 'f issuer_body) wire \<Rightarrow> http_answer \<Rightarrow> duration option \<Rightarrow> alpaca_error" where
  "refused_answer X a wait =
     (if ha_status a = 429 then Iss_RateLimited (text_or_default X a) wait
      else if ha_status a = 401 \<or> ha_status a = 403 then Iss_Auth (text_or_default X a)
      else Iss_Api (ha_status a) (text_or_default X a))"

definition parse_text ::
  "('env, 'w, 'f issuer_body) wire \<Rightarrow> (string \<Rightarrow> string + 'a) \<Rightarrow> http_answer \<Rightarrow> alpaca_error + 'a" where
  "parse_text X parse a =
     (case ha_body a of
        Inl e \<Rightarrow> Inl (Iss_Reqwest e)
      | Inr b \<Rightarrow> map_err (Iss_Parse (wi_utf8_lossy X b)) (parse (wi_utf8_lossy X b)))"

subsection \<open>The mint callback\<close>

definition mint_callback_answer ::
  "('env, 'w, 'f) issuer_io \<Rightarrow> http_answer \<Rightarrow> ('env, 'w, 'f issuer_body, alpaca_error, unit) wire_call" where
  "mint_callback_answer A a s =
     (let wait = head_retry_after (ii_wire A) a s
      in (if ha_status a = 200 then Inr () else Inl (refused_answer (ii_wire A) a wait), record_head a s))"

definition mint_callback_path :: "alpaca_client \<Rightarrow> string list" where
  "mint_callback_path c = [''v1'', ''accounts'', ac_account_id c, ''tokenization'', ''callback'', ''mint'']"

definition send_mint_callback_reporting ::
  "('env, 'w, 'f) issuer_io \<Rightarrow> alpaca_client \<Rightarrow> mint_callback_request
   \<Rightarrow> ('env, 'w, 'f, issuer_call_error, unit) issuer_call" where
  "send_mint_callback_reporting A c request s =
     (case retrying A c
        (then_call (issuer_send A c W_Post (mint_callback_path c) (Some (Mint_Callback request)))
          (mint_callback_answer A)) s of
        (r, s') \<Rightarrow> (map_err (\<lambda>failure. written_on failure 400) r, s'))"

subsection \<open>The redeem call\<close>

definition REDEEM_IDEMPOTENCY_NAMESPACE :: uuid where
  "REDEEM_IDEMPOTENCY_NAMESPACE = ''91943ff3-f69c-5dbe-a3e3-7ce22083bac6''"

definition redeem_idempotency_key :: "('env, 'w, 'f) issuer_io \<Rightarrow> string \<Rightarrow> string" where
  "redeem_idempotency_key A i = ii_new_v5 A REDEEM_IDEMPOTENCY_NAMESPACE i"

definition redeem_answer ::
  "('env, 'w, 'f) issuer_io \<Rightarrow> http_answer
   \<Rightarrow> ('env, 'w, 'f issuer_body, alpaca_error, 'f redeem_response) wire_call" where
  "redeem_answer A a s =
     (let wait = head_retry_after (ii_wire A) a s
      in (if ha_status a = 200 then parse_text (ii_wire A) (ii_redeem_response A) a
          else Inl (refused_answer (ii_wire A) a wait),
          record_head a s))"

definition redeem_path :: "alpaca_client \<Rightarrow> string list" where
  "redeem_path c = [''v1'', ''accounts'', ac_account_id c, ''tokenization'', ''callback'', ''redeem'']"

definition call_redeem_endpoint_reporting ::
  "('env, 'w, 'f) issuer_io \<Rightarrow> alpaca_client \<Rightarrow> 'f redeem_request
   \<Rightarrow> ('env, 'w, 'f, issuer_call_error, 'f redeem_response) issuer_call" where
  "call_redeem_endpoint_reporting A c request s =
     (if \<not> accepts_network_wire_string (network_as_str (rr_network request))
      then (Inl \<lparr>ice_written = False, ice_alpaca_status = None,
              ice_error = Iss_UnsupportedTokenizationNetwork (rr_network request)\<rparr>, s)
      else let key = redeem_idempotency_key A (rr_issuer_request_id request)
           in (case retrying A c
                 (then_call (issuer_send A c W_Post (redeem_path c) (Some (Redeem_Call key request)))
                   (redeem_answer A)) s of
                 (r, s') \<Rightarrow> (map_err (\<lambda>failure. written_on failure 422) r, s')))"

subsection \<open>The status poll\<close>

definition check_returned_id ::
  "string \<Rightarrow> 'f issuer_tokenization_request \<Rightarrow> alpaca_error + 'f issuer_tokenization_request" where
  "check_returned_id i r =
     (case r of
        Redeem_Request d \<Rightarrow> if rd_id d \<noteq> i then Inl (Iss_ResponseIdMismatch i (rd_id d)) else Inr r
      | Mint_Request \<Rightarrow> Inr r)"

definition status_answer ::
  "('env, 'w, 'f) issuer_io \<Rightarrow> string \<Rightarrow> http_answer
   \<Rightarrow> ('env, 'w, 'f issuer_body, alpaca_error, 'f issuer_tokenization_request) wire_call" where
  "status_answer A i a s =
     (let wait = head_retry_after (ii_wire A) a s
      in (if ha_status a = 200 then and_then (parse_text (ii_wire A) (ii_request A) a) (check_returned_id i)
          else if ha_status a = 404 then Inl (Iss_RequestNotFound i (text_or_default (ii_wire A) a))
          else Inl (refused_answer (ii_wire A) a wait),
          record_head a s))"

definition status_path :: "alpaca_client \<Rightarrow> string \<Rightarrow> string list" where
  "status_path c i = [''v1'', ''accounts'', ac_account_id c, ''tokenization'', ''requests'', i]"

definition poll_request_status_reporting ::
  "('env, 'w, 'f) issuer_io \<Rightarrow> alpaca_client \<Rightarrow> string
   \<Rightarrow> ('env, 'w, 'f, issuer_call_error, 'f issuer_tokenization_request) issuer_call" where
  "poll_request_status_reporting A c i s =
     (case retrying A c
        (then_call (issuer_send A c W_Get (status_path c i) None) (status_answer A i)) s of
        (r, s') \<Rightarrow> (map_err (\<lambda>failure. failure\<lparr>ice_written := False\<rparr>) r, s'))"

subsection \<open>The \<open>IssuerApi\<close> trait\<close>

definition send_mint_callback ::
  "('env, 'w, 'f) issuer_io \<Rightarrow> alpaca_client \<Rightarrow> mint_callback_request
   \<Rightarrow> ('env, 'w, 'f, alpaca_error, unit) issuer_call" where
  "send_mint_callback A c request s =
     (case send_mint_callback_reporting A c request s of (r, s') \<Rightarrow> (map_err ice_error r, s'))"

definition call_redeem_endpoint ::
  "('env, 'w, 'f) issuer_io \<Rightarrow> alpaca_client \<Rightarrow> 'f redeem_request
   \<Rightarrow> ('env, 'w, 'f, alpaca_error, 'f redeem_response) issuer_call" where
  "call_redeem_endpoint A c request s =
     (case call_redeem_endpoint_reporting A c request s of (r, s') \<Rightarrow> (map_err ice_error r, s'))"

definition poll_request_status ::
  "('env, 'w, 'f) issuer_io \<Rightarrow> alpaca_client \<Rightarrow> string
   \<Rightarrow> ('env, 'w, 'f, alpaca_error, 'f issuer_tokenization_request) issuer_call" where
  "poll_request_status A c i s =
     (case poll_request_status_reporting A c i s of (r, s') \<Rightarrow> (map_err ice_error r, s'))"

subsection \<open>What a call sends\<close>

definition sleeps_send_nothing :: "('env, 'w, 'b) issuer_state timer \<Rightarrow> bool" where
  "sleeps_send_nothing T \<longleftrightarrow> (\<forall>d s. sent_so_far (snd (tm_sleep T d s)) = sent_so_far (snd s))"

text \<open>Alpaca refused the request with a status other than \<open>skip\<close>, or never got it.\<close>

definition not_applied :: "('env, 'w, 'b) wire \<Rightarrow> nat \<Rightarrow> 'b wire_request \<Rightarrow> bool" where
  "not_applied X skip req \<longleftrightarrow>
     (\<exists>w. case fst (wi_http X req w) of
            Inr a \<Rightarrow> 400 \<le> ha_status a \<and> ha_status a < 500 \<and> ha_status a \<noteq> 408 \<and> ha_status a \<noteq> skip
          | Inl h \<Rightarrow> is_builder h \<or> is_connect h)"

definition issuer_url :: "('env, 'w, 'f) issuer_io \<Rightarrow> alpaca_client \<Rightarrow> string list \<Rightarrow> string" where
  "issuer_url A c segments = u_text (ii_extend_path A (ac_base_url c) segments)"

lemma issuer_attempt:
  assumes "then_call (issuer_send A c m segments b) k s = (r, s')" and k: "keeps_sent k"
  obtains
    (unsent) e where "r = Inl e" "sends s [] s'" "\<not> issuer_may_have_reached_alpaca e" "\<And>st x. e \<noteq> Iss_Api st x"
  | (failed) req h w w' where "sends s [req] s'" "is_request m (issuer_url A c segments) b req"
      "r = Inl (Iss_Reqwest h)" "wi_http (ii_wire A) req w = (Inl h, w')"
  | (answered) req a w w' s1 where "sends s [req] s'" "is_request m (issuer_url A c segments) b req"
      "wi_http (ii_wire A) req w = (Inr a, w')" "k a s1 = (r, s')"
proof (cases "resolve_segments (ii_extend_path A) (ac_base_url c) segments")
  case (Inl e)
  with assms(1) show ?thesis by (intro unsent) (auto simp: then_call_def issuer_send_def)
next
  case (Inr u)
  then have u: "u_text u = issuer_url A c segments"
    by (auto simp: resolve_segments_def issuer_url_def split: option.splits)
  have t: "issuer_send A c m segments b s = transmit Iss_Jwt issuer_from_send (ii_wire A) m (issuer_url A c segments) [] b s"
    using Inr u by (simp add: issuer_send_def)
  from assms(1) show ?thesis
  proof (cases rule: then_call_Pair)
    case err: (failed e)
    from err(1) [unfolded t] show ?thesis
    proof (cases rule: transmit_cases)
      case (unsent e')
      with err(2) show ?thesis by (intro that(1)) (auto simp: sends_def)
    next
      case (failed req h)
      with err(2) show ?thesis by (elim exE) (rule that(2), auto simp: sends_def is_query_def)
    qed simp
  next
    case (went_on a s1)
    from went_on(1) [unfolded t] show ?thesis
    proof (cases rule: transmit_cases)
      case (answered req a' w1)
      with went_on(2) keeps_sentD [OF k went_on(2)] show ?thesis
        by (intro that(3) [of req w1 a "snd s1" s1]) (auto simp: sends_def is_query_def)
    qed auto
  qed
qed

lemma answers_keep_sent [simp]:
  "keeps_sent (mint_callback_answer A)" "keeps_sent (redeem_answer A)" "keeps_sent (status_answer A i)"
  by (simp_all add: keeps_sent_def mint_callback_answer_def redeem_answer_def status_answer_def Let_def)

text \<open>What an answer's error says of its status.\<close>

definition honest_answer :: "('env, 'w, 'f) issuer_io \<Rightarrow> (http_answer \<Rightarrow> ('env, 'w, 'f issuer_body, alpaca_error, 'a) wire_call) \<Rightarrow> bool" where
  "honest_answer A k \<longleftrightarrow>
     (\<forall>a s e s'. k a s = (Inl e, s') \<longrightarrow> \<not> issuer_may_have_reached_alpaca e \<longrightarrow>
        (400 \<le> ha_status a \<and> ha_status a < 500 \<and> ha_status a \<noteq> 408
           \<and> (ha_status a \<in> {401, 403, 429} \<or> (\<exists>x. e = Iss_Api (ha_status a) x)))
        \<or> (\<exists>h. ha_body a = Inl h \<and> (is_builder h \<or> is_connect h)))"

lemma refusal_honest:
  "\<not> issuer_may_have_reached_alpaca (refused_answer X a wait) \<Longrightarrow>
     400 \<le> ha_status a \<and> ha_status a < 500 \<and> ha_status a \<noteq> 408
     \<and> (ha_status a \<in> {401, 403, 429} \<or> (\<exists>x. refused_answer X a wait = Iss_Api (ha_status a) x))"
  by (auto simp: refused_answer_def split: if_splits)

lemma answers_honest:
  "honest_answer A (mint_callback_answer A)" "honest_answer A (redeem_answer A)"
  unfolding honest_answer_def mint_callback_answer_def redeem_answer_def Let_def parse_text_def map_err_def
  using refusal_honest by (fastforce split: if_splits sum.splits)+

lemma set_last_answer_sent [simp]: "sent_so_far (snd (set_last_answer v s)) = sent_so_far (snd s)"
  by (cases s) (simp add: set_last_answer_def split: prod.split)

lemma retrying_attempts:
  assumes "retrying A c op s = (r, s')"
  obtains x s1 where
    "attempts (ii_timer A) (ii_random A) (on_wire op) (ii_backoff A (ac_max_retries c) s) RETRY_AFTER_BUDGET False
       (set_last_answer (Some None) s) = (x, s1)"
    "sent_so_far (snd s') = sent_so_far (snd s1)"
    "case x of Inr v \<Rightarrow> r = Inr v | Inl (wr, e) \<Rightarrow> (\<exists>f. r = Inl f \<and> ice_written f = wr \<and> ice_error f = e)"
proof -
  obtain x s1 where x: "attempts (ii_timer A) (ii_random A) (on_wire op) (ii_backoff A (ac_max_retries c) s)
       RETRY_AFTER_BUDGET False (set_last_answer (Some None) s) = (x, s1)"
    by (rule prod.exhaust)
  with assms show ?thesis
    by (intro that [OF x])
      (auto simp: retrying_def with_retry_reporting_def retry_attempts_def split: sum.splits prod.splits)
qed

lemma on_wire_Pair: "on_wire f s = (r, s') \<longleftrightarrow> f (snd s) = (r, snd s') \<and> fst s' = fst s"
  by (cases s') (auto simp: on_wire_def split: prod.splits)

text \<open>The answer to \<open>req\<close> gave the result \<open>v\<close>.\<close>

definition answer_gives ::
  "('env, 'w, 'b) wire \<Rightarrow> (http_answer \<Rightarrow> ('env, 'w, 'b, 'e, 'a) wire_call) \<Rightarrow> 'a \<Rightarrow> 'b wire_request \<Rightarrow> bool" where
  "answer_gives X k v req \<longleftrightarrow> (\<exists>w a s. fst (wi_http X req w) = Inr a \<and> fst (k a s) = Inr v)"

lemma answer_givesI: "wi_http X req w = (Inr a, w') \<Longrightarrow> k a s = (Inr v, s') \<Longrightarrow> answer_gives X k v req"
  unfolding answer_gives_def by (metis fst_conv)

text \<open>Every request sent between two states satisfies \<open>P\<close>; and one of them satisfies \<open>Q\<close>.\<close>

definition sent_all ::
  "('b wire_request \<Rightarrow> bool) \<Rightarrow> ('env, 'w, 'b) wire_state \<Rightarrow> ('env, 'w, 'b) wire_state \<Rightarrow> bool" where
  "sent_all P s s' \<longleftrightarrow> (\<exists>reqs. sends s reqs s' \<and> Ball (set reqs) P)"

definition sent_one ::
  "('b wire_request \<Rightarrow> bool) \<Rightarrow> ('b wire_request \<Rightarrow> bool) \<Rightarrow> ('env, 'w, 'b) wire_state \<Rightarrow> ('env, 'w, 'b) wire_state
   \<Rightarrow> bool" where
  "sent_one P Q s s' \<longleftrightarrow> (\<exists>reqs. sends s reqs s' \<and> Ball (set reqs) P \<and> Bex (set reqs) Q)"

lemma sent_all_none: "sends s [] s' \<Longrightarrow> sent_all P s s'"
  unfolding sent_all_def by (rule exI [of _ "[]"]) simp

lemma sent_all_single: "sends s [req] s' \<Longrightarrow> P req \<Longrightarrow> sent_all P s s'"
  unfolding sent_all_def by (rule exI [of _ "[req]"]) simp

lemma sent_one_single: "sends s [req] s' \<Longrightarrow> P req \<Longrightarrow> Q req \<Longrightarrow> sent_one P Q s s'"
  unfolding sent_one_def by (rule exI [of _ "[req]"]) simp

lemma sent_all_trans:
  assumes "sent_all P s x" "sent_all P x y"
  shows "sent_all P s y"
proof -
  from assms obtain xs ys where "sends s xs x" "sends x ys y" "Ball (set xs) P" "Ball (set ys) P"
    unfolding sent_all_def by blast
  then show ?thesis unfolding sent_all_def by (intro exI [of _ "xs @ ys"]) (auto intro: sends_trans)
qed

lemma sent_one_trans:
  assumes "sent_all P s x" "sent_one P Q x y"
  shows "sent_one P Q s y"
proof -
  from assms obtain xs ys where "sends s xs x" "sends x ys y" "Ball (set xs) P" "Ball (set ys) P" "Bex (set ys) Q"
    unfolding sent_all_def sent_one_def by blast
  then show ?thesis unfolding sent_one_def by (intro exI [of _ "xs @ ys"]) (auto intro: sends_trans)
qed

lemma sent_same:
  assumes "sent_so_far x = sent_so_far y"
  shows "sent_all P s x \<longleftrightarrow> sent_all P s y" "sent_one P Q s x \<longleftrightarrow> sent_one P Q s y"
    "sent_all P x s \<longleftrightarrow> sent_all P y s" "sent_one P Q x s \<longleftrightarrow> sent_one P Q y s"
  using assms by (simp_all add: sent_all_def sent_one_def sends_def)

lemma sleep_same: "sleeps_send_nothing T \<Longrightarrow> sent_so_far (snd (tm_sleep T d x)) = sent_so_far (snd x)"
  unfolding sleeps_send_nothing_def by blast

text \<open>Every attempt of a call sends the same request, or none, and the retries bound their number.\<close>

lemma attempt_sends:
  assumes "then_call (issuer_send A c m segments b) k x = (z, y)" "keeps_sent k"
  shows "sent_all (is_request m (issuer_url A c segments) b) x y"
    and "z = Inr v \<Longrightarrow> sent_one (is_request m (issuer_url A c segments) b) (answer_gives (ii_wire A) k v) x y"
    and "length (sent_so_far y) \<le> Suc (length (sent_so_far x))"
  using assms
  by (cases rule: issuer_attempt; auto intro: sent_all_none sent_all_single sent_one_single answer_givesI simp: sends_def; fail)+

lemma retrying_sends:
  assumes r: "retrying A c (then_call (issuer_send A c m segments b) k) s = (r, s')"
    and k: "keeps_sent k" and T: "sleeps_send_nothing (ii_timer A)"
  shows "sent_all (is_request m (issuer_url A c segments) b) (snd s) (snd s')"
    and "r = Inr v \<Longrightarrow>
      sent_one (is_request m (issuer_url A c segments) b) (answer_gives (ii_wire A) k v) (snd s) (snd s')"
    and "length (sent_so_far (snd s'))
      \<le> length (sent_so_far (snd s)) + Suc (length (ii_backoff A (ac_max_retries c) s))"
proof -
  let ?op = "then_call (issuer_send A c m segments b) k"
  let ?P = "is_request m (issuer_url A c segments) b"
  from r obtain x s1 where x: "attempts (ii_timer A) (ii_random A) (on_wire ?op) (ii_backoff A (ac_max_retries c) s)
      RETRY_AFTER_BUDGET False (set_last_answer (Some None) s) = (x, s1)"
    and s1: "sent_so_far (snd s') = sent_so_far (snd s1)"
    and rx: "case x of Inr v \<Rightarrow> r = Inr v | Inl (wr, e) \<Rightarrow> (\<exists>f. r = Inl f \<and> ice_written f = wr \<and> ice_error f = e)"
    by (rule retrying_attempts)
  have "counts_calls (ii_timer A) (on_wire ?op) (\<lambda>s. length (sent_so_far (snd s)))"
    using attempt_sends(3) [OF _ k] sleep_same [OF T]
    by (auto simp: counts_calls_def on_wire_def split: prod.splits)
  from attempts_calls [OF this x] s1 show "length (sent_so_far (snd s'))
      \<le> length (sent_so_far (snd s)) + Suc (length (ii_backoff A (ac_max_retries c) s))" by simp
  have "sent_all ?P (snd s) (snd (set_last_answer (Some None) s))" by (rule sent_all_none) (simp add: sends_def)
  note start = this
  have go: "sent_all ?P (snd s) (snd y)" if "sent_all ?P (snd s) (snd x)" "on_wire ?op x = (z, y)" for x z y
    using that(2) sent_all_trans [OF that(1) attempt_sends(1) [OF _ k]] by (simp add: on_wire_Pair)
  have J: "case x of Inl (wr, e) \<Rightarrow> sent_all ?P (snd s) (snd s1)
      | Inr v \<Rightarrow> sent_one ?P (answer_gives (ii_wire A) k v) (snd s) (snd s1)"
  proof (rule attempts_rule [where I = "\<lambda>_ x. sent_all ?P (snd s) (snd x)" and K = "\<lambda>_ _ x. sent_all ?P (snd s) (snd x)"
        and J = "\<lambda>v x. sent_one ?P (answer_gives (ii_wire A) k v) (snd s) (snd x)", OF _ _ _ _ _ x start])
    fix x v y
    assume "sent_all ?P (snd s) (snd x)" "on_wire ?op x = (Inr v, y)"
    then show "sent_one ?P (answer_gives (ii_wire A) k v) (snd s) (snd y)"
      using sent_one_trans attempt_sends(2) [OF _ k refl] unfolding on_wire_Pair by blast
  qed (simp_all add: go sent_same(1) [OF sleep_same [OF T]])
  then show "sent_all ?P (snd s) (snd s')"
    unfolding sent_same(1) [OF s1] by (auto simp: sent_all_def sent_one_def split: sum.splits prod.splits)
  show "sent_one ?P (answer_gives (ii_wire A) k v) (snd s) (snd s')" if "r = Inr v"
    using J rx that unfolding sent_same(2) [OF s1] by (auto split: sum.splits prod.splits)
qed

text \<open>A failure that is not written leaves only requests that were not applied.\<close>

lemma attempt_unwritten:
  assumes "then_call (issuer_send A c m segments b) k x = (Inl e, y)" "keeps_sent k" "honest_answer A k"
    and late: "wire_reads_late (ii_wire A)" and skip: "skip \<notin> {401, 403, 429}"
    and e: "\<not> issuer_may_have_reached_alpaca e" "\<And>t. e \<noteq> Iss_Api skip t"
  shows "sent_all (not_applied (ii_wire A) skip) x y"
  using assms(1,2)
proof (cases rule: issuer_attempt)
  case (unsent e')
  then show ?thesis by (rule_tac sent_all_none)
next
  case (failed req h w w')
  with e show ?thesis
    by (intro sent_all_single [OF failed(1)]) (auto simp: not_applied_def intro!: exI [of _ w])
next
  case (answered req a w w' s1)
  from answered(3) late have "\<not> (\<exists>h. ha_body a = Inl h \<and> (is_builder h \<or> is_connect h))"
    unfolding wire_reads_late_def by blast
  with assms(3) answered(4) e(1)
  have a: "400 \<le> ha_status a" "ha_status a < 500" "ha_status a \<noteq> 408"
      "ha_status a \<in> {401, 403, 429} \<or> (\<exists>t. e = Iss_Api (ha_status a) t)"
    unfolding honest_answer_def by blast+
  with e(2) skip have "ha_status a \<noteq> skip" by auto
  with a answered show ?thesis
    by (intro sent_all_single [OF answered(1)]) (auto simp: not_applied_def intro!: exI [of _ w])
qed

lemma retrying_unwritten:
  assumes r: "retrying A c (then_call (issuer_send A c m segments b) k) s = (r, s')" "r = Inl f"
    and k: "keeps_sent k" "honest_answer A k" and T: "sleeps_send_nothing (ii_timer A)"
    and late: "wire_reads_late (ii_wire A)" and skip: "skip \<notin> {401, 403, 429}" "\<And>t. \<not> alpaca_is_retryable (Iss_Api skip t)"
    and f: "\<not> ice_written (written_on f skip)"
  shows "sent_all (not_applied (ii_wire A) skip) (snd s) (snd s')"
proof -
  let ?op = "then_call (issuer_send A c m segments b) k"
  let ?G = "\<lambda>x. sent_all (not_applied (ii_wire A) skip) (snd s) (snd x)"
  from r(1) obtain x s1 where x: "attempts (ii_timer A) (ii_random A) (on_wire ?op) (ii_backoff A (ac_max_retries c) s)
      RETRY_AFTER_BUDGET False (set_last_answer (Some None) s) = (x, s1)"
    and s1: "sent_so_far (snd s') = sent_so_far (snd s1)"
    and rx: "case x of Inr v \<Rightarrow> r = Inr v | Inl (wr, e) \<Rightarrow> (\<exists>f. r = Inl f \<and> ice_written f = wr \<and> ice_error f = e)"
    by (rule retrying_attempts)
  have start: "?G (set_last_answer (Some None) s)" by (rule sent_all_none) (simp add: sends_def)
  have go: "?G (h, snd y)" if "?G x" "on_wire ?op x = (Inl e, y)" "\<not> issuer_may_have_reached_alpaca e" "\<And>t. e \<noteq> Iss_Api skip t"
    for x e y h
  proof -
    from that(2) have "?op (snd x) = (Inl e, snd y)" by (simp add: on_wire_Pair)
    from sent_all_trans [OF that(1) attempt_unwritten [OF this k late skip(1) that(3,4)]] show ?thesis by simp
  qed
  have sleep: "?G (tm_sleep (ii_timer A) d x) = ?G x" for d x by (rule sent_same(1) [OF sleep_same [OF T]])
  have "case x of Inl (wr, e) \<Rightarrow> (\<not> wr \<longrightarrow> (\<forall>t. e \<noteq> Iss_Api skip t) \<longrightarrow> ?G s1) | Inr v \<Rightarrow> True"
  proof (rule attempts_rule [where I = "\<lambda>wr x. \<not> wr \<longrightarrow> ?G x" and J = "\<lambda>_ _. True"
        and K = "\<lambda>wr e x. \<not> wr \<longrightarrow> (\<forall>t. e \<noteq> Iss_Api skip t) \<longrightarrow> ?G x", OF _ _ _ _ _ x])
    fix wr x e y h
    assume G: "\<not> wr \<longrightarrow> ?G x" and op: "on_wire ?op x = (Inl e, y)" and e: "alpaca_is_retryable e"
    have "e \<noteq> Iss_Api skip t" for t using e skip(2) [of t] by auto
    with go [OF _ op] G show "\<not> (wr \<or> issuer_may_have_reached_alpaca e) \<longrightarrow> ?G (h, snd y)" by simp
  next
    fix wr x e y h
    assume G: "\<not> wr \<longrightarrow> ?G x" and op: "on_wire ?op x = (Inl e, y)"
    with go [OF _ op] show "\<not> (wr \<or> issuer_may_have_reached_alpaca e) \<longrightarrow> (\<forall>t. e \<noteq> Iss_Api skip t) \<longrightarrow> ?G (h, snd y)"
      by simp
  qed (simp_all add: sleep start)
  with rx f r(2) have "?G s1"
    by (auto simp: written_on_def split: sum.splits prod.splits alpaca_error.splits)
  then show ?thesis unfolding sent_same(1) [OF s1] .
qed

lemma networks_pass_preflight: "accepts_network_wire_string (network_as_str n)"
  by (cases n) (simp_all add: accepts_network_wire_string_def TOKENIZATION_NETWORK_WIRE_STRINGS_def)

lemma map_err_cases:
  assumes "map_err g r = r'"
  shows "r' = Inl f \<Longrightarrow> \<exists>e. r = Inl e \<and> f = g e" and "r' = Inr v \<Longrightarrow> r = Inr v"
  using assms by (auto simp: map_err_def split: sum.splits)

lemma redeem_retrying:
  "call_redeem_endpoint_reporting A c request s =
     (case retrying A c
        (then_call (issuer_send A c W_Post (redeem_path c)
           (Some (Redeem_Call (redeem_idempotency_key A (rr_issuer_request_id request)) request)))
         (redeem_answer A)) s of
        (r, s') \<Rightarrow> (map_err (\<lambda>failure. written_on failure 422) r, s'))"
  by (simp add: call_redeem_endpoint_reporting_def networks_pass_preflight Let_def)

subsection \<open>Properties\<close>

lemma redeem_sends:
  assumes "sleeps_send_nothing (ii_timer A)" and "\<And>n x. length (ii_backoff A n x) \<le> n"
    and "call_redeem_endpoint_reporting A c request s = (r, s')"
  shows "accepts_network_wire_string (network_as_str (rr_network request))
    \<and> (let P = is_request W_Post (issuer_url A c (redeem_path c))
             (Some (Redeem_Call (ii_new_v5 A REDEEM_IDEMPOTENCY_NAMESPACE (rr_issuer_request_id request)) request))
       in sent_all P (snd s) (snd s')
          \<and> (\<forall>v. r = Inr v \<longrightarrow> sent_one P (answer_gives (ii_wire A) (redeem_answer A) v) (snd s) (snd s')))
    \<and> length (sent_so_far (snd s')) \<le> length (sent_so_far (snd s)) + Suc (ac_max_retries c)"
proof -
  let ?key = "redeem_idempotency_key A (rr_issuer_request_id request)"
  obtain r0 where r0: "retrying A c (then_call (issuer_send A c W_Post (redeem_path c) (Some (Redeem_Call ?key request)))
      (redeem_answer A)) s = (r0, s')" "map_err (\<lambda>failure. written_on failure 422) r0 = r"
    using assms(3) by (auto simp: redeem_retrying split: prod.splits)
  note sends = retrying_sends [OF r0(1) answers_keep_sent(2) assms(1)]
  from sends(3) assms(2) [of "ac_max_retries c" s]
  have "length (sent_so_far (snd s')) \<le> length (sent_so_far (snd s)) + Suc (ac_max_retries c)" by linarith
  with sends(1,2) map_err_cases(2) [OF r0(2)] show ?thesis
    unfolding Let_def redeem_idempotency_key_def by (simp add: networks_pass_preflight)
qed

lemma callback_sends:
  assumes "sleeps_send_nothing (ii_timer A)" and "\<And>n x. length (ii_backoff A n x) \<le> n"
    and "send_mint_callback_reporting A c request s = (r, s')"
  shows "(let P = is_request W_Post (issuer_url A c (mint_callback_path c)) (Some (Mint_Callback request))
       in sent_all P (snd s) (snd s')
          \<and> (\<forall>v. r = Inr v \<longrightarrow> sent_one P (answer_gives (ii_wire A) (mint_callback_answer A) v) (snd s) (snd s')))
    \<and> length (sent_so_far (snd s')) \<le> length (sent_so_far (snd s)) + Suc (ac_max_retries c)"
proof -
  obtain r0 where r0: "retrying A c (then_call (issuer_send A c W_Post (mint_callback_path c) (Some (Mint_Callback request)))
      (mint_callback_answer A)) s = (r0, s')" "map_err (\<lambda>failure. written_on failure 400) r0 = r"
    using assms(3) by (auto simp: send_mint_callback_reporting_def split: prod.splits)
  note sends = retrying_sends [OF r0(1) answers_keep_sent(1) assms(1)]
  from sends(3) assms(2) [of "ac_max_retries c" s]
  have "length (sent_so_far (snd s')) \<le> length (sent_so_far (snd s)) + Suc (ac_max_retries c)" by linarith
  with sends(1,2) map_err_cases(2) [OF r0(2)] show ?thesis unfolding Let_def by simp
qed

text \<open>
  A redeem is resent only as itself. Every request a redeem call sends is the POST of the same body
  with the same idempotency key, derived from the issuer request id alone; there are at most one more of
  them than the client retries; and a redeem that succeeds returns what one of them was answered with.
  No issued network fails the preflight, so no call is lost to it.
\<close>

theorem redeem_attempts_are_identical:
  assumes "sleeps_send_nothing (ii_timer A)" and "\<And>n x. length (ii_backoff A n x) \<le> n"
    and "call_redeem_endpoint_reporting A c request s = (r, s')"
  shows "accepts_network_wire_string (network_as_str (rr_network request))
    \<and> (let P = is_request W_Post (issuer_url A c (redeem_path c))
             (Some (Redeem_Call (ii_new_v5 A REDEEM_IDEMPOTENCY_NAMESPACE (rr_issuer_request_id request)) request))
       in sent_all P (snd s) (snd s')
          \<and> (\<forall>v. r = Inr v \<longrightarrow> sent_one P (answer_gives (ii_wire A) (redeem_answer A) v) (snd s) (snd s')))
    \<and> length (sent_so_far (snd s')) \<le> length (sent_so_far (snd s)) + Suc (ac_max_retries c)"
  using assms by (rule redeem_sends)

lemma callback_unwritten:
  assumes "sleeps_send_nothing (ii_timer A)" and "wire_reads_late (ii_wire A)"
    and m: "send_mint_callback_reporting A c callback s = (Inl f, s')" and f: "\<not> ice_written f"
  shows "sent_all (not_applied (ii_wire A) 400) (snd s) (snd s')"
proof -
  from m obtain r0 where "retrying A c (then_call (issuer_send A c W_Post (mint_callback_path c)
      (Some (Mint_Callback callback))) (mint_callback_answer A)) s = (r0, s')"
    "map_err (\<lambda>failure. written_on failure 400) r0 = Inl f"
    by (auto simp: send_mint_callback_reporting_def split: prod.splits)
  with map_err_cases(1) [OF this(2) refl] f assms(1,2) show ?thesis
    using answers_honest answers_keep_sent by (auto intro!: retrying_unwritten)
qed

lemma redeem_unwritten:
  assumes "sleeps_send_nothing (ii_timer A)" and "wire_reads_late (ii_wire A)"
    and m: "call_redeem_endpoint_reporting A c request s = (Inl f, s')" and f: "\<not> ice_written f"
  shows "sent_all (not_applied (ii_wire A) 422) (snd s) (snd s')"
proof -
  from m obtain r0 where "retrying A c (then_call (issuer_send A c W_Post (redeem_path c)
      (Some (Redeem_Call (redeem_idempotency_key A (rr_issuer_request_id request)) request))) (redeem_answer A)) s = (r0, s')"
    "map_err (\<lambda>failure. written_on failure 422) r0 = Inl f"
    by (auto simp: redeem_retrying split: prod.splits)
  with map_err_cases(1) [OF this(2) refl] f assms(1,2) show ?thesis
    using answers_honest answers_keep_sent by (auto intro!: retrying_unwritten)
qed

text \<open>
  A mint callback or redeem that failed and is not reported as written changed nothing at Alpaca.
  Every request it sent was refused with a client error, other than the timeout and the one status that
  may follow an applied call (400 for a callback, 422 for a redeem), or never reached a connection.
\<close>

theorem unwritten_issuer_call_was_not_applied:
  assumes "sleeps_send_nothing (ii_timer A)" and "wire_reads_late (ii_wire A)"
  shows "(send_mint_callback_reporting A c callback s = (Inl f, s') \<and> \<not> ice_written f
      \<longrightarrow> sent_all (not_applied (ii_wire A) 400) (snd s) (snd s'))
    \<and> (call_redeem_endpoint_reporting A c request s = (Inl f, s') \<and> \<not> ice_written f
      \<longrightarrow> sent_all (not_applied (ii_wire A) 422) (snd s) (snd s'))"
  using callback_unwritten [OF assms] redeem_unwritten [OF assms] by blast

lemma status_poll_sends:
  assumes "sleeps_send_nothing (ii_timer A)" and "poll_request_status_reporting A c i s = (r, s')"
  shows "sent_all (is_request W_Get (issuer_url A c (status_path c i)) None) (snd s) (snd s')
    \<and> (case r of
         Inr (Redeem_Request d) \<Rightarrow> rd_id d = i
       | Inr Mint_Request \<Rightarrow> True
       | Inl f \<Rightarrow> \<not> ice_written f)"
proof -
  obtain r0 where r0: "retrying A c (then_call (issuer_send A c W_Get (status_path c i) None) (status_answer A i)) s = (r0, s')"
      "map_err (\<lambda>failure. failure\<lparr>ice_written := False\<rparr>) r0 = r"
    using assms(2) by (auto simp: poll_request_status_reporting_def split: prod.splits)
  note sends = retrying_sends [OF r0(1) answers_keep_sent(3) assms(1)]
  have "rd_id d = i" if "answer_gives (ii_wire A) (status_answer A i) (Redeem_Request d) req" for req d
    using that
    by (auto simp: answer_gives_def status_answer_def Let_def check_returned_id_def and_then_def
        split: if_splits sum.splits issuer_tokenization_request.splits)
  then have "rd_id d = i" if "r = Inr (Redeem_Request d)" for d
    using sends(2) [OF map_err_cases(2) [OF r0(2) that]] by (auto simp: sent_one_def)
  moreover have "\<not> ice_written f" if "r = Inl f" for f
    using map_err_cases(1) [OF r0(2) that] by auto
  ultimately show ?thesis using sends(1)
    by (auto split: sum.split issuer_tokenization_request.split)
qed

text \<open>
  A status poll reads the request it was asked for and writes nothing: it sends only reads of that
  request's path, a redeem it returns has the id asked for, and a failure is never reported as written.
\<close>

theorem status_poll_reads_the_request:
  assumes "sleeps_send_nothing (ii_timer A)" and "poll_request_status_reporting A c i s = (r, s')"
  shows "sent_all (is_request W_Get (issuer_url A c (status_path c i)) None) (snd s) (snd s')
    \<and> (case r of
         Inr (Redeem_Request d) \<Rightarrow> rd_id d = i
       | Inr Mint_Request \<Rightarrow> True
       | Inl f \<Rightarrow> \<not> ice_written f)"
  using assms by (rule status_poll_sends)

subsection \<open>Witnesses\<close>

definition still_timer :: "'s timer" where
  "still_timer = \<lparr>tm_now = (\<lambda>_. 0), tm_sleep = (\<lambda>_ s. s), tm_dropped = (\<lambda>_ _ _. None)\<rparr>"

definition sample_base :: url where
  "sample_base = \<lparr>u_text = ''https://broker/'', u_scheme = ''https'', u_host = Some (Domain ''broker''),
     u_host_str = Some ''broker'', u_username = [], u_password = None, u_query = None, u_fragment = None,
     u_query_pairs = []\<rparr>"

definition sample_redeem_response :: "nat redeem_response" where
  "sample_redeem_response = \<lparr>rs_tokenization_request_id = ''t1'', rs_issuer_request_id = ''0xaa'', rs_created_at = [],
     rs_type = Iss_Redeem, rs_status = Red_Pending, rs_underlying = ''AAPL'', rs_token = ''tAAPL'', rs_quantity = 3,
     rs_issuer = ''st0x'', rs_network = Base, rs_wallet = ''0x1'', rs_tx_hash = ''0x2'', rs_fees = None\<rparr>"

definition sample_redeem :: "nat redeem_request" where
  "sample_redeem = \<lparr>rr_issuer_request_id = ''0xaa'', rr_underlying = ''AAPL'', rr_token = ''tAAPL'', rr_client_id = ''c'',
     rr_quantity = \<lparr>rq_wire = ''3.0'', rq_shares = 3\<rparr>, rr_network = Base, rr_wallet = ''0x1'', rr_tx_hash = ''0x2''\<rparr>"

definition sample_io :: "nat \<Rightarrow> (unit, unit, nat) issuer_io" where
  "sample_io status = \<lparr>ii_wire = canned_wire (\<lambda>_. answer_of status ''ok''), ii_timer = still_timer, ii_random = (\<lambda>_. 0),
     ii_backoff = (\<lambda>n _. replicate n 1), ii_extend_path = (\<lambda>u _. u),
     ii_new_v5 = (\<lambda>ns i. ns @ i), ii_redeem_response = (\<lambda>_. Inr sample_redeem_response),
     ii_request = (\<lambda>_. Inr Mint_Request)\<rparr>"

definition sample_issuer_client :: alpaca_client where
  "sample_issuer_client = \<lparr>ac_base_url = sample_base, ac_account_id = ''acc'', ac_max_retries = 2\<rparr>"

definition sample_issuer_state :: "(unit, unit, nat issuer_body) issuer_state" where
  "sample_issuer_state = (None, open_net, ())"

lemma sample_io_fields [simp]:
  "ii_wire (sample_io st) = canned_wire (\<lambda>_. answer_of st ''ok'')" "ii_timer (sample_io st) = still_timer"
  "ii_redeem_response (sample_io st) t = Inr sample_redeem_response"
  "ii_request (sample_io st) t = Inr Mint_Request" "length (ii_backoff (sample_io st) n x) = n"
  by (simp_all add: sample_io_def)

lemma still_sends_nothing: "sleeps_send_nothing still_timer"
  by (simp add: sleeps_send_nothing_def still_timer_def)

lemma sample_wire_reads_late: "wire_reads_late (ii_wire (sample_io st))"
  by (simp add: wire_reads_late_def canned_wire_def answer_of_def)

text \<open>The redeem call evaluated: one attempt, which a 200 or a 404 ends.\<close>

lemma sample_path: "List.find bad_segment (redeem_path sample_issuer_client) = None"
  by code_simp

lemma sample_sent:
  "fst (issuer_send (sample_io st) sample_issuer_client W_Post (redeem_path sample_issuer_client) b (snd (set_last_answer v sample_issuer_state)))
     = Inr \<lparr>ha_status = st, ha_headers = [], ha_body = Inr ''ok''\<rparr>"
  unfolding issuer_send_def resolve_segments_def sample_path
  by (simp add: sample_issuer_state_def open_net_def set_last_answer_def canned_transmit answer_of_def Let_def map_err_def)

lemma sample_attempt:
  "\<exists>n. fst (on_wire (then_call (issuer_send (sample_io st) sample_issuer_client W_Post (redeem_path sample_issuer_client) b) k)
       (set_last_answer v sample_issuer_state)) = fst (k \<lparr>ha_status = st, ha_headers = [], ha_body = Inr ''ok''\<rparr> n)"
proof -
  obtain r s' where i: "issuer_send (sample_io st) sample_issuer_client W_Post (redeem_path sample_issuer_client) b
      (snd (set_last_answer v sample_issuer_state)) = (r, s')"
    by (rule prod.exhaust)
  with sample_sent [of st b v] have "r = Inr \<lparr>ha_status = st, ha_headers = [], ha_body = Inr ''ok''\<rparr>" by simp
  with i show ?thesis by (intro exI [of _ s']) (simp add: on_wire_def then_call_def split: prod.split)
qed

lemma sample_redeem_attempts:
  fixes b :: "nat issuer_body option" and random delays budget
  defines "run \<equiv> \<lambda>st. attempts still_timer random (on_wire (then_call (issuer_send (sample_io st) sample_issuer_client W_Post
      (redeem_path sample_issuer_client) b) (redeem_answer (sample_io st)))) delays budget False
      (set_last_answer (Some None) sample_issuer_state)"
  shows "fst (run 200) = Inr sample_redeem_response" and "\<exists>e. fst (run 404) = Inl (False, Iss_Api 404 e)"
proof -
  let ?s = "set_last_answer (Some None) sample_issuer_state"
  let ?op = "\<lambda>st. on_wire (then_call (issuer_send (sample_io st) sample_issuer_client W_Post (redeem_path sample_issuer_client) b)
      (redeem_answer (sample_io st)))"
  have none: "client_backpressure_wait still_timer ?s = None"
    by (simp add: client_backpressure_wait_def set_last_answer_def sample_issuer_state_def)
  have op: "\<exists>n. fst (?op st ?s) = fst (redeem_answer (sample_io st) \<lparr>ha_status = st, ha_headers = [], ha_body = Inr ''ok''\<rparr> n)" for st
    by (rule sample_attempt)
  obtain r s' where rs: "?op 200 ?s = (r, s')" by (rule prod.exhaust)
  with op [of 200] have "r = Inr sample_redeem_response"
    by (auto simp: redeem_answer_def parse_text_def map_err_def Let_def)
  with rs have "?op 200 ?s = (Inr sample_redeem_response, s')" by simp
  from attempts_first(1) [of still_timer ?s "?op 200", OF none this] show "fst (run 200) = Inr sample_redeem_response"
    unfolding run_def by simp
  obtain r s' where rs: "?op 404 ?s = (r, s')" by (rule prod.exhaust)
  with op [of 404] obtain e where "r = Inl (Iss_Api 404 e)"
    by (auto simp: redeem_answer_def refused_answer_def Let_def)
  with rs have "?op 404 ?s = (Inl (Iss_Api 404 e), s')" by simp
  from attempts_first(2) [of still_timer ?s "?op 404", OF none this] show "\<exists>e. fst (run 404) = Inl (False, Iss_Api 404 e)"
    unfolding run_def by simp
qed

lemmas redeem_unfold = redeem_retrying retrying_def with_retry_reporting_def retry_attempts_def sample_io_fields(2)

lemma sample_redeem_ok:
  "fst (call_redeem_endpoint_reporting (sample_io 200) sample_issuer_client sample_redeem sample_issuer_state)
     = Inr sample_redeem_response"
proof -
  let ?b = "Some (Redeem_Call (redeem_idempotency_key (sample_io 200) (rr_issuer_request_id sample_redeem)) sample_redeem)"
  show ?thesis
    unfolding redeem_unfold
    using sample_redeem_attempts(1) [of "ii_random (sample_io 200)" ?b "ii_backoff (sample_io 200) (ac_max_retries sample_issuer_client) sample_issuer_state"
        RETRY_AFTER_BUDGET]
    by (auto simp: map_err_def split: prod.split sum.split)
qed

lemma sample_redeem_refused:
  "\<exists>f. fst (call_redeem_endpoint_reporting (sample_io 404) sample_issuer_client sample_redeem sample_issuer_state) = Inl f
     \<and> \<not> ice_written f"
proof -
  let ?b = "Some (Redeem_Call (redeem_idempotency_key (sample_io 404) (rr_issuer_request_id sample_redeem)) sample_redeem)"
  show ?thesis
    unfolding redeem_unfold
    using sample_redeem_attempts(2) [of "ii_random (sample_io 404)" ?b "ii_backoff (sample_io 404) (ac_max_retries sample_issuer_client) sample_issuer_state"
        RETRY_AFTER_BUDGET]
    by (auto simp: map_err_def written_on_def split: prod.split sum.split)
qed

theorem redeem_attempts_are_identical_witness:
  "\<exists>s'. call_redeem_endpoint_reporting (sample_io 200) sample_issuer_client sample_redeem sample_issuer_state
       = (Inr sample_redeem_response, s')
     \<and> length (sent_so_far (snd s')) \<le> 3
     \<and> sent_all (is_request W_Post ''https://broker/''
         (Some (Redeem_Call ''91943ff3-f69c-5dbe-a3e3-7ce22083bac60xaa'' sample_redeem))) (open_net, ()) (snd s')"
proof -
  obtain r s' where c: "call_redeem_endpoint_reporting (sample_io 200) sample_issuer_client sample_redeem sample_issuer_state = (r, s')"
    by (rule prod.exhaust)
  have r: "r = Inr sample_redeem_response" using c sample_redeem_ok by simp
  have "sleeps_send_nothing (ii_timer (sample_io 200))" by (simp add: still_sends_nothing)
  from redeem_attempts_are_identical [OF this _ c] c r show ?thesis
    by (simp add: Let_def issuer_url_def sample_io_def sample_issuer_client_def sample_base_def sample_issuer_state_def
        sample_redeem_def REDEEM_IDEMPOTENCY_NAMESPACE_def open_net_def)
qed

theorem unwritten_issuer_call_was_not_applied_witness:
  "\<exists>f s'. call_redeem_endpoint_reporting (sample_io 404) sample_issuer_client sample_redeem sample_issuer_state = (Inl f, s')
     \<and> \<not> ice_written f \<and> sent_all (not_applied (ii_wire (sample_io 404)) 422) (open_net, ()) (snd s')"
proof -
  obtain r s' where c: "call_redeem_endpoint_reporting (sample_io 404) sample_issuer_client sample_redeem sample_issuer_state = (r, s')"
    by (rule prod.exhaust)
  then obtain f where f: "r = Inl f" "\<not> ice_written f" using sample_redeem_refused by auto
  have "sleeps_send_nothing (ii_timer (sample_io 404))" by (simp add: still_sends_nothing)
  from unwritten_issuer_call_was_not_applied [OF this sample_wire_reads_late] c f
  have "sent_all (not_applied (ii_wire (sample_io 404)) 422) (snd sample_issuer_state) (snd s')" by blast
  with c f show ?thesis by (simp add: sample_issuer_state_def)
qed

theorem status_poll_reads_the_request_witness:
  "sent_all (is_request W_Get ''https://broker/'' None) (open_net, ())
     (snd (snd (poll_request_status_reporting (sample_io 200) sample_issuer_client ''t1'' sample_issuer_state)))"
proof -
  obtain r s' where c: "poll_request_status_reporting (sample_io 200) sample_issuer_client ''t1'' sample_issuer_state = (r, s')"
    by (rule prod.exhaust)
  have "sleeps_send_nothing (ii_timer (sample_io 200))" by (simp add: still_sends_nothing)
  from status_poll_reads_the_request [OF this c] c show ?thesis
    by (simp add: issuer_url_def sample_io_def sample_issuer_client_def sample_base_def sample_issuer_state_def)
qed

end
