(* ===== verification/Token_Cache.thy ===== *)
theory Token_Cache
  imports Broker_Client
begin

text \<open>
  The bearer token cache of the credential runtime (\<^verbatim>\<open>src/auth.rs\<close>, \<open>KmsJwtAuth\<close>). The parts of
  \<open>access_token\<close> between its awaits are functions of the cache and of the clock. Concurrent callers are
  a step relation: each caller has a program point, one caller moves at a time, and the clock moves
  between any two moves. A step reads the clock once. What a mint gives is an argument of the step that
  ends it: the exchange itself is in \<open>Token_Mint\<close>.
\<close>

subsection \<open>Constants\<close>

definition TOKEN_REFRESH_MARGIN :: duration where "TOKEN_REFRESH_MARGIN = from_secs 120"

definition TOKEN_HARD_MARGIN :: duration where "TOKEN_HARD_MARGIN = from_secs 10"

definition FAILED_MINT_BACKOFF :: duration where "FAILED_MINT_BACKOFF = from_secs 15"

definition TOKEN_MAX_LIFETIME :: duration where "TOKEN_MAX_LIFETIME = from_secs 3600"

subsection \<open>The cache\<close>

record cached_token =
  ct_access_token :: string
  ct_refresh_after :: instant
  ct_hard_expiry :: instant

record token_cache =
  kj_cached :: "cached_token option"
  kj_mint_not_before :: "(instant \<times> duration) option"

definition empty_cache :: token_cache where
  "empty_cache = \<lparr>kj_cached = None, kj_mint_not_before = None\<rparr>"

definition cached_before :: "instant \<Rightarrow> (cached_token \<Rightarrow> instant) \<Rightarrow> token_cache \<Rightarrow> string option" where
  "cached_before now deadline C =
     (case kj_cached C of
        None \<Rightarrow> None
      | Some tok \<Rightarrow> if now < deadline tok then Some (ct_access_token tok) else None)"

text \<open>The time left of an earlier throttle's hold.\<close>

definition mint_wait :: "instant \<Rightarrow> token_cache \<Rightarrow> duration option" where
  "mint_wait now C =
     (case kj_mint_not_before C of
        None \<Rightarrow> None
      | Some (started, delay) \<Rightarrow>
          let wait = delay - (now - started) in if wait = 0 then None else Some wait)"

definition inside_hold :: "duration \<Rightarrow> kms_jwt_error" where
  "inside_hold wait =
     Kms_TokenStatus 429 ''token mint is inside an earlier Retry-After deadline'' (Some wait)"

text \<open>The end of a successful \<open>mint\<close>: what the cache keeps of an answer.\<close>

definition lifetime_of :: "nat \<Rightarrow> duration" where
  "lifetime_of expires_in = min (from_secs expires_in) TOKEN_MAX_LIFETIME"

definition keep_token :: "instant \<Rightarrow> string \<Rightarrow> nat \<Rightarrow> token_cache \<Rightarrow> token_cache" where
  "keep_token now tok expires_in C =
     (let lifetime = lifetime_of expires_in;
          hard_expiry = now + (lifetime - TOKEN_HARD_MARGIN);
          refresh_after = min (now + max (lifetime - TOKEN_REFRESH_MARGIN) (lifetime div 2)) hard_expiry
      in C\<lparr>kj_cached := Some \<lparr>ct_access_token = tok, ct_refresh_after = refresh_after, ct_hard_expiry = hard_expiry\<rparr>\<rparr>)"

definition defer_next_refresh :: "instant \<Rightarrow> duration \<Rightarrow> token_cache \<Rightarrow> token_cache" where
  "defer_next_refresh now hint C =
     C\<lparr>kj_cached := map_option (\<lambda>tok. tok\<lparr>ct_refresh_after :=
         min (now + max FAILED_MINT_BACKOFF hint) (ct_hard_expiry tok)\<rparr>) (kj_cached C)\<rparr>"

text \<open>\<open>Ord::clamp\<close>.\<close>

definition clamp :: "duration \<Rightarrow> duration \<Rightarrow> duration \<Rightarrow> duration" where
  "clamp d lo hi = (if d < lo then lo else if hi < d then hi else d)"

definition note_throttle :: "instant \<Rightarrow> kms_jwt_error \<Rightarrow> token_cache \<Rightarrow> token_cache" where
  "note_throttle now e C =
     (if is_rate_limited e
      then C\<lparr>kj_mint_not_before := Some (now, clamp (unwrap_or (kms_retry_after e) 0) FAILED_MINT_BACKOFF MAX_RETRY_AFTER_HOLD)\<rparr>
      else C)"

text \<open>The failure arm: the cached token is ridden while it may be sent.\<close>

definition ride_or_fail :: "instant \<Rightarrow> kms_jwt_error \<Rightarrow> token_cache \<Rightarrow> (kms_jwt_error + string) \<times> token_cache" where
  "ride_or_fail now e C =
     (case cached_before now ct_hard_expiry C of
        Some tok \<Rightarrow> (Inr tok, defer_next_refresh now (unwrap_or (kms_retry_after e) 0) C)
      | None \<Rightarrow> (Inl e, C))"

definition serve_in_hold :: "instant \<Rightarrow> duration \<Rightarrow> token_cache \<Rightarrow> kms_jwt_error + string" where
  "serve_in_hold now wait C =
     (case cached_before now ct_hard_expiry C of Some tok \<Rightarrow> Inr tok | None \<Rightarrow> Inl (inside_hold wait))"

subsection \<open>One caller\<close>

text \<open>\<open>access_token\<close> with the lock free throughout; \<open>mint\<close> gives the token and its \<open>expires_in\<close>.\<close>

definition access_token ::
  "instant \<Rightarrow> gate_closed + unit \<Rightarrow> kms_jwt_error + string \<times> nat \<Rightarrow> token_cache
   \<Rightarrow> (kms_jwt_error + string) \<times> token_cache" where
  "access_token now gate mint C =
     (case cached_before now ct_refresh_after C of
        Some tok \<Rightarrow> (Inr tok, C)
      | None \<Rightarrow>
          (case mint_wait now C of
             Some wait \<Rightarrow> (serve_in_hold now wait C, C)
           | None \<Rightarrow>
               (case gate of
                  Inl g \<Rightarrow> (Inl (Kms_NotSent g), C)
                | Inr _ \<Rightarrow>
                    (case mint of
                       Inr (tok, expires_in) \<Rightarrow> (Inr tok, keep_token now tok expires_in C)
                     | Inl e \<Rightarrow> ride_or_fail now e (note_throttle now e C)))))"

subsection \<open>Concurrent callers\<close>

datatype caller =
    Arriving
  | Trying
  | Contended
  | Queued
  | Locked
  | Checking
  | Held duration
  | Opening
  | Minting
  | Mint_Failed kms_jwt_error
  | Returned "kms_jwt_error + string"
  | Dropped

text \<open>The points at which a caller has the \<open>mint_lock\<close> guard.\<close>

fun holds_lock :: "caller \<Rightarrow> bool" where
  "holds_lock Locked = True"
| "holds_lock Checking = True"
| "holds_lock (Held _) = True"
| "holds_lock Opening = True"
| "holds_lock Minting = True"
| "holds_lock (Mint_Failed _) = True"
| "holds_lock _ = False"

text \<open>\<open>aw_issued\<close> lists the tokens Alpaca issued, with the time and the lifetime, latest first.\<close>

record 'c auth_world =
  aw_now :: instant
  aw_cache :: token_cache
  aw_lock :: "'c option"
  aw_at :: "'c \<Rightarrow> caller"
  aw_issued :: "(string \<times> instant \<times> nat) list"

definition goes :: "'c \<Rightarrow> caller \<Rightarrow> 'c auth_world \<Rightarrow> 'c auth_world" where
  "goes c p W = W\<lparr>aw_at := (aw_at W)(c := p)\<rparr>"

text \<open>Returning drops the guard.\<close>

definition gives :: "'c \<Rightarrow> kms_jwt_error + string \<Rightarrow> 'c auth_world \<Rightarrow> 'c auth_world" where
  "gives c r W = (goes c (Returned r) W)\<lparr>aw_lock := (if aw_lock W = Some c then None else aw_lock W)\<rparr>"

definition fresh_or :: "(cached_token \<Rightarrow> instant) \<Rightarrow> 'c \<Rightarrow> caller \<Rightarrow> 'c auth_world \<Rightarrow> 'c auth_world" where
  "fresh_or deadline c p W =
     (case cached_before (aw_now W) deadline (aw_cache W) of
        Some tok \<Rightarrow> gives c (Inr tok) W
      | None \<Rightarrow> goes c p W)"

text \<open>A caller's next move; \<open>None\<close> when it waits for the lock or is done.\<close>

definition advance ::
  "gate_closed + unit \<Rightarrow> kms_jwt_error + string \<times> nat \<Rightarrow> 'c \<Rightarrow> 'c auth_world \<Rightarrow> 'c auth_world option" where
  "advance gate mint c W =
     (case aw_at W c of
        Arriving \<Rightarrow> Some (fresh_or ct_refresh_after c Trying W)
      | Trying \<Rightarrow>
          if aw_lock W = None then Some (goes c Locked (W\<lparr>aw_lock := Some c\<rparr>)) else Some (goes c Contended W)
      | Contended \<Rightarrow> Some (fresh_or ct_hard_expiry c Queued W)
      | Queued \<Rightarrow> if aw_lock W = None then Some (goes c Locked (W\<lparr>aw_lock := Some c\<rparr>)) else None
      | Locked \<Rightarrow> Some (fresh_or ct_refresh_after c Checking W)
      | Checking \<Rightarrow>
          (case mint_wait (aw_now W) (aw_cache W) of
             Some wait \<Rightarrow> Some (goes c (Held wait) W)
           | None \<Rightarrow> Some (goes c Opening W))
      | Held wait \<Rightarrow> Some (gives c (serve_in_hold (aw_now W) wait (aw_cache W)) W)
      | Opening \<Rightarrow>
          (case gate of
             Inl g \<Rightarrow> Some (gives c (Inl (Kms_NotSent g)) W)
           | Inr _ \<Rightarrow> Some (goes c Minting W))
      | Minting \<Rightarrow>
          (case mint of
             Inr (tok, expires_in) \<Rightarrow>
               Some (gives c (Inr tok) (W\<lparr>aw_cache := keep_token (aw_now W) tok expires_in (aw_cache W),
                  aw_issued := (tok, aw_now W, expires_in) # aw_issued W\<rparr>))
           | Inl e \<Rightarrow> Some (goes c (Mint_Failed e) (W\<lparr>aw_cache := note_throttle (aw_now W) e (aw_cache W)\<rparr>)))
      | Mint_Failed e \<Rightarrow>
          (case ride_or_fail (aw_now W) e (aw_cache W) of (r, C) \<Rightarrow> Some (gives c r (W\<lparr>aw_cache := C\<rparr>)))
      | Returned _ \<Rightarrow> None
      | Dropped \<Rightarrow> None)"

text \<open>A future dropped at an await gives up its guard, or its place in the queue.\<close>

definition drop_caller :: "'c \<Rightarrow> 'c auth_world \<Rightarrow> 'c auth_world" where
  "drop_caller c W = (goes c Dropped W)\<lparr>aw_lock := (if aw_lock W = Some c then None else aw_lock W)\<rparr>"

inductive auth_step :: "'c auth_world \<Rightarrow> 'c auth_world \<Rightarrow> bool" where
  tick: "aw_now W \<le> t \<Longrightarrow> auth_step W (W\<lparr>aw_now := t\<rparr>)"
| move: "advance gate mint c W = Some W' \<Longrightarrow> auth_step W W'"
| cancel: "aw_at W c \<in> {Queued, Minting} \<Longrightarrow> auth_step W (drop_caller c W)"

definition fresh_world :: "instant \<Rightarrow> 'c auth_world" where
  "fresh_world t = \<lparr>aw_now = t, aw_cache = empty_cache, aw_lock = None, aw_at = (\<lambda>_. Arriving), aw_issued = []\<rparr>"

definition reachable_auth :: "'c auth_world \<Rightarrow> bool" where
  "reachable_auth W \<longleftrightarrow> (\<exists>t. auth_step\<^sup>*\<^sup>* (fresh_world t) W)"

subsection \<open>Invariants\<close>

definition lock_inv :: "'c auth_world \<Rightarrow> bool" where
  "lock_inv W \<longleftrightarrow> (\<forall>c. holds_lock (aw_at W c) \<longleftrightarrow> aw_lock W = Some c)"

text \<open>The deadlines of a cached token are those of a token Alpaca issued.\<close>

definition token_inv :: "(string \<times> instant \<times> nat) list \<Rightarrow> cached_token \<Rightarrow> bool" where
  "token_inv issued tok \<longleftrightarrow> ct_refresh_after tok \<le> ct_hard_expiry tok
     \<and> (\<exists>t0 e. (ct_access_token tok, t0, e) \<in> set issued
          \<and> ct_hard_expiry tok = t0 + (lifetime_of e - TOKEN_HARD_MARGIN))"

definition cache_inv :: "instant \<Rightarrow> (string \<times> instant \<times> nat) list \<Rightarrow> token_cache \<Rightarrow> bool" where
  "cache_inv now issued C \<longleftrightarrow>
     pred_option (token_inv issued) (kj_cached C)
     \<and> pred_option (\<lambda>(started, d). started \<le> now \<and> from_secs 15 \<le> d \<and> d \<le> from_secs 300) (kj_mint_not_before C)"

definition auth_inv :: "'c auth_world \<Rightarrow> bool" where
  "auth_inv W \<longleftrightarrow> lock_inv W \<and> cache_inv (aw_now W) (aw_issued W) (aw_cache W)"

lemma lock_inv_goes: "lock_inv W \<Longrightarrow> holds_lock p = holds_lock (aw_at W c) \<Longrightarrow> lock_inv (goes c p W)"
  by (auto simp: lock_inv_def goes_def)

lemma lock_inv_gives: "lock_inv W \<Longrightarrow> lock_inv (gives c r W)"
  by (auto simp: lock_inv_def goes_def gives_def)

lemma lock_inv_take: "lock_inv W \<Longrightarrow> aw_lock W = None \<Longrightarrow> lock_inv (goes c Locked (W\<lparr>aw_lock := Some c\<rparr>))"
  by (auto simp: lock_inv_def goes_def)

lemma lock_inv_drop: "lock_inv W \<Longrightarrow> lock_inv (drop_caller c W)"
  by (auto simp: lock_inv_def goes_def drop_caller_def)

lemma lock_inv_cache [simp]: "lock_inv (W\<lparr>aw_cache := C\<rparr>) = lock_inv W" "lock_inv (W\<lparr>aw_issued := i\<rparr>) = lock_inv W"
  by (simp_all add: lock_inv_def)

lemma world_simps [simp]:
  "aw_now (goes c p W) = aw_now W" "aw_cache (goes c p W) = aw_cache W" "aw_issued (goes c p W) = aw_issued W"
  "aw_now (gives c r W) = aw_now W" "aw_cache (gives c r W) = aw_cache W" "aw_issued (gives c r W) = aw_issued W"
  "aw_at (goes c p W) c = p" "aw_at (gives c r W) c = Returned r"
  "aw_now (fresh_or d c p W) = aw_now W" "aw_cache (fresh_or d c p W) = aw_cache W" "aw_issued (fresh_or d c p W) = aw_issued W"
  by (simp_all add: goes_def gives_def fresh_or_def split: option.split)

lemma lock_inv_fresh: "lock_inv W \<Longrightarrow> holds_lock p = holds_lock (aw_at W c) \<Longrightarrow> lock_inv (fresh_or d c p W)"
  by (auto simp: fresh_or_def lock_inv_goes lock_inv_gives split: option.split)

lemma advance_lock_inv:
  assumes "advance gate mint c W = Some W'" "lock_inv W"
  shows "lock_inv W'"
  using assms
  by (cases "aw_at W c")
    (auto simp: advance_def intro!: lock_inv_goes lock_inv_gives lock_inv_take lock_inv_fresh
      split: if_splits option.splits sum.splits prod.splits)

lemma keep_token_inv:
  "cache_inv now issued C \<Longrightarrow> cache_inv now ((tok, now, e) # issued) (keep_token now tok e C)"
  by (auto simp: cache_inv_def keep_token_def token_inv_def Let_def option.pred_set)

lemma note_throttle_inv: "cache_inv now issued C \<Longrightarrow> cache_inv now issued (note_throttle now e C)"
  by (simp add: cache_inv_def note_throttle_def clamp_def FAILED_MINT_BACKOFF_def MAX_RETRY_AFTER_HOLD_def from_secs_def)

lemma defer_inv: "cache_inv now issued C \<Longrightarrow> cache_inv now issued (defer_next_refresh now d C)"
  by (auto simp: cache_inv_def defer_next_refresh_def token_inv_def option.pred_set)

lemma ride_inv: "ride_or_fail now e C = (r, C') \<Longrightarrow> cache_inv now issued C \<Longrightarrow> cache_inv now issued C'"
  by (auto simp: ride_or_fail_def defer_inv split: option.splits)

lemma advance_cache_inv:
  assumes "advance gate mint c W = Some W'" "cache_inv (aw_now W) (aw_issued W) (aw_cache W)"
  shows "cache_inv (aw_now W') (aw_issued W') (aw_cache W')"
  using assms
  by (cases "aw_at W c")
    (auto simp: advance_def keep_token_inv note_throttle_inv dest: ride_inv
      split: if_splits option.splits sum.splits prod.splits)

lemma auth_step_inv:
  assumes "auth_step W W'" "auth_inv W"
  shows "auth_inv W'"
  using assms
proof cases
  case (tick t)
  with assms(2) show ?thesis
    by (auto simp: auth_inv_def lock_inv_def cache_inv_def option.pred_set)
next
  case (move gate mint c)
  with assms(2) show ?thesis by (auto simp: auth_inv_def dest: advance_lock_inv advance_cache_inv)
next
  case (cancel c)
  with assms(2) lock_inv_drop [of W c] show ?thesis by (auto simp: auth_inv_def drop_caller_def)
qed

lemma reachable_auth_inv: "reachable_auth W \<Longrightarrow> auth_inv W"
proof -
  assume "reachable_auth W"
  then obtain t where "auth_step\<^sup>*\<^sup>* (fresh_world t) W" unfolding reachable_auth_def by blast
  then show ?thesis
  proof (induction rule: rtranclp_induct)
    case base
    show ?case by (simp add: auth_inv_def lock_inv_def cache_inv_def fresh_world_def empty_cache_def)
  qed (rule auth_step_inv)
qed

subsection \<open>Progress\<close>

text \<open>How many moves a caller has left at most.\<close>

fun moves_left :: "caller \<Rightarrow> nat" where
  "moves_left Arriving = 9"
| "moves_left Trying = 8"
| "moves_left Contended = 7"
| "moves_left Queued = 6"
| "moves_left Locked = 5"
| "moves_left Checking = 4"
| "moves_left Opening = 3"
| "moves_left Minting = 2"
| "moves_left (Held _) = 1"
| "moves_left (Mint_Failed _) = 1"
| "moves_left (Returned _) = 0"
| "moves_left Dropped = 0"

lemma fresh_or_moves: "moves_left p < n \<Longrightarrow> moves_left (aw_at (fresh_or d c p W) c) < n"
  by (simp add: fresh_or_def split: option.split)

lemma advance_moves_left: "advance gate mint c W = Some W' \<Longrightarrow> moves_left (aw_at W' c) < moves_left (aw_at W c)"
  by (cases "aw_at W c")
    (auto simp: advance_def intro!: fresh_or_moves split: if_splits option.splits sum.splits prod.splits)

lemma advance_blocked:
  "advance gate mint c W = None \<longleftrightarrow>
     moves_left (aw_at W c) = 0 \<or> (aw_at W c = Queued \<and> aw_lock W \<noteq> None)"
  by (cases "aw_at W c")
    (auto simp: advance_def split: if_splits option.splits sum.splits prod.splits)

lemma holder_moves: "holds_lock p \<Longrightarrow> 0 < moves_left p \<and> p \<noteq> Queued"
  by (cases p) auto

subsection \<open>The throttle's hold\<close>

definition hold_inv :: "'c auth_world \<Rightarrow> bool" where
  "hold_inv W \<longleftrightarrow> (\<forall>c. aw_at W c = Opening \<or> aw_at W c = Minting \<longrightarrow> mint_wait (aw_now W) (aw_cache W) = None)"

lemma mint_wait_later: "mint_wait now C = None \<Longrightarrow> now \<le> t \<Longrightarrow> mint_wait t C = None"
  by (auto simp: mint_wait_def Let_def split: option.splits if_splits)

text \<open>Only the caller in the mint changes the hold, and it leaves the mint by that.\<close>

lemma advance_others: "advance gate mint c W = Some W' \<Longrightarrow> c' \<noteq> c \<Longrightarrow> aw_at W' c' = aw_at W c'"
  by (cases "aw_at W c")
    (auto simp: advance_def goes_def gives_def fresh_or_def split: if_splits option.splits sum.splits prod.splits)

lemma advance_wait:
  assumes "advance gate mint c W = Some W'"
  shows "aw_now W' = aw_now W"
    and "aw_at W c \<noteq> Minting \<Longrightarrow> mint_wait (aw_now W') (aw_cache W') = mint_wait (aw_now W) (aw_cache W)"
  using assms
  by (cases "aw_at W c"; auto simp: advance_def mint_wait_def ride_or_fail_def defer_next_refresh_def
      split: if_splits option.splits sum.splits prod.splits)+

lemma advance_into:
  assumes "advance gate mint c W = Some W'"
  shows "aw_at W' c = Minting \<Longrightarrow> aw_at W c = Opening"
    and "aw_at W' c = Opening \<Longrightarrow> aw_at W c \<noteq> Minting \<and> mint_wait (aw_now W) (aw_cache W) = None"
  using assms
  by (cases "aw_at W c"; auto simp: advance_def goes_def gives_def fresh_or_def
      split: if_splits option.splits sum.splits prod.splits)+

lemma advance_hold_inv:
  assumes "advance gate mint c W = Some W'" "hold_inv W" "lock_inv W"
  shows "hold_inv W'"
  unfolding hold_inv_def
proof (intro allI impI)
  fix c'
  assume at: "aw_at W' c' = Opening \<or> aw_at W' c' = Minting"
  have not_minting: "aw_at W c \<noteq> Minting \<and> mint_wait (aw_now W) (aw_cache W) = None"
  proof (cases "c' = c")
    case True
    with at advance_into [OF assms(1)] assms(2) show ?thesis unfolding hold_inv_def by auto
  next
    case False
    with at advance_others [OF assms(1)] have o: "aw_at W c' = Opening \<or> aw_at W c' = Minting" by auto
    then have "holds_lock (aw_at W c')" by auto
    with assms(3) False have "\<not> holds_lock (aw_at W c)" unfolding lock_inv_def by auto
    with o assms(2) show ?thesis unfolding hold_inv_def by auto
  qed
  with advance_wait [OF assms(1)] show "mint_wait (aw_now W') (aw_cache W') = None" by simp
qed

lemma reachable_hold_inv: "reachable_auth W \<Longrightarrow> hold_inv W"
proof -
  assume "reachable_auth W"
  then obtain t where "auth_step\<^sup>*\<^sup>* (fresh_world t) W" unfolding reachable_auth_def by blast
  then have "hold_inv W \<and> auth_inv W"
  proof (induction rule: rtranclp_induct)
    case base
    show ?case by (simp add: auth_inv_def lock_inv_def cache_inv_def hold_inv_def fresh_world_def empty_cache_def)
  next
    case (step V W)
    from step(2) have "hold_inv W"
    proof cases
      case (tick t)
      with step(3) show ?thesis by (auto simp: hold_inv_def intro: mint_wait_later)
    next
      case (move gate mint c)
      with step(3) show ?thesis by (auto simp: auth_inv_def intro: advance_hold_inv)
    next
      case (cancel c)
      with step(3) show ?thesis by (auto simp: hold_inv_def drop_caller_def goes_def)
    qed
    with step auth_step_inv show ?case by blast
  qed
  then show ?thesis by blast
qed

text \<open>A caller on its own.\<close>

fun run_caller ::
  "nat \<Rightarrow> gate_closed + unit \<Rightarrow> kms_jwt_error + string \<times> nat \<Rightarrow> 'c \<Rightarrow> 'c auth_world \<Rightarrow> 'c auth_world" where
  "run_caller 0 gate mint c W = W"
| "run_caller (Suc n) gate mint c W =
     (case advance gate mint c W of None \<Rightarrow> W | Some W' \<Rightarrow> run_caller n gate mint c W')"

lemma cached_returns:
  assumes "cached_before now d C = Some tok" "pred_option (token_inv issued) (kj_cached C)" "d \<in> {ct_refresh_after, ct_hard_expiry}"
  shows "\<exists>t0 e. (tok, t0, e) \<in> set issued \<and> now < t0 + (lifetime_of e - TOKEN_HARD_MARGIN)"
  using assms by (auto simp: cached_before_def token_inv_def option.pred_set split: option.splits if_splits) force+

text \<open>Where a returned token comes from.\<close>

lemma advance_returned:
  assumes "advance gate mint c W = Some W'" "aw_at W' c = Returned (Inr tok)"
  shows "(\<exists>d\<in>{ct_refresh_after, ct_hard_expiry}. cached_before (aw_now W) d (aw_cache W) = Some tok) \<and> aw_issued W' = aw_issued W
    \<or> (\<exists>e. aw_issued W' = (tok, aw_now W, e) # aw_issued W)"
  using assms
  by (cases "aw_at W c")
    (auto simp: advance_def fresh_or_def serve_in_hold_def ride_or_fail_def
      split: if_splits option.splits sum.splits prod.splits)

text \<open>A lone caller's end, from each of its points on.\<close>

definition ends_with :: "'c \<Rightarrow> (kms_jwt_error + string) \<times> token_cache \<Rightarrow> 'c auth_world \<Rightarrow> bool" where
  "ends_with c rC W \<longleftrightarrow> aw_at W c = Returned (fst rC) \<and> aw_cache W = snd rC \<and> aw_lock W = None"

lemma run_gives:
  assumes "aw_lock W = Some c \<or> aw_lock W = None"
  shows "ends_with c (r, aw_cache W) (run_caller n gate mint c (gives c r W))"
proof -
  have "run_caller n gate mint c (gives c r W) = gives c r W" by (cases n) (simp_all add: advance_def)
  with assms show ?thesis by (auto simp: ends_with_def gives_def)
qed

lemma run_advance:
  "advance gate mint c W = Some W' \<Longrightarrow> run_caller (Suc n) gate mint c W = run_caller n gate mint c W'"
  by simp

declare run_caller.simps(2) [simp del]

lemma goes_simps [simp]: "aw_lock (goes c p W) = aw_lock W"
  by (simp add: goes_def)

lemma run_failed:
  assumes "aw_at W c = Mint_Failed e" "aw_lock W = Some c"
  shows "ends_with c (ride_or_fail (aw_now W) e (aw_cache W)) (run_caller (Suc n) gate mint c W)"
proof -
  obtain r C where rC: "ride_or_fail (aw_now W) e (aw_cache W) = (r, C)" by (rule prod.exhaust)
  then have "advance gate mint c W = Some (gives c r (W\<lparr>aw_cache := C\<rparr>))" using assms(1) by (simp add: advance_def)
  from run_advance [OF this] run_gives [of "W\<lparr>aw_cache := C\<rparr>" c r n gate mint] assms(2) rC show ?thesis by simp
qed

lemma run_opening:
  assumes "aw_at W c = Opening" "aw_lock W = Some c"
  shows "ends_with c
    (case gate of
       Inl g \<Rightarrow> (Inl (Kms_NotSent g), aw_cache W)
     | Inr _ \<Rightarrow>
         (case mint of
            Inr (tok, e) \<Rightarrow> (Inr tok, keep_token (aw_now W) tok e (aw_cache W))
          | Inl e \<Rightarrow> ride_or_fail (aw_now W) e (note_throttle (aw_now W) e (aw_cache W))))
    (run_caller (Suc (Suc (Suc n))) gate mint c W)"
proof (cases gate)
  case (Inl g)
  with assms(1) have "advance gate mint c W = Some (gives c (Inl (Kms_NotSent g)) W)" by (simp add: advance_def)
  from run_advance [OF this] run_gives [of W c] assms(2) Inl show ?thesis by simp
next
  case (Inr u)
  with assms(1) have a: "advance gate mint c W = Some (goes c Minting W)" by (simp add: advance_def)
  show ?thesis
  proof (cases mint)
    case m: (Inl e)
    let ?V = "goes c (Mint_Failed e) ((goes c Minting W)\<lparr>aw_cache := note_throttle (aw_now W) e (aw_cache W)\<rparr>)"
    have "advance gate mint c (goes c Minting W) = Some ?V" using m by (simp add: advance_def)
    from run_advance [OF a] run_advance [OF this] run_failed [of ?V c e n gate mint] assms(2) Inr m show ?thesis by simp
  next
    case m: (Inr te)
    obtain tok e where te: "te = (tok, e)" by (rule prod.exhaust)
    let ?V = "(goes c Minting W)\<lparr>aw_cache := keep_token (aw_now W) tok e (aw_cache W),
        aw_issued := (tok, aw_now W, e) # aw_issued W\<rparr>"
    have "advance gate mint c (goes c Minting W) = Some (gives c (Inr tok) ?V)" using m te by (simp add: advance_def)
    from run_advance [OF a] run_advance [OF this] run_gives [of ?V c "Inr tok" "Suc n" gate mint] assms(2) Inr m te show ?thesis by simp
  qed
qed

lemma run_checking:
  assumes "aw_at W c = Checking" "aw_lock W = Some c" "cached_before (aw_now W) ct_refresh_after (aw_cache W) = None"
  shows "ends_with c (access_token (aw_now W) gate mint (aw_cache W)) (run_caller (Suc (Suc (Suc (Suc n)))) gate mint c W)"
proof (cases "mint_wait (aw_now W) (aw_cache W)")
  case None
  with assms(1) have a: "advance gate mint c W = Some (goes c Opening W)" by (simp add: advance_def)
  from run_opening [of "goes c Opening W" c mint gate n, unfolded world_simps] assms(2,3) None show ?thesis
    by (simp add: run_advance [OF a] access_token_def)
next
  case (Some wait)
  with assms(1) have a: "advance gate mint c W = Some (goes c (Held wait) W)" by (simp add: advance_def)
  have "advance gate mint c (goes c (Held wait) W) =
      Some (gives c (serve_in_hold (aw_now W) wait (aw_cache W)) (goes c (Held wait) W))"
    by (simp add: advance_def)
  from run_advance [OF this] run_gives [of "goes c (Held wait) W" c] assms(2,3) Some show ?thesis
    by (simp add: run_advance [OF a] access_token_def)
qed

subsection \<open>Properties\<close>

text \<open>
  C21: in every state that concurrent callers can reach, however their moves, the clock and dropped
  futures interleave, at most one caller is past the mint lock; the cached token is refreshed no later
  than it expires, and both deadlines lie within the lifetime of a token Alpaca issued, less ten
  seconds; and a throttle's hold is between fifteen seconds and five minutes.
\<close>

theorem token_cache_is_sound:
  assumes "reachable_auth W"
  shows "(holds_lock (aw_at W a) \<and> holds_lock (aw_at W b) \<longrightarrow> a = b)
    \<and> (case kj_cached (aw_cache W) of
         None \<Rightarrow> True
       | Some tok \<Rightarrow> ct_refresh_after tok \<le> ct_hard_expiry tok
           \<and> (\<exists>t0 e. (ct_access_token tok, t0, e) \<in> set (aw_issued W)
                \<and> ct_hard_expiry tok = t0 + (min (from_secs e) (from_secs 3600) - from_secs 10)))
    \<and> (case kj_mint_not_before (aw_cache W) of
         None \<Rightarrow> True
       | Some (t, d) \<Rightarrow> from_secs 15 \<le> d \<and> d \<le> from_secs 300)"
proof -
  from reachable_auth_inv [OF assms] have "lock_inv W" "cache_inv (aw_now W) (aw_issued W) (aw_cache W)"
    by (auto simp: auth_inv_def)
  then show ?thesis
    by (auto simp: lock_inv_def cache_inv_def token_inv_def lifetime_of_def TOKEN_MAX_LIFETIME_def TOKEN_HARD_MARGIN_def
        split: option.splits)
qed

text \<open>
  No caller is given a token past its use. A token that a move returns was issued by Alpaca, just
  now or with more than ten seconds of its lifetime, as far as the cache believes it, still ahead.
\<close>

theorem returned_token_is_usable:
  assumes "reachable_auth W" and "advance gate mint c W = Some W'" and "aw_at W' c = Returned (Inr tok)"
  shows "\<exists>t0 e. (tok, t0, e) \<in> set (aw_issued W')
    \<and> (t0 = aw_now W' \<or> aw_now W' < t0 + (min (from_secs e) (from_secs 3600) - from_secs 10))"
proof -
  from reachable_auth_inv [OF assms(1)] have inv: "pred_option (token_inv (aw_issued W)) (kj_cached (aw_cache W))"
    by (simp add: auth_inv_def cache_inv_def)
  from advance_returned [OF assms(2,3)] show ?thesis
  proof
    assume "(\<exists>d\<in>{ct_refresh_after, ct_hard_expiry}. cached_before (aw_now W) d (aw_cache W) = Some tok) \<and> aw_issued W' = aw_issued W"
    then obtain d where "d \<in> {ct_refresh_after, ct_hard_expiry}" "cached_before (aw_now W) d (aw_cache W) = Some tok"
      and issued: "aw_issued W' = aw_issued W" by blast
    from cached_returns [OF this(2) inv this(1)] advance_wait(1) [OF assms(2)] issued show ?thesis
      by (auto simp: lifetime_of_def TOKEN_MAX_LIFETIME_def TOKEN_HARD_MARGIN_def)
  next
    assume "\<exists>e. aw_issued W' = (tok, aw_now W, e) # aw_issued W"
    then have "\<exists>e. (tok, aw_now W', e) \<in> set (aw_issued W')" using advance_wait(1) [OF assms(2)] by force
    then show ?thesis by blast
  qed
qed

text \<open>
  No mint starts inside a throttle's hold: after Alpaca or KMS throttled a mint, the next one starts
  at the end of the hold at the earliest, which is at least fifteen seconds later.
\<close>

theorem mints_wait_out_the_throttle:
  assumes "reachable_auth W" and "aw_at W c = Opening"
    and "advance gate mint c W = Some W'" and "aw_at W' c = Minting"
    and "kj_mint_not_before (aw_cache W') = Some (t, d)"
  shows "t + d \<le> aw_now W' \<and> t + from_secs 15 \<le> aw_now W'"
proof -
  have W': "W' = goes c Minting W"
    using assms(2-4) by (auto simp: advance_def split: sum.splits)
  with assms(5) have hold: "kj_mint_not_before (aw_cache W) = Some (t, d)" by simp
  from reachable_hold_inv [OF assms(1)] assms(2) have "mint_wait (aw_now W) (aw_cache W) = None"
    unfolding hold_inv_def by blast
  with hold have "d - (aw_now W - t) = 0" by (simp add: mint_wait_def Let_def split: if_splits)
  moreover from reachable_auth_inv [OF assms(1)] hold have "t \<le> aw_now W" "from_secs 15 \<le> d"
    by (auto simp: auth_inv_def cache_inv_def)
  ultimately show ?thesis using W' by simp
qed



subsection \<open>Witnesses\<close>

text \<open>A caller mints a token of fifteen minutes, at second 100; at second 900 another mint is throttled.\<close>

definition two_callers :: "bool auth_world" where
  "two_callers = run_caller 9 (Inr ()) (Inr (''tok'', 900)) True (fresh_world (from_secs 100))"

definition throttled_mint :: "kms_jwt_error" where
  "throttled_mint = Kms_TokenStatus 429 [] (Some (from_secs 30))"

lemma run_reachable: "reachable_auth W \<Longrightarrow> reachable_auth (run_caller n gate mint c W)"
proof (induction n arbitrary: W)
  case (Suc n)
  show ?case
  proof (cases "advance gate mint c W")
    case (Some W')
    from Suc.prems have "reachable_auth W'"
      unfolding reachable_auth_def using move [OF Some] by (blast intro: rtranclp.rtrancl_into_rtrancl)
    with Suc.IH Some show ?thesis by (simp add: run_caller.simps)
  qed (use Suc.prems in \<open>simp add: run_caller.simps\<close>)
qed simp

lemma fresh_reachable: "reachable_auth (fresh_world t)"
  unfolding reachable_auth_def by blast

lemma tick_reachable: "reachable_auth W \<Longrightarrow> aw_now W \<le> t \<Longrightarrow> reachable_auth (W\<lparr>aw_now := t\<rparr>)"
  unfolding reachable_auth_def using tick by (blast intro: rtranclp.rtrancl_into_rtrancl)

lemma run_numeral:
  "run_caller (numeral k) gate mint c W =
     (case advance gate mint c W of None \<Rightarrow> W | Some W' \<Rightarrow> run_caller (pred_numeral k) gate mint c W')"
  by (simp add: numeral_eq_Suc run_caller.simps)

lemmas auth_eval = run_numeral run_caller.simps advance_def fresh_or_def fresh_world_def empty_cache_def
  cached_before_def mint_wait_def goes_def gives_def

lemma two_callers_at: "aw_now two_callers = from_secs 100" "aw_at two_callers False = Arriving" "aw_lock two_callers = None"
  "aw_cache two_callers = keep_token (from_secs 100) ''tok'' 900 empty_cache"
  by (simp_all add: two_callers_def auth_eval)

lemma two_callers_reachable: "reachable_auth two_callers"
  by (simp add: two_callers_def run_reachable fresh_reachable)

text \<open>After a throttled mint at second 100, a caller at second 140 is about to mint.\<close>

definition after_throttle :: "bool auth_world" where
  "after_throttle = run_caller 4 (Inr ()) (Inl throttled_mint) False
     ((run_caller 9 (Inr ()) (Inl throttled_mint) True (fresh_world (from_secs 100)))\<lparr>aw_now := from_secs 140\<rparr>)"

lemma throttled_run:
  fixes W defines "W \<equiv> run_caller 9 (Inr ()) (Inl throttled_mint) True (fresh_world (from_secs 100))"
  shows "aw_now W = from_secs 100" "aw_at W False = Arriving" "aw_lock W = None"
    "kj_cached (aw_cache W) = None" "kj_mint_not_before (aw_cache W) = Some (from_secs 100, from_secs 30)"
  unfolding W_def
  by (simp_all add: auth_eval note_throttle_def ride_or_fail_def throttled_mint_def clamp_def unwrap_or_def FAILED_MINT_BACKOFF_def
      MAX_RETRY_AFTER_HOLD_def from_secs_def nanos_per_sec_def)

lemma after_throttle_reachable: "reachable_auth after_throttle"
  unfolding after_throttle_def
proof (intro run_reachable tick_reachable fresh_reachable)
  show "aw_now (run_caller 9 (Inr ()) (Inl throttled_mint) True (fresh_world (from_secs 100))) \<le> from_secs 140"
    unfolding throttled_run(1) by (simp add: from_secs_def)
qed

lemma after_throttle_at: "aw_at after_throttle False = Opening" "aw_now after_throttle = from_secs 140"
  "kj_mint_not_before (aw_cache after_throttle) = Some (from_secs 100, from_secs 30)"
  using throttled_run
  by (simp_all add: after_throttle_def run_numeral run_caller.simps advance_def
      fresh_or_def cached_before_def mint_wait_def goes_def from_secs_def nanos_per_sec_def)

theorem token_cache_is_sound_witness:
  "\<exists>tok. kj_cached (aw_cache two_callers) = Some tok \<and> ct_refresh_after tok \<le> ct_hard_expiry tok"
  using token_cache_is_sound [OF two_callers_reachable] by (auto simp: two_callers_at keep_token_def Let_def)

theorem returned_token_is_usable_witness:
  "\<exists>W' t0 e. advance (Inr ()) (Inl throttled_mint) False (two_callers\<lparr>aw_now := from_secs 500\<rparr>) = Some W'
     \<and> aw_at W' False = Returned (Inr ''tok'') \<and> (''tok'', t0, e) \<in> set (aw_issued W')"
proof -
  have r: "reachable_auth (two_callers\<lparr>aw_now := from_secs 500\<rparr>)"
    by (rule tick_reachable) (simp_all add: two_callers_at two_callers_reachable from_secs_def)
  have "\<exists>W'. advance (Inr ()) (Inl throttled_mint) False (two_callers\<lparr>aw_now := from_secs 500\<rparr>) = Some W'
      \<and> aw_at W' False = Returned (Inr ''tok'')"
    by (simp add: advance_def two_callers_at fresh_or_def cached_before_def keep_token_def lifetime_of_def Let_def
        TOKEN_MAX_LIFETIME_def TOKEN_HARD_MARGIN_def TOKEN_REFRESH_MARGIN_def from_secs_def nanos_per_sec_def)
  then obtain W' where "advance (Inr ()) (Inl throttled_mint) False (two_callers\<lparr>aw_now := from_secs 500\<rparr>) = Some W'"
    "aw_at W' False = Returned (Inr ''tok'')" by blast
  with returned_token_is_usable [OF r this] show ?thesis by blast
qed

theorem mints_wait_out_the_throttle_witness:
  "\<exists>W'. advance (Inr ()) (Inl throttled_mint) False after_throttle = Some W' \<and> aw_at W' False = Minting
     \<and> from_secs 100 + from_secs 30 \<le> aw_now W'"
proof -
  have "advance (Inr ()) (Inl throttled_mint) False after_throttle = Some (goes False Minting after_throttle)"
    by (simp add: advance_def after_throttle_at)
  with mints_wait_out_the_throttle [OF after_throttle_reachable after_throttle_at(1) this, of "from_secs 100" "from_secs 30"] after_throttle_at
  show ?thesis by simp
qed



end
