(* ===== verification/Broker_Api.thy ===== *)
theory Broker_Api
  imports Conversions Wire
begin

text \<open>
  The broker facade \<open>AlpacaBrokerApi\<close> (\<^verbatim>\<open>src/broker/api.rs\<close>) over the client, the orders and the
  conversions. Its asset cache, shared by the clones, is the first half of the state \<open>(cache, s)\<close> of
  its calls; \<open>s\<close> is the state of the client's. The parameter \<open>io\<close> holds serde on the account, asset and
  journal answers, \<open>urlencoding::encode\<close>, \<open>Uuid::parse_str\<close> and the clock behind \<open>Instant::now()\<close>.
\<close>

subsection \<open>Assets\<close>

definition asset_attribute :: "asset_response \<Rightarrow> string \<Rightarrow> bool option" where
  "asset_attribute r attr = map_option (list_ex (\<lambda>a. a = attr)) (as_attributes r)"

record cached_asset =
  ca_status :: asset_status
  ca_tradable :: bool
  ca_fractionable :: "bool option"
  ca_fractional_eh_enabled :: "bool option"
  ca_overnight_tradable :: "bool option"
  ca_overnight_halted :: "bool option"
  ca_cached_at :: instant

definition cached_from_response :: "asset_response \<Rightarrow> instant \<Rightarrow> cached_asset" where
  "cached_from_response r now = \<lparr>
     ca_status = as_status r, ca_tradable = as_tradable r, ca_fractionable = as_fractionable r,
     ca_fractional_eh_enabled = asset_attribute r ''fractional_eh_enabled'',
     ca_overnight_tradable = asset_attribute r ''overnight_tradable'',
     ca_overnight_halted = asset_attribute r ''overnight_halted'',
     ca_cached_at = now\<rparr>"

definition is_expired :: "cached_asset \<Rightarrow> duration \<Rightarrow> instant \<Rightarrow> bool" where
  "is_expired c ttl now \<longleftrightarrow> ttl < now - ca_cached_at c"

record 'f prepared_shares =
  ps_shares :: "'f option"
  ps_fractional_orders_supported :: bool
  ps_quantity_decimals :: nat

record asset_details =
  ad_status :: asset_status
  ad_tradable :: bool
  ad_fractionable :: "bool option"
  ad_fractional_eh_enabled :: "bool option"
  ad_overnight_tradable :: "bool option"
  ad_overnight_halted :: "bool option"

subsection \<open>The facade\<close>

record ('w, 'f) api_io =
  io_parse_account :: "bytes \<Rightarrow> string + account_response"
  io_parse_asset :: "bytes \<Rightarrow> string + asset_response"
  io_parse_journal :: "bytes \<Rightarrow> string + 'f journal_response"
  io_encode :: "string \<Rightarrow> string"
  io_parse_uuid :: uuid_parser
  io_instant :: "'w \<Rightarrow> instant"

text \<open>The facade's own part of \<open>AlpacaBrokerApiCtx\<close>.\<close>

record api_ctx = broker_ctx +
  ac_asset_cache_ttl :: duration
  ac_time_in_force :: time_in_force

record broker_api =
  ba_client :: broker_client
  ba_asset_cache_ttl :: duration
  ba_time_in_force :: time_in_force
  ba_account_number :: "string option"
  ba_conversion_backpressure :: backpressure_policy

type_synonym asset_cache = "symbol \<rightharpoonup> cached_asset"

type_synonym ('env, 'w, 'f) api_state = "asset_cache \<times> ('env, 'w, 'f) broker_state"

type_synonym ('env, 'w, 'f, 'e, 'a) api_call =
  "('env, 'w, 'f) api_state \<Rightarrow> ('e + 'a) \<times> ('env, 'w, 'f) api_state"

text \<open>A call on \<open>self.client\<close>: it leaves the cache alone.\<close>

definition on_client :: "('s \<Rightarrow> 'r \<times> 's) \<Rightarrow> 'c \<times> 's \<Rightarrow> 'r \<times> ('c \<times> 's)" where
  "on_client m cs = (case cs of (c, s) \<Rightarrow> (case m s of (r, s') \<Rightarrow> (r, (c, s'))))"

text \<open>\<open>A\<close> is the client's outside once it authorizes with the runtime built from the credentials.\<close>

definition try_from_ctx ::
  "('rt \<Rightarrow> ('env, 'w, 'f) alpaca) \<Rightarrow> ('w, 'f) api_io \<Rightarrow> (alpaca_auth \<Rightarrow> kms_jwt_error + 'rt)
   \<Rightarrow> url_parser \<Rightarrow> ip_parser \<Rightarrow> api_ctx
   \<Rightarrow> ('env, 'w, 'f, 'f broker_error, broker_api \<times> asset_cache) broker_call" where
  "try_from_ctx A io build parse_url parse_ip ctx =
     then_call (return_call (new_broker_client build parse_url parse_ip (broker_ctx.truncate ctx))) (\<lambda>(auth, cl).
     then_call (verify_account (A auth) (io_parse_account io) cl) (\<lambda>account.
     return_call (if ar_status account \<noteq> AccountActive
       then Inl (AccountNotActive (ar_id account) (ar_status account))
       else Inr (\<lparr>ba_client = cl, ba_asset_cache_ttl = ac_asset_cache_ttl ctx,
         ba_time_in_force = ac_time_in_force ctx, ba_account_number = ar_account_number account,
         ba_conversion_backpressure = RetryInPlace\<rparr>, Map.empty))))"

definition api_with_backpressure_policy :: "broker_api \<Rightarrow> backpressure_policy \<Rightarrow> broker_api" where
  "api_with_backpressure_policy api policy = api\<lparr>ba_conversion_backpressure := policy\<rparr>"

definition get_asset_cached ::
  "('env, 'w, 'f) alpaca \<Rightarrow> ('w, 'f) api_io \<Rightarrow> broker_api \<Rightarrow> symbol
   \<Rightarrow> ('env, 'w, 'f, 'f broker_error, cached_asset) api_call" where
  "get_asset_cached A io api symb cs =
     (case cs of (cache, (n, w)) \<Rightarrow>
        let hit = (case cache symb of
              None \<Rightarrow> None
            | Some c \<Rightarrow> if is_expired c (ba_asset_cache_ttl api) (io_instant io w) then None else Some c)
        in (case hit of
              Some c \<Rightarrow> (Inr c, cs)
            | None \<Rightarrow>
                (case get_asset A (io_parse_asset io) (io_encode io) (ba_client api) symb (n, w) of
                   (Inl e, s') \<Rightarrow> (Inl e, (cache, s'))
                 | (Inr r, (n', w')) \<Rightarrow>
                     let c = cached_from_response r (io_instant io w')
                     in (Inr c, (cache(symb \<mapsto> c), (n', w'))))))"

definition validate_asset :: "symbol \<Rightarrow> cached_asset \<Rightarrow> 'f broker_error + unit" where
  "validate_asset symb asset =
     (if ca_status asset \<noteq> AssetActive then Inl (AssetNotActive symb (ca_status asset))
      else if \<not> ca_tradable asset then Inl (AssetNotTradable symb)
      else Inr ())"

definition get_asset_details ::
  "('env, 'w, 'f) alpaca \<Rightarrow> ('w, 'f) api_io \<Rightarrow> broker_api \<Rightarrow> symbol
   \<Rightarrow> ('env, 'w, 'f, 'f broker_error, asset_details) api_call" where
  "get_asset_details A io api symb =
     then_call (get_asset_cached A io api symb) (\<lambda>asset. return_call (Inr \<lparr>
       ad_status = ca_status asset, ad_tradable = ca_tradable asset, ad_fractionable = ca_fractionable asset,
       ad_fractional_eh_enabled = ca_fractional_eh_enabled asset,
       ad_overnight_tradable = ca_overnight_tradable asset,
       ad_overnight_halted = ca_overnight_halted asset\<rparr>))"

subsection \<open>Sizing\<close>

definition fractional_orders_supported :: "cached_asset \<Rightarrow> bool \<Rightarrow> bool" where
  "fractional_orders_supported asset extended_hours \<longleftrightarrow>
     ca_fractionable asset = Some True
     \<and> (\<not> extended_hours \<or> ca_fractional_eh_enabled asset = Some True)"

definition quantity_decimals :: "cached_asset \<Rightarrow> bool \<Rightarrow> nat" where
  "quantity_decimals asset extended_hours =
     (if fractional_orders_supported asset extended_hours then ALPACA_MAX_DECIMAL_PLACES else 0)"

definition prepare_counter_trade_shares ::
  "'f decimals \<Rightarrow> ('env, 'w, 'f) alpaca \<Rightarrow> ('w, 'f) api_io \<Rightarrow> broker_api \<Rightarrow> symbol \<Rightarrow> 'f \<Rightarrow> bool
   \<Rightarrow> ('env, 'w, 'f, 'f broker_error, 'f prepared_shares) api_call" where
  "prepare_counter_trade_shares F A io api symb shares extended_hours =
     then_call (get_asset_cached A io api symb) (\<lambda>asset. return_call (
       and_then (validate_asset symb asset) (\<lambda>_.
         let supported = fractional_orders_supported asset extended_hours;
             decimals = quantity_decimals asset extended_hours
         in and_then (map_err FloatConversion (truncate_to_decimal_places F shares decimals)) (\<lambda>t.
              case t of
                None \<Rightarrow> Inr \<lparr>ps_shares = None, ps_fractional_orders_supported = supported,
                          ps_quantity_decimals = decimals\<rparr>
              | Some truncated \<Rightarrow>
                  if fl_positive F truncated
                  then Inr \<lparr>ps_shares = Some truncated, ps_fractional_orders_supported = supported,
                         ps_quantity_decimals = decimals\<rparr>
                  else Inl (NotPositive truncated)))))"

definition prepare_order_shares_for_placement ::
  "'f decimals \<Rightarrow> ('env, 'w, 'f) alpaca \<Rightarrow> ('w, 'f) api_io \<Rightarrow> broker_api \<Rightarrow> symbol \<Rightarrow> 'f \<Rightarrow> bool
   \<Rightarrow> ('env, 'w, 'f, 'f broker_error, 'f) api_call" where
  "prepare_order_shares_for_placement F A io api symb requested extended_hours =
     then_call (prepare_counter_trade_shares F A io api symb requested extended_hours) (\<lambda>prepared.
       return_call (ok_or (ps_shares prepared) (BelowPrecision requested 0)))"

subsection \<open>Placement\<close>

record 'f limit_order =
  lim_symbol :: symbol
  lim_shares :: 'f
  lim_direction :: direction
  lim_limit_price :: 'f
  lim_extended_hours :: bool
  lim_client_order_id :: client_order_id

definition place_market_order_reporting ::
  "'f decimals \<Rightarrow> ('env, 'w, 'f) alpaca \<Rightarrow> ('w, 'f) api_io \<Rightarrow> broker_api \<Rightarrow> 'f market_order
   \<Rightarrow> ('env, 'w, 'f, 'f placement_error, 'f order_placement) api_call" where
  "place_market_order_reporting F A io api order =
     then_call (map_err_call unwritten
         (prepare_order_shares_for_placement F A io api (mo_symbol order) (mo_shares order) False)) (\<lambda>shares.
     on_client (place_market_order F A (ba_client api) (order\<lparr>mo_shares := shares\<rparr>) (ba_time_in_force api)))"

definition place_limit_order_reporting ::
  "'f decimals \<Rightarrow> ('env, 'w, 'f) alpaca \<Rightarrow> ('w, 'f) api_io \<Rightarrow> broker_api \<Rightarrow> 'f limit_order
   \<Rightarrow> ('env, 'w, 'f, 'f placement_error, 'f order_placement) api_call" where
  "place_limit_order_reporting F A io api order =
     then_call (map_err_call unwritten
         (prepare_order_shares_for_placement F A io api (lim_symbol order) (lim_shares order)
            (lim_extended_hours order))) (\<lambda>shares.
     then_call (return_call (map_err unwritten (limit_price_try_new F (lim_limit_price order)))) (\<lambda>price.
     on_client (place_limit_order F A (ba_client api) \<lparr>lo_symbol = lim_symbol order, lo_shares = shares,
       lo_direction = lim_direction order, lo_limit_price = price,
       lo_extended_hours = lim_extended_hours order,
       lo_client_order_id = lim_client_order_id order\<rparr>)))"

definition place_alpaca_limit_order_reporting ::
  "'f decimals \<Rightarrow> ('env, 'w, 'f) alpaca \<Rightarrow> ('w, 'f) api_io \<Rightarrow> broker_api \<Rightarrow> 'f alpaca_limit_order
   \<Rightarrow> ('env, 'w, 'f, 'f placement_error, 'f order_placement) api_call" where
  "place_alpaca_limit_order_reporting F A io api order =
     then_call (map_err_call unwritten (get_asset_cached A io api (lo_symbol order))) (\<lambda>asset.
     then_call (return_call (map_err unwritten (validate_asset (lo_symbol order) asset))) (\<lambda>_.
     on_client (place_limit_order F A (ba_client api) order)))"

text \<open>The variants that drop the \<open>written\<close> flag.\<close>

definition api_place_market_order ::
  "'f decimals \<Rightarrow> ('env, 'w, 'f) alpaca \<Rightarrow> ('w, 'f) api_io \<Rightarrow> broker_api \<Rightarrow> 'f market_order
   \<Rightarrow> ('env, 'w, 'f, 'f broker_error, 'f order_placement) api_call" where
  "api_place_market_order F A io api order =
     map_err_call placement_error.error (place_market_order_reporting F A io api order)"

definition api_place_limit_order ::
  "'f decimals \<Rightarrow> ('env, 'w, 'f) alpaca \<Rightarrow> ('w, 'f) api_io \<Rightarrow> broker_api \<Rightarrow> 'f limit_order
   \<Rightarrow> ('env, 'w, 'f, 'f broker_error, 'f order_placement) api_call" where
  "api_place_limit_order F A io api order =
     map_err_call placement_error.error (place_limit_order_reporting F A io api order)"

definition api_place_alpaca_limit_order ::
  "'f decimals \<Rightarrow> ('env, 'w, 'f) alpaca \<Rightarrow> ('w, 'f) api_io \<Rightarrow> broker_api \<Rightarrow> 'f alpaca_limit_order
   \<Rightarrow> ('env, 'w, 'f, 'f broker_error, 'f order_placement) api_call" where
  "api_place_alpaca_limit_order F A io api order =
     map_err_call placement_error.error (place_alpaca_limit_order_reporting F A io api order)"

subsection \<open>Reads and cancellation\<close>

definition order_state_of :: "'f decimals \<Rightarrow> string \<Rightarrow> 'f order_update \<Rightarrow> 'f broker_error + 'f order_state" where
  "order_state_of F order_id u =
     (let i = ExecutorOrderId order_id;
          shares_filled = ok_or (ou_shares_filled u) (IncompleteOrder i FilledQty)
      in case ou_status u of
           Pending \<Rightarrow> Inr (St_Submitted i)
         | Submitted \<Rightarrow> Inr (St_Submitted i)
         | PartiallyFilled \<Rightarrow>
             and_then shares_filled (\<lambda>q. Inr (St_PartiallyFilled i q (ou_price u) (ou_updated_at u)))
         | Filled \<Rightarrow>
             and_then shares_filled (\<lambda>q.
             and_then (if fl_positive F q then Inr q else Inl (NotPositive q)) (\<lambda>q.
             and_then (map_err FloatConversion (fl_eq F q (ou_shares u))) (\<lambda>whole.
             if \<not> whole then Inl (FilledQuantityMismatch i (ou_shares u) q)
             else and_then (ok_or (ou_price u) (IncompleteOrder i Price)) (\<lambda>price.
               Inr (St_Filled (ou_updated_at u) i q price)))))
         | Cancelled \<Rightarrow>
             and_then shares_filled (\<lambda>q. Inr (St_Cancelled (ou_updated_at u) i q (ou_price u)))
         | Failed \<Rightarrow>
             and_then (ok_or (ou_failure_terminality u) (IncompleteOrder i FailureTerminality)) (\<lambda>terminality.
               Inr (St_Failed (ou_updated_at u) None (ou_shares_filled u) (ou_price u) terminality)))"

definition api_get_order_status ::
  "'f decimals \<Rightarrow> ('env, 'w, 'f) alpaca \<Rightarrow> ('w, 'f) api_io \<Rightarrow> broker_api \<Rightarrow> utc \<Rightarrow> string
   \<Rightarrow> ('env, 'w, 'f, 'f broker_error, 'f order_state) api_call" where
  "api_get_order_status F A io api observed order_id =
     on_client (then_call (get_order_status (io_parse_uuid io) A (ba_client api) observed order_id) (\<lambda>u.
       return_call (order_state_of F order_id u)))"

record 'f recovered_order_placement =
  rp_order_id :: string
  rp_symbol :: symbol
  rp_shares :: 'f
  rp_direction :: direction
  rp_placed_at :: utc
  rp_extended_hours :: "bool option"
  rp_limit_price :: "'f option"

definition api_get_order_by_client_order_id ::
  "'f decimals \<Rightarrow> ('env, 'w, 'f) alpaca \<Rightarrow> broker_api \<Rightarrow> client_order_id
   \<Rightarrow> ('env, 'w, 'f, 'f broker_error, 'f recovered_order_placement option) api_call" where
  "api_get_order_by_client_order_id F A api k =
     on_client (then_call (get_order_by_client_order_id A (ba_client api) k) (\<lambda>found. return_call (
       case found of
         None \<Rightarrow> Inr None
       | Some x \<Rightarrow>
           and_then (ok_or (or_else (or_created_at x) (or_submitted_at x))
               (IncompleteOrder (ExecutorOrderId (or_id x)) PlacedAt)) (\<lambda>placed_at.
           and_then (parse_limit_price F (or_limit_price x)) (\<lambda>price.
           Inr (Some \<lparr>rp_order_id = or_id x, rp_symbol = or_symbol x, rp_shares = or_quantity x,
             rp_direction = direction_of (or_side x), rp_placed_at = placed_at,
             rp_extended_hours = or_extended_hours x, rp_limit_price = price\<rparr>))))))"

definition api_recover_order_by_client_id ::
  "'f decimals \<Rightarrow> ('env, 'w, 'f) alpaca \<Rightarrow> broker_api \<Rightarrow> 'f market_order
   \<Rightarrow> ('env, 'w, 'f, 'f broker_error, 'f order_placement option) api_call" where
  "api_recover_order_by_client_id F A api order =
     on_client (recover_order_by_client_id F A (ba_client api) order)"

definition parse_order_id :: "('w, 'f) api_io \<Rightarrow> string \<Rightarrow> 'f broker_error + string" where
  "parse_order_id io v = and_then (map_err InvalidOrderId (io_parse_uuid io v)) (\<lambda>_. Inr v)"

definition api_cancel_order ::
  "('env, 'w, 'f) alpaca \<Rightarrow> ('w, 'f) api_io \<Rightarrow> broker_api \<Rightarrow> string
   \<Rightarrow> ('env, 'w, 'f, 'f broker_error, cancellation_outcome) api_call" where
  "api_cancel_order A io api order_id =
     then_call (return_call (map_err InvalidOrderId (io_parse_uuid io order_id))) (\<lambda>u.
     on_client (cancel_order A (ba_client api) u))"

subsection \<open>Conversions and journals\<close>

definition submit_conversion ::
  "'f decimals \<Rightarrow> ('env, 'w, 'f) alpaca \<Rightarrow> broker_api \<Rightarrow> 'f conversion_order \<Rightarrow> client_order_id
   \<Rightarrow> ('env, 'w, 'f, 'f broker_error, 'f crypto_order) api_call" where
  "submit_conversion F A api c k = on_client (convert_usdc_usd F A (ba_client api) c k)"

definition get_conversion_order ::
  "('env, 'w, 'f) alpaca \<Rightarrow> broker_api \<Rightarrow> uuid
   \<Rightarrow> ('env, 'w, 'f, 'f broker_error, 'f crypto_order) api_call" where
  "get_conversion_order A api i = on_client (get_crypto_order A (ba_client api) i)"

definition find_conversion_order ::
  "('env, 'w, 'f) alpaca \<Rightarrow> broker_api \<Rightarrow> client_order_id
   \<Rightarrow> ('env, 'w, 'f, 'f broker_error, 'f crypto_order option) api_call" where
  "find_conversion_order A api k = on_client (get_crypto_order_by_client_order_id A (ba_client api) k)"

definition api_orders ::
  "'f decimals \<Rightarrow> ('env, 'w, 'f) alpaca \<Rightarrow> ('w, 'f) api_io \<Rightarrow> broker_api
   \<Rightarrow> (('env, 'w, 'f) api_state, 'f) conversion_orders" where
  "api_orders F A io api = \<lparr>
     co_submit_conversion = submit_conversion F A api,
     co_get_conversion_order = get_conversion_order A api,
     co_find_conversion_order = find_conversion_order A api,
     co_cancel_order = api_cancel_order A io api\<rparr>"

definition conversion_poll_deadlines_of :: "broker_api \<Rightarrow> conversion_poll_deadlines" where
  "conversion_poll_deadlines_of api = with_backpressure PRODUCTION (ba_conversion_backpressure api)"

definition api_convert_usdc_usd ::
  "'f decimals \<Rightarrow> ('env, 'w, 'f) api_state timer \<Rightarrow> ('env, 'w, 'f) alpaca \<Rightarrow> ('w, 'f) api_io \<Rightarrow> broker_api
   \<Rightarrow> 'f conversion_order \<Rightarrow> client_order_id \<Rightarrow> ('env, 'w, 'f) api_state
   \<Rightarrow> (('f broker_error + 'f crypto_order) \<times> ('env, 'w, 'f) api_state) option" where
  "api_convert_usdc_usd F T A io api c k =
     place_and_poll_conversion F T (api_orders F A io api) c k (conversion_poll_deadlines_of api)"

definition api_poll_conversion_to_terminal ::
  "'f decimals \<Rightarrow> ('env, 'w, 'f) api_state timer \<Rightarrow> ('env, 'w, 'f) alpaca \<Rightarrow> ('w, 'f) api_io \<Rightarrow> broker_api
   \<Rightarrow> uuid \<Rightarrow> ('env, 'w, 'f) api_state
   \<Rightarrow> (('f broker_error + 'f crypto_order) \<times> ('env, 'w, 'f) api_state) option" where
  "api_poll_conversion_to_terminal F T A io api i =
     poll_crypto_order_to_terminal T (api_orders F A io api) i (conversion_poll_deadlines_of api)"

definition api_create_journal ::
  "('env, 'w, 'f) alpaca \<Rightarrow> ('w, 'f) api_io \<Rightarrow> broker_api \<Rightarrow> uuid \<Rightarrow> symbol \<Rightarrow> 'f
   \<Rightarrow> ('env, 'w, 'f, 'f broker_error, 'f journal_response) api_call" where
  "api_create_journal A io api destination symb quantity =
     on_client (create_journal A (io_parse_journal io) (ba_client api) destination symb quantity)"

subsection \<open>The asset cache\<close>

lemma on_client_eq: "on_client m (c, s) = (fst (m s), (c, snd (m s)))"
  by (simp add: on_client_def case_prod_beta)

definition asset_url :: "('w, 'f) api_io \<Rightarrow> broker_api \<Rightarrow> symbol \<Rightarrow> string" where
  "asset_url io api symb = cl_base_url (ba_client api) @ ''/v1/assets/'' @ io_encode io symb"

text \<open>Alpaca answered a read of the symbol's asset with \<open>r\<close>, at some moment.\<close>

definition asset_answered ::
  "('env, 'w, 'f) alpaca \<Rightarrow> ('w, 'f) api_io \<Rightarrow> broker_api \<Rightarrow> symbol \<Rightarrow> asset_response \<Rightarrow> bool" where
  "asset_answered A io api symb r \<longleftrightarrow>
     (\<exists>req w a bs. br_method req = M_Get \<and> br_url req = asset_url io api symb
        \<and> fst (al_http A req w) = Inr a \<and> is_success (ha_status a) \<and> ha_body a = Inr bs
        \<and> io_parse_asset io bs = Inr r)"

definition faithful_cache ::
  "('env, 'w, 'f) alpaca \<Rightarrow> ('w, 'f) api_io \<Rightarrow> broker_api \<Rightarrow> asset_cache \<Rightarrow> bool" where
  "faithful_cache A io api cache \<longleftrightarrow>
     (\<forall>symb c. cache symb = Some c \<longrightarrow> (\<exists>r now. asset_answered A io api symb r \<and> c = cached_from_response r now))"

lemma faithful_empty [simp]: "faithful_cache A io api Map.empty"
  by (simp add: faithful_cache_def)

lemma hands_get_asset [hands_rules]: "hands is_read (get_asset A parse encode cl symb)"
  unfolding get_asset_def by (intro hands_rules) (simp add: is_read_def)

lemma get_asset_answered:
  assumes "get_asset A (io_parse_asset io) (io_encode io) (ba_client api) symb (n, w) = (Inr r, s')"
  shows "asset_answered A io api symb r"
  using assms unfolding get_asset_def
  by (rule get_ok) (auto simp: asset_answered_def asset_url_def)

lemma get_asset_cached_cases:
  assumes "get_asset_cached A io api symb (cache, (n, w)) = (x, (cache', (n', w')))"
  obtains
    (hit) c where "x = Inr c" "cache symb = Some c" "cache' = cache" "n' = n" "w' = w"
      "\<not> is_expired c (ba_asset_cache_ttl api) (io_instant io w)"
  | (miss) r c gs where "x = Inr c" "asset_answered A io api symb r"
      "c = cached_from_response r (io_instant io w')" "cache' = cache(symb \<mapsto> c)"
      "handed n' = handed n @ gs" "list_all is_read gs"
  | (failed) e gs where "x = Inl e" "cache' = cache" "handed n' = handed n @ gs" "list_all is_read gs"
proof -
  define hit where "hit = (case cache symb of
      None \<Rightarrow> None
    | Some c \<Rightarrow> if is_expired c (ba_asset_cache_ttl api) (io_instant io w) then None else Some c)"
  show ?thesis
  proof (cases hit)
    case (Some c)
    with assms show ?thesis
      by (intro that(1) [of c])
        (auto simp: get_asset_cached_def hit_def split: option.splits if_splits)
  next
    case None
    obtain x1 n1 w1 where g: "get_asset A (io_parse_asset io) (io_encode io) (ba_client api) symb (n, w)
        = (x1, (n1, w1))" by (metis prod_cases3)
    obtain gs where gs: "handed n1 = handed n @ gs" "list_all is_read gs"
      using handsD [OF hands_get_asset g] by auto
    from assms None g show ?thesis
    proof (cases x1)
      case (Inl e)
      with assms None g gs show ?thesis
        by (intro that(3) [of e gs]) (auto simp: get_asset_cached_def hit_def [symmetric])
    next
      case (Inr r)
      with assms None g gs get_asset_answered [OF g [unfolded Inr]] show ?thesis
        by (intro that(2) [of _ r gs]) (auto simp: get_asset_cached_def hit_def [symmetric] Let_def)
    qed
  qed
qed

lemma asset_cache_reads:
  assumes "get_asset_cached A io api symb (cache, (n, w)) = (x, (cache', (n', w')))"
  obtains gs where "handed n' = handed n @ gs" "list_all is_read gs" "\<And>c. x = Inr c \<Longrightarrow> cache' symb = Some c"
  using assms by (cases rule: get_asset_cached_cases) auto

text \<open>
  The asset a placement is sized by is Alpaca's own and recent. From a cache that holds only answers of
  Alpaca's to reads of that very symbol, a successful lookup returns such an answer, no older than
  the configured time to live when it is returned, sends at most one read, and leaves a
  cache that again holds only such answers.
\<close>

theorem asset_is_alpacas_and_fresh:
  assumes "faithful_cache A io api cache"
    and "get_asset_cached A io api symb (cache, (n, w)) = (Inr c, (cache', (n', w')))"
  shows "(\<exists>r now. asset_answered A io api symb r \<and> c = cached_from_response r now)
    \<and> io_instant io w' - ca_cached_at c \<le> ba_asset_cache_ttl api
    \<and> faithful_cache A io api cache'
    \<and> (\<exists>gs. handed n' = handed n @ gs \<and> list_all is_read gs \<and> (gs \<noteq> [] \<longrightarrow> cache' = cache(symb \<mapsto> c)))"
  using assms(2)
proof (cases rule: get_asset_cached_cases)
  case (hit c')
  with assms(1) show ?thesis
    by (auto simp: faithful_cache_def is_expired_def)
next
  case (miss r c' gs)
  then have c: "c = cached_from_response r (io_instant io w')" by simp
  have "faithful_cache A io api cache'"
    using assms(1) miss c by (auto simp: faithful_cache_def)
  moreover have "io_instant io w' - ca_cached_at c \<le> ba_asset_cache_ttl api"
    by (simp add: c cached_from_response_def)
  ultimately show ?thesis using miss by auto
qed simp

subsection \<open>What a placement through the facade sends\<close>

lemma read_posts_nothing [simp]: "is_read q \<Longrightarrow> \<not> posts_order rq q"
  by (simp add: is_read_def posts_order_def)

lemma posted_request:
  assumes "then_call (return_call (map_err unwritten t))
      (\<lambda>sh. then_call (place_and_adopt A cl (rq sh) (fresh sh) adopt) (\<lambda>x. return_call (Inr (g x))))
      (n, w) = (r, (n', w'))"
    and "q \<in> set (drop (length (handed n)) (handed n'))" "posts_order rq0 q"
  shows "\<exists>sh. t = Inr sh \<and> rq0 = rq sh"
  using assms(1)
proof (cases rule: placement_cases)
  case (sent sh p gs)
  with assms(2,3) have "q = p" by (auto simp: list_all_iff)
  with sent assms(3) show ?thesis by (auto simp: posts_order_def)
next
  case (rejected sh p w1 pe)
  with assms(2,3) show ?thesis by (auto simp: posts_order_def)
qed (use assms(2) in auto)

lemma posted_limit_request:
  assumes "place_limit_order F A cl lo (n, w) = (r, (n', w'))"
    and "q \<in> set (drop (length (handed n)) (handed n'))" "posts_order rq q"
  shows "\<exists>sh. truncate_shares_to_alpaca_precision F (lo_shares lo) = Inr sh \<and> rq = limit_request lo sh"
  using posted_request [OF assms(1) [unfolded place_limit_order_eq] assms(2,3)] .

lemma posted_market_request:
  assumes "place_market_order F A cl mo tif (n, w) = (r, (n', w'))"
    and "q \<in> set (drop (length (handed n)) (handed n'))" "posts_order rq q"
  shows "\<exists>sh. truncate_shares_to_alpaca_precision F (mo_shares mo) = Inr sh \<and> rq = market_request mo tif sh"
  using posted_request [OF assms(1) [unfolded place_market_order_eq] assms(2,3)] .

lemma limit_hands:
  assumes "place_limit_order F A cl lo (n, w) = (r, (n', w'))"
  shows "\<exists>hs. handed n' = handed n @ hs"
  using placement_posts [OF assms [unfolded place_limit_order_eq] limit_request_key] by blast

lemma market_hands:
  assumes "place_market_order F A cl mo tif (n, w) = (r, (n', w'))"
  shows "\<exists>hs. handed n' = handed n @ hs"
  using placement_posts [OF assms [unfolded place_market_order_eq] market_request_key] by blast

lemma truncated_shares:
  assumes "truncate_shares_to_alpaca_precision F v = Inr u"
  shows "truncate_to_decimal_places F v 9 = Inr (Some u)" "fl_positive F u"
  using assms
  by (auto simp: truncate_shares_to_alpaca_precision_def ALPACA_MAX_DECIMAL_PLACES_def and_then_Inr_iff
      ok_or_def split: option.splits if_splits)

text \<open>
  \<open>d\<close> decimals of a positive quantity, with \<open>d\<close> the precision the asset takes in the session. The second
  truncation, to nine decimals in the placement itself, changes nothing.
\<close>

definition sized :: "('f \<Rightarrow> rat) \<Rightarrow> nat \<Rightarrow> 'f \<Rightarrow> 'f \<Rightarrow> bool" where
  "sized val d requested q \<longleftrightarrow>
     0 < val q \<and> val q \<le> val requested \<and> val requested < val q + 1 / 10 ^ d
     \<and> (\<exists>k. val q = of_nat k / 10 ^ d)"

lemma retruncation:
  assumes laws: "decimal_laws F val" and pos: "0 < val requested" and d: "d = 0 \<or> d = 9"
    and t: "truncate_to_decimal_places F requested d = Inr (Some t)" "fl_positive F t"
    and u: "truncate_shares_to_alpaca_precision F t = Inr u"
  shows "sized val d requested u"
proof -
  have "0 < val t" using laws t(2) unfolding decimal_laws_def by blast
  note bt = truncation_bounds [OF laws pos t(1), simplified]
    and bu = truncation_bounds [OF laws this truncated_shares(1) [OF u], simplified]
  from bt obtain j :: nat where j: "val t = of_nat j / 10 ^ d" by blast
  define m :: nat where "m = (if d = 0 then j * 10 ^ 9 else j)"
  have m: "val t = of_nat m / 10 ^ 9" using j d by (auto simp: m_def)
  from bu obtain k :: nat where k: "val u = of_nat k / 10 ^ 9" by auto
  have "(of_nat k :: rat) \<le> of_nat m" "(of_nat m :: rat) < of_nat (k + 1)"
    using bu m k by (auto simp: field_simps)
  then have "k \<le> m" "m < k + 1" by (simp_all only: of_nat_le_iff of_nat_less_iff)
  then have "k = m" by simp
  with m k have "val u = val t" by simp
  with bt \<open>0 < val t\<close> show ?thesis by (simp add: sized_def)
qed

lemma prepared_for_placement:
  assumes "prepare_order_shares_for_placement F A io api symb requested ext (cache, (n, w))
      = (x, (cache', (n', w')))"
  obtains gs where "handed n' = handed n @ gs" "list_all is_read gs"
    "\<And>t. x = Inr t \<Longrightarrow> \<exists>c. cache' symb = Some c \<and> ca_status c = AssetActive \<and> ca_tradable c
       \<and> truncate_to_decimal_places F requested (quantity_decimals c ext) = Inr (Some t) \<and> fl_positive F t"
proof -
  obtain y cache1 n1 w1 where g: "get_asset_cached A io api symb (cache, (n, w)) = (y, (cache1, (n1, w1)))"
    by (metis prod.exhaust)
  from asset_cache_reads [OF g] obtain gs where gs: "handed n1 = handed n @ gs" "list_all is_read gs"
    "\<And>c. y = Inr c \<Longrightarrow> cache1 symb = Some c" by metis
  have st: "cache' = cache1" "n' = n1" "w' = w1"
    using assms g by (auto simp: prepare_order_shares_for_placement_def prepare_counter_trade_shares_def
        then_call_def return_call_def split: prod.splits sum.splits)
  show ?thesis
  proof (rule that [of gs])
    fix t assume "x = Inr t"
    with assms g gs(3) st show "\<exists>c. cache' symb = Some c \<and> ca_status c = AssetActive \<and> ca_tradable c
       \<and> truncate_to_decimal_places F requested (quantity_decimals c ext) = Inr (Some t) \<and> fl_positive F t"
      by (auto simp: prepare_order_shares_for_placement_def prepare_counter_trade_shares_def
          then_call_def return_call_def validate_asset_def and_then_Inr_iff ok_or_def Let_def
          split: prod.splits sum.splits if_splits option.splits)
  qed (use gs st in auto)
qed

lemma prepared_placement_cases:
  assumes "then_call (map_err_call unwritten (prepare_order_shares_for_placement F A io api symb requested ext))
      f (cache, (n, w)) = (r, (cache', (n', w')))"
  obtains
    (refused) gs pe where "handed n' = handed n @ gs" "list_all is_read gs" "r = Inl pe" "\<not> written pe"
  | (prepared) gs t c cache1 n1 w1 where "handed n1 = handed n @ gs" "list_all is_read gs"
      "f t (cache1, (n1, w1)) = (r, (cache', (n', w')))"
      "cache1 symb = Some c" "ca_status c = AssetActive" "ca_tradable c" "fl_positive F t"
      "truncate_to_decimal_places F requested (quantity_decimals c ext) = Inr (Some t)"
proof -
  obtain x cache1 n1 w1 where p: "prepare_order_shares_for_placement F A io api symb requested ext (cache, (n, w))
      = (x, (cache1, (n1, w1)))" by (metis prod.exhaust)
  obtain gs where gs: "handed n1 = handed n @ gs" "list_all is_read gs"
    "\<And>t. x = Inr t \<Longrightarrow> \<exists>c. cache1 symb = Some c \<and> ca_status c = AssetActive \<and> ca_tradable c
       \<and> truncate_to_decimal_places F requested (quantity_decimals c ext) = Inr (Some t) \<and> fl_positive F t"
    using prepared_for_placement [OF p] by metis
  show ?thesis
  proof (cases x)
    case (Inl e)
    with assms p gs show ?thesis
      by (intro that(1) [of gs "unwritten e"]) (auto simp: then_call_def map_err_call_def unwritten_def)
  next
    case (Inr t)
    with gs(3) obtain c where "cache1 symb = Some c" "ca_status c = AssetActive" "ca_tradable c" "fl_positive F t"
      "truncate_to_decimal_places F requested (quantity_decimals c ext) = Inr (Some t)" by blast
    with assms p gs Inr show ?thesis
      by (intro that(2) [of n1 gs t cache1 w1 c]) (auto simp: then_call_def map_err_call_def)
  qed
qed

lemma on_client_out:
  assumes "on_client m (cache, s) = (r, (cache', s'))"
  shows "m s = (r, s')" "cache' = cache"
  using assms by (auto simp: on_client_def split: prod.splits)

text \<open>
  A placement through the facade fails on reads alone, or ends as the placement of the prepared
  order does. Sizing is the same for both kinds of order.
\<close>

definition sized_for :: "'f decimals \<Rightarrow> asset_cache \<Rightarrow> symbol \<Rightarrow> bool \<Rightarrow> 'f \<Rightarrow> 'f \<Rightarrow> bool" where
  "sized_for F cache symb ext requested t \<longleftrightarrow>
     (\<exists>c. cache symb = Some c \<and> ca_status c = AssetActive \<and> ca_tradable c \<and> fl_positive F t
        \<and> truncate_to_decimal_places F requested (quantity_decimals c ext) = Inr (Some t))"

lemma market_placement_cases:
  assumes "place_market_order_reporting F A io api mo (cache, (n, w)) = (r, (cache', (n', w')))"
  obtains
    (refused) gs pe where "handed n' = handed n @ gs" "list_all is_read gs" "r = Inl pe" "\<not> written pe"
  | (placed) gs t n1 w1 where "handed n1 = handed n @ gs" "list_all is_read gs"
      "sized_for F cache' (mo_symbol mo) False (mo_shares mo) t"
      "place_market_order F A (ba_client api) (mo\<lparr>mo_shares := t\<rparr>) (ba_time_in_force api) (n1, w1) = (r, (n', w'))"
  using assms unfolding place_market_order_reporting_def
proof (cases rule: prepared_placement_cases)
  case (refused gs pe)
  then show ?thesis by (rule that(1))
next
  case (prepared gs t c cache1 n1 w1)
  from on_client_out [OF prepared(3)] prepared show ?thesis
    by (intro that(2) [of n1 gs t w1]) (auto simp: sized_for_def)
qed

definition alpaca_limit_order_of :: "'f limit_order \<Rightarrow> 'f \<Rightarrow> 'f alpaca_limit_order" where
  "alpaca_limit_order_of lo shares = \<lparr>lo_symbol = lim_symbol lo, lo_shares = shares,
     lo_direction = lim_direction lo, lo_limit_price = lim_limit_price lo,
     lo_extended_hours = lim_extended_hours lo, lo_client_order_id = lim_client_order_id lo\<rparr>"

lemma limit_price_unchanged: "limit_price_try_new F p = Inr q \<Longrightarrow> q = p"
  by (auto simp: limit_price_try_new_def and_then_Inr_iff)

lemma limit_placement_cases:
  assumes "place_limit_order_reporting F A io api lo (cache, (n, w)) = (r, (cache', (n', w')))"
  obtains
    (refused) gs pe where "handed n' = handed n @ gs" "list_all is_read gs" "r = Inl pe" "\<not> written pe"
  | (placed) gs t n1 w1 where "handed n1 = handed n @ gs" "list_all is_read gs"
      "sized_for F cache' (lim_symbol lo) (lim_extended_hours lo) (lim_shares lo) t"
      "place_limit_order F A (ba_client api) (alpaca_limit_order_of lo t) (n1, w1) = (r, (n', w'))"
  using assms unfolding place_limit_order_reporting_def
proof (cases rule: prepared_placement_cases)
  case (refused gs pe)
  then show ?thesis by (rule that(1))
next
  case (prepared gs t c cache1 n1 w1)
  from prepared(3) show ?thesis
  proof (cases rule: then_call_Pair)
    case (failed e)
    with prepared(1,2) show ?thesis
      by (intro that(1) [of gs e]) (auto simp: return_call_def map_err_def unwritten_def split: sum.splits)
  next
    case ok: (went_on price s1)
    then have "s1 = (cache1, (n1, w1))" "price = lim_limit_price lo"
      by (auto simp: return_call_def map_err_def dest: limit_price_unchanged split: sum.splits)
    with ok(2) have "on_client (place_limit_order F A (ba_client api) (alpaca_limit_order_of lo t))
        (cache1, (n1, w1)) = (r, (cache', (n', w')))"
      by (simp add: alpaca_limit_order_of_def)
    from on_client_out [OF this] prepared show ?thesis
      by (intro that(2) [of n1 gs t w1]) (auto simp: sized_for_def)
  qed
qed

lemma sized_for_sized:
  assumes "decimal_laws F val" "0 < val requested" "sized_for F cache symb ext requested t"
    and "truncate_shares_to_alpaca_precision F t = Inr u"
  shows "\<exists>c. cache symb = Some c \<and> ca_status c = AssetActive \<and> ca_tradable c
    \<and> sized val (if ca_fractionable c = Some True \<and> (ext \<longrightarrow> ca_fractional_eh_enabled c = Some True)
        then 9 else 0) requested u"
proof -
  obtain c where c: "cache symb = Some c" "ca_status c = AssetActive" "ca_tradable c" "fl_positive F t"
      "truncate_to_decimal_places F requested (quantity_decimals c ext) = Inr (Some t)"
    using assms(3) unfolding sized_for_def by blast
  have d: "quantity_decimals c ext = (if ca_fractionable c = Some True
      \<and> (ext \<longrightarrow> ca_fractional_eh_enabled c = Some True) then 9 else 0)"
    by (auto simp: quantity_decimals_def fractional_orders_supported_def ALPACA_MAX_DECIMAL_PLACES_def)
  then have "quantity_decimals c ext = 0 \<or> quantity_decimals c ext = 9" by simp
  from retruncation [OF assms(1,2) this c(5,4) assms(4)] c show ?thesis unfolding d by blast
qed

lemma later_posts:
  assumes "handed n1 = handed n @ gs" "list_all is_read gs"
    and "q \<in> set (drop (length (handed n)) (handed n'))" "posts_order rq q"
    and "handed n' = handed n1 @ hs"
  shows "q \<in> set (drop (length (handed n1)) (handed n'))"
  using assms by (auto simp: list_all_iff)

text \<open>
  C15: Only orders the asset takes are sent. When a market or limit placement through the facade hands
  an order to the transport, the symbol's cached asset is active and tradable, and the quantity sent is
  the quantity asked, truncated: positive, no more than asked, short of it by less than one
  unit of precision, and a multiple of that unit. The unit is a billionth of a share when the asset
  is fractionable (and, in extended hours, marked fractional there), one share in every other case,
  missing metadata included.
\<close>

theorem facade_order_fits_the_asset:
  assumes laws: "decimal_laws F val" and pos: "0 < val requested"
    and call: "place_market_order_reporting F A io api mo (cache, (n, w)) = (r, (cache', (n', w')))
          \<and> symb = mo_symbol mo \<and> requested = mo_shares mo \<and> ext = False
        \<or> place_limit_order_reporting F A io api lo (cache, (n, w)) = (r, (cache', (n', w')))
          \<and> symb = lim_symbol lo \<and> requested = lim_shares lo \<and> ext = lim_extended_hours lo"
    and posted: "q \<in> set (drop (length (handed n)) (handed n'))" "posts_order rq q"
  shows "\<exists>c. cache' symb = Some c \<and> ca_status c = AssetActive \<and> ca_tradable c
    \<and> rq_symbol rq = symb \<and> rq_extended_hours rq = ext
    \<and> sized val (if ca_fractionable c = Some True \<and> (ext \<longrightarrow> ca_fractional_eh_enabled c = Some True)
        then 9 else 0) requested (rq_quantity rq)"
proof -
  have "\<exists>t sh. sized_for F cache' symb ext requested t \<and> truncate_shares_to_alpaca_precision F t = Inr sh
      \<and> rq_quantity rq = sh \<and> rq_symbol rq = symb \<and> rq_extended_hours rq = ext"
    using call
  proof (elim disjE conjE)
    assume "place_market_order_reporting F A io api mo (cache, (n, w)) = (r, (cache', (n', w')))"
      and eqs: "symb = mo_symbol mo" "requested = mo_shares mo" "ext = False"
    then show ?thesis
    proof (cases rule: market_placement_cases)
      case (placed gs t n1 w1)
      have "q \<in> set (drop (length (handed n1)) (handed n'))"
        using market_hands [OF placed(4)] later_posts [OF placed(1,2) posted] by blast
      from posted_market_request [OF placed(4) this posted(2)] placed(3) eqs show ?thesis
        by (auto simp: market_request_def)
    qed (use posted in \<open>auto simp: list_all_iff\<close>)
  next
    assume "place_limit_order_reporting F A io api lo (cache, (n, w)) = (r, (cache', (n', w')))"
      and eqs: "symb = lim_symbol lo" "requested = lim_shares lo" "ext = lim_extended_hours lo"
    then show ?thesis
    proof (cases rule: limit_placement_cases)
      case (placed gs t n1 w1)
      have "q \<in> set (drop (length (handed n1)) (handed n'))"
        using limit_hands [OF placed(4)] later_posts [OF placed(1,2) posted] by blast
      from posted_limit_request [OF placed(4) this posted(2)] placed(3) eqs show ?thesis
        by (auto simp: limit_request_def alpaca_limit_order_of_def)
    qed (use posted in \<open>auto simp: list_all_iff\<close>)
  qed
  then show ?thesis using sized_for_sized [OF laws pos] by blast
qed

text \<open>The exact limit placement of an operator skips the sizing, not the asset checks.\<close>

lemma exact_limit_placement_cases:
  assumes "place_alpaca_limit_order_reporting F A io api lo (cache, (n, w)) = (r, (cache', (n', w')))"
  obtains
    (refused) gs pe where "handed n' = handed n @ gs" "list_all is_read gs" "r = Inl pe" "\<not> written pe"
  | (placed) gs c n1 w1 where "handed n1 = handed n @ gs" "list_all is_read gs"
      "cache' (lo_symbol lo) = Some c" "ca_status c = AssetActive" "ca_tradable c"
      "place_limit_order F A (ba_client api) lo (n1, w1) = (r, (n', w'))"
proof -
  obtain x cache1 n1 w1 where g: "get_asset_cached A io api (lo_symbol lo) (cache, (n, w))
      = (x, (cache1, (n1, w1)))" by (metis prod.exhaust)
  from asset_cache_reads [OF g] obtain gs where gs: "handed n1 = handed n @ gs" "list_all is_read gs"
    "\<And>c. x = Inr c \<Longrightarrow> cache1 (lo_symbol lo) = Some c" by metis
  consider (no) pe where "r = Inl pe" "\<not> written pe" "n' = n1"
    | (yes) c where "x = Inr c" "ca_status c = AssetActive" "ca_tradable c"
      "on_client (place_limit_order F A (ba_client api) lo) (cache1, (n1, w1)) = (r, (cache', (n', w')))"
    using assms g
    by (cases x) (auto simp: place_alpaca_limit_order_reporting_def then_call_def map_err_call_def
        return_call_def validate_asset_def unwritten_def split: sum.splits if_splits)
  then show ?thesis
  proof cases
    case no
    with gs show ?thesis by (intro that(1) [of gs]) auto
  next
    case (yes c)
    from on_client_out [OF yes(4)] yes gs show ?thesis by (intro that(2) [of n1 gs c w1]) auto
  qed
qed

text \<open>A placement through the facade, of any of the three kinds.\<close>

definition facade_places ::
  "'f decimals \<Rightarrow> ('env, 'w, 'f) alpaca \<Rightarrow> ('w, 'f) api_io \<Rightarrow> broker_api \<Rightarrow> ('env, 'w, 'f) api_state
   \<Rightarrow> ('f placement_error + 'f order_placement) \<times> ('env, 'w, 'f) api_state \<Rightarrow> bool" where
  "facade_places F A io api s out \<longleftrightarrow>
     (\<exists>ord. place_market_order_reporting F A io api ord s = out)
     \<or> (\<exists>ord. place_limit_order_reporting F A io api ord s = out)
     \<or> (\<exists>ord. place_alpaca_limit_order_reporting F A io api ord s = out)"

text \<open>
  The requests of a failed placement: asset reads only; or asset reads and one order POST that took
  no effect; or, when the failure says the order may have been written, a POST and reads after it.
\<close>

definition failure_requests ::
  "('env, 'w, 'f) alpaca \<Rightarrow> 'f placement_error \<Rightarrow> ('env, 'f broker_request) net \<Rightarrow> ('env, 'f broker_request) net \<Rightarrow> bool" where
  "failure_requests A pe n n' \<longleftrightarrow>
     (\<exists>gs. list_all is_read gs \<and>
       (if written pe
        then \<exists>rq p hs. handed n' = handed n @ gs @ p # hs \<and> posts_order rq p \<and> list_all is_read hs
        else handed n' = handed n @ gs
          \<or> (\<exists>rq p w1. handed n' = handed n @ gs @ [p] \<and> posts_order rq p
               \<and> took_no_effect (fst (al_http A p w1)))))"

lemma failure_requests_refused:
  "handed n' = handed n @ gs \<Longrightarrow> list_all is_read gs \<Longrightarrow> \<not> written pe \<Longrightarrow> failure_requests A pe n n'"
  by (auto simp: failure_requests_def)

lemma failure_requests_placed:
  assumes "read_errors_come_late A" "handed n1 = handed n @ gs" "list_all is_read gs"
    and "place_limit_order F A cl lo (n1, w1) = (Inl pe, (n', w'))
       \<or> place_market_order F A cl mo tif (n1, w1) = (Inl pe, (n', w'))"
  shows "failure_requests A pe n n'"
  using failed_placement [OF assms(1,4)] assms(2,3) unfolding failure_requests_def
  by (intro exI [of _ gs]) (cases "written pe"; auto)

lemma facade_failure:
  assumes late: "read_errors_come_late A"
    and "facade_places F A io api (cache, (n, w)) (Inl pe, (cache', (n', w')))"
  shows "failure_requests A pe n n'"
  using assms(2) unfolding facade_places_def
proof (elim disjE exE)
  fix mo assume "place_market_order_reporting F A io api mo (cache, (n, w)) = (Inl pe, (cache', (n', w')))"
  then show ?thesis
    by (cases rule: market_placement_cases)
      (auto intro: failure_requests_refused failure_requests_placed [OF late])
next
  fix lo assume "place_limit_order_reporting F A io api lo (cache, (n, w)) = (Inl pe, (cache', (n', w')))"
  then show ?thesis
    by (cases rule: limit_placement_cases)
      (auto intro: failure_requests_refused failure_requests_placed [OF late])
next
  fix lo assume "place_alpaca_limit_order_reporting F A io api lo (cache, (n, w)) = (Inl pe, (cache', (n', w')))"
  then show ?thesis
    by (cases rule: exact_limit_placement_cases)
      (auto intro: failure_requests_refused failure_requests_placed [OF late])
qed

subsection \<open>What a status read reports\<close>


subsection \<open>Concrete placements\<close>

text \<open>An asset that takes whole shares only, and an order for three and a half.\<close>

definition facade_io :: "(unit, nat) api_io" where
  "facade_io = \<lparr>
     io_parse_account = (\<lambda>_. Inr \<lparr>ar_id = ''acct'', ar_status = AccountActive, ar_account_number = None\<rparr>),
     io_parse_asset = (\<lambda>_. Inr \<lparr>as_status = AssetActive, as_tradable = True, as_fractionable = Some False,
       as_attributes = None\<rparr>),
     io_parse_journal = (\<lambda>_. Inl ''no journal''),
     io_encode = id, io_parse_uuid = Inr, io_instant = (\<lambda>_. 5)\<rparr>"

definition sample_api :: broker_api where
  "sample_api = \<lparr>ba_client = sample_client, ba_asset_cache_ttl = from_secs 3600, ba_time_in_force = Day,
     ba_account_number = None, ba_conversion_backpressure = RetryInPlace\<rparr>"

definition sample_market_order :: "nat market_order" where
  "sample_market_order = \<lparr>mo_symbol = ''AAPL'', mo_shares = 35 * 10 ^ 17, mo_direction = Buy,
     mo_client_order_id = Automated ''k''\<rparr>"

lemmas facade_sample_defs = facade_io_def sample_api_def sample_market_order_def

lemmas facade_defs = place_market_order_reporting_def prepare_order_shares_for_placement_def
  prepare_counter_trade_shares_def get_asset_cached_def get_asset_def cached_from_response_def
  validate_asset_def quantity_decimals_def fractional_orders_supported_def on_client_def ok_or_def

lemma sample_placement:
  "\<exists>p g n' cache'. place_market_order_reporting fixed18 (sample_alpaca 200 200) facade_io sample_api
       sample_market_order (Map.empty, (Orders.sample_net, ()))
     = (Inr \<lparr>op_order_id = ''u1'', op_symbol = ''AAPL'', op_shares = 3 * 10 ^ 18, op_direction = Buy,
          op_placed_at = 7, op_extended_hours = False, op_limit_price = None\<rparr>, (cache', (n', ())))
     \<and> handed n' = [g, p] \<and> posts_order (market_request sample_market_order Day (3 * 10 ^ 18)) p"
  by (simp add: facade_defs facade_sample_defs sample_defs call_defs place_market_order_eq status_defs
      truncate_to_decimal_places_def truncate_shares_to_alpaca_precision_def
      ALPACA_MAX_DECIMAL_PLACES_def posts_order_def market_request_def)

theorem facade_order_fits_the_asset_witness:
  "\<exists>p g n' cache' r. place_market_order_reporting fixed18 (sample_alpaca 200 200) facade_io sample_api
       sample_market_order (Map.empty, (Orders.sample_net, ())) = (r, (cache', (n', ())))
     \<and> handed n' = [g, p] \<and> posts_order (market_request sample_market_order Day (3 * 10 ^ 18)) p
     \<and> (\<exists>c. cache' ''AAPL'' = Some c \<and> ca_status c = AssetActive \<and> ca_tradable c
        \<and> sized fixed18_val (if ca_fractionable c = Some True then 9 else 0) (35 * 10 ^ 17) (3 * 10 ^ 18))"
proof -
  obtain p g n' cache' r where s: "place_market_order_reporting fixed18 (sample_alpaca 200 200) facade_io
      sample_api sample_market_order (Map.empty, (Orders.sample_net, ())) = (r, (cache', (n', ())))"
    "handed n' = [g, p]" "posts_order (market_request sample_market_order Day (3 * 10 ^ 18)) p"
    using sample_placement by blast
  have h: "handed Orders.sample_net = []" by (simp add: Orders.sample_net_def)
  have f: "0 < fixed18_val (35 * 10 ^ 17)" "mo_symbol sample_market_order = ''AAPL''"
    "mo_shares sample_market_order = 35 * 10 ^ 17" "p \<in> set (drop (length (handed Orders.sample_net)) (handed n'))"
    using s(2) h by (simp_all add: fixed18_val_def sample_market_order_def)
  have c: "place_market_order_reporting fixed18 (sample_alpaca 200 200) facade_io
      sample_api sample_market_order (Map.empty, (Orders.sample_net, ())) = (r, (cache', (n', ())))
    \<and> ''AAPL'' = mo_symbol sample_market_order \<and> 35 * 10 ^ 17 = mo_shares sample_market_order \<and> False = False"
    using s(1) f(2,3) by simp
  from facade_order_fits_the_asset [OF fixed18_laws f(1) disjI1 [OF c] f(4) s(3)] s
  show ?thesis by (auto simp: market_request_def)
qed

theorem asset_is_alpacas_and_fresh_witness:
  "\<exists>c cache' n'. get_asset_cached (sample_alpaca 200 200) facade_io sample_api ''AAPL''
       (Map.empty, (Orders.sample_net, ())) = (Inr c, (cache', (n', ())))
     \<and> faithful_cache (sample_alpaca 200 200) facade_io sample_api cache'
     \<and> 5 - ca_cached_at c \<le> from_secs 3600"
proof -
  obtain c cache' n' where g: "get_asset_cached (sample_alpaca 200 200) facade_io sample_api ''AAPL''
       (Map.empty, (Orders.sample_net, ())) = (Inr c, (cache', (n', ())))"
    by (simp add: facade_defs facade_sample_defs sample_defs call_defs status_defs)
  from asset_is_alpacas_and_fresh [OF faithful_empty g] g show ?thesis
    by (auto simp: facade_io_def sample_api_def)
qed

definition filled_alpaca :: "(unit, unit, nat) alpaca" where
  "filled_alpaca = sample_alpaca 200 200 \<lparr>al_parse_order := (\<lambda>_. Inr (sample_order
     \<lparr>or_status := BS_Filled, or_filled_quantity := Some (2 * 10 ^ 18),
      or_filled_average_price := Some 7, or_filled_at := Some 9\<rparr>))\<rparr>"

lemma filled_sample:
  "\<exists>s'. api_get_order_status fixed18 filled_alpaca facade_io sample_api 1 ''u1'' (Map.empty, (Orders.sample_net, ()))
     = (Inr (St_Filled 9 (ExecutorOrderId ''u1'') (2 * 10 ^ 18) 7), s')"
  by (simp add: api_get_order_status_def get_order_status_def filled_alpaca_def order_state_of_def
      status_time_def terminal_broker_time_def on_client_def facade_sample_defs sample_defs call_defs
      status_defs ok_or_def)


end
