(* ===== verification/Handlers_Orders.thy ===== *)
theory Handlers_Orders
  imports Broker_Api Runner
begin

text \<open>
  The gateway's order and conversion handlers (\<^verbatim>\<open>crates/gateway/src/handlers/orders.rs\<close>) with their
  request types (\<^verbatim>\<open>crates/gateway-api/src/dto/orders.rs\<close>). A handler is its audit intent and its work:
  the closure it gives to \<open>AppState::run\<close> or \<open>read\<close>, here a call on the broker facade's state that ends with a
  failure or a \<open>done_call\<close>. \<open>D\<close> prints numbers and errors, \<open>digest\<close> is the digest of the request.
\<close>

subsection \<open>Requests\<close>

record 'f market_order_request =
  mr_symbol :: symbol
  mr_shares :: 'f
  mr_direction :: direction
  mr_client_order_id :: client_order_id
  mr_reason :: "string option"

definition market_order_from :: "'f market_order_request \<Rightarrow> 'f market_order" where
  "market_order_from r = \<lparr>mo_symbol = mr_symbol r, mo_shares = mr_shares r,
     mo_direction = mr_direction r, mo_client_order_id = mr_client_order_id r\<rparr>"

definition market_order_request_new :: "'f market_order \<Rightarrow> string option \<Rightarrow> 'f market_order_request" where
  "market_order_request_new o' reason = \<lparr>mr_symbol = mo_symbol o', mr_shares = mo_shares o',
     mr_direction = mo_direction o', mr_client_order_id = mo_client_order_id o', mr_reason = reason\<rparr>"

record 'f limit_order_request =
  lr_symbol :: symbol
  lr_shares :: 'f
  lr_direction :: direction
  lr_limit_price :: 'f
  lr_extended_hours :: bool
  lr_client_order_id :: client_order_id
  lr_reason :: "string option"

definition limit_order_from :: "'f limit_order_request \<Rightarrow> 'f limit_order" where
  "limit_order_from r = \<lparr>lim_symbol = lr_symbol r, lim_shares = lr_shares r, lim_direction = lr_direction r,
     lim_limit_price = lr_limit_price r, lim_extended_hours = lr_extended_hours r,
     lim_client_order_id = lr_client_order_id r\<rparr>"

definition alpaca_limit_order_try_from ::
  "'f decimals \<Rightarrow> 'f limit_order_request \<Rightarrow> 'f broker_error + 'f alpaca_limit_order" where
  "alpaca_limit_order_try_from F r =
     and_then (limit_price_try_new F (lr_limit_price r)) (\<lambda>price.
     Inr \<lparr>lo_symbol = lr_symbol r, lo_shares = lr_shares r, lo_direction = lr_direction r,
       lo_limit_price = price, lo_extended_hours = lr_extended_hours r,
       lo_client_order_id = lr_client_order_id r\<rparr>)"

definition limit_order_request_new :: "'f limit_order \<Rightarrow> string option \<Rightarrow> 'f limit_order_request" where
  "limit_order_request_new o' reason = \<lparr>lr_symbol = lim_symbol o', lr_shares = lim_shares o',
     lr_direction = lim_direction o', lr_limit_price = lim_limit_price o',
     lr_extended_hours = lim_extended_hours o', lr_client_order_id = lim_client_order_id o',
     lr_reason = reason\<rparr>"

definition limit_order_request_exact :: "'f alpaca_limit_order \<Rightarrow> string \<Rightarrow> 'f limit_order_request" where
  "limit_order_request_exact o' reason = \<lparr>lr_symbol = lo_symbol o', lr_shares = lo_shares o',
     lr_direction = lo_direction o', lr_limit_price = lo_limit_price o',
     lr_extended_hours = lo_extended_hours o', lr_client_order_id = lo_client_order_id o',
     lr_reason = Some reason\<rparr>"

record 'f recover_order_request =
  rr_symbol :: symbol
  rr_shares :: 'f
  rr_direction :: direction
  rr_client_order_id :: client_order_id

definition market_order_from_recover :: "'f recover_order_request \<Rightarrow> 'f market_order" where
  "market_order_from_recover r = \<lparr>mo_symbol = rr_symbol r, mo_shares = rr_shares r,
     mo_direction = rr_direction r, mo_client_order_id = rr_client_order_id r\<rparr>"

definition recover_order_request_from :: "'f market_order \<Rightarrow> 'f recover_order_request" where
  "recover_order_request_from o' = \<lparr>rr_symbol = mo_symbol o', rr_shares = mo_shares o',
     rr_direction = mo_direction o', rr_client_order_id = mo_client_order_id o'\<rparr>"

datatype 'f conversion = Cv_SellUsdc 'f | Cv_BuyWithUsd 'f

fun conversion_order_from :: "'f conversion \<Rightarrow> 'f conversion_order" where
  "conversion_order_from (Cv_SellUsdc quantity) = SellUsdc quantity"
| "conversion_order_from (Cv_BuyWithUsd notional) = BuyWithUsd notional"

fun conversion_from :: "'f conversion_order \<Rightarrow> 'f conversion" where
  "conversion_from (SellUsdc quantity) = Cv_SellUsdc quantity"
| "conversion_from (BuyWithUsd notional) = Cv_BuyWithUsd notional"

record 'f conversion_request =
  cv_client_order_id :: client_order_id
  cv_conversion :: "'f conversion"
  cv_reason :: "string option"

subsection \<open>Checks\<close>

definition require_key_form :: "uuid \<Rightarrow> tier \<Rightarrow> client_order_id \<Rightarrow> failure + unit" where
  "require_key_form rid tier key =
     (let refuse = (\<lambda>expected. Inl (invalid rid (''client order id '' @ client_order_id_display key
            @ '' must be '' @ expected @ '' on this tier'')))
      in case tier of
           Read \<Rightarrow> Inl (invalid rid ''readers place no orders'')
         | Bot \<Rightarrow> (case key of Automated _ \<Rightarrow> Inr () | Cli _ \<Rightarrow> refuse ''a bare UUID'')
         | Write \<Rightarrow> (case key of Cli _ \<Rightarrow> Inr () | Automated _ \<Rightarrow> refuse ''a cli- prefixed UUID''))"

definition require_bot_lookup_key :: "uuid \<Rightarrow> tier \<Rightarrow> client_order_id \<Rightarrow> failure + unit" where
  "require_bot_lookup_key rid tier key =
     (case (tier, key) of
        (Bot, Cli _) \<Rightarrow> Inl (invalid rid (''client order id '' @ client_order_id_display key
          @ '' belongs to a human order; the bot may only look up bare UUID keys''))
      | _ \<Rightarrow> Inr ())"

subsection \<open>Running\<close>

record 'f displays =
  dp_number :: "'f \<Rightarrow> string"
  dp_broker_error :: "'f broker_error \<Rightarrow> string"

definition done_new :: "'b \<Rightarrow> string \<Rightarrow> 'b done_call" where
  "done_new b object_id = \<lparr>dn_body = b, dn_alpaca_object_ids = [object_id]\<rparr>"

text \<open>\<open>AppState::read\<close>: the work of a read, which names no Alpaca object.\<close>

definition read_work :: "('s \<Rightarrow> (failure + 'b) \<times> 's) \<Rightarrow> 's \<Rightarrow> 'b work_result \<times> 's" where
  "read_work m = then_call m (\<lambda>b. return_call (Inr \<lparr>dn_body = b, dn_alpaca_object_ids = []\<rparr>))"

definition placed :: "'f order_placement \<Rightarrow> 'f order_placement done_call" where
  "placed p = done_new p (op_order_id p)"

definition as_broker_failure ::
  "uuid \<Rightarrow> 'f displays \<Rightarrow> sent \<Rightarrow> ('s \<Rightarrow> ('f broker_error + 'a) \<times> 's) \<Rightarrow> 's \<Rightarrow> (failure + 'a) \<times> 's" where
  "as_broker_failure rid D sent m = map_err_call (\<lambda>e. broker rid (dp_broker_error D e) e sent) m"

definition as_placement ::
  "uuid \<Rightarrow> 'f displays \<Rightarrow> ('s \<Rightarrow> ('f placement_error + 'f order_placement) \<times> 's)
   \<Rightarrow> 's \<Rightarrow> 'f order_placement work_result \<times> 's" where
  "as_placement rid D m =
     then_call (map_err_call (\<lambda>pe. placement rid (dp_broker_error D (placement_error.error pe)) pe) m)
       (\<lambda>p. return_call (Inr (placed p)))"

subsection \<open>Placement handlers\<close>

definition place_market_intent :: "'f displays \<Rightarrow> string option \<Rightarrow> 'f market_order_request \<Rightarrow> intent" where
  "place_market_intent D digest r =
     with_note (with_note (with_note (with_reason (with_key (intent_of digest)
       (client_order_id_display (mr_client_order_id r))) (mr_reason r))
       ''symbol'' (mr_symbol r)) ''side'' (direction_as_str (mr_direction r)))
       ''quantity'' (dp_number D (mr_shares r))"

definition place_market_work ::
  "uuid \<Rightarrow> 'f displays \<Rightarrow> 'f decimals \<Rightarrow> ('env, 'w, 'f) alpaca \<Rightarrow> ('w, 'f) api_io \<Rightarrow> broker_api \<Rightarrow> tier
   \<Rightarrow> 'f market_order_request \<Rightarrow> ('env, 'w, 'f) api_state
   \<Rightarrow> 'f order_placement work_result \<times> ('env, 'w, 'f) api_state" where
  "place_market_work rid D F A io api tier r =
     then_call (return_call (require_key_form rid tier (mr_client_order_id r))) (\<lambda>_.
     as_placement rid D (place_market_order_reporting F A io api (market_order_from r)))"

definition place_limit_intent :: "'f displays \<Rightarrow> string option \<Rightarrow> 'f limit_order_request \<Rightarrow> intent" where
  "place_limit_intent D digest r =
     with_note (with_note (with_note (with_note (with_reason (with_key (intent_of digest)
       (client_order_id_display (lr_client_order_id r))) (lr_reason r))
       ''symbol'' (lr_symbol r)) ''side'' (direction_as_str (lr_direction r)))
       ''quantity'' (dp_number D (lr_shares r))) ''limitPrice'' (dp_number D (lr_limit_price r))"

definition place_limit_work ::
  "uuid \<Rightarrow> 'f displays \<Rightarrow> 'f decimals \<Rightarrow> ('env, 'w, 'f) alpaca \<Rightarrow> ('w, 'f) api_io \<Rightarrow> broker_api \<Rightarrow> tier
   \<Rightarrow> 'f limit_order_request \<Rightarrow> ('env, 'w, 'f) api_state
   \<Rightarrow> 'f order_placement work_result \<times> ('env, 'w, 'f) api_state" where
  "place_limit_work rid D F A io api tier r =
     then_call (return_call (require_key_form rid tier (lr_client_order_id r))) (\<lambda>_.
     as_placement rid D (place_limit_order_reporting F A io api (limit_order_from r)))"

definition place_exact_limit_work ::
  "uuid \<Rightarrow> 'f displays \<Rightarrow> 'f decimals \<Rightarrow> ('env, 'w, 'f) alpaca \<Rightarrow> ('w, 'f) api_io \<Rightarrow> broker_api \<Rightarrow> tier
   \<Rightarrow> 'f limit_order_request \<Rightarrow> ('env, 'w, 'f) api_state
   \<Rightarrow> 'f order_placement work_result \<times> ('env, 'w, 'f) api_state" where
  "place_exact_limit_work rid D F A io api tier r =
     then_call (return_call (require_key_form rid tier (lr_client_order_id r))) (\<lambda>_.
     then_call (as_broker_failure rid D Sent_Read (return_call (alpaca_limit_order_try_from F r))) (\<lambda>ord.
     as_placement rid D (place_alpaca_limit_order_reporting F A io api ord)))"

subsection \<open>The other order handlers\<close>

definition keyed_intent :: "string \<Rightarrow> intent" where
  "keyed_intent key = with_key default_intent key"

definition order_work ::
  "uuid \<Rightarrow> 'f displays \<Rightarrow> 'f decimals \<Rightarrow> ('env, 'w, 'f) alpaca \<Rightarrow> ('w, 'f) api_io \<Rightarrow> broker_api \<Rightarrow> utc \<Rightarrow> uuid
   \<Rightarrow> ('env, 'w, 'f) api_state \<Rightarrow> 'f order_state work_result \<times> ('env, 'w, 'f) api_state" where
  "order_work rid D F A io api observed order_id =
     read_work (as_broker_failure rid D Sent_Read (api_get_order_status F A io api observed order_id))"

definition find_order_work ::
  "uuid \<Rightarrow> 'f displays \<Rightarrow> 'f decimals \<Rightarrow> ('env, 'w, 'f) alpaca \<Rightarrow> broker_api \<Rightarrow> tier \<Rightarrow> client_order_id
   \<Rightarrow> ('env, 'w, 'f) api_state
   \<Rightarrow> 'f recovered_order_placement option work_result \<times> ('env, 'w, 'f) api_state" where
  "find_order_work rid D F A api tier key =
     read_work (then_call (return_call (require_bot_lookup_key rid tier key)) (\<lambda>_.
       as_broker_failure rid D Sent_Read (api_get_order_by_client_order_id F A api key)))"

definition recover_order_work ::
  "uuid \<Rightarrow> 'f displays \<Rightarrow> 'f decimals \<Rightarrow> ('env, 'w, 'f) alpaca \<Rightarrow> broker_api \<Rightarrow> tier \<Rightarrow> 'f recover_order_request
   \<Rightarrow> ('env, 'w, 'f) api_state \<Rightarrow> 'f order_placement option work_result \<times> ('env, 'w, 'f) api_state" where
  "recover_order_work rid D F A api tier r =
     read_work (then_call (return_call (require_bot_lookup_key rid tier (rr_client_order_id r))) (\<lambda>_.
       as_broker_failure rid D Sent_Read
         (api_recover_order_by_client_id F A api (market_order_from_recover r))))"

definition cancel_intent :: "string option \<Rightarrow> uuid \<Rightarrow> string option \<Rightarrow> intent" where
  "cancel_intent digest order_id reason = with_reason (with_key (intent_of digest) order_id) reason"

definition cancel_work ::
  "uuid \<Rightarrow> 'f displays \<Rightarrow> ('env, 'w, 'f) alpaca \<Rightarrow> ('w, 'f) api_io \<Rightarrow> broker_api \<Rightarrow> uuid
   \<Rightarrow> ('env, 'w, 'f) api_state \<Rightarrow> cancellation_outcome work_result \<times> ('env, 'w, 'f) api_state" where
  "cancel_work rid D A io api order_id =
     then_call (as_broker_failure rid D Sent_Mutation (api_cancel_order A io api order_id)) (\<lambda>outcome.
     return_call (Inr (done_new outcome order_id)))"

definition submit_conversion_intent :: "'f displays \<Rightarrow> string option \<Rightarrow> 'f conversion_request \<Rightarrow> intent" where
  "submit_conversion_intent D digest r =
     (case (case cv_conversion r of
              Cv_SellUsdc quantity \<Rightarrow> (''SELL'', ''USDC'', dp_number D quantity)
            | Cv_BuyWithUsd notional \<Rightarrow> (''BUY'', ''USD'', dp_number D notional)) of
        (side, asset, amount) \<Rightarrow>
          with_note (with_note (with_note (with_note (with_reason (with_key (intent_of digest)
            (client_order_id_display (cv_client_order_id r))) (cv_reason r))
            ''symbol'' ''USDCUSD'') ''side'' side) ''asset'' asset) ''amount'' amount)"

definition submit_conversion_work ::
  "uuid \<Rightarrow> 'f displays \<Rightarrow> 'f decimals \<Rightarrow> ('env, 'w, 'f) alpaca \<Rightarrow> broker_api \<Rightarrow> tier \<Rightarrow> 'f conversion_request
   \<Rightarrow> ('env, 'w, 'f) api_state \<Rightarrow> 'f crypto_order work_result \<times> ('env, 'w, 'f) api_state" where
  "submit_conversion_work rid D F A api tier r =
     then_call (return_call (require_key_form rid tier (cv_client_order_id r))) (\<lambda>_.
     then_call (as_broker_failure rid D Sent_Mutation
         (submit_conversion F A api (conversion_order_from (cv_conversion r)) (cv_client_order_id r))) (\<lambda>ord.
     return_call (Inr (done_new ord (cr_id ord)))))"

definition conversion_work ::
  "uuid \<Rightarrow> 'f displays \<Rightarrow> ('env, 'w, 'f) alpaca \<Rightarrow> broker_api \<Rightarrow> uuid
   \<Rightarrow> ('env, 'w, 'f) api_state \<Rightarrow> 'f crypto_order work_result \<times> ('env, 'w, 'f) api_state" where
  "conversion_work rid D A api order_id =
     read_work (as_broker_failure rid D Sent_Read (get_conversion_order A api order_id))"

definition find_conversion_work ::
  "uuid \<Rightarrow> 'f displays \<Rightarrow> ('env, 'w, 'f) alpaca \<Rightarrow> broker_api \<Rightarrow> tier \<Rightarrow> client_order_id
   \<Rightarrow> ('env, 'w, 'f) api_state \<Rightarrow> 'f crypto_order option work_result \<times> ('env, 'w, 'f) api_state" where
  "find_conversion_work rid D A api tier key =
     read_work (then_call (return_call (require_bot_lookup_key rid tier key)) (\<lambda>_.
       as_broker_failure rid D Sent_Read (find_conversion_order A api key)))"

subsection \<open>What the handlers send\<close>

text \<open>
  \<open>api_hands P m\<close>: whatever state of the facade \<open>m\<close> starts from, it hands over only requests that
  satisfy \<open>P\<close>. The rules carry it from the client's calls to the handlers.
\<close>

definition api_sent ::
  "(('env, 'w, 'f) api_state \<Rightarrow> 'r \<times> ('env, 'w, 'f) api_state) \<Rightarrow> ('env, 'w, 'f) api_state \<Rightarrow> 'f broker_request list" where
  "api_sent m s = drop (length (handed (fst (snd s)))) (handed (fst (snd (snd (m s)))))"

definition api_hands ::
  "('f broker_request \<Rightarrow> bool) \<Rightarrow> (('env, 'w, 'f) api_state \<Rightarrow> 'r \<times> ('env, 'w, 'f) api_state) \<Rightarrow> bool" where
  "api_hands P m \<longleftrightarrow>
     (\<forall>s. \<exists>qs. handed (fst (snd (snd (m s)))) = handed (fst (snd s)) @ qs \<and> list_all P qs)"

named_theorems api_rules

lemma api_handsD:
  "api_hands P m \<Longrightarrow> m s = (r, s') \<Longrightarrow> \<exists>qs. handed (fst (snd s')) = handed (fst (snd s)) @ qs \<and> list_all P qs"
  unfolding api_hands_def by (metis snd_conv)

lemma api_handsI:
  assumes "\<And>cache n w r cache' n' w'. m (cache, (n, w)) = (r, (cache', (n', w'))) \<Longrightarrow>
    \<exists>qs. handed n' = handed n @ qs \<and> list_all P qs"
  shows "api_hands P m"
  unfolding api_hands_def using assms by (metis prod.collapse)

lemma handsI:
  assumes "\<And>n w r n' w'. m (n, w) = (r, (n', w')) \<Longrightarrow> \<exists>qs. handed n' = handed n @ qs \<and> list_all P qs"
  shows "hands P m"
  unfolding hands_def using assms by (metis prod.collapse)

lemma api_hands_sent: "api_hands P m \<Longrightarrow> list_all P (api_sent m s)"
  unfolding api_hands_def api_sent_def by (metis append_eq_conv_conj)

lemma api_hands_weaken: "api_hands P m \<Longrightarrow> (\<And>q. P q \<Longrightarrow> Q q) \<Longrightarrow> api_hands Q m"
  unfolding api_hands_def by (metis list.pred_mono_strong)

lemma api_hands_return [api_rules]: "api_hands P (return_call r)"
  by (auto simp: api_hands_def return_call_def)

lemma api_hands_then [api_rules]:
  fixes m :: "('env, 'w, 'f, 'e, 'a) api_call"
  assumes "api_hands P m" "\<And>x. api_hands P (f x)"
  shows "api_hands P (then_call m f)"
  unfolding api_hands_def
proof
  fix s :: "('env, 'w, 'f) api_state"
  obtain r s' where e: "then_call m f s = (r, s')" by (cases "then_call m f s")
  then show "\<exists>qs. handed (fst (snd (snd (then_call m f s)))) = handed (fst (snd s)) @ qs \<and> list_all P qs"
  proof (cases rule: then_call_Pair)
    case (failed x)
    with e api_handsD [OF assms(1) failed(1)] show ?thesis by simp
  next
    case (went_on x s1)
    obtain qs qs' where "handed (fst (snd s1)) = handed (fst (snd s)) @ qs" "list_all P qs"
      "handed (fst (snd s')) = handed (fst (snd s1)) @ qs'" "list_all P qs'"
      using api_handsD [OF assms(1) went_on(1)] api_handsD [OF assms(2) went_on(2)] by blast
    with e show ?thesis by (intro exI [of _ "qs @ qs'"]) simp
  qed
qed

lemma api_hands_map_err [api_rules]: "api_hands P m \<Longrightarrow> api_hands P (map_err_call g m)"
  by (simp add: api_hands_def map_err_call_def case_prod_beta)

lemma api_hands_on_client [api_rules]: "hands P m \<Longrightarrow> api_hands P (on_client m)"
  by (rule api_handsI) (metis fst_conv handsD on_client_out(1))

text \<open>A read, or the POST of an order under this key.\<close>

definition keyed_order :: "client_order_id \<Rightarrow> 'f broker_request \<Rightarrow> bool" where
  "keyed_order k q \<longleftrightarrow> is_read q
     \<or> br_method q = M_Post \<and> (case br_body q of
         Some (Order_Body r) \<Rightarrow> rq_client_order_id r = k
       | Some (Crypto_Body c) \<Rightarrow> cq_client_order_id c = k
       | _ \<Rightarrow> False)"

lemma reads_are_keyed [simp]: "is_read q \<Longrightarrow> keyed_order k q"
  by (simp add: keyed_order_def)

lemma one_post_keyed: "one_order_post k qs \<Longrightarrow> list_all (keyed_order k) qs"
  by (auto simp: one_order_post_def keyed_order_def posts_order_def list_all_iff split: list.splits)

lemma placement_hands:
  assumes "\<And>n w r n' w'. m (n, w) = (r, (n', w')) \<Longrightarrow> \<exists>qs. handed n' = handed n @ qs \<and> one_order_post k qs"
  shows "hands (keyed_order k) m"
proof (rule handsI)
  fix n w r n' w' assume "m (n, w) = (r, (n', w'))"
  from assms [OF this] show "\<exists>qs. handed n' = handed n @ qs \<and> list_all (keyed_order k) qs"
    by (auto intro: one_post_keyed)
qed

lemma hands_limit [hands_rules]: "hands (keyed_order (lo_client_order_id lo)) (place_limit_order F A cl lo)"
  by (rule placement_hands) (rule placement_posts [OF _ limit_request_key], simp only: place_limit_order_eq)

lemma hands_market [hands_rules]: "hands (keyed_order (mo_client_order_id mo)) (place_market_order F A cl mo tif)"
  by (rule placement_hands) (rule placement_posts [OF _ market_request_key], simp only: place_market_order_eq)

lemma api_hands_asset: "api_hands is_read (get_asset_cached A io api symb)"
proof (rule api_handsI)
  fix cache n w r cache' n' w'
  assume "get_asset_cached A io api symb (cache, (n, w)) = (r, (cache', (n', w')))"
  then obtain gs where "handed n' = handed n @ gs" "list_all is_read gs" by (rule asset_cache_reads)
  then show "\<exists>qs. handed n' = handed n @ qs \<and> list_all is_read qs" by blast
qed

lemma api_hands_asset_keyed [api_rules]: "api_hands (keyed_order k) (get_asset_cached A io api symb)"
  by (rule api_hands_weaken [OF api_hands_asset]) simp

lemma api_hands_prepare [api_rules]:
  "api_hands (keyed_order k) (prepare_order_shares_for_placement F A io api symb shares ext)"
  unfolding prepare_order_shares_for_placement_def prepare_counter_trade_shares_def
  by (intro api_rules)

lemma facade_placements_keyed [api_rules]:
  "api_hands (keyed_order (mo_client_order_id mo)) (place_market_order_reporting F A io api mo)"
  "api_hands (keyed_order (lim_client_order_id lo)) (place_limit_order_reporting F A io api lo)"
  "api_hands (keyed_order (lo_client_order_id al)) (place_alpaca_limit_order_reporting F A io api al)"
proof -
  have m: "hands (keyed_order (mo_client_order_id mo)) (place_market_order F A cl (mo\<lparr>mo_shares := sh\<rparr>) tif)"
    for cl sh tif using hands_market [of "mo\<lparr>mo_shares := sh\<rparr>"] by simp
  have l: "hands (keyed_order (lim_client_order_id lo)) (place_limit_order F A cl \<lparr>lo_symbol = lim_symbol lo,
      lo_shares = sh, lo_direction = lim_direction lo, lo_limit_price = price,
      lo_extended_hours = lim_extended_hours lo, lo_client_order_id = lim_client_order_id lo\<rparr>)"
    for cl sh price
    by (rule hands_limit [where lo = "\<lparr>lo_symbol = lim_symbol lo, lo_shares = sh, lo_direction = lim_direction lo,
        lo_limit_price = price, lo_extended_hours = lim_extended_hours lo,
        lo_client_order_id = lim_client_order_id lo\<rparr>", simplified])
  show "api_hands (keyed_order (mo_client_order_id mo)) (place_market_order_reporting F A io api mo)"
    unfolding place_market_order_reporting_def by (intro api_rules m)
  show "api_hands (keyed_order (lim_client_order_id lo)) (place_limit_order_reporting F A io api lo)"
    unfolding place_limit_order_reporting_def by (intro api_rules l)
  show "api_hands (keyed_order (lo_client_order_id al)) (place_alpaca_limit_order_reporting F A io api al)"
    unfolding place_alpaca_limit_order_reporting_def by (intro api_rules hands_rules)
qed

lemma api_hands_as_placement [api_rules]: "api_hands P m \<Longrightarrow> api_hands P (as_placement rid D m)"
  unfolding as_placement_def by (intro api_rules)

lemma api_hands_as_failure [api_rules]: "api_hands P m \<Longrightarrow> api_hands P (as_broker_failure rid D sent m)"
  unfolding as_broker_failure_def by (intro api_rules)

lemma api_hands_submit [api_rules]: "api_hands (keyed_order k) (submit_conversion F A api c k)"
  unfolding submit_conversion_def convert_usdc_usd_def place_crypto_order_def post_def
  by (intro api_rules hands_rules, split prod.split, intro allI impI)
    (intro hands_rules hands_exchange, simp add: keyed_order_def)

lemma as_broker_failure_return:
  "as_broker_failure rid D sent (return_call r)
   = return_call (map_err (\<lambda>e. broker rid (dp_broker_error D e) e sent) r)"
  by (rule ext) (simp add: as_broker_failure_def map_err_call_def return_call_def)

lemma then_return [simp]:
  "then_call (return_call (Inl e)) f = return_call (Inl e)" "then_call (return_call (Inr x)) f = f x"
  by (rule ext, simp add: then_call_def return_call_def)+

lemma exact_order_key: "alpaca_limit_order_try_from F r = Inr ord \<Longrightarrow> lo_client_order_id ord = lr_client_order_id r"
  by (auto simp: alpaca_limit_order_try_from_def and_then_Inr_iff)

lemma exact_keyed:
  "api_hands (keyed_order (lr_client_order_id r))
     (then_call (as_broker_failure rid D Sent_Read (return_call (alpaca_limit_order_try_from F r))) (\<lambda>ord.
        as_placement rid D (place_alpaca_limit_order_reporting F A io api ord)))"
proof (cases "alpaca_limit_order_try_from F r")
  case (Inl e)
  then show ?thesis by (simp add: as_broker_failure_return api_hands_return)
next
  case (Inr ord)
  have "api_hands (keyed_order (lr_client_order_id r)) (place_alpaca_limit_order_reporting F A io api ord)"
    using facade_placements_keyed(3) [of ord F A io api] by (simp add: exact_order_key [OF Inr])
  with Inr show ?thesis by (simp add: as_broker_failure_return api_hands_as_placement)
qed

fun key_fits :: "tier \<Rightarrow> client_order_id \<Rightarrow> bool" where
  "key_fits Bot (Automated _) = True"
| "key_fits Write (Cli _) = True"
| "key_fits _ _ = False"

lemma key_form: "require_key_form rid tier k = Inr () \<longleftrightarrow> key_fits tier k"
  by (cases tier; cases k) (simp_all add: require_key_form_def)

lemma key_guard:
  fixes s :: "('env, 'w, 'f) api_state"
  assumes "api_hands (keyed_order k) m"
  shows "list_all (keyed_order k) (api_sent (then_call (return_call (require_key_form rid tier k)) (\<lambda>_. m)) s)
    \<and> (key_fits tier k \<or> api_sent (then_call (return_call (require_key_form rid tier k)) (\<lambda>_. m)) s = [])"
proof (cases "require_key_form rid tier k")
  case (Inl f)
  then show ?thesis by (simp add: api_sent_def then_call_def return_call_def)
next
  case (Inr u)
  with key_form [of rid tier k] api_hands_sent [OF assms, of s] show ?thesis
    by (simp add: api_sent_def then_call_def return_call_def)
qed

text \<open>
  C16: Automated and manual orders never share a key. Whatever the four handlers that place orders
  send is a read or the POST of an order under the key of their request; and they send nothing
  at all unless that key has the form of the caller's tier: the bare UUID for the bot, the
  \<open>cli-\<close> form for a writer, none for a reader.
\<close>

theorem orders_carry_the_tiers_key:
  "list_all (keyed_order (mr_client_order_id mr)) (api_sent (place_market_work rid D F A io api tier mr) s)
   \<and> (key_fits tier (mr_client_order_id mr) \<or> api_sent (place_market_work rid D F A io api tier mr) s = [])
   \<and> list_all (keyed_order (lr_client_order_id lr)) (api_sent (place_limit_work rid D F A io api tier lr) s)
   \<and> (key_fits tier (lr_client_order_id lr) \<or> api_sent (place_limit_work rid D F A io api tier lr) s = [])
   \<and> list_all (keyed_order (lr_client_order_id lr)) (api_sent (place_exact_limit_work rid D F A io api tier lr) s)
   \<and> (key_fits tier (lr_client_order_id lr) \<or> api_sent (place_exact_limit_work rid D F A io api tier lr) s = [])
   \<and> list_all (keyed_order (cv_client_order_id cv)) (api_sent (submit_conversion_work rid D F A api tier cv) s)
   \<and> (key_fits tier (cv_client_order_id cv) \<or> api_sent (submit_conversion_work rid D F A api tier cv) s = [])"
proof -
  have m: "api_hands (keyed_order (mr_client_order_id mr))
      (as_placement rid D (place_market_order_reporting F A io api (market_order_from mr)))"
    using facade_placements_keyed(1) [of "market_order_from mr"]
    by (intro api_rules) (simp add: market_order_from_def)
  have l: "api_hands (keyed_order (lr_client_order_id lr))
      (as_placement rid D (place_limit_order_reporting F A io api (limit_order_from lr)))"
    using facade_placements_keyed(2) [of "limit_order_from lr"]
    by (intro api_rules) (simp add: limit_order_from_def)
  have e: "api_hands (keyed_order (lr_client_order_id lr))
      (then_call (as_broker_failure rid D Sent_Read (return_call (alpaca_limit_order_try_from F lr))) (\<lambda>ord.
         as_placement rid D (place_alpaca_limit_order_reporting F A io api ord)))"
    by (rule exact_keyed)
  have c: "api_hands (keyed_order (cv_client_order_id cv))
      (then_call (as_broker_failure rid D Sent_Mutation
         (submit_conversion F A api (conversion_order_from (cv_conversion cv)) (cv_client_order_id cv))) (\<lambda>ord.
     return_call (Inr (done_new ord (cr_id ord)))))"
    by (intro api_rules)
  show ?thesis
    unfolding place_market_work_def place_limit_work_def place_exact_limit_work_def submit_conversion_work_def
    using key_guard [OF m, of rid tier s] key_guard [OF l, of rid tier s] key_guard [OF e, of rid tier s]
      key_guard [OF c, of rid tier s] by blast
qed

text \<open>
  The bot adopts no human order. A lookup, recovery or conversion lookup on the bot tier under a
  human key sends nothing and is answered as an invalid request.
\<close>

theorem bot_never_looks_up_a_human_key:
  assumes "tier = Bot" and "key = Cli u" and "rr_client_order_id r = key"
  shows "(\<exists>m. find_order_work rid D F A api tier key s = (Inl (invalid rid m), s))
    \<and> (\<exists>m. recover_order_work rid D F A api tier r s = (Inl (invalid rid m), s))
    \<and> (\<exists>m. find_conversion_work rid D A api tier key s = (Inl (invalid rid m), s))"
  using assms
  by (simp add: find_order_work_def recover_order_work_def find_conversion_work_def read_work_def
      require_bot_lookup_key_def) (unfold return_call_def, blast)

theorem bot_never_looks_up_a_human_key_witness:
  "\<exists>m. find_order_work ''r'' \<lparr>dp_number = (\<lambda>_. []), dp_broker_error = (\<lambda>_. [])\<rparr> fixed18
      (sample_alpaca 200 200) sample_api Bot (Cli ''k'') (Map.empty, (Orders.sample_net, ()))
    = (Inl (invalid ''r'' m), (Map.empty, (Orders.sample_net, ())))"
  using bot_never_looks_up_a_human_key
    [of Bot "Cli ''k''" "''k''" "\<lparr>rr_symbol = [], rr_shares = 1, rr_direction = Buy, rr_client_order_id = Cli ''k''\<rparr>"
      "''r''" "\<lparr>dp_number = (\<lambda>_. []), dp_broker_error = (\<lambda>_. [])\<rparr>" fixed18 "sample_alpaca 200 200" sample_api]
  by simp

subsection \<open>How a placement fails\<close>

text \<open>A placement handler ended: by one of the three handlers, from a state of the facade.\<close>

definition placement_handler ::
  "uuid \<Rightarrow> 'f displays \<Rightarrow> 'f decimals \<Rightarrow> ('env, 'w, 'f) alpaca \<Rightarrow> ('w, 'f) api_io \<Rightarrow> broker_api \<Rightarrow> tier
   \<Rightarrow> operation \<Rightarrow> ('env, 'w, 'f) api_state \<Rightarrow> 'f order_placement work_result \<times> ('env, 'w, 'f) api_state \<Rightarrow> bool" where
  "placement_handler rid D F A io api tier op s out \<longleftrightarrow>
     op = OrdersPlaceMarket \<and> (\<exists>r. place_market_work rid D F A io api tier r s = out)
     \<or> op = OrdersPlaceLimit \<and> (\<exists>r. place_limit_work rid D F A io api tier r s = out)
     \<or> op = OrdersPlaceExactLimit \<and> (\<exists>r. place_exact_limit_work rid D F A io api tier r s = out)"

lemma as_placement_failed:
  "as_placement rid D m s = (Inl f, s') \<Longrightarrow> \<exists>pe. m s = (Inl pe, s')
     \<and> f = placement rid (dp_broker_error D (placement_error.error pe)) pe"
  by (auto simp: as_placement_def then_call_def map_err_call_def map_err_def return_call_def
      split: prod.splits sum.splits)

lemma guarded_failed:
  assumes "then_call (return_call g) (\<lambda>_. m) s = (Inl f, s')"
  shows "s' = s \<or> m s = (Inl f, s')"
  using assms by (cases g) (auto simp: return_call_def)

lemma placement_handler_failed:
  assumes "placement_handler rid D F A io api tier op s (Inl f, s')"
  obtains (unsent) "s' = s"
  | (placement) pe msg where "f = placement rid msg pe" "facade_places F A io api s (Inl pe, s')"
proof -
  have "s' = s \<or> (\<exists>m. as_placement rid D m s = (Inl f, s')
      \<and> (\<forall>out. m s = out \<longrightarrow> facade_places F A io api s out))"
    using assms unfolding placement_handler_def
  proof (elim disjE conjE exE)
    fix r assume "place_market_work rid D F A io api tier r s = (Inl f, s')"
    from guarded_failed [OF this [unfolded place_market_work_def]] show ?thesis
      by (auto simp: facade_places_def)
  next
    fix r assume "place_limit_work rid D F A io api tier r s = (Inl f, s')"
    from guarded_failed [OF this [unfolded place_limit_work_def]] show ?thesis
      by (auto simp: facade_places_def)
  next
    fix r assume "place_exact_limit_work rid D F A io api tier r s = (Inl f, s')"
    from guarded_failed [OF this [unfolded place_exact_limit_work_def]]
    show ?thesis
    proof
      assume e: "then_call (as_broker_failure rid D Sent_Read (return_call (alpaca_limit_order_try_from F r)))
        (\<lambda>ord. as_placement rid D (place_alpaca_limit_order_reporting F A io api ord)) s = (Inl f, s')"
      show ?thesis
        by (cases "alpaca_limit_order_try_from F r")
          (use e in \<open>auto simp: as_broker_failure_return return_call_def facade_places_def\<close>)
    qed blast
  qed
  then show ?thesis
    using as_placement_failed [of rid D _ s f s'] unsent placement by metis
qed

end
