(* ===== verification/Handlers_Wallet.thy ===== *)
theory Handlers_Wallet
  imports Handlers_Orders Wallet_Client
begin

text \<open>
  The gateway's wallet and journal handlers (\<^verbatim>\<open>crates/gateway/src/handlers/wallet.rs\<close>) with their request
  types (\<^verbatim>\<open>crates/gateway-api/src/dto/wallet.rs\<close>). The wallet handlers run on the wallet client's state, a
  journal on the broker facade's. \<open>show_e\<close> prints a wallet error, \<open>show_n\<close> an amount; the timer \<open>T\<close> drops
  a read at the deadline.
\<close>

subsection \<open>Requests and checks\<close>

record 'f withdraw_request =
  wd_amount :: 'f
  wd_asset :: string
  wd_address :: string
  wd_operation_id :: uuid
  wd_reason :: "string option"

record 'f transfer_response =
  rt_transfer :: "'f transfer"
  rt_reported_fees :: "'f option"

record deposit_address_query =
  dq_asset :: string
  dq_network :: string

record whitelist_create_request =
  wr_address :: string
  wr_asset :: string
  wr_operation_id :: uuid
  wr_reason :: "string option"

record whitelist_remove_request =
  wx_operation_id :: uuid
  wx_reason :: "string option"

record travel_rule_patch_request =
  wp_operation_id :: uuid
  wp_reason :: "string option"

record 'f journal_create_request =
  jc_counterparty :: string
  jc_symbol :: symbol
  jc_qty :: 'f
  jc_operation_id :: uuid
  jc_reason :: "string option"

record 'f journal_create_response =
  jo_id :: uuid
  jo_status :: journal_status
  jo_symbol :: symbol
  jo_quantity :: 'f
  jo_price :: "'f option"
  jo_settle_date :: "string option"

definition journal_create_response_from :: "'f journal_response \<Rightarrow> 'f journal_create_response" where
  "journal_create_response_from j = \<lparr>jo_id = jr_id j, jo_status = jr_status j, jo_symbol = jr_symbol j,
     jo_quantity = jr_quantity j, jo_price = jr_price j, jo_settle_date = jr_settle_date j\<rparr>"

definition check_withdrawal_destination :: "uuid \<Rightarrow> tier \<Rightarrow> gateway_config \<Rightarrow> string \<Rightarrow> failure + unit" where
  "check_withdrawal_destination rid tier config address =
     (if tier = Bot \<and> gc_bot_withdrawal_destinations config = []
      then Inl (failure_new rid CapabilityDisabled
        ''no bot withdrawal destination is configured on this deployment'')
      else
        let pinned = address \<in> set (gc_bot_withdrawal_destinations config)
        in case (tier, pinned) of
             (Bot, False) \<Rightarrow> Inl (destination_not_allowed rid
               (address @ '' is not a withdrawal destination of the bot''))
           | (Read, True) \<Rightarrow> Inl (destination_not_allowed rid (address @ '' is reserved for bot withdrawals''))
           | (Write, True) \<Rightarrow> Inl (destination_not_allowed rid (address @ '' is reserved for bot withdrawals''))
           | _ \<Rightarrow> Inr ())"

definition travel_rule :: "uuid \<Rightarrow> gateway_config \<Rightarrow> failure + travel_rule_info" where
  "travel_rule rid config =
     ok_or (map_option new_travel_rule_info (gc_travel_rule_beneficiary config))
       (failure_new rid CapabilityDisabled ''no Travel Rule beneficiary is configured on this deployment'')"

definition counterparty_account :: "uuid \<Rightarrow> gateway_config \<Rightarrow> string \<Rightarrow> failure + uuid" where
  "counterparty_account rid config cp =
     (if gc_counterparties config = []
      then Inl (failure_new rid CapabilityDisabled ''no journal counterparty is configured on this deployment'')
      else ok_or (map_of (gc_counterparties config) cp)
        (destination_not_allowed rid (cp @ '' is not a configured journal counterparty'')))"

definition is_ascii_alphanumeric :: "char \<Rightarrow> bool" where
  "is_ascii_alphanumeric c =
     (let n = of_char c :: nat in 48 \<le> n \<and> n \<le> 57 \<or> 65 \<le> n \<and> n \<le> 90 \<or> 97 \<le> n \<and> n \<le> 122)"

definition check_query_value :: "uuid \<Rightarrow> string \<Rightarrow> string \<Rightarrow> failure + unit" where
  "check_query_value rid field v =
     (if v \<noteq> [] \<and> list_all (\<lambda>c. is_ascii_alphanumeric c \<or> c = CHR ''_'') v then Inr ()
      else Inl (invalid rid (field @ '' must be letters, digits or underscores'')))"

definition entry_ids :: "whitelist_entry list \<Rightarrow> string list" where
  "entry_ids = map we_id"

subsection \<open>Reads before a write, and writes to every entry\<close>

definition wallet_read_before ::
  "uuid \<Rightarrow> (wallet_error \<Rightarrow> string) \<Rightarrow> 's timer \<Rightarrow> instant \<Rightarrow> ('s \<Rightarrow> (wallet_error + 'a) \<times> 's)
   \<Rightarrow> 's \<Rightarrow> (failure + 'a) \<times> 's" where
  "wallet_read_before rid show_e T deadline read s =
     (case timeout_at T deadline read s of
        (Some r, s') \<Rightarrow> (map_err (\<lambda>e. wallet rid (show_e e) e Sent_Read) r, s')
      | (None, s') \<Rightarrow> (Inl (failure_new rid UpstreamTransient
          ''the deadline passed before the write; it was not sent''), s'))"

definition as_wallet_failure ::
  "uuid \<Rightarrow> (wallet_error \<Rightarrow> string) \<Rightarrow> sent \<Rightarrow> ('s \<Rightarrow> (wallet_error + 'a) \<times> 's) \<Rightarrow> 's \<Rightarrow> (failure + 'a) \<times> 's" where
  "as_wallet_failure rid show_e sent = map_err_call (\<lambda>e. wallet rid (show_e e) e sent)"

datatype entry_write = Entry_Delete | Entry_PatchTravelRule travel_rule_info

definition entry_send ::
  "'f wallet_json \<Rightarrow> ('env, 'w, 'f wallet_body) wire \<Rightarrow> wallet_client \<Rightarrow> entry_write \<Rightarrow> whitelist_entry
   \<Rightarrow> ('env, 'w, 'f wallet_body, wallet_error, unit) wire_call" where
  "entry_send J X c write entry =
     (case write of
        Entry_Delete \<Rightarrow> delete_whitelist_entry J X c (we_id entry)
      | Entry_PatchTravelRule info \<Rightarrow> patch_whitelist_travel_rule J X c (we_id entry) info)"

text \<open>The failure of the loop at \<open>entry\<close>, with the entries changed before it.\<close>

definition stopped_at :: "whitelist_entry list \<Rightarrow> whitelist_entry \<Rightarrow> failure \<Rightarrow> failure" where
  "stopped_at changed entry f =
     (if changed = [] then f
      else (failure_new (fa_request_id f) OutcomeUnknown
        (''whitelist entries '' @ join_ids (entry_ids changed)
         @ '' were already changed when the loop stopped at entry '' @ we_id entry @ '': '' @ fa_message f))
        \<lparr>fa_retry_after := fa_retry_after f, fa_alpaca_status := fa_alpaca_status f,
         fa_alpaca_object_ids := entry_ids changed\<rparr>)"

fun write_entries_from ::
  "uuid \<Rightarrow> (wallet_error \<Rightarrow> string) \<Rightarrow> (whitelist_entry \<Rightarrow> 's \<Rightarrow> (wallet_error + unit) \<times> 's)
   \<Rightarrow> whitelist_entry list \<Rightarrow> whitelist_entry list \<Rightarrow> 's \<Rightarrow> (failure + unit) \<times> 's" where
  "write_entries_from rid show_e put changed [] s = (Inr (), s)"
| "write_entries_from rid show_e put changed (entry # rest) s =
     (case put entry s of
        (Inr _, s') \<Rightarrow> write_entries_from rid show_e put (changed @ [entry]) rest s'
      | (Inl e, s') \<Rightarrow> (Inl (stopped_at changed entry (wallet rid (show_e e) e Sent_Mutation)), s'))"

definition write_entries ::
  "uuid \<Rightarrow> (wallet_error \<Rightarrow> string) \<Rightarrow> 'f wallet_json \<Rightarrow> ('env, 'w, 'f wallet_body) wire \<Rightarrow> wallet_client
   \<Rightarrow> whitelist_entry list \<Rightarrow> entry_write \<Rightarrow> ('env, 'w, 'f wallet_body, failure, unit) wire_call" where
  "write_entries rid show_e J X c entries write =
     write_entries_from rid show_e (entry_send J X c write) [] entries"

subsection \<open>The handlers\<close>

definition withdraw_intent :: "('f \<Rightarrow> string) \<Rightarrow> string option \<Rightarrow> 'f withdraw_request \<Rightarrow> intent" where
  "withdraw_intent show_n digest r =
     with_note (with_note (with_note (with_reason (with_key (intent_of digest) (wd_operation_id r)) (wd_reason r))
       ''amount'' (show_n (wd_amount r))) ''asset'' (wd_asset r)) ''destination'' (wd_address r)"

definition deposit_address_intent :: "deposit_address_query \<Rightarrow> intent" where
  "deposit_address_intent q = with_note (keyed_intent (dq_asset q)) ''network'' (dq_network q)"

definition whitelist_create_intent :: "string option \<Rightarrow> whitelist_create_request \<Rightarrow> intent" where
  "whitelist_create_intent digest r =
     with_note (with_note (with_reason (with_key (intent_of digest) (wr_operation_id r)) (wr_reason r))
       ''destination'' (wr_address r)) ''asset'' (wr_asset r)"

text \<open>A removal is keyed by the address of its path; its operation id is only in the digest.\<close>

definition whitelist_remove_intent :: "string option \<Rightarrow> string \<Rightarrow> whitelist_remove_request \<Rightarrow> intent" where
  "whitelist_remove_intent digest address r =
     with_note (with_reason (with_key (intent_of digest) address) (wx_reason r)) ''destination'' address"

definition whitelist_patch_travel_rule_intent :: "string option \<Rightarrow> travel_rule_patch_request \<Rightarrow> intent" where
  "whitelist_patch_travel_rule_intent digest r =
     with_reason (with_key (intent_of digest) (wp_operation_id r)) (wp_reason r)"

definition withdraw_work ::
  "uuid \<Rightarrow> (wallet_error \<Rightarrow> string) \<Rightarrow> ('env, 'w, 'f wallet_body) wire_state timer \<Rightarrow> 'f wallet_json
   \<Rightarrow> ('env, 'w, 'f wallet_body) wire \<Rightarrow> wallet_client \<Rightarrow> gateway_config \<Rightarrow> tier \<Rightarrow> instant \<Rightarrow> 'f withdraw_request
   \<Rightarrow> ('env, 'w, 'f wallet_body, failure, 'f transfer done_call) wire_call" where
  "withdraw_work rid show_e T J X c config tier deadline r =
     then_call (return_call (check_withdrawal_destination rid tier config (wd_address r))) (\<lambda>_.
     then_call (wallet_read_before rid show_e T deadline
         (check_withdrawal_whitelist J X c (wd_asset r) (wd_address r))) (\<lambda>_.
     then_call (as_wallet_failure rid show_e Sent_Mutation
         (submit_withdrawal J X c (wd_amount r) (wd_asset r) (wd_address r))) (\<lambda>t.
     return_call (Inr (done_new t (tr_id t))))))"

text \<open>\<open>show_fees\<close> prints the error of the fees' sum.\<close>

definition transfer_work ::
  "uuid \<Rightarrow> (wallet_error \<Rightarrow> string) \<Rightarrow> (reported_fees_error \<Rightarrow> string) \<Rightarrow> ('f \<Rightarrow> 'f \<Rightarrow> string + 'f)
   \<Rightarrow> 'f wallet_json \<Rightarrow> ('env, 'w, 'f wallet_body) wire \<Rightarrow> wallet_client \<Rightarrow> uuid
   \<Rightarrow> ('env, 'w, 'f wallet_body, failure, 'f transfer_response done_call) wire_call" where
  "transfer_work rid show_e show_fees add J X c transfer_id =
     read_work (then_call (as_wallet_failure rid show_e Sent_Read (get_transfer_with_fees J X c transfer_id)) (\<lambda>t.
       return_call (case reported_fees add t of
           Inr fees \<Rightarrow> Inr \<lparr>rt_transfer = tf_transfer t, rt_reported_fees = fees\<rparr>
         | Inl (NonUsdcAsset _) \<Rightarrow> Inr \<lparr>rt_transfer = tf_transfer t, rt_reported_fees = None\<rparr>
         | Inl (FeesFloat m) \<Rightarrow> Inl ((failure_new rid UpstreamTransient
             (''cannot sum the fees Alpaca reports: '' @ show_fees (FeesFloat m)))\<lparr>fa_retryable := False\<rparr>))))"

definition transfers_work ::
  "uuid \<Rightarrow> (wallet_error \<Rightarrow> string) \<Rightarrow> 'f wallet_json \<Rightarrow> ('env, 'w, 'f wallet_body) wire \<Rightarrow> wallet_client
   \<Rightarrow> ('env, 'w, 'f wallet_body, failure, 'f transfer list done_call) wire_call" where
  "transfers_work rid show_e J X c =
     read_work (as_wallet_failure rid show_e Sent_Read (list_all_transfers J X c))"

definition find_deposit_work ::
  "uuid \<Rightarrow> (wallet_error \<Rightarrow> string) \<Rightarrow> 'f wallet_json \<Rightarrow> ('env, 'w, 'f wallet_body) wire \<Rightarrow> wallet_client \<Rightarrow> string
   \<Rightarrow> ('env, 'w, 'f wallet_body, failure, 'f transfer option done_call) wire_call" where
  "find_deposit_work rid show_e J X c tx_hash =
     read_work (as_wallet_failure rid show_e Sent_Read (find_deposit_by_tx_hash J X c tx_hash))"

definition deposit_address_work ::
  "uuid \<Rightarrow> (wallet_error \<Rightarrow> string) \<Rightarrow> 'f wallet_json \<Rightarrow> ('env, 'w, 'f wallet_body) wire \<Rightarrow> wallet_client
   \<Rightarrow> deposit_address_query \<Rightarrow> ('env, 'w, 'f wallet_body, failure, string done_call) wire_call" where
  "deposit_address_work rid show_e J X c q =
     read_work (then_call (return_call (check_query_value rid ''asset'' (dq_asset q))) (\<lambda>_.
       then_call (return_call (check_query_value rid ''network'' (dq_network q))) (\<lambda>_.
       as_wallet_failure rid show_e Sent_Read (get_wallet_address J X c (dq_asset q) (dq_network q)))))"

definition whitelist_work ::
  "uuid \<Rightarrow> (wallet_error \<Rightarrow> string) \<Rightarrow> 'f wallet_json \<Rightarrow> ('env, 'w, 'f wallet_body) wire \<Rightarrow> wallet_client
   \<Rightarrow> ('env, 'w, 'f wallet_body, failure, whitelist_entry list done_call) wire_call" where
  "whitelist_work rid show_e J X c =
     read_work (as_wallet_failure rid show_e Sent_Read (get_whitelisted_addresses J X c))"

text \<open>The client ignores the network it is passed (\<open>_network\<close>), so the model has none.\<close>

definition whitelist_create_work ::
  "uuid \<Rightarrow> (wallet_error \<Rightarrow> string) \<Rightarrow> 'f wallet_json \<Rightarrow> ('env, 'w, 'f wallet_body) wire \<Rightarrow> wallet_client
   \<Rightarrow> gateway_config \<Rightarrow> whitelist_create_request
   \<Rightarrow> ('env, 'w, 'f wallet_body, failure, whitelist_entry done_call) wire_call" where
  "whitelist_create_work rid show_e J X c config r =
     then_call (return_call (travel_rule rid config)) (\<lambda>info.
     then_call (as_wallet_failure rid show_e Sent_Mutation
         (create_whitelist_entry J X c (wr_address r) (wr_asset r) info)) (\<lambda>entry.
     return_call (Inr (done_new entry (we_id entry)))))"

definition done_entries :: "whitelist_entry list \<Rightarrow> whitelist_entry list done_call" where
  "done_entries entries = \<lparr>dn_body = entries, dn_alpaca_object_ids = entry_ids entries\<rparr>"

definition whitelist_remove_work ::
  "uuid \<Rightarrow> (wallet_error \<Rightarrow> string) \<Rightarrow> ('env, 'w, 'f wallet_body) wire_state timer \<Rightarrow> 'f wallet_json
   \<Rightarrow> ('env, 'w, 'f wallet_body) wire \<Rightarrow> wallet_client \<Rightarrow> instant \<Rightarrow> string
   \<Rightarrow> ('env, 'w, 'f wallet_body, failure, whitelist_entry list done_call) wire_call" where
  "whitelist_remove_work rid show_e T J X c deadline address =
     then_call (wallet_read_before rid show_e T deadline (get_whitelisted_addresses J X c)) (\<lambda>listed.
       let entries = filter (\<lambda>e. we_address e = address) listed
       in if entries = []
          then return_call (Inl (wallet rid (show_e (Wal_NoWhitelistEntries address))
                 (Wal_NoWhitelistEntries address) Sent_Read))
          else then_call (write_entries rid show_e J X c entries Entry_Delete) (\<lambda>_.
            return_call (Inr (done_entries entries))))"

definition whitelist_patch_travel_rule_work ::
  "uuid \<Rightarrow> (wallet_error \<Rightarrow> string) \<Rightarrow> ('env, 'w, 'f wallet_body) wire_state timer \<Rightarrow> 'f wallet_json
   \<Rightarrow> ('env, 'w, 'f wallet_body) wire \<Rightarrow> wallet_client \<Rightarrow> gateway_config \<Rightarrow> instant
   \<Rightarrow> ('env, 'w, 'f wallet_body, failure, whitelist_entry list done_call) wire_call" where
  "whitelist_patch_travel_rule_work rid show_e T J X c config deadline =
     then_call (return_call (travel_rule rid config)) (\<lambda>info.
     then_call (wallet_read_before rid show_e T deadline (get_whitelisted_addresses J X c)) (\<lambda>entries.
     then_call (write_entries rid show_e J X c entries (Entry_PatchTravelRule info)) (\<lambda>_.
     return_call (Inr (done_entries entries)))))"

definition journal_create_intent :: "('f \<Rightarrow> string) \<Rightarrow> string option \<Rightarrow> 'f journal_create_request \<Rightarrow> intent" where
  "journal_create_intent show_n digest r =
     with_note (with_note (with_note (with_reason (with_key (intent_of digest) (jc_operation_id r)) (jc_reason r))
       ''counterparty'' (jc_counterparty r)) ''symbol'' (jc_symbol r)) ''quantity'' (show_n (jc_qty r))"

definition journal_create_work ::
  "uuid \<Rightarrow> 'f displays \<Rightarrow> ('env, 'w, 'f) alpaca \<Rightarrow> ('w, 'f) api_io \<Rightarrow> broker_api \<Rightarrow> gateway_config
   \<Rightarrow> 'f journal_create_request
   \<Rightarrow> ('env, 'w, 'f, failure, 'f journal_create_response done_call) api_call" where
  "journal_create_work rid D A io api config r =
     then_call (return_call (counterparty_account rid config (jc_counterparty r))) (\<lambda>destination.
     then_call (as_broker_failure rid D Sent_Mutation
         (api_create_journal A io api destination (jc_symbol r) (jc_qty r))) (\<lambda>j.
     return_call (Inr (done_new (journal_create_response_from j) (jr_id j)))))"

subsection \<open>Withdrawals\<close>

text \<open>tokio: a future dropped at the deadline handed over a prefix of what it would have.\<close>

definition drops_cut_short :: "('env, 'w, 'b) wire_state timer \<Rightarrow> bool" where
  "drops_cut_short T \<longleftrightarrow>
     (\<forall>D s s' s'' reqs. sends s reqs s' \<longrightarrow> tm_dropped T D s s' = Some s'' \<longrightarrow> (\<exists>k. sends s (take k reqs) s''))"

lemma drops_cut_shortD:
  "drops_cut_short T \<Longrightarrow> sends s reqs s' \<Longrightarrow> tm_dropped T D s s' = Some s'' \<Longrightarrow> \<exists>k. sends s (take k reqs) s''"
  unfolding drops_cut_short_def by blast

lemma wallet_read_known: "fa_code (wallet rid m e Sent_Read) \<noteq> OutcomeUnknown"
  by (cases e) (auto simp: wallet_def split: option.splits)

text \<open>
  A read bounded by the deadline, when the read itself is one GET: it sends that GET or nothing, it
  never leaves an outcome open, and its result was read from the answer.
\<close>

lemma bounded_read:
  assumes cut: "drops_cut_short T"
    and call: "wallet_read_before rid show_e T deadline m s = (r, s')"
    and get: "\<And>x s1. m s = (x, s1) \<Longrightarrow> sends s [] s1 \<and> (\<exists>e. x = Inl e)
      \<or> (\<exists>g. sends s [g] s1 \<and> Q g \<and> (\<forall>v. x = Inr v \<longrightarrow> P g v))"
  shows "sends s [] s' \<and> (\<exists>f. r = Inl f \<and> fa_code f \<noteq> OutcomeUnknown)
    \<or> (\<exists>g. sends s [g] s' \<and> Q g \<and> (case r of Inl f \<Rightarrow> fa_code f \<noteq> OutcomeUnknown | Inr v \<Rightarrow> P g v))"
proof -
  obtain x s1 where m: "m s = (x, s1)" by (rule prod.exhaust)
  show ?thesis
  proof (cases "tm_dropped T deadline s s1")
    case None
    with m call have "s' = s1" "r = map_err (\<lambda>e. wallet rid (show_e e) e Sent_Read) x"
      by (auto simp: wallet_read_before_def timeout_at_def)
    with get [OF m] show ?thesis
      by (elim disjE exE conjE) (simp add: wallet_read_known, cases x, auto simp: wallet_read_known)
  next
    case (Some s2)
    have "wallet_read_before rid show_e T deadline m s = (Inl (failure_new rid UpstreamTransient
        ''the deadline passed before the write; it was not sent''), s2)"
      by (simp add: wallet_read_before_def timeout_at_def m Some)
    with call have "s' = s2" and f: "r = Inl (failure_new rid UpstreamTransient
        ''the deadline passed before the write; it was not sent'')" by simp_all
    then have r: "\<exists>f. r = Inl f \<and> fa_code f \<noteq> OutcomeUnknown" by (simp add: failure_new_def)
    note drop = drops_cut_shortD [OF cut _ Some [folded \<open>s' = s2\<close>]]
    from get [OF m] show ?thesis
    proof (elim disjE exE conjE)
      assume "sends s [] s1"
      from drop [OF this] have "sends s [] s'" by simp
      with r show ?thesis by blast
    next
      fix g assume g: "sends s [g] s1" "Q g"
      from drop [OF g(1)] obtain k where "sends s (take k [g]) s'" ..
      then have "sends s [] s' \<or> sends s [g] s'" by (cases k) auto
      with g(2) r show ?thesis by force
    qed
  qed
qed

lemma bounded_whitelist_read:
  assumes "drops_cut_short T"
    and "wallet_read_before rid show_e T deadline (get_whitelisted_addresses J X c) s = (r, s')"
  shows "sends s [] s' \<and> (\<exists>f. r = Inl f \<and> fa_code f \<noteq> OutcomeUnknown)
    \<or> (\<exists>g. sends s [g] s' \<and> is_request W_Get (wc_base_url c @ whitelists_path c) None g
         \<and> (case r of Inl f \<Rightarrow> fa_code f \<noteq> OutcomeUnknown | Inr entries \<Rightarrow> listed_by J X g entries))"
  by (rule bounded_read [OF assms whitelist_read_sends])

lemma bounded_whitelist_check:
  assumes "drops_cut_short T"
    and "wallet_read_before rid show_e T deadline (check_withdrawal_whitelist J X c asset to_address) s = (r, s')"
  shows "sends s [] s' \<and> (\<exists>f. r = Inl f \<and> fa_code f \<noteq> OutcomeUnknown)
    \<or> (\<exists>g. sends s [g] s' \<and> is_request W_Get (wc_base_url c @ whitelists_path c) None g
         \<and> (case r of Inl f \<Rightarrow> fa_code f \<noteq> OutcomeUnknown
            | Inr _ \<Rightarrow> (\<exists>entries. listed_by J X g entries \<and> whitelisted_and_approved to_address asset entries)))"
  by (rule bounded_read [OF assms, where P = "\<lambda>g _. \<exists>entries. listed_by J X g entries
      \<and> whitelisted_and_approved to_address asset entries"]) (use check_whitelist_sends in fastforce)

lemma destination_in_lane:
  "check_withdrawal_destination rid tier config address = Inr ()
   \<Longrightarrow> address \<in> set (gc_bot_withdrawal_destinations config) \<longleftrightarrow> tier = Bot"
  by (cases tier) (auto simp: check_withdrawal_destination_def Let_def split: if_splits bool.splits)

lemma withdraw_cases:
  assumes cut: "drops_cut_short T"
    and w: "withdraw_work rid show_e T J X c config tier deadline r s = (x, s')"
  obtains
    (early) gs f where "sends s gs s'" "length gs \<le> 1" "list_all (\<lambda>g. wq_method g = W_Get) gs"
      "x = Inl f" "fa_code f \<noteq> OutcomeUnknown"
  | (submitted) g s1 y entries where "sends s [g] s1" "wq_method g = W_Get" "listed_by J X g entries"
      "whitelisted_and_approved (wd_address r) (wd_asset r) entries"
      "wd_address r \<in> set (gc_bot_withdrawal_destinations config) \<longleftrightarrow> tier = Bot"
      "submit_withdrawal J X c (wd_amount r) (wd_asset r) (wd_address r) s1 = (y, s')"
      "x = (case y of Inl e \<Rightarrow> Inl (wallet rid (show_e e) e Sent_Mutation) | Inr t \<Rightarrow> Inr (done_new t (tr_id t)))"
proof (cases "check_withdrawal_destination rid tier config (wd_address r)")
  case (Inl f)
  then have "fa_code f \<noteq> OutcomeUnknown"
    by (auto simp: check_withdrawal_destination_def Let_def failure_new_def destination_not_allowed_def
        split: if_splits tier.splits bool.splits)
  with Inl w show ?thesis
    by (intro that(1) [of "[]" f]) (auto simp: withdraw_work_def return_call_def)
next
  case (Inr u)
  let ?read = "wallet_read_before rid show_e T deadline
    (check_withdrawal_whitelist J X c (wd_asset r) (wd_address r))"
  let ?rest = "\<lambda>_. then_call (as_wallet_failure rid show_e Sent_Mutation
    (submit_withdrawal J X c (wd_amount r) (wd_asset r) (wd_address r))) (\<lambda>t. return_call (Inr (done_new t (tr_id t))))"
  from Inr w have "then_call ?read ?rest s = (x, s')" by (simp add: withdraw_work_def)
  then show ?thesis
  proof (cases rule: then_call_Pair)
    case (failed f)
    with bounded_whitelist_check [OF cut failed(1)] show ?thesis
      by (auto simp: is_query_def intro: that(1) [of "[]" f] that(1) [of "[g]" f for g])
  next
    case (went_on v s1)
    then obtain g entries where g: "sends s [g] s1" "wq_method g = W_Get" "listed_by J X g entries"
      "whitelisted_and_approved (wd_address r) (wd_asset r) entries"
      using bounded_whitelist_check [OF cut went_on(1)] by (auto simp: is_query_def)
    obtain y s2 where y: "submit_withdrawal J X c (wd_amount r) (wd_asset r) (wd_address r) s1 = (y, s2)"
      by (rule prod.exhaust)
    with went_on(2) have "s2 = s'" "x = (case y of Inl e \<Rightarrow> Inl (wallet rid (show_e e) e Sent_Mutation)
        | Inr t \<Rightarrow> Inr (done_new t (tr_id t)))"
      by (auto simp: then_call_def as_wallet_failure_def map_err_call_def return_call_def split: sum.splits)
    with g y destination_in_lane Inr show ?thesis by (intro that(2) [of g s1 entries y]) auto
  qed
qed

text \<open>
  C10: Withdrawals stay in their lane. The handler sends nothing, or one read, or the whitelist read
  followed by one POST; that POST asks for exactly the amount, asset and address of the request, it is
  sent only after Alpaca listed an approved entry for this address and asset, and its address
  is one of the destinations pinned for the bot if, and only if, the caller is the bot.
\<close>

theorem withdrawals_stay_in_lane:
  assumes "drops_cut_short T"
    and "withdraw_work rid show_e T J X c config tier deadline r s = (x, s')"
  shows "(\<exists>gs. sends s gs s' \<and> length gs \<le> 1 \<and> list_all (\<lambda>g. wq_method g = W_Get) gs \<and> (\<exists>f. x = Inl f))
    \<or> (\<exists>g p entries. sends s [g, p] s' \<and> wq_method g = W_Get
         \<and> is_request W_Post (wc_base_url c @ transfers_path c)
              (Some (Withdrawal_Body (wd_amount r) (wd_asset r) (wj_checksum J (wd_address r)))) p
         \<and> listed_by J X g entries \<and> whitelisted_and_approved (wd_address r) (wd_asset r) entries
         \<and> (wd_address r \<in> set (gc_bot_withdrawal_destinations config) \<longleftrightarrow> tier = Bot))"
  using assms
proof (cases rule: withdraw_cases)
  case (early gs f)
  then show ?thesis by blast
next
  case (submitted g s1 y entries)
  from submit_withdrawal_sends [OF submitted(6)]
  consider "sends s1 [] s'" "\<exists>e. y = Inl e"
    | p where "sends s1 [p] s'" "is_request W_Post (wc_base_url c @ transfers_path c)
        (Some (Withdrawal_Body (wd_amount r) (wd_asset r) (wj_checksum J (wd_address r)))) p"
    by blast
  then show ?thesis
  proof cases
    case 1
    with submitted sends_trans [OF submitted(1) 1(1)] show ?thesis
      by (intro disjI1 exI [of _ "[g]"]) auto
  next
    case 2
    with submitted sends_trans [OF submitted(1) 2(1)] show ?thesis by auto
  qed
qed

text \<open>A write that failed without leaving its outcome open was never sent, or took no effect.\<close>

lemma submit_not_applied:
  assumes late: "wire_reads_late X"
    and s: "submit_withdrawal J X c amount asset to_address s = (Inl e, s')"
    and known: "fa_code (wallet rid m e Sent_Mutation) \<noteq> OutcomeUnknown"
  shows "sends s [] s' \<or> (\<exists>p w1. sends s [p] s' \<and> took_no_effect (fst (wi_http X p w1)))"
  using submit_withdrawal_sends [OF s]
proof (elim disjE exE conjE)
  fix p h w1 w2
  assume p: "sends s [p] s'" "wi_http X p w1 = (Inl h, w2)" "Inl e = Inl (Wal_Reqwest h)"
  then have "is_builder h \<or> is_connect h" using known wallet_mutation_code [of e] by simp
  with p(2) have "took_no_effect (fst (wi_http X p w1))" by simp
  with p(1) show ?thesis by blast
next
  fix p a w1 w2 x s1 s2
  assume p: "sends s [p] s'" "wi_http X p w1 = (Inr a, w2)" "read_response_body J X a s1 = (x, s2)"
    and e: "Inl e = and_then x (\<lambda>b. map_err Wal_ParseError (wj_transfer J b))"
  have "is_client_error (ha_status a) \<and> ha_status a \<noteq> 408"
  proof (cases "is_success (ha_status a)")
    case True
    then have "x = Inr b \<or> (\<exists>bs. x = Inl (Wal_Utf8 bs))
        \<or> (\<exists>h. ha_body a = Inl h \<and> x = Inl (Wal_Reqwest h))" if "\<nexists>b. x = Inr b" for b
      using p(3) that
      by (cases x; auto simp: read_response_body_def Let_def map_err_def split: sum.splits if_splits)
    then have "(\<exists>t. e = Wal_ParseError t) \<or> (\<exists>bs. e = Wal_Utf8 bs) \<or> (\<exists>h. ha_body a = Inl h \<and> e = Wal_Reqwest h)"
      using e by (cases x) (auto simp: map_err_def split: sum.splits)
    moreover have "\<not> (is_builder h \<or> is_connect h)" if "ha_body a = Inl h" for h
      using late p(2) that unfolding wire_reads_late_def by blast
    ultimately have False using known wallet_mutation_code [of e] by auto
    then show ?thesis ..
  next
    case False
    then obtain t w where "e = Wal_ApiError (ha_status a) t w"
      using p(3) e by (auto simp: read_response_body_def Let_def split: sum.splits if_splits)
    then show ?thesis using known wallet_mutation_code [of e] by (auto simp: is_client_error_def)
  qed
  with p(2) have "took_no_effect (fst (wi_http X p w1))" by simp
  with p(1) show ?thesis by blast
qed auto

text \<open>
  C11: A withdrawal answered \<open>not_applied\<close> moved nothing: the only POST the handler sent, if any, was
  never delivered or was refused by Alpaca. Withdrawals carry no key Alpaca dedupes by, so a
  caller that retries on any other answer may withdraw twice.
\<close>

theorem withdrawal_not_applied_moved_nothing:
  assumes "drops_cut_short T" and "wire_reads_late X"
    and "withdraw_work rid show_e T J X c config tier deadline r s = (Inl f, s')"
    and "fa_outcome (for_mutation f WalletWithdraw) = Some NotApplied"
  shows "\<exists>reqs. sends s reqs s'
    \<and> list_all (\<lambda>q. wq_method q = W_Get \<or> (\<exists>w1. took_no_effect (fst (wi_http X q w1)))) reqs"
  using assms(1,3)
proof (cases rule: withdraw_cases)
  case (early gs f')
  then show ?thesis by (intro exI [of _ gs]) (auto simp: list_all_iff)
next
  case (submitted g s1 y entries)
  then obtain e where e: "y = Inl e" "f = wallet rid (show_e e) e Sent_Mutation"
    by (cases y) auto
  have "fa_code (wallet rid (show_e e) e Sent_Mutation) \<noteq> OutcomeUnknown"
    using assms(4) e(2) by (auto simp: for_mutation_def mutates_def split: if_splits)
  from submit_not_applied [OF assms(2) submitted(6) [unfolded e(1)] this] show ?thesis
  proof (elim disjE exE conjE)
    assume "sends s1 [] s'"
    with submitted(2) sends_trans [OF submitted(1) this] show ?thesis by (intro exI [of _ "[g]"]) auto
  next
    fix p w1 assume p: "sends s1 [p] s'" "took_no_effect (fst (wi_http X p w1))"
    with submitted(2) sends_trans [OF submitted(1) p(1)] show ?thesis by (intro exI [of _ "[g, p]"]) auto
  qed
qed

subsection \<open>Whitelist writes\<close>

definition entry_request :: "wallet_client \<Rightarrow> entry_write \<Rightarrow> whitelist_entry \<Rightarrow> 'f wallet_body wire_request \<Rightarrow> bool" where
  "entry_request c write entry =
     (case write of
        Entry_Delete \<Rightarrow> is_request W_Delete (wc_base_url c @ whitelists_path c @ ''/'' @ we_id entry) None
      | Entry_PatchTravelRule info \<Rightarrow>
          is_request W_Patch (wc_base_url c @ whitelists_path c @ ''/'' @ we_id entry @ ''/travel-rule-info'')
            (Some (Travel_Rule_Body info)))"

definition confirmed :: "('env, 'w, 'b) wire \<Rightarrow> 'b wire_request \<Rightarrow> bool" where
  "confirmed X q \<longleftrightarrow> (\<exists>a w1 w2. wi_http X q w1 = (Inr a, w2) \<and> is_success (ha_status a))"

lemma confirm_write_result:
  assumes "confirm_write J X a s = (r, s')"
  shows "if is_success (ha_status a) then r = Inr () else \<exists>t w. r = Inl (Wal_ApiError (ha_status a) t w)"
  using assms
  by (auto simp: confirm_write_def read_response_body_def Let_def split: prod.splits sum.splits if_splits)

lemma entry_send_cases:
  fixes X :: "('env, 'w, 'f wallet_body) wire"
  assumes "entry_send J X c write entry s = (r, s')"
  obtains
    (unsent) e where "sends s [] s'" "r = Inl e" "is_wallet_post_error e" "\<not> wallet_post_open e"
  | (sent) q where "sends s [q] s'" "entry_request c write entry q" "r = Inr ()" "confirmed X q"
  | (failed) q e where "sends s [q] s'" "entry_request c write entry q" "r = Inl e" "is_wallet_post_error e"
      "\<not> wallet_post_open e \<Longrightarrow> \<exists>w1. took_no_effect (fst (wi_http X q w1))"
proof -
  define m where "m = (case write of Entry_Delete \<Rightarrow> W_Delete | Entry_PatchTravelRule _ \<Rightarrow> W_Patch)"
  define u where "u = wc_base_url c @ whitelists_path c @ ''/'' @ we_id entry
    @ (case write of Entry_Delete \<Rightarrow> [] | Entry_PatchTravelRule _ \<Rightarrow> ''/travel-rule-info'')"
  define b :: "'f wallet_body option"
    where "b = (case write of Entry_Delete \<Rightarrow> None | Entry_PatchTravelRule i \<Rightarrow> Some (Travel_Rule_Body i))"
  have "then_call (wallet_transmit X m u b) (confirm_write J X) s = (r, s')"
    using assms by (cases "write") (simp_all add: entry_send_def m_def u_def b_def delete_whitelist_entry_def
        patch_whitelist_travel_rule_def wallet_delete_def wallet_patch_def)
  from exchange_sends [OF this confirm_write_keeps] show ?thesis
  proof (elim disjE exE conjE)
    fix q h w1 w2
    assume q: "sends s [q] s'" "is_request m u b q" "wi_http X q w1 = (Inl h, w2)"
      "r = Inl (wallet_from_send (SendHttp h))"
    have e: "entry_request c write entry q"
      using q(2) by (cases "write") (simp_all add: entry_request_def m_def u_def b_def)
    show ?thesis
    proof (rule that(3) [of q "Wal_Reqwest h"])
      assume "\<not> wallet_post_open (Wal_Reqwest h)"
      with q(3) have "took_no_effect (fst (wi_http X q w1))" by simp
      then show "\<exists>w1. took_no_effect (fst (wi_http X q w1))" ..
    qed (use q e in simp_all)
  next
    fix q a w1 w2 s1
    assume q: "sends s [q] s'" "is_request m u b q" "wi_http X q w1 = (Inr a, w2)" "confirm_write J X a s1 = (r, s')"
    have e: "entry_request c write entry q"
      using q(2) by (cases "write") (simp_all add: entry_request_def m_def u_def b_def)
    show ?thesis
    proof (cases "is_success (ha_status a)")
      case True
      with q e confirm_write_result [OF q(4)] show ?thesis
        by (intro that(2) [of q]) (auto simp: confirmed_def)
    next
      case False
      with confirm_write_result [OF q(4)] obtain t w where r: "r = Inl (Wal_ApiError (ha_status a) t w)" by auto
      show ?thesis
      proof (rule that(3) [OF q(1) e r])
        assume "\<not> wallet_post_open (Wal_ApiError (ha_status a) t w)"
        with q(3) have "took_no_effect (fst (wi_http X q w1))" by (simp add: is_client_error_def)
        then show "\<exists>w1. took_no_effect (fst (wi_http X q w1))" ..
      qed simp
    qed
  qed (auto intro: that(1))
qed

text \<open>The loop: the entries confirmed in order, then the entry it stopped at, if it stopped.\<close>

abbreviation confirmed_write where
  "confirmed_write X c write e q \<equiv> entry_request c write e q \<and> confirmed X q"

lemma write_entries_ok:
  assumes "write_entries_from rid show_e (entry_send J X c write) changed entries s = (Inr u, s')"
  shows "\<exists>reqs. list_all2 (confirmed_write X c write) entries reqs \<and> sends s reqs s'"
  using assms
proof (induction entries arbitrary: changed s)
  case Nil
  then show ?case by (auto simp: sends_def)
next
  case (Cons entry rest)
  obtain x s1 where x: "entry_send J X c write entry s = (x, s1)" by (rule prod.exhaust)
  from x show ?case
  proof (cases rule: entry_send_cases)
    case (sent q)
    with Cons.prems x have "write_entries_from rid show_e (entry_send J X c write) (changed @ [entry]) rest s1 = (Inr u, s')"
      by simp
    from Cons.IH [OF this] obtain reqs where k: "list_all2 (confirmed_write X c write) rest reqs" "sends s1 reqs s'"
      by blast
    with sent sends_trans [OF sent(1) k(2)] show ?thesis by (intro exI [of _ "q # reqs"]) simp
  qed (use Cons.prems x in simp_all)
qed

lemma write_entries_stop:
  assumes "write_entries_from rid show_e (entry_send J X c write) changed entries s = (Inl f, s')"
  shows "\<exists>k reqs e more. k < length entries \<and> list_all2 (confirmed_write X c write) (take k entries) reqs
    \<and> is_wallet_post_error e \<and> sends s (reqs @ more) s' \<and> length more \<le> 1
    \<and> f = stopped_at (changed @ take k entries) (entries ! k) (wallet rid (show_e e) e Sent_Mutation)
    \<and> list_all (entry_request c write (entries ! k)) more
    \<and> (wallet_post_open e \<or> list_all (\<lambda>q. \<exists>w1. took_no_effect (fst (wi_http X q w1))) more)"
  using assms
proof (induction entries arbitrary: changed s)
  case Nil
  then show ?case by simp
next
  case (Cons entry rest)
  obtain x s1 where x: "entry_send J X c write entry s = (x, s1)" by (rule prod.exhaust)
  from x show ?case
  proof (cases rule: entry_send_cases)
    case (unsent e)
    with Cons.prems x show ?thesis
      by (intro exI [of _ 0] exI [of _ "[]"] exI [of _ e]) simp
  next
    case (failed q e)
    then have "wallet_post_open e \<or> (\<exists>w1. took_no_effect (fst (wi_http X q w1)))" by blast
    with failed Cons.prems x show ?thesis
      by (intro exI [of _ 0] exI [of _ "[]"] exI [of _ e] exI [of _ "[q]"]) simp
  next
    case (sent q)
    with Cons.prems x have "write_entries_from rid show_e (entry_send J X c write) (changed @ [entry]) rest s1 = (Inl f, s')"
      by simp
    from Cons.IH [OF this] obtain k reqs e more where k: "k < length rest"
      "list_all2 (confirmed_write X c write) (take k rest) reqs" "is_wallet_post_error e"
      "sends s1 (reqs @ more) s'" "length more \<le> 1"
      "f = stopped_at ((changed @ [entry]) @ take k rest) (rest ! k) (wallet rid (show_e e) e Sent_Mutation)"
      "list_all (entry_request c write (rest ! k)) more"
      "wallet_post_open e \<or> list_all (\<lambda>q. \<exists>w1. took_no_effect (fst (wi_http X q w1))) more"
      by blast
    with sent sends_trans [OF sent(1) k(4)] show ?thesis
      by (intro exI [of _ "Suc k"] exI [of _ "q # reqs"] exI [of _ e] exI [of _ more]) simp
  qed
qed


lemma write_entries_not_applied:
  assumes "write_entries rid show_e J X c entries write s = (Inl f, s')" "fa_code f \<noteq> OutcomeUnknown"
  shows "\<exists>more. sends s more s' \<and> list_all (\<lambda>q. \<exists>w1. took_no_effect (fst (wi_http X q w1))) more"
proof -
  from write_entries_stop [OF assms(1) [unfolded write_entries_def]] obtain k reqs e more where k:
    "k < length entries" "is_wallet_post_error e" "sends s (reqs @ more) s'"
    "f = stopped_at (take k entries) (entries ! k) (wallet rid (show_e e) e Sent_Mutation)"
    "wallet_post_open e \<or> list_all (\<lambda>q. \<exists>w1. took_no_effect (fst (wi_http X q w1))) more"
    "list_all2 (confirmed_write X c write) (take k entries) reqs" by auto
  have "take k entries = []"
    using assms(2) k(4) by (auto simp: stopped_at_def failure_new_def split: if_splits)
  with k assms(2) wallet_mutation_code [OF k(2), of rid "show_e e"] show ?thesis
    by (intro exI [of _ more]) (simp add: stopped_at_def)
qed

text \<open>
  A whitelist removal or Travel Rule update answered \<open>not_applied\<close> changed no entry: what it sent
  besides the whitelist read was never delivered or was refused.
\<close>

theorem whitelist_not_applied_changed_nothing:
  assumes "drops_cut_short T"
    and "whitelist_remove_work rid show_e T J X c deadline address s = (Inl f, s')
        \<or> whitelist_patch_travel_rule_work rid show_e T J X c config deadline s = (Inl f, s')"
    and "fa_outcome (for_mutation f WalletWhitelistRemove) = Some NotApplied"
  shows "\<exists>reqs. sends s reqs s'
    \<and> list_all (\<lambda>q. wq_method q = W_Get \<or> (\<exists>w1. took_no_effect (fst (wi_http X q w1)))) reqs"
proof -
  have known: "fa_code f \<noteq> OutcomeUnknown"
    using assms(3) by (auto simp: for_mutation_def mutates_def split: if_splits)
  let ?goal = "\<exists>reqs. sends s reqs s'
    \<and> list_all (\<lambda>q. wq_method q = W_Get \<or> (\<exists>w1. took_no_effect (fst (wi_http X q w1)))) reqs"
  have writes: ?goal
    if g: "sends s [g] s1" "wq_method g = W_Get" and w: "write_entries rid show_e J X c entries wt s1 = (Inl f, s')"
    for g s1 entries wt
  proof -
    obtain more where more: "sends s1 more s'" "list_all (\<lambda>q. \<exists>w1. took_no_effect (fst (wi_http X q w1))) more"
      using write_entries_not_applied [OF w known] by blast
    with g(2) sends_trans [OF g(1) more(1)] show ?thesis
      by (intro exI [of _ "g # more"]) (auto simp: list_all_iff)
  qed
  have loop: ?goal
    if "then_call (wallet_read_before rid show_e T deadline (get_whitelisted_addresses J X c)) k s = (Inl f, s')"
      and "\<And>es s1. k es s1 = (Inl f, s') \<Longrightarrow> s' = s1
        \<or> (\<exists>entries write. write_entries rid show_e J X c entries write s1 = (Inl f, s'))"
    for k :: "whitelist_entry list \<Rightarrow> ('a, 'c, 'b wallet_body, failure, whitelist_entry list done_call) wire_call"
    using that(1)
  proof (cases rule: then_call_Pair)
    case (failed f')
    with bounded_whitelist_read [OF assms(1) failed(1)] show ?thesis
      by (auto simp: is_query_def intro: exI [of _ "[]"] exI [of _ "[g]" for g])
  next
    case (went_on es s1)
    with bounded_whitelist_read [OF assms(1) went_on(1)] obtain g where g: "sends s [g] s1" "wq_method g = W_Get"
      by (auto simp: is_query_def)
    from that(2) [OF went_on(2)] show ?thesis
    proof (elim disjE exE)
      assume "s' = s1"
      with g show ?thesis by (intro exI [of _ "[g]"]) simp
    next
      fix entries wt assume "write_entries rid show_e J X c entries wt s1 = (Inl f, s')"
      from writes [OF g this] show ?thesis .
    qed
  qed
  from assms(2) show ?thesis
  proof
    assume r: "whitelist_remove_work rid show_e T J X c deadline address s = (Inl f, s')"
    show ?thesis
      by (rule loop [OF r [unfolded whitelist_remove_work_def]])
        (auto simp: Let_def return_call_def then_call_def split: if_splits prod.splits sum.splits)
  next
    assume "whitelist_patch_travel_rule_work rid show_e T J X c config deadline s = (Inl f, s')"
    then show ?thesis unfolding whitelist_patch_travel_rule_work_def
    proof (cases rule: then_call_Pair)
      case (failed e)
      then show ?thesis by (intro exI [of _ "[]"]) (auto simp: return_call_def)
    next
      case (went_on info s1)
      then have "s1 = s" by (simp add: return_call_def)
      show ?thesis
        by (rule loop [OF went_on(2) [unfolded \<open>s1 = s\<close>]])
          (auto simp: return_call_def then_call_def split: prod.splits sum.splits)
    qed
  qed
qed

subsection \<open>Journals and deposit addresses\<close>

text \<open>
  Shares leave by journal only for a configured counterparty. Whatever \<open>journals.create\<close> sends is one
  POST of a journal of exactly the requested shares from the deployment's own account to the account
  the configuration names for the counterparty; for a name it does not hold, nothing is sent and the
  answer is a refusal.
\<close>

definition journal_post ::
  "broker_api \<Rightarrow> uuid \<Rightarrow> 'f journal_create_request \<Rightarrow> 'f broker_request \<Rightarrow> bool" where
  "journal_post api account r q \<longleftrightarrow> br_method q = M_Post
     \<and> br_body q = Some (Journal_Body \<lparr>jq_from_account = cl_account_id (ba_client api), jq_to_account = account,
         jq_entry_type = Jnls, jq_symbol = jc_symbol r, jq_quantity = jc_qty r\<rparr>)"

lemma api_hands_journal:
  "api_hands (journal_post api account r) (api_create_journal A io api account (jc_symbol r) (jc_qty r))"
  unfolding api_create_journal_def create_journal_def post_def
  by (intro api_rules hands_rules hands_exchange) (simp add: journal_post_def journal_security_def)

theorem journals_go_to_configured_counterparties:
  "case map_of (gc_counterparties config) (jc_counterparty r) of
     Some account \<Rightarrow> list_all (journal_post api account r) (api_sent (journal_create_work rid D A io api config r) s)
   | None \<Rightarrow> \<exists>f. journal_create_work rid D A io api config r s = (Inl f, s) \<and> code_status (fa_code f) = 403"
proof (cases "map_of (gc_counterparties config) (jc_counterparty r)")
  case None
  then show ?thesis
    by (auto simp: journal_create_work_def counterparty_account_def ok_or_def return_call_def
        failure_new_def destination_not_allowed_def)
next
  case (Some account)
  then have "counterparty_account rid config (jc_counterparty r) = Inr account"
    by (auto simp: counterparty_account_def ok_or_def)
  then have "journal_create_work rid D A io api config r = then_call (as_broker_failure rid D Sent_Mutation
      (api_create_journal A io api account (jc_symbol r) (jc_qty r))) (\<lambda>j.
        return_call (Inr (done_new (journal_create_response_from j) (jr_id j))))"
    by (simp add: journal_create_work_def)
  moreover have "api_hands (journal_post api account r) \<dots>"
    by (intro api_rules api_hands_journal)
  ultimately show ?thesis using Some by (simp add: api_hands_sent)
qed

text \<open>The query of a URL as a server reads it: the pairs between \<open>?\<close> and the fragment.\<close>

fun split_on :: "char \<Rightarrow> string \<Rightarrow> string list" where
  "split_on c [] = [[]]"
| "split_on c (x # xs) =
     (if x = c then [] # split_on c xs
      else case split_on c xs of [] \<Rightarrow> [[x]] | p # ps \<Rightarrow> (x # p) # ps)"

definition split_pairs :: "string \<Rightarrow> string list list" where
  "split_pairs q = map (split_on CHR ''='') (split_on CHR ''&'' q)"

lemma split_on_free: "c \<notin> set v \<Longrightarrow> split_on c v = [v]"
  by (induction v) auto

lemma split_on_append: "c \<notin> set v \<Longrightarrow> split_on c (v @ c # rest) = v # split_on c rest"
  by (induction v) auto

definition query_free :: "string \<Rightarrow> bool" where
  "query_free v \<longleftrightarrow> set v \<inter> {CHR ''&'', CHR ''='', CHR ''#'', CHR ''?'', CHR ''/'', CHR ''%'', CHR ''+'', CHR '' ''} = {}"

lemma checked_value: "check_query_value rid field v = Inr () \<Longrightarrow> query_free v"
  by (auto simp: check_query_value_def query_free_def list_all_iff is_ascii_alphanumeric_def Let_def split: if_splits)

text \<open>
  A deposit address query stays two parameters. The library writes asset and network into the URL
  unescaped; whatever the caller sent, the request that leaves carries exactly the parameters \<open>asset\<close> and
  \<open>network\<close> with those values and no fragment, or nothing leaves.
\<close>

theorem deposit_query_is_exact:
  "\<exists>reqs. sends s reqs (snd (deposit_address_work rid show_e J X c q s))
    \<and> list_all (\<lambda>g. \<exists>query. wq_url g = wc_base_url c @ ''/v1/accounts/'' @ wc_account_id c @ ''/wallets?'' @ query
         \<and> split_pairs query = [[''asset'', dq_asset q], [''network'', dq_network q]]
         \<and> CHR ''#'' \<notin> set query) reqs"
proof (cases "check_query_value rid ''asset'' (dq_asset q) = Inr () \<and> check_query_value rid ''network'' (dq_network q) = Inr ()")
  case False
  then have "snd (deposit_address_work rid show_e J X c q s) = s"
    by (cases "check_query_value rid ''asset'' (dq_asset q)"; cases "check_query_value rid ''network'' (dq_network q)")
      (simp_all add: deposit_address_work_def read_work_def return_call_def then_call_def)
  then show ?thesis by (intro exI [of _ "[]"]) simp
next
  case True
  define query where "query = ''asset='' @ dq_asset q @ ''&network='' @ dq_network q"
  have free: "query_free (dq_asset q)" "query_free (dq_network q)" using True checked_value by blast+
  then have pairs: "split_pairs query = [[''asset'', dq_asset q], [''network'', dq_network q]]" "CHR ''#'' \<notin> set query"
    by (simp_all add: split_pairs_def query_def query_free_def split_on_free split_on_append
        split_on_append [where v = "CHR ''a'' # _", simplified])
  obtain r s' where g: "get_wallet_address J X c (dq_asset q) (dq_network q) s = (r, s')" by (rule prod.exhaust)
  have "snd (deposit_address_work rid show_e J X c q s) = s'"
    using True g by (simp add: deposit_address_work_def read_work_def as_wallet_failure_def map_err_call_def
        then_call_def return_call_def split: sum.split)
  moreover have "sends s [] s' \<or> (\<exists>req. sends s [req] s' \<and> wq_url req = wc_base_url c @ ''/v1/accounts/''
      @ wc_account_id c @ ''/wallets?'' @ query)"
    using parsed_read_sends [OF g [unfolded get_wallet_address_def]] by (auto simp: is_query_def query_def)
  ultimately show ?thesis using pairs by (auto intro: exI [of _ "[]"] exI [of _ "[req]" for req])
qed

subsection \<open>Concrete calls\<close>

text \<open>Reads that are ready in time, a bot pinned to one address, and an Alpaca that refuses writes.\<close>

definition ready_timer :: "'s timer" where
  "ready_timer = \<lparr>tm_now = (\<lambda>_. 0), tm_sleep = (\<lambda>_ s. s), tm_dropped = (\<lambda>_ _ _. None)\<rparr>"

definition pinned_config :: gateway_config where
  "pinned_config = sample_config\<lparr>gc_bot_withdrawal_destinations := [''0xa'']\<rparr>"

definition refusing_wire :: "(unit, unit, nat wallet_body) wire" where
  "refusing_wire = canned_wire (\<lambda>q. if wq_method q = W_Get then answer_of 200 ''ok'' else answer_of 403 ''no'')"

definition sample_withdraw_request :: "nat withdraw_request" where
  "sample_withdraw_request = \<lparr>wd_amount = 5, wd_asset = ''USDC'', wd_address = ''0xa'', wd_operation_id = ''o'',
     wd_reason = None\<rparr>"

lemma ready_cuts_short: "drops_cut_short ready_timer"
  by (simp add: drops_cut_short_def ready_timer_def)

lemma refusing_reads_late: "wire_reads_late refusing_wire"
  by (auto simp: wire_reads_late_def refusing_wire_def canned_wire_def answer_of_def split: if_splits)

lemmas handler_run = withdraw_work_def check_withdrawal_destination_def pinned_config_def
  sample_withdraw_request_def wallet_read_before_def ready_timer_def timeout_at_def
  check_withdrawal_whitelist_def is_address_whitelisted_and_approved_def get_whitelisted_addresses_def
  wallet_get_def submit_withdrawal_def wallet_post_def sample_wallet_json_def whitelisted_and_approved_def
  approved_entry_def as_wallet_failure_def map_err_call_def header_text_def header_get_def sample_wallet_run
  delete_whitelist_entry_def wallet_delete_def confirm_write_def redact_beneficiary_for_logging_def
  head_retry_after_def retry_after_from_response_headers_def

lemma sample_bot_withdrawal:
  "\<exists>t s'. withdraw_work ''r'' (\<lambda>_. ''m'') ready_timer sample_wallet_json sample_wire sample_wallet pinned_config
     Bot 0 sample_withdraw_request (open_net, ()) = (Inr t, s')"
  by (simp add: handler_run split: option.split)

theorem withdrawals_stay_in_lane_witness:
  "\<exists>g p s'. sends (open_net, ()) [g, p] s' \<and> ''0xa'' \<in> set (gc_bot_withdrawal_destinations pinned_config)
     \<and> wq_body p = Some (Withdrawal_Body (5 :: nat) ''USDC'' ''0xa'')"
proof -
  obtain t s' where "withdraw_work ''r'' (\<lambda>_. ''m'') ready_timer sample_wallet_json sample_wire sample_wallet
      pinned_config Bot 0 sample_withdraw_request (open_net, ()) = (Inr t, s')" using sample_bot_withdrawal by blast
  from withdrawals_stay_in_lane [OF ready_cuts_short this] obtain g p where "sends (open_net, ()) [g, p] s'"
    "''0xa'' \<in> set (gc_bot_withdrawal_destinations pinned_config)"
    "wq_body p = Some (Withdrawal_Body (5 :: nat) ''USDC'' ''0xa'')"
    by (auto simp: sample_withdraw_request_def sample_wallet_json_def is_query_def)
  then show ?thesis by blast
qed

lemma sample_refused_withdrawal:
  "\<exists>f s'. withdraw_work ''r'' (\<lambda>_. ''m'') ready_timer sample_wallet_json refusing_wire sample_wallet pinned_config
     Bot 0 sample_withdraw_request (open_net, ()) = (Inl f, s') \<and> length (sent_so_far s') = 2
     \<and> fa_outcome (for_mutation f WalletWithdraw) = Some NotApplied"
  by (simp add: handler_run refusing_wire_def wallet_def status_backpressure_def api_failure_def
      is_client_error_def for_mutation_def mutates_def rejected_def failure_new_def contains_def
      split: option.split)

theorem withdrawal_not_applied_moved_nothing_witness:
  "\<exists>reqs s'. sends (open_net, ()) reqs s' \<and> length reqs = 2
     \<and> list_all (\<lambda>q. wq_method q = W_Get \<or> (\<exists>w1. took_no_effect (fst (wi_http refusing_wire q w1)))) reqs"
proof -
  obtain f s' where w: "withdraw_work ''r'' (\<lambda>_. ''m'') ready_timer sample_wallet_json refusing_wire sample_wallet
      pinned_config Bot 0 sample_withdraw_request (open_net, ()) = (Inl f, s')" "length (sent_so_far s') = 2"
    "fa_outcome (for_mutation f WalletWithdraw) = Some NotApplied" using sample_refused_withdrawal by blast
  from withdrawal_not_applied_moved_nothing [OF ready_cuts_short refusing_reads_late w(1,3)] w(2)
  show ?thesis by (auto simp: sends_def open_net_def)
qed

lemma sample_refused_removal:
  "\<exists>f s'. whitelist_remove_work ''r'' (\<lambda>_. ''m'') ready_timer sample_wallet_json refusing_wire sample_wallet 0
       ''0xa'' (open_net, ()) = (Inl f, s') \<and> length (sent_so_far s') = 2
     \<and> fa_outcome (for_mutation f WalletWhitelistRemove) = Some NotApplied"
  by (simp add: handler_run whitelist_remove_work_def write_entries_def entry_send_def stopped_at_def
      refusing_wire_def wallet_def status_backpressure_def api_failure_def
      is_client_error_def for_mutation_def mutates_def rejected_def failure_new_def contains_def
      split: option.split)

theorem whitelist_not_applied_changed_nothing_witness:
  "\<exists>reqs s'. sends (open_net, ()) reqs s' \<and> length reqs = 2
     \<and> list_all (\<lambda>q. wq_method q = W_Get \<or> (\<exists>w1. took_no_effect (fst (wi_http refusing_wire q w1)))) reqs"
proof -
  obtain f s' where w: "whitelist_remove_work ''r'' (\<lambda>_. ''m'') ready_timer sample_wallet_json refusing_wire
      sample_wallet 0 ''0xa'' (open_net, ()) = (Inl f, s')" "length (sent_so_far s') = 2"
    "fa_outcome (for_mutation f WalletWhitelistRemove) = Some NotApplied" using sample_refused_removal by blast
  from whitelist_not_applied_changed_nothing [OF ready_cuts_short disjI1 [OF w(1)] w(3)] w(2)
  show ?thesis by (auto simp: sends_def open_net_def)
qed

text \<open>The second of two deletes fails.\<close>

definition second_fails_wire :: "(unit, unit, nat wallet_body) wire" where
  "second_fails_wire = canned_wire (\<lambda>q. if last (wq_url q) = CHR ''1'' then answer_of 200 ''ok'' else answer_of 500 ''no'')"

definition two_entries :: "whitelist_entry list" where
  "two_entries = [approved_entry, approved_entry\<lparr>we_id := ''e2''\<rparr>]"

lemma sample_partial_removal:
  "\<exists>f s'. write_entries ''r'' (\<lambda>_. ''m'') sample_wallet_json second_fails_wire sample_wallet two_entries Entry_Delete
     (open_net, ()) = (Inl f, s') \<and> length (sent_so_far s') = 2"
  by (simp add: handler_run write_entries_def entry_send_def stopped_at_def second_fails_wire_def two_entries_def
      failure_new_def contains_def entry_ids_def split: option.split)


end
