(* ===== verification/Market_Hours.thy ===== *)
theory Market_Hours
  imports Orders
begin

text \<open>
  The market session (\<^verbatim>\<open>src/broker/session.rs\<close>, \<^verbatim>\<open>src/broker/market_hours.rs\<close>): one calendar read classifies
  an instant as regular, extended, overnight or closed; an extended session takes a second read for
  the gap after it. Dates are day numbers, times of day nanoseconds since midnight. The parameter
  \<open>K\<close> holds chrono's part: the New York clock, the way back from local time, the last date, printing, and
  serde on the calendar. The instant \<open>now\<close> is an argument; the code passes \<open>Utc::now()\<close>.
\<close>

subsection \<open>Sessions\<close>

type_synonym date = int
type_synonym day_time = nat

datatype market_session = Regular | Extended | Overnight | Closed

datatype post_close_gap = OrdinaryOvernight | MultiDayClosure | UnknownGap | Unavailable

record market_session_status =
  ms_session :: market_session
  ms_session_opens_at :: "utc option"
  ms_regular_session_closes_at :: "utc option"
  ms_extended_session_closes_at :: "utc option"
  ms_post_close_gap :: post_close_gap

definition without_close_metadata :: "market_session \<Rightarrow> market_session_status" where
  "without_close_metadata session = \<lparr>ms_session = session, ms_session_opens_at = None,
     ms_regular_session_closes_at = None, ms_extended_session_closes_at = None,
     ms_post_close_gap = Unavailable\<rparr>"

subsection \<open>The calendar\<close>

record calendar_day =
  cd_date :: date
  cd_open :: day_time
  cd_close :: day_time
  cd_session_open :: day_time
  cd_session_close :: day_time

record chrono =
  ch_new_york :: "utc \<Rightarrow> date \<times> day_time"
  ch_resolve :: "date \<Rightarrow> day_time \<Rightarrow> utc option"
  ch_max_date :: date
  ch_show_date :: "date \<Rightarrow> string"
  ch_show_time :: "day_time \<Rightarrow> string"
  ch_parse_calendar :: "bytes \<Rightarrow> string + calendar_day list"

definition NEXT_SESSION_LOOKAHEAD_DAYS :: nat where
  "NEXT_SESSION_LOOKAHEAD_DAYS = 14"

definition checked_add_days :: "chrono \<Rightarrow> date \<Rightarrow> nat \<Rightarrow> date option" where
  "checked_add_days K d k = (if d + int k \<le> ch_max_date K then Some (d + int k) else None)"

definition hour_of :: "day_time \<Rightarrow> nat" where
  "hour_of t = t div (3600 * 10 ^ 9)"

definition get_calendar ::
  "chrono \<Rightarrow> ('env, 'w, 'f) alpaca \<Rightarrow> broker_client \<Rightarrow> date \<Rightarrow> date
   \<Rightarrow> ('env, 'w, 'f, 'f broker_error, calendar_day list) broker_call" where
  "get_calendar K A cl first end =
     get A (ch_parse_calendar K) (cl_base_url cl @ ''/v1/calendar?start='' @ ch_show_date K first
       @ ''&end='' @ ch_show_date K end)"

definition local_market_time_to_utc :: "chrono \<Rightarrow> date \<Rightarrow> day_time \<Rightarrow> 'f broker_error + utc" where
  "local_market_time_to_utc K d t =
     ok_or (ch_resolve K d t) (CalendarLocalTimeUnresolvable (ch_show_date K d) (ch_show_time K t))"

subsection \<open>Classification\<close>

record session_and_close =
  sc_session :: market_session
  sc_session_opens_at :: "utc option"
  sc_regular_session_closes_at :: "utc option"
  sc_extended_session_closes_at :: "utc option"
  sc_today :: date

definition bare_session :: "market_session \<Rightarrow> date \<Rightarrow> session_and_close" where
  "bare_session session today = \<lparr>sc_session = session, sc_session_opens_at = None,
     sc_regular_session_closes_at = None, sc_extended_session_closes_at = None, sc_today = today\<rparr>"

text \<open>The loop over the answer: today's entry (the last one wins) and whether tomorrow trades.\<close>

fun scan_calendar ::
  "chrono \<Rightarrow> date \<Rightarrow> date \<Rightarrow> calendar_day list \<Rightarrow> calendar_day option \<times> bool
   \<Rightarrow> 'f broker_error + calendar_day option \<times> bool" where
  "scan_calendar K today tomorrow [] acc = Inr acc"
| "scan_calendar K today tomorrow (day # rest) (entry, next) =
     (if cd_date day < today
      then Inl (CalendarDateMismatch (ch_show_date K today) (ch_show_date K (cd_date day)))
      else if cd_date day = today then scan_calendar K today tomorrow rest (Some day, next)
      else if cd_date day = tomorrow then scan_calendar K today tomorrow rest (entry, True)
      else scan_calendar K today tomorrow rest (entry, next))"

definition classify_session :: "calendar_day \<Rightarrow> bool \<Rightarrow> day_time \<Rightarrow> market_session" where
  "classify_session day tomorrow_trades now_time =
     (if cd_open day \<le> now_time \<and> now_time < cd_close day then Regular
      else if cd_session_open day \<le> now_time \<and> now_time < cd_session_close day then Extended
      else if 20 \<le> hour_of now_time \<and> tomorrow_trades then Overnight
      else if hour_of now_time < 4 then Overnight
      else Closed)"

definition then_some :: "bool \<Rightarrow> 'a \<Rightarrow> 'a option" where
  "then_some b x = (if b then Some x else None)"

definition session_from ::
  "chrono \<Rightarrow> date \<Rightarrow> day_time \<Rightarrow> calendar_day option \<times> bool \<Rightarrow> 'f broker_error + session_and_close" where
  "session_from K today now_time scanned =
     (case scanned of
        (None, tomorrow_trades) \<Rightarrow>
          Inr (bare_session (if 20 \<le> hour_of now_time \<and> tomorrow_trades then Overnight else Closed) today)
      | (Some day, tomorrow_trades) \<Rightarrow>
          and_then (local_market_time_to_utc K today (cd_session_close day)) (\<lambda>extended_close.
          let session = classify_session day tomorrow_trades now_time
          in and_then (local_market_time_to_utc K today (cd_session_open day)) (\<lambda>session_open.
             and_then (local_market_time_to_utc K today (cd_close day)) (\<lambda>regular_close.
             Inr \<lparr>sc_session = session,
                  sc_session_opens_at = then_some (session = Extended) session_open,
                  sc_regular_session_closes_at = then_some (session = Regular) regular_close,
                  sc_extended_session_closes_at = then_some (session = Extended) extended_close,
                  sc_today = today\<rparr>))))"

definition session_and_close_at ::
  "chrono \<Rightarrow> ('env, 'w, 'f) alpaca \<Rightarrow> broker_client \<Rightarrow> utc
   \<Rightarrow> ('env, 'w, 'f, 'f broker_error, session_and_close) broker_call" where
  "session_and_close_at K A cl now =
     (case ch_new_york K now of
        (today, now_time) \<Rightarrow>
          (case checked_add_days K today 1 of
             None \<Rightarrow> return_call (Inr (bare_session Closed today))
           | Some tomorrow \<Rightarrow>
               then_call (get_calendar K A cl today tomorrow) (\<lambda>calendar.
                 return_call (and_then (scan_calendar K today tomorrow calendar (None, False))
                   (session_from K today now_time)))))"

definition market_session_at ::
  "chrono \<Rightarrow> ('env, 'w, 'f) alpaca \<Rightarrow> broker_client \<Rightarrow> utc
   \<Rightarrow> ('env, 'w, 'f, 'f broker_error, market_session) broker_call" where
  "market_session_at K A cl now =
     then_call (session_and_close_at K A cl now) (\<lambda>x. return_call (Inr (sc_session x)))"

definition is_market_open_at ::
  "chrono \<Rightarrow> ('env, 'w, 'f) alpaca \<Rightarrow> broker_client \<Rightarrow> utc
   \<Rightarrow> ('env, 'w, 'f, 'f broker_error, bool) broker_call" where
  "is_market_open_at K A cl now =
     then_call (market_session_at K A cl now) (\<lambda>x. return_call (Inr (x = Regular)))"

subsection \<open>The gap after an extended session\<close>

definition gap_from :: "date \<Rightarrow> date \<Rightarrow> calendar_day list \<Rightarrow> post_close_gap" where
  "gap_from current first calendar =
     (case filter (\<lambda>d. current < d) (map cd_date calendar) of
        [] \<Rightarrow> UnknownGap
      | d # ds \<Rightarrow> if foldr min ds d = first then OrdinaryOvernight else MultiDayClosure)"

definition classify_post_close_gap ::
  "chrono \<Rightarrow> ('env, 'w, 'f) alpaca \<Rightarrow> broker_client \<Rightarrow> date \<Rightarrow> ('env, 'w, 'f) broker_state
   \<Rightarrow> post_close_gap \<times> ('env, 'w, 'f) broker_state" where
  "classify_post_close_gap K A cl current s =
     (case (checked_add_days K current 1, checked_add_days K current NEXT_SESSION_LOOKAHEAD_DAYS) of
        (Some first, Some end) \<Rightarrow>
          (case get_calendar K A cl first end s of
             (Inl _, s') \<Rightarrow> (UnknownGap, s')
           | (Inr calendar, s') \<Rightarrow> (gap_from current first calendar, s'))
      | _ \<Rightarrow> (UnknownGap, s))"

definition market_session_status_at ::
  "chrono \<Rightarrow> ('env, 'w, 'f) alpaca \<Rightarrow> broker_client \<Rightarrow> utc
   \<Rightarrow> ('env, 'w, 'f, 'f broker_error, market_session_status) broker_call" where
  "market_session_status_at K A cl now =
     then_call (session_and_close_at K A cl now) (\<lambda>x s.
       case (if sc_session x = Extended then classify_post_close_gap K A cl (sc_today x) s else (UnknownGap, s)) of
         (gap, s') \<Rightarrow>
           (Inr \<lparr>ms_session = sc_session x, ms_session_opens_at = sc_session_opens_at x,
              ms_regular_session_closes_at = sc_regular_session_closes_at x,
              ms_extended_session_closes_at = sc_extended_session_closes_at x,
              ms_post_close_gap = gap\<rparr>, s'))"

subsection \<open>The exchange's calendar\<close>

text \<open>
  \<open>cal\<close> is the exchange's calendar, an entry per trading day. Alpaca answers a range truthfully: every
  entry is the calendar's own and none is before the range, and every trading day of the range is
  there. Entries past the range, such as the nearest trading day, are allowed.
\<close>

definition calendar_url :: "chrono \<Rightarrow> broker_client \<Rightarrow> date \<Rightarrow> date \<Rightarrow> string" where
  "calendar_url K cl first end = cl_base_url cl @ ''/v1/calendar?start='' @ ch_show_date K first
     @ ''&end='' @ ch_show_date K end"

definition answers :: "(date \<Rightarrow> calendar_day option) \<Rightarrow> date \<Rightarrow> date \<Rightarrow> calendar_day list \<Rightarrow> bool" where
  "answers cal first end days \<longleftrightarrow>
     (\<forall>day\<in>set days. first \<le> cd_date day \<and> cal (cd_date day) = Some day)
     \<and> (\<forall>d day. first \<le> d \<longrightarrow> d \<le> end \<longrightarrow> cal d = Some day \<longrightarrow> day \<in> set days)"

definition truthful_calendar ::
  "chrono \<Rightarrow> ('env, 'w, 'f) alpaca \<Rightarrow> broker_client \<Rightarrow> (date \<Rightarrow> calendar_day option) \<Rightarrow> bool" where
  "truthful_calendar K A cl cal \<longleftrightarrow>
     (\<forall>d day. cal d = Some day \<longrightarrow> cd_date day = d)
     \<and> (\<forall>req w a bs days first end. br_url req = calendar_url K cl first end \<longrightarrow> fst (al_http A req w) = Inr a
          \<longrightarrow> is_success (ha_status a) \<longrightarrow> ha_body a = Inr bs \<longrightarrow> ch_parse_calendar K bs = Inr days
          \<longrightarrow> answers cal first end days)"

text \<open>The hours Alpaca documents: sessions lie between 04:00 and 20:00 and contain the regular hours.\<close>

definition documented_hours :: "(date \<Rightarrow> calendar_day option) \<Rightarrow> bool" where
  "documented_hours cal \<longleftrightarrow>
     (\<forall>d day. cal d = Some day \<longrightarrow>
        4 \<le> hour_of (cd_session_open day) \<and> cd_session_open day \<le> cd_open day
        \<and> cd_close day \<le> cd_session_close day
        \<and> cd_session_close day \<le> 20 * (3600 * 10 ^ 9))"

definition in_regular_hours :: "(date \<Rightarrow> calendar_day option) \<Rightarrow> date \<Rightarrow> day_time \<Rightarrow> bool" where
  "in_regular_hours cal d t \<longleftrightarrow> (\<exists>day. cal d = Some day \<and> cd_open day \<le> t \<and> t < cd_close day)"

definition in_session_hours :: "(date \<Rightarrow> calendar_day option) \<Rightarrow> date \<Rightarrow> day_time \<Rightarrow> bool" where
  "in_session_hours cal d t \<longleftrightarrow> (\<exists>day. cal d = Some day \<and> cd_session_open day \<le> t \<and> t < cd_session_close day)"

text \<open>The night before a trading day: from 20:00 the evening before to 04:00 of the day.\<close>

definition in_overnight :: "(date \<Rightarrow> calendar_day option) \<Rightarrow> date \<Rightarrow> day_time \<Rightarrow> bool" where
  "in_overnight cal d t \<longleftrightarrow>
     (\<exists>trading. cal trading \<noteq> None \<and> (d = trading - 1 \<and> 20 \<le> hour_of t \<or> d = trading \<and> hour_of t < 4))"

lemma hour_mono: "a \<le> b \<Longrightarrow> hour_of a \<le> hour_of b"
  by (simp add: hour_of_def div_le_mono)

lemma hour_before: "t < 20 * (3600 * 10 ^ 9) \<Longrightarrow> hour_of t < 20"
  by (simp add: hour_of_def less_mult_imp_div_less)

lemma get_calendar_answers:
  assumes "truthful_calendar K A cl cal" "get_calendar K A cl first end (n, w) = (Inr days, (n', w'))"
  obtains g where "answers cal first end days" "handed n' = handed n @ [g]" "is_read g"
  using assms(2) unfolding get_calendar_def
  by (rule get_ok) (use assms(1) that in \<open>fastforce simp: truthful_calendar_def calendar_url_def is_read_def\<close>)

lemma get_requests:
  fixes A :: "('env, 'w, 'f) alpaca"
  assumes "get A parse url (n, w) = (r, (n', w'))"
  obtains gs where "handed n' = handed n @ gs" "list_all is_read gs" "length gs \<le> 1"
proof -
  obtain c w1 where c: "al_authorize A w = (c, w1)" by force
  show ?thesis
  proof (cases c)
    case (Inl e)
    with assms c have "n' = n" by (auto simp: get_def then_call_def exchange_def)
    then show ?thesis by (intro that [of "[]"]) simp_all
  next
    case (Inr auth)
    define req where "req = \<lparr>br_method = M_Get, br_url = url, br_body = None :: 'f order_body option,
      br_authorization = auth\<rparr>"
    have "handed n' = handed (snd (start (al_env A w1) req n))"
      using assms c Inr
      by (auto simp: get_def then_call_def exchange_def handle_response_def Let_def req_def
          split: prod.splits sum.splits if_splits)
    with start_handed [of "al_env A w1" req n] show ?thesis
      by (intro that [of "if fst (start (al_env A w1) req n) = Inr () then [req] else []"])
        (simp_all add: req_def is_read_def)
  qed
qed

text \<open>The loop over an answer without earlier dates: today's own entry, and whether tomorrow is there.\<close>

lemma scan_calendar_fold:
  assumes "list_all (\<lambda>day. today \<le> cd_date day) days" "today < tomorrow"
  shows "scan_calendar K today tomorrow days (entry, next)
    = Inr (fold (\<lambda>day e. if cd_date day = today then Some day else e) days entry,
           next \<or> list_ex (\<lambda>day. cd_date day = tomorrow) days)"
  using assms(1)
proof (induction days arbitrary: entry "next")
  case (Cons day days)
  then show ?case using assms(2) by auto
qed simp

lemma fold_today:
  assumes "\<forall>day\<in>set days. cd_date day = today \<longrightarrow> e = Some day"
  shows "fold (\<lambda>day e. if cd_date day = today then Some day else e) days entry
    = (if list_ex (\<lambda>day. cd_date day = today) days then e else entry)"
  using assms by (induction days arbitrary: entry) auto

lemma scan_answered:
  assumes "truthful_calendar K A cl cal" "answers cal today (today + 1) days"
  shows "scan_calendar K today (today + 1) days (None, False) = Inr (cal today, cal (today + 1) \<noteq> None)"
proof -
  have d: "\<And>d day. cal d = Some day \<Longrightarrow> cd_date day = d" using assms(1) by (simp add: truthful_calendar_def)
  have own: "\<And>day. day \<in> set days \<Longrightarrow> today \<le> cd_date day \<and> cal (cd_date day) = Some day"
    and all: "\<And>d day. today \<le> d \<Longrightarrow> d \<le> today + 1 \<Longrightarrow> cal d = Some day \<Longrightarrow> day \<in> set days"
    using assms(2) by (auto simp: answers_def)
  have ex: "list_ex (\<lambda>day. cd_date day = k) days \<longleftrightarrow> cal k \<noteq> None" if "k = today \<or> k = today + 1" for k
  proof
    assume "list_ex (\<lambda>day. cd_date day = k) days"
    then obtain day where "day \<in> set days" "cd_date day = k" by (auto simp: list_ex_iff)
    with own [of day] show "cal k \<noteq> None" by auto
  next
    assume "cal k \<noteq> None"
    then obtain day where "cal k = Some day" by auto
    with all [of k day] d [of k day] that show "list_ex (\<lambda>day. cd_date day = k) days"
      by (auto simp: list_ex_iff)
  qed
  have "list_all (\<lambda>day. today \<le> cd_date day) days" using own by (simp add: list_all_iff)
  moreover have "\<forall>day\<in>set days. cd_date day = today \<longrightarrow> cal today = Some day" using own by auto
  ultimately show ?thesis using ex [of today] ex [of "today + 1"]
    by (simp add: scan_calendar_fold fold_today)
qed

lemma session_from_cases:
  assumes "session_from K today t (e, nx) = Inr x"
  shows "sc_session x = (case e of
      None \<Rightarrow> if 20 \<le> hour_of t \<and> nx then Overnight else Closed
    | Some day \<Rightarrow> classify_session day nx t)"
    and "sc_today x = today"
  using assms by (cases e; auto simp: session_from_def bare_session_def Let_def and_then_Inr_iff)+

lemma session_read:
  fixes A :: "('env, 'w, 'f) alpaca"
  assumes "truthful_calendar K A cl cal" "ch_new_york K now = (today, t)" "today < ch_max_date K"
    and "session_and_close_at K A cl now (n, w) = (Inr x, (n', w'))"
  obtains g where "session_from K today t (cal today, cal (today + 1) \<noteq> None) = (Inr x :: 'f broker_error + _)"
    "handed n' = handed n @ [g]" "is_read g"
proof -
  have "checked_add_days K today 1 = Some (today + 1)" using assms(3) by (simp add: checked_add_days_def)
  with assms(2,4) obtain days where c: "get_calendar K A cl today (today + 1) (n, w) = (Inr days, (n', w'))"
    and x: "and_then (scan_calendar K today (today + 1) days (None, False)) (session_from K today t)
        = (Inr x :: 'f broker_error + _)"
    by (auto simp: session_and_close_at_def then_call_def return_call_def split: prod.splits sum.splits)
  from get_calendar_answers [OF assms(1) c] obtain g where g: "answers cal today (today + 1) days"
    "handed n' = handed n @ [g]" "is_read g" .
  with x show ?thesis by (intro that [of g]) (simp_all add: scan_answered [OF assms(1) g(1)])
qed

lemma calendar_session:
  assumes hours: "documented_hours cal"
    and s: "session = (case cal today of
      None \<Rightarrow> if 20 \<le> hour_of t \<and> cal (today + 1) \<noteq> None then Overnight else Closed
    | Some day \<Rightarrow> classify_session day (cal (today + 1) \<noteq> None) t)"
  shows "session = (if in_regular_hours cal today t then Regular
      else if in_session_hours cal today t then Extended
      else if in_overnight cal today t then Overnight else Closed)"
    and "session = Overnight \<longleftrightarrow> in_overnight cal today t"
proof -
  have night: "in_overnight cal today t
      \<longleftrightarrow> 20 \<le> hour_of t \<and> cal (today + 1) \<noteq> None \<or> hour_of t < 4 \<and> cal today \<noteq> None"
    by (auto simp: in_overnight_def)
  show "session = (if in_regular_hours cal today t then Regular
      else if in_session_hours cal today t then Extended
      else if in_overnight cal today t then Overnight else Closed)"
    using s night by (auto simp: in_regular_hours_def in_session_hours_def classify_session_def split: option.splits)
  show "session = Overnight \<longleftrightarrow> in_overnight cal today t"
  proof (cases "cal today")
    case None
    with s night show ?thesis by simp
  next
    case (Some day)
    have clear: "4 \<le> hour_of t \<and> hour_of t < 20" if "cd_session_open day \<le> t" "t < cd_session_close day"
      using hours that Some hour_mono [of "cd_session_open day" t] hour_before [of t]
      by (fastforce simp: documented_hours_def)
    have inside: "cd_session_open day \<le> cd_open day" "cd_close day \<le> cd_session_close day"
      using hours Some by (auto simp: documented_hours_def)
    have "4 \<le> hour_of t \<and> hour_of t < 20" if "classify_session day (cal (today + 1) \<noteq> None) t \<in> {Regular, Extended}"
      using that clear inside by (auto simp: classify_session_def split: if_splits)
    with s night Some show ?thesis by (auto simp: classify_session_def split: if_splits)
  qed
qed

text \<open>
  C38: The session the client reports is the one the exchange's calendar gives. With a truthful calendar
  and the documented hours it is regular exactly in regular hours, extended exactly in the rest of
  the session, overnight exactly in the night before a trading day, without a gap at midnight, and
  closed otherwise; one calendar read is sent.
\<close>

theorem session_follows_the_calendar:
  fixes A :: "('env, 'w, 'f) alpaca"
  assumes "truthful_calendar K A cl cal" "documented_hours cal"
    and "ch_new_york K now = (today, t)" "today < ch_max_date K"
    and "market_session_at K A cl now (n, w) = (Inr session, (n', w'))"
  shows "session = (if in_regular_hours cal today t then Regular
      else if in_session_hours cal today t then Extended
      else if in_overnight cal today t then Overnight else Closed)
    \<and> (session = Overnight \<longleftrightarrow> in_overnight cal today t)
    \<and> (\<exists>g. handed n' = handed n @ [g] \<and> is_read g)"
proof -
  obtain x where x: "session_and_close_at K A cl now (n, w) = (Inr x, (n', w'))" "session = sc_session x"
    using assms(5) by (auto simp: market_session_at_def then_call_def return_call_def split: prod.splits sum.splits)
  from session_read [OF assms(1,3,4) x(1)] obtain g where
    g: "session_from K today t (cal today, cal (today + 1) \<noteq> None) = (Inr x :: 'f broker_error + _)"
    "handed n' = handed n @ [g]" "is_read g" .
  have s: "session = (case cal today of
      None \<Rightarrow> if 20 \<le> hour_of t \<and> cal (today + 1) \<noteq> None then Overnight else Closed
    | Some day \<Rightarrow> classify_session day (cal (today + 1) \<noteq> None) t)"
    using session_from_cases(1) [OF g(1)] x(2) by simp
  have "\<exists>g. handed n' = handed n @ [g] \<and> is_read g" using g(2,3) by blast
  with calendar_session [OF assms(2) s] show ?thesis by blast
qed

text \<open>An answer with a day before the one asked for proves nothing about it, and is refused.\<close>

lemma scan_calendar_stale:
  assumes "day \<in> set days" "cd_date day < today"
  shows "\<exists>d. scan_calendar K today tomorrow days acc = Inl (CalendarDateMismatch (ch_show_date K today) d)"
  using assms(1)
proof (induction days arbitrary: acc)
  case (Cons d ds)
  obtain e nx where "acc = (e, nx)" by force
  with Cons assms(2) show ?case by (cases "cd_date d < today") auto
qed simp

theorem stale_calendar_is_refused:
  fixes A :: "('env, 'w, 'f) alpaca"
  assumes "ch_new_york K now = (today, t)" "today < ch_max_date K"
    and "get_calendar K A cl today (today + 1) s = (Inr days, s')" "day \<in> set days" "cd_date day < today"
  shows "\<exists>d. market_session_status_at K A cl now s = (Inl (CalendarDateMismatch (ch_show_date K today) d), s')
    \<and> market_session_at K A cl now s = (Inl (CalendarDateMismatch (ch_show_date K today) d), s')"
proof -
  from scan_calendar_stale [OF assms(4,5)] obtain d where
    "scan_calendar K today (today + 1) days (None, False)
      = (Inl (CalendarDateMismatch (ch_show_date K today) d) :: 'f broker_error + _)"
    by blast
  moreover have "checked_add_days K today 1 = Some (today + 1)" using assms(2) by (simp add: checked_add_days_def)
  ultimately show ?thesis using assms(1,3)
    by (simp add: market_session_status_at_def market_session_at_def session_and_close_at_def then_call_def
        return_call_def)
qed

subsection \<open>The status of an extended session\<close>

lemma gap_from_answers:
  assumes "truthful_calendar K A cl cal" "answers cal (today + 1) end days" "today + 1 \<le> end"
  shows "gap_from today (today + 1) days = OrdinaryOvernight \<Longrightarrow> cal (today + 1) \<noteq> None"
    and "gap_from today (today + 1) days = MultiDayClosure \<Longrightarrow> cal (today + 1) = None"
proof -
  have own: "\<And>day. day \<in> set days \<Longrightarrow> today + 1 \<le> cd_date day \<and> cal (cd_date day) = Some day"
    and all: "\<And>day. cal (today + 1) = Some day \<Longrightarrow> day \<in> set days"
    using assms(2,3) by (auto simp: answers_def)
  have date: "\<And>d day. cal d = Some day \<Longrightarrow> cd_date day = d" using assms(1) by (simp add: truthful_calendar_def)
  have keep: "filter (\<lambda>d. today < d) (map cd_date days) = map cd_date days"
    using own by (simp add: filter_id_conv) fastforce
  have least: "foldr min ds d = Min (set (d # ds))" for ds :: "int list" and d :: int
  proof (induction ds)
    case (Cons a ds)
    have "Min (set (d # a # ds)) = Min (insert a (set (d # ds)))" by (rule arg_cong [where f = Min]) auto
    also have "\<dots> = min a (Min (set (d # ds)))" by (rule Min_insert) simp_all
    finally show ?case using Cons by simp
  qed simp
  have gap: "gap_from today (today + 1) days = (if days = [] then UnknownGap
      else if Min (cd_date ` set days) = today + 1 then OrdinaryOvernight else MultiDayClosure)"
    unfolding gap_from_def keep using least by (cases days) simp_all
  show "cal (today + 1) \<noteq> None" if "gap_from today (today + 1) days = OrdinaryOvernight"
  proof -
    from that have "Min (cd_date ` set days) = today + 1" "days \<noteq> []" by (auto simp: gap split: if_splits)
    with Min_in [of "cd_date ` set days"] obtain day where "day \<in> set days" "cd_date day = today + 1" by auto
    with own [of day] show ?thesis by auto
  qed
  show "cal (today + 1) = None" if "gap_from today (today + 1) days = MultiDayClosure"
  proof (rule ccontr)
    assume "cal (today + 1) \<noteq> None"
    then obtain day where d: "cal (today + 1) = Some day" by auto
    have "Min (cd_date ` set days) = today + 1" 
      using all [OF d] date [OF d] own by (intro Min_eqI) (auto intro: image_eqI [where x = day])
    with that show False by (auto simp: gap split: if_splits)
  qed
qed

lemma hands_get_calendar [hands_rules]: "hands is_read (get_calendar K A cl first end)"
  unfolding get_calendar_def by (intro hands_rules) (simp add: is_read_def)

lemma gap_read:
  assumes truth: "truthful_calendar K A cl cal"
    and gap: "classify_post_close_gap K A cl today (n, w) = (gap, (n', w'))"
  obtains gs where "handed n' = handed n @ gs" "list_all is_read gs" "length gs \<le> 1"
    "gap = OrdinaryOvernight \<longrightarrow> cal (today + 1) \<noteq> None" "gap = MultiDayClosure \<longrightarrow> cal (today + 1) = None"
proof (cases "today + 14 \<le> ch_max_date K")
  case False
  then have "checked_add_days K today NEXT_SESSION_LOOKAHEAD_DAYS = None"
    by (simp add: checked_add_days_def NEXT_SESSION_LOOKAHEAD_DAYS_def)
  with gap have "gap = UnknownGap" "n' = n" by (auto simp: classify_post_close_gap_def split: option.splits)
  then show ?thesis by (intro that [of "[]"]) simp_all
next
  case True
  then have c: "checked_add_days K today 1 = Some (today + 1)"
    "checked_add_days K today NEXT_SESSION_LOOKAHEAD_DAYS = Some (today + 14)"
    by (simp_all add: checked_add_days_def NEXT_SESSION_LOOKAHEAD_DAYS_def)
  obtain r n1 w1 where r: "get_calendar K A cl (today + 1) (today + 14) (n, w) = (r, (n1, w1))" by (metis prod_cases3)
  show ?thesis
  proof (cases r)
    case (Inl e)
    with gap c r have "gap = UnknownGap" "n' = n1" by (simp_all add: classify_post_close_gap_def)
    moreover obtain gs where "handed n1 = handed n @ gs" "list_all is_read gs" "length gs \<le> 1"
      using r unfolding get_calendar_def by (rule get_requests) auto
    ultimately show ?thesis by (intro that [of gs]) simp_all
  next
    case (Inr days)
    with gap c r have g: "gap = gap_from today (today + 1) days" "n' = n1"
      by (simp_all add: classify_post_close_gap_def)
    from get_calendar_answers [OF truth r [unfolded Inr]] obtain q where
      q: "answers cal (today + 1) (today + 14) days" "handed n1 = handed n @ [q]" "is_read q" .
    with g gap_from_answers [OF truth q(1)] show ?thesis by (intro that [of "[q]"]) auto
  qed
qed

text \<open>
  The status agrees with the calendar: the session's opening and closing times are given exactly in an
  extended session, the regular close exactly in a regular one. A gap is classified only in an
  extended session, an ordinary night only when the next day trades and a longer closure only when it
  does not. Only an extended session takes a second read.
\<close>

theorem session_status_is_truthful:
  fixes A :: "('env, 'w, 'f) alpaca"
  assumes "truthful_calendar K A cl cal" "ch_new_york K now = (today, t)" "today < ch_max_date K"
    and "market_session_status_at K A cl now (n, w) = (Inr st, (n', w'))"
  shows "(ms_session_opens_at st \<noteq> None \<longleftrightarrow> ms_session st = Extended)
    \<and> (ms_extended_session_closes_at st \<noteq> None \<longleftrightarrow> ms_session st = Extended)
    \<and> (ms_regular_session_closes_at st \<noteq> None \<longleftrightarrow> ms_session st = Regular)
    \<and> (ms_post_close_gap st = OrdinaryOvernight \<longrightarrow> ms_session st = Extended \<and> cal (today + 1) \<noteq> None)
    \<and> (ms_post_close_gap st = MultiDayClosure \<longrightarrow> ms_session st = Extended \<and> cal (today + 1) = None)
    \<and> (\<exists>gs. handed n' = handed n @ gs \<and> list_all is_read gs
         \<and> length gs \<le> (if ms_session st = Extended then 2 else 1))"
proof -
  obtain x n1 w1 where x: "session_and_close_at K A cl now (n, w) = (Inr x, (n1, w1))"
    and g: "(if sc_session x = Extended then classify_post_close_gap K A cl (sc_today x) (n1, w1)
      else (UnknownGap, (n1, w1))) = (ms_post_close_gap st, (n', w'))"
    and st: "ms_session st = sc_session x" "ms_session_opens_at st = sc_session_opens_at x"
      "ms_regular_session_closes_at st = sc_regular_session_closes_at x"
      "ms_extended_session_closes_at st = sc_extended_session_closes_at x"
    using assms(4) by (auto simp: market_session_status_at_def then_call_def split: prod.splits sum.splits)
  from session_read [OF assms(1,2,3) x] obtain r where
    r: "session_from K today t (cal today, cal (today + 1) \<noteq> None) = (Inr x :: 'f broker_error + _)"
      "handed n1 = handed n @ [r]" "is_read r" .
  have meta: "(sc_session_opens_at x \<noteq> None \<longleftrightarrow> sc_session x = Extended)
      \<and> (sc_extended_session_closes_at x \<noteq> None \<longleftrightarrow> sc_session x = Extended)
      \<and> (sc_regular_session_closes_at x \<noteq> None \<longleftrightarrow> sc_session x = Regular) \<and> sc_today x = today"
  proof (cases "cal today")
    case None
    with r(1) show ?thesis
      by (cases "20 \<le> hour_of t \<and> cal (today + 1) \<noteq> None") (auto simp: session_from_def bare_session_def)
  next
    case (Some day)
    with r(1) show ?thesis
      by (cases "classify_session day (cal (today + 1) \<noteq> None) t")
        (auto simp: session_from_def then_some_def Let_def and_then_Inr_iff)
  qed
  show ?thesis
  proof (cases "sc_session x = Extended")
    case False
    with g have "ms_post_close_gap st = UnknownGap" "n' = n1" by simp_all
    with False meta st r(2,3) show ?thesis by (intro conjI exI [of _ "[r]"]) simp_all
  next
    case True
    with g meta have "classify_post_close_gap K A cl today (n1, w1) = (ms_post_close_gap st, (n', w'))" by simp
    from gap_read [OF assms(1) this] obtain gs where gs: "handed n' = handed n1 @ gs" "list_all is_read gs"
        "length gs \<le> 1"
      "ms_post_close_gap st = OrdinaryOvernight \<longrightarrow> cal (today + 1) \<noteq> None"
      "ms_post_close_gap st = MultiDayClosure \<longrightarrow> cal (today + 1) = None" .
    with True meta st r(2,3) show ?thesis by (intro conjI exI [of _ "r # gs"]) simp_all
  qed
qed

subsection \<open>A night before a trading day\<close>

text \<open>Day 2 trades from 09:30 to 16:00; it is 21:00 in New York on day 1.\<close>

definition sample_day :: calendar_day where
  "sample_day = \<lparr>cd_date = 2, cd_open = 34200 * 10 ^ 9, cd_close = 57600 * 10 ^ 9,
     cd_session_open = 14400 * 10 ^ 9, cd_session_close = 72000 * 10 ^ 9\<rparr>"

definition sample_chrono :: chrono where
  "sample_chrono = \<lparr>ch_new_york = (\<lambda>_. (1, 75600 * 10 ^ 9)), ch_resolve = (\<lambda>d t. Some (d * 86400 + int t)),
     ch_max_date = 100, ch_show_date = (\<lambda>d. if d = 1 then ''1'' else if d = 2 then ''2'' else ''x''),
     ch_show_time = (\<lambda>_. ''t''),
     ch_parse_calendar = (\<lambda>bs. if bs = ''night'' then Inr [sample_day] else Inl ''not a calendar'')\<rparr>"

definition sample_calendar :: "date \<Rightarrow> calendar_day option" where
  "sample_calendar d = (if d = 2 then Some sample_day else None)"

definition night_alpaca :: "(unit, unit, nat) alpaca" where
  "night_alpaca = sample_alpaca 200 200 \<lparr>al_http := (\<lambda>req w. (Inr \<lparr>ha_status = 200, ha_headers = [],
     ha_body = Inr (if br_url req = ''https://alpaca/v1/calendar?start=1&end=2'' then ''night'' else [])\<rparr>, w))\<rparr>"

lemmas night_defs = sample_day_def sample_chrono_def sample_calendar_def night_alpaca_def sample_client_def

lemma night_truthful: "truthful_calendar sample_chrono night_alpaca sample_client sample_calendar"
  by (auto simp: truthful_calendar_def night_defs calendar_url_def answers_def status_defs split: if_splits)

lemma night_hours: "documented_hours sample_calendar"
  by (auto simp: documented_hours_def sample_calendar_def sample_day_def hour_of_def)

lemma night_session:
  "\<exists>n'. market_session_at sample_chrono night_alpaca sample_client 0 (sample_net, ()) = (Inr Overnight, (n', ()))"
  by (simp add: market_session_at_def session_and_close_at_def get_calendar_def get_def then_call_def
      exchange_def handle_response_def start_def session_from_def bare_session_def hour_of_def
      checked_add_days_def return_call_def night_defs sample_alpaca_def sample_net_def status_defs)

theorem session_follows_the_calendar_witness:
  "\<exists>n'. market_session_at sample_chrono night_alpaca sample_client 0 (sample_net, ()) = (Inr Overnight, (n', ()))
     \<and> in_overnight sample_calendar 1 (75600 * 10 ^ 9) \<and> (\<exists>g. handed n' = [g] \<and> is_read g)"
proof -
  obtain n' where n: "market_session_at sample_chrono night_alpaca sample_client 0 (sample_net, ())
      = (Inr Overnight, (n', ()))" using night_session by blast
  have k: "ch_new_york sample_chrono 0 = (1, 75600 * 10 ^ 9)" "1 < ch_max_date sample_chrono"
    by (simp_all add: sample_chrono_def)
  have "handed sample_net = []" by (simp add: sample_net_def)
  with session_follows_the_calendar [OF night_truthful night_hours k n] n show ?thesis by auto
qed

theorem session_status_is_truthful_witness:
  "\<exists>st n'. market_session_status_at sample_chrono night_alpaca sample_client 0 (sample_net, ())
       = (Inr st, (n', ())) \<and> ms_session st = Overnight \<and> ms_session_opens_at st = None
     \<and> ms_post_close_gap st \<noteq> OrdinaryOvernight \<and> length (handed n') \<le> 1"
proof -
  obtain n' st where n: "market_session_status_at sample_chrono night_alpaca sample_client 0 (sample_net, ())
      = (Inr st, (n', ()))" "ms_session st = Overnight"
    using night_session by (auto simp: market_session_status_at_def market_session_at_def then_call_def
        return_call_def split: prod.splits sum.splits)
  have k: "ch_new_york sample_chrono 0 = (1, 75600 * 10 ^ 9)" "1 < ch_max_date sample_chrono"
    by (simp_all add: sample_chrono_def)
  have "handed sample_net = []" by (simp add: sample_net_def)
  with session_status_is_truthful [OF night_truthful k n(1)] n show ?thesis
    by (intro exI [of _ st] exI [of _ n']) auto
qed

end
