(* ===== verification/Broker_Reads.thy ===== *)
theory Broker_Reads
  imports Broker_Api Market_Hours Runner
begin

text \<open>
  The reads behind the broker facade: amounts (\<^verbatim>\<open>src/broker/amount.rs\<close>), positions and account funds
  (\<^verbatim>\<open>src/broker/positions.rs\<close>), account activities (\<^verbatim>\<open>src/broker/activity.rs\<close>), prices
  (\<^verbatim>\<open>src/broker/market_data.rs\<close>, \<open>LatestQuote\<close> of \<^verbatim>\<open>src/broker/session.rs\<close>), and the facade's own
  functions for them (\<^verbatim>\<open>src/broker/api.rs\<close>). The parameter \<open>R\<close> holds the rest of rain-math-float and
  st0x-finance that they use, and serde on their answers. Market data goes over its own \<open>wire\<close>, whose
  authorization is \<open>apply_apca\<close>.
\<close>

subsection \<open>Parameters\<close>

datatype 'f not_positive = NP_Constraint 'f | NP_Comparison string

record 'f position_response =
  pr_symbol :: string
  pr_asset_class :: "string option"
  pr_exchange :: "string option"
  pr_quantity :: 'f
  pr_total_quantity :: "'f option"
  pr_market_value :: "'f option"
  pr_current_price :: "'f option"

record 'f account_details_response =
  dr_cash :: 'f
  dr_cash_withdrawable :: "'f option"

record 'f quote_payload =
  qp_bid :: "'f option"
  qp_ask :: "'f option"
  qp_at :: "utc option"

record 'f quote_envelope =
  qe_symbol :: symbol
  qe_quote :: "'f quote_payload option"

record account_activity =
  aa_id :: string
  aa_activity_type :: string
  aa_activity_sub_type :: "string option"
  aa_date :: "date option"
  aa_created_at :: "utc option"
  aa_net_amount :: "string option"
  aa_symbol :: "string option"
  aa_qty :: "string option"
  aa_per_share_amount :: "string option"
  aa_price :: "string option"
  aa_side :: "string option"
  aa_order_id :: "uuid option"
  aa_transaction_time :: "utc option"
  aa_description :: "string option"
  aa_status :: "string option"
  aa_group_id :: "string option"
  aa_currency :: "string option"

record 'f reads =
  rd_zero :: "string + 'f"
  rd_mul :: "'f \<Rightarrow> 'f \<Rightarrow> string + 'f"
  rd_frac :: "'f \<Rightarrow> string + 'f"
  rd_integer :: "'f \<Rightarrow> string + 'f"
  rd_format_plain :: "'f \<Rightarrow> string + string"
  rd_hundred :: 'f
  rd_usdc_zero :: 'f
  rd_positive_new :: "'f \<Rightarrow> 'f not_positive + 'f"
  rd_symbol_new :: "string \<Rightarrow> string + symbol"
  rd_show_usdc_error :: "string \<Rightarrow> string"
  rd_negative_usdc :: "'f \<Rightarrow> string"
  rd_parse_positions :: "bytes \<Rightarrow> string + 'f position_response list"
  rd_parse_position :: "bytes \<Rightarrow> string + 'f position_response"
  rd_parse_account_details :: "bytes \<Rightarrow> string + 'f account_details_response"
  rd_parse_activities :: "bytes \<Rightarrow> string + account_activity list"
  rd_parse_trade :: "bytes \<Rightarrow> string + 'f option"
  rd_parse_quote :: "bytes \<Rightarrow> string + 'f quote_envelope"
  rd_encode :: "string \<Rightarrow> string"
  rd_query_url :: "string \<Rightarrow> (string \<times> string) list \<Rightarrow> string + string"
  rd_rfc3339 :: "utc \<Rightarrow> string"

subsection \<open>Amounts\<close>

record 'f alpaca_amount =
  am_raw :: 'f
  am_normalized :: 'f

definition floor_to_6_decimals :: "'f decimals \<Rightarrow> 'f reads \<Rightarrow> 'f \<Rightarrow> string + 'f" where
  "floor_to_6_decimals F R amount =
     and_then (map_err (rd_show_usdc_error R) (rd_zero R)) (\<lambda>zero.
     and_then (map_err (rd_show_usdc_error R) (fl_lt F amount zero)) (\<lambda>negative.
     if negative then Inl (rd_negative_usdc R amount)
     else and_then (map_err (rd_show_usdc_error R) (fl_to_fixed_decimal_lossy F amount 6)) (\<lambda>(fixed, _).
       map_err (rd_show_usdc_error R) (fl_from_fixed_decimal F fixed 6))))"

definition alpaca_amount_try_from :: "'f decimals \<Rightarrow> 'f reads \<Rightarrow> 'f \<Rightarrow> string + 'f alpaca_amount" where
  "alpaca_amount_try_from F R amount =
     and_then (floor_to_6_decimals F R amount) (\<lambda>n. Inr \<lparr>am_raw = amount, am_normalized = n\<rparr>)"

definition amount_is_zero :: "'f decimals \<Rightarrow> 'f alpaca_amount \<Rightarrow> string + bool" where
  "amount_is_zero F a = fl_is_zero F (am_normalized a)"

definition cash_value_at :: "'f reads \<Rightarrow> 'f alpaca_amount \<Rightarrow> 'f \<Rightarrow> string + 'f" where
  "cash_value_at R a price = rd_mul R (am_raw a) price"

subsection \<open>Positions and funds\<close>

record 'f equity_position =
  ep_symbol :: symbol
  ep_quantity :: 'f
  ep_market_value :: "'f option"

record 'f inventory =
  in_positions :: "'f equity_position list"
  in_alpaca_usdc :: "'f option"
  in_usd_balance_cents :: int
  in_cash_buying_power_cents :: "int option"
  in_cash_withdrawable_cents :: "int option"

record account_funds =
  af_balance :: int
  af_buying_power :: int
  af_withdrawable :: "int option"

definition to_ascii_lower :: "char \<Rightarrow> char" where
  "to_ascii_lower c = (let n = of_char c :: nat in if 65 \<le> n \<and> n \<le> 90 then char_of (n + 32) else c)"

definition eq_ignore_ascii_case :: "string \<Rightarrow> string \<Rightarrow> bool" where
  "eq_ignore_ascii_case a b \<longleftrightarrow> map to_ascii_lower a = map to_ascii_lower b"

definition is_non_equity :: "'f position_response \<Rightarrow> bool" where
  "is_non_equity p =
     (if pr_symbol p = ''USDCUSD'' then True
      else case pr_asset_class p of
          Some c \<Rightarrow> \<not> eq_ignore_ascii_case c ''us_equity''
        | None \<Rightarrow> (case pr_exchange p of None \<Rightarrow> False | Some x \<Rightarrow> eq_ignore_ascii_case x ''CRYPTO''))"

text \<open>\<open>parse::<i64>\<close>.\<close>

definition parse_i64 :: "string \<Rightarrow> int option" where
  "parse_i64 s =
     (case s of
        [] \<Rightarrow> None
      | c # r \<Rightarrow>
          let neg = (c = CHR ''-''); ds = (if neg \<or> c = CHR ''+'' then r else s)
          in if ds = [] then None
             else Option.bind (digits_val 0 ds) (\<lambda>k.
               let v = (if neg then - int k else int k)
               in if - (2 ^ 63) \<le> v \<and> v < 2 ^ 63 then Some v else None))"

definition to_cash_value_cents :: "'f decimals \<Rightarrow> 'f reads \<Rightarrow> 'f \<Rightarrow> 'f broker_error + int" where
  "to_cash_value_cents F R cash =
     and_then (map_err FloatConversion (rd_mul R cash (rd_hundred R))) (\<lambda>cents.
     and_then (map_err FloatConversion (rd_frac R cents)) (\<lambda>frac.
     and_then (map_err FloatConversion (fl_is_zero F frac)) (\<lambda>whole.
     if \<not> whole then Inl (FractionalCents cash)
     else and_then (map_err FloatConversion (rd_integer R cents)) (\<lambda>integer_cents.
       and_then (map_err FloatConversion (rd_format_plain R integer_cents)) (\<lambda>formatted.
       ok_or (parse_i64 formatted) (UsdBalanceConversion cash))))))"

definition list_positions ::
  "'f reads \<Rightarrow> ('env, 'w, 'f) alpaca \<Rightarrow> broker_client
   \<Rightarrow> ('env, 'w, 'f, 'f broker_error, 'f position_response list) broker_call" where
  "list_positions R A cl =
     get A (rd_parse_positions R) (cl_base_url cl @ ''/v1/trading/accounts/'' @ cl_account_id cl @ ''/positions'')"

definition get_account_details ::
  "'f reads \<Rightarrow> ('env, 'w, 'f) alpaca \<Rightarrow> broker_client
   \<Rightarrow> ('env, 'w, 'f, 'f broker_error, 'f account_details_response) broker_call" where
  "get_account_details R A cl =
     get A (rd_parse_account_details R) (cl_base_url cl @ ''/v1/trading/accounts/'' @ cl_account_id cl @ ''/account'')"

definition funds_from :: "'f decimals \<Rightarrow> 'f reads \<Rightarrow> 'f account_details_response \<Rightarrow> 'f broker_error + account_funds" where
  "funds_from F R account =
     and_then (to_cash_value_cents F R (dr_cash account)) (\<lambda>balance.
     and_then (case dr_cash_withdrawable account of
         None \<Rightarrow> Inr None
       | Some c \<Rightarrow> and_then (to_cash_value_cents F R c) (\<lambda>x. Inr (Some x))) (\<lambda>withdrawable.
     Inr \<lparr>af_balance = balance, af_buying_power = balance, af_withdrawable = withdrawable\<rparr>))"

definition get_account_funds ::
  "'f decimals \<Rightarrow> 'f reads \<Rightarrow> ('env, 'w, 'f) alpaca \<Rightarrow> broker_client
   \<Rightarrow> ('env, 'w, 'f, 'f broker_error, account_funds) broker_call" where
  "get_account_funds F R A cl =
     then_call (get_account_details R A cl) (\<lambda>account. return_call (funds_from F R account))"

definition alpaca_usdc_balance :: "'f decimals \<Rightarrow> 'f reads \<Rightarrow> 'f position_response list \<Rightarrow> 'f broker_error + 'f" where
  "alpaca_usdc_balance F R positions =
     (case find (\<lambda>p. pr_symbol p = ''USDCUSD'') positions of
        None \<Rightarrow> Inr (rd_usdc_zero R)
      | Some p \<Rightarrow>
          and_then (ok_or (pr_total_quantity p) MissingPositionQuantity) (\<lambda>total.
          and_then (map_err AlpacaAmountError (alpaca_amount_try_from F R total)) (\<lambda>a.
          Inr (am_normalized a))))"

definition equity_position_from :: "'f reads \<Rightarrow> 'f position_response \<Rightarrow> 'f broker_error + 'f equity_position" where
  "equity_position_from R p =
     and_then (map_err InvalidSymbol (rd_symbol_new R (pr_symbol p))) (\<lambda>symb.
       Inr \<lparr>ep_symbol = symb, ep_quantity = pr_quantity p, ep_market_value = pr_market_value p\<rparr>)"

text \<open>\<open>collect::<Result<Vec<_>, _>>\<close>: the first error wins.\<close>

fun collect_all :: "('a \<Rightarrow> 'e + 'b) \<Rightarrow> 'a list \<Rightarrow> 'e + 'b list" where
  "collect_all f [] = Inr []"
| "collect_all f (x # xs) = and_then (f x) (\<lambda>y. and_then (collect_all f xs) (\<lambda>ys. Inr (y # ys)))"

definition inventory_from ::
  "'f decimals \<Rightarrow> 'f reads \<Rightarrow> 'f position_response list \<Rightarrow> account_funds \<Rightarrow> 'f broker_error + 'f inventory" where
  "inventory_from F R positions funds =
     and_then (alpaca_usdc_balance F R positions) (\<lambda>usdc.
     and_then (collect_all (equity_position_from R) (filter (\<lambda>p. \<not> is_non_equity p) positions)) (\<lambda>ps.
     Inr \<lparr>in_positions = ps, in_alpaca_usdc = Some usdc, in_usd_balance_cents = af_balance funds,
          in_cash_buying_power_cents = Some (af_buying_power funds),
          in_cash_withdrawable_cents = af_withdrawable funds\<rparr>))"

definition fetch_inventory ::
  "'f decimals \<Rightarrow> 'f reads \<Rightarrow> ('env, 'w, 'f) alpaca \<Rightarrow> broker_client
   \<Rightarrow> ('env, 'w, 'f, 'f broker_error, 'f inventory) broker_call" where
  "fetch_inventory F R A cl =
     then_call (list_positions R A cl) (\<lambda>positions.
     then_call (get_account_funds F R A cl) (\<lambda>funds. return_call (inventory_from F R positions funds)))"

fun classify_position_mark :: "'f not_positive + 'f \<Rightarrow> 'f broker_error + 'f option" where
  "classify_position_mark (Inr mark) = Inr (Some mark)"
| "classify_position_mark (Inl (NP_Constraint _)) = Inr None"
| "classify_position_mark (Inl (NP_Comparison e)) = Inl (FloatConversion e)"

definition mark_from :: "'f reads \<Rightarrow> symbol \<Rightarrow> 'f position_response \<Rightarrow> 'f broker_error + 'f option" where
  "mark_from R symb p =
     and_then (map_err InvalidSymbol (rd_symbol_new R (pr_symbol p))) (\<lambda>returned.
     if returned \<noteq> symb then Inl (PositionSymbolMismatch symb returned)
     else if is_non_equity p then Inr None
     else case pr_current_price p of
         None \<Rightarrow> Inr None
       | Some price \<Rightarrow> classify_position_mark (rd_positive_new R price))"

definition position_url :: "'f reads \<Rightarrow> broker_client \<Rightarrow> symbol \<Rightarrow> string" where
  "position_url R cl symb =
     cl_base_url cl @ ''/v1/trading/accounts/'' @ cl_account_id cl @ ''/positions/'' @ rd_encode R symb"

definition fetch_position_mark ::
  "'f reads \<Rightarrow> ('env, 'w, 'f) alpaca \<Rightarrow> broker_client \<Rightarrow> symbol
   \<Rightarrow> ('env, 'w, 'f, 'f broker_error, 'f option) broker_call" where
  "fetch_position_mark R A cl symb s =
     (case get A (rd_parse_position R) (position_url R cl symb) s of
        (Inr p, s') \<Rightarrow> (mark_from R symb p, s')
      | (Inl e, s') \<Rightarrow>
          (case e of
             ApiError status _ _ _ \<Rightarrow> if status = 404 then (Inr None, s') else (Inl e, s')
           | _ \<Rightarrow> (Inl e, s')))"

subsection \<open>Account activities\<close>

definition PNL_ACTIVITY_TYPES :: "string list" where
  "PNL_ACTIVITY_TYPES = [''FEE'', ''PTC'', ''INT'', ''DIV'', ''DIVCGL'', ''DIVCGS'', ''DIVNRA'', ''DIVROC'',
     ''DIVTXEX'', ''CGD'', ''CIL'', ''CSD'']"

definition ACCOUNT_ACTIVITIES_PAGE_SIZE :: nat where
  "ACCOUNT_ACTIVITIES_PAGE_SIZE = 100"

definition MAX_ACCOUNT_ACTIVITIES_PAGES :: nat where
  "MAX_ACCOUNT_ACTIVITIES_PAGES = 1000"

record account_activities_query =
  aq_activity_types :: "string list"
  aq_after :: "utc option"
  aq_until :: "utc option"

definition pnl_query :: "utc option \<Rightarrow> utc option \<Rightarrow> account_activities_query" where
  "pnl_query after until = \<lparr>aq_activity_types = PNL_ACTIVITY_TYPES, aq_after = after, aq_until = until\<rparr>"

definition activity_pairs ::
  "'f reads \<Rightarrow> broker_client \<Rightarrow> account_activities_query \<Rightarrow> string option \<Rightarrow> (string \<times> string) list" where
  "activity_pairs R cl q page_token =
     [(''account_id'', cl_account_id cl), (''direction'', ''asc''),
      (''page_size'', show_nat ACCOUNT_ACTIVITIES_PAGE_SIZE)]
     @ (if aq_activity_types q = [] then [] else [(''activity_types'', join_ids (aq_activity_types q))])
     @ (case aq_after q of None \<Rightarrow> [] | Some t \<Rightarrow> [(''after'', rd_rfc3339 R t)])
     @ (case aq_until q of None \<Rightarrow> [] | Some t \<Rightarrow> [(''until'', rd_rfc3339 R t)])
     @ (case page_token of None \<Rightarrow> [] | Some t \<Rightarrow> [(''page_token'', t)])"

definition fetch_account_activities_page ::
  "'f reads \<Rightarrow> ('env, 'w, 'f) alpaca \<Rightarrow> broker_client \<Rightarrow> account_activities_query \<Rightarrow> string option
   \<Rightarrow> ('env, 'w, 'f, 'f broker_error, account_activity list) broker_call" where
  "fetch_account_activities_page R A cl q page_token =
     (let base = cl_base_url cl @ ''/v1/accounts/activities''
      in then_call (return_call (map_err (InvalidAccountActivitiesUrl base)
             (rd_query_url R base (activity_pairs R cl q page_token)))) (\<lambda>url.
         get A (rd_parse_activities R) url))"

fun activity_pages ::
  "(string option \<Rightarrow> 's \<Rightarrow> ('f broker_error + account_activity list) \<times> 's) \<Rightarrow> nat \<Rightarrow> nat
   \<Rightarrow> account_activity list \<Rightarrow> string option \<Rightarrow> 's \<Rightarrow> ('f broker_error + account_activity list) \<times> 's" where
  "activity_pages fetch max_pages 0 rows page_token s = (Inl (AccountActivitiesPageLimitExceeded max_pages), s)"
| "activity_pages fetch max_pages (Suc k) rows page_token s =
     (case fetch page_token s of
        (Inl e, s') \<Rightarrow> (Inl e, s')
      | (Inr page, s') \<Rightarrow>
          if page = [] then (Inr rows, s')
          else
            let last_id = Some (aa_id (last page)); rows' = rows @ page
            in if length page < ACCOUNT_ACTIVITIES_PAGE_SIZE then (Inr rows', s')
               else if page_token = last_id then (Inl AccountActivitiesPaginationInvariantViolation, s')
               else activity_pages fetch max_pages k rows' last_id s')"

definition get_account_activities ::
  "'f reads \<Rightarrow> ('env, 'w, 'f) alpaca \<Rightarrow> broker_client \<Rightarrow> account_activities_query \<Rightarrow> nat
   \<Rightarrow> ('env, 'w, 'f, 'f broker_error, account_activity list) broker_call" where
  "get_account_activities R A cl q max_pages =
     activity_pages (fetch_account_activities_page R A cl q) max_pages max_pages [] None"

subsection \<open>Prices\<close>

datatype quote_feed = DelayedSip | Overnight_Feed

fun as_query_value :: "quote_feed \<Rightarrow> string" where
  "as_query_value DelayedSip = ''delayed_sip''"
| "as_query_value Overnight_Feed = ''overnight''"

record 'f latest_quote =
  lq_bid :: 'f
  lq_ask :: 'f

definition latest_quote_new :: "'f decimals \<Rightarrow> 'f \<Rightarrow> 'f \<Rightarrow> 'f latest_quote_error + 'f latest_quote" where
  "latest_quote_new F bid ask =
     and_then (map_err QuoteFloat (fl_lt F ask bid)) (\<lambda>crossed.
       if crossed then Inl (Crossed bid ask) else Inr \<lparr>lq_bid = bid, lq_ask = ask\<rparr>)"

record 'f indicative_quote =
  iq_quote :: "'f latest_quote"
  iq_at :: utc

fun md_from_send :: "send_error \<Rightarrow> 'f market_data_error" where
  "md_from_send (SendHttp e) = Md_Http e"
| "md_from_send (SendNotSent c) = Md_NotSent c"

fun map_positive_usd :: "'f not_positive + 'f \<Rightarrow> ('f \<Rightarrow> 'f market_data_error) \<Rightarrow> 'f market_data_error + 'f" where
  "map_positive_usd (Inr v) constraint = Inr v"
| "map_positive_usd (Inl (NP_Constraint v)) constraint = Inl (constraint v)"
| "map_positive_usd (Inl (NP_Comparison e)) constraint = Inl (Md_Float e)"

text \<open>\<open>market_data_get\<close> and \<open>get_market_data_bytes\<close>: an authorized GET on the market data base URL.\<close>

definition market_data_answer ::
  "('env, 'w, unit) wire \<Rightarrow> http_answer \<Rightarrow> ('env, 'w, unit, 'f market_data_error, bytes) wire_call" where
  "market_data_answer X a s =
     (let s' = record_head a s; hint = head_retry_after X a s
      in (case ha_body a of
            Inl e \<Rightarrow> Inl (Md_Http e)
          | Inr bs \<Rightarrow>
              if ha_status a = 401 \<or> ha_status a = 403
              then Inl (Md_Entitlement (ha_status a) (wi_utf8_lossy X bs))
              else if \<not> is_success (ha_status a)
              then Inl (Md_ApiError (ha_status a) (wi_utf8_lossy X bs) hint)
              else Inr bs, s'))"

definition get_market_data_bytes ::
  "('env, 'w, unit) wire \<Rightarrow> string \<Rightarrow> string \<Rightarrow> (string \<times> string) list
   \<Rightarrow> ('env, 'w, unit, 'f market_data_error, bytes) wire_call" where
  "get_market_data_bytes X base p q =
     then_call (transmit Md_Auth md_from_send X W_Get (base @ p) q None) (market_data_answer X)"

definition trade_price_from :: "'f reads \<Rightarrow> symbol \<Rightarrow> bytes \<Rightarrow> 'f market_data_error + 'f" where
  "trade_price_from R symb bs =
     and_then (map_err Md_JsonParse (rd_parse_trade R bs)) (\<lambda>trade.
       case trade of
         None \<Rightarrow> Inl (Md_MissingPrice symb)
       | Some price \<Rightarrow> map_positive_usd (rd_positive_new R price) (Md_NonPositivePrice symb))"

definition fetch_latest_trade_price ::
  "'f reads \<Rightarrow> ('env, 'w, unit) wire \<Rightarrow> string \<Rightarrow> symbol
   \<Rightarrow> ('env, 'w, unit, 'f market_data_error, 'f) wire_call" where
  "fetch_latest_trade_price R X base symb =
     then_call (get_market_data_bytes X base (''/v2/stocks/'' @ rd_encode R symb @ ''/trades/latest'') [])
       (\<lambda>bs. return_call (trade_price_from R symb bs))"

definition quote_from ::
  "'f decimals \<Rightarrow> 'f reads \<Rightarrow> symbol \<Rightarrow> bytes \<Rightarrow> 'f market_data_error + 'f latest_quote \<times> utc option" where
  "quote_from F R symb bs =
     and_then (map_err Md_LatestQuoteJsonParse (rd_parse_quote R bs)) (\<lambda>r.
     if qe_symbol r \<noteq> symb then Inl (Md_LatestQuoteSymbolMismatch symb (qe_symbol r))
     else and_then (ok_or (qe_quote r) (Md_MissingQuote symb)) (\<lambda>q.
       and_then (ok_or (qp_bid q) (Md_MissingBid symb)) (\<lambda>bid.
       and_then (ok_or (qp_ask q) (Md_MissingAsk symb)) (\<lambda>ask.
       and_then (map_positive_usd (rd_positive_new R bid) (Md_NonPositiveBid symb)) (\<lambda>bid.
       and_then (map_positive_usd (rd_positive_new R ask) (Md_NonPositiveAsk symb)) (\<lambda>ask.
       and_then (map_err (Md_InvalidQuote symb) (latest_quote_new F bid ask)) (\<lambda>v.
       Inr (v, qp_at q))))))))"

definition fetch_quote_and_timestamp ::
  "'f decimals \<Rightarrow> 'f reads \<Rightarrow> ('env, 'w, unit) wire \<Rightarrow> string \<Rightarrow> symbol \<Rightarrow> quote_feed
   \<Rightarrow> ('env, 'w, unit, 'f market_data_error, 'f latest_quote \<times> utc option) wire_call" where
  "fetch_quote_and_timestamp F R X base symb feed =
     then_call (get_market_data_bytes X base (''/v2/stocks/'' @ rd_encode R symb @ ''/quotes/latest'')
         [(''feed'', as_query_value feed)])
       (\<lambda>bs. return_call (quote_from F R symb bs))"

definition fetch_latest_quote ::
  "'f decimals \<Rightarrow> 'f reads \<Rightarrow> ('env, 'w, unit) wire \<Rightarrow> string \<Rightarrow> symbol
   \<Rightarrow> ('env, 'w, unit, 'f market_data_error, 'f latest_quote) wire_call" where
  "fetch_latest_quote F R X base symb =
     then_call (fetch_quote_and_timestamp F R X base symb DelayedSip) (\<lambda>(q, _). return_call (Inr q))"

definition fetch_latest_overnight_quote ::
  "'f decimals \<Rightarrow> 'f reads \<Rightarrow> ('env, 'w, unit) wire \<Rightarrow> string \<Rightarrow> symbol
   \<Rightarrow> ('env, 'w, unit, 'f market_data_error, 'f indicative_quote) wire_call" where
  "fetch_latest_overnight_quote F R X base symb =
     then_call (fetch_quote_and_timestamp F R X base symb Overnight_Feed) (\<lambda>(q, at_time). return_call (
       and_then (ok_or at_time (Md_MissingQuoteTimestamp symb)) (\<lambda>t. Inr \<lparr>iq_quote = q, iq_at = t\<rparr>)))"

subsection \<open>The facade's reads\<close>

definition api_is_market_open ::
  "chrono \<Rightarrow> ('env, 'w, 'f) alpaca \<Rightarrow> broker_api \<Rightarrow> utc \<Rightarrow> ('env, 'w, 'f, 'f broker_error, bool) api_call" where
  "api_is_market_open K A api now = on_client (is_market_open_at K A (ba_client api) now)"

definition api_market_session ::
  "chrono \<Rightarrow> ('env, 'w, 'f) alpaca \<Rightarrow> broker_api \<Rightarrow> utc \<Rightarrow> ('env, 'w, 'f, 'f broker_error, market_session) api_call" where
  "api_market_session K A api now = on_client (market_session_at K A (ba_client api) now)"

definition api_market_session_status ::
  "chrono \<Rightarrow> ('env, 'w, 'f) alpaca \<Rightarrow> broker_api \<Rightarrow> utc
   \<Rightarrow> ('env, 'w, 'f, 'f broker_error, market_session_status) api_call" where
  "api_market_session_status K A api now = on_client (market_session_status_at K A (ba_client api) now)"

definition api_fetch_inventory ::
  "'f decimals \<Rightarrow> 'f reads \<Rightarrow> ('env, 'w, 'f) alpaca \<Rightarrow> broker_api
   \<Rightarrow> ('env, 'w, 'f, 'f broker_error, 'f inventory) api_call" where
  "api_fetch_inventory F R A api = on_client (fetch_inventory F R A (ba_client api))"

definition api_account_funds ::
  "'f decimals \<Rightarrow> 'f reads \<Rightarrow> ('env, 'w, 'f) alpaca \<Rightarrow> broker_api
   \<Rightarrow> ('env, 'w, 'f, 'f broker_error, account_funds) api_call" where
  "api_account_funds F R A api = on_client (get_account_funds F R A (ba_client api))"

definition withdrawable_cash_cents ::
  "'f decimals \<Rightarrow> 'f reads \<Rightarrow> ('env, 'w, 'f) alpaca \<Rightarrow> broker_api
   \<Rightarrow> ('env, 'w, 'f, 'f broker_error, int option) api_call" where
  "withdrawable_cash_cents F R A api =
     then_call (on_client (get_account_funds F R A (ba_client api))) (\<lambda>funds.
       return_call (Inr (af_withdrawable funds)))"

definition api_fetch_position_mark ::
  "'f reads \<Rightarrow> ('env, 'w, 'f) alpaca \<Rightarrow> broker_api \<Rightarrow> symbol
   \<Rightarrow> ('env, 'w, 'f, 'f broker_error, 'f option) api_call" where
  "api_fetch_position_mark R A api symb = on_client (fetch_position_mark R A (ba_client api) symb)"

definition api_fetch_account_activities ::
  "'f reads \<Rightarrow> ('env, 'w, 'f) alpaca \<Rightarrow> broker_api \<Rightarrow> account_activities_query \<Rightarrow> nat
   \<Rightarrow> ('env, 'w, 'f, 'f broker_error, account_activity list) api_call" where
  "api_fetch_account_activities R A api q max_pages =
     on_client (get_account_activities R A (ba_client api) q max_pages)"

definition api_fetch_latest_trade_price ::
  "'f reads \<Rightarrow> ('env, 'w, unit) wire \<Rightarrow> string \<Rightarrow> symbol \<Rightarrow> ('env, 'w, unit, 'f broker_error, 'f) wire_call" where
  "api_fetch_latest_trade_price R X base symb = map_err_call LatestTrade (fetch_latest_trade_price R X base symb)"

definition api_fetch_latest_quote ::
  "'f decimals \<Rightarrow> 'f reads \<Rightarrow> ('env, 'w, unit) wire \<Rightarrow> string \<Rightarrow> symbol
   \<Rightarrow> ('env, 'w, unit, 'f broker_error, 'f latest_quote) wire_call" where
  "api_fetch_latest_quote F R X base symb = map_err_call LatestQuote (fetch_latest_quote F R X base symb)"

definition api_fetch_latest_overnight_quote ::
  "'f decimals \<Rightarrow> 'f reads \<Rightarrow> ('env, 'w, unit) wire \<Rightarrow> string \<Rightarrow> symbol
   \<Rightarrow> ('env, 'w, unit, 'f broker_error, 'f indicative_quote) wire_call" where
  "api_fetch_latest_overnight_quote F R X base symb =
     map_err_call LatestQuote (fetch_latest_overnight_quote F R X base symb)"

subsection \<open>The account as the broker reports it\<close>

text \<open>
  Documented behaviour of the float and finance crates: multiplication is exact, \<open>integer\<close> and \<open>frac\<close>
  split a number at its decimal point, a whole number prints as its digits, \<open>Positive::new\<close> accepts
  exactly the positive numbers.
\<close>

definition show_int :: "int \<Rightarrow> string" where
  "show_int k = (if k < 0 then CHR ''-'' # show_nat (nat (- k)) else show_nat (nat k))"

definition whole_part :: "rat \<Rightarrow> int" where
  "whole_part x = (if x < 0 then - \<lfloor>- x\<rfloor> else \<lfloor>x\<rfloor>)"

definition reads_laws :: "'f reads \<Rightarrow> ('f \<Rightarrow> rat) \<Rightarrow> bool" where
  "reads_laws R val \<longleftrightarrow>
     (\<forall>a b c. rd_mul R a b = Inr c \<longrightarrow> val c = val a * val b)
     \<and> (\<forall>a c. rd_integer R a = Inr c \<longrightarrow> val c = of_int (whole_part (val a)))
     \<and> (\<forall>a c. rd_frac R a = Inr c \<longrightarrow> val c = val a - of_int (whole_part (val a)))
     \<and> (\<forall>a k s. rd_format_plain R a = Inr s \<longrightarrow> val a = of_int k \<longrightarrow> s = show_int k)
     \<and> (\<forall>a v. rd_positive_new R a = Inr v \<longrightarrow> v = a \<and> 0 < val a)
     \<and> (\<forall>z. rd_zero R = Inr z \<longrightarrow> val z = 0)
     \<and> val (rd_usdc_zero R) = 0 \<and> val (rd_hundred R) = 100"

lemma reads_lawsD:
  assumes "reads_laws R val"
  shows "rd_mul R a b = Inr c \<Longrightarrow> val c = val a * val b"
    and "rd_integer R a = Inr c \<Longrightarrow> val c = of_int (whole_part (val a))"
    and "rd_frac R a = Inr c \<Longrightarrow> val c = val a - of_int (whole_part (val a))"
    and "rd_format_plain R a = Inr s \<Longrightarrow> val a = of_int k \<Longrightarrow> s = show_int k"
    and "rd_positive_new R a = Inr v \<Longrightarrow> v = a \<and> 0 < val a"
    and "rd_zero R = Inr z \<Longrightarrow> val z = 0"
    and "val (rd_usdc_zero R) = 0" and "val (rd_hundred R) = 100"
  using assms unfolding reads_laws_def by blast+

lemma show_nat_head: "\<exists>c r. show_nat k = c # r \<and> is_digit c"
proof -
  have "show_nat k \<noteq> []" by (subst show_nat.simps) simp
  then show ?thesis using digits_val_show [of k] by (cases "show_nat k") (auto split: if_splits)
qed

lemma parse_i64_show:
  "parse_i64 (show_int k) = (if - (2 ^ 63) \<le> k \<and> k < 2 ^ 63 then Some k else None)"
proof (cases "k < 0")
  case True
  obtain c r where "show_nat (nat (- k)) = c # r" using show_nat_head by blast
  then have "show_nat (nat (- k)) \<noteq> []" by simp
  with True show ?thesis by (simp add: show_int_def parse_i64_def digits_val_show) linarith
next
  case False
  obtain c r where c: "show_nat (nat k) = c # r" "is_digit c" using show_nat_head by blast
  then have "c \<noteq> CHR ''-''" "c \<noteq> CHR ''+''" by (auto simp: is_digit_def between_def)
  with False c show ?thesis
    using digits_val_show [of "nat k"] by (simp add: show_int_def parse_i64_def) linarith
qed

lemma cents_are_exact:
  assumes "decimal_laws F val" "reads_laws R val" "to_cash_value_cents F R cash = Inr c"
  shows "of_int c = val cash * 100" and "- (2 ^ 63) \<le> c" and "c < 2 ^ 63"
proof -
  note R = reads_lawsD [OF assms(2)]
  from assms(3) obtain cents frac ic s where
    s: "rd_mul R cash (rd_hundred R) = Inr cents" "rd_frac R cents = Inr frac" "fl_is_zero F frac = Inr True"
      "rd_integer R cents = Inr ic" "rd_format_plain R ic = Inr s" "parse_i64 s = Some c"
    by (auto simp: to_cash_value_cents_def and_then_Inr_iff ok_or_Inr_iff split: if_splits)
  have v: "val cents = val cash * 100" using R(1) [OF s(1)] R(8) by simp
  have "val frac = 0" using assms(1) s(3) by (auto simp: decimal_laws_def)
  then have k: "val cents = of_int (whole_part (val cents))" using R(3) [OF s(2)] by simp
  have p: "parse_i64 (show_int (whole_part (val cents))) = Some c"
    using R(4) [OF s(5) R(2) [OF s(4)]] s(6) by simp
  then have "c = whole_part (val cents)" "- (2 ^ 63) \<le> c \<and> c < 2 ^ 63"
    by (auto simp: parse_i64_show split: if_splits)
  with k v show "of_int c = val cash * 100" "- (2 ^ 63) \<le> c" "c < 2 ^ 63" by simp_all
qed

text \<open>The USDC grid: a floor to six decimals, of a number that is not negative.\<close>

lemma floored_amount:
  assumes "decimal_laws F val" "reads_laws R val" "alpaca_amount_try_from F R x = Inr a"
  shows "am_raw a = x" and "0 \<le> val (am_normalized a)" and "val (am_normalized a) \<le> val x"
    and "val x < val (am_normalized a) + 1 / 10 ^ 6" and "\<exists>k. val (am_normalized a) = of_nat k / 10 ^ 6"
proof -
  from assms(3) obtain z k ll where
    s: "rd_zero R = Inr z" "fl_lt F x z = Inr False" "fl_to_fixed_decimal_lossy F x 6 = Inr (k, ll)"
      "fl_from_fixed_decimal F k 6 = Inr (am_normalized a)" "am_raw a = x"
    by (auto simp: alpaca_amount_try_from_def floor_to_6_decimals_def and_then_Inr_iff map_err_Inr_iff
        split: if_splits)
  have "val z = 0" by (rule reads_lawsD(6) [OF assms(2) s(1)])
  moreover have "False \<longleftrightarrow> val x < val z" using assms(1) s(2) unfolding decimal_laws_def by blast
  ultimately have x: "0 \<le> val x" by simp
  have n: "val (am_normalized a) = of_nat k / 10 ^ 6" using assms(1) s(4) unfolding decimal_laws_def by blast
  note b = decimal_laws_lossy [OF assms(1) x s(3)]
  from n b(1,2) s(5) show "am_raw a = x" "0 \<le> val (am_normalized a)" "val (am_normalized a) \<le> val x"
    "val x < val (am_normalized a) + 1 / 10 ^ 6" "\<exists>k. val (am_normalized a) = of_nat k / 10 ^ 6"
    by (auto simp: field_simps)
qed

lemma collect_all_Inr_iff:
  "collect_all f xs = Inr ys \<longleftrightarrow> list_all2 (\<lambda>x y. f x = Inr y) xs ys"
  by (induction xs arbitrary: ys) (auto simp: and_then_Inr_iff list_all2_Cons1)

definition answered_get ::
  "('env, 'w, 'f) alpaca \<Rightarrow> (bytes \<Rightarrow> string + 'a) \<Rightarrow> string \<Rightarrow> 'a \<Rightarrow> bool" where
  "answered_get A parse url x \<longleftrightarrow>
     (\<exists>req w1 a bs. br_method req = M_Get \<and> br_url req = url \<and> fst (al_http A req w1) = Inr a
        \<and> is_success (ha_status a) \<and> ha_body a = Inr bs \<and> parse bs = Inr x)"

lemma get_read:
  assumes "get A parse url (n, w) = (Inr x, s')"
  shows "answered_get A parse url x"
  using assms unfolding answered_get_def by (rule get_ok) blast

lemma fetch_inventory_reads:
  assumes "fetch_inventory F R A cl s = (Inr iv, s')"
  obtains ps acc funds where
    "answered_get A (rd_parse_positions R) (cl_base_url cl @ ''/v1/trading/accounts/'' @ cl_account_id cl @ ''/positions'') ps"
    "answered_get A (rd_parse_account_details R) (cl_base_url cl @ ''/v1/trading/accounts/'' @ cl_account_id cl @ ''/account'') acc"
    "funds_from F R acc = Inr funds" "inventory_from F R ps funds = Inr iv"
proof -
  obtain n w n3 w3 where s: "s = (n, w)" "s' = (n3, w3)" by (metis surj_pair)
  from assms obtain ps n1 w1 acc n2 w2 funds where
    p: "list_positions R A cl (n, w) = (Inr ps, (n1, w1))" "get_account_details R A cl (n1, w1) = (Inr acc, (n2, w2))"
      "funds_from F R acc = Inr funds" "inventory_from F R ps funds = Inr iv"
    by (auto simp: s fetch_inventory_def get_account_funds_def then_call_def return_call_def
        split: prod.splits sum.splits)
  from get_read [OF p(1) [unfolded list_positions_def]] get_read [OF p(2) [unfolded get_account_details_def]] p(3,4)
  show ?thesis by (rule that)
qed

text \<open>
  The inventory is the account as Alpaca answered it: the equity positions in Alpaca's order with their
  available quantities, and never the USDC pair; the USDC held, floored to six decimals, never more
  than Alpaca's total; cash and withdrawable cash in exact cents that fit 64 bits.
\<close>

theorem inventory_reports_the_account:
  assumes "decimal_laws F val" "reads_laws R val" "fetch_inventory F R A cl s = (Inr iv, s')"
  shows "\<exists>ps acc.
      answered_get A (rd_parse_positions R) (cl_base_url cl @ ''/v1/trading/accounts/'' @ cl_account_id cl @ ''/positions'') ps
    \<and> answered_get A (rd_parse_account_details R) (cl_base_url cl @ ''/v1/trading/accounts/'' @ cl_account_id cl @ ''/account'') acc
    \<and> list_all2 (\<lambda>p e. rd_symbol_new R (pr_symbol p) = Inr (ep_symbol e) \<and> ep_quantity e = pr_quantity p
          \<and> pr_symbol p \<noteq> ''USDCUSD'') (filter (\<lambda>p. \<not> is_non_equity p) ps) (in_positions iv)
    \<and> (\<exists>held. in_alpaca_usdc iv = Some held \<and>
         (case find (\<lambda>p. pr_symbol p = ''USDCUSD'') ps of
            None \<Rightarrow> val held = 0
          | Some p \<Rightarrow> (\<exists>total. pr_total_quantity p = Some total \<and> val held \<le> val total
              \<and> val total < val held + 1 / 10 ^ 6)))
    \<and> of_int (in_usd_balance_cents iv) = val (dr_cash acc) * 100
    \<and> in_cash_buying_power_cents iv = Some (in_usd_balance_cents iv)
    \<and> map_option of_int (in_cash_withdrawable_cents iv) = map_option (\<lambda>c. val c * 100) (dr_cash_withdrawable acc)
    \<and> - (2 ^ 63) \<le> in_usd_balance_cents iv \<and> in_usd_balance_cents iv < 2 ^ 63"
proof -
  from fetch_inventory_reads [OF assms(3)] obtain ps acc funds where
    r: "answered_get A (rd_parse_positions R) (cl_base_url cl @ ''/v1/trading/accounts/'' @ cl_account_id cl @ ''/positions'') ps"
    "answered_get A (rd_parse_account_details R) (cl_base_url cl @ ''/v1/trading/accounts/'' @ cl_account_id cl @ ''/account'') acc"
    "funds_from F R acc = Inr funds" "inventory_from F R ps funds = Inr iv" .
  have f: "to_cash_value_cents F R (dr_cash acc) = Inr (af_balance funds)" "af_buying_power funds = af_balance funds"
    using r(3) by (auto simp: funds_from_def and_then_Inr_iff)
  have wd: "map_option of_int (af_withdrawable funds) = map_option (\<lambda>c. val c * 100) (dr_cash_withdrawable acc)"
    using r(3) cents_are_exact(1) [OF assms(1,2)]
    by (auto simp: funds_from_def and_then_Inr_iff split: option.splits)
  from r(4) obtain held where h: "alpaca_usdc_balance F R ps = Inr held" "in_alpaca_usdc iv = Some held"
    "collect_all (equity_position_from R) (filter (\<lambda>p. \<not> is_non_equity p) ps) = Inr (in_positions iv)"
    "in_usd_balance_cents iv = af_balance funds" "in_cash_buying_power_cents iv = Some (af_buying_power funds)"
    "in_cash_withdrawable_cents iv = af_withdrawable funds"
    by (auto simp: inventory_from_def and_then_Inr_iff)
  have eq: "list_all2 (\<lambda>p e. rd_symbol_new R (pr_symbol p) = Inr (ep_symbol e) \<and> ep_quantity e = pr_quantity p
      \<and> pr_symbol p \<noteq> ''USDCUSD'') (filter (\<lambda>p. \<not> is_non_equity p) ps) (in_positions iv)"
    using h(3) unfolding collect_all_Inr_iff
    by (rule list.rel_mono_strong) (auto simp: equity_position_from_def and_then_Inr_iff map_err_Inr_iff is_non_equity_def)
  have usdc: "case find (\<lambda>p. pr_symbol p = ''USDCUSD'') ps of
      None \<Rightarrow> val held = 0
    | Some p \<Rightarrow> (\<exists>total. pr_total_quantity p = Some total \<and> val held \<le> val total \<and> val total < val held + 1 / 10 ^ 6)"
    using h(1) reads_lawsD(7) [OF assms(2)] floored_amount(3,4) [OF assms(1,2)]
    by (auto simp: alpaca_usdc_balance_def and_then_Inr_iff ok_or_Inr_iff map_err_Inr_iff split: option.splits)
  show ?thesis
    using r(1,2) eq usdc h(2,4,5,6) f(2) wd cents_are_exact [OF assms(1,2) f(1)]
    by (intro exI [of _ ps] exI [of _ acc] conjI exI [of _ held]) simp_all
qed

subsection \<open>Prices\<close>

definition is_md_request :: "string \<Rightarrow> (string \<times> string) list \<Rightarrow> unit wire_request \<Rightarrow> bool" where
  "is_md_request url q g \<longleftrightarrow> wq_method g = W_Get \<and> wq_url g = url \<and> wq_query g = q \<and> wq_body g = None"

lemma market_data_ok:
  assumes "get_market_data_bytes X base p q s = (Inr bs :: 'f market_data_error + bytes, s')"
  obtains g a w1 where "sent_so_far s' = sent_so_far s @ [g]" "is_md_request (base @ p) q g"
    "fst (wi_http X g w1) = Inr a" "is_success (ha_status a)" "ha_body a = Inr bs"
proof -
  from assms obtain a s1 where
    t: "transmit (Md_Auth :: _ \<Rightarrow> 'f market_data_error) md_from_send X W_Get (base @ p) q None s = (Inr a, s1)"
    and m: "market_data_answer X a s1 = (Inr bs :: 'f market_data_error + bytes, s')"
    by (auto simp: get_market_data_bytes_def then_call_def split: prod.splits sum.splits)
  have h: "s' = record_head a s1" "is_success (ha_status a)" "ha_body a = Inr bs"
    using m by (auto simp: market_data_answer_def Let_def split: sum.splits if_splits)
  from t show ?thesis
  proof (cases rule: transmit_cases)
    case (answered g a' w1)
    then have "fst (wi_http X g w1) = Inr a" by simp
    with answered h show ?thesis by (intro that [of g w1 a]) (simp_all add: is_md_request_def)
  qed simp_all
qed

lemma positive_usd:
  assumes "reads_laws R val" "map_positive_usd (rd_positive_new R x) e = Inr v"
  shows "v = x" and "0 < val x"
proof -
  have "rd_positive_new R x = Inr v"
    using assms(2) by (cases "rd_positive_new R x" rule: map_positive_usd.cases [of "(_, e)"]) auto
  from reads_lawsD(5) [OF assms(1) this] show "v = x" "0 < val x" by simp_all
qed

lemma quote_from_ok:
  assumes "decimal_laws F val" "reads_laws R val" "quote_from F R symb bs = Inr (q, t)"
  shows "0 < val (lq_bid q)" and "val (lq_bid q) \<le> val (lq_ask q)"
    and "\<exists>r p. rd_parse_quote R bs = Inr r \<and> qe_symbol r = symb \<and> qe_quote r = Some p
      \<and> qp_bid p = Some (lq_bid q) \<and> qp_ask p = Some (lq_ask q) \<and> qp_at p = t"
proof -
  from assms(3) obtain r p b a b' a' where
    r: "rd_parse_quote R bs = Inr r" "qe_symbol r = symb" "qe_quote r = Some p" "qp_bid p = Some b" "qp_ask p = Some a"
      "map_positive_usd (rd_positive_new R b) (Md_NonPositiveBid symb) = Inr b'"
      "map_positive_usd (rd_positive_new R a) (Md_NonPositiveAsk symb) = Inr a'"
      "latest_quote_new F b' a' = Inr q" "t = qp_at p"
    by (auto simp: quote_from_def and_then_Inr_iff ok_or_Inr_iff map_err_Inr_iff split: if_splits)
  have v: "b' = b" "a' = a" "0 < val b"
    using positive_usd [OF assms(2) r(6)] positive_usd [OF assms(2) r(7)] by simp_all
  have "fl_lt F a b = Inr False" and q: "lq_bid q = b" "lq_ask q = a"
    using r(8) v by (auto simp: latest_quote_new_def and_then_Inr_iff map_err_Inr_iff split: if_splits)
  then have "False \<longleftrightarrow> val a < val b" using assms(1) unfolding decimal_laws_def by blast
  with v q r show "0 < val (lq_bid q)" "val (lq_bid q) \<le> val (lq_ask q)"
    "\<exists>r p. rd_parse_quote R bs = Inr r \<and> qe_symbol r = symb \<and> qe_quote r = Some p
      \<and> qp_bid p = Some (lq_bid q) \<and> qp_ask p = Some (lq_ask q) \<and> qp_at p = t" by auto
qed

lemma quote_read:
  fixes F :: "'f decimals"
  assumes "fetch_quote_and_timestamp F R X base symb feed s = (Inr (q, t), s')"
  obtains g a w1 bs where "sent_so_far s' = sent_so_far s @ [g]"
    "is_md_request (base @ ''/v2/stocks/'' @ rd_encode R symb @ ''/quotes/latest'') [(''feed'', as_query_value feed)] g"
    "fst (wi_http X g w1) = Inr a" "is_success (ha_status a)" "ha_body a = Inr bs" "quote_from F R symb bs = Inr (q, t)"
proof -
  from assms obtain bs where b: "get_market_data_bytes X base (''/v2/stocks/'' @ rd_encode R symb @ ''/quotes/latest'')
      [(''feed'', as_query_value feed)] s = (Inr bs :: 'f market_data_error + bytes, s')"
      "quote_from F R symb bs = Inr (q, t)"
    by (auto simp: fetch_quote_and_timestamp_def then_call_def return_call_def split: prod.splits sum.splits)
  show ?thesis by (rule market_data_ok [OF b(1)]) (rule that [OF _ _ _ _ _ b(2)])
qed

text \<open>
  A quote is priced from only when it is sound: it comes from a 2xx answer to one GET on the feed of
  its session, for the symbol asked for, both sides are Alpaca's own positive prices and the bid does
  not exceed the ask. An overnight quote carries the timestamp Alpaca gave it.
\<close>

theorem quotes_are_sound:
  assumes "decimal_laws F val" "reads_laws R val"
    and "api_fetch_latest_quote F R X base symb s = (Inr q, s') \<and> feed = DelayedSip
      \<or> api_fetch_latest_overnight_quote F R X base symb s = (Inr \<lparr>iq_quote = q, iq_at = t\<rparr>, s') \<and> feed = Overnight_Feed"
  shows "\<exists>g a w1 bs r p. sent_so_far s' = sent_so_far s @ [g]
    \<and> is_md_request (base @ ''/v2/stocks/'' @ rd_encode R symb @ ''/quotes/latest'') [(''feed'', as_query_value feed)] g
    \<and> fst (wi_http X g w1) = Inr a \<and> is_success (ha_status a) \<and> ha_body a = Inr bs
    \<and> rd_parse_quote R bs = Inr r \<and> qe_symbol r = symb \<and> qe_quote r = Some p
    \<and> qp_bid p = Some (lq_bid q) \<and> qp_ask p = Some (lq_ask q)
    \<and> 0 < val (lq_bid q) \<and> val (lq_bid q) \<le> val (lq_ask q)
    \<and> (feed = Overnight_Feed \<longrightarrow> qp_at p = Some t)"
proof -
  obtain t' where f: "fetch_quote_and_timestamp F R X base symb feed s = (Inr (q, t'), s')"
    and t: "feed = Overnight_Feed \<longrightarrow> t' = Some t"
    using assms(3)
    by (auto simp: api_fetch_latest_quote_def api_fetch_latest_overnight_quote_def map_err_call_def
        fetch_latest_quote_def fetch_latest_overnight_quote_def then_call_def return_call_def and_then_Inr_iff
        map_err_Inr_iff ok_or_Inr_iff split: prod.splits sum.splits)
  from quote_read [OF f] obtain g a w1 bs where g: "sent_so_far s' = sent_so_far s @ [g]"
    "is_md_request (base @ ''/v2/stocks/'' @ rd_encode R symb @ ''/quotes/latest'') [(''feed'', as_query_value feed)] g"
    "fst (wi_http X g w1) = Inr a" "is_success (ha_status a)" "ha_body a = Inr bs" "quote_from F R symb bs = Inr (q, t')" .
  from quote_from_ok(3) [OF assms(1,2) g(6)] obtain r p where "rd_parse_quote R bs = Inr r" "qe_symbol r = symb"
    "qe_quote r = Some p" "qp_bid p = Some (lq_bid q)" "qp_ask p = Some (lq_ask q)" "qp_at p = t'" by blast
  with g quote_from_ok(1,2) [OF assms(1,2) g(6)] t show ?thesis by blast
qed

text \<open>
  A mark is the current price of an equity position in the symbol asked for, and positive; anything
  else Alpaca may answer is no mark or an error.
\<close>

lemma mark_is_the_positions_price:
  assumes "reads_laws R val" "fetch_position_mark R A cl symb (n, w) = (Inr (Some m), s')"
  shows "0 < val m \<and> (\<exists>p. answered_get A (rd_parse_position R) (position_url R cl symb) p
    \<and> rd_symbol_new R (pr_symbol p) = Inr symb \<and> \<not> is_non_equity p \<and> pr_current_price p = Some m)"
proof -
  obtain x s1 where g: "get A (rd_parse_position R) (position_url R cl symb) (n, w) = (x, s1)" by (rule prod.exhaust)
  with assms(2) obtain p where x: "x = Inr p" and m: "mark_from R symb p = Inr (Some m)"
    by (cases x) (auto simp: fetch_position_mark_def split: broker_error.splits if_splits)
  from m obtain price where price: "rd_symbol_new R (pr_symbol p) = Inr symb" "\<not> is_non_equity p"
    "pr_current_price p = Some price" "classify_position_mark (rd_positive_new R price) = Inr (Some m)"
    by (auto simp: mark_from_def and_then_Inr_iff map_err_Inr_iff split: if_splits option.splits)
  have "rd_positive_new R price = Inr m"
    using price(4) by (cases "rd_positive_new R price" rule: classify_position_mark.cases) auto
  from reads_lawsD(5) [OF assms(1) this] price get_read [OF g [unfolded x]] show ?thesis by blast
qed

subsection \<open>Activities\<close>

text \<open>A run of page reads, each asked for from the last id of the page before it.\<close>

fun reads_pages ::
  "(string option \<Rightarrow> 's \<Rightarrow> ('f broker_error + account_activity list) \<times> 's) \<Rightarrow> string option \<Rightarrow> 's
   \<Rightarrow> account_activity list list \<Rightarrow> 's \<Rightarrow> bool" where
  "reads_pages fetch tok s [] s' \<longleftrightarrow> s' = s"
| "reads_pages fetch tok s (p # ps) s' \<longleftrightarrow>
     (\<exists>s1. fetch tok s = (Inr p, s1) \<and> reads_pages fetch (if p = [] then tok else Some (aa_id (last p))) s1 ps s')"

lemma activity_pages_ok:
  assumes "activity_pages fetch m k rows tok s = (Inr out, s')"
  shows "\<exists>ps. reads_pages fetch tok s ps s' \<and> out = rows @ concat ps \<and> ps \<noteq> [] \<and> length ps \<le> k
    \<and> (\<forall>p\<in>set (butlast ps). ACCOUNT_ACTIVITIES_PAGE_SIZE \<le> length p)
    \<and> length (last ps) < ACCOUNT_ACTIVITIES_PAGE_SIZE"
  using assms
proof (induction k arbitrary: rows tok s)
  case (Suc k)
  obtain x s1 where f: "fetch tok s = (x, s1)" by force
  with Suc.prems obtain p where x: "x = Inr p" by (cases x) auto
  show ?case
  proof (cases "length p < ACCOUNT_ACTIVITIES_PAGE_SIZE")
    case True
    with Suc.prems f x have "out = rows @ p" "s' = s1" by (auto simp: Let_def split: if_splits)
    with f x True show ?thesis by (intro exI [of _ "[p]"]) simp
  next
    case False
    then have "p \<noteq> []" by (auto simp: ACCOUNT_ACTIVITIES_PAGE_SIZE_def)
    with False Suc.prems f x have "activity_pages fetch m k (rows @ p) (Some (aa_id (last p))) s1 = (Inr out, s')"
      by (auto simp: Let_def split: if_splits)
    from Suc.IH [OF this] obtain ps where "reads_pages fetch (Some (aa_id (last p))) s1 ps s'"
      "out = (rows @ p) @ concat ps" "ps \<noteq> []" "length ps \<le> k"
      "\<forall>p\<in>set (butlast ps). ACCOUNT_ACTIVITIES_PAGE_SIZE \<le> length p"
      "length (last ps) < ACCOUNT_ACTIVITIES_PAGE_SIZE" by blast
    with f x False \<open>p \<noteq> []\<close> show ?thesis by (intro exI [of _ "p # ps"]) auto
  qed
qed simp

text \<open>
  A successful read of the activities is complete: it returns, in Alpaca's order, every row of a run of
  pages that follows the page tokens and ends with a page that is not full, in at most \<open>max_pages\<close>
  reads. A history longer than that is an error, never a shortened list.
\<close>

theorem activities_are_complete:
  assumes "api_fetch_account_activities R A api q max_pages (cache, s) = (Inr rows, (cache', s'))"
  shows "cache' = cache \<and> (\<exists>ps. reads_pages (fetch_account_activities_page R A (ba_client api) q) None s ps s'
    \<and> rows = concat ps \<and> ps \<noteq> [] \<and> length ps \<le> max_pages
    \<and> (\<forall>p\<in>set (butlast ps). ACCOUNT_ACTIVITIES_PAGE_SIZE \<le> length p)
    \<and> length (last ps) < ACCOUNT_ACTIVITIES_PAGE_SIZE)"
proof -
  have c: "cache' = cache" and g: "get_account_activities R A (ba_client api) q max_pages s = (Inr rows, s')"
    using assms by (auto simp: api_fetch_account_activities_def on_client_def split: prod.splits)
  from activity_pages_ok [OF g [unfolded get_account_activities_def]] c show ?thesis by simp
qed

subsection \<open>Concrete reads\<close>

text \<open>Decimals as multiples of 1e-18, and an account whose positions and cash are fixed.\<close>

definition sample_account :: "nat account_details_response" where
  "sample_account = \<lparr>dr_cash = 1250 * 10 ^ 16, dr_cash_withdrawable = None\<rparr>"

definition sample_positions :: "nat position_response list" where
  "sample_positions =
     [\<lparr>pr_symbol = ''AAPL'', pr_asset_class = Some ''us_equity'', pr_exchange = None, pr_quantity = 2 * 10 ^ 18,
       pr_total_quantity = None, pr_market_value = None, pr_current_price = None\<rparr>,
      \<lparr>pr_symbol = ''USDCUSD'', pr_asset_class = None, pr_exchange = None, pr_quantity = 0,
       pr_total_quantity = Some (15 * 10 ^ 11 + 1), pr_market_value = None, pr_current_price = None\<rparr>]"

definition sample_quote :: "nat quote_envelope" where
  "sample_quote = \<lparr>qe_symbol = ''AAPL'', qe_quote = Some \<lparr>qp_bid = Some (3 * 10 ^ 18),
     qp_ask = Some (4 * 10 ^ 18), qp_at = Some 9\<rparr>\<rparr>"

definition fixed18_reads :: "nat reads" where
  "fixed18_reads = \<lparr>rd_zero = Inr 0,
     rd_mul = (\<lambda>a b. if a * b mod 10 ^ 18 = 0 then Inr (a * b div 10 ^ 18) else Inl ''inexact''),
     rd_frac = (\<lambda>a. Inr (a mod 10 ^ 18)), rd_integer = (\<lambda>a. Inr (a - a mod 10 ^ 18)),
     rd_format_plain = (\<lambda>a. Inr (show_nat (a div 10 ^ 18))), rd_hundred = 100 * 10 ^ 18, rd_usdc_zero = 0,
     rd_positive_new = (\<lambda>a. if 0 < a then Inr a else Inl (NP_Constraint a)), rd_symbol_new = Inr,
     rd_show_usdc_error = (\<lambda>e. e), rd_negative_usdc = (\<lambda>_. ''negative''),
     rd_parse_positions = (\<lambda>_. Inr sample_positions), rd_parse_position = (\<lambda>_. Inl ''none''),
     rd_parse_account_details = (\<lambda>_. Inr sample_account), rd_parse_activities = (\<lambda>_. Inr []),
     rd_parse_trade = (\<lambda>_. Inr None), rd_parse_quote = (\<lambda>_. Inr sample_quote), rd_encode = (\<lambda>s. s),
     rd_query_url = (\<lambda>u _. Inr u), rd_rfc3339 = (\<lambda>_. ''t'')\<rparr>"

lemma whole_part_fixed18: "whole_part (fixed18_val a) = int (a div 10 ^ 18)"
proof -
  have "\<lfloor>(of_nat a :: rat) / of_nat (10 ^ 18)\<rfloor> = int (a div 10 ^ 18)"
    by (metis floor_divide_of_nat_eq)
  moreover have "(of_nat (10 ^ 18) :: rat) = 10 ^ 18" by simp
  ultimately show ?thesis by (simp add: whole_part_def fixed18_val_def)
qed

lemma fixed18_whole: "(of_nat (a - a mod 10 ^ 18) :: rat) / 10 ^ 18 = of_nat (a div 10 ^ 18)"
proof -
  have "a - a mod 10 ^ 18 = (a div 10 ^ 18) * 10 ^ 18" by (simp add: minus_mod_eq_mult_div mult.commute)
  then show ?thesis by simp
qed

lemma fixed18_reads_laws: "reads_laws fixed18_reads fixed18_val"
proof -
  have mul: "fixed18_val (a * b div 10 ^ 18) = fixed18_val a * fixed18_val b" if "a * b mod 10 ^ 18 = 0" for a b
  proof -
    from that have "(a * b div 10 ^ 18) * 10 ^ 18 = a * b" by auto
    then have "(of_nat (a * b div 10 ^ 18) :: rat) * 10 ^ 18 = of_nat a * of_nat b"
      by (metis of_nat_mult of_nat_numeral of_nat_power)
    then show ?thesis by (simp add: fixed18_val_def field_simps)
  qed
  have int_part: "fixed18_val (a - a mod 10 ^ 18) = of_int (whole_part (fixed18_val a))" for a
    unfolding whole_part_fixed18 unfolding fixed18_val_def fixed18_whole by simp
  have frac: "fixed18_val (a mod 10 ^ 18) = fixed18_val a - of_int (whole_part (fixed18_val a))" for a
  proof -
    have "fixed18_val a = fixed18_val (a - a mod 10 ^ 18) + fixed18_val (a mod 10 ^ 18)"
      by (simp add: fixed18_val_def add_divide_distrib [symmetric] flip: of_nat_add)
    with int_part [of a] show ?thesis by simp
  qed
  have whole: "show_nat (a div 10 ^ 18) = show_int k" if "fixed18_val a = of_int k" for a k
  proof -
    have "k = int (a div 10 ^ 18)"
      using that whole_part_fixed18 [of a] by (simp add: whole_part_def split: if_splits)
    then show ?thesis by (simp add: show_int_def)
  qed
  show ?thesis
    unfolding reads_laws_def using mul int_part frac whole
    by (auto simp: fixed18_reads_def fixed18_val_def split: if_splits)
qed

lemma parse_i64_show_nat: "parse_i64 (show_nat k) = (if k < 2 ^ 63 then Some (int k) else None)"
  using parse_i64_show [of "int k"] by (simp add: show_int_def)

lemma sample_funds:
  "funds_from fixed18 fixed18_reads sample_account
     = Inr \<lparr>af_balance = 1250, af_buying_power = 1250, af_withdrawable = None\<rparr>"
  by (simp add: funds_from_def to_cash_value_cents_def sample_account_def fixed18_reads_def fixed18_def
      parse_i64_show_nat ok_or_def)

lemma sample_usdc: "alpaca_usdc_balance fixed18 fixed18_reads sample_positions = Inr (10 ^ 12)"
  by (simp add: alpaca_usdc_balance_def sample_positions_def alpaca_amount_try_from_def
      floor_to_6_decimals_def fixed18_reads_def fixed18_def ok_or_def)

lemma sample_equities:
  "collect_all (equity_position_from fixed18_reads) (filter (\<lambda>p. \<not> is_non_equity p) sample_positions)
     = Inr [\<lparr>ep_symbol = ''AAPL'', ep_quantity = 2 * 10 ^ 18, ep_market_value = None\<rparr>]"
  by (simp add: sample_positions_def is_non_equity_def eq_ignore_ascii_case_def to_ascii_lower_def
      equity_position_from_def fixed18_reads_def)

lemma sample_inventory:
  "\<exists>iv s'. fetch_inventory fixed18 fixed18_reads (sample_alpaca 200 200) sample_client (Orders.sample_net, ())
       = (Inr iv, s') \<and> map ep_symbol (in_positions iv) = [''AAPL''] \<and> in_alpaca_usdc iv = Some (10 ^ 12)"
proof -
  have "rd_parse_positions fixed18_reads = (\<lambda>_. Inr sample_positions)"
    "rd_parse_account_details fixed18_reads = (\<lambda>_. Inr sample_account)" by (simp_all add: fixed18_reads_def)
  then show ?thesis
    by (simp add: fetch_inventory_def list_positions_def get_account_funds_def get_account_details_def
        get_def exchange_def handle_response_def start_def sample_alpaca_def Orders.sample_net_def call_defs
        status_defs inventory_from_def sample_funds sample_usdc sample_equities)
qed

theorem inventory_reports_the_account_witness:
  "\<exists>iv s'. fetch_inventory fixed18 fixed18_reads (sample_alpaca 200 200) sample_client (Orders.sample_net, ())
       = (Inr iv, s')
     \<and> map ep_symbol (in_positions iv) = [''AAPL''] \<and> in_alpaca_usdc iv = Some (10 ^ 12)
     \<and> (of_int (in_usd_balance_cents iv) :: rat) = fixed18_val (1250 * 10 ^ 16) * 100"
proof -
  obtain iv s' where v: "fetch_inventory fixed18 fixed18_reads (sample_alpaca 200 200) sample_client
      (Orders.sample_net, ()) = (Inr iv, s')" "map ep_symbol (in_positions iv) = [''AAPL'']"
      "in_alpaca_usdc iv = Some (10 ^ 12)"
    using sample_inventory by (elim exE conjE) (rule that)
  from inventory_reports_the_account [OF fixed18_laws fixed18_reads_laws v(1)] v
  have "(of_int (in_usd_balance_cents iv) :: rat) = fixed18_val (dr_cash sample_account) * 100"
    by (auto simp: answered_get_def fixed18_reads_def)
  with v show ?thesis by (intro exI [of _ iv] exI [of _ s']) (simp add: sample_account_def)
qed

definition quote_wire :: "(unit, unit, unit) wire" where
  "quote_wire = \<lparr>wi_env = (\<lambda>_. ()), wi_authorize = (\<lambda>w. (Inr ''k'', w)),
     wi_http = (\<lambda>_ w. (Inr \<lparr>ha_status = 200, ha_headers = [], ha_body = Inr []\<rparr>, w)),
     wi_system_time = (\<lambda>_. 0), wi_rfc2822 = (\<lambda>_. None), wi_utf8_lossy = (\<lambda>bs. bs)\<rparr>"

definition idle_net :: "(unit, unit wire_request) net" where
  "idle_net = \<lparr>locals = \<lparr>TRAFFIC = None, GATE = None, LAST_ANSWER = None\<rparr>,
     gates = (\<lambda>_. new_gate (\<lambda>_. True)), handed = []\<rparr>"

lemma sample_overnight_quote:
  "\<exists>s'. api_fetch_latest_overnight_quote fixed18 fixed18_reads quote_wire ''https://data'' ''AAPL'' (idle_net, ())
     = (Inr \<lparr>iq_quote = \<lparr>lq_bid = 3 * 10 ^ 18, lq_ask = 4 * 10 ^ 18\<rparr>, iq_at = 9\<rparr>, s')"
  by (simp add: api_fetch_latest_overnight_quote_def fetch_latest_overnight_quote_def fetch_quote_and_timestamp_def
      get_market_data_bytes_def transmit_def market_data_answer_def start_def quote_wire_def idle_net_def
      record_head_def quote_from_def latest_quote_new_def fixed18_reads_def fixed18_def sample_quote_def call_defs
      status_defs ok_or_def)

theorem quotes_are_sound_witness:
  "\<exists>s' g. api_fetch_latest_overnight_quote fixed18 fixed18_reads quote_wire ''https://data'' ''AAPL'' (idle_net, ())
       = (Inr \<lparr>iq_quote = \<lparr>lq_bid = 3 * 10 ^ 18, lq_ask = 4 * 10 ^ 18\<rparr>, iq_at = 9\<rparr>, s')
     \<and> sent_so_far s' = [g] \<and> wq_query g = [(''feed'', ''overnight'')]
     \<and> 0 < fixed18_val (3 * 10 ^ 18) \<and> fixed18_val (3 * 10 ^ 18) \<le> fixed18_val (4 * 10 ^ 18)"
proof -
  obtain s' where q: "api_fetch_latest_overnight_quote fixed18 fixed18_reads quote_wire ''https://data'' ''AAPL''
      (idle_net, ()) = (Inr \<lparr>iq_quote = \<lparr>lq_bid = 3 * 10 ^ 18, lq_ask = 4 * 10 ^ 18\<rparr>, iq_at = 9\<rparr>, s')"
    using sample_overnight_quote by blast
  have "handed idle_net = []" by (simp add: idle_net_def)
  with quotes_are_sound [OF fixed18_laws fixed18_reads_laws disjI2 [OF conjI [OF q refl]]] q
  show ?thesis by (auto simp: is_md_request_def)
qed

theorem activities_are_complete_witness:
  "\<exists>s'. api_fetch_account_activities fixed18_reads (sample_alpaca 200 200) sample_api
       (pnl_query None None) (Suc 0) (Map.empty, (Orders.sample_net, ())) = (Inr [], (Map.empty, s'))
     \<and> (\<exists>ps :: account_activity list list. concat ps = [] \<and> ps \<noteq> [] \<and> length ps \<le> Suc 0 \<and> length (last ps) < ACCOUNT_ACTIVITIES_PAGE_SIZE)"
proof -
  obtain s' where a: "api_fetch_account_activities fixed18_reads (sample_alpaca 200 200) sample_api
      (pnl_query None None) (Suc 0) (Map.empty, (Orders.sample_net, ())) = (Inr [], (Map.empty, s'))"
    by (simp add: api_fetch_account_activities_def on_client_def get_account_activities_def
        fetch_account_activities_page_def fixed18_reads_def get_def exchange_def handle_response_def start_def
        sample_alpaca_def Orders.sample_net_def call_defs status_defs)
  from activities_are_complete [OF a] obtain ps :: "account_activity list list" where "[] = concat ps" "ps \<noteq> []" "length ps \<le> Suc 0"
    "length (last ps) < ACCOUNT_ACTIVITIES_PAGE_SIZE" by blast
  with a show ?thesis by (intro exI [of _ s'] conjI exI [of _ ps]) simp_all
qed

end
