(* ===== verification/Gateway_Client.thy ===== *)
theory Gateway_Client
  imports Handlers_Wallet Broker_Reads Tokenization_Polls Endpoint
begin

text \<open>
  The HTTP client of the gateway (\<^verbatim>\<open>crates/gateway-api/src/client.rs\<close>) with the requests it sends (the
  rest of \<^verbatim>\<open>crates/gateway-api/src/dto\<close>). The state of a call is the list of requests given to reqwest
  so far and the world behind it. The parameter \<open>H\<close> holds the token source, the transport and the
  gateway behind it, serde on its error body and the url crate's path extension; \<open>T\<close> is the timer
  of the bound on the whole call.
\<close>

subsection \<open>Requests\<close>

record activities_query =
  ax_types :: string
  ax_after :: "utc option"
  ax_until :: "utc option"

record 'f counter_trade_shares_request =
  ct_shares :: 'f
  ct_extended_hours :: bool

record 'f mint_order =
  mn_issuer_request_id :: string
  mn_symbol :: symbol
  mn_quantity :: 'f
  mn_wallet_address :: string
  mn_network :: network
  mn_reason :: "string option"

datatype gateway_query =
    Q_Activities activities_query
  | Q_DepositAddress deposit_address_query
  | Q_Requests "bool option"
  | Q_Network network

datatype 'f gateway_body =
    B_CounterTrade "'f counter_trade_shares_request"
  | B_Market "'f market_order_request"
  | B_Limit "'f limit_order_request"
  | B_Recover "'f recover_order_request"
  | B_Cancel "string option"
  | B_Conversion "'f conversion_request"
  | B_Journal "'f journal_create_request"
  | B_Withdraw "'f withdraw_request"
  | B_Mint "'f mint_order"

record 'f gateway_request =
  gq_method :: http_method
  gq_url :: url
  gq_header :: "string \<times> string"
  gq_query :: "gateway_query option"
  gq_body :: "'f gateway_body option"
  gq_on_behalf_of :: "string option"

subsection \<open>Errors and parameters\<close>

datatype client_error =
    Cl_Token reqwest_error
  | Cl_TokenStatus status_code
  | Cl_Origin endpoint_error
  | Cl_HttpClient reqwest_error
  | Cl_MissingParameter string
  | Cl_InvalidParameter string string
  | Cl_Transport reqwest_error
  | Cl_Timeout duration
  | Cl_Gateway status_code error_body
  | Cl_Unexpected status_code string

record ('w, 'f) hop =
  hp_token :: "'w \<Rightarrow> (client_error + string) \<times> 'w"
  hp_header_name :: string
  hp_http :: "'f gateway_request \<Rightarrow> 'w \<Rightarrow> (reqwest_error + http_answer) \<times> 'w"
  hp_parse_error_body :: "bytes \<Rightarrow> error_body option"
  hp_utf8_lossy :: "bytes \<Rightarrow> string"
  hp_extend_path :: "url \<Rightarrow> string list \<Rightarrow> url"

type_synonym ('w, 'f) hop_state = "'f gateway_request list \<times> 'w"

type_synonym ('w, 'f, 'e, 'a) hop_call = "('w, 'f) hop_state \<Rightarrow> ('e + 'a) \<times> ('w, 'f) hop_state"

subsection \<open>Tokens\<close>

definition static_token :: "string \<Rightarrow> 'w \<Rightarrow> (client_error + string) \<times> 'w" where
  "static_token tok w = (Inr tok, w)"

text \<open>\<open>MetadataIdToken::token\<close>; \<open>ask\<close> is the GET of the identity endpoint for the audience.\<close>

definition metadata_id_token ::
  "(string \<Rightarrow> 'w \<Rightarrow> (reqwest_error + http_answer) \<times> 'w) \<Rightarrow> (bytes \<Rightarrow> string) \<Rightarrow> string
   \<Rightarrow> 'w \<Rightarrow> (client_error + string) \<times> 'w" where
  "metadata_id_token ask lossy aud w =
     (case ask aud w of
        (Inl e, w') \<Rightarrow> (Inl (Cl_Token e), w')
      | (Inr a, w') \<Rightarrow>
          if \<not> is_success (ha_status a) then (Inl (Cl_TokenStatus (ha_status a)), w')
          else case ha_body a of
              Inl e \<Rightarrow> (Inl (Cl_Token e), w')
            | Inr bs \<Rightarrow> (Inr (lossy bs), w'))"

subsection \<open>The client\<close>

definition DEADLINE_MARGIN :: duration where
  "DEADLINE_MARGIN = from_secs 15"

record gateway_client =
  gw_base :: url
  gw_tier :: tier
  gw_on_behalf_of :: "string option"

text \<open>\<open>built\<close> is the result of building the HTTP client without redirects.\<close>

definition new_gateway_client ::
  "url_parser \<Rightarrow> ip_parser \<Rightarrow> reqwest_error + unit \<Rightarrow> string \<Rightarrow> tier \<Rightarrow> client_error + gateway_client" where
  "new_gateway_client parse_url parse_ip built base tier =
     and_then (map_err Cl_Origin (validate_credential_origin parse_url parse_ip base)) (\<lambda>u.
     and_then (map_err Cl_HttpClient built) (\<lambda>_.
     Inr \<lparr>gw_base = u, gw_tier = tier, gw_on_behalf_of = None\<rparr>))"

definition acting_for :: "gateway_client \<Rightarrow> string \<Rightarrow> gateway_client" where
  "acting_for c human = c\<lparr>gw_on_behalf_of := Some human\<rparr>"

definition path_segments :: "string \<Rightarrow> string list" where
  "path_segments p = filter (\<lambda>s. s \<noteq> []) (split_on CHR ''/'' p)"

definition parameter_of :: "string \<Rightarrow> string option" where
  "parameter_of s =
     (case strip_prefix ''{'' s of
        None \<Rightarrow> None
      | Some r \<Rightarrow> if r \<noteq> [] \<and> last r = CHR ''}'' then Some (butlast r) else None)"

definition segment_value :: "(string \<times> string) list \<Rightarrow> string \<Rightarrow> client_error + string" where
  "segment_value params s =
     (case parameter_of s of
        None \<Rightarrow> Inr s
      | Some p \<Rightarrow>
          and_then (ok_or (map_of params p) (Cl_MissingParameter p)) (\<lambda>v.
            if bad_segment v then Inl (Cl_InvalidParameter p v) else Inr v))"

definition url_segments :: "tier \<Rightarrow> operation \<Rightarrow> (string \<times> string) list \<Rightarrow> client_error + string list" where
  "url_segments tier op params =
     and_then (collect_all (segment_value params) (path_segments (path op))) (\<lambda>vs.
       Inr (path_segments (prefix_of tier) @ vs))"

definition gateway_url ::
  "('w, 'f) hop \<Rightarrow> gateway_client \<Rightarrow> operation \<Rightarrow> (string \<times> string) list \<Rightarrow> client_error + url" where
  "gateway_url H c op params =
     and_then (url_segments (gw_tier c) op params) (\<lambda>segments. Inr (hp_extend_path H (gw_base c) segments))"

definition token_header :: "string \<Rightarrow> string \<Rightarrow> string \<times> string" where
  "token_header hdr tok =
     (if hdr = ''authorization'' then (hdr, ''Bearer '' @ tok) else (hdr, tok))"

definition gateway_answer ::
  "('w, 'f) hop \<Rightarrow> (bytes \<Rightarrow> string + 'a) \<Rightarrow> status_code \<Rightarrow> bytes \<Rightarrow> client_error + 'a" where
  "gateway_answer H parse status bs =
     (if is_success status then map_err (Cl_Unexpected status) (parse bs)
      else case hp_parse_error_body H bs of
          Some b \<Rightarrow> Inl (Cl_Gateway status b)
        | None \<Rightarrow> Inl (Cl_Unexpected status (take_chars 512 (hp_utf8_lossy H bs))))"

definition gateway_exchange ::
  "('w, 'f) hop \<Rightarrow> gateway_client \<Rightarrow> operation \<Rightarrow> (string \<times> string) list \<Rightarrow> gateway_query option
   \<Rightarrow> 'f gateway_body option \<Rightarrow> (bytes \<Rightarrow> string + 'a) \<Rightarrow> ('w, 'f, client_error, 'a) hop_call" where
  "gateway_exchange H c op params q b parse s =
     (case gateway_url H c op params of
        Inl e \<Rightarrow> (Inl e, s)
      | Inr u \<Rightarrow>
          (case s of (sent, w) \<Rightarrow>
          (case hp_token H w of
             (Inl e, w1) \<Rightarrow> (Inl e, (sent, w1))
           | (Inr tok, w1) \<Rightarrow>
               let req = \<lparr>gq_method = http_method_of op, gq_url = u,
                     gq_header = token_header (hp_header_name H) tok, gq_query = q, gq_body = b,
                     gq_on_behalf_of = gw_on_behalf_of c\<rparr>
               in (case hp_http H req w1 of
                     (Inl e, w2) \<Rightarrow> (Inl (Cl_Transport e), (sent @ [req], w2))
                   | (Inr a, w2) \<Rightarrow>
                       (case ha_body a of
                          Inl e \<Rightarrow> Inl (Cl_Transport e)
                        | Inr bs \<Rightarrow> gateway_answer H parse (ha_status a) bs, (sent @ [req], w2))))))"

definition gateway_send ::
  "('w, 'f) hop_state timer \<Rightarrow> ('w, 'f) hop \<Rightarrow> gateway_client \<Rightarrow> operation \<Rightarrow> (string \<times> string) list
   \<Rightarrow> gateway_query option \<Rightarrow> 'f gateway_body option \<Rightarrow> (bytes \<Rightarrow> string + 'a)
   \<Rightarrow> ('w, 'f, client_error, 'a) hop_call" where
  "gateway_send T H c op params q b parse s =
     (let bound = deadline_of op + DEADLINE_MARGIN
      in (case timeout_at T (tm_now T s + bound) (gateway_exchange H c op params q b parse) s of
            (Some r, s') \<Rightarrow> (r, s')
          | (None, s') \<Rightarrow> (Inl (Cl_Timeout bound), s')))"

subsection \<open>Addresses\<close>

text \<open>A value that may stand where the template has the segment \<open>t\<close>.\<close>

definition fills :: "string \<Rightarrow> string \<Rightarrow> bool" where
  "fills t v \<longleftrightarrow> (case parameter_of t of None \<Rightarrow> v = t | Some _ \<Rightarrow> \<not> bad_segment v)"

lemma segment_value_fills: "segment_value params t = Inr v \<Longrightarrow> fills t v"
  by (auto simp: segment_value_def fills_def and_then_def ok_or_def split: option.splits sum.splits if_splits)

lemma url_segments_shape:
  assumes "url_segments t op params = Inr segs"
  obtains vs where "segs = path_segments (prefix_of t) @ vs"
    and "list_all2 fills (path_segments (path op)) vs"
  using assms
  by (auto simp: url_segments_def and_then_Inr_iff collect_all_Inr_iff intro: list_all2_mono segment_value_fills)

lemma prefix_segments_differ:
  assumes "path_segments (prefix_of t) @ xs = path_segments (prefix_of u) @ ys"
  shows "t = u \<and> xs = ys"
  using assms by (cases t; cases u) (simp_all add: path_segments_def)

text \<open>Two templates that a common list of segments can fill.\<close>

definition overlap :: "string list \<Rightarrow> string list \<Rightarrow> bool" where
  "overlap xs ys \<longleftrightarrow>
     length xs = length ys
     \<and> list_all (\<lambda>(x, y). x = y \<or> parameter_of x \<noteq> None \<or> parameter_of y \<noteq> None) (zip xs ys)"

lemma fills_overlap:
  assumes "list_all2 fills xs vs" and "list_all2 fills ys vs"
  shows "overlap xs ys"
proof -
  have "x = y" if "fills x v" "fills y v" "parameter_of x = None" "parameter_of y = None" for x y v
    using that by (simp add: fills_def)
  with assms show ?thesis
    unfolding overlap_def list_all2_conv_all_nth list_all_length by fastforce
qed

lemma templates_apart:
  "list_all (\<lambda>a. list_all (\<lambda>b. http_method_of a = http_method_of b
      \<and> overlap (path_segments (path a)) (path_segments (path b)) \<longrightarrow> a = b) all_operations) all_operations"
  by code_simp

text \<open>
  C35: A request of the client addresses exactly one operation. Every parameter is one non-empty
  path segment that does not climb, so the segments of the URL fill the operation's template under
  the tier's prefix; and two calls with the same method and the same segments are calls of the
  same operation on the same tier. No parameter value turns a call into another one.
\<close>

theorem url_addresses_one_operation:
  assumes "url_segments t op params = Inr segs"
  shows "(\<exists>vs. segs = path_segments (prefix_of t) @ vs \<and> list_all2 fills (path_segments (path op)) vs)
    \<and> (url_segments t' op' params' = Inr segs \<and> http_method_of op' = http_method_of op \<longrightarrow> t' = t \<and> op' = op)"
proof -
  from assms obtain vs where vs: "segs = path_segments (prefix_of t) @ vs"
    "list_all2 fills (path_segments (path op)) vs" by (rule url_segments_shape)
  have "t' = t \<and> op' = op"
    if u: "url_segments t' op' params' = Inr segs" and m: "http_method_of op' = http_method_of op"
  proof -
    from u obtain vs' where vs': "segs = path_segments (prefix_of t') @ vs'"
      "list_all2 fills (path_segments (path op')) vs'" by (rule url_segments_shape)
    with vs prefix_segments_differ have "t' = t" "vs' = vs" by metis+
    with fills_overlap [OF vs'(2)] vs(2) templates_apart m show ?thesis
      by (simp add: list_all_iff)
  qed
  with vs show ?thesis by blast
qed

theorem url_addresses_one_operation_witness:
  "\<exists>vs. [''bot'', ''v1'', ''orders'', ''market''] = path_segments (prefix_of Bot) @ vs
     \<and> list_all2 fills (path_segments (path OrdersGet)) vs
     \<and> url_segments Bot OrdersPlaceMarket [] = Inr [''bot'', ''v1'', ''orders'', ''market'']"
proof -
  have "url_segments Bot OrdersGet [(''order_id'', ''market'')] = Inr [''bot'', ''v1'', ''orders'', ''market'']"
    "url_segments Bot OrdersPlaceMarket [] = Inr [''bot'', ''v1'', ''orders'', ''market'']"
    by code_simp+
  with url_addresses_one_operation [OF this(1)] show ?thesis by blast
qed

end
