(* ===== verification/Gateway_Adapter.thy ===== *)
theory Gateway_Adapter
  imports Gateway_Client
begin

text \<open>
  The adapters that make a gateway client look like the library's services
  (\<^verbatim>\<open>crates/gateway-api/src/client/adapter.rs\<close>): how a failed call reads as a library error, and the calls of
  \<open>GatewayBroker\<close>, \<open>GatewayWallet\<close> and \<open>GatewayTokenization\<close>. \<open>shw\<close> is the \<open>Display\<close> of a client error. The
  record \<open>P\<close> holds serde on the gateway's answers.
\<close>

subsection \<open>How a failed call reads\<close>

datatype 'e hop_reading =
    A_Typed 'e
  | A_Alpaca status_code string "duration option"
  | A_Hop gateway_hop_error

text \<open>Whether an HTTP status in front of the gateway can clear on its own.\<close>

definition clears_on_its_own :: "status_code \<Rightarrow> bool" where
  "clears_on_its_own status \<longleftrightarrow> status = 408 \<or> status = 429 \<or> 500 \<le> status"

text \<open>Whether the call may have reached the gateway, and whether a later one can succeed.\<close>

fun reach_and_retry :: "client_error \<Rightarrow> bool \<times> bool" where
  "reach_and_retry (Cl_Gateway _ b) = (True, eb_retryable b)"
| "reach_and_retry (Cl_Transport e) =
     (if is_builder e then (False, False) else if is_connect e then (False, True) else (True, True))"
| "reach_and_retry (Cl_Timeout _) = (True, True)"
| "reach_and_retry (Cl_Unexpected status _) = (True, clears_on_its_own status)"
| "reach_and_retry (Cl_Token _) = (False, True)"
| "reach_and_retry (Cl_TokenStatus status) = (False, clears_on_its_own status)"
| "reach_and_retry (Cl_Origin _) = (False, False)"
| "reach_and_retry (Cl_HttpClient _) = (False, False)"
| "reach_and_retry (Cl_MissingParameter _) = (False, False)"
| "reach_and_retry (Cl_InvalidParameter _ _) = (False, False)"

definition relayed_status :: "error_body \<Rightarrow> status_code option" where
  "relayed_status b =
     (let alpaca = Option.bind (eb_alpaca_status b) status_from_u16
      in case eb_code b of
           Backpressure \<Rightarrow> Some (case alpaca of Some s \<Rightarrow> s | None \<Rightarrow> 429)
         | UpstreamTransient \<Rightarrow> alpaca
         | Rejected_Code \<Rightarrow> alpaca
         | _ \<Rightarrow> None)"

definition hold_of :: "error_body \<Rightarrow> duration option" where
  "hold_of b = map_option from_secs (eb_retry_after_secs b)"

definition answered ::
  "(client_error \<Rightarrow> string) \<Rightarrow> status_code \<Rightarrow> error_body \<Rightarrow> (rejection_reason \<Rightarrow> error_body \<Rightarrow> 'e option)
   \<Rightarrow> 'e hop_reading" where
  "answered shw status b typed =
     (case (if eb_code b = Rejected_Code then Option.bind (eb_reason b) (\<lambda>r. typed r b) else None) of
        Some rebuilt \<Rightarrow> A_Typed rebuilt
      | None \<Rightarrow>
          (case relayed_status b of
             Some alpaca \<Rightarrow> A_Alpaca alpaca (eb_message b) (hold_of b)
           | None \<Rightarrow> A_Hop \<lparr>hop_message = shw (Cl_Gateway status b),
               hop_retryable = (eb_retryable b \<and> eb_code b \<noteq> Rejected_Code),
               hop_outcome_unknown = (eb_code b = OutcomeUnknown \<or> eb_outcome b = Some Unknown),
               hop_retryable_with_same_key = eb_retryable_with_same_key b,
               hop_retry_after = hold_of b\<rparr>))"

definition hop_answer ::
  "(client_error \<Rightarrow> string) \<Rightarrow> operation \<Rightarrow> client_error \<Rightarrow> (rejection_reason \<Rightarrow> error_body \<Rightarrow> 'e option)
   \<Rightarrow> 'e hop_reading" where
  "hop_answer shw op e typed =
     (case e of
        Cl_Gateway status b \<Rightarrow> answered shw status b typed
      | _ \<Rightarrow>
          (case reach_and_retry e of
             (may_have_left, can_retry) \<Rightarrow>
               A_Hop (if may_have_left \<and> mutates op
                 then (hop_transport (shw e))\<lparr>hop_retryable := False, hop_outcome_unknown := True,
                   hop_retryable_with_same_key := resendable_with_same_key op\<rparr>
                 else (hop_transport (shw e))\<lparr>hop_retryable := can_retry\<rparr>)))"

definition no_type :: "rejection_reason \<Rightarrow> error_body \<Rightarrow> 'e option" where
  "no_type r b = None"

definition insufficient_balance :: "rejection_reason \<Rightarrow> error_body \<Rightarrow> 'f broker_error option" where
  "insufficient_balance r b =
     (if r = InsufficientBalance
      then Some (UsdConversionInsufficientBalance (ApiError
        (case Option.bind (eb_alpaca_status b) status_from_u16 of Some s \<Rightarrow> s | None \<Rightarrow> 403)
        None (eb_message b) None))
      else None)"

definition hop_broker_error :: "(client_error \<Rightarrow> string) \<Rightarrow> operation \<Rightarrow> client_error \<Rightarrow> 'f broker_error" where
  "hop_broker_error shw op e =
     (case hop_answer shw op e insufficient_balance of
        A_Typed x \<Rightarrow> x
      | A_Alpaca status message wait \<Rightarrow> ApiError status None message wait
      | A_Hop hop \<Rightarrow> Gateway hop)"

definition hop_market_data_error ::
  "(client_error \<Rightarrow> string) \<Rightarrow> operation \<Rightarrow> client_error \<Rightarrow> ('f market_data_error \<Rightarrow> 'f broker_error) \<Rightarrow> 'f broker_error" where
  "hop_market_data_error shw op e wrap =
     (case hop_answer shw op e no_type of
        A_Typed x \<Rightarrow> x
      | A_Alpaca status message wait \<Rightarrow> wrap (Md_ApiError status message wait)
      | A_Hop hop \<Rightarrow> Gateway hop)"

definition hop_wallet_error ::
  "(client_error \<Rightarrow> string) \<Rightarrow> operation \<Rightarrow> client_error \<Rightarrow> (rejection_reason \<Rightarrow> error_body \<Rightarrow> wallet_error option)
   \<Rightarrow> wallet_error" where
  "hop_wallet_error shw op e typed =
     (case hop_answer shw op e typed of
        A_Typed x \<Rightarrow> x
      | A_Alpaca status message wait \<Rightarrow> Wal_ApiError status message wait
      | A_Hop hop \<Rightarrow> Wal_Gateway hop)"

definition hop_tokenization_error ::
  "(client_error \<Rightarrow> string) \<Rightarrow> operation \<Rightarrow> client_error
   \<Rightarrow> (rejection_reason \<Rightarrow> error_body \<Rightarrow> tokenization_error option) \<Rightarrow> tokenization_error" where
  "hop_tokenization_error shw op e typed =
     (case hop_answer shw op e typed of
        A_Typed x \<Rightarrow> x
      | A_Alpaca status message wait \<Rightarrow> Tok_ApiError status message wait
      | A_Hop hop \<Rightarrow> Tok_Gateway hop)"

definition mint_rejection :: "symbol \<Rightarrow> rejection_reason \<Rightarrow> error_body \<Rightarrow> tokenization_error option" where
  "mint_rejection symb r b =
     (case r of
        InsufficientPosition \<Rightarrow> Some (Tok_InsufficientPosition symb)
      | UnsupportedAccount \<Rightarrow> Some Tok_UnsupportedAccount
      | InvalidParameters \<Rightarrow> Some (Tok_InvalidParameters (eb_message b))
      | _ \<Rightarrow> None)"

definition request_not_found :: "string \<Rightarrow> rejection_reason \<Rightarrow> error_body \<Rightarrow> tokenization_error option" where
  "request_not_found i r b = (if r = RequestNotFound then Some (Tok_RequestNotFound i) else None)"

subsection \<open>The answers\<close>

record 'f gateway_parsers =
  gp_funds :: "bytes \<Rightarrow> string + account_funds"
  gp_inventory :: "bytes \<Rightarrow> string + 'f inventory"
  gp_withdrawable :: "bytes \<Rightarrow> string + int option"
  gp_mark :: "bytes \<Rightarrow> string + 'f option"
  gp_activities :: "bytes \<Rightarrow> string + account_activity list"
  gp_open :: "bytes \<Rightarrow> string + bool"
  gp_session :: "bytes \<Rightarrow> string + market_session"
  gp_session_status :: "bytes \<Rightarrow> string + market_session_status"
  gp_trade :: "bytes \<Rightarrow> string + 'f"
  gp_quote :: "bytes \<Rightarrow> string + 'f \<times> 'f"
  gp_overnight_quote :: "bytes \<Rightarrow> string + 'f \<times> 'f \<times> utc"
  gp_asset :: "bytes \<Rightarrow> string + asset_details"
  gp_prepared :: "bytes \<Rightarrow> string + 'f prepared_shares"
  gp_placement :: "bytes \<Rightarrow> string + 'f order_placement"
  gp_order_state :: "bytes \<Rightarrow> string + 'f order_state"
  gp_found_order :: "bytes \<Rightarrow> string + 'f recovered_order_placement option"
  gp_recovered :: "bytes \<Rightarrow> string + 'f order_placement option"
  gp_cancelled :: "bytes \<Rightarrow> string + cancellation_outcome"
  gp_crypto :: "bytes \<Rightarrow> string + 'f crypto_order"
  gp_found_crypto :: "bytes \<Rightarrow> string + 'f crypto_order option"
  gp_journal :: "bytes \<Rightarrow> string + 'f journal_create_response"
  gp_transfer :: "bytes \<Rightarrow> string + 'f transfer_response"
  gp_plain_transfer :: "bytes \<Rightarrow> string + 'f transfer"
  gp_transfers :: "bytes \<Rightarrow> string + 'f transfer list"
  gp_deposit :: "bytes \<Rightarrow> string + 'f transfer option"
  gp_address :: "bytes \<Rightarrow> string + string"
  gp_mint :: "bytes \<Rightarrow> string + 'f tokenization_request"
  gp_requests :: "bytes \<Rightarrow> string + 'f tokenization_request list"
  gp_lookup :: "bytes \<Rightarrow> string + 'f tokenization_request option"

record ('w, 'f) gateway_link =
  gl_timer :: "('w, 'f) hop_state timer"
  gl_hop :: "('w, 'f) hop"
  gl_client :: gateway_client
  gl_parsers :: "'f gateway_parsers"
  gl_show :: "client_error \<Rightarrow> string"
  gl_parse_uuid :: uuid_parser

definition link_send ::
  "('w, 'f) gateway_link \<Rightarrow> operation \<Rightarrow> (string \<times> string) list \<Rightarrow> gateway_query option
   \<Rightarrow> 'f gateway_body option \<Rightarrow> ('f gateway_parsers \<Rightarrow> bytes \<Rightarrow> string + 'a)
   \<Rightarrow> ('w, 'f, client_error, 'a) hop_call" where
  "link_send G op params q b parse =
     gateway_send (gl_timer G) (gl_hop G) (gl_client G) op params q b (parse (gl_parsers G))"

subsection \<open>The broker over the gateway\<close>

definition gb_call ::
  "('w, 'f) gateway_link \<Rightarrow> operation \<Rightarrow> (string \<times> string) list \<Rightarrow> gateway_query option
   \<Rightarrow> 'f gateway_body option \<Rightarrow> ('f gateway_parsers \<Rightarrow> bytes \<Rightarrow> string + 'a)
   \<Rightarrow> ('w, 'f, 'f broker_error, 'a) hop_call" where
  "gb_call G op params q b parse = map_err_call (hop_broker_error (gl_show G) op) (link_send G op params q b parse)"

definition gb_account_funds :: "('w, 'f) gateway_link \<Rightarrow> ('w, 'f, 'f broker_error, account_funds) hop_call" where
  "gb_account_funds G = gb_call G AccountFunds [] None None gp_funds"

definition gb_fetch_inventory :: "('w, 'f) gateway_link \<Rightarrow> ('w, 'f, 'f broker_error, 'f inventory) hop_call" where
  "gb_fetch_inventory G = gb_call G AccountInventory [] None None gp_inventory"

definition gb_withdrawable_cash_cents :: "('w, 'f) gateway_link \<Rightarrow> ('w, 'f, 'f broker_error, int option) hop_call" where
  "gb_withdrawable_cash_cents G = gb_call G AccountWithdrawableCash [] None None gp_withdrawable"

definition gb_fetch_position_mark ::
  "('w, 'f) gateway_link \<Rightarrow> symbol \<Rightarrow> ('w, 'f, 'f broker_error, 'f option) hop_call" where
  "gb_fetch_position_mark G symb = gb_call G AccountPositionMark [(''symbol'', symb)] None None gp_mark"

definition gb_fetch_account_activities ::
  "('w, 'f) gateway_link \<Rightarrow> account_activities_query \<Rightarrow> ('w, 'f, 'f broker_error, account_activity list) hop_call" where
  "gb_fetch_account_activities G q =
     gb_call G ActivitiesList [] (Some (Q_Activities \<lparr>ax_types = join_ids (aq_activity_types q),
       ax_after = aq_after q, ax_until = aq_until q\<rparr>)) None gp_activities"

definition gb_is_market_open :: "('w, 'f) gateway_link \<Rightarrow> ('w, 'f, 'f broker_error, bool) hop_call" where
  "gb_is_market_open G = gb_call G MarketIsOpen [] None None gp_open"

definition gb_market_session :: "('w, 'f) gateway_link \<Rightarrow> ('w, 'f, 'f broker_error, market_session) hop_call" where
  "gb_market_session G = gb_call G MarketSession [] None None gp_session"

definition gb_market_session_status ::
  "('w, 'f) gateway_link \<Rightarrow> ('w, 'f, 'f broker_error, market_session_status) hop_call" where
  "gb_market_session_status G = gb_call G MarketSessionStatus [] None None gp_session_status"

definition gb_market_data ::
  "('w, 'f) gateway_link \<Rightarrow> operation \<Rightarrow> symbol \<Rightarrow> ('f market_data_error \<Rightarrow> 'f broker_error)
   \<Rightarrow> ('f gateway_parsers \<Rightarrow> bytes \<Rightarrow> string + 'a) \<Rightarrow> ('w, 'f, 'f broker_error, 'a) hop_call" where
  "gb_market_data G op symb wrap parse =
     map_err_call (\<lambda>e. hop_market_data_error (gl_show G) op e wrap)
       (link_send G op [(''symbol'', symb)] None None parse)"

definition invalid_quote :: "symbol \<Rightarrow> 'f latest_quote_error \<Rightarrow> 'f broker_error" where
  "invalid_quote symb source = LatestQuote (Md_InvalidQuote symb source)"

definition gb_fetch_latest_trade_price ::
  "('w, 'f) gateway_link \<Rightarrow> symbol \<Rightarrow> ('w, 'f, 'f broker_error, 'f) hop_call" where
  "gb_fetch_latest_trade_price G symb = gb_market_data G MarketLatestTrade symb LatestTrade gp_trade"

definition gb_fetch_latest_quote ::
  "'f decimals \<Rightarrow> ('w, 'f) gateway_link \<Rightarrow> symbol \<Rightarrow> ('w, 'f, 'f broker_error, 'f latest_quote) hop_call" where
  "gb_fetch_latest_quote F G symb =
     then_call (gb_market_data G MarketLatestQuote symb LatestQuote gp_quote) (\<lambda>(bid, ask).
       return_call (map_err (invalid_quote symb) (latest_quote_new F bid ask)))"

definition gb_fetch_latest_overnight_quote ::
  "'f decimals \<Rightarrow> ('w, 'f) gateway_link \<Rightarrow> symbol \<Rightarrow> ('w, 'f, 'f broker_error, 'f indicative_quote) hop_call" where
  "gb_fetch_latest_overnight_quote F G symb =
     then_call (gb_market_data G MarketLatestOvernightQuote symb LatestQuote gp_overnight_quote) (\<lambda>(bid, ask, t).
       return_call (map_err (invalid_quote symb)
         (and_then (latest_quote_new F bid ask) (\<lambda>q. Inr \<lparr>iq_quote = q, iq_at = t\<rparr>))))"

definition gb_get_asset_details ::
  "('w, 'f) gateway_link \<Rightarrow> symbol \<Rightarrow> ('w, 'f, 'f broker_error, asset_details) hop_call" where
  "gb_get_asset_details G symb = gb_call G AssetsGet [(''symbol'', symb)] None None gp_asset"

definition gb_prepare_counter_trade_shares ::
  "('w, 'f) gateway_link \<Rightarrow> symbol \<Rightarrow> 'f \<Rightarrow> bool \<Rightarrow> ('w, 'f, 'f broker_error, 'f prepared_shares) hop_call" where
  "gb_prepare_counter_trade_shares G symb shares extended_hours =
     gb_call G AssetsCounterTradeShares [(''symbol'', symb)] None
       (Some (B_CounterTrade \<lparr>ct_shares = shares, ct_extended_hours = extended_hours\<rparr>)) gp_prepared"

definition gb_place_market_order ::
  "('w, 'f) gateway_link \<Rightarrow> 'f market_order \<Rightarrow> string option \<Rightarrow> ('w, 'f, 'f broker_error, 'f order_placement) hop_call" where
  "gb_place_market_order G order reason =
     gb_call G OrdersPlaceMarket [] None (Some (B_Market (market_order_request_new order reason))) gp_placement"

definition gb_place_limit_order ::
  "('w, 'f) gateway_link \<Rightarrow> 'f limit_order \<Rightarrow> ('w, 'f, 'f broker_error, 'f order_placement) hop_call" where
  "gb_place_limit_order G order =
     gb_call G OrdersPlaceLimit [] None (Some (B_Limit (limit_order_request_new order None))) gp_placement"

definition gb_place_alpaca_limit_order ::
  "('w, 'f) gateway_link \<Rightarrow> 'f alpaca_limit_order \<Rightarrow> string \<Rightarrow> ('w, 'f, 'f broker_error, 'f order_placement) hop_call" where
  "gb_place_alpaca_limit_order G order reason =
     gb_call G OrdersPlaceExactLimit [] None (Some (B_Limit (limit_order_request_exact order reason))) gp_placement"

definition order_uuid :: "('w, 'f) gateway_link \<Rightarrow> string \<Rightarrow> 'f broker_error + uuid" where
  "order_uuid G order_id = map_err InvalidOrderId (gl_parse_uuid G order_id)"

definition gb_get_order_status ::
  "('w, 'f) gateway_link \<Rightarrow> string \<Rightarrow> ('w, 'f, 'f broker_error, 'f order_state) hop_call" where
  "gb_get_order_status G order_id =
     then_call (return_call (order_uuid G order_id)) (\<lambda>u.
       gb_call G OrdersGet [(''order_id'', u)] None None gp_order_state)"

definition gb_get_order_by_client_order_id ::
  "('w, 'f) gateway_link \<Rightarrow> client_order_id \<Rightarrow> ('w, 'f, 'f broker_error, 'f recovered_order_placement option) hop_call" where
  "gb_get_order_by_client_order_id G k =
     gb_call G OrdersFind [(''client_order_id'', client_order_id_display k)] None None gp_found_order"

definition gb_recover_order_by_client_id ::
  "('w, 'f) gateway_link \<Rightarrow> 'f market_order \<Rightarrow> ('w, 'f, 'f broker_error, 'f order_placement option) hop_call" where
  "gb_recover_order_by_client_id G order =
     gb_call G OrdersRecover [] None (Some (B_Recover (recover_order_request_from order))) gp_recovered"

definition gb_cancel_order ::
  "('w, 'f) gateway_link \<Rightarrow> string \<Rightarrow> string option \<Rightarrow> ('w, 'f, 'f broker_error, cancellation_outcome) hop_call" where
  "gb_cancel_order G order_id reason =
     then_call (return_call (order_uuid G order_id)) (\<lambda>u.
       gb_call G OrdersCancel [(''order_id'', u)] None (Some (B_Cancel reason)) gp_cancelled)"

definition gb_submit_conversion ::
  "('w, 'f) gateway_link \<Rightarrow> 'f conversion_order \<Rightarrow> client_order_id \<Rightarrow> string option
   \<Rightarrow> ('w, 'f, 'f broker_error, 'f crypto_order) hop_call" where
  "gb_submit_conversion G c k reason =
     gb_call G ConversionsSubmit [] None
       (Some (B_Conversion \<lparr>cv_client_order_id = k, cv_conversion = conversion_from c, cv_reason = reason\<rparr>)) gp_crypto"

definition gb_get_conversion_order ::
  "('w, 'f) gateway_link \<Rightarrow> uuid \<Rightarrow> ('w, 'f, 'f broker_error, 'f crypto_order) hop_call" where
  "gb_get_conversion_order G i = gb_call G ConversionsGet [(''order_id'', i)] None None gp_crypto"

definition gb_find_conversion_order ::
  "('w, 'f) gateway_link \<Rightarrow> client_order_id \<Rightarrow> ('w, 'f, 'f broker_error, 'f crypto_order option) hop_call" where
  "gb_find_conversion_order G k =
     gb_call G ConversionsFind [(''client_order_id'', client_order_id_display k)] None None gp_found_crypto"

definition gateway_conversions ::
  "('w, 'f) gateway_link \<Rightarrow> string option \<Rightarrow> (('w, 'f) hop_state, 'f) conversion_orders" where
  "gateway_conversions G reason = \<lparr>
     co_submit_conversion = (\<lambda>c k. gb_submit_conversion G c k reason),
     co_get_conversion_order = gb_get_conversion_order G,
     co_find_conversion_order = gb_find_conversion_order G,
     co_cancel_order = (\<lambda>i. gb_cancel_order G i reason)\<rparr>"

definition gb_convert_usdc_usd ::
  "'f decimals \<Rightarrow> ('w, 'f) gateway_link \<Rightarrow> 'f conversion_order \<Rightarrow> client_order_id \<Rightarrow> string option \<Rightarrow> ('w, 'f) hop_state
   \<Rightarrow> (('f broker_error + 'f crypto_order) \<times> ('w, 'f) hop_state) option" where
  "gb_convert_usdc_usd F G c k reason =
     convert_usdc_usd_with F (gl_timer G) (gateway_conversions G reason) c k CONVERSION_POLL_INTERVAL"

definition gb_poll_conversion_to_terminal ::
  "('w, 'f) gateway_link \<Rightarrow> uuid \<Rightarrow> string option \<Rightarrow> ('w, 'f) hop_state
   \<Rightarrow> (('f broker_error + 'f crypto_order) \<times> ('w, 'f) hop_state) option" where
  "gb_poll_conversion_to_terminal G i reason =
     poll_conversion_to_terminal_with (gl_timer G) (gateway_conversions G reason) i CONVERSION_POLL_INTERVAL"

definition gb_create_journal ::
  "('w, 'f) gateway_link \<Rightarrow> string \<Rightarrow> symbol \<Rightarrow> 'f \<Rightarrow> uuid \<Rightarrow> string
   \<Rightarrow> ('w, 'f, 'f broker_error, 'f journal_create_response) hop_call" where
  "gb_create_journal G cp symb quantity operation_id reason =
     gb_call G JournalsCreate [] None (Some (B_Journal \<lparr>jc_counterparty = cp, jc_symbol = symb,
       jc_qty = quantity, jc_operation_id = operation_id, jc_reason = Some reason\<rparr>)) gp_journal"

subsection \<open>The wallet and tokenization over the gateway\<close>

definition gw_call ::
  "('w, 'f) gateway_link \<Rightarrow> operation \<Rightarrow> (string \<times> string) list \<Rightarrow> gateway_query option
   \<Rightarrow> 'f gateway_body option \<Rightarrow> ('f gateway_parsers \<Rightarrow> bytes \<Rightarrow> string + 'a)
   \<Rightarrow> (rejection_reason \<Rightarrow> error_body \<Rightarrow> wallet_error option) \<Rightarrow> ('w, 'f, wallet_error, 'a) hop_call" where
  "gw_call G op params q b parse typed =
     map_err_call (\<lambda>e. hop_wallet_error (gl_show G) op e typed) (link_send G op params q b parse)"

definition not_whitelisted ::
  "string \<Rightarrow> string \<Rightarrow> rejection_reason \<Rightarrow> error_body \<Rightarrow> wallet_error option" where
  "not_whitelisted address asset r b =
     (if r = AddressNotWhitelisted then Some (Wal_AddressNotWhitelisted address asset ''ethereum'') else None)"

definition gw_initiate_withdrawal ::
  "('w, 'f) gateway_link \<Rightarrow> 'f \<Rightarrow> string \<Rightarrow> string \<Rightarrow> uuid \<Rightarrow> string option
   \<Rightarrow> ('w, 'f, wallet_error, 'f transfer) hop_call" where
  "gw_initiate_withdrawal G amount asset to_address operation_id reason =
     gw_call G WalletWithdraw [] None (Some (B_Withdraw \<lparr>wd_amount = amount, wd_asset = asset,
       wd_address = to_address, wd_operation_id = operation_id, wd_reason = reason\<rparr>)) gp_plain_transfer
       (not_whitelisted to_address asset)"

definition gw_get_transfer_with_fees ::
  "('w, 'f) gateway_link \<Rightarrow> uuid \<Rightarrow> ('w, 'f, wallet_error, 'f transfer \<times> 'f option) hop_call" where
  "gw_get_transfer_with_fees G i =
     then_call (gw_call G WalletTransfer [(''transfer_id'', i)] None None gp_transfer no_type) (\<lambda>r.
       return_call (Inr (rt_transfer r, rt_reported_fees r)))"

definition gw_get_wallet_address ::
  "('w, 'f) gateway_link \<Rightarrow> string \<Rightarrow> string \<Rightarrow> ('w, 'f, wallet_error, string) hop_call" where
  "gw_get_wallet_address G asset network =
     gw_call G WalletDepositAddress [] (Some (Q_DepositAddress \<lparr>dq_asset = asset, dq_network = network\<rparr>))
       None gp_address no_type"

definition gw_list_all_transfers :: "('w, 'f) gateway_link \<Rightarrow> ('w, 'f, wallet_error, 'f transfer list) hop_call" where
  "gw_list_all_transfers G = gw_call G WalletTransfers [] None None gp_transfers no_type"

definition gateway_transfers :: "('w, 'f) gateway_link \<Rightarrow> (('w, 'f) hop_state, 'f) wallet_transfers" where
  "gateway_transfers G = \<lparr>
     wt_get_transfer = (\<lambda>i. then_call (gw_get_transfer_with_fees G i) (\<lambda>(t, _). return_call (Inr t))),
     wt_find_deposit = (\<lambda>tx. gw_call G WalletFindDeposit [(''tx_hash'', tx)] None None gp_deposit no_type)\<rparr>"

definition gt_call ::
  "('w, 'f) gateway_link \<Rightarrow> operation \<Rightarrow> (string \<times> string) list \<Rightarrow> gateway_query option
   \<Rightarrow> 'f gateway_body option \<Rightarrow> ('f gateway_parsers \<Rightarrow> bytes \<Rightarrow> string + 'a)
   \<Rightarrow> (rejection_reason \<Rightarrow> error_body \<Rightarrow> tokenization_error option) \<Rightarrow> ('w, 'f, tokenization_error, 'a) hop_call" where
  "gt_call G op params q b parse typed =
     map_err_call (\<lambda>e. hop_tokenization_error (gl_show G) op e typed) (link_send G op params q b parse)"

definition gt_request_mint ::
  "('w, 'f) gateway_link \<Rightarrow> network \<Rightarrow> symbol \<Rightarrow> 'f \<Rightarrow> string \<Rightarrow> string \<Rightarrow> string option
   \<Rightarrow> ('w, 'f, tokenization_error, 'f tokenization_request) hop_call" where
  "gt_request_mint G chain symb quantity wallet_address i reason =
     gt_call G TokenizationMint [] None (Some (B_Mint \<lparr>mn_issuer_request_id = i, mn_symbol = symb,
       mn_quantity = quantity, mn_wallet_address = wallet_address, mn_network = chain, mn_reason = reason\<rparr>))
       gp_mint (mint_rejection symb)"

definition gt_find_mint_by_issuer_request_id ::
  "('w, 'f) gateway_link \<Rightarrow> string \<Rightarrow> ('w, 'f, tokenization_error, 'f tokenization_request option) hop_call" where
  "gt_find_mint_by_issuer_request_id G i =
     gt_call G TokenizationFindMint [(''issuer_request_id'', i)] None None gp_lookup no_type"

definition gt_requests ::
  "('w, 'f) gateway_link \<Rightarrow> bool option \<Rightarrow> ('w, 'f, tokenization_error, 'f tokenization_request list) hop_call" where
  "gt_requests G pending_only =
     gt_call G TokenizationRequests [] (Some (Q_Requests pending_only)) None gp_requests no_type"

definition gt_list_requests ::
  "('w, 'f) gateway_link \<Rightarrow> ('w, 'f, tokenization_error, 'f tokenization_request list) hop_call" where
  "gt_list_requests G = gt_requests G None"

definition gt_list_pending_requests ::
  "('w, 'f) gateway_link \<Rightarrow> ('w, 'f, tokenization_error, 'f tokenization_request list) hop_call" where
  "gt_list_pending_requests G = gt_requests G (Some True)"

definition gateway_lookups :: "('w, 'f) gateway_link \<Rightarrow> network \<Rightarrow> (('w, 'f) hop_state, 'f) tokenization_lookups" where
  "gateway_lookups G chain = \<lparr>
     tl_get_request = (\<lambda>i. gt_call G TokenizationRequest [(''tokenization_request_id'', i)]
       (Some (Q_Network chain)) None gp_mint (request_not_found i)),
     tl_find_redemption_by_tx = (\<lambda>tx. gt_call G TokenizationFindRedemption [(''tx_hash'', tx)]
       (Some (Q_Network chain)) None gp_lookup no_type)\<rparr>"

end
