(* ===== verification/Gateway_Outcomes.thy ===== *)
theory Gateway_Outcomes
  imports Gateway_Adapter
begin

text \<open>
  What the reading of a failed gateway call promises (\<^verbatim>\<open>crates/gateway-api/src/client/adapter.rs\<close>): a mutation
  that is not read as open never left or was answered by the gateway, the reading agrees with the
  outcome the gateway answered, and a failed read is classified as the direct call would be.
\<close>

subsection \<open>How a call can end\<close>

text \<open>The transport's behaviour the client relies on: reading a body fails only once the request was sent.\<close>

definition hop_reads_late :: "('w, 'f) hop \<Rightarrow> bool" where
  "hop_reads_late H \<longleftrightarrow>
     (\<forall>req w a w' e. hp_http H req w = (Inr a, w') \<and> ha_body a = Inl e \<longrightarrow> \<not> is_builder e \<and> \<not> is_connect e)"

lemma gateway_answer_errors:
  assumes "gateway_answer H parse status bs = Inl e"
  obtains b where "e = Cl_Gateway status b" and "hp_parse_error_body H bs = Some b" | d where "e = Cl_Unexpected status d"
  using assms by (auto simp: gateway_answer_def map_err_def split: if_splits option.splits sum.splits)

lemma gateway_exchange_fails:
  assumes "gateway_exchange H c op params q b parse (sent, w) = (Inl e, (sent', w'))"
  obtains (unsent) "sent' = sent"
  | (cut) req w1 x where "sent' = sent @ [req]" "e = Cl_Transport x" "hp_http H req w1 = (Inl x, w')"
  | (late) req w1 a x where "sent' = sent @ [req]" "e = Cl_Transport x" "hp_http H req w1 = (Inr a, w')" "ha_body a = Inl x"
  | (replied) req w1 a st body bs where "sent' = sent @ [req]" "e = Cl_Gateway st body"
      "hp_http H req w1 = (Inr a, w')" "ha_body a = Inr bs" "hp_parse_error_body H bs = Some body"
  | (garbled) req st d where "sent' = sent @ [req]" "e = Cl_Unexpected st d"
proof (cases "gateway_url H c op params")
  case (Inl x)
  with assms unsent show thesis by (simp add: gateway_exchange_def)
next
  case (Inr u)
  obtain t w1 where t: "hp_token H w = (t, w1)" by fastforce
  show thesis
  proof (cases t)
    case (Inl x)
    with assms \<open>gateway_url H c op params = Inr u\<close> t unsent show thesis by (simp add: gateway_exchange_def)
  next
    case tok: (Inr tok)
    define req where "req = \<lparr>gq_method = http_method_of op, gq_url = u,
        gq_header = token_header (hp_header_name H) tok, gq_query = q, gq_body = b, gq_on_behalf_of = gw_on_behalf_of c\<rparr>"
    obtain r w2 where r: "hp_http H req w1 = (r, w2)" by fastforce
    note run = assms [unfolded gateway_exchange_def Inr tok, simplified t tok, simplified, folded req_def]
    show thesis
    proof (cases r)
      case (Inl x)
      with run r t tok Inr show thesis by (intro cut [of req x w1]) (auto simp: Let_def req_def [symmetric])
    next
      case (Inr a)
      show thesis
      proof (cases "ha_body a")
        case (Inl x)
        with run r t tok Inr show thesis by (intro late [of req x w1 a]) (auto simp: Let_def req_def [symmetric])
      next
        case bs: (Inr bs)
        with run r t tok Inr have *: "gateway_answer H parse (ha_status a) bs = Inl e" "sent' = sent @ [req]" "w' = w2"
          by (auto simp: Let_def req_def [symmetric])
        from *(1) show thesis
        proof (cases rule: gateway_answer_errors)
          case (1 b)
          with *(2,3) r Inr bs show thesis by (intro replied [of req _ b w1 a bs]) auto
        next
          case (2 d)
          with *(2) garbled show thesis by blast
        qed
      qed
    qed
  qed
qed

subsection \<open>A sample link\<close>

definition shw_none :: "client_error \<Rightarrow> string" where
  "shw_none _ = []"

definition no_connection :: reqwest_error where
  "no_connection = \<lparr>is_builder = False, is_connect = True, is_timeout = False, is_decode = False, error_text = ''refused''\<rparr>"

text \<open>A link on which no connection opens.\<close>

definition sample_hop :: "(unit, nat) hop" where
  "sample_hop = \<lparr>hp_token = static_token ''t'', hp_header_name = ''authorization'',
     hp_http = (\<lambda>_ w. (Inl no_connection, w)), hp_parse_error_body = (\<lambda>_. None),
     hp_utf8_lossy = (\<lambda>_. []), hp_extend_path = (\<lambda>u _. u)\<rparr>"

definition sample_gateway_client :: gateway_client where
  "sample_gateway_client = \<lparr>gw_base = sample_url, gw_tier = Bot, gw_on_behalf_of = None\<rparr>"

subsection \<open>Open and settled mutations\<close>

definition read_as_open :: "'e hop_reading \<Rightarrow> bool" where
  "read_as_open r \<longleftrightarrow> (case r of A_Hop h \<Rightarrow> hop_outcome_unknown h | _ \<Rightarrow> False)"

lemma silent_mutation_reads:
  assumes "mutates op" and "\<nexists>st b. e = Cl_Gateway st b"
  shows "read_as_open (hop_answer shw op e typed) \<longleftrightarrow> fst (reach_and_retry e)"
  using assms by (cases e) (simp_all add: hop_answer_def read_as_open_def hop_transport_def)

lemma answered_reads:
  "read_as_open (answered shw st b typed) \<longleftrightarrow>
   relayed_status b = None \<and> (eb_code b = OutcomeUnknown \<or> eb_outcome b = Some Unknown)
   \<and> \<not> (eb_code b = Rejected_Code \<and> Option.bind (eb_reason b) (\<lambda>r. typed r b) \<noteq> None)"
  by (auto simp: read_as_open_def answered_def split: option.splits if_splits)

lemma open_code_reads_open: "eb_code b = OutcomeUnknown \<Longrightarrow> read_as_open (answered shw st b typed)"
  by (simp add: answered_reads relayed_status_def)

lemma settled_reading:
  assumes "mutates op" and "hop_reads_late H"
    and "gateway_send T H c op params q b parse (sent, w) = (Inl e, (sent', w'))"
    and "\<not> read_as_open (hop_answer shw op e typed)"
  shows "sent' = sent
    \<or> (\<exists>req w1 x. sent' = sent @ [req] \<and> fst (hp_http H req w1) = Inl x \<and> (is_builder x \<or> is_connect x))
    \<or> (\<exists>req w1 a bs body. sent' = sent @ [req] \<and> fst (hp_http H req w1) = Inr a \<and> ha_body a = Inr bs
         \<and> hp_parse_error_body H bs = Some body \<and> eb_code body \<noteq> OutcomeUnknown)"
proof -
  let ?bound = "deadline_of op + DEADLINE_MARGIN"
  have "e \<noteq> Cl_Timeout ?bound"
    using assms(1,4) silent_mutation_reads [of op e shw typed] by auto
  then have x: "gateway_exchange H c op params q b parse (sent, w) = (Inl e, (sent', w'))"
    using assms(3) by (auto simp: gateway_send_def timeout_at_def Let_def split: prod.splits option.splits)
  from x show ?thesis
  proof (cases rule: gateway_exchange_fails)
    case unsent then show ?thesis by simp
  next
    case (cut req w1 x)
    then have "is_builder x \<or> is_connect x"
      using assms(1,4) silent_mutation_reads [of op e shw typed] by (auto split: if_splits)
    with cut show ?thesis by (metis fst_conv)
  next
    case (late req w1 a x)
    then have "is_builder x \<or> is_connect x"
      using assms(1,4) silent_mutation_reads [of op e shw typed] by (auto split: if_splits)
    with late assms(2) show ?thesis by (auto simp: hop_reads_late_def)
  next
    case (replied req w1 a st body bs)
    then have "eb_code body \<noteq> OutcomeUnknown"
      using assms(4) open_code_reads_open by (auto simp: hop_answer_def)
    with replied show ?thesis by (metis fst_conv)
  next
    case (garbled req st d)
    then show ?thesis using assms(1,4) silent_mutation_reads [of op e shw typed] by auto
  qed
qed

text \<open>
  C4: A mutation called through the gateway that does not read as open is settled. When the library
  error a failed mutation becomes does not say that the outcome is unknown, then nothing was
  handed to the transport, or the one request that was handed over provably never left (it did not
  build, or no connection opened), or the gateway itself answered and its answer is not
  \<open>outcome_unknown\<close>. A timeout, a cut connection and an unreadable answer always read as open.
\<close>

theorem settled_reading_is_settled:
  assumes "mutates op" and "hop_reads_late H"
    and "gateway_send T H c op params q b parse (sent, w) = (Inl e, (sent', w'))"
    and "\<not> read_as_open (hop_answer shw op e typed)"
  shows "sent' = sent
    \<or> (\<exists>req w1 x. sent' = sent @ [req] \<and> fst (hp_http H req w1) = Inl x \<and> (is_builder x \<or> is_connect x))
    \<or> (\<exists>req w1 a bs body. sent' = sent @ [req] \<and> fst (hp_http H req w1) = Inr a \<and> ha_body a = Inr bs
         \<and> hp_parse_error_body H bs = Some body \<and> eb_code body \<noteq> OutcomeUnknown)"
  using assms by (rule settled_reading)

lemma sample_hop_call:
  "gateway_send ready_timer sample_hop sample_gateway_client OrdersPlaceMarket [] None None (\<lambda>_. Inr ()) ([], ())
   = (Inl (Cl_Transport no_connection),
      ([\<lparr>gq_method = Post, gq_url = sample_url, gq_header = (''authorization'', ''Bearer t''), gq_query = None,
         gq_body = None, gq_on_behalf_of = None\<rparr>], ()))"
  by (simp add: gateway_send_def ready_timer_def timeout_at_def gateway_exchange_def gateway_url_def url_segments_def
      path_segments_def segment_value_def parameter_of_def sample_gateway_client_def sample_hop_def static_token_def
      token_header_def http_method_of_def uses_body_def mutates_def)

theorem settled_reading_is_settled_witness:
  "\<not> read_as_open (hop_answer shw_none OrdersPlaceMarket (Cl_Transport no_connection) no_type :: unit hop_reading)
   \<and> ((\<exists>req w1 x. fst (hp_http sample_hop req w1) = Inl x \<and> (is_builder x \<or> is_connect x))
      \<or> (\<exists>req w1 a. fst (hp_http sample_hop req w1) = Inr (a :: http_answer)))"
proof -
  have "mutates OrdersPlaceMarket" by (simp add: mutates_def)
  moreover have "hop_reads_late sample_hop" by (simp add: hop_reads_late_def sample_hop_def)
  moreover have r: "\<not> read_as_open (hop_answer shw_none OrdersPlaceMarket (Cl_Transport no_connection) no_type :: unit hop_reading)"
    by (simp add: hop_answer_def read_as_open_def no_connection_def hop_transport_def)
  ultimately show ?thesis using settled_reading_is_settled [OF _ _ sample_hop_call, of shw_none no_type] by blast
qed

lemma for_mutation_code [simp]: "fa_code (for_mutation f op) = fa_code f"
  by (simp add: for_mutation_def)

lemma settled_broker_error:
  assumes "\<not> may_have_reached_alpaca (hop_broker_error shw op e :: 'f broker_error)"
  shows "\<not> read_as_open (hop_answer shw op e (insufficient_balance :: _ \<Rightarrow> _ \<Rightarrow> 'f broker_error option))"
  using assms by (auto simp: hop_broker_error_def read_as_open_def split: hop_reading.splits)

text \<open>
  C6: The library reads the gateway's verdict on a mutation unchanged. For every failure the gateway
  answers a mutation with, the error the adapter rebuilds from the answer's body says that the outcome is
  open exactly when the gateway said \<open>unknown\<close>. An open outcome is never called retryable, a resend
  with the same key is offered exactly where the catalogue allows it, and the hold the gateway
  passed on is kept, rounded up to whole seconds.
\<close>

theorem reading_keeps_the_outcome:
  assumes "mutates op"
  shows "(read_as_open (hop_answer shw op (Cl_Gateway st (body (for_mutation f op))) typed)
          \<longleftrightarrow> fa_outcome (for_mutation f op) = Some Unknown)
    \<and> (\<forall>h. hop_answer shw op (Cl_Gateway st (body (for_mutation f op))) typed = A_Hop h \<and> hop_outcome_unknown h \<longrightarrow>
         \<not> hop_retryable h \<and> hop_retryable_with_same_key h = resendable_with_same_key op
         \<and> hop_retry_after h = map_option (\<lambda>w. from_secs (whole_seconds w)) (fa_retry_after f))"
proof -
  have o: "fa_outcome (for_mutation f op) = Some (if fa_code f = OutcomeUnknown then Unknown else NotApplied)"
    using assms by (rule for_mutation_outcome)
  have r: "read_as_open (hop_answer shw op (Cl_Gateway st (body (for_mutation f op))) typed) \<longleftrightarrow> fa_code f = OutcomeUnknown"
    using o by (auto simp: hop_answer_def answered_reads body_def relayed_status_def split: if_splits)
  moreover have "\<not> hop_retryable h \<and> hop_retryable_with_same_key h = resendable_with_same_key op
      \<and> hop_retry_after h = map_option (\<lambda>w. from_secs (whole_seconds w)) (fa_retry_after f)"
    if h: "hop_answer shw op (Cl_Gateway st (body (for_mutation f op))) typed = A_Hop h" "hop_outcome_unknown h" for h
  proof -
    have "read_as_open (hop_answer shw op (Cl_Gateway st (body (for_mutation f op))) typed)"
      using h by (simp add: read_as_open_def)
    with r have "fa_code f = OutcomeUnknown" by simp
    with h(1) assms show ?thesis
      by (auto simp: hop_answer_def answered_def body_def relayed_status_def for_mutation_def hold_of_def
          option.map_comp comp_def)
  qed
  ultimately show ?thesis using o by simp
qed

subsection \<open>Failed reads\<close>

text \<open>The errors of a direct read: statuses are HTTP statuses, and no gateway is involved.\<close>

fun direct_market_error :: "'f market_data_error \<Rightarrow> bool" where
  "direct_market_error (Md_ApiError s _ _) = (100 \<le> s \<and> s \<le> 999)"
| "direct_market_error (Md_Entitlement s _) = (s = 401 \<or> s = 403)"
| "direct_market_error _ = True"

fun direct_error :: "'f broker_error \<Rightarrow> bool" where
  "direct_error (ApiError s _ _ _) = (100 \<le> s \<and> s \<le> 999)"
| "direct_error (Gateway _) = False"
| "direct_error (LatestTrade e) = direct_market_error e"
| "direct_error (LatestQuote e) = direct_market_error e"
| "direct_error _ = True"

text \<open>The gateway's own send gate stopped the read.\<close>

fun market_gate_closed :: "'f market_data_error \<Rightarrow> bool" where
  "market_gate_closed (Md_NotSent _) = True"
| "market_gate_closed (Md_Auth (Kms_NotSent _)) = True"
| "market_gate_closed _ = False"

fun gate_closed_error :: "'f broker_error \<Rightarrow> bool" where
  "gate_closed_error (NotSent _) = True"
| "gate_closed_error (KmsJwt (Kms_NotSent _)) = True"
| "gate_closed_error (LatestTrade e) = market_gate_closed e"
| "gate_closed_error (LatestQuote e) = market_gate_closed e"
| "gate_closed_error _ = False"

text \<open>A credential throttle, which is not an answer of Alpaca's API.\<close>

fun credential_error :: "'f broker_error \<Rightarrow> bool" where
  "credential_error (KmsJwt _) = True"
| "credential_error (LatestTrade (Md_Auth _)) = True"
| "credential_error (LatestQuote (Md_Auth _)) = True"
| "credential_error _ = False"

definition relayed_read ::
  "(client_error \<Rightarrow> string) \<Rightarrow> operation \<Rightarrow> status_code \<Rightarrow> uuid \<Rightarrow> string \<Rightarrow> 'f broker_error \<Rightarrow> 'f broker_error" where
  "relayed_read shw op st rid m e =
     (let err = Cl_Gateway st (body (for_mutation (broker rid m e Sent_Read) op))
      in case e of
           LatestTrade _ \<Rightarrow> hop_market_data_error shw op err LatestTrade
         | LatestQuote _ \<Rightarrow> hop_market_data_error shw op err LatestQuote
         | _ \<Rightarrow> hop_broker_error shw op err)"

definition relayed_hold :: "backpressure \<Rightarrow> backpressure" where
  "relayed_hold b = \<lparr>retry_after = map_option (\<lambda>w. from_secs (whole_seconds w)) (retry_after b)\<rparr>"

text \<open>How a failure of the gateway is classified once it is read back.\<close>

definition answer_class :: "failure \<Rightarrow> permanence \<times> backpressure option" where
  "answer_class f =
     (case relayed_status (body f) of
        Some s \<Rightarrow> (response_status_permanence s, status_backpressure s (hold_of (body f)))
      | None \<Rightarrow>
          (if fa_retryable f \<and> fa_code f \<noteq> Rejected_Code \<or> fa_retryable_with_same_key f then Transient else Permanent,
           map_option (\<lambda>w. \<lparr>retry_after = Some w\<rparr>) (hold_of (body f))))"

definition class_of :: "'f broker_error \<Rightarrow> permanence \<times> backpressure option" where
  "class_of e = (broker_permanence e, broker_backpressure e)"

lemma body_simps [simp]:
  "eb_code (body f) = fa_code f" "eb_retryable (body f) = fa_retryable f" "eb_reason (body f) = fa_reason f"
  "eb_retryable_with_same_key (body f) = fa_retryable_with_same_key f"
  by (simp_all add: body_def)

lemma class_of_market_answer:
  assumes "wrap = LatestTrade \<or> wrap = LatestQuote"
  shows "class_of (hop_market_data_error shw op (Cl_Gateway st (body f)) wrap :: 'f broker_error) = answer_class f"
proof -
  have "Option.bind (fa_reason f) (\<lambda>r. no_type r (body f) :: 'f broker_error option) = None"
    by (cases "fa_reason f") (simp_all add: no_type_def)
  with assms show ?thesis
    by (cases "relayed_status (body f)") (auto simp: class_of_def answer_class_def hop_market_data_error_def
        hop_answer_def answered_def hop_permanence_def hop_backpressure_def)
qed

lemma class_of_answer:
  assumes "fa_reason f \<noteq> Some InsufficientBalance"
  shows "class_of (hop_broker_error shw op (Cl_Gateway st (body f)) :: 'f broker_error) = answer_class f"
proof -
  have "Option.bind (fa_reason f) (\<lambda>r. insufficient_balance r (body f) :: 'f broker_error option) = None"
    using assms by (cases "fa_reason f") (simp_all add: insufficient_balance_def)
  then show ?thesis
    by (cases "relayed_status (body f)") (simp_all add: class_of_def answer_class_def hop_broker_error_def
        hop_answer_def answered_def hop_permanence_def hop_backpressure_def)
qed

lemmas answer_class_defs = answer_class_def relayed_status_def hold_of_def body_def status_from_u16_def

lemma answer_class_simps [simp]:
  "answer_class (untyped rid Sent_Read p m) = (p, None)"
  "answer_class (unsendable rid p m) = (p, None)"
  "answer_class (failure_new rid UpstreamTransient m) = (Transient, None)"
  "answer_class (invalid rid m) = (Permanent, None)"
  "answer_class (rejected rid r m) = (Permanent, None)"
  "answer_class (throttled rid w None m) = (Transient, map_option (\<lambda>w. \<lparr>retry_after = Some (from_secs (whole_seconds w))\<rparr>) w)"
  "answer_class (throttled rid w (Some 429) m) = (Transient, Some (relayed_hold \<lparr>retry_after = w\<rparr>))"
  by (auto simp: answer_class_defs untyped_def unsendable_def failure_new_def invalid_def rejected_def throttled_def
      response_status_permanence_def status_backpressure_def relayed_hold_def option.map_comp comp_def
      intro: permanence.exhaust [of p])

lemma answer_class_unsent [simp]: "never_left h \<Longrightarrow> answer_class (unsent rid h m) = (http_permanence h, None)"
  by (simp add: answer_class_defs unsent_def untyped_def failure_new_def http_permanence_def never_left_def)

lemma answer_class_api [simp]:
  "100 \<le> s \<Longrightarrow> s \<le> 999 \<Longrightarrow> s \<noteq> 429 \<Longrightarrow>
   answer_class (api_failure rid s Sent_Read p m) = (response_status_permanence s, None)"
  by (simp add: answer_class_defs api_failure_def rejected_def untyped_def failure_new_def status_backpressure_def)

lemma plain_reasons [simp]:
  "fa_reason (untyped rid Sent_Read p m) = None" "fa_reason (unsendable rid p m) = None"
  "fa_reason (invalid rid m) = None" "fa_reason (rejected rid r m) = Some r" "fa_reason (failure_new rid c m) = None"
  "fa_reason (throttled rid w st m) = None" "fa_reason (unsent rid h m) = None"
  "fa_reason (api_failure rid s Sent_Read p m) \<noteq> Some InsufficientBalance"
  by (simp_all add: untyped_def unsendable_def invalid_def rejected_def failure_new_def throttled_def unsent_def
      api_failure_def split: option.splits)

text \<open>The classification a relayed read must have.\<close>

definition direct_class :: "'f broker_error \<Rightarrow> permanence \<times> backpressure option" where
  "direct_class e =
     (if gate_closed_error e then Transient else broker_permanence e,
      case broker_backpressure e of
        None \<Rightarrow> None
      | Some b \<Rightarrow> if credential_error e \<and> retry_after b = None then None else Some (relayed_hold b))"

lemma kms_rate_limited: "kms_backpressure k = Some b \<Longrightarrow> kms_permanence k = Transient \<and> \<not> market_gate_closed (Md_Auth k)"
  by (cases k) (auto simp: kms_backpressure_def kms_permanence_def kms_status_deterministic_def split: if_splits)

lemma market_read_class:
  assumes "direct_market_error x" and "e = LatestTrade x \<or> e = LatestQuote x"
  shows "answer_class (market_data rid x Sent_Read (broker_permanence e) m) = direct_class e"
proof (cases x)
  case (Md_ApiError s t w)
  with assms show ?thesis
    by (cases "s = 429") (auto simp: market_data_def direct_class_def status_backpressure_def response_status_permanence_def)
next
  case (Md_Entitlement s t)
  with assms show ?thesis
    by (auto simp: market_data_def direct_class_def response_status_permanence_def is_client_error_def)
next
  case (Md_Auth k)
  show ?thesis
  proof (cases "kms_backpressure k")
    case None
    with Md_Auth assms show ?thesis by (cases k) (auto simp: market_data_def direct_class_def)
  next
    case (Some b)
    with Md_Auth assms kms_rate_limited [OF Some] show ?thesis
      by (cases b; cases "retry_after b") (auto simp: market_data_def direct_class_def relayed_hold_def)
  qed
qed (use assms in \<open>auto simp: market_data_def direct_class_def\<close>)

lemma credential_read_class:
  assumes "e = (KmsJwt k :: 'f broker_error)"
  shows "answer_class (broker rid m e Sent_Read) = direct_class e
   \<and> fa_reason (broker rid m e Sent_Read) \<noteq> Some InsufficientBalance"
proof (cases "kms_backpressure k")
  case None
  then show ?thesis using assms by (cases k) (auto simp: broker_def direct_class_def kms_failure_def)
next
  case (Some b)
  with assms kms_rate_limited [OF Some] show ?thesis
    by (cases b; cases "retry_after b"; cases k) (auto simp: broker_def direct_class_def relayed_hold_def)
qed

lemma api_read_class:
  assumes "100 \<le> s" and "s \<le> 999" and "e = (ApiError s c t w :: 'f broker_error)"
  shows "answer_class (broker rid m e Sent_Read) = direct_class e
   \<and> fa_reason (broker rid m e Sent_Read) \<noteq> Some InsufficientBalance"
  using assms
  by (cases "s = 429") (auto simp: broker_def direct_class_def status_backpressure_def response_status_permanence_def)

lemma broker_read_class:
  assumes "direct_error e" and "\<nexists>x. e = LatestTrade x \<or> e = LatestQuote x" and "\<nexists>x. e = UsdConversionInsufficientBalance x"
  shows "answer_class (broker rid m e Sent_Read) = direct_class e
    \<and> fa_reason (broker rid m e Sent_Read) \<noteq> Some InsufficientBalance"
proof (cases e)
  case (KmsJwt k)
  then show ?thesis by (rule credential_read_class)
next
  case (ApiError s c t w)
  then show ?thesis using assms(1) api_read_class [of s e c t w rid m] by simp
qed (use assms in \<open>simp_all add: broker_def direct_class_def\<close>)

lemma relayed_read_class:
  assumes "\<not> mutates op" and "direct_error e"
  shows "class_of (relayed_read shw op st rid m e) = direct_class e"
proof -
  consider x where "e = LatestTrade x" | x where "e = LatestQuote x" | x where "e = UsdConversionInsufficientBalance x"
    | "\<nexists>x. e = LatestTrade x \<or> e = LatestQuote x" "\<nexists>x. e = UsdConversionInsufficientBalance x" by blast
  then show ?thesis
  proof cases
    case 1
    then show ?thesis using assms market_read_class [of x e rid m]
      by (simp add: relayed_read_def class_of_market_answer for_mutation_def broker_def)
  next
    case 2
    then show ?thesis using assms market_read_class [of x e rid m]
      by (simp add: relayed_read_def class_of_market_answer for_mutation_def broker_def)
  next
    case 3
    then show ?thesis using assms(1)
      by (simp add: relayed_read_def for_mutation_def broker_def rejected_def failure_new_def body_def hop_broker_error_def
          hop_answer_def answered_def insufficient_balance_def class_of_def direct_class_def)
  next
    case 4
    then have "relayed_read shw op st rid m e = hop_broker_error shw op (Cl_Gateway st (body (broker rid m e Sent_Read)))"
      using assms(1) by (cases e) (simp_all add: relayed_read_def for_mutation_def)
    with broker_read_class [OF assms(2) 4] show ?thesis by (simp add: class_of_answer)
  qed
qed



theorem reading_keeps_the_outcome_witness:
  "\<exists>h. hop_answer shw_none OrdersPlaceMarket
      (Cl_Gateway 502 (body (for_mutation (failure_new ''r'' OutcomeUnknown ''cut'') OrdersPlaceMarket))) no_type
      = (A_Hop h :: unit hop_reading) \<and> hop_outcome_unknown h \<and> \<not> hop_retryable h \<and> hop_retryable_with_same_key h"
proof -
  have m: "mutates OrdersPlaceMarket" "resendable_with_same_key OrdersPlaceMarket"
    "fa_outcome (for_mutation (failure_new ''r'' OutcomeUnknown ''cut'') OrdersPlaceMarket) = Some Unknown"
    by (simp_all add: mutates_def resendable_with_same_key_def for_mutation_def failure_new_def)
  note r = reading_keeps_the_outcome [OF m(1), of shw_none 502 "failure_new ''r'' OutcomeUnknown ''cut''" "no_type :: _ \<Rightarrow> _ \<Rightarrow> unit option"]
  from r m(3) obtain h where "hop_answer shw_none OrdersPlaceMarket
      (Cl_Gateway 502 (body (for_mutation (failure_new ''r'' OutcomeUnknown ''cut'') OrdersPlaceMarket))) no_type
      = (A_Hop h :: unit hop_reading)" "hop_outcome_unknown h"
    by (auto simp: read_as_open_def split: hop_reading.splits)
  with r m(2) show ?thesis by blast
qed

end
