(* ===== verification/Poll_Traffic.thy ===== *)
theory Poll_Traffic
  imports Handlers_Wallet Tokenization_Polls Gateway_Outcomes
begin

text \<open>
  What the polls of \<^verbatim>\<open>src/wallet/status.rs\<close> and \<^verbatim>\<open>src/tokenization/client.rs\<close> send. They run over the traits
  \<open>WalletTransfers\<close> and \<open>TokenizationLookups\<close>; the locales state what a poll needs of an implementation, and the
  library's clients and the gateway's adapters are its two instances.
\<close>

subsection \<open>What a poll may do to its world\<close>

text \<open>
  \<open>quiet w w'\<close>: from \<open>w\<close> to \<open>w'\<close> nothing happened that a poll must not do. A timer keeps it when a sleep is quiet and a
  future that would have been quiet is quiet when it is dropped.
\<close>

definition timer_keeps :: "('w \<Rightarrow> 'w \<Rightarrow> bool) \<Rightarrow> 'w timer \<Rightarrow> bool" where
  "timer_keeps quiet T \<longleftrightarrow>
     (\<forall>d w. quiet w (tm_sleep T d w))
     \<and> (\<forall>D w w' w''. tm_dropped T D w w' = Some w'' \<longrightarrow> quiet w w' \<longrightarrow> quiet w w'')"

definition ticker_keeps :: "('w \<Rightarrow> 'w \<Rightarrow> bool) \<Rightarrow> 'w ticker \<Rightarrow> bool" where
  "ticker_keeps quiet tick \<longleftrightarrow> (\<forall>p next w. quiet w (snd (tick p next w)))"

locale quiet_world =
  fixes quiet :: "'w \<Rightarrow> 'w \<Rightarrow> bool"
  assumes quiet_refl: "quiet w w"
    and quiet_trans: "quiet w w' \<Longrightarrow> quiet w' w'' \<Longrightarrow> quiet w w''"
begin

lemma poll_sleep_quiet: "timer_keeps quiet T \<Longrightarrow> quiet w (poll_sleep T d D w)"
  by (simp add: timer_keeps_def poll_sleep_def)

lemma sleep_after: "timer_keeps quiet T \<Longrightarrow> quiet w w' \<Longrightarrow> quiet w (poll_sleep T d D w')"
  by (rule quiet_trans [OF _ poll_sleep_quiet])

lemma timeout_quiet:
  assumes "timer_keeps quiet T" and "\<And>w. quiet w (snd (f w))" and "timeout_at T D f w = (x, w')"
  shows "quiet w w'"
proof -
  obtain y w1 where f: "f w = (y, w1)" by force
  with assms(2) [of w] have "quiet w w1" by simp
  with f assms(1,3) show ?thesis by (auto simp: timeout_at_def timer_keeps_def split: option.splits)
qed

lemma read_before_quiet:
  assumes "timer_keeps quiet T" and "\<And>w. quiet w (snd (read w))" and "read_before T D read timed_out w = (x, w')"
  shows "quiet w w'"
  using assms(3) timeout_quiet [OF assms(1,2)]
  by (auto simp: read_before_def quiet_refl split: if_splits option.splits prod.splits)

lemma poll_loop_quiet:
  assumes "\<And>s w x w'. step s w = (x, w') \<Longrightarrow> quiet w w'" and "poll_loop step s w = Some (r, w')"
  shows "quiet w w'"
  by (rule poll_loop_result [where I = "\<lambda>_ w'. quiet w w'" and Q = "\<lambda>_ w'. quiet w w'", OF assms(2)])
    (auto intro: quiet_refl quiet_trans dest: assms(1))

lemma retry_read_quiet:
  assumes "timer_keeps quiet T" and "\<And>w. quiet w (snd (read w))"
    and "retry_read_before T D read policy timed_out delays th w = (x, w')"
  shows "quiet w w'"
  using assms(3)
proof (induction delays arbitrary: th w)
  case Nil
  then show ?case
    using read_before_quiet [OF assms(1,2)]
    by (subst (asm) retry_read_before.simps) (auto split: prod.splits sum.splits if_splits)
next
  case (Cons d rest)
  obtain y w1 where y: "read_before T D read (\<lambda>w. unwrap_or th (timed_out w)) w = (y, w1)" by force
  note q = read_before_quiet [OF assms(1,2) y]
  have "quiet w w'" if "retry_read_before T D read policy timed_out rest th' (poll_sleep T wait D w1) = (x, w')" for th' wait
    using quiet_trans [OF sleep_after [OF assms(1) q] Cons.IH [OF that]] .
  with Cons.prems y q show ?case
    by (subst (asm) retry_read_before.simps) (auto split: sum.splits if_splits option.splits)
qed

end

locale quiet_transfers = quiet_world +
  fixes ts :: "('w, 'f) wallet_transfers"
  assumes get_quiet: "quiet w (snd (wt_get_transfer ts i w))"
    and find_quiet: "quiet w (snd (wt_find_deposit ts h w))"
begin

lemma transfer_poll_quiet:
  assumes "timer_keeps quiet T" and "poll_transfer_until_complete_under T backoff ts i cfg policy w = Some (r, w')"
  shows "quiet w w'"
  using assms(2) unfolding poll_transfer_until_complete_under_def
  by (rule poll_loop_quiet [rotated])
    (auto simp: transfer_step_def split: prod.splits sum.splits if_splits
      dest!: retry_read_quiet [OF assms(1) get_quiet] intro: sleep_after [OF assms(1)])

lemma tx_hash_poll_quiet:
  assumes "timer_keeps quiet T" and "poll_transfer_tx_hash_under T ts i cfg policy w = Some (r, w')"
  shows "quiet w w'"
  using assms(2) unfolding poll_transfer_tx_hash_under_def
  by (rule poll_loop_quiet [rotated])
    (auto simp: tx_hash_step_def split: prod.splits sum.splits if_splits option.splits
      dest!: read_before_quiet [OF assms(1) get_quiet] intro: sleep_after [OF assms(1)])

lemma deposit_poll_quiet:
  assumes "timer_keeps quiet T" and "poll_deposit_by_tx_hash_under T backoff ts h cfg policy w = Some (r, w')"
  shows "quiet w w'"
  using assms(2) unfolding poll_deposit_by_tx_hash_under_def
  by (rule poll_loop_quiet [rotated])
    (auto simp: deposit_step_def split: prod.splits sum.splits if_splits option.splits
      dest!: retry_read_quiet [OF assms(1) find_quiet] intro: sleep_after [OF assms(1)])

end

locale quiet_lookups = quiet_world +
  fixes ls :: "('w, 'f) tokenization_lookups"
  assumes get_quiet: "quiet w (snd (tl_get_request ls i w))"
    and find_quiet: "quiet w (snd (tl_find_redemption_by_tx ls h w))"
begin

lemma tick_before_quiet:
  assumes "timer_keeps quiet T" and "ticker_keeps quiet tick" and "tick_before T tick p next D timed_out w = (x, w')"
  shows "quiet w w'"
proof -
  have "\<And>w. quiet w (snd (tick p next w))" using assms(2) by (simp add: ticker_keeps_def)
  from timeout_quiet [OF assms(1) this] assms(3) show ?thesis
    by (auto simp: tick_before_def split: prod.splits option.splits)
qed

lemma retry_transient_quiet:
  "timer_keeps quiet T \<Longrightarrow> retry_transient T e policy D w = (x, w') \<Longrightarrow> quiet w w'"
  by (auto simp: retry_transient_def quiet_refl poll_sleep_quiet split: if_splits option.splits)

lemma lookup_step_quiet:
  assumes "timer_keeps quiet T" and "ticker_keeps quiet tick" and "\<And>w. quiet w (snd (read w))"
    and "lookup_step T tick read finished cfg policy t0 D st w = (x, w')"
  shows "quiet w w'"
proof -
  obtain nx th where st: "st = (nx, th)" by (cases st)
  let ?out = "\<lambda>w. unwrap_or th (Tok_PollTimeout (tm_now T w - t0))"
  obtain y w1 where y: "tick_before T tick (pc_interval cfg) nx D ?out w = (y, w1)" by force
  obtain z w2 where z: "read_before T D read ?out w1 = (z, w2)" by force
  note q1 = tick_before_quiet [OF assms(1,2) y]
  note q2 = quiet_trans [OF q1 read_before_quiet [OF assms(1,3) z]]
  from assms(4) st y z q1 q2 show ?thesis
    by (auto simp: lookup_step_def Let_def split: sum.splits option.splits prod.splits
        intro: quiet_trans [OF q2 retry_transient_quiet [OF assms(1)]])
qed

lemma request_poll_quiet:
  assumes "timer_keeps quiet T" and "ticker_keeps quiet tick"
    and "poll_request_until_complete_under T tick ls i cfg policy w = Some (r, w')"
  shows "quiet w w'"
  using assms(3) unfolding poll_request_until_complete_under_def
  by (rule poll_loop_quiet [rotated]) (rule lookup_step_quiet [OF assms(1,2) get_quiet])

lemma redemption_poll_quiet:
  assumes "timer_keeps quiet T" and "ticker_keeps quiet tick"
    and "poll_for_redemption_under T tick ls h cfg policy w = Some (r, w')"
  shows "quiet w w'"
  using assms(3) unfolding poll_for_redemption_under_def
  by (rule poll_loop_quiet [rotated]) (rule lookup_step_quiet [OF assms(1,2) find_quiet])

end

subsection \<open>The library's clients\<close>

definition is_bare_get :: "'b wire_request \<Rightarrow> bool" where
  "is_bare_get p \<longleftrightarrow> wq_method p = W_Get \<and> wq_body p = None"

definition reads_only :: "('env, 'w, 'b) wire_state \<Rightarrow> ('env, 'w, 'b) wire_state \<Rightarrow> bool" where
  "reads_only s s' \<longleftrightarrow> (\<exists>reqs. sends s reqs s' \<and> (\<forall>p \<in> set reqs. is_bare_get p))"

lemma reads_only_refl: "reads_only s s"
  by (auto simp: reads_only_def intro: exI [of _ "[]"])

lemma reads_only_trans:
  assumes "reads_only s s1" and "reads_only s1 s2"
  shows "reads_only s s2"
proof -
  from assms obtain xs ys where "sends s xs s1" "\<forall>p \<in> set xs. is_bare_get p" "sends s1 ys s2" "\<forall>p \<in> set ys. is_bare_get p"
    by (auto simp: reads_only_def)
  then show ?thesis unfolding reads_only_def by (intro exI [of _ "xs @ ys"]) (auto intro: sends_trans)
qed

lemma transmit_reads:
  assumes "transmit of_auth of_send X W_Get url q None s = (r, s')"
  shows "reads_only s s'"
  using transmit_sent [OF assms]
proof (elim disjE exE conjE)
  assume "sent_so_far s' = sent_so_far s"
  then show ?thesis by (auto simp: reads_only_def sends_def intro: exI [of _ "[]"])
next
  fix p assume "sent_so_far s' = sent_so_far s @ [p]" "wq_method p = W_Get" "wq_body p = None"
  then show ?thesis by (auto simp: reads_only_def is_bare_get_def sends_def intro!: exI [of _ "[p]"])
qed

lemma kept_reads: "keeps_sent k \<Longrightarrow> k a s = (r, s') \<Longrightarrow> reads_only s s'"
  using keeps_sentD [of k a s r s'] by (auto simp: reads_only_def sends_def intro: exI [of _ "[]"])

lemma get_reads:
  assumes "keeps_sent k" and "then_call (transmit of_auth of_send X W_Get url q None) k s = (r, s')"
  shows "reads_only s s'"
  using assms(2)
  by (cases rule: then_call_Pair)
    (auto intro: transmit_reads reads_only_trans [OF transmit_reads kept_reads [OF assms(1)]])

text \<open>A call whose continuation sends nothing.\<close>

lemma then_pure_reads:
  assumes "\<And>r s'. m s = (r, s') \<Longrightarrow> reads_only s s'" and "\<And>x t. snd (k x t) = t"
  shows "reads_only s (snd (then_call m k s))"
proof -
  obtain r t where m: "m s = (r, t)" by (cases "m s")
  from assms(1) [OF this] assms(2) m show ?thesis by (auto simp: then_call_def split: sum.splits)
qed

lemma wallet_get_reads: "wallet_get J X c p s = (r, s') \<Longrightarrow> reads_only s s'"
  unfolding wallet_get_def by (rule get_reads [OF read_response_body_keeps])

lemma fetch_requests_reads: "fetch_requests_body X c p s = (r, s') \<Longrightarrow> reads_only s s'"
  unfolding fetch_requests_body_def by (rule get_reads [OF requests_answer_keeps])

lemma transfer_reads: "reads_only s (snd (get_transfer_status J X c i s))"
  unfolding get_transfer_status_def
  by (rule then_pure_reads)
    (auto simp: get_transfer_response_def map_err_call_def parse_body_def return_call_def split: prod.splits
      dest: wallet_get_reads)

lemma deposit_reads: "reads_only s (snd (find_deposit_by_tx_hash J X c h s))"
  unfolding find_deposit_by_tx_hash_def
  by (rule then_pure_reads)
    (auto simp: then_call_def parse_body_def return_call_def split: sum.splits dest: wallet_get_reads)

interpretation wire_reads: quiet_world "reads_only :: ('env, 'w, 'b) wire_state \<Rightarrow> _"
  by unfold_locales (auto intro: reads_only_refl reads_only_trans)

interpretation client_polls: quiet_transfers reads_only "client_transfers J X c"
  for J :: "'f wallet_json" and X :: "('env, 'w, 'f wallet_body) wire" and c
  by unfold_locales
    (simp_all add: client_transfers_def transfer_reads deposit_reads)

interpretation client_requests: quiet_lookups reads_only "client_lookups J X c"
  for J :: "'f tokenization_json" and X :: "('env, 'w, 'f tokenization_body) wire" and c
proof unfold_locales
  show "reads_only s (snd (tl_get_request (client_lookups J X c) i s))" for i s
    unfolding client_lookups_def get_request_def tokenization_lookups.simps
    by (rule then_pure_reads) (auto simp: return_call_def dest: fetch_requests_reads)
  show "reads_only s (snd (tl_find_redemption_by_tx (client_lookups J X c) h s))" for h s
    unfolding client_lookups_def find_redemption_by_tx_def tokenization_lookups.simps
    by (rule then_pure_reads) (auto simp: return_call_def dest: fetch_requests_reads)
qed

text \<open>tokio: a sleep sends nothing, and a dropped future has handed over a prefix of what it would have.\<close>

definition time_sends_nothing :: "('env, 'w, 'b) wire_state timer \<Rightarrow> bool" where
  "time_sends_nothing T \<longleftrightarrow> (\<forall>d s. sends s [] (tm_sleep T d s)) \<and> drops_cut_short T"

lemma time_keeps_reads:
  assumes "time_sends_nothing T"
  shows "timer_keeps reads_only T"
  unfolding timer_keeps_def
proof (intro conjI allI impI)
  fix d s
  from assms have "sends s [] (tm_sleep T d s)" unfolding time_sends_nothing_def by blast
  then show "reads_only s (tm_sleep T d s)" unfolding reads_only_def by force
next
  fix D s s' s'' assume "tm_dropped T D s s' = Some s''" "reads_only s s'"
  moreover from assms have "drops_cut_short T" by (simp add: time_sends_nothing_def)
  ultimately show "reads_only s s''"
    unfolding reads_only_def by (metis drops_cut_shortD in_set_takeD)
qed

subsection \<open>The gateway's adapters\<close>

definition gateway_reads :: "('w, 'f) hop_state \<Rightarrow> ('w, 'f) hop_state \<Rightarrow> bool" where
  "gateway_reads s s' \<longleftrightarrow> (\<exists>reqs. fst s' = fst s @ reqs \<and> (\<forall>p \<in> set reqs. gq_method p = Get \<and> gq_body p = None))"

lemma gateway_reads_same: "fst s' = fst s \<Longrightarrow> gateway_reads s s'"
  by (auto simp: gateway_reads_def intro: exI [of _ "[]"])

lemma gateway_reads_trans:
  assumes "gateway_reads s s1" and "gateway_reads s1 s2"
  shows "gateway_reads s s2"
proof -
  from assms obtain xs ys where "fst s1 = fst s @ xs" "\<forall>p \<in> set xs. gq_method p = Get \<and> gq_body p = None" 
    "fst s2 = fst s1 @ ys" "\<forall>p \<in> set ys. gq_method p = Get \<and> gq_body p = None"
    by (auto simp: gateway_reads_def)
  then show ?thesis unfolding gateway_reads_def by (intro exI [of _ "xs @ ys"]) auto
qed

definition hop_time_sends_nothing :: "('w, 'f) hop_state timer \<Rightarrow> bool" where
  "hop_time_sends_nothing T \<longleftrightarrow>
     (\<forall>d s. fst (tm_sleep T d s) = fst s)
     \<and> (\<forall>D s s' s'' reqs. fst s' = fst s @ reqs \<longrightarrow> tm_dropped T D s s' = Some s'' \<longrightarrow> (\<exists>k. fst s'' = fst s @ take k reqs))"

lemma hop_time_keeps_reads:
  assumes "hop_time_sends_nothing T"
  shows "timer_keeps gateway_reads T"
  unfolding timer_keeps_def
proof (intro conjI allI impI)
  show "gateway_reads s (tm_sleep T d s)" for d s
    using assms unfolding hop_time_sends_nothing_def by (blast intro: gateway_reads_same)
next
  fix D s s' s'' assume d: "tm_dropped T D s s' = Some s''" and "gateway_reads s s'"
  then obtain reqs where reqs: "fst s' = fst s @ reqs" "\<forall>p \<in> set reqs. gq_method p = Get \<and> gq_body p = None"
    by (auto simp: gateway_reads_def)
  from assms reqs(1) d obtain k where "fst s'' = fst s @ take k reqs"
    unfolding hop_time_sends_nothing_def by blast
  with reqs(2) show "gateway_reads s s''"
    unfolding gateway_reads_def by (metis in_set_takeD)
qed

text \<open>The link bounds each of its calls by a timer of its own, which obeys the same law.\<close>

definition link_reads :: "('w, 'f) gateway_link \<Rightarrow> ('w, 'f) hop_state \<Rightarrow> ('w, 'f) hop_state \<Rightarrow> bool" where
  "link_reads G s s' \<longleftrightarrow> (hop_time_sends_nothing (gl_timer G) \<longrightarrow> gateway_reads s s')"

lemma exchange_reads:
  "http_method_of op = Get \<Longrightarrow> gateway_reads s (snd (gateway_exchange H c op params q None parse s))"
  by (auto simp: gateway_exchange_def gateway_reads_def Let_def split: sum.splits prod.splits)

lemma link_send_reads:
  assumes "http_method_of op = Get"
  shows "link_reads G s (snd (link_send G op params q None parse s))"
  unfolding link_reads_def
proof
  assume law: "hop_time_sends_nothing (gl_timer G)"
  obtain r s1 where e: "gateway_exchange (gl_hop G) (gl_client G) op params q None (parse (gl_parsers G)) s = (r, s1)"
    by (cases "gateway_exchange (gl_hop G) (gl_client G) op params q None (parse (gl_parsers G)) s")
  with exchange_reads [OF assms] have "gateway_reads s s1" by (metis snd_conv)
  moreover have "gateway_reads s s2" if "tm_dropped (gl_timer G) D s s1 = Some s2" for D s2
    using hop_time_keeps_reads [OF law] that \<open>gateway_reads s s1\<close> unfolding timer_keeps_def by blast
  ultimately show "gateway_reads s (snd (link_send G op params q None parse s))"
    using e by (auto simp: link_send_def gateway_send_def timeout_at_def Let_def split: option.splits)
qed

lemma map_err_call_state: "snd (map_err_call f m s) = snd (m s)"
  by (simp add: map_err_call_def split: prod.splits)

lemma then_return_state: "(\<And>x t. snd (k x t) = t) \<Longrightarrow> snd (then_call m k s) = snd (m s)"
  by (auto simp: then_call_def split: prod.splits sum.splits)

interpretation hop_reads: quiet_world "link_reads G" for G :: "('w, 'f) gateway_link"
  by unfold_locales (auto simp: link_reads_def gateway_reads_same intro: gateway_reads_trans)

interpretation gateway_polls: quiet_transfers "link_reads G" "gateway_transfers G"
  for G :: "('w, 'f) gateway_link"
proof unfold_locales
  show "link_reads G s (snd (wt_get_transfer (gateway_transfers G) i s))" for i s
    by (simp add: gateway_transfers_def gw_get_transfer_with_fees_def gw_call_def then_return_state return_call_def
        map_err_call_state link_send_reads http_method_of_def uses_body_def mutates_def split_beta)
  show "link_reads G s (snd (wt_find_deposit (gateway_transfers G) h s))" for h s
    by (simp add: gateway_transfers_def gw_call_def map_err_call_state link_send_reads http_method_of_def uses_body_def mutates_def)
qed

interpretation gateway_requests: quiet_lookups "link_reads G" "gateway_lookups G chain"
  for G :: "('w, 'f) gateway_link" and chain
proof unfold_locales
  show "link_reads G s (snd (tl_get_request (gateway_lookups G chain) i s))" for i s
    by (simp add: gateway_lookups_def gt_call_def map_err_call_state link_send_reads http_method_of_def uses_body_def mutates_def)
  show "link_reads G s (snd (tl_find_redemption_by_tx (gateway_lookups G chain) h s))" for h s
    by (simp add: gateway_lookups_def gt_call_def map_err_call_state link_send_reads http_method_of_def uses_body_def mutates_def)
qed

lemma link_time_keeps_reads:
  "hop_time_sends_nothing (gl_timer G) \<Longrightarrow> hop_time_sends_nothing T \<Longrightarrow> timer_keeps (link_reads G) T"
  using hop_time_keeps_reads [of T] by (simp add: link_reads_def [abs_def])

subsection \<open>Properties\<close>

lemma ended_iff: "Some s' = map_option snd p \<longleftrightarrow> (\<exists>r. p = Some (r, s'))"
  by (cases p) auto

text \<open>
  C30: A poll only reads. Whatever Alpaca answers, however long it runs and wherever its deadline cuts it, what a
  poll of the wallet or the tokenization service sent are GET requests without a body: it moves no money and
  repeats no mint.
\<close>

theorem polls_only_read:
  assumes "time_sends_nothing T" and "time_sends_nothing T'" and "ticker_keeps reads_only tick"
  shows "(Some s' \<in> {map_option snd (service_poll_transfer T backoff J X sv i s), map_option snd (service_poll_tx_hash T J X sv i s),
            map_option snd (service_poll_deposit T backoff J X sv i s)} \<longrightarrow>
          (\<exists>reqs. sends s reqs s' \<and> list_all is_bare_get reqs))
    \<and> (Some t' \<in> {map_option snd (poll_mint_until_complete T' tick J' X' tz i t), map_option snd (poll_for_redemption T' tick J' X' tz i t),
            map_option snd (poll_redemption_until_complete T' tick J' X' tz i t)} \<longrightarrow>
          (\<exists>reqs. sends t reqs t' \<and> list_all is_bare_get reqs))"
proof -
  note T = time_keeps_reads [OF assms(1)] and T' = time_keeps_reads [OF assms(2)]
  show ?thesis
    unfolding service_poll_transfer_def service_poll_tx_hash_def service_poll_deposit_def poll_mint_until_complete_def
      poll_for_redemption_def poll_redemption_until_complete_def
    by (auto simp: ended_iff reads_only_def list_all_iff dest!: client_polls.transfer_poll_quiet [OF T] client_polls.tx_hash_poll_quiet [OF T]
        client_polls.deposit_poll_quiet [OF T] client_requests.request_poll_quiet [OF T' assms(3)]
        client_requests.redemption_poll_quiet [OF T' assms(3)])
qed

text \<open>A hash poll of a transfer Alpaca does not know.\<close>

definition sample_wallet_service :: wallet_service where
  "sample_wallet_service = \<lparr>ws_client = \<lparr>wc_base_url = ''https://a'', wc_account_id = ''1''\<rparr>,
     ws_polling_config = quick_config, ws_backpressure_policy = Return\<rparr>"

lemma quick_deadline: "poll_deadline 0 (pc_timeout quick_config) = 100"
  by (simp add: poll_deadline_def checked_add_def INSTANT_MAX_def nanos_per_sec_def quick_config_def)

lemma sample_unknown_read:
  "\<exists>p. get_transfer_status sample_wallet_json (canned_wire (\<lambda>_. answer_of 404 ''no'')) (ws_client sample_wallet_service) ''t''
      (open_net, ()) = (Inl (Wal_TransferNotFound ''t''), (open_net\<lparr>handed := [p]\<rparr>, ()))"
  by (simp add: get_transfer_status_def get_transfer_response_def wallet_get_def then_call_def map_err_call_def
      sample_wallet_run header_text_def header_get_def)

lemma sample_unknown_transfer:
  "\<exists>p. service_poll_tx_hash ready_timer sample_wallet_json (canned_wire (\<lambda>_. answer_of 404 ''no'')) sample_wallet_service ''t''
      (open_net, ()) = Some (Inl (Wal_TransferNotFound ''t''), (open_net\<lparr>handed := [p]\<rparr>, ()))"
proof -
  have polled: "ws_polling_config sample_wallet_service = quick_config" "ws_backpressure_policy sample_wallet_service = Return"
    by (simp_all add: sample_wallet_service_def)
  obtain p where p: "get_transfer_status sample_wallet_json (canned_wire (\<lambda>_. answer_of 404 ''no'')) (ws_client sample_wallet_service) ''t''
      (open_net, ()) = (Inl (Wal_TransferNotFound ''t''), (open_net\<lparr>handed := [p]\<rparr>, ()))"
    using sample_unknown_read by blast
  then show ?thesis
    by (intro exI [of _ p]) (simp add: service_poll_tx_hash_def poll_transfer_tx_hash_under_def poll_loop.simps tx_hash_step_def read_before_def
        timeout_at_def ready_timer_def quick_deadline polled client_transfers_def is_retried_def)
qed

theorem polls_only_read_witness:
  "\<exists>s' p. service_poll_tx_hash ready_timer sample_wallet_json (canned_wire (\<lambda>_. answer_of 404 ''no'')) sample_wallet_service ''t''
      (open_net, ()) = Some (Inl (Wal_TransferNotFound ''t''), s') \<and> sends (open_net, ()) [p] s' \<and> is_bare_get p"
proof -
  obtain p where p: "service_poll_tx_hash ready_timer sample_wallet_json (canned_wire (\<lambda>_. answer_of 404 ''no'')) sample_wallet_service ''t''
      (open_net, ()) = Some (Inl (Wal_TransferNotFound ''t''), (open_net\<lparr>handed := [p]\<rparr>, ()))"
    using sample_unknown_transfer by blast
  have laws: "time_sends_nothing ready_timer" "ticker_keeps reads_only (\<lambda>p next w. (next + p, w))"
    by (simp_all add: time_sends_nothing_def drops_cut_short_def ready_timer_def ticker_keeps_def reads_only_refl)
  from conjunct1 [OF polls_only_read [OF laws(1,1,2), where s = "(open_net, ())" and s' = "(open_net\<lparr>handed := [p]\<rparr>, ())"
      and J = sample_wallet_json and X = "canned_wire (\<lambda>_. answer_of 404 ''no'')" and sv = sample_wallet_service and i = "''t''"]] p
  have "\<exists>reqs. sends (open_net, ()) reqs (open_net\<lparr>handed := [p]\<rparr>, ()) \<and> list_all is_bare_get reqs" by simp
  with p show ?thesis by (auto simp: sends_def open_net_def)
qed

text \<open>
  The same polls over the gateway's client only read as well: every request they send the gateway is a GET without
  a body, so they call no operation that changes anything.
\<close>

theorem gateway_polls_only_read:
  assumes "hop_time_sends_nothing (gl_timer G)" and "hop_time_sends_nothing T" and "ticker_keeps (link_reads G) tick"
    and "Some s' \<in> {map_option snd (poll_transfer_until_complete_under T backoff (gateway_transfers G) i cfg policy s),
          map_option snd (poll_transfer_tx_hash_under T (gateway_transfers G) i cfg policy s),
          map_option snd (poll_deposit_by_tx_hash_under T backoff (gateway_transfers G) i cfg policy s),
          map_option snd (poll_request_until_complete_under T tick (gateway_lookups G chain) i cfg policy s),
          map_option snd (poll_for_redemption_under T tick (gateway_lookups G chain) i cfg policy s)}"
  shows "\<exists>reqs. fst s' = fst s @ reqs \<and> list_all (\<lambda>p. gq_method p = Get \<and> gq_body p = None) reqs"
proof -
  note T = link_time_keeps_reads [OF assms(1,2)]
  have "link_reads G s s'"
    using assms(4)
    by (auto simp: ended_iff dest!: gateway_polls.transfer_poll_quiet [OF T] gateway_polls.tx_hash_poll_quiet [OF T]
        gateway_polls.deposit_poll_quiet [OF T] gateway_requests.request_poll_quiet [OF T assms(3)]
        gateway_requests.redemption_poll_quiet [OF T assms(3)])
  with assms(1) show ?thesis by (auto simp: link_reads_def gateway_reads_def list_all_iff)
qed

text \<open>A hash poll over a gateway that answers with a complete transfer.\<close>

definition sample_link :: "(unit, nat) gateway_link" where
  "sample_link = \<lparr>gl_timer = ready_timer,
     gl_hop = sample_hop\<lparr>hp_http := (\<lambda>_ w. (answer_of 200 ''ok'', w))\<rparr>, gl_client = sample_gateway_client,
     gl_parsers = undefined\<lparr>gp_transfer := (\<lambda>_. Inr \<lparr>rt_transfer = slow_transfer TransferComplete, rt_reported_fees = None\<rparr>)\<rparr>,
     gl_show = (\<lambda>_. []), gl_parse_uuid = (\<lambda>_. Inl [])\<rparr>"

lemma sample_gateway_url: "\<exists>u. gateway_url H sample_gateway_client WalletTransfer [(''transfer_id'', ''t1'')] = Inr u"
proof -
  have "\<not> bad_segment ''t1''" by code_simp
  then show ?thesis
    by (simp add: gateway_url_def url_segments_def path_segments_def segment_value_def parameter_of_def sample_gateway_client_def)
qed

lemma sample_gateway_read:
  "\<exists>p. wt_get_transfer (gateway_transfers sample_link) ''t1'' ([], ()) = (Inr (slow_transfer TransferComplete), ([p], ()))"
proof -
  obtain u where "gateway_url (gl_hop sample_link) sample_gateway_client WalletTransfer [(''transfer_id'', ''t1'')] = Inr u"
    using sample_gateway_url by blast
  then show ?thesis
    by (simp add: sample_link_def gateway_transfers_def gw_get_transfer_with_fees_def gw_call_def link_send_def gateway_send_def
        gateway_exchange_def timeout_at_def ready_timer_def sample_hop_def static_token_def answer_of_def gateway_answer_def
        is_success_def then_call_def map_err_call_def return_call_def Let_def)
qed

lemma sample_gateway_poll:
  "\<exists>p. poll_transfer_tx_hash_under ready_timer (gateway_transfers sample_link) ''t1'' quick_config Return ([], ())
     = Some (Inr ''0xab'', ([p], ()))"
proof -
  obtain p where "wt_get_transfer (gateway_transfers sample_link) ''t1'' ([], ()) = (Inr (slow_transfer TransferComplete), ([p], ()))"
    using sample_gateway_read by blast
  then show ?thesis
    by (intro exI [of _ p]) (simp add: poll_transfer_tx_hash_under_def poll_loop.simps tx_hash_step_def read_before_def
        timeout_at_def ready_timer_def quick_deadline transfer_tx_hash_state_def slow_transfer_def)
qed

theorem gateway_polls_only_read_witness:
  "\<exists>p. poll_transfer_tx_hash_under ready_timer (gateway_transfers sample_link) ''t1'' quick_config Return ([], ())
     = Some (Inr ''0xab'', ([p], ())) \<and> gq_method p = Get \<and> gq_body p = None"
proof -
  obtain p where p: "poll_transfer_tx_hash_under ready_timer (gateway_transfers sample_link) ''t1'' quick_config Return ([], ())
     = Some (Inr ''0xab'', ([p], ()))" using sample_gateway_poll by blast
  have laws: "hop_time_sends_nothing (gl_timer sample_link)" "hop_time_sends_nothing (ready_timer :: (unit, nat) hop_state timer)"
    "ticker_keeps (link_reads sample_link) (\<lambda>p next w. (next + p, w))"
    by (simp_all add: hop_time_sends_nothing_def ready_timer_def sample_link_def ticker_keeps_def link_reads_def gateway_reads_same)
  from gateway_polls_only_read [OF laws, where s = "([], ())" and s' = "([p], ())" and i = "''t1''" and cfg = quick_config
      and policy = Return] p
  show ?thesis by auto
qed

end
