(* ===== verification/Handlers_Tokenization.thy ===== *)
theory Handlers_Tokenization
  imports Gateway_Client
begin

text \<open>
  The gateway's tokenization handlers (\<^verbatim>\<open>crates/gateway/src/handlers/tokenization.rs\<close>) and the choice of the
  tokenization client (\<open>AppState::tokenizer\<close>). \<open>tks\<close> is the map of configured clients, \<open>hs\<close> the status of a
  reqwest error, \<open>show_e\<close> the \<open>Display\<close> of a tokenization error.
\<close>

subsection \<open>Choosing a client\<close>

type_synonym tokenizers = "network \<Rightarrow> tokenization_service option"

definition tokenizer :: "uuid \<Rightarrow> tokenizers \<Rightarrow> network \<Rightarrow> failure + tokenization_service" where
  "tokenizer rid tks net =
     ok_or (tks net) (rejected rid UnsupportedNetwork
       (''network '' @ network_as_str net @ '' is not configured on this deployment''))"

definition account_wide :: "uuid \<Rightarrow> gateway_config \<Rightarrow> tokenizers \<Rightarrow> failure + tokenization_service" where
  "account_wide rid config tks =
     (case gc_networks config of
        [] \<Rightarrow> Inl (failure_new rid CapabilityDisabled ''no tokenization network is configured on this deployment'')
      | net # _ \<Rightarrow> tokenizer rid tks net)"

definition as_tokenization_failure ::
  "uuid \<Rightarrow> (reqwest_error \<Rightarrow> status_code option) \<Rightarrow> (tokenization_error \<Rightarrow> string) \<Rightarrow> sent
   \<Rightarrow> ('s \<Rightarrow> (tokenization_error + 'a) \<times> 's) \<Rightarrow> 's \<Rightarrow> (failure + 'a) \<times> 's" where
  "as_tokenization_failure rid hs show_e sent = map_err_call (\<lambda>e. tokenization hs rid (show_e e) e sent)"

subsection \<open>Handlers\<close>

definition mint_intent :: "('f \<Rightarrow> string) \<Rightarrow> string option \<Rightarrow> 'f mint_order \<Rightarrow> intent" where
  "mint_intent show_f digest r =
     with_note (with_note (with_note (with_note (with_reason (with_key (intent_of digest) (mn_issuer_request_id r))
       (mn_reason r)) ''symbol'' (mn_symbol r)) ''quantity'' (show_f (mn_quantity r)))
       ''network'' (network_as_str (mn_network r))) ''recipient'' (mn_wallet_address r)"

definition mint_work ::
  "uuid \<Rightarrow> (reqwest_error \<Rightarrow> status_code option) \<Rightarrow> (tokenization_error \<Rightarrow> string) \<Rightarrow> 'f tokenization_json
   \<Rightarrow> ('env, 'w, 'f tokenization_body) wire \<Rightarrow> gateway_config \<Rightarrow> tokenizers \<Rightarrow> 'f mint_order
   \<Rightarrow> ('env, 'w, 'f tokenization_body, failure, 'f tokenization_request done_call) wire_call" where
  "mint_work rid hs show_e J X config tks r =
     (if mn_wallet_address r \<notin> set (gc_mint_recipients config)
      then return_call (Inl (destination_not_allowed rid
        (mn_wallet_address r @ '' is not a pinned mint recipient of this deployment'')))
      else
        then_call (return_call (tokenizer rid tks (mn_network r))) (\<lambda>sv.
        then_call (as_tokenization_failure rid hs show_e Sent_Mutation
          (request_mint J X (ts_client sv) (mn_symbol r) (mn_quantity r) (mn_wallet_address r) (mn_issuer_request_id r)))
          (\<lambda>minted. return_call (Inr (done_new minted (tq_id minted))))))"

definition requests_work ::
  "uuid \<Rightarrow> (reqwest_error \<Rightarrow> status_code option) \<Rightarrow> (tokenization_error \<Rightarrow> string) \<Rightarrow> 'f tokenization_json
   \<Rightarrow> ('env, 'w, 'f tokenization_body) wire \<Rightarrow> gateway_config \<Rightarrow> tokenizers \<Rightarrow> bool option
   \<Rightarrow> ('env, 'w, 'f tokenization_body, failure, 'f tokenization_request list done_call) wire_call" where
  "requests_work rid hs show_e J X config tks pending_only =
     read_work (then_call (return_call (account_wide rid config tks)) (\<lambda>sv.
       as_tokenization_failure rid hs show_e Sent_Read
         (if unwrap_or pending_only False then list_pending_requests J X (ts_client sv)
          else list_requests J X (ts_client sv))))"

definition network_keyed_intent :: "string \<Rightarrow> network \<Rightarrow> intent" where
  "network_keyed_intent key net = with_note (with_key default_intent key) ''network'' (network_as_str net)"

definition request_work ::
  "uuid \<Rightarrow> (reqwest_error \<Rightarrow> status_code option) \<Rightarrow> (tokenization_error \<Rightarrow> string) \<Rightarrow> 'f tokenization_json
   \<Rightarrow> ('env, 'w, 'f tokenization_body) wire \<Rightarrow> tokenizers \<Rightarrow> network \<Rightarrow> string
   \<Rightarrow> ('env, 'w, 'f tokenization_body, failure, 'f tokenization_request done_call) wire_call" where
  "request_work rid hs show_e J X tks net i =
     read_work (then_call (return_call (tokenizer rid tks net)) (\<lambda>sv.
       as_tokenization_failure rid hs show_e Sent_Read (get_request J X (ts_client sv) i)))"

definition find_mint_work ::
  "uuid \<Rightarrow> (reqwest_error \<Rightarrow> status_code option) \<Rightarrow> (tokenization_error \<Rightarrow> string) \<Rightarrow> 'f tokenization_json
   \<Rightarrow> ('env, 'w, 'f tokenization_body) wire \<Rightarrow> gateway_config \<Rightarrow> tokenizers \<Rightarrow> string
   \<Rightarrow> ('env, 'w, 'f tokenization_body, failure, 'f tokenization_request option done_call) wire_call" where
  "find_mint_work rid hs show_e J X config tks i =
     read_work (then_call (return_call (account_wide rid config tks)) (\<lambda>sv.
       as_tokenization_failure rid hs show_e Sent_Read (find_mint_by_issuer_request_id J X (ts_client sv) i)))"

definition find_redemption_work ::
  "uuid \<Rightarrow> (reqwest_error \<Rightarrow> status_code option) \<Rightarrow> (tokenization_error \<Rightarrow> string) \<Rightarrow> 'f tokenization_json
   \<Rightarrow> ('env, 'w, 'f tokenization_body) wire \<Rightarrow> tokenizers \<Rightarrow> network \<Rightarrow> string
   \<Rightarrow> ('env, 'w, 'f tokenization_body, failure, 'f tokenization_request option done_call) wire_call" where
  "find_redemption_work rid hs show_e J X tks net tx =
     read_work (then_call (return_call (tokenizer rid tks net)) (\<lambda>sv.
       as_tokenization_failure rid hs show_e Sent_Read (find_redemption_by_tx J X (ts_client sv) tx)))"

subsection \<open>Mints stay in lane\<close>

lemma mint_answer_code:
  assumes "wire_reads_late X" and "wi_http X p w1 = (Inr a, w2)" and "mint_answer J X c ticker a s1 = (Inl e, s')"
    and "fa_code (tokenization hs rid m e Sent_Mutation) \<noteq> OutcomeUnknown"
  shows "is_client_error (ha_status a) \<and> ha_status a \<noteq> 408"
proof (cases "ha_body a")
  case (Inl h)
  with assms(1,2) have "\<not> never_left h" by (auto simp: wire_reads_late_def never_left_def)
  with Inl assms(3,4) show ?thesis
    by (auto simp: mint_answer_def Let_def tokenization_def untyped_def failure_new_def)
next
  case (Inr bs)
  show ?thesis
  proof (cases "is_success (ha_status a)")
    case True
    with Inr assms(3) have "(\<exists>t. e = Tok_JsonParse t) \<or> (\<exists>i n c. e = Tok_WrongNetwork i n c) \<or> (\<exists>i. e = Tok_NetworkMissing i)"
      by (auto simp: mint_answer_def Let_def and_then_Inl_iff map_err_def confirm_network_def
          split: sum.splits option.splits if_splits)
    with assms(4) show ?thesis
      by (auto simp: tokenization_def network_refusal_def untyped_def failure_new_def)
  next
    case False
    with Inr assms(3) obtain t wt where e: "e = map_mint_error (ha_status a) t ticker wt"
      by (auto simp: mint_answer_def Let_def)
    then consider "is_definitive_mint_rejection e" | wt' where "e = Tok_ApiError (ha_status a) t wt'"
      by (fastforce simp: map_mint_error_def Let_def split: if_splits)
    then show ?thesis
    proof cases
      case 1
      then have "ha_status a = 403 \<or> ha_status a = 422" using e map_mint_error_definitive by blast
      then show ?thesis by (auto simp: is_client_error_def)
    next
      case 2
      with assms(4) show ?thesis
        by (auto simp: tokenization_def untyped_def failure_new_def status_backpressure_def is_client_error_def
            split: if_splits)
    qed
  qed
qed

lemma mint_not_applied:
  assumes "wire_reads_late X" and "request_mint J X c ticker q dest i s = (Inl e, s')" and "sends s [p] s'"
    and "fa_code (tokenization hs rid m e Sent_Mutation) \<noteq> OutcomeUnknown"
  shows "\<exists>w1. took_no_effect (fst (wi_http X p w1))"
proof -
  from exchange_sends [OF assms(2) [unfolded request_mint_def client_request_mint_def] mint_answer_keeps]
  show ?thesis
  proof (elim disjE exE conjE)
    fix p' h w1 w2
    assume p: "sends s [p'] s'" "wi_http X p' w1 = (Inl h, w2)" "Inl e = Inl (tokenization_from_send (SendHttp h))"
    then have "p' = p" using assms(3) by (auto simp: sends_def)
    moreover have "never_left h"
      using p(3) assms(4) by (auto simp: tokenization_def untyped_def failure_new_def split: if_splits)
    ultimately show ?thesis using p(2) by (intro exI [of _ w1]) (auto simp: never_left_def)
  next
    fix p' a w1 w2 s1
    assume p: "sends s [p'] s'" "wi_http X p' w1 = (Inr a, w2)" "mint_answer J X c (mr_underlying_symbol
        \<lparr>mr_underlying_symbol = ticker, mr_quantity = q, mr_issuer = ''st0x'', mr_network = network_as_str (tc_chain c),
         mr_wallet = dest, mr_client_request_id = i\<rparr>) a s1 = (Inl e, s')"
    then have "p' = p" using assms(3) by (auto simp: sends_def)
    with p(2) mint_answer_code [OF assms(1) p(2,3) assms(4)] show ?thesis by (intro exI [of _ w1]) simp
  qed (use assms(3) in \<open>auto simp: sends_def\<close>)
qed

lemma mint_work_cases:
  assumes "mint_work rid hs show_e J X config tks r s = (res, s')"
  obtains (refused) f where "res = Inl f" "s' = s"
  | (requested) sv y where "mn_wallet_address r \<in> set (gc_mint_recipients config)" "tks (mn_network r) = Some sv"
      "request_mint J X (ts_client sv) (mn_symbol r) (mn_quantity r) (mn_wallet_address r) (mn_issuer_request_id r) s = (y, s')"
      "res = (case y of Inl e \<Rightarrow> Inl (tokenization hs rid (show_e e) e Sent_Mutation) | Inr m \<Rightarrow> Inr (done_new m (tq_id m)))"
proof (cases "mn_wallet_address r \<in> set (gc_mint_recipients config)")
  case False
  with assms refused show thesis by (auto simp: mint_work_def return_call_def)
next
  case pinned: True
  show thesis
  proof (cases "tks (mn_network r)")
    case None
    with assms pinned refused show thesis by (auto simp: mint_work_def then_call_def return_call_def tokenizer_def)
  next
    case (Some sv)
    obtain y t where y: "request_mint J X (ts_client sv) (mn_symbol r) (mn_quantity r) (mn_wallet_address r)
        (mn_issuer_request_id r) s = (y, t)" by (metis prod.exhaust)
    with assms pinned Some have "t = s'"
      "res = (case y of Inl e \<Rightarrow> Inl (tokenization hs rid (show_e e) e Sent_Mutation) | Inr m \<Rightarrow> Inr (done_new m (tq_id m)))"
      by (auto simp: mint_work_def then_call_def return_call_def tokenizer_def as_tokenization_failure_def map_err_call_def
          map_err_def split: sum.splits)
    with pinned Some y requested show thesis by blast
  qed
qed

text \<open>
  C13: The gateway mints only where its deployment allows. A mint sends nothing, or one POST to the client
  of the requested network, which is configured, to a recipient pinned in the configuration, with the caller's
  quantity and with the caller's issuer request id as its idempotency key. Answered \<open>not_applied\<close> the POST, if
  any, was not delivered or was refused by Alpaca: nothing was minted.
\<close>

theorem mints_stay_in_lane:
  assumes "wire_reads_late X"
    and "mint_work rid hs show_e J X config tks r s = (res, s')"
  shows "sends s [] s'
    \<or> (\<exists>sv p m. mn_wallet_address r \<in> set (gc_mint_recipients config) \<and> tks (mn_network r) = Some sv
         \<and> sends s [p] s' \<and> is_request W_Post (mint_url (ts_client sv)) (Some (Mint_Body (mn_issuer_request_id r) m)) p
         \<and> mr_wallet m = mn_wallet_address r \<and> mr_quantity m = mn_quantity r
         \<and> mr_network m = network_as_str (tc_chain (ts_client sv))
         \<and> (\<forall>f. res = Inl f \<and> fa_outcome (for_mutation f TokenizationMint) = Some NotApplied \<longrightarrow>
              (\<exists>w1. took_no_effect (fst (wi_http X p w1)))))"
  using assms(2)
proof (cases rule: mint_work_cases)
  case (refused f)
  then show ?thesis by (simp add: sends_def)
next
  case (requested sv y)
  have settled: "\<exists>w1. took_no_effect (fst (wi_http X p w1))"
    if "sends s [p] s'" "res = Inl f" "fa_outcome (for_mutation f TokenizationMint) = Some NotApplied" for p f
  proof -
    from requested(4) that(2) obtain e where e: "y = Inl e" "f = tokenization hs rid (show_e e) e Sent_Mutation"
      by (auto split: sum.splits)
    with that(3) have "fa_code (tokenization hs rid (show_e e) e Sent_Mutation) \<noteq> OutcomeUnknown"
      by (auto simp: for_mutation_def mutates_def split: if_splits)
    with mint_not_applied [OF assms(1) requested(3) [unfolded e(1)] that(1)] show ?thesis by blast
  qed
  from mint_sends [OF requested(3)] show ?thesis
  proof (elim disjE exE conjE)
    fix p m assume "sends s [p] s'" "is_request W_Post (mint_url (ts_client sv)) (Some (Mint_Body (mn_issuer_request_id r) m)) p"
      "mr_wallet m = mn_wallet_address r" "mr_quantity m = mn_quantity r"
      "mr_network m = network_as_str (tc_chain (ts_client sv))"
    with requested(1,2) settled show ?thesis by blast
  qed simp_all
qed

subsection \<open>Samples\<close>

definition minting_config :: gateway_config where
  "minting_config = sample_config\<lparr>gc_mint_recipients := [''0xa''], gc_networks := [Base]\<rparr>"

definition sample_tokenizers :: tokenizers where
  "sample_tokenizers = [Base \<mapsto> \<lparr>ts_client = sample_tokenizer, ts_polling_config = default_polling_config,
     ts_backpressure_policy = RetryInPlace\<rparr>]"

definition sample_mint_order :: "nat mint_order" where
  "sample_mint_order = \<lparr>mn_issuer_request_id = ''k1'', mn_symbol = ''AAPL'', mn_quantity = 5,
     mn_wallet_address = ''0xa'', mn_network = Base, mn_reason = None\<rparr>"

abbreviation short_wire :: "(unit, unit, nat tokenization_body) wire" where
  "short_wire \<equiv> canned_wire (\<lambda>_. answer_of 403 ''insufficient position'')"

lemma canned_reads_late: "wire_reads_late (canned_wire (\<lambda>_. answer_of status text))"
  by (simp add: wire_reads_late_def canned_wire_def answer_of_def)

theorem mints_stay_in_lane_witness:
  "\<exists>s' p m w1. sends (open_net, ()) [p] s' \<and> wq_body p = Some (Mint_Body ''k1'' m) \<and> mr_wallet m = ''0xa''
     \<and> mr_quantity m = (5 :: nat) \<and> took_no_effect (fst (wi_http short_wire p w1))"
proof -
  obtain s' where w: "request_mint sample_history short_wire sample_tokenizer ''AAPL'' 5 ''0xa'' ''k1'' (open_net, ())
      = (Inl (Tok_InsufficientPosition ''AAPL''), s')" using sample_mint by blast
  define f where "f = tokenization (\<lambda>_. None) ''r'' [] (Tok_InsufficientPosition ''AAPL'') Sent_Mutation"
  have h: "mint_work ''r'' (\<lambda>_. None) (\<lambda>_. []) sample_history short_wire minting_config sample_tokenizers
      sample_mint_order (open_net, ()) = (Inl f, s')"
    using w by (simp add: mint_work_def minting_config_def sample_tokenizers_def sample_mint_order_def then_call_def
        return_call_def tokenizer_def as_tokenization_failure_def map_err_call_def f_def)
  have n: "fa_outcome (for_mutation f TokenizationMint) = Some NotApplied"
    by (simp add: f_def tokenization_def rejected_def failure_new_def for_mutation_def mutates_def)
  have "\<not> sends (open_net, ()) [] s'"
    using w by (auto simp: sends_def request_mint_def client_request_mint_def mint_answer_def map_mint_error_def
        to_ascii_lowercase_def ascii_lower_def starts_with_def tokenization_run record_head_def)
  with mints_stay_in_lane [OF canned_reads_late h] n show ?thesis
    by (cases s') (fastforce simp: sample_mint_order_def is_query_def)
qed

end
