(* ===== verification/Request_Checks.thy ===== *)
theory Request_Checks
  imports Handlers_Tokenization Issuer
begin

text \<open>
  What a request must look like before a handler runs: the field checks of
  \<^verbatim>\<open>crates/gateway-api/src/dto/{mod,issuer,account}.rs\<close> and the extractors of \<^verbatim>\<open>crates/gateway/src/extract.rs\<close>. A
  check takes the text serde read for the field; a refusal is its message.
\<close>

subsection \<open>Symbols and names\<close>

definition SYMBOL_MAX :: nat where "SYMBOL_MAX = 32"
definition COUNTERPARTY_MAX :: nat where "COUNTERPARTY_MAX = 64"
definition REQUEST_ID_MAX :: nat where "REQUEST_ID_MAX = 128"

definition bounded :: "string \<Rightarrow> nat \<Rightarrow> string \<Rightarrow> string + string" where
  "bounded field m raw =
     (if m < char_count raw
      then Inl (field @ '' must be at most '' @ show_nat m @ '' characters'')
      else Inr raw)"

definition is_safe_symbol :: "string \<Rightarrow> bool" where
  "is_safe_symbol raw \<longleftrightarrow>
     list_all (\<lambda>c. is_ascii_alphanumeric c \<or> c \<in> set ''./-'') raw
     \<and> list_ex is_ascii_alphanumeric raw
     \<and> list_all (\<lambda>p. p \<noteq> [] \<and> p \<noteq> ''.'' \<and> p \<noteq> ''..'') (split_on CHR ''/'' raw)"

text \<open>\<open>dbg\<close> is the \<open>Debug\<close> of a string, \<open>symbol_new\<close> is \<open>Symbol::new\<close>.\<close>

definition safe_symbol :: "(string \<Rightarrow> string) \<Rightarrow> string \<Rightarrow> string + string" where
  "safe_symbol dbg raw =
     and_then (bounded ''symbol'' SYMBOL_MAX raw) (\<lambda>raw.
       if \<not> is_safe_symbol raw
       then Inl (''symbol '' @ dbg raw
         @ '' must be ASCII letters, digits, '' @ [CHR 39] @ ''.'' @ [CHR 39] @ '', '' @ [CHR 39] @ ''/'' @ [CHR 39]
         @ '' or '' @ [CHR 39] @ ''-'' @ [CHR 39] @ '', without empty or dot parts'')
       else Inr raw)"

definition read_symbol :: "(string \<Rightarrow> string) \<Rightarrow> (string \<Rightarrow> string + symbol) \<Rightarrow> string \<Rightarrow> string + symbol" where
  "read_symbol dbg symbol_new raw = and_then (safe_symbol dbg raw) symbol_new"

definition is_counterparty_name :: "string \<Rightarrow> bool" where
  "is_counterparty_name nm \<longleftrightarrow>
     nm \<noteq> [] \<and> length nm \<le> COUNTERPARTY_MAX
     \<and> list_all (\<lambda>c. is_ascii_alphanumeric c \<or> c \<in> set ''_-'') nm"

definition read_counterparty :: "(string \<Rightarrow> string) \<Rightarrow> string \<Rightarrow> string + string" where
  "read_counterparty dbg raw =
     and_then (bounded ''counterparty'' COUNTERPARTY_MAX raw) (\<lambda>raw.
       if \<not> is_counterparty_name raw
       then Inl (''counterparty '' @ dbg raw @ '' must be ASCII letters, digits, '' @ [CHR 39] @ ''_'' @ [CHR 39]
         @ '' or '' @ [CHR 39] @ ''-'' @ [CHR 39])
       else Inr raw)"

subsection \<open>Request ids\<close>

text \<open>A character of the Unicode class \<open>Cc\<close>, in UTF-8: U+0000 to U+001F, U+007F, U+0080 to U+009F.\<close>

fun has_control :: "string \<Rightarrow> bool" where
  "has_control [] = False"
| "has_control (c # s) =
     ((of_char c :: nat) < 32 \<or> (of_char c :: nat) = 127
      \<or> ((of_char c :: nat) = 0xC2 \<and> (case s of [] \<Rightarrow> False | d # _ \<Rightarrow> (of_char d :: nat) \<in> {0x80..0x9F}))
      \<or> has_control s)"

definition read_request_id :: "string \<Rightarrow> string \<Rightarrow> string + string" where
  "read_request_id field raw =
     and_then (bounded field REQUEST_ID_MAX raw) (\<lambda>raw.
       if is_blank raw then Inl (field @ '' must not be blank'')
       else if has_control raw then Inl (field @ '' must not contain control characters'')
       else Inr raw)"

definition read_tokenization_request_id :: "string \<Rightarrow> string + string" where
  "read_tokenization_request_id = read_request_id ''tokenizationRequestId''"

definition read_issuer_request_id :: "string \<Rightarrow> string + string" where
  "read_issuer_request_id = read_request_id ''issuerRequestId''"

subsection \<open>Redeem quantities\<close>

definition REDEEM_QTY_MAX_SCALE :: nat where "REDEEM_QTY_MAX_SCALE = 9"

text \<open>\<open>str::split_once\<close>.\<close>

fun split_once :: "char \<Rightarrow> string \<Rightarrow> (string \<times> string) option" where
  "split_once c [] = None"
| "split_once c (x # xs) =
     (if x = c then Some ([], xs) else map_option (\<lambda>(a, b). (x # a, b)) (split_once c xs))"

definition plain_decimal_with_max_scale :: "string \<Rightarrow> nat \<Rightarrow> bool" where
  "plain_decimal_with_max_scale raw max_scale =
     (case (case split_once CHR ''.'' raw of None \<Rightarrow> (raw, None) | Some (w, f) \<Rightarrow> (w, Some f)) of
        (whole, fraction) \<Rightarrow>
          whole \<noteq> [] \<and> list_all is_digit whole
          \<and> (case fraction of
               None \<Rightarrow> True
             | Some f \<Rightarrow> f \<noteq> [] \<and> length f \<le> max_scale \<and> list_all is_digit f))"

text \<open>\<open>parse\<close> is the decimal parser, \<open>positive\<close> is \<open>Positive::new\<close>, both with their error's text.\<close>

definition read_redeem_qty ::
  "(string \<Rightarrow> string + 'f) \<Rightarrow> ('f \<Rightarrow> string + 'f) \<Rightarrow> string \<Rightarrow> string + 'f redeem_qty" where
  "read_redeem_qty parse positive raw =
     (if \<not> plain_decimal_with_max_scale raw REDEEM_QTY_MAX_SCALE
      then Inl (''quantity must be a plain decimal with at most '' @ show_nat REDEEM_QTY_MAX_SCALE
        @ '' fractional digits'')
      else and_then (redeem_qty_new parse raw) (\<lambda>q.
           and_then (positive (rq_shares q)) (\<lambda>_. Inr q)))"

subsection \<open>Issuer requests\<close>

record mint_callback_order =
  mk_tokenization_request_id :: string
  mk_client_id :: uuid
  mk_wallet_address :: string
  mk_tx_hash :: string
  mk_network :: network

definition mint_callback_from :: "mint_callback_order \<Rightarrow> mint_callback_request" where
  "mint_callback_from r = \<lparr>mc_tokenization_request_id = mk_tokenization_request_id r, mc_client_id = mk_client_id r,
     mc_wallet_address = mk_wallet_address r, mc_tx_hash = mk_tx_hash r, mc_network = mk_network r\<rparr>"

record 'f redeem_order =
  ro_issuer_request_id :: string
  ro_underlying_symbol :: symbol
  ro_token_symbol :: string
  ro_client_id :: uuid
  ro_quantity :: "'f redeem_qty"
  ro_network :: network
  ro_wallet_address :: string
  ro_tx_hash :: string

definition redeem_from :: "'f redeem_order \<Rightarrow> 'f redeem_request" where
  "redeem_from r = \<lparr>rr_issuer_request_id = ro_issuer_request_id r, rr_underlying = ro_underlying_symbol r,
     rr_token = ro_token_symbol r, rr_client_id = ro_client_id r, rr_quantity = ro_quantity r,
     rr_network = ro_network r, rr_wallet = ro_wallet_address r, rr_tx_hash = ro_tx_hash r\<rparr>"

subsection \<open>Stream positions and activity types\<close>

record replay_query =
  rpq_since_id :: "event_id option"
  rpq_since :: "instant option"
  rpq_until :: "instant option"

datatype replay_query_error = Combination | Since_Error bootstrap_error

definition replay_try_from :: "instant \<Rightarrow> replay_query \<Rightarrow> replay_query_error + replay" where
  "replay_try_from now q =
     (case (rpq_since_id q, rpq_since q, rpq_until q) of
        (None, None, None) \<Rightarrow> Inr Live
      | (Some since_id, None, None) \<Rightarrow> Inr (SinceId since_id)
      | (None, Some since, None) \<Rightarrow>
          and_then (map_err Since_Error (try_from_instant now since)) (\<lambda>s. Inr (Since s))
      | (None, Some since, Some until) \<Rightarrow>
          and_then (map_err Since_Error (try_from_instant now since)) (\<lambda>s. Inr (Window s (ReplayUntil until)))
      | _ \<Rightarrow> Inl Combination)"

definition read_activity_types :: "string \<Rightarrow> string + string" where
  "read_activity_types types =
     (if list_all is_blank (split_on CHR '','' types)
      then Inl ''types must name at least one activity type''
      else Inr types)"

subsection \<open>Extractors\<close>

text \<open>The refusal of a path or query that did not parse, with the rejection's text.\<close>

definition extract_refuse ::
  "uuid \<Rightarrow> gateway \<Rightarrow> instant \<Rightarrow> request_parts \<Rightarrow> string \<Rightarrow> failure \<times> request_parts \<times> gateway" where
  "extract_refuse rid g now parts message =
     (case call_of rid now parts of
        (Inr c, parts') \<Rightarrow> (case refuse g c default_intent (invalid rid message) now of (f, g') \<Rightarrow> (f, parts', g'))
      | (Inl f, parts') \<Rightarrow> (f, parts', g))"

definition extract_params ::
  "uuid \<Rightarrow> gateway \<Rightarrow> instant \<Rightarrow> request_parts \<Rightarrow> string + 'a \<Rightarrow> (failure + 'a) \<times> request_parts \<times> gateway" where
  "extract_params rid g now parts read =
     (case read of
        Inr x \<Rightarrow> (Inr x, parts, g)
      | Inl message \<Rightarrow> (case extract_refuse rid g now parts message of (f, parts', g') \<Rightarrow> (Inl f, parts', g')))"

text \<open>The call is resolved before the body is read.\<close>

definition extract_body ::
  "uuid \<Rightarrow> gateway \<Rightarrow> instant \<Rightarrow> request_parts \<Rightarrow> string + 'a \<Rightarrow> (failure + 'a) \<times> request_parts \<times> gateway" where
  "extract_body rid g now parts read =
     (case call_of rid now parts of
        (Inl f, parts') \<Rightarrow> (Inl f, parts', g)
      | (Inr c, parts') \<Rightarrow>
          (case read of
             Inr x \<Rightarrow> (Inr x, parts', g)
           | Inl message \<Rightarrow>
               (case refuse g c default_intent (invalid rid message) now of (f, g') \<Rightarrow> (Inl f, parts', g'))))"

subsection \<open>Symbols cannot steer a URL\<close>

lemma safe_chars:
  assumes "list_all (\<lambda>c. is_ascii_alphanumeric c \<or> c \<in> set ''./-'') s"
  shows "CHR ''%'' \<notin> set s" and "CHR ''?'' \<notin> set s" and "CHR ''#'' \<notin> set s" and "CHR 92 \<notin> set s"
    and "char_count s = length s"
  using assms by (induction s) (auto simp: is_ascii_alphanumeric_def is_cont_def between_def Let_def)

lemma undot_plain: "CHR ''%'' \<notin> set s \<Longrightarrow> undot s = s"
  by (induction s rule: undot.induct) auto

lemma lower_plain:
  assumes "ascii_lower c = d" and "(of_char d :: nat) < 65"
  shows "c = d"
proof (cases "65 \<le> (of_char c :: nat) \<and> (of_char c :: nat) \<le> 90")
  case True
  with assms(1) have "(of_char d :: nat) = (of_char c + 32) mod 256"
    by (auto simp: ascii_lower_def)
  with True assms(2) show ?thesis by simp
next
  case False
  with assms(1) show ?thesis by (auto simp: ascii_lower_def)
qed

lemma lower_dot: "ascii_lower c = CHR ''.'' \<longleftrightarrow> c = CHR ''.''"
  using lower_plain [of c "CHR ''.''"] by (auto simp: ascii_lower_def)

lemma lower_percent: "CHR ''%'' = ascii_lower c \<longleftrightarrow> c = CHR ''%''"
  using lower_plain [of c "CHR ''%''"] by (auto simp: ascii_lower_def)

lemma plain_segment:
  assumes "CHR ''%'' \<notin> set p" and "p \<noteq> []" and "p \<noteq> ''.''" and "p \<noteq> ''..''"
  shows "\<not> bad_segment p"
proof -
  have kept: "ascii_lower CHR ''%'' = CHR ''%''" by code_simp
  have "CHR ''%'' \<notin> set (to_ascii_lowercase p)"
    using assms(1) by (auto simp: to_ascii_lowercase_def lower_percent kept)
  then have "undot (to_ascii_lowercase p) = to_ascii_lowercase p" by (rule undot_plain)
  moreover have "to_ascii_lowercase p = ''.'' \<Longrightarrow> p = ''.''" "to_ascii_lowercase p = ''..'' \<Longrightarrow> p = ''..''"
    by (auto simp: to_ascii_lowercase_def map_eq_Cons_conv lower_dot)
  ultimately show ?thesis using assms(2-4) by (auto simp: bad_segment_def)
qed

lemma split_on_chars: "p \<in> set (split_on c s) \<Longrightarrow> set p \<subseteq> set s"
  by (induction c s arbitrary: p rule: split_on.induct) (fastforce split: if_splits list.splits)+



subsection \<open>Quantities, ids and positions\<close>

lemma split_once_Some:
  "split_once c s = Some (a, b) \<longleftrightarrow> s = a @ c # b \<and> c \<notin> set a"
proof (induction s arbitrary: a)
  case (Cons x s)
  show ?case
  proof (cases a)
    case Nil
    then show ?thesis by auto
  next
    case (Cons y a')
    with Cons.IH [of a'] show ?thesis by auto
  qed
qed simp

lemma split_once_None: "split_once c s = None \<longleftrightarrow> c \<notin> set s"
  by (induction s) auto

lemma digits_no_dot: "list_all is_digit s \<Longrightarrow> CHR ''.'' \<notin> set s"
  by (induction s) (auto simp: is_digit_def between_def)

lemma plain_decimal_iff:
  "plain_decimal_with_max_scale raw n \<longleftrightarrow>
     (\<exists>w. w \<noteq> [] \<and> list_all is_digit w
        \<and> (raw = w \<or> (\<exists>f. raw = w @ CHR ''.'' # f \<and> f \<noteq> [] \<and> length f \<le> n \<and> list_all is_digit f)))"
proof (cases "split_once CHR ''.'' raw")
  case None
  then have "plain_decimal_with_max_scale raw n \<longleftrightarrow> raw \<noteq> [] \<and> list_all is_digit raw"
    by (simp add: plain_decimal_with_max_scale_def)
  moreover from None have "CHR ''.'' \<notin> set raw" by (simp add: split_once_None)
  ultimately show ?thesis by auto
next
  case (Some wf)
  then obtain w f where wf: "wf = (w, f)" "raw = w @ CHR ''.'' # f" "CHR ''.'' \<notin> set w"
    by (cases wf) (auto simp: split_once_Some)
  have only: "w' = w \<and> f' = f" if "raw = w' @ CHR ''.'' # f'" "list_all is_digit w'" for w' f'
    using split_once_Some [of "CHR ''.''" raw w' f'] that digits_no_dot [OF that(2)] Some wf(1) by simp
  have "plain_decimal_with_max_scale raw n \<longleftrightarrow>
      w \<noteq> [] \<and> list_all is_digit w \<and> f \<noteq> [] \<and> length f \<le> n \<and> list_all is_digit f"
    using Some wf(1) by (simp add: plain_decimal_with_max_scale_def)
  moreover have "\<not> list_all is_digit raw" using wf(2) digits_no_dot [of raw] by auto
  ultimately show ?thesis using wf(2) only by blast
qed

text \<open>
  A redeem quantity is sent exactly as it was spelled and means what it spells. It is accepted iff it is
  digits, or digits, a dot and one to nine digits (no sign, exponent or blank), its value parses and is
  positive; the text kept for Alpaca is the caller's.
\<close>

theorem redeem_quantities_are_plain_decimals:
  "read_redeem_qty parse positive raw = Inr q \<longleftrightarrow>
     rq_wire q = raw \<and> parse raw = Inr (rq_shares q) \<and> (\<exists>x. positive (rq_shares q) = Inr x)
     \<and> (\<exists>w. w \<noteq> [] \<and> list_all is_digit w
          \<and> (raw = w \<or> (\<exists>f. raw = w @ CHR ''.'' # f \<and> f \<noteq> [] \<and> length f \<le> 9 \<and> list_all is_digit f)))"
  unfolding plain_decimal_iff [of raw 9, symmetric]
  by (cases q) (auto simp: read_redeem_qty_def REDEEM_QTY_MAX_SCALE_def redeem_qty_new_def and_then_Inr_iff)

text \<open>The query a replay position is asked for with.\<close>

fun query_of_replay :: "replay \<Rightarrow> replay_query" where
  "query_of_replay Live = \<lparr>rpq_since_id = None, rpq_since = None, rpq_until = None\<rparr>"
| "query_of_replay (SinceId i) = \<lparr>rpq_since_id = Some i, rpq_since = None, rpq_until = None\<rparr>"
| "query_of_replay (Since (BootstrapSince t)) = \<lparr>rpq_since_id = None, rpq_since = Some t, rpq_until = None\<rparr>"
| "query_of_replay (Window (BootstrapSince t) (ReplayUntil u)) =
     \<lparr>rpq_since_id = None, rpq_since = Some t, rpq_until = Some u\<rparr>"

fun starts_by :: "instant \<Rightarrow> replay \<Rightarrow> bool" where
  "starts_by now (Since (BootstrapSince t)) \<longleftrightarrow> t \<le> now"
| "starts_by now (Window (BootstrapSince t) _) \<longleftrightarrow> t \<le> now"
| "starts_by now _ \<longleftrightarrow> True"

text \<open>
  Every replay position has exactly one query, and a query is accepted exactly when it is the query of a
  position that does not start in the future. Nothing else is read as a position: an id beside an
  instant, or an end without a start, is refused.
\<close>

theorem replay_positions_round_trip:
  "replay_try_from now q = Inr r \<longleftrightarrow> q = query_of_replay r \<and> starts_by now r"
  by (cases q; cases r rule: query_of_replay.cases)
    (auto simp: replay_try_from_def try_from_instant_def and_then_def split: option.splits)

subsection \<open>Refused requests\<close>


definition sample_parts :: request_parts where
  "sample_parts = \<lparr>rp_call = None, rp_operation = Some WalletWithdraw,
     rp_principal = Some (ca_principal sample_call), rp_headers = []\<rparr>"


end
