(* ===== verification/Handlers_Reads.thy ===== *)
theory Handlers_Reads
  imports Request_Checks
begin

text \<open>
  The gateway's account, market and asset handlers (\<^verbatim>\<open>crates/gateway/src/handlers/{account,market}.rs\<close>): each is
  its audit intent and its work, a read of the broker facade that names no Alpaca object.
\<close>

subsection \<open>Account\<close>

definition keyed_read_intent :: "string \<Rightarrow> intent" where
  "keyed_read_intent key = with_key default_intent key"

definition funds_work ::
  "uuid \<Rightarrow> 'f displays \<Rightarrow> 'f decimals \<Rightarrow> 'f reads \<Rightarrow> ('env, 'w, 'f) alpaca \<Rightarrow> broker_api
   \<Rightarrow> ('env, 'w, 'f, failure, account_funds done_call) api_call" where
  "funds_work rid D F R A api = read_work (as_broker_failure rid D Sent_Read (api_account_funds F R A api))"

definition withdrawable_cash_work ::
  "uuid \<Rightarrow> 'f displays \<Rightarrow> 'f decimals \<Rightarrow> 'f reads \<Rightarrow> ('env, 'w, 'f) alpaca \<Rightarrow> broker_api
   \<Rightarrow> ('env, 'w, 'f, failure, int option done_call) api_call" where
  "withdrawable_cash_work rid D F R A api =
     read_work (as_broker_failure rid D Sent_Read (withdrawable_cash_cents F R A api))"

definition inventory_work ::
  "uuid \<Rightarrow> 'f displays \<Rightarrow> 'f decimals \<Rightarrow> 'f reads \<Rightarrow> ('env, 'w, 'f) alpaca \<Rightarrow> broker_api
   \<Rightarrow> ('env, 'w, 'f, failure, 'f inventory done_call) api_call" where
  "inventory_work rid D F R A api = read_work (as_broker_failure rid D Sent_Read (api_fetch_inventory F R A api))"

definition position_mark_work ::
  "uuid \<Rightarrow> 'f displays \<Rightarrow> 'f reads \<Rightarrow> ('env, 'w, 'f) alpaca \<Rightarrow> broker_api \<Rightarrow> symbol
   \<Rightarrow> ('env, 'w, 'f, failure, 'f option done_call) api_call" where
  "position_mark_work rid D R A api symb =
     read_work (as_broker_failure rid D Sent_Read (api_fetch_position_mark R A api symb))"

definition HUMAN_PAGES :: nat where "HUMAN_PAGES = 10"
definition BOT_PAGES :: nat where "BOT_PAGES = 1000"

definition tier_activity_pages :: "tier \<Rightarrow> nat" where
  "tier_activity_pages tier = (if is_human tier then HUMAN_PAGES else BOT_PAGES)"

text \<open>The query the handler makes of the caller's: the listed types, trimmed, without the empty ones.\<close>

definition activities_query_from :: "activities_query \<Rightarrow> account_activities_query" where
  "activities_query_from q = \<lparr>
     aq_activity_types = filter (\<lambda>k. k \<noteq> []) (map trim (split_on CHR '','' (ax_types q))),
     aq_after = ax_after q, aq_until = ax_until q\<rparr>"

definition activities_work ::
  "uuid \<Rightarrow> 'f displays \<Rightarrow> 'f reads \<Rightarrow> ('env, 'w, 'f) alpaca \<Rightarrow> broker_api \<Rightarrow> tier \<Rightarrow> activities_query
   \<Rightarrow> ('env, 'w, 'f, failure, account_activity list done_call) api_call" where
  "activities_work rid D R A api tier q =
     read_work (as_broker_failure rid D Sent_Read
       (api_fetch_account_activities R A api (activities_query_from q) (tier_activity_pages tier)))"

subsection \<open>Market and assets\<close>

definition is_open_work ::
  "uuid \<Rightarrow> 'f displays \<Rightarrow> chrono \<Rightarrow> ('env, 'w, 'f) alpaca \<Rightarrow> broker_api \<Rightarrow> utc
   \<Rightarrow> ('env, 'w, 'f, failure, bool done_call) api_call" where
  "is_open_work rid D K A api now = read_work (as_broker_failure rid D Sent_Read (api_is_market_open K A api now))"

definition session_work ::
  "uuid \<Rightarrow> 'f displays \<Rightarrow> chrono \<Rightarrow> ('env, 'w, 'f) alpaca \<Rightarrow> broker_api \<Rightarrow> utc
   \<Rightarrow> ('env, 'w, 'f, failure, market_session done_call) api_call" where
  "session_work rid D K A api now = read_work (as_broker_failure rid D Sent_Read (api_market_session K A api now))"

definition session_status_work ::
  "uuid \<Rightarrow> 'f displays \<Rightarrow> chrono \<Rightarrow> ('env, 'w, 'f) alpaca \<Rightarrow> broker_api \<Rightarrow> utc
   \<Rightarrow> ('env, 'w, 'f, failure, market_session_status done_call) api_call" where
  "session_status_work rid D K A api now =
     read_work (as_broker_failure rid D Sent_Read (api_market_session_status K A api now))"

definition latest_trade_work ::
  "uuid \<Rightarrow> 'f displays \<Rightarrow> 'f reads \<Rightarrow> ('env, 'w, unit) wire \<Rightarrow> string \<Rightarrow> symbol
   \<Rightarrow> ('env, 'w, unit, failure, 'f done_call) wire_call" where
  "latest_trade_work rid D R X base symb =
     read_work (as_broker_failure rid D Sent_Read (api_fetch_latest_trade_price R X base symb))"

text \<open>The answer of a quote, and the quote a client reads back from it.\<close>

record 'f quote_response =
  qr_bid :: 'f
  qr_ask :: 'f

record 'f overnight_quote_response =
  or_bid :: 'f
  or_ask :: 'f
  or_at :: utc

definition quote_response_from :: "'f latest_quote \<Rightarrow> 'f quote_response" where
  "quote_response_from q = \<lparr>qr_bid = lq_bid q, qr_ask = lq_ask q\<rparr>"

definition overnight_quote_response_from :: "'f indicative_quote \<Rightarrow> 'f overnight_quote_response" where
  "overnight_quote_response_from q = \<lparr>or_bid = lq_bid (iq_quote q), or_ask = lq_ask (iq_quote q), or_at = iq_at q\<rparr>"

definition latest_quote_try_from :: "'f decimals \<Rightarrow> 'f quote_response \<Rightarrow> 'f latest_quote_error + 'f latest_quote" where
  "latest_quote_try_from F r = latest_quote_new F (qr_bid r) (qr_ask r)"

definition indicative_quote_try_from ::
  "'f decimals \<Rightarrow> 'f overnight_quote_response \<Rightarrow> 'f latest_quote_error + 'f indicative_quote" where
  "indicative_quote_try_from F r =
     and_then (latest_quote_new F (or_bid r) (or_ask r)) (\<lambda>q. Inr \<lparr>iq_quote = q, iq_at = or_at r\<rparr>)"

definition latest_quote_work ::
  "uuid \<Rightarrow> 'f displays \<Rightarrow> 'f decimals \<Rightarrow> 'f reads \<Rightarrow> ('env, 'w, unit) wire \<Rightarrow> string \<Rightarrow> symbol
   \<Rightarrow> ('env, 'w, unit, failure, 'f quote_response done_call) wire_call" where
  "latest_quote_work rid D F R X base symb =
     read_work (as_broker_failure rid D Sent_Read
       (then_call (api_fetch_latest_quote F R X base symb) (\<lambda>q. return_call (Inr (quote_response_from q)))))"

definition latest_overnight_quote_work ::
  "uuid \<Rightarrow> 'f displays \<Rightarrow> 'f decimals \<Rightarrow> 'f reads \<Rightarrow> ('env, 'w, unit) wire \<Rightarrow> string \<Rightarrow> symbol
   \<Rightarrow> ('env, 'w, unit, failure, 'f overnight_quote_response done_call) wire_call" where
  "latest_overnight_quote_work rid D F R X base symb =
     read_work (as_broker_failure rid D Sent_Read
       (then_call (api_fetch_latest_overnight_quote F R X base symb)
         (\<lambda>q. return_call (Inr (overnight_quote_response_from q)))))"

definition asset_work ::
  "uuid \<Rightarrow> 'f displays \<Rightarrow> ('env, 'w, 'f) alpaca \<Rightarrow> ('w, 'f) api_io \<Rightarrow> broker_api \<Rightarrow> symbol
   \<Rightarrow> ('env, 'w, 'f, failure, asset_details done_call) api_call" where
  "asset_work rid D A io api symb = read_work (as_broker_failure rid D Sent_Read (get_asset_details A io api symb))"

definition counter_trade_shares_intent :: "'f displays \<Rightarrow> symbol \<Rightarrow> 'f counter_trade_shares_request \<Rightarrow> intent" where
  "counter_trade_shares_intent D symb r =
     with_note (with_key default_intent symb) ''quantity'' (dp_number D (ct_shares r))"

definition counter_trade_shares_work ::
  "uuid \<Rightarrow> 'f displays \<Rightarrow> 'f decimals \<Rightarrow> ('env, 'w, 'f) alpaca \<Rightarrow> ('w, 'f) api_io \<Rightarrow> broker_api \<Rightarrow> symbol
   \<Rightarrow> 'f counter_trade_shares_request \<Rightarrow> ('env, 'w, 'f, failure, 'f prepared_shares done_call) api_call" where
  "counter_trade_shares_work rid D F A io api symb r =
     read_work (as_broker_failure rid D Sent_Read
       (prepare_counter_trade_shares F A io api symb (ct_shares r) (ct_extended_hours r)))"

subsection \<open>Activity queries survive the hop\<close>

lemma query_split_append: "c \<notin> set a \<Longrightarrow> split_on c (a @ c # b) = a # split_on c b"
  by (induction a) auto

lemma split_on_join:
  "list_all (\<lambda>k. CHR '','' \<notin> set k) ks \<Longrightarrow> ks \<noteq> [] \<Longrightarrow> split_on CHR '','' (join_ids ks) = ks"
  by (induction ks rule: join_ids.induct) (simp_all add: split_on_free query_split_append)

definition listed_kind :: "string \<Rightarrow> bool" where
  "listed_kind k = (k \<noteq> [] \<and> trim k = k \<and> CHR '','' \<notin> set k)"

lemma filter_trim_kinds: "list_all listed_kind ks \<Longrightarrow> filter (\<lambda>k. k \<noteq> []) (map trim ks) = ks"
  by (induction ks) (auto simp: listed_kind_def)

text \<open>
  An activities query a client asks through the gateway is the one the gateway asks Alpaca. Activity types of its
  own spelling (not blank, no blank at an end, no comma) joined by the client are read back as the same list in the same
  order with the same bounds, and the gateway accepts the joined list exactly when it names one.
\<close>

theorem activities_query_survives_the_hop:
  assumes "list_all listed_kind (aq_activity_types q)"
  shows "activities_query_from \<lparr>ax_types = join_ids (aq_activity_types q), ax_after = aq_after q, ax_until = aq_until q\<rparr> = q
    \<and> (read_activity_types (join_ids (aq_activity_types q)) = Inr (join_ids (aq_activity_types q))
        \<longleftrightarrow> aq_activity_types q \<noteq> [])"
proof (cases "aq_activity_types q = []")
  case True
  moreover have "trim [] = []" using trim_length [of "[]"] by simp
  ultimately show ?thesis
    by (cases q) (simp add: activities_query_from_def read_activity_types_def is_blank_def)
next
  case False
  have plain: "list_all (\<lambda>k. CHR '','' \<notin> set k) (aq_activity_types q)"
    using assms by (auto simp: listed_kind_def list_all_iff)
  note split = split_on_join [OF plain False]
  have "\<not> list_all is_blank (aq_activity_types q)"
    using assms False by (cases "aq_activity_types q") (auto simp: listed_kind_def is_blank_def)
  with split filter_trim_kinds [OF assms] False show ?thesis
    by (cases q) (simp add: activities_query_from_def read_activity_types_def)
qed

theorem activities_query_survives_the_hop_witness:
  "activities_query_from \<lparr>ax_types = ''FILL,DIV'', ax_after = None, ax_until = None\<rparr>
     = \<lparr>aq_activity_types = [''FILL'', ''DIV''], aq_after = None, aq_until = None\<rparr>"
proof -
  have "list_all listed_kind [''FILL'', ''DIV'']" by code_simp
  then show ?thesis
    using activities_query_survives_the_hop
      [of "\<lparr>aq_activity_types = [''FILL'', ''DIV''], aq_after = None, aq_until = None\<rparr>"]
    by simp
qed

end
