(* ===== verification/Relay.thy ===== *)
theory Relay
  imports Runner
begin

text \<open>
  \<open>AppState::relay\<close> of \<^verbatim>\<open>crates/gateway/src/state.rs\<close>: a read answered with a response whose body outlives the
  call, so without a deadline and without a send gate. As \<open>run_step\<close> does for \<open>run\<close>, \<open>relay_step\<close> has one rule
  for every action of the task, of the handler and of the environment; \<open>until_shutdown\<close> of
  \<^verbatim>\<open>crates/gateway/src/handlers/corporate_actions.rs\<close> is the body such a response carries.
\<close>

subsection \<open>The relay after admission\<close>

type_synonym 'b relay_result = "failure + 'b response"

datatype 'b relay_task =
    Opening
  | Opened "'b relay_result"
  | Passed "'b relay_result" audit_event
  | Logged "'b relay_result" audit_event
  | Lost

text \<open>
  The handler: in \<open>select!\<close>, stopped without a result, past \<open>receiver.close()\<close>, holding what \<open>try_recv\<close> or
  \<open>select!\<close> gave, answered, or dropped by a caller that went away.
\<close>

datatype 'b relay_handler =
    Relay_Waiting
  | Relay_Stopped
  | Relay_Shut
  | Relay_Took "'b relay_result option"
  | Relay_Answered "'b relay_result option" "'b response"
  | Relay_Dropped

record 'b relay_state =
  ry_gateway :: gateway
  ry_now :: instant
  ry_traffic :: traffic
  ry_task :: "'b relay_task"
  ry_value :: "'b relay_result option"
  ry_receiver_closed :: bool
  ry_handler :: "'b relay_handler"

definition relay_begin ::
  "gateway \<Rightarrow> call \<Rightarrow> intent \<Rightarrow> instant \<Rightarrow> ('b response \<times> gateway) + 'b relay_state" where
  "relay_begin g c i now =
     (case admit g c i now of
        (Inl f, g') \<Rightarrow> (case refuse g' c i f now of (f', g'') \<Rightarrow> Inl (into_response f', g''))
      | (Inr _, g') \<Rightarrow>
          Inr \<lparr>ry_gateway = g', ry_now = now, ry_traffic = default_traffic, ry_task = Opening, ry_value = None,
               ry_receiver_closed = False, ry_handler = Relay_Waiting\<rparr>)"

text \<open>The task's record names no Alpaca object.\<close>

definition relay_event ::
  "call \<Rightarrow> intent \<Rightarrow> audit_phase \<Rightarrow> 'b relay_result \<Rightarrow> 'b relay_state \<Rightarrow> audit_event" where
  "relay_event c i ph r s =
     event (ry_gateway s) c i ph (ry_traffic s) (map_sum (\<lambda>f. f) (\<lambda>_. []) r) (ry_now s)"

definition relay_response :: "call \<Rightarrow> 'b relay_result \<Rightarrow> 'b response" where
  "relay_response c r = (case r of Inr resp \<Rightarrow> tagged (ca_request_id c) resp | Inl f \<Rightarrow> into_response f)"

definition shutting_down :: "call \<Rightarrow> failure" where
  "shutting_down c = failure_new (ca_request_id c) Unavailable ''the gateway is shutting down''"

inductive relay_step :: "call \<Rightarrow> intent \<Rightarrow> 'b relay_state \<Rightarrow> 'b relay_state \<Rightarrow> bool"
  for c :: call and i :: intent where
  relay_clock: "ry_now s \<le> t \<Longrightarrow> relay_step c i s (s\<lparr>ry_now := t\<rparr>)"
| relay_shut_down: "relay_step c i s (s\<lparr>ry_gateway := (ry_gateway s)\<lparr>gw_shutdown := True\<rparr>\<rparr>)"
| relay_answer_seen: "ry_task s = Opening \<Longrightarrow>
     relay_step c i s (s\<lparr>ry_traffic := traffic_seen x (ry_traffic s)\<rparr>)"
| relay_open: "ry_task s = Opening \<Longrightarrow>
     relay_step c i s (s\<lparr>ry_task := Opened (map_err (\<lambda>f. f\<lparr>fa_request_id := ca_request_id c\<rparr>) r)\<rparr>)"
| relay_panic: "ry_task s = Opening \<Longrightarrow> relay_step c i s (s\<lparr>ry_task := Lost\<rparr>)"
| relay_deliver: "ry_task s = Opened r \<Longrightarrow> \<not> ry_receiver_closed s \<Longrightarrow>
     relay_step c i s (s\<lparr>ry_task := Passed r (relay_event c i Phase_Answered r s), ry_value := Some r\<rparr>)"
| relay_deliver_late: "ry_task s = Opened r \<Longrightarrow> ry_receiver_closed s \<Longrightarrow>
     relay_step c i s (s\<lparr>ry_task := Passed r (relay_event c i Phase_Settled r s)\<rparr>)"
| relay_record: "ry_task s = Passed r e \<Longrightarrow>
     relay_step c i s (s\<lparr>ry_task := Logged r e, ry_gateway := emit (ry_gateway s) e\<rparr>)"
| relay_receive: "ry_handler s = Relay_Waiting \<Longrightarrow> ry_value s = Some r \<Longrightarrow>
     relay_step c i s (s\<lparr>ry_handler := Relay_Took (Some r), ry_value := None\<rparr>)"
| relay_sender_gone: "ry_handler s = Relay_Waiting \<Longrightarrow> ry_task s = Lost \<Longrightarrow>
     relay_step c i s (s\<lparr>ry_handler := Relay_Stopped\<rparr>)"
| relay_shutdown_seen: "ry_handler s = Relay_Waiting \<Longrightarrow> gw_shutdown (ry_gateway s) \<Longrightarrow>
     relay_step c i s (s\<lparr>ry_handler := Relay_Stopped\<rparr>)"
| relay_close_receiver: "ry_handler s = Relay_Stopped \<Longrightarrow>
     relay_step c i s (s\<lparr>ry_handler := Relay_Shut, ry_receiver_closed := True\<rparr>)"
| relay_try_receive: "ry_handler s = Relay_Shut \<Longrightarrow>
     relay_step c i s (s\<lparr>ry_handler := Relay_Took (ry_value s), ry_value := None\<rparr>)"
| relay_answer: "ry_handler s = Relay_Took (Some r) \<Longrightarrow>
     relay_step c i s
       (s\<lparr>ry_handler := Relay_Answered (Some r) (relay_response c r), ry_receiver_closed := True\<rparr>)"
| relay_answer_without: "ry_handler s = Relay_Took None \<Longrightarrow>
     refuse (ry_gateway s) c i (shutting_down c) (ry_now s) = (f, g') \<Longrightarrow>
     relay_step c i s (s\<lparr>ry_handler := Relay_Answered None (into_response f), ry_gateway := g'\<rparr>)"
| relay_caller_gone: "ry_handler s = Relay_Waiting \<Longrightarrow>
     relay_step c i s (s\<lparr>ry_handler := Relay_Dropped, ry_receiver_closed := True, ry_value := None\<rparr>)"

subsection \<open>Invariants of a relay\<close>

fun relay_unheld :: "'b relay_handler \<Rightarrow> bool" where
  "relay_unheld (Relay_Took (Some _)) = False"
| "relay_unheld (Relay_Answered (Some _) _) = False"
| "relay_unheld _ = True"

fun relay_has :: "'b relay_handler \<Rightarrow> 'b relay_result option \<Rightarrow> 'b relay_result \<Rightarrow> bool" where
  "relay_has (Relay_Took got) v r = (got = Some r \<and> v = None)"
| "relay_has (Relay_Answered got _) v r = (got = Some r \<and> v = None)"
| "relay_has Relay_Dropped v r = (v = None)"
| "relay_has _ v r = (v = Some r)"

fun relay_past_receiver :: "'b relay_handler \<Rightarrow> bool" where
  "relay_past_receiver Relay_Shut = True"
| "relay_past_receiver (Relay_Took None) = True"
| "relay_past_receiver (Relay_Answered None _) = True"
| "relay_past_receiver Relay_Dropped = True"
| "relay_past_receiver _ = False"

definition relay_delivery_ok :: "'b relay_state \<Rightarrow> 'b relay_result \<Rightarrow> audit_event \<Rightarrow> bool" where
  "relay_delivery_ok s r e =
     (case ae_phase e of
        Phase_Answered \<Rightarrow> relay_has (ry_handler s) (ry_value s) r
      | Phase_Settled \<Rightarrow> relay_past_receiver (ry_handler s) \<and> ry_receiver_closed s \<and> ry_value s = None)"

definition relay_delivery_inv :: "'b relay_state \<Rightarrow> bool" where
  "relay_delivery_inv s =
     ((case ry_task s of
         Passed r e \<Rightarrow> relay_delivery_ok s r e
       | Logged r e \<Rightarrow> relay_delivery_ok s r e
       | _ \<Rightarrow> ry_value s = None \<and> relay_unheld (ry_handler s))
      \<and> (relay_past_receiver (ry_handler s) \<longrightarrow> ry_receiver_closed s)
      \<and> (ry_receiver_closed s \<longrightarrow> relay_past_receiver (ry_handler s) \<or> \<not> relay_unheld (ry_handler s)))"

lemma relay_event_phase [simp]: "ae_phase (relay_event c i ph r s) = ph"
  by (simp add: relay_event_def)

lemma relay_delivery_step:
  assumes "relay_step c i s s'" and "relay_delivery_inv s"
  shows "relay_delivery_inv s'"
  using assms
proof (cases rule: relay_step.cases)
  case (relay_deliver r)
  with assms(2) show ?thesis
    by (cases "ry_handler s" rule: relay_past_receiver.cases)
      (auto simp: relay_delivery_inv_def relay_delivery_ok_def)
next
  case (relay_deliver_late r)
  with assms(2) show ?thesis
    by (cases "ry_handler s" rule: relay_past_receiver.cases)
      (auto simp: relay_delivery_inv_def relay_delivery_ok_def)
next
  case relay_try_receive
  with assms(2) show ?thesis
    by (cases "ry_value s") (auto simp: relay_delivery_inv_def relay_delivery_ok_def
        split: relay_task.splits audit_phase.splits)
qed (auto simp: relay_delivery_inv_def relay_delivery_ok_def emit_def refuse_def Let_def
    split: relay_task.splits audit_phase.splits)

fun relay_log :: "'b relay_task \<Rightarrow> audit_event multiset" where
  "relay_log (Logged _ e) = {#e#}"
| "relay_log _ = {#}"

text \<open>The record a relay writes when it answers without its task's result.\<close>

definition relay_own_record :: "call \<Rightarrow> 'b response \<Rightarrow> audit_event \<Rightarrow> bool" where
  "relay_own_record c resp e =
     (\<exists>f. resp = into_response f \<and> ae_phase e = Phase_Answered
        \<and> ae_request_id e = ca_request_id c
        \<and> ae_code e = Some Unavailable \<and> fa_code f = Unavailable
        \<and> ae_outcome e = (if mutates (ca_operation c) then Some NotApplied else None))"

definition relay_audit_inv :: "audit_event list \<Rightarrow> call \<Rightarrow> 'b relay_state \<Rightarrow> bool" where
  "relay_audit_inv before c s =
     (case ry_handler s of
        Relay_Answered None resp \<Rightarrow>
          (\<exists>e. relay_own_record c resp e
             \<and> mset (gw_audit (ry_gateway s)) = mset before + relay_log (ry_task s) + {#e#})
      | _ \<Rightarrow> mset (gw_audit (ry_gateway s)) = mset before + relay_log (ry_task s))"

lemma shutting_down_record:
  assumes "refuse g c i (shutting_down c) now = (f, g')"
  shows "\<exists>e. relay_own_record c (into_response f) e \<and> gw_audit g' = gw_audit g @ [e]"
proof -
  define e where "e = event g c i Phase_Answered default_traffic (Inl f) now"
  have f: "f = refused c (shutting_down c)" and g': "gw_audit g' = gw_audit g @ [e]"
    using assms by (auto simp: refuse_def Let_def emit_def e_def)
  have "relay_own_record c (into_response f) e"
    unfolding relay_own_record_def
    by (rule exI [of _ f])
      (simp add: e_def f event_def refused_def shutting_down_def Let_def for_mutation_def)
  with g' show ?thesis by blast
qed

lemma relay_audit_step:
  fixes s :: "'b relay_state"
  assumes "relay_step c i s s'" and "relay_audit_inv before c s"
  shows "relay_audit_inv before c s'"
  using assms
proof (cases rule: relay_step.cases)
  case (relay_answer_without f g')
  from shutting_down_record [OF relay_answer_without(3)] obtain e where
    "relay_own_record c (into_response f :: 'b response) e"
    "gw_audit g' = gw_audit (ry_gateway s) @ [e]" by blast
  with relay_answer_without assms(2) show ?thesis by (auto simp: relay_audit_inv_def)
next
  case (relay_record r e)
  with assms(2) show ?thesis
    by (auto simp: relay_audit_inv_def emit_def split: relay_handler.splits option.splits)
qed (auto simp: relay_audit_inv_def emit_def split: relay_handler.splits option.splits)

lemma relay_inv:
  assumes "relay_begin g c i now = Inr s0" and "(relay_step c i)\<^sup>*\<^sup>* s0 s"
  shows "relay_delivery_inv s" and "relay_audit_inv (gw_audit (ry_gateway s0)) c s"
proof -
  have start: "relay_delivery_inv s0" "relay_audit_inv (gw_audit (ry_gateway s0)) c s0"
    using assms(1)
    by (auto simp: relay_begin_def relay_delivery_inv_def relay_audit_inv_def split: prod.splits sum.splits)
  show "relay_delivery_inv s" and "relay_audit_inv (gw_audit (ry_gateway s0)) c s"
    using assms(2) start
    by (induction rule: rtranclp_induct) (auto intro: relay_delivery_step relay_audit_step)
qed

subsection \<open>The relay's answers\<close>

text \<open>
  C19: A relayed read is audited as it was answered, in every interleaving. When the handler has answered and the task has
  written its record, either the caller got what the task opened, that record is the call's only one
  and says answered; or the caller was told the gateway is unavailable, that answer has its own answered
  record, and the task's record says settled. When the caller went away the task's record is the only one.
\<close>

theorem relays_are_audited_as_answered:
  assumes "relay_begin g c i now = Inr s0" and "(relay_step c i)\<^sup>*\<^sup>* s0 s"
    and "ry_task s = Logged r e"
  shows "case ry_handler s of
      Relay_Answered (Some r') resp \<Rightarrow> r' = r \<and> ae_phase e = Phase_Answered
        \<and> mset (gw_audit (ry_gateway s)) = mset (gw_audit (ry_gateway s0)) + {#e#}
    | Relay_Answered None resp \<Rightarrow> ae_phase e = Phase_Settled
        \<and> (\<exists>e'. relay_own_record c resp e'
             \<and> mset (gw_audit (ry_gateway s)) = mset (gw_audit (ry_gateway s0)) + {#e, e'#})
    | _ \<Rightarrow> mset (gw_audit (ry_gateway s)) = mset (gw_audit (ry_gateway s0)) + {#e#}"
  using relay_inv [OF assms(1,2)] assms(3)
  by (auto simp: relay_delivery_inv_def relay_delivery_ok_def relay_audit_inv_def add_mset_commute
      split: relay_handler.splits option.splits audit_phase.splits)

text \<open>The handler's own actions: none of them waits for the task.\<close>

definition handler_moves :: "call \<Rightarrow> intent \<Rightarrow> 'b relay_state \<Rightarrow> 'b relay_state \<Rightarrow> bool" where
  "handler_moves c i s s' =
     (relay_step c i s s' \<and> ry_task s' = ry_task s \<and> ry_now s' = ry_now s \<and> ry_handler s' \<noteq> ry_handler s)"

definition relay_answers :: "call \<Rightarrow> intent \<Rightarrow> 'b relay_state \<Rightarrow> 'b relay_result option \<Rightarrow> bool" where
  "relay_answers c i s got =
     (\<exists>s' resp. (handler_moves c i)\<^sup>*\<^sup>* s s' \<and> ry_handler s' = Relay_Answered got resp
        \<and> (case got of
             Some r \<Rightarrow> resp = relay_response c r
           | None \<Rightarrow> \<exists>e. relay_own_record c resp e \<and> gw_audit (ry_gateway s') = gw_audit (ry_gateway s) @ [e]))"

lemma relay_took_answers:
  assumes "ry_handler s = Relay_Took got"
  shows "relay_answers c i s got"
proof (cases got)
  case (Some r)
  let ?s = "s\<lparr>ry_handler := Relay_Answered (Some r) (relay_response c r), ry_receiver_closed := True\<rparr>"
  from assms Some have "handler_moves c i s ?s"
    using relay_answer [of s r c i] by (simp add: handler_moves_def)
  with Some show ?thesis unfolding relay_answers_def
    by (intro exI [of _ ?s] exI [of _ "relay_response c r"]) auto
next
  case None
  obtain f g' where f: "refuse (ry_gateway s) c i (shutting_down c) (ry_now s) = (f, g')" by (metis prod.exhaust)
  let ?s = "s\<lparr>ry_handler := Relay_Answered None (into_response f), ry_gateway := g'\<rparr>"
  from assms None f have "handler_moves c i s ?s"
    using relay_answer_without [of s c i f g'] by (simp add: handler_moves_def)
  moreover obtain e where "relay_own_record c (into_response f :: 'a response) e" "gw_audit g' = gw_audit (ry_gateway s) @ [e]"
    using shutting_down_record [OF f] by blast
  ultimately show ?thesis using None unfolding relay_answers_def
    by (intro exI [of _ ?s] exI [of _ "into_response f"]) auto
qed

lemma relay_answers_step:
  "handler_moves c i s s' \<Longrightarrow> ry_gateway s' = ry_gateway s \<Longrightarrow> relay_answers c i s' got \<Longrightarrow> relay_answers c i s got"
  unfolding relay_answers_def
  by (elim exE conjE, intro exI conjI) (assumption | rule converse_rtranclp_into_rtranclp | auto split: option.splits)+

lemma relay_shut_answers: "ry_handler s = Relay_Shut \<Longrightarrow> relay_answers c i s (ry_value s)"
  using relay_try_receive [of s c i]
  by (intro relay_answers_step [of _ _ s "s\<lparr>ry_handler := Relay_Took (ry_value s), ry_value := None\<rparr>"]
      relay_took_answers) (simp_all add: handler_moves_def)

lemma relay_stopped_answers: "ry_handler s = Relay_Stopped \<Longrightarrow> relay_answers c i s (ry_value s)"
  using relay_close_receiver [of s c i] relay_shut_answers [of "s\<lparr>ry_handler := Relay_Shut, ry_receiver_closed := True\<rparr>" c i]
  by (intro relay_answers_step [of _ _ s "s\<lparr>ry_handler := Relay_Shut, ry_receiver_closed := True\<rparr>"])
    (simp_all add: handler_moves_def)

lemma relay_waiting_answers:
  "ry_handler s = Relay_Waiting \<Longrightarrow> gw_shutdown (ry_gateway s) \<Longrightarrow> relay_answers c i s (ry_value s)"
  using relay_shutdown_seen [of s c i] relay_stopped_answers [of "s\<lparr>ry_handler := Relay_Stopped\<rparr>" c i]
  by (intro relay_answers_step [of _ _ s "s\<lparr>ry_handler := Relay_Stopped\<rparr>"])
    (simp_all add: handler_moves_def)

text \<open>
  Shutdown never waits for a relay. Once shutdown has begun, the handler of a relay whose caller is still
  waiting can answer by its own moves alone, whatever its task is doing: with the result the task had already
  passed on, or as unavailable, with that answer's record.
\<close>

theorem shutdown_answers_every_relay:
  fixes s :: "'b relay_state"
  assumes "gw_shutdown (ry_gateway s)" and "ry_handler s = Relay_Waiting"
  shows "\<exists>s' resp. (handler_moves c i)\<^sup>*\<^sup>* s s' \<and> ry_task s' = ry_task s
      \<and> ry_handler s' = Relay_Answered (ry_value s) resp
      \<and> (case ry_value s of
           Some r \<Rightarrow> resp = relay_response c r
         | None \<Rightarrow> \<exists>e. relay_own_record c resp e \<and> gw_audit (ry_gateway s') = gw_audit (ry_gateway s) @ [e])"
proof -
  have same: "ry_task s' = ry_task s" if "(handler_moves c i)\<^sup>*\<^sup>* s s'" for s'
    using that by (induction rule: rtranclp_induct) (auto simp: handler_moves_def)
  from relay_waiting_answers [OF assms(2,1), of c i] show ?thesis
    unfolding relay_answers_def by (elim exE conjE) (use same in blast)
qed

subsection \<open>The relayed body\<close>

text \<open>
  One poll of \<open>stream::unfold\<close>'s state: whether the token is cancelled when the biased \<open>select!\<close> resolves, and
  the upstream's item otherwise, \<open>None\<close> at its end. \<open>'i\<close> is an upstream item, data or its own error.
\<close>

datatype 'i body_item = Relayed 'i | Interrupted

fun until_shutdown :: "bool \<Rightarrow> (bool \<times> 'i option) list \<Rightarrow> 'i body_item list \<times> bool" where
  "until_shutdown finished [] = ([], finished)"
| "until_shutdown finished ((cancelled, item) # polls) =
     (if finished then ([], True)
      else if cancelled
      then (case until_shutdown True polls of (xs, e) \<Rightarrow> (Interrupted # xs, e))
      else (case item of
              Some x \<Rightarrow> (case until_shutdown False polls of (xs, e) \<Rightarrow> (Relayed x # xs, e))
            | None \<Rightarrow> ([], True)))"

lemma until_finished [simp]: "until_shutdown True polls = ([], True)"
  by (cases polls) auto

text \<open>The response that carries a body as an event stream.\<close>

definition event_stream_response :: "'b \<Rightarrow> 'b response" where
  "event_stream_response b = \<lparr>rs_status = 200, rs_headers = [(''content-type'', ''text/event-stream'')],
     rs_body = Success_Body b\<rparr>"

text \<open>What the upstream sends when nothing cuts it, and whether it ends.\<close>

fun upstream_body :: "'i option list \<Rightarrow> 'i list \<times> bool" where
  "upstream_body [] = ([], False)"
| "upstream_body (None # _) = ([], True)"
| "upstream_body (Some x # items) = (case upstream_body items of (xs, e) \<Rightarrow> (x # xs, e))"

text \<open>
  A relayed stream is whole or visibly cut. The body the caller reads is the upstream's, item for item and
  with its end; or shutdown came first, and it is a prefix of the upstream's followed by one error and the end.
  So a body that ends without that error ended upstream.
\<close>

theorem relayed_body_is_whole_or_visibly_cut:
  "(\<exists>xs e. upstream_body (map snd polls) = (xs, e) \<and> until_shutdown False polls = (map Relayed xs, e))
   \<or> (\<exists>xs e pre. upstream_body (map snd polls) = (xs, e) \<and> prefix pre xs \<and> list_ex fst polls
        \<and> until_shutdown False polls = (map Relayed pre @ [Interrupted], True))"
proof (induction polls)
  case (Cons p polls)
  obtain cancelled item where p: "p = (cancelled, item)" by (cases p)
  show ?case
  proof (cases "cancelled \<or> item = None")
    case True
    with p show ?thesis by (cases cancelled) auto
  next
    case False
    then obtain x where x: "\<not> cancelled" "item = Some x" by auto
    from Cons.IH show ?thesis
    proof (elim disjE exE conjE)
      fix xs e assume "upstream_body (map snd polls) = (xs, e)" "until_shutdown False polls = (map Relayed xs, e)"
      with p x show ?thesis by simp
    next
      fix xs e pre assume "upstream_body (map snd polls) = (xs, e)" "prefix pre xs" "list_ex fst polls"
        "until_shutdown False polls = (map Relayed pre @ [Interrupted], True)"
      with p x show ?thesis
        by (intro disjI2 exI [of _ "x # xs"] exI [of _ e] exI [of _ "x # pre"]) simp
    qed
  qed
next
  case Nil
  show ?case by (intro disjI1 exI [of _ "[]"] exI [of _ False]) simp
qed

subsection \<open>Witnesses\<close>

definition stream_call :: call where
  "stream_call = sample_call\<lparr>ca_operation := CorporateActionsStream\<rparr>"

definition sample_relay :: "nat relay_state" where
  "sample_relay = \<lparr>ry_gateway = sample_gateway, ry_now = 0, ry_traffic = default_traffic, ry_task = Opening,
     ry_value = None, ry_receiver_closed = False, ry_handler = Relay_Waiting\<rparr>"

lemma sample_relay_begin: "relay_begin sample_gateway stream_call default_intent 0 = Inr sample_relay"
  by (simp add: relay_begin_def admit_def sample_gateway_def stream_call_def sample_call_def is_disabled_def
      sample_config_def is_human_def sample_relay_def)

theorem relays_are_audited_as_answered_witness:
  "\<exists>s r e. (relay_step stream_call default_intent)\<^sup>*\<^sup>* sample_relay s
     \<and> ry_task s = Logged r e \<and> ae_phase e = Phase_Answered \<and> mset (gw_audit (ry_gateway s)) = {#e#}"
proof -
  let ?R = "relay_step stream_call default_intent"
  define r where "r = (Inr \<lparr>rs_status = 200, rs_headers = [], rs_body = Success_Body 7\<rparr> :: nat relay_result)"
  define e where "e = relay_event stream_call default_intent Phase_Answered r (sample_relay\<lparr>ry_task := Opened r\<rparr>)"
  define s1 where "s1 = sample_relay\<lparr>ry_task := Opened r\<rparr>"
  define s2 where "s2 = s1\<lparr>ry_task := Passed r e, ry_value := Some r\<rparr>"
  define s3 where "s3 = s2\<lparr>ry_task := Logged r e, ry_gateway := emit sample_gateway e\<rparr>"
  define s4 where "s4 = s3\<lparr>ry_handler := Relay_Took (Some r), ry_value := None\<rparr>"
  define s5 where "s5 = s4\<lparr>ry_handler := Relay_Answered (Some r) (relay_response stream_call r), ry_receiver_closed := True\<rparr>"
  note ss = s5_def s4_def s3_def s2_def s1_def sample_relay_def
  have "?R sample_relay s1"
    using relay_open [of sample_relay stream_call default_intent r] by (simp add: s1_def r_def sample_relay_def)
  moreover have "?R s1 s2"
    using relay_deliver [of s1 r stream_call default_intent] by (simp add: s2_def s1_def e_def sample_relay_def)
  moreover have "?R s2 s3"
    using relay_record [of s2 r e stream_call default_intent] by (simp add: s3_def s2_def s1_def sample_relay_def)
  moreover have "?R s3 s4" unfolding s4_def by (rule relay_receive) (simp_all add: ss)
  moreover have "?R s4 s5" unfolding s5_def by (rule relay_answer) (simp add: s4_def)
  ultimately have reach: "?R\<^sup>*\<^sup>* sample_relay s5" by auto
  have task: "ry_task s5 = Logged r e" by (simp add: ss)
  from relays_are_audited_as_answered [OF sample_relay_begin reach task]
  have "ae_phase e = Phase_Answered \<and> mset (gw_audit (ry_gateway s5)) = {#e#}"
    by (simp add: ss sample_gateway_def)
  with reach task show ?thesis by blast
qed

theorem shutdown_answers_every_relay_witness:
  "\<exists>s' resp. (handler_moves stream_call default_intent)\<^sup>*\<^sup>*
       (sample_relay\<lparr>ry_gateway := sample_gateway\<lparr>gw_shutdown := True\<rparr>\<rparr>) s'
     \<and> ry_task s' = Opening \<and> ry_handler s' = Relay_Answered None resp"
  using shutdown_answers_every_relay
    [of "sample_relay\<lparr>ry_gateway := sample_gateway\<lparr>gw_shutdown := True\<rparr>\<rparr>" stream_call default_intent]
  by (auto simp: sample_relay_def)

end
