(* ===== verification/Handlers_Issuer.thy ===== *)
theory Handlers_Issuer
  imports Request_Checks Relay
begin

text \<open>
  The gateway's issuer handlers and its corporate action stream
  (\<^verbatim>\<open>crates/gateway/src/handlers/{issuer,corporate_actions}.rs\<close>), with the issuer clients of a deployment and the
  choice of one (\<open>IssuerClients\<close> and \<open>AppState::issuer\<close> of \<^verbatim>\<open>crates/gateway/src/state.rs\<close>). \<open>'rt\<close> is a client's
  credential runtime and \<open>A rt\<close> the outside of a client that authorizes with it. Every issuer client has
  its own \<open>Retry-After\<close> hold.
\<close>

subsection \<open>The clients of a deployment\<close>

record 'rt issuer_clients =
  il_mint_callbacks :: "('rt \<times> alpaca_client) option"
  il_redemptions :: "('rt \<times> alpaca_client) option"
  il_requests :: "('rt \<times> alpaca_client) option"
  il_corporate_actions :: "'rt stream_client option"

type_synonym hold_state = "(instant \<times> duration) option"

record issuer_holds =
  ih_mint_callbacks :: hold_state
  ih_redemptions :: hold_state
  ih_requests :: hold_state

definition no_holds :: issuer_holds where
  "no_holds = \<lparr>ih_mint_callbacks = None, ih_redemptions = None, ih_requests = None\<rparr>"

definition app_issuer :: "uuid \<Rightarrow> 'c option \<Rightarrow> failure + 'c" where
  "app_issuer rid client =
     ok_or client (failure_new rid CapabilityDisabled ''this deployment holds no client for this operation'')"

type_synonym ('env, 'w, 'f) issuer_world = "issuer_holds \<times> ('env, 'w, 'f issuer_body) wire_state"

type_synonym ('env, 'w, 'f, 'e, 'a) issuer_work =
  "('env, 'w, 'f) issuer_world \<Rightarrow> ('e + 'a) \<times> ('env, 'w, 'f) issuer_world"

text \<open>A call of one client: it reads and sets that client's hold, and no other.\<close>

definition with_hold ::
  "(issuer_holds \<Rightarrow> hold_state) \<Rightarrow> (hold_state \<Rightarrow> issuer_holds \<Rightarrow> issuer_holds)
   \<Rightarrow> ('env, 'w, 'f, 'e, 'a) issuer_call \<Rightarrow> ('env, 'w, 'f, 'e, 'a) issuer_work" where
  "with_hold get_hold set_hold m = (\<lambda>(hs, x). case m (get_hold hs, x) of (r, (h, x')) \<Rightarrow> (r, (set_hold h hs, x')))"

definition on_mint_callbacks :: "('env, 'w, 'f, 'e, 'a) issuer_call \<Rightarrow> ('env, 'w, 'f, 'e, 'a) issuer_work" where
  "on_mint_callbacks = with_hold ih_mint_callbacks (\<lambda>h hs. hs\<lparr>ih_mint_callbacks := h\<rparr>)"

definition on_redemptions :: "('env, 'w, 'f, 'e, 'a) issuer_call \<Rightarrow> ('env, 'w, 'f, 'e, 'a) issuer_work" where
  "on_redemptions = with_hold ih_redemptions (\<lambda>h hs. hs\<lparr>ih_redemptions := h\<rparr>)"

definition on_requests :: "('env, 'w, 'f, 'e, 'a) issuer_call \<Rightarrow> ('env, 'w, 'f, 'e, 'a) issuer_work" where
  "on_requests = with_hold ih_requests (\<lambda>h hs. hs\<lparr>ih_requests := h\<rparr>)"

subsection \<open>Handlers\<close>

text \<open>\<open>show_e\<close> is the \<open>Display\<close> of an issuer error.\<close>

definition as_issuer_failure ::
  "uuid \<Rightarrow> (alpaca_error \<Rightarrow> string) \<Rightarrow> ('s \<Rightarrow> (issuer_call_error + 'a) \<times> 's) \<Rightarrow> 's \<Rightarrow> (failure + 'a) \<times> 's" where
  "as_issuer_failure rid show_e = map_err_call (\<lambda>f. issuer_call rid (show_e (ice_error f)) f)"

definition mint_callback_intent :: "string option \<Rightarrow> mint_callback_order \<Rightarrow> intent" where
  "mint_callback_intent digest r =
     with_note (with_note (with_key (intent_of digest) (mk_tokenization_request_id r))
       ''network'' (network_as_str (mk_network r))) ''recipient'' (mk_wallet_address r)"

definition mint_callback_work ::
  "uuid \<Rightarrow> (alpaca_error \<Rightarrow> string) \<Rightarrow> ('rt \<Rightarrow> ('env, 'w, 'f) issuer_io) \<Rightarrow> 'rt issuer_clients \<Rightarrow> mint_callback_order
   \<Rightarrow> ('env, 'w, 'f, failure, unit done_call) issuer_work" where
  "mint_callback_work rid show_e A cls r =
     (let request_id = mk_tokenization_request_id r
      in then_call (return_call (app_issuer rid (il_mint_callbacks cls))) (\<lambda>(rt, c).
         then_call (as_issuer_failure rid show_e
             (on_mint_callbacks (send_mint_callback_reporting (A rt) c (mint_callback_from r))))
           (\<lambda>_. return_call (Inr (done_new () request_id)))))"

definition redeem_intent :: "string option \<Rightarrow> 'f redeem_order \<Rightarrow> intent" where
  "redeem_intent digest r =
     with_note (with_note (with_note (with_note (with_key (intent_of digest) (ro_issuer_request_id r))
       ''symbol'' (ro_underlying_symbol r)) ''quantity'' (rq_wire (ro_quantity r)))
       ''network'' (network_as_str (ro_network r))) ''wallet'' (ro_wallet_address r)"

definition redeem_work ::
  "uuid \<Rightarrow> (alpaca_error \<Rightarrow> string) \<Rightarrow> ('rt \<Rightarrow> ('env, 'w, 'f) issuer_io) \<Rightarrow> 'rt issuer_clients \<Rightarrow> 'f redeem_order
   \<Rightarrow> ('env, 'w, 'f, failure, 'f redeem_response done_call) issuer_work" where
  "redeem_work rid show_e A cls r =
     then_call (return_call (app_issuer rid (il_redemptions cls))) (\<lambda>(rt, c).
     then_call (as_issuer_failure rid show_e
         (on_redemptions (call_redeem_endpoint_reporting (A rt) c (redeem_from r))))
       (\<lambda>redeemed. return_call (Inr (done_new redeemed (rs_tokenization_request_id redeemed)))))"

definition issuer_request_intent :: "string \<Rightarrow> intent" where
  "issuer_request_intent i = with_key default_intent i"

definition issuer_request_work ::
  "uuid \<Rightarrow> (alpaca_error \<Rightarrow> string) \<Rightarrow> ('rt \<Rightarrow> ('env, 'w, 'f) issuer_io) \<Rightarrow> 'rt issuer_clients \<Rightarrow> string
   \<Rightarrow> ('env, 'w, 'f, failure, 'f issuer_tokenization_request done_call) issuer_work" where
  "issuer_request_work rid show_e A cls i =
     read_work (then_call (return_call (app_issuer rid (il_requests cls))) (\<lambda>(rt, c).
       as_issuer_failure rid show_e (on_requests (poll_request_status_reporting (A rt) c i))))"

text \<open>
  The stream handler's \<open>open\<close>, which \<open>relay\<close> runs: the answer's body is \<open>until_shutdown\<close> over what the token and the
  upstream body will do.
\<close>

type_synonym stream_body = "(bool \<times> (reqwest_error + bytes) option) list \<Rightarrow> (reqwest_error + bytes) body_item list \<times> bool"

definition open_stream ::
  "uuid \<Rightarrow> (replay_query_error \<Rightarrow> string) \<Rightarrow> (stream_error \<Rightarrow> string) \<Rightarrow> rfc2822_parser \<Rightarrow> int
   \<Rightarrow> ('rt \<Rightarrow> kms_jwt_error + string) \<Rightarrow> (stream_request \<Rightarrow> reqwest_error + http_response) \<Rightarrow> (instant \<Rightarrow> string)
   \<Rightarrow> 'rt issuer_clients \<Rightarrow> instant \<Rightarrow> replay_query \<Rightarrow> 'env \<Rightarrow> ('env, stream_request) net
   \<Rightarrow> (stream_body relay_result) \<times> ('env, stream_request) net" where
  "open_stream rid show_q show_s rfc2822 unix_now apca http rfc3339 cls now q env n =
     (case replay_try_from now q of
        Inl e \<Rightarrow> (Inl (invalid rid (show_q e)), n)
      | Inr replay \<Rightarrow>
          (case app_issuer rid (il_corporate_actions cls) of
             Inl f \<Rightarrow> (Inl f, n)
           | Inr client \<Rightarrow>
               (case connect_raw rfc2822 unix_now apca http client rfc3339 replay env n of
                  (Inl e, n') \<Rightarrow> (Inl (corporate_actions rid (show_s e) e), n')
                | (Inr resp, n') \<Rightarrow>
                    (Inr (event_stream_response (until_shutdown False)), n'))))"

subsection \<open>One client's hold\<close>

lemma with_hold_Pair:
  "with_hold gh sh m (hs, x) = (case m (gh hs, x) of (r, (h, x')) \<Rightarrow> (r, (sh h hs, x')))"
  by (simp add: with_hold_def)

lemma issuer_work_cases:
  assumes "then_call (return_call (app_issuer rid client)) (\<lambda>(rt, c).
      then_call (as_issuer_failure rid show_e (with_hold gh sh (m rt c))) (\<lambda>v. return_call (Inr (g v)))) (hs, x)
      = (res, (hs', x'))"
  obtains (unserved) "client = None" "hs' = hs" "x' = x"
      "res = Inl (failure_new rid CapabilityDisabled ''this deployment holds no client for this operation'')"
  | (called) rt c y h where "client = Some (rt, c)" "m rt c (gh hs, x) = (y, (h, x'))" "hs' = sh h hs"
      "res = (case y of Inl f \<Rightarrow> Inl (issuer_call rid (show_e (ice_error f)) f) | Inr v \<Rightarrow> Inr (g v))"
proof (cases client)
  case None
  with assms unserved show thesis by (auto simp: then_call_def return_call_def app_issuer_def)
next
  case (Some p)
  obtain rt c where p: "p = (rt, c)" by (cases p)
  obtain y h z where m: "m rt c (gh hs, x) = (y, (h, z))" by (metis prod.exhaust)
  with assms Some p have "z = x'" "hs' = sh h hs"
      "res = (case y of Inl f \<Rightarrow> Inl (issuer_call rid (show_e (ice_error f)) f) | Inr v \<Rightarrow> Inr (g v))"
    by (auto simp: then_call_def return_call_def app_issuer_def as_issuer_failure_def map_err_call_def map_err_def
        with_hold_Pair split: sum.splits)
  with Some p m called show thesis by blast
qed

lemma issuer_call_open: "fa_code (issuer_call rid m f) = OutcomeUnknown \<longleftrightarrow> ice_written f"
  by (simp add: issuer_call_def issuer_read_known)

lemma not_applied_unwritten:
  "mutates op \<Longrightarrow> fa_outcome (for_mutation (issuer_call rid m f) op) = Some NotApplied \<longleftrightarrow> \<not> ice_written f"
  using issuer_call_open [of rid m f] by (simp add: for_mutation_def)

lemma stream_read_known: "fa_code (corporate_actions rid m e) \<noteq> OutcomeUnknown"
  by (cases e) (simp_all add: corporate_actions_def)

subsection \<open>Redemptions and callbacks\<close>

text \<open>What the issuer handlers rely on: sleeping sends nothing, and the builder yields at most as many delays as asked.\<close>

definition issuer_io_laws :: "('rt \<Rightarrow> ('env, 'w, 'f) issuer_io) \<Rightarrow> bool" where
  "issuer_io_laws A \<longleftrightarrow> (\<forall>rt. sleeps_send_nothing (ii_timer (A rt)) \<and> wire_reads_late (ii_wire (A rt))
     \<and> (\<forall>n x. length (ii_backoff (A rt) n x) \<le> n))"

text \<open>
  C12: A redemption asked of the gateway is sent to Alpaca as one redemption. Everything it sends is the POST
  of the caller's redeem under the key derived from its issuer request id; a deployment that does not serve
  redemptions sends nothing; an applied answer is what one of them was answered with; answered
  \<open>not_applied\<close>, every one was refused or never reached a connection; and only the redemption client's hold may have
  changed.
\<close>

theorem redemptions_are_sent_as_one:
  assumes "issuer_io_laws A" and "redeem_work rid show_e A cls r (hs, x) = (res, (hs', x'))"
  shows "hs'\<lparr>ih_redemptions := ih_redemptions hs\<rparr> = hs
    \<and> (case il_redemptions cls of
         None \<Rightarrow> hs' = hs \<and> x' = x \<and> (\<exists>f. res = Inl f \<and> fa_code f = CapabilityDisabled)
       | Some (rt, c) \<Rightarrow>
           (let P = is_request W_Post (issuer_url (A rt) c (redeem_path c))
              (Some (Redeem_Call (ii_new_v5 (A rt) REDEEM_IDEMPOTENCY_NAMESPACE (ro_issuer_request_id r)) (redeem_from r)))
            in sent_all P x x'
              \<and> (\<forall>d. res = Inr d \<longrightarrow>
                   sent_one P (answer_gives (ii_wire (A rt)) (redeem_answer (A rt)) (dn_body d)) x x'
                   \<and> dn_alpaca_object_ids d = [rs_tokenization_request_id (dn_body d)])
              \<and> (\<forall>f. res = Inl f \<and> fa_outcome (for_mutation f IssuerRedeem) = Some NotApplied \<longrightarrow>
                   sent_all (not_applied (ii_wire (A rt)) 422) x x')))"
  using assms(2) unfolding redeem_work_def on_redemptions_def
proof (cases rule: issuer_work_cases)
  case unserved
  then show ?thesis by simp
next
  case (called rt c y h)
  from assms(1) have laws: "sleeps_send_nothing (ii_timer (A rt))" "wire_reads_late (ii_wire (A rt))"
    "\<And>n x. length (ii_backoff (A rt) n x) \<le> n" by (auto simp: issuer_io_laws_def)
  note sends = redeem_sends [OF laws(1,3) called(2)]
  have "sent_all (not_applied (ii_wire (A rt)) 422) x x'"
    if "res = Inl f" "fa_outcome (for_mutation f IssuerRedeem) = Some NotApplied" for f
  proof -
    from that(1) called(4) obtain e where e: "y = Inl e" "f = issuer_call rid (show_e (ice_error e)) e"
      by (auto split: sum.splits)
    with that(2) have "\<not> ice_written e" by (simp add: not_applied_unwritten mutates_def)
    from redeem_unwritten [OF laws(1,2) called(2) [unfolded e(1)] this] show ?thesis by simp
  qed
  with sends called show ?thesis
    by (auto simp: Let_def redeem_from_def done_new_def split: sum.splits)
qed

text \<open>
  A mint callback keeps the same promises: it posts the caller's callback and nothing else, from the callback
  client alone, with that client's hold alone; an applied answer means Alpaca answered one of them with success, and
  \<open>not_applied\<close> that every one was refused or never reached a connection.
\<close>

theorem mint_callbacks_are_sent_as_asked:
  assumes "issuer_io_laws A" and "mint_callback_work rid show_e A cls r (hs, x) = (res, (hs', x'))"
  shows "hs'\<lparr>ih_mint_callbacks := ih_mint_callbacks hs\<rparr> = hs
    \<and> (case il_mint_callbacks cls of
         None \<Rightarrow> hs' = hs \<and> x' = x \<and> (\<exists>f. res = Inl f \<and> fa_code f = CapabilityDisabled)
       | Some (rt, c) \<Rightarrow>
           (let P = is_request W_Post (issuer_url (A rt) c (mint_callback_path c))
              (Some (Mint_Callback (mint_callback_from r)))
            in sent_all P x x'
              \<and> (\<forall>d. res = Inr d \<longrightarrow>
                   sent_one P (answer_gives (ii_wire (A rt)) (mint_callback_answer (A rt)) ()) x x'
                   \<and> dn_alpaca_object_ids d = [mk_tokenization_request_id r])
              \<and> (\<forall>f. res = Inl f \<and> fa_outcome (for_mutation f IssuerMintCallback) = Some NotApplied \<longrightarrow>
                   sent_all (not_applied (ii_wire (A rt)) 400) x x')))"
  using assms(2) [unfolded mint_callback_work_def on_mint_callbacks_def Let_def]
proof (cases rule: issuer_work_cases)
  case unserved
  then show ?thesis by simp
next
  case (called rt c y h)
  from assms(1) have laws: "sleeps_send_nothing (ii_timer (A rt))" "wire_reads_late (ii_wire (A rt))"
    "\<And>n x. length (ii_backoff (A rt) n x) \<le> n" by (auto simp: issuer_io_laws_def)
  note sends = callback_sends [OF laws(1,3) called(2)]
  have "sent_all (not_applied (ii_wire (A rt)) 400) x x'"
    if "res = Inl f" "fa_outcome (for_mutation f IssuerMintCallback) = Some NotApplied" for f
  proof -
    from that(1) called(4) obtain e where e: "y = Inl e" "f = issuer_call rid (show_e (ice_error e)) e"
      by (auto split: sum.splits)
    with that(2) have "\<not> ice_written e" by (simp add: not_applied_unwritten mutates_def)
    from callback_unwritten [OF laws(1,2) called(2) [unfolded e(1)] this] show ?thesis by simp
  qed
  with sends called show ?thesis
    by (auto simp: Let_def done_new_def split: sum.splits)
qed

subsection \<open>Status reads\<close>

lemma read_work_cases:
  assumes "read_work m s = (res, s')"
  obtains r where "m s = (r, s')"
    "res = (case r of Inl f \<Rightarrow> Inl f | Inr v \<Rightarrow> Inr \<lparr>dn_body = v, dn_alpaca_object_ids = []\<rparr>)"
  using assms by (cases "m s") (auto simp: read_work_def then_call_def return_call_def split: sum.splits)

text \<open>
  A caller polling a request's status never stalls or alters a redemption or a mint callback. The read leaves
  their holds as they were, sends only reads of that request, answers the request asked for, and never claims an unknown
  outcome.
\<close>

theorem status_reads_stall_nothing:
  assumes "issuer_io_laws A" and "issuer_request_work rid show_e A cls i (hs, x) = (res, (hs', x'))"
  shows "ih_mint_callbacks hs' = ih_mint_callbacks hs \<and> ih_redemptions hs' = ih_redemptions hs
    \<and> (\<exists>url. sent_all (is_request W_Get url None) x x')
    \<and> (case res of
         Inr d \<Rightarrow> dn_alpaca_object_ids d = [] \<and> (\<forall>t. dn_body d = Redeem_Request t \<longrightarrow> rd_id t = i)
       | Inl f \<Rightarrow> fa_code f \<noteq> OutcomeUnknown)"
proof -
  obtain r where work: "then_call (return_call (app_issuer rid (il_requests cls))) (\<lambda>(rt, c).
      as_issuer_failure rid show_e (on_requests (poll_request_status_reporting (A rt) c i))) (hs, x) = (r, (hs', x'))"
    and res: "res = (case r of Inl f \<Rightarrow> Inl f | Inr v \<Rightarrow> Inr \<lparr>dn_body = v, dn_alpaca_object_ids = []\<rparr>)"
    using assms(2) unfolding issuer_request_work_def by (rule read_work_cases)
  show ?thesis
  proof (cases "il_requests cls")
    case None
    with work res show ?thesis
      by (auto simp: then_call_def return_call_def app_issuer_def intro!: sent_all_none simp: sends_def)
  next
    case (Some p)
    obtain rt c where p: "p = (rt, c)" by (cases p)
    obtain y h z where y: "poll_request_status_reporting (A rt) c i (ih_requests hs, x) = (y, (h, z))"
      by (metis prod.exhaust)
    with work Some p have z: "z = x'" "hs' = hs\<lparr>ih_requests := h\<rparr>"
      "r = map_err (\<lambda>f. issuer_call rid (show_e (ice_error f)) f) y"
      by (auto simp: then_call_def return_call_def app_issuer_def as_issuer_failure_def map_err_call_def
          on_requests_def with_hold_Pair)
    from assms(1) have "sleeps_send_nothing (ii_timer (A rt))" by (simp add: issuer_io_laws_def)
    from status_poll_sends [OF this y] z res show ?thesis
      by (auto simp: map_err_def issuer_call_open split: sum.splits issuer_tokenization_request.splits)
  qed
qed

subsection \<open>The stream\<close>

lemma connect_raw_sends:
  "\<exists>reqs. handed (snd (connect_raw rfc2822 now apca http client rfc3339 replay env n)) = handed n @ reqs
     \<and> length reqs \<le> 1 \<and> (\<forall>r \<in> set reqs. sr_url r = se_url (sc_endpoint client) \<and> sr_query r = query_pairs rfc3339 replay)
     \<and> (\<forall>resp. fst (connect_raw rfc2822 now apca http client rfc3339 replay env n) = Inr resp \<longrightarrow>
          length reqs = 1 \<and> is_success (hr_status resp))"
proof (cases "apply_auth apca (sc_auth client) \<lparr>sr_url = se_url (sc_endpoint client), sr_credentials = None, sr_query = []\<rparr>")
  case (Inl e)
  then show ?thesis by (intro exI [of _ "[]"]) (simp add: connect_raw_def Let_def)
next
  case (Inr req)
  then have url: "sr_url req = se_url (sc_endpoint client)"
    by (auto simp: apply_auth_def result_iffs split: option.splits)
  let ?r = "req\<lparr>sr_query := query_pairs rfc3339 replay\<rparr>"
  let ?reqs = "if fst (start env ?r n) = Inr () then [?r] else []"
  show ?thesis
    using Inr url start_handed [of env ?r n]
    by (intro exI [of _ ?reqs])
      (auto simp: connect_raw_def send_def check_stream_response_def Let_def split: prod.splits sum.splits if_splits)
qed


subsection \<open>Witnesses\<close>

definition sample_issuer_clients :: "unit issuer_clients" where
  "sample_issuer_clients = \<lparr>il_mint_callbacks = Some ((), sample_issuer_client),
     il_redemptions = Some ((), sample_issuer_client), il_requests = Some ((), sample_issuer_client),
     il_corporate_actions = None\<rparr>"

definition sample_redeem_order :: "nat redeem_order" where
  "sample_redeem_order = \<lparr>ro_issuer_request_id = ''0xaa'', ro_underlying_symbol = ''AAPL'', ro_token_symbol = ''tAAPL'',
     ro_client_id = ''c'', ro_quantity = \<lparr>rq_wire = ''3.0'', rq_shares = 3\<rparr>, ro_network = Base,
     ro_wallet_address = ''0x1'', ro_tx_hash = ''0x2''\<rparr>"

definition sample_callback_order :: mint_callback_order where
  "sample_callback_order = \<lparr>mk_tokenization_request_id = ''t1'', mk_client_id = ''c'', mk_wallet_address = ''0x1'',
     mk_tx_hash = ''0x2'', mk_network = Base\<rparr>"

abbreviation idle_issuer :: "(unit, unit, nat) issuer_world" where
  "idle_issuer \<equiv> (no_holds, (open_net, ()))"

lemma sample_io_laws: "issuer_io_laws (\<lambda>_ :: unit. sample_io st)"
  using still_sends_nothing sample_wire_reads_late by (simp add: issuer_io_laws_def)

lemma sample_redeem_from: "redeem_from sample_redeem_order = sample_redeem"
  by (simp add: redeem_from_def sample_redeem_order_def sample_redeem_def)

lemma sample_redeem_work:
  assumes "fst (call_redeem_endpoint_reporting (sample_io st) sample_issuer_client sample_redeem sample_issuer_state) = y"
  shows "\<exists>hs x. redeem_work ''r'' (\<lambda>_. []) (\<lambda>_. sample_io st) sample_issuer_clients sample_redeem_order idle_issuer
    = (case y of Inl f \<Rightarrow> Inl (issuer_call ''r'' [] f) | Inr v \<Rightarrow> Inr (done_new v (rs_tokenization_request_id v)), (hs, x))"
proof -
  obtain h z where "call_redeem_endpoint_reporting (sample_io st) sample_issuer_client sample_redeem sample_issuer_state = (y, (h, z))"
    using assms by (metis prod.collapse)
  then show ?thesis
    by (cases z) (auto simp: redeem_work_def sample_redeem_from then_call_def return_call_def app_issuer_def as_issuer_failure_def
        map_err_call_def map_err_def on_redemptions_def with_hold_Pair no_holds_def sample_issuer_clients_def
        sample_issuer_state_def split: sum.splits)
qed

lemma sample_clients_fields:
  "il_redemptions sample_issuer_clients = Some ((), sample_issuer_client)"
  "il_mint_callbacks sample_issuer_clients = Some ((), sample_issuer_client)"
  "issuer_url (sample_io st) sample_issuer_client p = ''https://broker/''"
  "ro_issuer_request_id sample_redeem_order = ''0xaa''"
  "ii_new_v5 (sample_io st) REDEEM_IDEMPOTENCY_NAMESPACE i = ''91943ff3-f69c-5dbe-a3e3-7ce22083bac6'' @ i"
  by (simp_all add: sample_issuer_clients_def issuer_url_def sample_io_def sample_issuer_client_def sample_base_def
      sample_redeem_order_def REDEEM_IDEMPOTENCY_NAMESPACE_def)

theorem redemptions_are_sent_as_one_witness:
  "(\<exists>d hs x. redeem_work ''r'' (\<lambda>_. []) (\<lambda>_. sample_io 200) sample_issuer_clients sample_redeem_order idle_issuer
       = (Inr d, (hs, x)) \<and> dn_alpaca_object_ids d = [''t1'']
     \<and> sent_all (is_request W_Post ''https://broker/''
         (Some (Redeem_Call ''91943ff3-f69c-5dbe-a3e3-7ce22083bac60xaa'' sample_redeem))) (open_net, ()) x)
   \<and> (\<exists>f hs x. redeem_work ''r'' (\<lambda>_. []) (\<lambda>_. sample_io 404) sample_issuer_clients sample_redeem_order idle_issuer
       = (Inl f, (hs, x)) \<and> fa_outcome (for_mutation f IssuerRedeem) = Some NotApplied
     \<and> sent_all (not_applied (ii_wire (sample_io 404)) 422) (open_net, ()) x)"
proof -
  obtain hs x where ok: "redeem_work ''r'' (\<lambda>_. []) (\<lambda>_. sample_io 200) sample_issuer_clients sample_redeem_order idle_issuer
      = (Inr (done_new sample_redeem_response ''t1''), (hs, x))"
    using sample_redeem_work [OF sample_redeem_ok] by (auto simp: sample_redeem_response_def)
  obtain f where f: "fst (call_redeem_endpoint_reporting (sample_io 404) sample_issuer_client sample_redeem sample_issuer_state)
      = Inl f" "\<not> ice_written f" using sample_redeem_refused by blast
  then obtain hs' x' where no: "redeem_work ''r'' (\<lambda>_. []) (\<lambda>_. sample_io 404) sample_issuer_clients sample_redeem_order
      idle_issuer = (Inl (issuer_call ''r'' [] f), (hs', x'))"
    using sample_redeem_work [OF f(1)] by auto
  have na: "fa_outcome (for_mutation (issuer_call ''r'' [] f) IssuerRedeem) = Some NotApplied"
    using f(2) by (simp add: not_applied_unwritten mutates_def)
  from redemptions_are_sent_as_one [OF sample_io_laws ok]
  have sent: "sent_all (is_request W_Post ''https://broker/''
         (Some (Redeem_Call ''91943ff3-f69c-5dbe-a3e3-7ce22083bac60xaa'' sample_redeem))) (open_net, ()) x"
    by (simp add: sample_clients_fields Let_def sample_redeem_from)
  from redemptions_are_sent_as_one [OF sample_io_laws no] na
  have "sent_all (not_applied (ii_wire (sample_io 404)) 422) (open_net, ()) x'"
    by (simp add: sample_clients_fields Let_def del: sample_io_fields)
  with sent ok no na show ?thesis
    by (intro conjI exI [of _ "done_new sample_redeem_response ''t1''"] exI [of _ "issuer_call ''r'' [] f"] exI) 
      (assumption | simp add: done_new_def)+
qed

theorem mint_callbacks_are_sent_as_asked_witness:
  "\<exists>res hs x. mint_callback_work ''r'' (\<lambda>_. []) (\<lambda>_. sample_io 200) sample_issuer_clients sample_callback_order idle_issuer
       = (res, (hs, x))
     \<and> sent_all (is_request W_Post ''https://broker/'' (Some (Mint_Callback (mint_callback_from sample_callback_order))))
         (open_net, ()) x"
proof -
  obtain res hs x where w: "mint_callback_work ''r'' (\<lambda>_. []) (\<lambda>_. sample_io 200) sample_issuer_clients
      sample_callback_order idle_issuer = (res, (hs, x))" by (metis prod.exhaust)
  from mint_callbacks_are_sent_as_asked [OF sample_io_laws w] w show ?thesis
    by (auto simp: sample_clients_fields Let_def)
qed

theorem status_reads_stall_nothing_witness:
  "\<exists>res hs x. issuer_request_work ''r'' (\<lambda>_. []) (\<lambda>_. sample_io 200) sample_issuer_clients ''t1'' idle_issuer
       = (res, (hs, x)) \<and> ih_redemptions hs = None \<and> (\<exists>url. sent_all (is_request W_Get url None) (open_net, ()) x)"
proof -
  obtain res hs x where w: "issuer_request_work ''r'' (\<lambda>_. []) (\<lambda>_. sample_io 200) sample_issuer_clients ''t1'' idle_issuer
      = (res, (hs, x))" by (metis prod.exhaust)
  from status_reads_stall_nothing [OF sample_io_laws w] w show ?thesis by (auto simp: no_holds_def)
qed

definition stream_only :: "string issuer_clients" where
  "stream_only = \<lparr>il_mint_callbacks = None, il_redemptions = None, il_requests = None,
     il_corporate_actions = Some \<lparr>sc_endpoint = sample_endpoint, sc_auth = Some ''key''\<rparr>\<rparr>"


end
