(* ===== verification/Stream_Relay.thy ===== *)
theory Stream_Relay
  imports Handlers_Issuer Sse_Chunks
begin

text \<open>
  Reading the corporate action stream: \<open>CorporateActionStreamClient::connect\<close> and \<open>CorporateActionStream\<close> of
  \<^verbatim>\<open>src/corporate_actions/client.rs\<close>, and what the gateway's relay does to the events such a reader decodes.
\<close>

subsection \<open>The open stream\<close>

text \<open>The response is what its body's chunks will be: data, or the transport's error.\<close>

record corporate_action_stream =
  cs_response :: "(reqwest_error + bytes) list"
  cs_decoder :: decoder

definition stream_connect ::
  "rfc2822_parser \<Rightarrow> int \<Rightarrow> ('a \<Rightarrow> kms_jwt_error + string) \<Rightarrow> (stream_request \<Rightarrow> reqwest_error + http_response)
   \<Rightarrow> 'a stream_client \<Rightarrow> (instant \<Rightarrow> string) \<Rightarrow> (reqwest_error + bytes) list \<Rightarrow> replay \<Rightarrow> 'env \<Rightarrow> ('env, stream_request) net
   \<Rightarrow> (stream_error + corporate_action_stream) \<times> ('env, stream_request) net" where
  "stream_connect rfc2822 now apca http client rfc3339 chunks replay env n =
     (case connect_raw rfc2822 now apca http client rfc3339 replay env n of
        (Inl e, n') \<Rightarrow> (Inl e, n')
      | (Inr _, n') \<Rightarrow> (Inr \<lparr>cs_response = chunks, cs_decoder = default_decoder\<rparr>, n'))"

fun next_batch ::
  "json_api \<Rightarrow> corporate_action_stream \<Rightarrow> (reqwest_error + decode_batch option) \<times> corporate_action_stream" where
  "next_batch J s =
     (case cs_response s of
        [] \<Rightarrow> (Inr None, s)
      | Inl e # rest \<Rightarrow> (Inl e, s\<lparr>cs_response := rest\<rparr>)
      | Inr chunk # rest \<Rightarrow>
          (case push J (cs_decoder s) chunk of
             (d, batch) \<Rightarrow> (Inr (Some batch), \<lparr>cs_response = rest, cs_decoder = d\<rparr>)))"

definition stream_has_pending_frame :: "corporate_action_stream \<Rightarrow> bool" where
  "stream_has_pending_frame s = has_pending_frame (cs_decoder s)"

subsection \<open>Reading a stream to its end\<close>

text \<open>The reader the stream is made for: it reads batch after batch and stops at the end, at an error and after a poison.\<close>

function read_to_end :: "json_api \<Rightarrow> corporate_action_stream \<Rightarrow> mutation list \<Rightarrow> mutation list \<times> corporate_action_stream" where
  "read_to_end J s ms =
     (case next_batch J s of
        (Inr (Some (Complete new)), s') \<Rightarrow> read_to_end J s' (ms @ new)
      | (Inr (Some (Poison new _)), s') \<Rightarrow> (ms @ new, s')
      | (_, s') \<Rightarrow> (ms, s'))"
  by pat_completeness auto

termination
  by (relation "measure (\<lambda>(J, s, ms). length (cs_response s))") (auto split: list.splits sum.splits prod.splits)

declare read_to_end.simps [simp del]

fun batch_mutations :: "decode_batch \<Rightarrow> mutation list" where
  "batch_mutations (Complete ms) = ms"
| "batch_mutations (Poison ms _) = ms"

text \<open>The data of a body up to its first error.\<close>

fun data_before_error :: "(reqwest_error + bytes) list \<Rightarrow> bytes list" where
  "data_before_error [] = []"
| "data_before_error (Inl _ # _) = []"
| "data_before_error (Inr c # rest) = c # data_before_error rest"

lemma read_to_end_pushes:
  "fst (read_to_end J s ms) = batch_mutations (snd (push_all J (cs_decoder s) (data_before_error (cs_response s)) ms))"
proof (induction "length (cs_response s)" arbitrary: s ms rule: less_induct)
  case less
  show ?case
  proof (cases "cs_response s" rule: data_before_error.cases)
    case 1
    then show ?thesis by (simp add: read_to_end.simps)
  next
    case (2 e rest)
    then show ?thesis by (simp add: read_to_end.simps)
  next
    case (3 c rest)
    obtain d batch where p: "push J (cs_decoder s) c = (d, batch)" by (cases "push J (cs_decoder s) c")
    show ?thesis
      using 3 p less [of "\<lparr>cs_response = rest, cs_decoder = d\<rparr>"]
      by (cases batch) (simp_all add: read_to_end.simps)
  qed
qed

text \<open>
  A reader of a stream decodes what its bytes say, however they were chunked: read to the end, an open stream yields
  the mutations of the bytes that arrived before the first transport error, decoded as one run.
\<close>

theorem stream_reads_its_bytes:
  "fst (read_to_end J \<lparr>cs_response = chunks, cs_decoder = default_decoder\<rparr> [])
     = batch_mutations (snd (sse_bytes J default_decoder (concat (data_before_error chunks)) []))"
  by (simp add: read_to_end_pushes push_all_bytes decoder_inv_default)

subsection \<open>Through the relay\<close>

text \<open>A relayed body as its reader's transport delivers it: the cut arrives as an error. Chunks may be cut anew.\<close>

fun relayed_item :: "reqwest_error \<Rightarrow> (reqwest_error + bytes) body_item \<Rightarrow> reqwest_error + bytes" where
  "relayed_item _ (Relayed x) = x"
| "relayed_item gone Interrupted = Inl gone"

lemma data_before_error_append:
  "data_before_error (xs @ ys) = data_before_error xs @ (if list_all (\<lambda>x. \<not> isl x) xs then data_before_error ys else [])"
  by (induction xs rule: data_before_error.induct) auto

lemma data_before_error_prefix: "prefix xs ys \<Longrightarrow> prefix (concat (data_before_error xs)) (concat (data_before_error ys))"
  by (auto simp: prefix_def data_before_error_append)

lemma sse_bytes_prefix:
  assumes "prefix xs ys"
  shows "prefix (batch_mutations (snd (sse_bytes J d xs ms))) (batch_mutations (snd (sse_bytes J d ys ms)))"
proof -
  obtain zs where ys: "ys = xs @ zs" using assms by (auto simp: prefix_def)
  obtain d' b where b: "sse_bytes J d xs ms = (d', b)" by (cases "sse_bytes J d xs ms")
  show ?thesis
  proof (cases b)
    case (Complete ms')
    obtain d2 b2 where b2: "sse_bytes J d' zs [] = (d2, b2)" by (cases "sse_bytes J d' zs []")
    with Complete b ys sse_bytes_acc [of J d' zs ms'] show ?thesis
      by (cases b2) (auto simp: sse_bytes_append)
  next
    case (Poison ms' e)
    with b ys show ?thesis by (simp add: sse_bytes_append)
  qed
qed

lemma relayed_body_cases:
  assumes "until_shutdown False polls = (items, ended)" and "upstream_body (map snd polls) = (xs, e)"
  shows "(items = map Relayed xs \<and> ended = e) \<or> (\<exists>pre. prefix pre xs \<and> items = map Relayed pre @ [Interrupted] \<and> ended)"
  using assms
proof (induction polls arbitrary: items ended xs e)
  case (Cons p polls)
  obtain cancelled item where p: "p = (cancelled, item)" by (cases p)
  show ?case
  proof (cases "cancelled \<or> item = None")
    case True
    with Cons.prems p show ?thesis by (cases cancelled) auto
  next
    case False
    then obtain x where x: "\<not> cancelled" "item = Some x" by auto
    obtain items' ended' where u: "until_shutdown False polls = (items', ended')" by force
    obtain xs' e' where b: "upstream_body (map snd polls) = (xs', e')" by force
    from Cons.IH [OF u b] Cons.prems p x u b show ?thesis
      by (auto intro: exI [of _ "x # pre" for pre])
  qed
qed simp



end
