(* ===== verification/Startup.thy ===== *)
theory Startup
  imports Handlers_Issuer
begin

text \<open>
  Starting a gateway (\<open>IssuerClients::new\<close> and \<open>AppState::connect\<close> of \<^verbatim>\<open>crates/gateway/src/state.rs\<close>): the Alpaca clients
  of a deployment are built from one credential and one account, after the account itself has answered. What
  the clients are built with (the HTTP client builder, the credential runtime, the URL parser) is \<open>startup_io\<close>.
\<close>

subsection \<open>What a gateway starts from\<close>

definition ALPACA_TOKEN_URL :: string where
  "ALPACA_TOKEN_URL = ''https://authx.alpaca.markets/v1/oauth2/token''"

definition ALPACA_SANDBOX_TOKEN_URL :: string where
  "ALPACA_SANDBOX_TOKEN_URL = ''https://authx.sandbox.alpaca.markets/v1/oauth2/token''"

fun mode_token_url :: "broker_mode \<Rightarrow> string" where
  "mode_token_url Mode_Sandbox = ALPACA_SANDBOX_TOKEN_URL"
| "mode_token_url Mode_Production = ALPACA_TOKEN_URL"
| "mode_token_url (Mode_Mock u) = u @ ''/v1/oauth2/token''"

definition WALLET_REQUEST_TIMEOUT :: duration where
  "WALLET_REQUEST_TIMEOUT = from_secs 30"

record ('rt, 'env, 'w, 'f) startup_io =
  si_alpaca :: "'rt \<Rightarrow> ('env, 'w, 'f) alpaca"
  si_api :: "('w, 'f) api_io"
  si_http_build :: "duration option \<Rightarrow> reqwest_error + unit"
  si_build :: "alpaca_auth \<Rightarrow> string \<Rightarrow> kms_jwt_error + 'rt"
  si_parse_url :: url_parser
  si_parse_ip :: ip_parser

datatype stream_build_error = Build_Client reqwest_error | Build_Auth kms_jwt_error

datatype 'f startup_error =
    Start_Broker "'f broker_error"
  | Start_AccountMismatch string "string option"
  | Start_Wallet wallet_error
  | Start_Tokenization tokenization_error
  | Start_Issuer alpaca_error
  | Start_StreamEndpoint stream_endpoint_error
  | Start_StreamClient stream_build_error

subsection \<open>The issuer clients\<close>

definition issuer_client_for ::
  "('rt, 'env, 'w, 'f) startup_io \<Rightarrow> gateway_config \<Rightarrow> operation \<Rightarrow> 'f startup_error + ('rt \<times> alpaca_client) option" where
  "issuer_client_for io config op =
     (if \<not> serves_operation config op then Inr None
      else map_err Start_Issuer
        (and_then (with_auth (\<lambda>_. si_http_build io None) (si_build io) (si_parse_url io) (si_parse_ip io)
            (ctx_base_url (gc_broker config)) (bc_account_id (gc_broker config)) (bc_auth (gc_broker config))
            (mode_token_url (ctx_mode (gc_broker config))))
          (\<lambda>c. Inr (Some c))))"

definition stream_client_for ::
  "('rt, 'env, 'w, 'f) startup_io \<Rightarrow> gateway_config \<Rightarrow> 'f startup_error + 'rt stream_client option" where
  "stream_client_for io config =
     (if \<not> serves_operation config CorporateActionsStream then Inr None
      else
        and_then (map_err Start_StreamEndpoint
          (parse_stream_endpoint (si_parse_url io) (stream_url (corporate_actions_of config)) Deny)) (\<lambda>endpoint.
        and_then (map_err (\<lambda>e. Start_StreamClient (Build_Client e)) (si_http_build io None)) (\<lambda>_.
        and_then (map_err (\<lambda>e. Start_StreamClient (Build_Auth e))
          (new_stream_client (\<lambda>auth. si_build io auth (mode_token_url (ctx_mode (gc_broker config)))) endpoint
            (bc_auth (gc_broker config)))) (\<lambda>c. Inr (Some c)))))"

definition new_issuer_clients ::
  "('rt, 'env, 'w, 'f) startup_io \<Rightarrow> gateway_config \<Rightarrow> 'f startup_error + 'rt issuer_clients" where
  "new_issuer_clients io config =
     and_then (stream_client_for io config) (\<lambda>stream.
     and_then (issuer_client_for io config IssuerMintCallback) (\<lambda>callbacks.
     and_then (issuer_client_for io config IssuerRedeem) (\<lambda>redemptions.
     and_then (issuer_client_for io config IssuerRequest) (\<lambda>requests.
     Inr \<lparr>il_mint_callbacks = callbacks, il_redemptions = redemptions, il_requests = requests,
          il_corporate_actions = stream\<rparr>))))"

subsection \<open>Connecting\<close>

record 'rt app_clients =
  app_config :: gateway_config
  app_broker :: broker_api
  app_assets :: asset_cache
  app_wallet :: "'rt \<times> wallet_service"
  app_tokenizers :: "network \<Rightarrow> ('rt \<times> tokenization_service) option"
  app_issuer_clients :: "'rt issuer_clients"
  app_budget :: human_budget
  app_version :: string

text \<open>The loop over the configured networks, which inserts a client for each.\<close>

fun build_tokenizers ::
  "(network \<Rightarrow> tokenization_error + ('rt \<times> tokenization_service)) \<Rightarrow> network list
   \<Rightarrow> (network \<Rightarrow> ('rt \<times> tokenization_service) option)
   \<Rightarrow> tokenization_error + (network \<Rightarrow> ('rt \<times> tokenization_service) option)" where
  "build_tokenizers create [] tks = Inr tks"
| "build_tokenizers create (net # nets) tks =
     and_then (create net) (\<lambda>service. build_tokenizers create nets (tks(net \<mapsto> service)))"

text \<open>\<open>ttl\<close> and \<open>tif\<close> are the facade's part of the broker config.\<close>

definition app_connect ::
  "('rt, 'env, 'w, 'f) startup_io \<Rightarrow> duration \<Rightarrow> time_in_force \<Rightarrow> gateway_config \<Rightarrow> string
   \<Rightarrow> ('env, 'w, 'f, 'f startup_error, 'rt app_clients) broker_call" where
  "app_connect io ttl tif config version =
     then_call (map_err_call Start_Broker
       (try_from_ctx (si_alpaca io) (si_api io)
         (\<lambda>auth. si_build io auth (mode_token_url (ctx_mode (gc_broker config)))) (si_parse_url io) (si_parse_ip io)
         (broker_ctx.extend (gc_broker config) (api_ctx.fields ttl tif)))) (\<lambda>(facade, cache).
     return_call
       (if ba_account_number facade \<noteq> Some (gc_expected_account_number config)
        then Inl (Start_AccountMismatch (gc_expected_account_number config) (ba_account_number facade))
        else
          let base_url = ctx_base_url (gc_broker config); account = bc_account_id (gc_broker config);
              auth = bc_auth (gc_broker config); live = (\<lambda>a. si_build io a ALPACA_TOKEN_URL)
          in
          and_then (map_err Start_Wallet
            (new_wallet_service (si_http_build io) live (si_parse_url io) (si_parse_ip io) base_url account auth
              (Some WALLET_REQUEST_TIMEOUT))) (\<lambda>wallet.
          and_then (map_err Start_Tokenization
            (build_tokenizers
              (new_tokenization_service (\<lambda>_. si_http_build io None) live (si_parse_url io) (si_parse_ip io)
                base_url account auth)
              (gc_networks config) Map.empty)) (\<lambda>tokenizers.
          and_then (new_issuer_clients io config) (\<lambda>issuer_clients.
          Inr \<lparr>app_config = config, app_broker = facade, app_assets = cache, app_wallet = wallet,
               app_tokenizers = tokenizers, app_issuer_clients = issuer_clients,
               app_budget = new_budget (gc_human_budget_per_minute config), app_version = version\<rparr>)))))"

subsection \<open>A connected gateway\<close>

lemma build_tokenizers_Inr:
  "build_tokenizers create nets tks = Inr tks' \<Longrightarrow>
     \<forall>net. (if net \<in> set nets then \<exists>sv. create net = Inr sv \<and> tks' net = Some sv else tks' net = tks net)"
proof (induction nets arbitrary: tks)
  case (Cons n nets)
  then obtain sv where sv: "create n = Inr sv" "build_tokenizers create nets (tks(n \<mapsto> sv)) = Inr tks'"
    by (auto simp: and_then_Inr_iff)
  show ?case
  proof
    fix net
    from spec [OF Cons.IH [OF sv(2)], of net] sv(1)
    show "if net \<in> set (n # nets) then \<exists>sv. create net = Inr sv \<and> tks' net = Some sv else tks' net = tks net"
      by (cases "net = n"; cases "net \<in> set nets") auto
  qed
qed simp

lemma build_tokenizers_total:
  "(\<And>net. \<exists>sv. create net = Inr sv) \<Longrightarrow> \<exists>tks'. build_tokenizers create nets tks = Inr tks'"
proof (induction nets arbitrary: tks)
  case (Cons net nets)
  from Cons.prems obtain sv where "create net = Inr sv" by blast
  with Cons.IH [OF Cons.prems] show ?case by simp
qed simp

lemma issuer_client_for_Inr:
  assumes "issuer_client_for io config op = Inr c"
  shows "(c \<noteq> None \<longleftrightarrow> serves_operation config op)
    \<and> (\<forall>rt cl. c = Some (rt, cl) \<longrightarrow> ac_account_id cl = bc_account_id (gc_broker config)
         \<and> si_build io (bc_auth (gc_broker config)) (mode_token_url (ctx_mode (gc_broker config))) = Inr rt
         \<and> validate_origin (si_parse_url io) (si_parse_ip io) (ctx_base_url (gc_broker config)) BaseUrl = Inr (ac_base_url cl))"
  using assms by (auto simp: issuer_client_for_def with_auth_def and_then_Inr_iff split: if_splits)

lemma deny_means_alpaca: "parse_stream_endpoint p t Deny = Inr ep \<Longrightarrow> se_transport ep = AuthenticatedAlpaca"
  using parse_stream_endpoint_Inr(2) [of p t Deny ep] by (cases "se_transport ep") simp_all

lemma stream_client_for_Inr:
  assumes "stream_client_for io config = Inr c"
  shows "(c \<noteq> None \<longleftrightarrow> serves_operation config CorporateActionsStream)
    \<and> (\<forall>cl. c = Some cl \<longrightarrow> se_transport (sc_endpoint cl) = AuthenticatedAlpaca
         \<and> (\<exists>rt. sc_auth cl = Some rt
              \<and> si_build io (bc_auth (gc_broker config)) (mode_token_url (ctx_mode (gc_broker config))) = Inr rt))"
  using assms
  by (auto simp: stream_client_for_def new_stream_client_def and_then_Inr_iff deny_means_alpaca split: if_splits)

lemma app_connect_Inr:
  assumes "app_connect io ttl tif config version s = (Inr st, s')"
  obtains facade cache where
    "try_from_ctx (si_alpaca io) (si_api io) (\<lambda>auth. si_build io auth (mode_token_url (ctx_mode (gc_broker config))))
       (si_parse_url io) (si_parse_ip io) (broker_ctx.extend (gc_broker config) (api_ctx.fields ttl tif)) s
       = (Inr (facade, cache), s')"
    "ba_account_number facade = Some (gc_expected_account_number config)" "app_broker st = facade"
    "new_wallet_service (si_http_build io) (\<lambda>a. si_build io a ALPACA_TOKEN_URL) (si_parse_url io) (si_parse_ip io)
       (ctx_base_url (gc_broker config)) (bc_account_id (gc_broker config)) (bc_auth (gc_broker config))
       (Some WALLET_REQUEST_TIMEOUT) = Inr (app_wallet st)"
    "build_tokenizers (new_tokenization_service (\<lambda>_. si_http_build io None) (\<lambda>a. si_build io a ALPACA_TOKEN_URL)
       (si_parse_url io) (si_parse_ip io) (ctx_base_url (gc_broker config)) (bc_account_id (gc_broker config))
       (bc_auth (gc_broker config))) (gc_networks config) Map.empty = Inr (app_tokenizers st)"
    "new_issuer_clients io config = Inr (app_issuer_clients st)"
proof -
  obtain r t where tr: "try_from_ctx (si_alpaca io) (si_api io)
      (\<lambda>auth. si_build io auth (mode_token_url (ctx_mode (gc_broker config))))
      (si_parse_url io) (si_parse_ip io) (broker_ctx.extend (gc_broker config) (api_ctx.fields ttl tif)) s = (r, t)"
    by (metis prod.exhaust)
  with assms obtain p where r: "r = Inr p" by (cases r) (auto simp: app_connect_def then_call_def map_err_call_def)
  obtain facade cache where p: "p = (facade, cache)" by (cases p)
  show thesis
    by (rule that [of facade cache])
      (use assms tr r p in \<open>auto simp: app_connect_def then_call_def map_err_call_def return_call_def Let_def
        and_then_Inr_iff split: if_splits\<close>)
qed

lemma try_from_ctx_Inr:
  fixes A :: "'rt \<Rightarrow> ('env, 'w, 'f) alpaca"
  assumes "try_from_ctx A io build parse_url parse_ip (broker_ctx.extend ctx rest) (n, w) = (Inr (facade, cache), s')"
  shows "cl_base_url (ba_client facade) = ctx_base_url ctx \<and> cl_account_id (ba_client facade) = bc_account_id ctx
    \<and> (\<exists>rt. build (bc_auth ctx) = Inr rt)
    \<and> (\<exists>base. validate_origin parse_url parse_ip (ctx_base_url ctx) BaseUrl = Inr base)
    \<and> (\<exists>req account bs. handed (fst s') = handed n @ [req] \<and> br_method req = M_Get
         \<and> br_url req = account_url (ba_client facade) \<and> io_parse_account io bs = Inr account
         \<and> ar_status account = AccountActive \<and> ar_account_number account = ba_account_number facade)"
proof -
  have ctx: "broker_ctx.truncate (broker_ctx.extend ctx rest) = ctx" by (simp add: broker_ctx.defs)
  obtain rt cl where cl: "(new_broker_client build parse_url parse_ip ctx :: 'f broker_error + _) = Inr (rt, cl)"
    using assms unfolding try_from_ctx_def ctx
    by (auto simp: then_call_def return_call_def split: sum.splits)
  with assms obtain account where account: "verify_account (A rt) (io_parse_account io) cl (n, w) = (Inr account, s')"
    and ok: "ar_status account = AccountActive" "ba_client facade = cl" "ba_account_number facade = ar_account_number account"
    unfolding try_from_ctx_def ctx
    by (auto simp: then_call_def return_call_def split: sum.splits prod.splits if_splits)
  from account obtain req bs where "br_method req = M_Get" "br_url req = account_url cl" "io_parse_account io bs = Inr account"
    "handed (fst s') = handed n @ [req]"
    unfolding verify_account_def by (rule get_ok)
  moreover from cl have "cl = \<lparr>cl_base_url = ctx_base_url ctx, cl_account_id = bc_account_id ctx\<rparr>"
    "build (bc_auth ctx) = Inr rt" "\<exists>base. validate_origin parse_url parse_ip (ctx_base_url ctx) BaseUrl = Inr base"
    by (auto simp: new_broker_client_def and_then_Inr_iff)
  ultimately show ?thesis using ok by auto
qed


lemma config_starts:
  assumes "validate (si_parse_url io) (si_parse_ip io) config = Inr ()"
    and "\<And>t. si_http_build io t = Inr ()" and "\<And>u. \<exists>rt. si_build io (bc_auth (gc_broker config)) u = Inr rt"
    and "try_from_ctx (si_alpaca io) (si_api io) (\<lambda>auth. si_build io auth (mode_token_url (ctx_mode (gc_broker config))))
       (si_parse_url io) (si_parse_ip io) (broker_ctx.extend (gc_broker config) (api_ctx.fields ttl tif)) (n, w)
       = (Inr (facade, cache), s')"
    and "ba_account_number facade = Some (gc_expected_account_number config)"
  shows "(\<exists>st. app_connect io ttl tif config version (n, w) = (Inr st, s'))
    \<and> (\<forall>i k. bc_auth (gc_broker config) = Auth_KmsJwt i k \<longrightarrow> mode_token_url (ctx_mode (gc_broker config)) = ALPACA_TOKEN_URL)"
proof -
  let ?auth = "bc_auth (gc_broker config)"
  from assms(1) have cred: "check_credential config = Inr ()" and stream: "check_stream (si_parse_url io) config = Inr ()"
    by (auto simp: validate_def and_then_Inr_iff)
  then have auth: "\<forall>x y. ?auth \<noteq> Auth_PrivateKeyJwt x y"
    and live: "\<forall>i k. ?auth = Auth_KmsJwt i k \<longrightarrow> mode_token_url (ctx_mode (gc_broker config)) = ALPACA_TOKEN_URL"
    by (auto simp: check_credential_ok)
  obtain base where base: "validate_origin (si_parse_url io) (si_parse_ip io) (ctx_base_url (gc_broker config)) BaseUrl = Inr base"
    using try_from_ctx_Inr [OF assms(4)] by blast
  obtain rt where rt: "si_build io ?auth ALPACA_TOKEN_URL = Inr rt" using assms(3) by blast
  obtain rt' where rt': "si_build io ?auth (mode_token_url (ctx_mode (gc_broker config))) = Inr rt'" using assms(3) by blast
  obtain wallet where wallet: "new_wallet_service (si_http_build io) (\<lambda>a. si_build io a ALPACA_TOKEN_URL) (si_parse_url io)
      (si_parse_ip io) (ctx_base_url (gc_broker config)) (bc_account_id (gc_broker config)) ?auth
      (Some WALLET_REQUEST_TIMEOUT) = Inr wallet"
    using auth base rt assms(2) by (cases ?auth) (auto simp: new_wallet_service_def build_wallet_client_def)
  have service: "\<exists>sv. new_tokenization_service (\<lambda>_. si_http_build io None) (\<lambda>a. si_build io a ALPACA_TOKEN_URL)
      (si_parse_url io) (si_parse_ip io) (ctx_base_url (gc_broker config)) (bc_account_id (gc_broker config)) ?auth net = Inr sv"
    for net using auth base rt assms(2)
    by (cases ?auth) (auto simp: new_tokenization_service_def new_tokenization_client_def)
  have issuer: "\<exists>c. issuer_client_for io config op = Inr c" for op
    using base rt' assms(2) by (auto simp: issuer_client_for_def with_auth_def)
  have "\<exists>c. stream_client_for io config = Inr c"
    using stream rt' assms(2)
    by (auto simp: stream_client_for_def check_stream_def new_stream_client_def and_then_Inr_iff deny_means_alpaca
        split: option.splits)
  with issuer obtain cls where "new_issuer_clients io config = Inr cls"
    unfolding new_issuer_clients_def by (metis and_then_simps(2))
  moreover have "\<exists>tks. build_tokenizers (new_tokenization_service (\<lambda>_. si_http_build io None) (\<lambda>a. si_build io a ALPACA_TOKEN_URL)
      (si_parse_url io) (si_parse_ip io) (ctx_base_url (gc_broker config)) (bc_account_id (gc_broker config)) ?auth)
      (gc_networks config) Map.empty = Inr tks" by (rule build_tokenizers_total) (rule service)
  ultimately have "\<exists>st. app_connect io ttl tif config version (n, w) = (Inr st, s')"
    using assms(4,5) wallet
    by (auto simp: app_connect_def then_call_def map_err_call_def return_call_def Let_def)
  with live show ?thesis by blast
qed

text \<open>
  A validated configuration starts. When the credential and the HTTP client can be built and Alpaca answers with the
  expected active account, nothing else of a configuration that passed validation can stop the gateway; and a
  KMS credential then mints at one token endpoint for every client of the gateway, the live one.
\<close>

theorem validated_config_starts:
  assumes "validate (si_parse_url io) (si_parse_ip io) config = Inr ()"
    and "\<And>t. si_http_build io t = Inr ()" and "\<And>u. \<exists>rt. si_build io (bc_auth (gc_broker config)) u = Inr rt"
    and "try_from_ctx (si_alpaca io) (si_api io) (\<lambda>auth. si_build io auth (mode_token_url (ctx_mode (gc_broker config))))
       (si_parse_url io) (si_parse_ip io) (broker_ctx.extend (gc_broker config) (api_ctx.fields ttl tif)) (n, w)
       = (Inr (facade, cache), s')"
    and "ba_account_number facade = Some (gc_expected_account_number config)"
  shows "(\<exists>st. app_connect io ttl tif config version (n, w) = (Inr st, s'))
    \<and> (\<forall>i k. bc_auth (gc_broker config) = Auth_KmsJwt i k \<longrightarrow> mode_token_url (ctx_mode (gc_broker config)) = ALPACA_TOKEN_URL)"
  using assms by (rule config_starts)

subsection \<open>Witnesses\<close>

definition sample_startup :: "(unit, unit, unit, nat) startup_io" where
  "sample_startup = \<lparr>si_alpaca = (\<lambda>_. sample_alpaca 200 200),
     si_api = facade_io\<lparr>io_parse_account :=
       (\<lambda>_. Inr \<lparr>ar_id = ''acct'', ar_status = AccountActive, ar_account_number = Some ''1''\<rparr>)\<rparr>,
     si_http_build = (\<lambda>_. Inr ()), si_build = (\<lambda>_ _. Inr ()), si_parse_url = (\<lambda>_. Inr sample_url),
     si_parse_ip = (\<lambda>_. None)\<rparr>"

lemma sample_try:
  "\<exists>facade cache s'. try_from_ctx (si_alpaca sample_startup) (si_api sample_startup)
      (\<lambda>auth. si_build sample_startup auth (mode_token_url (ctx_mode (gc_broker minting_config))))
      (si_parse_url sample_startup) (si_parse_ip sample_startup)
      (broker_ctx.extend (gc_broker minting_config) (api_ctx.fields 0 Day)) (Orders.sample_net, ())
      = (Inr (facade, cache), s') \<and> ba_account_number facade = Some ''1''"
  by (simp add: try_from_ctx_def sample_startup_def new_broker_client_def minting_config_def sample_config_def
      broker_ctx.defs api_ctx.defs validate_origin_def sample_url_def verify_account_def facade_io_def sample_defs
      call_defs status_defs)

lemma minting_config_valid: "validate (\<lambda>_. Inr sample_url) (\<lambda>_. None) minting_config = Inr ()"
proof -
  have "\<not> is_blank ''r''" "\<not> is_blank ''w''" by code_simp+
  then show ?thesis
    by (simp add: minting_config_def validate_def sample_config_def check_credential_def Let_def ctx_mode_def
        validate_tiers_def all_tiers_def check_audience_def serves_def check_principals_def
        List.map_filter_def check_jwks_url_def validate_credential_origin_def validate_origin_def
        sample_url_def check_stream_def serves_operation_def matrix_defs)
qed

lemma sample_connected:
  "\<exists>st s'. app_connect sample_startup 0 Day minting_config ''1'' (Orders.sample_net, ()) = (Inr st, s')"
proof -
  obtain facade cache s' where t: "try_from_ctx (si_alpaca sample_startup) (si_api sample_startup)
      (\<lambda>auth. si_build sample_startup auth (mode_token_url (ctx_mode (gc_broker minting_config))))
      (si_parse_url sample_startup) (si_parse_ip sample_startup)
      (broker_ctx.extend (gc_broker minting_config) (api_ctx.fields 0 Day)) (Orders.sample_net, ())
      = (Inr (facade, cache), s')" "ba_account_number facade = Some ''1''"
    using sample_try by blast
  have v: "validate (si_parse_url sample_startup) (si_parse_ip sample_startup) minting_config = Inr ()"
    using minting_config_valid by (simp add: sample_startup_def)
  have "gc_expected_account_number minting_config = ''1''" by (simp add: minting_config_def sample_config_def)
  moreover have "si_http_build sample_startup t = Inr ()" "\<exists>rt. si_build sample_startup a u = Inr rt" for t a u
    by (simp_all add: sample_startup_def)
  ultimately have "\<exists>st. app_connect sample_startup 0 Day minting_config ''1'' (Orders.sample_net, ()) = (Inr st, s')"
    using config_starts [OF v _ _ t(1), of "''1''"] t(2) by simp
  then show ?thesis by (elim exE) (intro exI)
qed


theorem validated_config_starts_witness:
  "\<exists>st s'. app_connect sample_startup 0 Day minting_config ''1'' (Orders.sample_net, ()) = (Inr st, s')"
proof -
  obtain facade cache s' where t: "try_from_ctx (si_alpaca sample_startup) (si_api sample_startup)
      (\<lambda>auth. si_build sample_startup auth (mode_token_url (ctx_mode (gc_broker minting_config))))
      (si_parse_url sample_startup) (si_parse_ip sample_startup)
      (broker_ctx.extend (gc_broker minting_config) (api_ctx.fields 0 Day)) (Orders.sample_net, ())
      = (Inr (facade, cache), s')" "ba_account_number facade = Some ''1''"
    using sample_try by blast
  have v: "validate (si_parse_url sample_startup) (si_parse_ip sample_startup) minting_config = Inr ()"
    using minting_config_valid by (simp add: sample_startup_def)
  have "gc_expected_account_number minting_config = ''1''" by (simp add: minting_config_def sample_config_def)
  moreover have "si_http_build sample_startup t = Inr ()" "\<exists>rt. si_build sample_startup a u = Inr rt" for t a u
    by (simp_all add: sample_startup_def)
  ultimately have "\<exists>st. app_connect sample_startup 0 Day minting_config ''1'' (Orders.sample_net, ()) = (Inr st, s')"
    using validated_config_starts [OF v _ _ t(1), of "''1''"] t(2) by simp
  then show ?thesis by (elim exE) (intro exI)
qed

end
