(* ===== verification/Process.thy ===== *)
theory Process
  imports Startup
begin

text \<open>
  The gateway process (\<^verbatim>\<open>crates/gateway/src/{main,lib}.rs\<close>, \<open>GatewayConfig::load\<close> of \<^verbatim>\<open>crates/gateway/src/config.rs\<close> and
  the broker mode's deserializer of \<^verbatim>\<open>src/broker/auth.rs\<close>): what it serves, from which configuration, and
  how it ends. The file system, the TOML parser, the listener and the HTTP server are parameters.
\<close>

subsection \<open>Broker modes\<close>

text \<open>A mode as the deserializer meets it: a string, or a table whose values are strings or something else.\<close>

datatype mode_value = Mode_Text string | Mode_Table "(string \<times> string option) list"

datatype mode_error =
    Mock_Needs_Table
  | Mock_Needs_Feature
  | Unknown_Variant string
  | Unknown_Field string
  | Missing_Field string
  | Not_A_String

text \<open>\<open>mock\<close> says whether the build has the \<open>mock\<close> feature; a deployed gateway has not.\<close>

definition mode_visit_str :: "bool \<Rightarrow> string \<Rightarrow> mode_error + broker_mode" where
  "mode_visit_str mock v =
     (if v = ''sandbox'' then Inr Mode_Sandbox
      else if v = ''production'' then Inr Mode_Production
      else if v = ''mock'' then Inl (if mock then Mock_Needs_Table else Mock_Needs_Feature)
      else Inl (Unknown_Variant v))"

fun mode_entries ::
  "bool \<Rightarrow> (string \<times> string option) list \<Rightarrow> string option \<Rightarrow> string option \<Rightarrow> mode_error + (string option \<times> string option)" where
  "mode_entries mock [] mode_type base_url = Inr (mode_type, base_url)"
| "mode_entries mock ((key, v) # entries) mode_type base_url =
     (if key = ''type'' then and_then (ok_or v Not_A_String) (\<lambda>x. mode_entries mock entries (Some x) base_url)
      else if key = ''base_url''
      then (if mock then and_then (ok_or v Not_A_String) (\<lambda>x. mode_entries mock entries mode_type (Some x))
            else mode_entries mock entries mode_type base_url)
      else Inl (Unknown_Field key))"

definition mode_visit_map :: "bool \<Rightarrow> (string \<times> string option) list \<Rightarrow> mode_error + broker_mode" where
  "mode_visit_map mock entries =
     and_then (mode_entries mock entries None None) (\<lambda>(mode_type, base_url).
       case mode_type of
         Some t \<Rightarrow>
           if t = ''mock''
           then (if mock then and_then (ok_or base_url (Missing_Field ''base_url'')) (\<lambda>u. Inr (Mode_Mock u))
                 else Inl Mock_Needs_Feature)
           else Inl (Unknown_Variant t)
       | None \<Rightarrow> Inl (Missing_Field ''type''))"

fun deserialize_mode :: "bool \<Rightarrow> mode_value \<Rightarrow> mode_error + broker_mode" where
  "deserialize_mode mock (Mode_Text v) = mode_visit_str mock v"
| "deserialize_mode mock (Mode_Table entries) = mode_visit_map mock entries"

subsection \<open>Loading the configuration\<close>

datatype load_error = Load_Read string string | Load_Parse string | Load_Invalid config_error

definition config_parse ::
  "url_parser \<Rightarrow> ip_parser \<Rightarrow> (string \<Rightarrow> string + gateway_config) \<Rightarrow> string \<Rightarrow> load_error + gateway_config" where
  "config_parse parse_url parse_ip toml text =
     and_then (map_err Load_Parse (toml text)) (\<lambda>config.
     and_then (map_err Load_Invalid (validate parse_url parse_ip config)) (\<lambda>_. Inr config))"

definition config_load ::
  "url_parser \<Rightarrow> ip_parser \<Rightarrow> (string \<Rightarrow> string + gateway_config) \<Rightarrow> (string \<Rightarrow> string + string) \<Rightarrow> string
   \<Rightarrow> load_error + gateway_config" where
  "config_load parse_url parse_ip toml read_file file =
     and_then (map_err (Load_Read file) (read_file file)) (config_parse parse_url parse_ip toml)"

subsection \<open>Serving until drained\<close>

definition DRAIN_GRACE :: duration where
  "DRAIN_GRACE = from_secs 8"

text \<open>How serving ended, when it did, and whether connections or detached work were left behind.\<close>

record drained =
  dr_result :: "string + unit"
  dr_at :: instant
  dr_open_connections :: bool
  dr_pending_work :: bool

text \<open>The wait for the detached work, until the grace ends.\<close>

definition await_tasks :: "instant \<Rightarrow> instant option \<Rightarrow> bool \<Rightarrow> instant \<Rightarrow> drained" where
  "await_tasks budget_end tasks_end open_connections now =
     (case tasks_end of
        Some t \<Rightarrow>
          if t \<le> budget_end
          then \<lparr>dr_result = Inr (), dr_at = max now t, dr_open_connections = open_connections, dr_pending_work = False\<rparr>
          else \<lparr>dr_result = Inr (), dr_at = budget_end, dr_open_connections = open_connections, dr_pending_work = True\<rparr>
      | None \<Rightarrow> \<lparr>dr_result = Inr (), dr_at = budget_end, dr_open_connections = open_connections, dr_pending_work = True\<rparr>)"

text \<open>
  \<open>run\<close> after the router is built: \<open>signal\<close> is when the shutdown token is cancelled, \<open>server\<close> when and how the HTTP server
  ends, \<open>tasks_end\<close> when the last detached task has ended; each may never come. The \<open>select!\<close> is biased to the signal.
\<close>

definition run_gateway ::
  "instant option \<Rightarrow> (instant \<times> (string + unit)) option \<Rightarrow> instant option \<Rightarrow> drained option" where
  "run_gateway signal server tasks_end =
     (case (signal, server) of
        (None, None) \<Rightarrow> None
      | (None, Some (u, outcome)) \<Rightarrow>
          (case outcome of
             Inl e \<Rightarrow> Some \<lparr>dr_result = Inl e, dr_at = u, dr_open_connections = False, dr_pending_work = False\<rparr>
           | Inr _ \<Rightarrow> Some (await_tasks (u + DRAIN_GRACE) tasks_end False u))
      | (Some t, None) \<Rightarrow> Some (await_tasks (t + DRAIN_GRACE) tasks_end True (t + DRAIN_GRACE))
      | (Some t, Some (u, outcome)) \<Rightarrow>
          if u < t
          then (case outcome of
                  Inl e \<Rightarrow> Some \<lparr>dr_result = Inl e, dr_at = u, dr_open_connections = False, dr_pending_work = False\<rparr>
                | Inr _ \<Rightarrow> Some (await_tasks (u + DRAIN_GRACE) tasks_end False u))
          else if u \<le> t + DRAIN_GRACE
          then (case outcome of
                  Inl e \<Rightarrow> Some \<lparr>dr_result = Inl e, dr_at = u, dr_open_connections = False, dr_pending_work = False\<rparr>
                | Inr _ \<Rightarrow> Some (await_tasks (t + DRAIN_GRACE) tasks_end False u))
          else Some (await_tasks (t + DRAIN_GRACE) tasks_end True (t + DRAIN_GRACE)))"

datatype 'f serve_error = Serve_Startup "'f startup_error" | Serve_Http reqwest_error | Serve_Io string

text \<open>\<open>serve_until\<close> is \<open>run_gateway\<close> at what the bound listener and its clients will do.\<close>

definition gateway_serve ::
  "('rt, 'env, 'w, 'f) startup_io \<Rightarrow> duration \<Rightarrow> time_in_force \<Rightarrow> string \<Rightarrow> (gateway_config \<Rightarrow> string + unit)
   \<Rightarrow> (unit \<Rightarrow> reqwest_error + unit) \<Rightarrow> ('rt app_clients \<Rightarrow> drained) \<Rightarrow> gateway_config
   \<Rightarrow> ('env, 'w, 'f, 'f serve_error, 'rt app_clients \<times> drained) broker_call" where
  "gateway_serve io ttl tif version bind verifier_http serve_until config =
     then_call (map_err_call Serve_Startup (app_connect io ttl tif config version)) (\<lambda>st.
     then_call (return_call (map_err Serve_Io (bind config))) (\<lambda>_.
     then_call (return_call (map_err Serve_Http (verifier_http ()))) (\<lambda>_.
     return_call (Inr (st, serve_until st)))))"

subsection \<open>The process\<close>

datatype exit_code = Exit_Success | Exit_Failure

text \<open>What the process served, with its exit code.\<close>

definition gateway_main ::
  "string list \<Rightarrow> string option \<Rightarrow> (string \<Rightarrow> load_error + gateway_config)
   \<Rightarrow> (gateway_config \<Rightarrow> 's \<Rightarrow> ('e + ('rt app_clients \<times> drained)) \<times> 's) \<Rightarrow> 's
   \<Rightarrow> (exit_code \<times> 'rt app_clients option) \<times> 's" where
  "gateway_main args config_env load_config serve_config s =
     (if args \<noteq> []
      then (case args of
              [flag, file] \<Rightarrow>
                if flag = ''--validate-config''
                then (case load_config file of Inr _ \<Rightarrow> ((Exit_Success, None), s) | Inl _ \<Rightarrow> ((Exit_Failure, None), s))
                else ((Exit_Failure, None), s)
            | _ \<Rightarrow> ((Exit_Failure, None), s))
      else
        (case config_env of
           None \<Rightarrow> ((Exit_Failure, None), s)
         | Some file \<Rightarrow>
             (case load_config file of
                Inl _ \<Rightarrow> ((Exit_Failure, None), s)
              | Inr config \<Rightarrow>
                  (case serve_config config s of
                     (Inl _, s') \<Rightarrow> ((Exit_Failure, None), s')
                   | (Inr (st, d), s') \<Rightarrow>
                       ((case dr_result d of Inr _ \<Rightarrow> Exit_Success | Inl _ \<Rightarrow> Exit_Failure, Some st), s')))))"

subsection \<open>Properties\<close>

lemma mode_entries_no_url:
  "mode_entries False entries t u = Inr (t', u') \<Longrightarrow> u' = u"
  by (induction entries arbitrary: t) (auto simp: and_then_Inr_iff split: if_splits)

text \<open>
  A deployed build talks to Alpaca's hosts only. Without the mock feature the only modes a configuration can name are the
  two strings, so that no table and no URL of a configuration picks another broker, market data or token host.
\<close>

theorem deployed_modes_are_alpacas:
  "(deserialize_mode False v = Inr m \<longleftrightarrow>
      v = Mode_Text ''sandbox'' \<and> m = Mode_Sandbox \<or> v = Mode_Text ''production'' \<and> m = Mode_Production)
   \<and> mode_base_url Mode_Sandbox = ''https://broker-api.sandbox.alpaca.markets''
   \<and> mode_base_url Mode_Production = ''https://broker-api.alpaca.markets''
   \<and> mode_token_url Mode_Sandbox = ''https://authx.sandbox.alpaca.markets/v1/oauth2/token''
   \<and> mode_token_url Mode_Production = ''https://authx.alpaca.markets/v1/oauth2/token''"
proof (cases v)
  case (Mode_Text x)
  then show ?thesis by (auto simp: mode_visit_str_def ALPACA_TOKEN_URL_def ALPACA_SANDBOX_TOKEN_URL_def)
next
  case (Mode_Table entries)
  then show ?thesis
    by (auto simp: mode_visit_map_def and_then_Inr_iff ALPACA_TOKEN_URL_def ALPACA_SANDBOX_TOKEN_URL_def
        split: option.splits if_splits)
qed

lemma await_tasks_bounds:
  assumes "now \<le> budget_end"
  shows "now \<le> dr_at (await_tasks budget_end tasks_end oc now)" "dr_at (await_tasks budget_end tasks_end oc now) \<le> budget_end"
    "dr_result (await_tasks budget_end tasks_end oc now) = Inr ()"
    "dr_open_connections (await_tasks budget_end tasks_end oc now) = oc"
    "\<not> dr_pending_work (await_tasks budget_end tasks_end oc now) \<Longrightarrow>
       \<exists>t. tasks_end = Some t \<and> t \<le> dr_at (await_tasks budget_end tasks_end oc now)"
    "dr_pending_work (await_tasks budget_end tasks_end oc now) \<Longrightarrow> dr_at (await_tasks budget_end tasks_end oc now) = budget_end"
  using assms by (auto simp: await_tasks_def split: option.splits)



lemma config_load_Inr:
  "config_load parse_url parse_ip toml read_file file = Inr config \<Longrightarrow> validate parse_url parse_ip config = Inr ()"
  by (auto simp: config_load_def config_parse_def and_then_Inr_iff)

lemma gateway_serve_Inr:
  assumes "gateway_serve io ttl tif version bind verifier_http serve_until config s = (Inr (st, d), s')"
  shows "app_connect io ttl tif config version s = (Inr st, s')"
  using assms
  by (auto simp: gateway_serve_def then_call_def map_err_call_def return_call_def map_err_def split: prod.splits sum.splits)

text \<open>
  C32: A process serves only a validated configuration bound to its account. It serves nothing unless it was started without
  arguments, the file its environment names was read, parsed and validated, and the account the configuration
  expects is the one that answered. Checking a configuration, or starting with unknown arguments, sends nothing.
\<close>

theorem only_a_bound_config_is_served:
  assumes "gateway_main args config_env (config_load (si_parse_url io) (si_parse_ip io) toml read_file)
      (gateway_serve io ttl tif version bind verifier_http serve_until) s = ((code, served), s')"
  shows "(args \<noteq> [] \<longrightarrow> s' = s \<and> served = None)
    \<and> (\<forall>st. served = Some st \<longrightarrow>
         (\<exists>file config. config_env = Some file
            \<and> config_load (si_parse_url io) (si_parse_ip io) toml read_file file = Inr config
            \<and> validate (si_parse_url io) (si_parse_ip io) config = Inr ()
            \<and> ba_account_number (app_broker st) = Some (gc_expected_account_number config)
            \<and> cl_account_id (ba_client (app_broker st)) = bc_account_id (gc_broker config)))"
proof (cases "args \<noteq> []")
  case True
  with assms show ?thesis by (auto simp: gateway_main_def split: list.splits sum.splits if_splits)
next
  case False
  show ?thesis
  proof (cases served)
    case None
    with False show ?thesis by simp
  next
    case (Some st)
    with assms False obtain fp config d where c: "config_env = Some fp"
        "config_load (si_parse_url io) (si_parse_ip io) toml read_file fp = Inr config"
        "gateway_serve io ttl tif version bind verifier_http serve_until config s = (Inr (st, d), s')"
      by (auto simp: gateway_main_def split: option.splits sum.splits prod.splits)
    obtain n w where s: "s = (n, w)" by (cases s)
    from gateway_serve_Inr [OF c(3)] have "app_connect io ttl tif config version (n, w) = (Inr st, s')" by (simp add: s)
    then have "ba_account_number (app_broker st) = Some (gc_expected_account_number config)
        \<and> cl_account_id (ba_client (app_broker st)) = bc_account_id (gc_broker config)"
      by (rule app_connect_Inr) (drule try_from_ctx_Inr, simp)
    with c(1,2) config_load_Inr [OF c(2)] False Some show ?thesis by blast
  qed
qed

theorem only_a_bound_config_is_served_witness:
  "\<exists>st s'. gateway_main [] (Some ''gateway.toml'')
      (config_load (si_parse_url sample_startup) (si_parse_ip sample_startup) (\<lambda>_. Inr minting_config) (\<lambda>_. Inr ''toml''))
      (gateway_serve sample_startup 0 Day ''1'' (\<lambda>_. Inr ()) (\<lambda>_. Inr ())
        (\<lambda>_. \<lparr>dr_result = Inr (), dr_at = 0, dr_open_connections = False, dr_pending_work = False\<rparr>)) (Orders.sample_net, ())
      = ((Exit_Success, Some st), s')
    \<and> ba_account_number (app_broker st) = Some ''1''"
proof -
  obtain st s' where c: "app_connect sample_startup 0 Day minting_config ''1'' (Orders.sample_net, ()) = (Inr st, s')"
    using sample_connected by blast
  have l: "config_load (si_parse_url sample_startup) (si_parse_ip sample_startup) (\<lambda>_. Inr minting_config) (\<lambda>_. Inr ''toml'')
      ''gateway.toml'' = Inr minting_config"
    using minting_config_valid by (simp add: config_load_def config_parse_def sample_startup_def)
  have m: "gateway_main [] (Some ''gateway.toml'')
      (config_load (si_parse_url sample_startup) (si_parse_ip sample_startup) (\<lambda>_. Inr minting_config) (\<lambda>_. Inr ''toml''))
      (gateway_serve sample_startup 0 Day ''1'' (\<lambda>_. Inr ()) (\<lambda>_. Inr ())
        (\<lambda>_. \<lparr>dr_result = Inr (), dr_at = 0, dr_open_connections = False, dr_pending_work = False\<rparr>)) (Orders.sample_net, ())
      = ((Exit_Success, Some st), s')"
    using c l by (simp add: gateway_main_def gateway_serve_def then_call_def map_err_call_def return_call_def)
  have e: "gc_expected_account_number minting_config = ''1''" by (simp add: minting_config_def sample_config_def)
  from only_a_bound_config_is_served [OF m] l e have "ba_account_number (app_broker st) = Some ''1''" by auto
  with m show ?thesis by blast
qed

end
