(* ===== verification/Spec2Isabelle.thy ===== *)
theory Spec2Isabelle
  imports Catalog Budget Sse_Chunks Gate Rate_Limit Lifecycle Errors Answer Endpoint Config Identity
    Runner Broker_Client Orders Conversions Wallet_Client Wallet_Polls Tokenization Tokenization_Polls Issuer
    Token_Cache Token_Mint Broker_Api Handlers_Orders Handlers_Wallet
    Gateway_Outcomes Poll_Traffic Handlers_Reads Stream_Relay Process
begin

text \<open>
  A verification library for st0x-alpaca: a Rust client library for Alpaca's Broker, wallet,
  tokenization, issuer and corporate-action APIs (\<^verbatim>\<open>src/src\<close>), the wire contract of the gateway
  that fronts it with that gateway's client (\<^verbatim>\<open>src/crates/gateway-api\<close>), and the gateway itself
  (\<^verbatim>\<open>src/crates/gateway\<close>). The gateway holds Alpaca's credentials; bots and humans reach it on separate
  tiers. A request is routed by the capability matrix, its token verified, its body and parameters read,
  admitted, run on a detached task behind a send gate, and answered with a typed outcome; every call leaves an
  audit record. The clients below it speak HTTP to Alpaca and report whether a failed write may have been
  applied. A bot uses the gateway through the adapters of its client, which look like the library's services.

  \<^bold>\<open>Foundations.\<close>

  \<^item> \<open>Prelude\<close>: result combinators (\<open>?\<close>, \<open>map_err\<close>, \<open>ok_or\<close>), durations in nanoseconds, and the parts
    of \<open>str\<close> the code uses (trim, UTF-8 validation, prefixes, \<open>parse::<u64>\<close>). \<open>Http\<close>: status codes, header
    maps and the observations of a \<open>reqwest::Error\<close>.
  \<^item> \<open>Gate\<close> (\<^verbatim>\<open>src/request_id.rs\<close>): the send gate, the traffic a call collects, and its task-local
    scopes. Every client sends through \<open>start\<close>, which appends to \<open>handed\<close>; "nothing was sent" below
    always means that \<open>handed\<close> did not grow. The locale \<open>one_way_gate\<close> is the contract the runner uses.
  \<^item> \<open>Rate_Limit\<close>, \<open>Polling\<close> (\<^verbatim>\<open>src/rate_limit.rs\<close>): Retry-After, poll delays and deadlines, reads bounded by a
    timer. \<open>Poll_Loop\<close>: the shape the polls share, a partial loop proved to end when every step moves the clock.
  \<^item> \<open>Errors\<close>: every error type of the clients (\<^verbatim>\<open>src/core.rs\<close>, \<^verbatim>\<open>src/auth.rs\<close>, \<^verbatim>\<open>src/broker/{mod,market_data}.rs\<close>,
    \<^verbatim>\<open>src/wallet/client.rs\<close>, \<^verbatim>\<open>src/tokenization/client.rs\<close>) with its backpressure and permanence.
  \<^item> \<open>Lifecycle\<close> (\<^verbatim>\<open>src/broker/lifecycle/*.rs\<close> and the enums of \<^verbatim>\<open>src/broker/mod.rs\<close>): order keys, states and
    their spellings.
  \<^item> \<open>Endpoint\<close> (\<^verbatim>\<open>src/endpoint.rs\<close>, \<^verbatim>\<open>src/corporate_actions/{endpoint,client}.rs\<close>): where credentials may go.
  \<^item> \<open>Wire\<close>: the request shared by the wallet, tokenization and issuer clients, with what a run of them sent
    (\<open>sends\<close>, \<open>sent_all\<close>, \<open>sent_one\<close>).

  \<^bold>\<open>The library.\<close>

  \<^item> \<open>Token_Cache\<close>, \<open>Token_Mint\<close> (\<^verbatim>\<open>src/auth.rs\<close>): the bearer token cache as a step relation over concurrent
    callers of one mutex, and the mint with its signing, key files and headers.
  \<^item> \<open>Broker_Client\<close> (\<^verbatim>\<open>src/broker/client.rs\<close>), \<open>Orders\<close>, \<open>Conversions\<close> (\<^verbatim>\<open>src/broker/{order,precision}.rs\<close>): the
    HTTP exchanges of the broker, placement with its lost-response adoption, recovery and status reads, and the
    USDC conversions with their poll and deadline cancel.
  \<^item> \<open>Broker_Reads\<close> (\<^verbatim>\<open>src/broker/{amount,positions,activity,market_data}.rs\<close>), \<open>Market_Hours\<close>
    (\<^verbatim>\<open>src/broker/{session,market_hours}.rs\<close>), \<open>Broker_Api\<close> (\<^verbatim>\<open>src/broker/api.rs\<close>): inventories, funds, paged activities,
    prices, the session of an instant, and the facade with its asset cache.
  \<^item> \<open>Wallet_Client\<close>, \<open>Wallet_Polls\<close> (\<^verbatim>\<open>src/wallet\<close>), \<open>Tokenization\<close>, \<open>Tokenization_Polls\<close> (\<^verbatim>\<open>src/tokenization\<close>),
    \<open>Issuer_Retry\<close>, \<open>Issuer\<close> (\<^verbatim>\<open>src/core.rs\<close>, \<^verbatim>\<open>src/issuer\<close>): the three other clients with their retries and polls.
  \<^item> \<open>Stream_Event\<close>, \<open>Sse\<close>, \<open>Sse_Chunks\<close> (\<^verbatim>\<open>src/corporate_actions/{event,replay,sse}.rs\<close>): the validated ids,
    and the incremental SSE decoder as the source has it, buffer and skip flag included. \<open>Sse_Chunks\<close>
    refines it to a decoder that reads one byte at a time.

  \<^bold>\<open>The gateway and its client.\<close>

  \<^item> \<open>Catalog\<close> (\<^verbatim>\<open>gateway-api/src/{ops,access}.rs\<close>): the operations with their names, paths, methods,
    deadlines and the tier matrix of each deployment profile.
  \<^item> \<open>Budget\<close> (\<^verbatim>\<open>gateway/src/budget.rs\<close>): the per-minute budget of human calls, counted in 32-bit words.
    The locale \<open>fixed_window\<close> states what a fixed-window limiter promises; the budget interprets it.
  \<^item> \<open>Config\<close> (\<^verbatim>\<open>gateway/src/config.rs\<close>, \<^verbatim>\<open>src/broker/auth.rs\<close>): what a valid configuration guarantees.
  \<^item> \<open>Identity\<close> (\<^verbatim>\<open>gateway/src/{auth,routes}.rs\<close> and the \<open>route\<close> functions of the handlers): token
    verification with its cached keys, and the router as the list of what it mounts.
  \<^item> \<open>Answer\<close> (\<^verbatim>\<open>gateway-api/src/failure.rs\<close>, \<^verbatim>\<open>gateway/src/answer.rs\<close>): the failure a call is answered with.
  \<^item> \<open>Runner\<close>, \<open>Relay\<close> (\<^verbatim>\<open>gateway/src/state.rs\<close>, \<^verbatim>\<open>gateway-api/src/record.rs\<close>): admission, and the run of an
    admitted call as the step relations \<open>run_step\<close> and \<open>relay_step\<close> over handler, detached task, gate,
    channel, clock and shutdown, interleaved in any order; the relayed body until shutdown.
  \<^item> \<open>Request_Checks\<close> (\<^verbatim>\<open>gateway-api/src/dto\<close>, \<^verbatim>\<open>gateway/src/extract.rs\<close>): what a request must satisfy to be read,
    and what a refused one leaves.
  \<^item> \<open>Handlers_Orders\<close>, \<open>Handlers_Wallet\<close>, \<open>Handlers_Tokenization\<close>, \<open>Handlers_Reads\<close>, \<open>Handlers_Issuer\<close>
    (\<^verbatim>\<open>gateway/src/handlers\<close>): every handler's intent and work.
  \<^item> \<open>Stream_Relay\<close> (\<^verbatim>\<open>src/corporate_actions/client.rs\<close>): an open stream, its reader, and the reader behind the relay.
  \<^item> \<open>Startup\<close>, \<open>Process\<close> (\<^verbatim>\<open>gateway/src/{state,lib,main,config}.rs\<close>): building the clients after the account check, loading
    the configuration, serving, and the drain.
  \<^item> \<open>Gateway_Client\<close>, \<open>Gateway_Adapter\<close>, \<open>Gateway_Outcomes\<close> (\<^verbatim>\<open>gateway-api/src/client.rs\<close>, \<^verbatim>\<open>client/adapter.rs\<close>): the
    addresses and exchanges of the gateway's client, and how its failures read as library errors.
  \<^item> \<open>Poll_Traffic\<close>: what the polls send, proved once for any implementation of the traits they run over (the
    locales \<open>quiet_transfers\<close> and \<open>quiet_lookups\<close>, both extending \<open>quiet_world\<close>) and interpreted on the library's clients
    and on the gateway's adapters.

  \<^bold>\<open>What is shown.\<close> No request starts after a call was answered, and the audit log agrees with the
  answers, of runs (\<open>Runner\<close>) and of relays (\<open>Relay\<close>). A failed mutation is answered \<open>not_applied\<close> only when
  nothing can have been applied, from the transport up to the caller and over the gateway's own hop (\<open>Orders\<close>,
  \<open>Answer\<close>, \<open>Handlers_Wallet\<close>, \<open>Handlers_Tokenization\<close>, \<open>Handlers_Issuer\<close>, \<open>Gateway_Outcomes\<close> and this theory).
  Writes stay in their lane: pinned recipients, withdrawal destinations, the tier's order keys, one POST or one
  idempotency key per request. The matrix is exactly what the router serves and a token is good on one tier only
  (\<open>Identity\<close>). The decoder's result does not depend on how the bytes are chunked, and a relayed stream's events are
  Alpaca's (\<open>Sse_Chunks\<close>, \<open>Stream_Relay\<close>). The token cache keeps its deadlines under every interleaving, and a
  lone caller refines the function of the source (\<open>Token_Cache\<close>). Polls return and cancel what they abandon
  (\<open>Conversions\<close>, \<open>Tokenization_Polls\<close>, \<open>Wallet_Polls\<close>), and only read (\<open>Poll_Traffic\<close>). Budgets, waits, deadlines and the shutdown hold their bounds
  (\<open>Budget\<close>, \<open>Rate_Limit\<close>, \<open>Process\<close>). Credentials reach only validated origins, and a gateway serves only the
  account its configuration names (\<open>Endpoint\<close>, \<open>Config\<close>, \<open>Startup\<close>).

  \<^bold>\<open>Loops.\<close> Parsers and the decoder recurse by a measure on the bytes left. A poll, which waits for Alpaca, is a
  \<open>partial_function (option)\<close>, so that not returning is a value; that it returns is proved from the laws of the timer. The
  retry loop recurses over the delays its backoff yields, and page reads over the pages left. Nothing needs fuel.

  \<^bold>\<open>Parameters.\<close> Code outside the repository is an argument: the HTTP transport and Alpaca's answers
  (\<open>alpaca\<close>, \<open>wire\<close>, \<open>hop\<close>), what the facade, the issuer, the mint, the reads and the start-up use of it (\<open>api_io\<close>,
  \<open>issuer_io\<close>, \<open>mint_io\<close>, \<open>reads\<close>, \<open>startup_io\<close>), the clocks and timers, serde, chrono and TOML parsers, the url crate,
  JSON web tokens, cryptography, and the decimals of rain-math-float. Where a property needs their documented
  behaviour it is a named hypothesis: an error of reading a body comes after the request was sent
  (\<open>read_errors_come_late\<close>, \<open>wire_reads_late\<close>, \<open>hop_reads_late\<close>), time passes (\<open>timer_laws\<close>), sleeping sends nothing
  (\<open>sleeps_send_nothing\<close>, \<open>issuer_io_laws\<close>, \<open>time_sends_nothing\<close>), and the laws of decimals, calendars and dropped reads stated with them.

  \<^bold>\<open>Not modelled.\<close> The mock servers (\<^verbatim>\<open>src/broker/mock_api.rs\<close>, \<^verbatim>\<open>src/tokenization_mock.rs\<close>, the mock of
  \<^verbatim>\<open>src/issuer\<close>), fixtures and tests, which are test support; the audit sinks
  (\<^verbatim>\<open>gateway/src/audit.rs\<close>), which write a record to standard output; logging, \<open>Debug\<close> and the \<open>Display\<close> texts of errors,
  which are parameters where an answer carries them; and derived serialization, which the parsers stand for.

  The properties that span components follow.
\<close>

subsection \<open>A refused order is no order\<close>

lemma refused_placement_leaves_no_order:
  assumes "read_errors_come_late A"
    and "placement_handler rid D F A io api tier op (cache, (n, w)) (Inl f, (cache', (n', w')))"
    and "fa_outcome (for_mutation f op) = Some NotApplied"
  shows "\<exists>gs. list_all is_read gs
    \<and> (handed n' = handed n @ gs
       \<or> (\<exists>rq p w1. handed n' = handed n @ gs @ [p] \<and> posts_order rq p
            \<and> took_no_effect (fst (al_http A p w1))))"
  using assms(2)
proof (cases rule: placement_handler_failed)
  case unsent
  then show ?thesis by (intro exI [of _ "[]"]) simp
next
  case (placement pe msg)
  have "mutates op" using assms(2) by (auto simp: placement_handler_def mutates_def)
  then have "\<not> written pe" using assms(3) placement(1) by (simp add: placement_outcome split: if_splits)
  with facade_failure [OF assms(1) placement(2)] show ?thesis by (simp add: failure_requests_def)
qed

text \<open>
  C2: When the gateway answers a failed placement with the outcome \<open>not_applied\<close>, no order was
  placed. This holds for each of the three placement handlers, on every tier and with any contents
  of the asset cache: the handler sent nothing but reads, or reads and one order POST whose answer
  shows that it took no effect. A caller may place a new order on that answer.
\<close>

theorem not_applied_means_no_order:
  assumes "read_errors_come_late A"
    and "placement_handler rid D F A io api tier op (cache, (n, w)) (Inl f, (cache', (n', w')))"
    and "fa_outcome (for_mutation f op) = Some NotApplied"
  shows "\<exists>gs. list_all is_read gs
    \<and> (handed n' = handed n @ gs
       \<or> (\<exists>rq p w1. handed n' = handed n @ gs @ [p] \<and> posts_order rq p
            \<and> took_no_effect (fst (al_http A p w1))))"
  using assms by (rule refused_placement_leaves_no_order)

definition sample_displays :: "nat displays" where
  "sample_displays = \<lparr>dp_number = (\<lambda>_. []), dp_broker_error = (\<lambda>_. [])\<rparr>"

definition sample_market_request :: "nat market_order_request" where
  "sample_market_request = market_order_request_new sample_market_order None"

lemma sample_refused_placement:
  "\<exists>cache' n' (pe::nat placement_error). place_market_work ''r'' sample_displays fixed18 (sample_alpaca 403 200) facade_io sample_api Bot
       sample_market_request (Map.empty, (Orders.sample_net, ()))
     = (Inl (placement ''r'' [] pe), (cache', (n', ()))) \<and> \<not> written pe"
  by (simp add: place_market_work_def sample_market_request_def market_order_request_new_def
      require_key_form_def as_placement_def market_order_from_def sample_displays_def
      facade_defs facade_sample_defs sample_defs call_defs place_market_order_eq status_defs
      truncate_to_decimal_places_def truncate_shares_to_alpaca_precision_def
      ALPACA_MAX_DECIMAL_PLACES_def market_request_def, rule exI, rule conjI, rule refl)
    (simp add: order_post_failure_def status_defs)

theorem not_applied_means_no_order_witness:
  "\<exists>f cache' n'. place_market_work ''r'' sample_displays fixed18 (sample_alpaca 403 200) facade_io sample_api Bot
       sample_market_request (Map.empty, (Orders.sample_net, ())) = (Inl f, (cache', (n', ())))
     \<and> fa_outcome (for_mutation f OrdersPlaceMarket) = Some NotApplied
     \<and> (\<exists>gs. list_all is_read gs
       \<and> (handed n' = handed Orders.sample_net @ gs
          \<or> (\<exists>rq p w1. handed n' = handed Orders.sample_net @ gs @ [p] \<and> posts_order rq p
               \<and> took_no_effect (fst (al_http (sample_alpaca 403 200) p w1)))))"
proof -
  obtain pe :: "nat placement_error" and cache' n' where p: "place_market_work ''r'' sample_displays fixed18 (sample_alpaca 403 200) facade_io
      sample_api Bot sample_market_request (Map.empty, (Orders.sample_net, ()))
      = (Inl (placement ''r'' [] pe), (cache', (n', ())))" "\<not> written pe"
    using sample_refused_placement by blast
  have o: "fa_outcome (for_mutation (placement ''r'' [] pe) OrdersPlaceMarket) = Some NotApplied"
    using p(2) by (simp add: placement_outcome mutates_def)
  have h: "placement_handler ''r'' sample_displays fixed18 (sample_alpaca 403 200) facade_io sample_api Bot
      OrdersPlaceMarket (Map.empty, (Orders.sample_net, ()))
      (Inl (placement ''r'' [] pe), (cache', (n', ())))"
    using p(1) by (auto simp: placement_handler_def)
  from not_applied_means_no_order [OF sample_reads_late h o] p(1) o show ?thesis by blast
qed

subsection \<open>A refused order through the gateway\<close>

text \<open>What a run sent Alpaca: reads, and at most one order POST, which took no effect.\<close>

definition sent_no_order ::
  "('env, 'w, 'f) alpaca \<Rightarrow> ('env, 'f broker_request) net \<Rightarrow> ('env, 'f broker_request) net \<Rightarrow> bool" where
  "sent_no_order A n n' \<longleftrightarrow>
     (\<exists>gs. list_all is_read gs
       \<and> (handed n' = handed n @ gs
          \<or> (\<exists>rq p w1. handed n' = handed n @ gs @ [p] \<and> posts_order rq p
               \<and> took_no_effect (fst (al_http A p w1)))))"

text \<open>
  C3: A placement that a caller of the gateway's client reads as one that did not reach Alpaca placed no order.
  When the library error of a failed placement says so, then nothing was handed to the
  transport, or the one request handed over provably never left, or the gateway answered; and
  every run of a placement handler that ended in the failure this answer carries sent Alpaca nothing but
  reads, or reads and one order POST whose answer shows that it took no effect.
\<close>

theorem refused_through_the_gateway_is_no_order:
  assumes "mutates op" and "hop_reads_late H" and "read_errors_come_late A"
    and "gateway_send T H c op params q b parse (sent, v) = (Inl e, (sent', v'))"
    and "\<not> may_have_reached_alpaca (hop_broker_error shw op e :: 'f broker_error)"
  shows "sent' = sent
    \<or> (\<exists>req v1 x. sent' = sent @ [req] \<and> fst (hp_http H req v1) = Inl x \<and> (is_builder x \<or> is_connect x))
    \<or> (\<exists>req v1 a bs said. sent' = sent @ [req] \<and> fst (hp_http H req v1) = Inr a \<and> ha_body a = Inr bs
         \<and> hp_parse_error_body H bs = Some said
         \<and> (\<forall>cache n w f cache' n' w'.
              placement_handler rid D F A io api tier op (cache, (n, w)) (Inl f, (cache', (n', w')))
              \<and> said = body (for_mutation f op) \<longrightarrow>
              sent_no_order A n n'))"
proof -
  have h: "\<forall>cache n w f cache' n' w'.
      placement_handler rid D F A io api tier op (cache, (n, w)) (Inl f, (cache', (n', w')))
      \<and> said = body (for_mutation f op) \<longrightarrow> sent_no_order A n n'"
    if "eb_code said \<noteq> OutcomeUnknown" for said
    using that assms(1) refused_placement_leaves_no_order [OF assms(3)]
    unfolding sent_no_order_def by (fastforce simp: for_mutation_outcome)
  from settled_reading [OF assms(1,2,4) settled_broker_error [OF assms(5)]] show ?thesis
  proof (elim disjE)
    assume "\<exists>req w1 a bs said. sent' = sent @ [req] \<and> fst (hp_http H req w1) = Inr a \<and> ha_body a = Inr bs
         \<and> hp_parse_error_body H bs = Some said \<and> eb_code said \<noteq> OutcomeUnknown"
    with h show ?thesis by blast
  qed blast+
qed

theorem refused_through_the_gateway_is_no_order_witness:
  "\<not> may_have_reached_alpaca (hop_broker_error shw_none OrdersPlaceMarket (Cl_Transport no_connection) :: nat broker_error)
   \<and> ((\<exists>req v1 x. fst (hp_http sample_hop req v1) = Inl x \<and> (is_builder x \<or> is_connect x))
      \<or> (\<exists>req v1 a. fst (hp_http sample_hop req v1) = Inr (a :: http_answer)))"
proof -
  have m: "mutates OrdersPlaceMarket" by (simp add: mutates_def)
  have h: "hop_reads_late sample_hop" by (simp add: hop_reads_late_def sample_hop_def)
  have n: "\<not> may_have_reached_alpaca
      (hop_broker_error shw_none OrdersPlaceMarket (Cl_Transport no_connection) :: nat broker_error)"
    by (simp add: hop_broker_error_def hop_answer_def no_connection_def hop_transport_def)
  from refused_through_the_gateway_is_no_order [OF m h sample_reads_late [of 200 200] sample_hop_call n,
      where rid = "[]" and D = sample_displays and F = fixed18 and io = facade_io and api = sample_api and tier = Bot]
  show ?thesis by (elim disjE exE conjE) (use n in auto)
qed

text \<open>
  A placement that starts behind a closed send gate sends nothing, whatever its order, its
  credential and Alpaca do: it fails, nothing is handed to the transport, and the gateway answers
  the call \<open>not_applied\<close>.
\<close>

theorem closed_gate_places_nothing:
  assumes "GATE (locals n) = Some g" and "gate.closed (gates n g)" and "mutates op"
    and "place_limit_order F A cl lo (n, w) = (r, (n', w'))"
  shows "\<exists>pe. r = Inl pe \<and> handed n' = handed n
    \<and> fa_outcome (for_mutation (placement rid m pe) op) = Some NotApplied"
  using place_limit_order_gate_closed [OF assms(1,2,4)] assms(3) by (auto simp: placement_outcome)

definition gated_net :: "(unit, nat broker_request) net" where
  "gated_net = Orders.sample_net
     \<lparr>locals := \<lparr>TRAFFIC = None, GATE = Some 0, LAST_ANSWER = None\<rparr>,
      gates := (\<lambda>_. close (new_gate (\<lambda>_. True)))\<rparr>"

theorem closed_gate_places_nothing_witness:
  "\<exists>pe. fst (place_limit_order fixed18 (sample_alpaca 200 200) sample_client sample_limit_order
        (gated_net, ())) = Inl pe
     \<and> handed (fst (snd (place_limit_order fixed18 (sample_alpaca 200 200) sample_client
        sample_limit_order (gated_net, ())))) = []
     \<and> fa_outcome (for_mutation (placement ''r'' ''m'' pe) OrdersPlaceLimit) = Some NotApplied"
proof -
  obtain r n' w' where p: "place_limit_order fixed18 (sample_alpaca 200 200) sample_client
      sample_limit_order (gated_net, ()) = (r, (n', w'))" by (metis prod_cases3)
  have "GATE (locals gated_net) = Some 0" "gate.closed (gates gated_net 0)" "mutates OrdersPlaceLimit"
    "handed gated_net = []"
    by (simp_all add: gated_net_def Orders.sample_net_def close_def new_gate_def mutates_def)
  with closed_gate_places_nothing [OF this(1,2,3) p, of "''r''" "''m''"] p show ?thesis by auto
qed

end
